(* ===== verification/Prelude.thy ===== *)
theory Prelude
  imports Main "HOL-Library.Sublist" "HOL-Library.Char_ord" "HOL-Library.List_Lexorder"
begin

text \<open>
  Shared vocabulary of the development: the exception classes of the repository and the result
  type of a Python call, the fragment of \<open>str\<close> the sources use, SQL tables as lists of rows, a
  database transaction, and two interfaces (a system with an invariant, an append-only log) that
  the stores instantiate.

  Strings are lists of characters, one per code point below 256. A call that can raise returns a
  value of \<open>exn + 'a\<close>, with \<open>Inl\<close> for the exception class that reaches the caller.
\<close>

section \<open>Exceptions and results\<close>

text \<open>
  One constructor per exception class that the modelled code raises or lets through. The
  messages are not modelled. \<open>IntegrityError\<close> is \<open>sqlite3.IntegrityError\<close>.
\<close>

datatype exn =
    ValueError | TypeError | OverflowError | KeyError | AssertionError | RuntimeError
  | IntegrityError
  | ControlStoreError | ControlConflictError | JobNotFoundError | LeaseUnavailableError
  | StaleLeaseError
  | AuthorizationDeniedError | IdentityRejectedError
  | SessionSecurityRejectedError | BrowserSessionRejectedError
  | BrowserSessionStoreUnavailableError
  | LegacySessionSecurityRejectedError
  | SessionNotFoundError | SessionConflictError
  | LegacyWorkloadPrincipalNotFoundError | LegacyWorkloadPrincipalConflictError
  | UnsafePackageError
  | CandidatePublicationValidationError | NoCandidateError
  | CandidatePublicationConflictError | CandidatePublicationUnavailableError
  | CandidatePublicationNotFoundError | CandidatePublicationCorruptionError
  | CandidatePublicationStaleReservationError
  | CandidateAuthorityUnavailableError
  | CandidateDiscoveryValidationError | CandidateDiscoveryUnavailableError

named_theorems flow \<open>inversion of results: which path of a call produced this value\<close>
named_theorems table \<open>rewriting of table operations\<close>

definition bindE :: "exn + 'a \<Rightarrow> ('a \<Rightarrow> exn + 'b) \<Rightarrow> exn + 'b" where
  "bindE m f = (case m of Inl e \<Rightarrow> Inl e | Inr x \<Rightarrow> f x)"

definition require :: "bool \<Rightarrow> exn \<Rightarrow> exn + unit" where
  "require b e = (if b then Inr () else Inl e)"

definition returns :: "exn + 'a \<Rightarrow> bool" where
  "returns r = (case r of Inl _ \<Rightarrow> False | Inr _ \<Rightarrow> True)"

lemma bindE_simps [simp]:
  "bindE (Inl e) f = Inl e" "bindE (Inr x) f = f x"
  by (simp_all add: bindE_def)

lemma returns_simps [simp]: "\<not> returns (Inl e)" "returns (Inr x)"
  by (simp_all add: returns_def)

lemma returns_iff: "returns r \<longleftrightarrow> (\<exists>x. r = Inr x)"
  by (cases r) auto

lemma bindE_Inr [flow]: "bindE m f = Inr y \<longleftrightarrow> (\<exists>x. m = Inr x \<and> f x = Inr y)"
  by (cases m) auto

lemma bindE_InrE: "bindE m f = Inr y \<Longrightarrow> (\<And>x. m = Inr x \<Longrightarrow> f x = Inr y \<Longrightarrow> P) \<Longrightarrow> P"
  by (cases m) auto

lemma bindE_Inl [flow]:
  "bindE m f = Inl e \<longleftrightarrow> m = Inl e \<or> (\<exists>x. m = Inr x \<and> f x = Inl e)"
  by (cases m) auto

lemma require_simps [simp]: "require True e = Inr ()" "require False e = Inl e"
  by (simp_all add: require_def)

lemma require_Inr [flow]: "require b e = Inr u \<longleftrightarrow> b"
  by (simp add: require_def)

lemma require_Inl [flow]: "require b e = Inl e' \<longleftrightarrow> \<not> b \<and> e' = e"
  by (auto simp: require_def)

lemma bindE_require: "bindE (require b e) f = (if b then f () else Inl e)"
  by (simp add: require_def)

lemma bindE_assoc: "bindE (bindE m f) g = bindE m (\<lambda>x. bindE (f x) g)"
  by (cases m) simp_all

text \<open>A loop over a list whose body may raise, in order.\<close>

fun mapE :: "('a \<Rightarrow> exn + 'b) \<Rightarrow> 'a list \<Rightarrow> exn + 'b list" where
  "mapE f [] = Inr []"
| "mapE f (x # xs) = bindE (f x) (\<lambda>y. bindE (mapE f xs) (\<lambda>ys. Inr (y # ys)))"

fun forE :: "('a \<Rightarrow> exn + unit) \<Rightarrow> 'a list \<Rightarrow> exn + unit" where
  "forE f [] = Inr ()"
| "forE f (x # xs) = bindE (f x) (\<lambda>_. forE f xs)"

lemma mapE_total: "(\<And>x. x \<in> set xs \<Longrightarrow> f x = Inr (g x)) \<Longrightarrow> mapE f xs = Inr (map g xs)"
  by (induction xs) auto

lemma mapE_Inr_iff: "mapE f xs = Inr ys \<longleftrightarrow> list_all2 (\<lambda>x y. f x = Inr y) xs ys"
proof (induction xs arbitrary: ys)
  case (Cons x xs)
  then show ?case by (cases ys) (auto simp: flow)
qed auto

lemma forE_Inr: "forE f xs = Inr u \<longleftrightarrow> (\<forall>x \<in> set xs. f x = Inr ())"
  by (induction xs) (auto simp: flow)

text \<open>An \<open>except\<close> clause that maps some classes to one class and re-raises the others.\<close>

definition except :: "(exn \<Rightarrow> bool) \<Rightarrow> exn \<Rightarrow> exn + 'a \<Rightarrow> exn + 'a" where
  "except caught raised r =
     (case r of Inl e \<Rightarrow> Inl (if caught e then raised else e) | Inr x \<Rightarrow> Inr x)"

lemma except_simps [simp]:
  "except c e (Inr x) = Inr x" "except c e (Inl e') = Inl (if c e' then e else e')"
  by (simp_all add: except_def)

lemma except_Inr [flow]: "except c e r = Inr x \<longleftrightarrow> r = Inr x"
  by (cases r) auto

lemma except_Inl [flow]:
  "except c e r = Inl e' \<longleftrightarrow> (\<exists>e0. r = Inl e0 \<and> e' = (if c e0 then e else e0))"
  by (cases r) auto

section \<open>The fragment of str the sources use\<close>

definition code :: "char \<Rightarrow> nat" where
  "code c = of_char c"

definition is_space :: "char \<Rightarrow> bool" where
  "is_space c = (let n = code c in
     9 \<le> n \<and> n \<le> 13 \<or> 28 \<le> n \<and> n \<le> 32 \<or> n = 133 \<or> n = 160)"

definition is_digit :: "char \<Rightarrow> bool" where
  "is_digit c = (48 \<le> code c \<and> code c \<le> 57)"

definition is_lower :: "char \<Rightarrow> bool" where
  "is_lower c = (97 \<le> code c \<and> code c \<le> 122)"

definition is_upper :: "char \<Rightarrow> bool" where
  "is_upper c = (65 \<le> code c \<and> code c \<le> 90)"

definition is_hex :: "char \<Rightarrow> bool" where
  "is_hex c = (is_digit c \<or> 97 \<le> code c \<and> code c \<le> 102)"

text \<open>\<open>str.isdigit\<close>: besides the decimal digits it accepts the three superscripts of Latin-1.\<close>

definition isdigit_char :: "char \<Rightarrow> bool" where
  "isdigit_char c = (is_digit c \<or> code c \<in> {178, 179, 185})"

definition strip :: "string \<Rightarrow> string" where
  "strip s = rev (dropWhile is_space (rev (dropWhile is_space s)))"

definition nonblank :: "string \<Rightarrow> bool" where
  "nonblank s = (strip s \<noteq> [])"

lemma nonblank_iff: "nonblank s \<longleftrightarrow> (\<exists>c \<in> set s. \<not> is_space c)"
proof -
  have "strip s = [] \<longleftrightarrow> (\<forall>c \<in> set (dropWhile is_space s). is_space c)"
    by (simp add: strip_def)
  also have "\<dots> \<longleftrightarrow> (\<forall>c \<in> set s. is_space c)"
    by (induction s) auto
  finally show ?thesis by (auto simp: nonblank_def)
qed

lemma nonblank_append: "nonblank (a @ b) \<longleftrightarrow> nonblank a \<or> nonblank b"
  by (auto simp: nonblank_iff)

lemma nonblank_not_Nil: "nonblank s \<Longrightarrow> s \<noteq> []"
  by (auto simp: nonblank_iff)

text \<open>\<open>s.find(c, offset)\<close>, with \<open>None\<close> for \<open>-1\<close>, and the slice \<open>s[a:b]\<close> for \<open>0 <= a <= b\<close>.\<close>

definition find_from :: "char \<Rightarrow> nat \<Rightarrow> string \<Rightarrow> nat option" where
  "find_from c off s =
     (let k = off + length (takeWhile (\<lambda>x. x \<noteq> c) (drop off s))
      in if k < length s then Some k else None)"

definition slice :: "string \<Rightarrow> nat \<Rightarrow> nat \<Rightarrow> string" where
  "slice s a b = take (b - a) (drop a s)"

definition startswith :: "string \<Rightarrow> string \<Rightarrow> bool" where
  "startswith s p = (take (length p) s = p)"

lemma startswith_prefix: "startswith s p \<longleftrightarrow> prefix p s"
  by (metis append_eq_conv_conj append_take_drop_id prefix_def startswith_def)

subsection \<open>Decimal numerals\<close>

definition digit_char :: "nat \<Rightarrow> char" where
  "digit_char d = char_of (48 + d)"

fun nat_str :: "nat \<Rightarrow> string" where
  "nat_str n = (if n < 10 then [digit_char n] else nat_str (n div 10) @ [digit_char (n mod 10)])"

declare nat_str.simps [simp del]

definition dec_value :: "string \<Rightarrow> nat" where
  "dec_value s = foldl (\<lambda>a c. 10 * a + (code c - 48)) 0 s"

definition int_str :: "int \<Rightarrow> string" where
  "int_str i = (if i < 0 then CHR ''-'' # nat_str (nat (- i)) else nat_str (nat i))"

lemma code_digit_char [simp]: "d < 10 \<Longrightarrow> code (digit_char d) = 48 + d"
  by (simp add: code_def digit_char_def of_char_of)

lemma is_digit_digit_char [simp]: "d < 10 \<Longrightarrow> is_digit (digit_char d)"
  by (simp add: is_digit_def)

lemma dec_value_snoc: "dec_value (s @ [c]) = 10 * dec_value s + (code c - 48)"
  by (simp add: dec_value_def)

lemma dec_value_nat_str [simp]: "dec_value (nat_str n) = n"
proof (induction n rule: nat_str.induct)
  case (1 n)
  show ?case
  proof (cases "n < 10")
    case True
    then show ?thesis by (simp add: nat_str.simps [of n] dec_value_def)
  next
    case False
    with 1 have "dec_value (nat_str (n div 10)) = n div 10" by simp
    with False show ?thesis by (simp add: nat_str.simps [of n] dec_value_snoc)
  qed
qed

lemma nat_str_digits: "list_all is_digit (nat_str n)"
proof (induction n rule: nat_str.induct)
  case (1 n)
  then show ?case by (cases "n < 10") (simp_all add: nat_str.simps [of n])
qed

lemma nat_str_not_Nil [simp]: "nat_str n \<noteq> []"
  by (simp add: nat_str.simps [of n])

lemma nat_str_inject [simp]: "nat_str m = nat_str n \<longleftrightarrow> m = n"
  by (metis dec_value_nat_str)

lemma is_digit_colon [simp]: "\<not> is_digit CHR '':''"
  by (simp add: is_digit_def code_def)

lemma colon_notin_nat_str [simp]: "CHR '':'' \<notin> set (nat_str n)"
  using nat_str_digits [of n] by (auto simp: list_all_iff)

lemma length_nat_str: "n < 10 ^ Suc k \<Longrightarrow> length (nat_str n) \<le> Suc k"
proof (induction k arbitrary: n)
  case 0
  then show ?case by (simp add: nat_str.simps [of n])
next
  case (Suc k)
  then have "n div 10 < 10 ^ Suc k" by (simp add: div_less_iff_less_mult)
  then have "length (nat_str (n div 10)) \<le> Suc k" by (rule Suc.IH)
  then show ?case by (simp add: nat_str.simps [of n])
qed

subsection \<open>Fixed patterns\<close>

text \<open>\<open>^[a-f0-9]{64}$\<close> under \<open>fullmatch\<close>, and the lowercase UUID pattern 8-4-4-4-12.\<close>

definition sha256_pattern :: "string \<Rightarrow> bool" where
  "sha256_pattern s = (length s = 64 \<and> list_all is_hex s)"

definition uuid_pattern :: "string \<Rightarrow> bool" where
  "uuid_pattern s =
     (length s = 36 \<and>
      list_all (\<lambda>(i, c). if i \<in> {8, 13, 18, 23} then c = CHR ''-'' else is_hex c)
        (zip [0..<36] s))"

text \<open>A pattern \<open>^[first][rest]{lo,hi}$\<close>.\<close>

definition ident_pattern :: "(char \<Rightarrow> bool) \<Rightarrow> (char \<Rightarrow> bool) \<Rightarrow> nat \<Rightarrow> nat \<Rightarrow> string \<Rightarrow> bool" where
  "ident_pattern p q lo hi s =
     (case s of [] \<Rightarrow> False | c # cs \<Rightarrow> p c \<and> list_all q cs \<and> lo \<le> length cs \<and> length cs \<le> hi)"

lemma ident_pattern_length:
  "ident_pattern p q lo hi s \<Longrightarrow> Suc lo \<le> length s \<and> length s \<le> Suc hi"
  by (cases s) (auto simp: ident_pattern_def)

section \<open>Tables and transactions\<close>

text \<open>
  A table is the list of its rows in insertion order. \<open>select ... where P\<close> with \<open>fetchone\<close> is
  \<open>find\<close>, with \<open>fetchall\<close> and an ascending \<open>sequence\<close> it is \<open>filter\<close>.
\<close>

definition update_where :: "('r \<Rightarrow> bool) \<Rightarrow> ('r \<Rightarrow> 'r) \<Rightarrow> 'r list \<Rightarrow> 'r list" where
  "update_where P f t = map (\<lambda>r. if P r then f r else r) t"

definition count_where :: "('r \<Rightarrow> bool) \<Rightarrow> 'r list \<Rightarrow> nat" where
  "count_where P t = length (filter P t)"

text \<open>An insert into a table whose unique columns are compared by \<open>same\<close>.\<close>

definition insert_row :: "('r \<Rightarrow> 'r \<Rightarrow> bool) \<Rightarrow> 'r \<Rightarrow> 'r list \<Rightarrow> exn + 'r list" where
  "insert_row same r t = (if list_ex (same r) t then Inl IntegrityError else Inr (t @ [r]))"

lemma insert_row_Inr [flow]:
  "insert_row same r t = Inr t' \<longleftrightarrow> t' = t @ [r] \<and> (\<forall>x \<in> set t. \<not> same r x)"
  by (auto simp: insert_row_def list_ex_iff)

lemma insert_row_Inl [flow]:
  "insert_row same r t = Inl e \<longleftrightarrow> e = IntegrityError \<and> (\<exists>x \<in> set t. same r x)"
  by (auto simp: insert_row_def list_ex_iff)

lemma update_where_simps [simp, table]:
  "update_where P f [] = []"
  "update_where P f (r # t) = (if P r then f r else r) # update_where P f t"
  "update_where P f (t @ u) = update_where P f t @ update_where P f u"
  "length (update_where P f t) = length t"
  by (simp_all add: update_where_def)

lemma set_update_where [table]:
  "x \<in> set (update_where P f t) \<longleftrightarrow> (\<exists>r \<in> set t. x = (if P r then f r else r))"
  by (auto simp: update_where_def)

lemma update_where_idle: "(\<And>r. r \<in> set t \<Longrightarrow> \<not> P r) \<Longrightarrow> update_where P f t = t"
  by (induction t) auto

lemma map_update_where:
  "(\<And>r. P r \<Longrightarrow> k (f r) = k r) \<Longrightarrow> map k (update_where P f t) = map k t"
  by (induction t) auto

lemma find_update_where_key [table]:
  assumes "\<And>r. k (f r) = k r"
  shows "find (\<lambda>r. k r = x) (update_where (\<lambda>r. k r = y) f t) =
     (if x = y then map_option f (find (\<lambda>r. k r = x) t) else find (\<lambda>r. k r = x) t)"
  by (induction t) (auto simp: assms)

lemma find_append [table]:
  "find P (t @ u) = (case find P t of None \<Rightarrow> find P u | Some r \<Rightarrow> Some r)"
  by (induction t) auto

lemma find_SomeD: "find P t = Some r \<Longrightarrow> r \<in> set t \<and> P r"
  by (induction t) (auto split: if_splits)

lemma find_NoneD: "find P t = None \<Longrightarrow> r \<in> set t \<Longrightarrow> \<not> P r"
  by (induction t) (auto split: if_splits)

lemma find_key_unique:
  "distinct (map k t) \<Longrightarrow> r \<in> set t \<Longrightarrow> find (\<lambda>x. k x = k r) t = Some r"
  by (induction t) (auto simp: image_iff)

lemma key_inj: "distinct (map k t) \<Longrightarrow> x \<in> set t \<Longrightarrow> y \<in> set t \<Longrightarrow> k x = k y \<Longrightarrow> x = y"
  by (induction t) (auto simp: image_iff)

lemma update_whereE:
  assumes "x \<in> set (update_where P f t)"
  obtains "x \<in> set t" "\<not> P x" | r where "r \<in> set t" "P r" "x = f r"
  using assms by (auto simp: set_update_where split: if_splits)

lemma keys_update_where:
  "(\<And>r. k (f r) = k r) \<Longrightarrow> k ` set (update_where P f t) = k ` set t"
  by (metis list.set_map map_update_where)

lemma count_where_simps [simp, table]:
  "count_where P [] = 0"
  "count_where P (r # t) = (if P r then Suc (count_where P t) else count_where P t)"
  "count_where P (t @ u) = count_where P t + count_where P u"
  by (simp_all add: count_where_def)

lemma count_where_mono:
  "(\<And>r. r \<in> set t \<Longrightarrow> P r \<Longrightarrow> Q r) \<Longrightarrow> count_where P t \<le> count_where Q t"
  by (induction t) (auto simp: le_SucI)

lemma count_where_update_key:
  assumes "distinct (map k t)" and "r \<in> set t" and "k r = x" and "\<And>r. k (f r) = k r"
  shows "count_where Q (update_where (\<lambda>r. k r = x) f t) + (if Q r then 1 else 0) =
    count_where Q t + (if Q (f r) then 1 else 0)"
  using assms(1,2)
proof (induction t)
  case (Cons a t)
  show ?case
  proof (cases "a = r")
    case True
    have "update_where (\<lambda>r. k r = x) f t = t"
      using Cons.prems True assms(3) by (intro update_where_idle) (auto simp: image_iff)
    with True assms(3) show ?thesis by auto
  next
    case False
    with Cons.prems have "k a \<noteq> x" "r \<in> set t"
      using assms(3) by (auto simp: image_iff)
    with Cons show ?thesis by auto
  qed
qed simp

text \<open>
  The context manager \<open>_transaction\<close>: \<open>begin immediate\<close>, the body, then \<open>commit\<close>; any exception
  rolls the database back and is raised again. A body works on the transaction's own view.
\<close>

definition transaction :: "('db \<Rightarrow> exn + 'r \<times> 'db) \<Rightarrow> 'db \<Rightarrow> (exn + 'r) \<times> 'db" where
  "transaction body db =
     (case body db of Inl e \<Rightarrow> (Inl e, db) | Inr (r, db') \<Rightarrow> (Inr r, db'))"

lemma transaction_Inr [flow]:
  "transaction body db = (Inr r, db') \<longleftrightarrow> body db = Inr (r, db')"
  by (auto simp: transaction_def split: sum.splits)

lemma transaction_Inl [flow]:
  "transaction body db = (Inl e, db') \<longleftrightarrow> body db = Inl e \<and> db' = db"
  by (auto simp: transaction_def split: sum.splits)

lemma transaction_preserves:
  assumes "\<And>r db'. body db = Inr (r, db') \<Longrightarrow> P db'" and "P db"
  shows "P (snd (transaction body db))"
  using assms by (auto simp: transaction_def split: sum.splits)

text \<open>\<open>integer primary key autoincrement\<close> on a table that is never deleted from.\<close>

definition next_sequence :: "('r \<Rightarrow> nat) \<Rightarrow> 'r list \<Rightarrow> nat" where
  "next_sequence key t = (if t = [] then 1 else Suc (key (last t)))"

text \<open>\<open>row_number() over (order by sequence)\<close> as the new sequence of a selection of rows.\<close>

definition number_rows :: "(nat \<Rightarrow> 'r \<Rightarrow> 'r) \<Rightarrow> 'r list \<Rightarrow> 'r list" where
  "number_rows set_seq t = map (\<lambda>(i, r). set_seq (Suc i) r) (zip [0..<length t] t)"

definition sequence_ok :: "('r \<Rightarrow> nat) \<Rightarrow> 'r list \<Rightarrow> bool" where
  "sequence_ok key t = (map key t = map Suc [0..<length t])"

lemma sequence_ok_Nil [simp]: "sequence_ok key []"
  by (simp add: sequence_ok_def)

lemma next_sequence_ok: "sequence_ok key t \<Longrightarrow> next_sequence key t = Suc (length t)"
proof (cases t rule: rev_cases)
  case (snoc u r)
  moreover assume "sequence_ok key t"
  ultimately show ?thesis by (simp add: sequence_ok_def next_sequence_def)
qed (simp add: next_sequence_def)

lemma sequence_ok_append:
  "sequence_ok key t \<Longrightarrow> key r = next_sequence key t \<Longrightarrow> sequence_ok key (t @ [r])"
  by (simp add: next_sequence_ok) (simp add: sequence_ok_def)

lemma find_last_sequence:
  assumes "sequence_ok key t" and "key r = next_sequence key t"
  shows "find (\<lambda>x. key x = key r) (t @ [r]) = Some r"
proof -
  have "key ` set t = Suc ` {0..<length t}"
    using assms(1) unfolding sequence_ok_def by (metis list.set_map set_upt)
  moreover have "key r = Suc (length t)" using assms by (simp add: next_sequence_ok)
  ultimately have "key r \<notin> key ` set t" by simp
  then have "find (\<lambda>x. key x = key r) t = None" unfolding find_None_iff by (metis image_eqI)
  then show ?thesis by (simp add: find_append)
qed

lemma sequence_ok_nth: "sequence_ok key t \<Longrightarrow> i < length t \<Longrightarrow> key (t ! i) = Suc i"
  unfolding sequence_ok_def by (metis add_0 length_map map_nth nth_map nth_upt)

section \<open>Interfaces\<close>

text \<open>A system whose steps keep an invariant keeps it in every reachable state.\<close>

locale invariant_system =
  fixes start :: "'s \<Rightarrow> bool" and step :: "'s \<Rightarrow> 's \<Rightarrow> bool" and inv :: "'s \<Rightarrow> bool"
  assumes start_inv: "start s \<Longrightarrow> inv s"
    and step_inv: "inv s \<Longrightarrow> step s t \<Longrightarrow> inv t"
begin

lemma steps_inv: "step\<^sup>*\<^sup>* s t \<Longrightarrow> inv s \<Longrightarrow> inv t"
  by (induction rule: rtranclp_induct) (blast intro: step_inv)+

lemma reachable_inv: "start s \<Longrightarrow> step\<^sup>*\<^sup>* s t \<Longrightarrow> inv t"
  using start_inv steps_inv by blast

end

text \<open>A log that steps only ever extend: what was once written stays, in place.\<close>

locale append_only_log =
  fixes step :: "'s \<Rightarrow> 's \<Rightarrow> bool" and log :: "'s \<Rightarrow> 'e list"
  assumes step_extends: "step s t \<Longrightarrow> prefix (log s) (log t)"
begin

lemma steps_extend: "step\<^sup>*\<^sup>* s t \<Longrightarrow> prefix (log s) (log t)"
  by (induction rule: rtranclp_induct) (auto intro: prefix_order.trans dest: step_extends)

lemma entry_stays: "step\<^sup>*\<^sup>* s t \<Longrightarrow> i < length (log s) \<Longrightarrow> log t ! i = log s ! i"
  by (auto dest!: steps_extend simp: prefix_def nth_append)

lemma entry_survives: "step\<^sup>*\<^sup>* s t \<Longrightarrow> e \<in> set (log s) \<Longrightarrow> e \<in> set (log t)"
  using steps_extend set_mono_prefix by blast

lemma length_grows: "step\<^sup>*\<^sup>* s t \<Longrightarrow> length (log s) \<le> length (log t)"
  using steps_extend prefix_length_le by blast

end

text \<open>Rows that carry a sequence number, renumbered for a reader and paged by it.\<close>

locale row_numbering =
  fixes seq :: "'r \<Rightarrow> nat" and set_seq :: "nat \<Rightarrow> 'r \<Rightarrow> 'r"
  assumes seq_set: "seq (set_seq i r) = i"
begin

lemma number_rows_snoc:
  "number_rows set_seq (t @ [r]) = number_rows set_seq t @ [set_seq (Suc (length t)) r]"
  by (simp add: number_rows_def)

lemma length_number_rows: "length (number_rows set_seq t) = length t"
  by (simp add: number_rows_def)

lemma nth_number_rows: "i < length t \<Longrightarrow> number_rows set_seq t ! i = set_seq (Suc i) (t ! i)"
  by (simp add: number_rows_def)

lemma number_rows_sequence: "sequence_ok seq (number_rows set_seq t)"
  by (induction t rule: rev_induct)
    (simp_all add: sequence_ok_def number_rows_snoc seq_set length_number_rows number_rows_def)

lemma filter_after:
  "filter (\<lambda>r. k < seq r) (number_rows set_seq t) = drop k (number_rows set_seq t)"
proof (induction t rule: rev_induct)
  case (snoc r t)
  then show ?case
    by (auto simp: number_rows_snoc seq_set length_number_rows)
qed (simp add: number_rows_def)

lemma page_sequence:
  "map seq (take l (drop k (number_rows set_seq t))) = map Suc (take l [k..<length t])"
proof -
  have "map seq (drop k (number_rows set_seq t)) = map Suc [k..<length t]"
    using number_rows_sequence [of t]
    by (metis add_0 drop_map drop_upt length_number_rows sequence_ok_def)
  then show ?thesis by (metis take_map)
qed

end

end
