(* ===== verification/Timestamps.thy ===== *)
theory Timestamps
  imports Prelude Complex_Main "HOL-Library.Log_Nat"
begin

text \<open>
  Python datetimes and their conversion to integer microseconds. The stores use two conversions:
  the browser and legacy stores compute with integers, the control, retention and safety stores
  go through the binary64 value of \<open>datetime.timestamp()\<close>. Both are modelled, the second with the
  rounding of IEEE 754 binary64 (round to nearest, ties to even) written out on rationals.
\<close>

section \<open>Datetimes\<close>

text \<open>
  A datetime is a wall-clock reading, in microseconds from 1970-01-01T00:00, and its time zone:
  none, the object \<open>datetime.UTC\<close>, or another zone with a fixed offset in microseconds.
\<close>

datatype tzinfo = Naive | UTC | Offset int

record datetime =
  wall :: int
  tz :: tzinfo

definition min_wall :: int where "min_wall = -62135596800000000"
definition max_wall :: int where "max_wall = 253402300799999999"

definition in_range :: "int \<Rightarrow> bool" where
  "in_range w = (min_wall \<le> w \<and> w \<le> max_wall)"

definition utc :: "int \<Rightarrow> datetime" where
  "utc w = \<lparr>wall = w, tz = UTC\<rparr>"

text \<open>The instant of an aware datetime; comparison and subtraction of aware datetimes use it.\<close>

definition instant :: "datetime \<Rightarrow> int" where
  "instant d = (case tz d of Offset off \<Rightarrow> wall d - off | _ \<Rightarrow> wall d)"

lemma utc_simps [simp]: "wall (utc w) = w" "tz (utc w) = UTC" "instant (utc w) = w"
  by (simp_all add: utc_def instant_def)

lemma utc_inject [simp]: "utc a = utc b \<longleftrightarrow> a = b"
  by (simp add: utc_def)

lemma utc_wall: "tz d = UTC \<Longrightarrow> utc (wall d) = d"
  by (simp add: utc_def)

text \<open>\<open>d + timedelta(microseconds=us)\<close> and \<open>d.astimezone(UTC)\<close>; both can leave the years 1 to 9999.\<close>

definition plus_us :: "datetime \<Rightarrow> int \<Rightarrow> exn + datetime" where
  "plus_us d us =
     (if in_range (wall d + us) then Inr (d\<lparr>wall := wall d + us\<rparr>) else Inl OverflowError)"

lemma plus_us_utc [simp]: "in_range (w + us) \<Longrightarrow> plus_us (utc w) us = Inr (utc (w + us))"
  by (simp add: plus_us_def utc_def)

definition astimezone_utc :: "datetime \<Rightarrow> exn + datetime" where
  "astimezone_utc d =
     (if in_range (instant d) then Inr (utc (instant d)) else Inl OverflowError)"

definition seconds :: "int \<Rightarrow> int" where
  "seconds n = n * 1000000"

section \<open>Binary64\<close>

definition round_half_even :: "rat \<Rightarrow> int" where
  "round_half_even q =
     (let f = \<lfloor>q\<rfloor>; r = q - of_int f in
      if r < 1/2 then f else if 1/2 < r then f + 1 else if even f then f else f + 1)"

text \<open>
  The nearest double of a positive rational: scaled to units of 2^-1074 it is rounded to a
  multiple of 2^s that leaves 53 significant bits. Values beyond the largest double do not occur
  (a timestamp is below 10^18).
\<close>

definition f64_shift :: "rat \<Rightarrow> nat" where
  "f64_shift u = floorlog 2 (nat \<lfloor>u\<rfloor>) - 53"

definition f64_pos :: "rat \<Rightarrow> rat" where
  "f64_pos q =
     (let u = q * 2 ^ 1074; s = f64_shift u
      in of_int (round_half_even (u / 2 ^ s)) * 2 ^ s / 2 ^ 1074)"

definition f64 :: "rat \<Rightarrow> rat" where
  "f64 q = (if q = 0 then 0 else if 0 < q then f64_pos q else - f64_pos (- q))"

text \<open>\<open>int(x)\<close> of a float truncates towards zero.\<close>

definition trunc :: "rat \<Rightarrow> int" where
  "trunc q = (if 0 \<le> q then \<lfloor>q\<rfloor> else - \<lfloor>- q\<rfloor>)"

text \<open>
  \<open>datetime.timestamp()\<close> of a UTC datetime is the correctly rounded quotient of its microseconds
  by 10^6 (\<open>timedelta.total_seconds\<close>).
\<close>

definition timestamp :: "datetime \<Rightarrow> rat" where
  "timestamp d = f64 (of_int (wall d) / 1000000)"

text \<open>
  \<open>datetime.fromtimestamp(x, tz=UTC)\<close>: the fractional part of the double is multiplied by 10^6 in
  double arithmetic and rounded half to even to whole microseconds.
\<close>

definition fromtimestamp :: "rat \<Rightarrow> exn + datetime" where
  "fromtimestamp x =
     (let i = trunc x;
          us = round_half_even (f64 ((x - of_int i) * 1000000));
          w = i * 1000000 + us
      in if in_range w then Inr (utc w) else Inl ValueError)"

section \<open>The conversion through floats (control, retention and safety stores)\<close>

definition to_micros :: "datetime \<Rightarrow> exn + int" where
  "to_micros d =
     (if tz d = Naive then Inl ValueError
      else bindE (astimezone_utc d) (\<lambda>u. Inr (trunc (f64 (timestamp u * 1000000)))))"

definition from_micros :: "int \<Rightarrow> exn + datetime" where
  "from_micros v = fromtimestamp (f64 (of_int v / 1000000))"

section \<open>The conversion in integers (browser and legacy session stores)\<close>

definition require_utc :: "datetime \<Rightarrow> exn + datetime" where
  "require_utc d = (if tz d = UTC then Inr d else Inl ValueError)"

definition micros_in_range :: "int \<Rightarrow> bool" where
  "micros_in_range v = (- (2 ^ 63) \<le> v \<and> v < 2 ^ 63)"

definition to_micros_exact :: "datetime \<Rightarrow> exn + int" where
  "to_micros_exact d =
     bindE (require_utc d) (\<lambda>d.
       if micros_in_range (wall d) then Inr (wall d) else Inl ValueError)"

definition from_micros_exact :: "int \<Rightarrow> exn + datetime" where
  "from_micros_exact v =
     (if \<not> micros_in_range v then Inl ValueError
      else if in_range v then Inr (utc v) else Inl ValueError)"

lemma in_range_micros: "in_range w \<Longrightarrow> micros_in_range w"
  by (auto simp: in_range_def micros_in_range_def min_wall_def max_wall_def)

lemma to_micros_exact_utc [simp]:
  "in_range w \<Longrightarrow> to_micros_exact (utc w) = Inr w"
  by (simp add: to_micros_exact_def require_utc_def in_range_micros)

lemma from_micros_exact_in_range [simp]:
  "in_range w \<Longrightarrow> from_micros_exact w = Inr (utc w)"
  by (simp add: from_micros_exact_def in_range_micros)

section \<open>Error bounds of the float conversion\<close>

lemma round_half_even_error: "\<bar>of_int (round_half_even q) - q\<bar> \<le> 1/2"
proof -
  have "of_int \<lfloor>q\<rfloor> \<le> q" "q < of_int \<lfloor>q\<rfloor> + 1"
    using floor_correct [of q] by simp_all
  then show ?thesis by (auto simp: round_half_even_def Let_def abs_le_iff)
qed

lemma round_half_even_near:
  assumes "\<bar>q - of_int n\<bar> < 1/2"
  shows "round_half_even q = n"
proof -
  have "\<bar>of_int (round_half_even q) - (of_int n :: rat)\<bar> < 1"
    using round_half_even_error [of q] assms by linarith
  then have "\<bar>round_half_even q - n\<bar> < 1"
    by (metis of_int_abs of_int_diff of_int_less_1_iff)
  then show ?thesis by simp
qed

lemma nat_floor_less_power:
  fixes u :: rat
  assumes "u < 2 ^ k" and "0 \<le> u"
  shows "nat \<lfloor>u\<rfloor> < 2 ^ k"
proof -
  have "\<lfloor>u\<rfloor> < 2 ^ k" using assms(1) by (simp add: floor_less_iff)
  then show ?thesis using assms(2) by (simp add: nat_less_iff)
qed

lemma nat_floor_ge_power:
  fixes u :: rat
  assumes "2 ^ k \<le> u"
  shows "2 ^ k \<le> nat \<lfloor>u\<rfloor>"
proof -
  have "(2 ^ k :: int) \<le> \<lfloor>u\<rfloor>"
    using assms by (simp add: le_floor_iff)
  then have "nat (2 ^ k) \<le> nat \<lfloor>u\<rfloor>" by (rule nat_mono)
  then show ?thesis by (simp add: nat_power_eq)
qed

lemma f64_shift_le: "0 \<le> u \<Longrightarrow> u < 2 ^ (53 + s) \<Longrightarrow> f64_shift u \<le> s"
  using nat_floor_less_power [of u "53 + s"]
  by (simp only: f64_shift_def le_diff_conv floorlog_le_iff add.commute) simp

lemma f64_shift_ge: "2 ^ (52 + s) \<le> u \<Longrightarrow> s \<le> f64_shift u"
  using floorlog_ge_SucI [of 2 "52 + s" "nat \<lfloor>u\<rfloor>"] nat_floor_ge_power [of "52 + s" u]
  by (simp add: f64_shift_def)

text \<open>The error of one rounding below 2^(k+1) is at most half a unit in the last place.\<close>

lemma f64_error:
  assumes "0 \<le> q" and "q < 2 ^ Suc k"
  shows "\<bar>f64 q - q\<bar> \<le> 2 ^ k / 2 ^ 53"
proof (cases "q = 0")
  case True
  then show ?thesis by (simp add: f64_def)
next
  case False
  define u where "u = q * 2 ^ 1074"
  define s where "s = f64_shift u"
  have "u < 2 ^ (53 + (k + 1022))"
    using assms by (simp add: u_def power_add)
  then have s: "s \<le> k + 1022"
    using assms(1) unfolding s_def by (intro f64_shift_le) (simp_all add: u_def)
  have "f64 q - q = (of_int (round_half_even (u / 2 ^ s)) - u / 2 ^ s) * 2 ^ s / 2 ^ 1074"
    using False assms(1) by (simp add: f64_def f64_pos_def s_def u_def Let_def field_simps)
  also have "\<bar>\<dots>\<bar> \<le> 1/2 * 2 ^ s / 2 ^ 1074"
    using round_half_even_error [of "u / 2 ^ s"]
    by (simp add: abs_mult divide_right_mono mult_right_mono)
  also have "\<dots> \<le> 1/2 * 2 ^ (k + 1022) / 2 ^ 1074"
    using s by (intro divide_right_mono mult_left_mono power_increasing) simp_all
  also have "\<dots> = 2 ^ k / 2 ^ 53" by (simp add: power_add)
  finally show ?thesis .
qed

text \<open>In one binade the rounding is to a fixed grid.\<close>

lemma f64_binade:
  assumes "2 ^ k \<le> q" and "q < 2 ^ Suc k"
  shows "f64 q = of_int (round_half_even (q * 2 ^ 52 / 2 ^ k)) * 2 ^ k / 2 ^ 52"
proof -
  define u where "u = q * 2 ^ 1074"
  have q: "0 < q" using assms(1) by (meson less_le_trans zero_less_numeral zero_less_power)
  have "u < 2 ^ (53 + (k + 1022))" "2 ^ (52 + (k + 1022)) \<le> u"
    using assms by (simp_all add: u_def power_add)
  then have s: "f64_shift u = k + 1022"
    using q by (intro antisym f64_shift_le f64_shift_ge) (simp_all add: u_def)
  have scaled: "u / 2 ^ (k + 1022) = q * 2 ^ 52 / 2 ^ k"
    by (simp add: u_def power_add)
  have grid: "(2 ^ (k + 1022) / 2 ^ 1074 :: rat) = 2 ^ k / 2 ^ 52"
    by (simp add: power_add)
  have "f64 q = f64_pos q" using q by (simp add: f64_def)
  also have "\<dots> = of_int (round_half_even (u / 2 ^ f64_shift u)) * (2 ^ f64_shift u / 2 ^ 1074)"
    unfolding f64_pos_def u_def Let_def by (simp only: times_divide_eq_right)
  also have "\<dots> = of_int (round_half_even (q * 2 ^ 52 / 2 ^ k)) * (2 ^ k / 2 ^ 52)"
    unfolding s scaled grid by (rule refl)
  finally show ?thesis by simp
qed

section \<open>Where the float conversion is exact\<close>

lemma timestamp_error:
  assumes "0 \<le> m" and "m < 2 ^ Suc k * 1000000"
  shows "\<bar>timestamp (utc m) * 1000000 - of_int m\<bar> \<le> 2 ^ k * 1000000 / 2 ^ 53"
proof -
  have "of_int m < (of_int (2 ^ Suc k * 1000000) :: rat)"
    using assms(2) by (simp only: of_int_less_iff)
  then have "(of_int m / 1000000 :: rat) < 2 ^ Suc k"
    by (simp add: field_simps)
  then have "\<bar>timestamp (utc m) - of_int m / 1000000\<bar> \<le> 2 ^ k / 2 ^ 53"
    unfolding timestamp_def using assms(1) by (simp only: utc_simps) (rule f64_error, simp_all)
  then show ?thesis by (simp add: abs_le_iff field_simps)
qed

lemma to_micros_instant:
  "tz d \<noteq> Naive \<Longrightarrow> in_range (instant d) \<Longrightarrow> to_micros d = to_micros (utc (instant d))"
  by (simp add: to_micros_def astimezone_utc_def)

lemma to_micros_utc:
  "in_range m \<Longrightarrow> to_micros (utc m) = Inr (trunc (f64 (timestamp (utc m) * 1000000)))"
  by (simp add: to_micros_def astimezone_utc_def)

lemma trunc_near:
  assumes "\<bar>y - of_int m\<bar> < 1/2" and "0 < m"
  shows "trunc y \<in> {m - 1, m}"
proof -
  have "(1 :: rat) \<le> of_int m" using assms(2) by simp
  then have "0 \<le> y" using assms(1) by linarith
  moreover have "m - 1 \<le> \<lfloor>y\<rfloor>" "\<lfloor>y\<rfloor> \<le> m"
    using assms(1) unfolding le_floor_iff floor_le_iff of_int_diff of_int_1 by linarith+
  ultimately show ?thesis by (auto simp: trunc_def)
qed

lemma to_micros_within_one:
  assumes "0 < m" and "m < 2 ^ 32 * 1000000"
  shows "to_micros (utc m) \<in> {Inr (m - 1), Inr m}"
proof -
  let ?y = "timestamp (utc m) * 1000000"
  have err: "\<bar>?y - of_int m\<bar> \<le> 15625 / 65536"
    using timestamp_error [of m 31] assms by simp
  have m: "(1 :: rat) \<le> of_int m" "of_int m \<le> (4294967295999999 :: rat)"
    using assms by simp_all
  have "0 \<le> ?y" "?y < 4503599627370496"
    using err m by linarith+
  then have "\<bar>f64 ?y - ?y\<bar> \<le> 1 / 4" using f64_error [of ?y 51] by simp
  with err have "\<bar>f64 ?y - of_int m\<bar> < 1/2" by linarith
  then have "trunc (f64 ?y) \<in> {m - 1, m}" using assms(1) by (rule trunc_near)
  moreover have "in_range m"
    using assms by (simp add: in_range_def min_wall_def max_wall_def)
  ultimately show ?thesis by (auto simp: to_micros_utc)
qed

lemma to_micros_exact_era:
  assumes "2 ^ 50 < m" and "m < 2 ^ 31 * 1000000"
  shows "to_micros (utc m) = Inr m"
proof -
  let ?y = "timestamp (utc m) * 1000000"
  have err: "\<bar>?y - of_int m\<bar> \<le> 15625 / 131072"
    using timestamp_error [of m 30] assms by simp
  have m: "(1125899906842625 :: rat) \<le> of_int m" "of_int m \<le> (2147483647999999 :: rat)"
    using assms by simp_all
  have "1125899906842624 \<le> ?y" "?y < 2251799813685248"
    using err m by linarith+
  then have "f64 ?y = of_int (round_half_even (?y * 4)) / 4"
    using f64_binade [of 50 ?y] by simp
  moreover have "\<bar>?y * 4 - of_int (4 * m)\<bar> < 1/2"
    using err unfolding of_int_mult of_int_numeral by linarith
  then have "round_half_even (?y * 4) = 4 * m" by (rule round_half_even_near)
  ultimately have "f64 ?y = of_int m" by simp
  moreover have "in_range m"
    using assms by (simp add: in_range_def min_wall_def max_wall_def)
  ultimately show ?thesis using assms(1) by (simp add: to_micros_utc trunc_def)
qed

lemma from_micros_exact_era:
  assumes "0 \<le> v" and "v < 2 ^ 32 * 1000000"
  shows "from_micros v = Inr (utc v)"
proof -
  let ?x = "timestamp (utc v)"
  let ?i = "trunc ?x" and ?f = "(?x - of_int (trunc ?x)) * 1000000"
  have err: "\<bar>?x * 1000000 - of_int v\<bar> \<le> 15625 / 65536"
    using timestamp_error [of v 31] assms by simp
  have "0 \<le> ?x"
  proof (cases "v = 0")
    case True
    then show ?thesis by (simp add: timestamp_def f64_def)
  next
    case False
    with assms(1) have "(1 :: rat) \<le> of_int v" by simp
    with err show ?thesis by linarith
  qed
  then have i: "?i = \<lfloor>?x\<rfloor>" by (simp add: trunc_def)
  have f: "0 \<le> ?f" "?f < 1048576"
    using floor_correct [of ?x] unfolding i by simp_all
  have "\<bar>f64 ?f - ?f\<bar> \<le> 1 / 100" using f64_error [of ?f 19] f by simp
  moreover have "?f = ?x * 1000000 - of_int (?i * 1000000)" by (simp add: algebra_simps)
  ultimately have "\<bar>f64 ?f - of_int (v - ?i * 1000000)\<bar> < 1/2"
    using err unfolding of_int_diff by linarith
  then have "round_half_even (f64 ?f) = v - ?i * 1000000" by (rule round_half_even_near)
  moreover have "in_range v"
    using assms by (simp add: in_range_def min_wall_def max_wall_def)
  moreover have "f64 (of_int v / 1000000) = ?x" by (simp add: timestamp_def)
  ultimately show ?thesis by (simp add: from_micros_def fromtimestamp_def Let_def)
qed

lemma to_micros_2039: "to_micros (utc 2179349991559353) = Inr 2179349991559352"
proof -
  let ?q = "2179349991559353 / 1000000 :: rat"
  have "round_half_even (?q * 2097152) = 4570428193498680"
    by (rule round_half_even_near) simp
  then have x: "timestamp (utc 2179349991559353) = 4570428193498680 / 2097152"
    using f64_binade [of 31 ?q] by (simp add: timestamp_def)
  have "round_half_even (4570428193498680 / 2097152 * 1000000 * 4) = 8717399966237411"
    by (rule round_half_even_near) simp
  then have "f64 (4570428193498680 / 2097152 * 1000000) = 8717399966237411 / 4"
    using f64_binade [of 50 "4570428193498680 / 2097152 * 1000000"] by simp
  then show ?thesis
    by (simp add: to_micros_utc in_range_def min_wall_def max_wall_def x trunc_def floor_eq_iff)
qed

end
