(* ===== verification/Iso_Time.thy ===== *)
theory Iso_Time
  imports Timestamps
begin

text \<open>
  The text form of a UTC time, \<open>isoformat(timespec='microseconds')\<close> with \<open>Z\<close> for the zero offset:
  the proleptic Gregorian calendar by cycles of 400, 100, 4 and 1 years that start in March, fixed
  width fields, and the reading of exactly that form (\<open>datetime.fromisoformat\<close> accepts more forms,
  which the callers reject because they are not canonical). Printing and reading are inverse.
\<close>

section \<open>Days and dates\<close>

text \<open>
  Days since 1970-01-01 to (year, month, day) and back; the shift makes day 0 a first of March.
  \<open>cycles\<close> gives the number of 400, 100, 4 and 1 year cycles and the day of the year.
\<close>

definition cycles :: "int \<Rightarrow> int \<times> int \<times> int \<times> int \<times> int" where
  "cycles z =
     (let doe = z mod 146097; c = min 3 (doe div 36524); r = doe - c * 36524;
          r2 = r mod 1461; y1 = min 3 (r2 div 365)
      in (z div 146097, c, r div 1461, y1, r2 - 365 * y1))"

definition month_index :: "int \<Rightarrow> int" where
  "month_index doy = (5 * doy + 2) div 153"

definition civil_of_days :: "int \<Rightarrow> int \<times> int \<times> int" where
  "civil_of_days days =
     (case cycles (days + 719468) of (era, c, q, y1, doy) \<Rightarrow>
        let mp = month_index doy; d = doy - (153 * mp + 2) div 5 + 1;
            y = 400 * era + (100 * c + 4 * q + y1)
        in if mp < 10 then (y, mp + 3, d) else (y + 1, mp - 9, d))"

definition days_of_civil :: "int \<times> int \<times> int \<Rightarrow> int" where
  "days_of_civil ymd =
     (case ymd of (y0, m, d) \<Rightarrow>
        let y = (if m \<le> 2 then y0 - 1 else y0);
            era = y div 400; yoe = y mod 400;
            doy = (153 * (if m > 2 then m - 3 else m + 9) + 2) div 5 + d - 1
        in 146097 * era + 365 * yoe + yoe div 4 - yoe div 100 + doy - 719468)"

lemma div_bounds:
  fixes a b :: int
  assumes "0 < b"
  shows "b * (a div b) \<le> a" "a < b * (a div b) + b"
  using assms pos_mod_sign [of b a] pos_mod_bound [of b a] mult_div_mod_eq [of b a] by linarith+

lemma cycles_bounds:
  assumes "cycles z = (era, c, q, y1, doy)"
  shows "z = 146097 * era + 36524 * c + 1461 * q + 365 * y1 + doy"
    "0 \<le> c" "c \<le> 3" "0 \<le> q" "q \<le> 24" "0 \<le> y1" "y1 \<le> 3" "0 \<le> doy" "doy \<le> 365"
proof -
  define doe where "doe = z mod 146097"
  define r where "r = doe - c * 36524"
  define r2 where "r2 = r mod 1461"
  have eqs: "era = z div 146097" "c = min 3 (doe div 36524)" "q = r div 1461"
    "y1 = min 3 (r2 div 365)" "doy = r2 - 365 * y1"
    using assms by (auto simp: cycles_def Let_def doe_def r_def r2_def)
  have doe: "0 \<le> doe" "doe < 146097" "z = 146097 * era + doe" by (simp_all add: doe_def eqs(1))
  have c: "0 \<le> c" "c \<le> 3" "0 \<le> r" "r \<le> 36524"
    using doe div_bounds [of 36524 doe]
    by (simp_all add: eqs(2) r_def min_def pos_imp_zdiv_nonneg_iff)
  have q: "0 \<le> q" "q \<le> 24" "0 \<le> r2" "r2 < 1461" "r = 1461 * q + r2"
    using c div_bounds [of 1461 r] by (simp_all add: eqs(3) r2_def pos_imp_zdiv_nonneg_iff)
  have y1: "0 \<le> y1" "y1 \<le> 3" "0 \<le> doy" "doy \<le> 365"
    using q div_bounds [of 365 r2]
    by (simp_all add: eqs(4,5) min_def pos_imp_zdiv_nonneg_iff)
  show "z = 146097 * era + 36524 * c + 1461 * q + 365 * y1 + doy"
    using doe(3) q(5) eqs(5) by (simp add: r_def)
  show "0 \<le> c" "c \<le> 3" "0 \<le> q" "q \<le> 24" "0 \<le> y1" "y1 \<le> 3" "0 \<le> doy" "doy \<le> 365"
    by fact+
qed

lemma month_bounds:
  assumes "0 \<le> doy" "doy \<le> 365"
  shows "0 \<le> month_index doy" "month_index doy \<le> 11" "doy < 306 \<longleftrightarrow> month_index doy < 10"
    "0 \<le> doy - (153 * month_index doy + 2) div 5" "doy - (153 * month_index doy + 2) div 5 \<le> 30"
proof -
  define mp where "mp = month_index doy"
  have mp: "153 * mp \<le> 5 * doy + 2" "5 * doy + 2 < 153 * mp + 153"
    using div_bounds [of 153 "5 * doy + 2"] by (simp_all add: mp_def month_index_def)
  have d: "5 * ((153 * mp + 2) div 5) \<le> 153 * mp + 2" "153 * mp + 2 < 5 * ((153 * mp + 2) div 5) + 5"
    using div_bounds [of 5 "153 * mp + 2"] by simp_all
  show "0 \<le> month_index doy" "month_index doy \<le> 11" "doy < 306 \<longleftrightarrow> month_index doy < 10"
    "0 \<le> doy - (153 * month_index doy + 2) div 5" "doy - (153 * month_index doy + 2) div 5 \<le> 30"
    using assms mp d unfolding mp_def [symmetric] by linarith+
qed

lemma days_of_civil_of_days: "days_of_civil (civil_of_days days) = days"
proof -
  obtain era c q y1 doy where cyc: "cycles (days + 719468) = (era, c, q, y1, doy)"
    by (cases "cycles (days + 719468)") auto
  note b = cycles_bounds [OF cyc]
  define yoe where "yoe = 100 * c + 4 * q + y1"
  define mp where "mp = month_index doy"
  have bounds: "0 \<le> yoe" "yoe < 400" "yoe div 4 = 25 * c + q" "yoe div 100 = c"
    using b div_bounds [of 4 yoe] div_bounds [of 100 yoe] by (simp_all add: yoe_def)
  have year: "(400 * era + yoe) div 400 = era" "yoe mod 400 = yoe"
    using bounds(1,2) by simp_all
  have mp: "0 \<le> mp" "mp \<le> 11" using month_bounds [OF b(8,9)] by (simp_all add: mp_def)
  have days: "146097 * era + 365 * yoe + yoe div 4 - yoe div 100 + doy - 719468 = days"
    unfolding bounds(3,4) using b(1) by (simp add: yoe_def)
  show ?thesis
  proof (cases "mp < 10")
    case True
    then have "civil_of_days days = (400 * era + yoe, mp + 3, doy - (153 * mp + 2) div 5 + 1)"
      by (simp add: civil_of_days_def cyc Let_def mp_def yoe_def)
    with True mp days show ?thesis by (simp add: days_of_civil_def Let_def year)
  next
    case False
    then have "civil_of_days days = (400 * era + yoe + 1, mp - 9, doy - (153 * mp + 2) div 5 + 1)"
      by (simp add: civil_of_days_def cyc Let_def mp_def yoe_def)
    with False mp days show ?thesis by (simp add: days_of_civil_def Let_def year)
  qed
qed

section \<open>Text\<close>

definition pad :: "nat \<Rightarrow> nat \<Rightarrow> string" where
  "pad w n = replicate (w - length (nat_str n)) CHR ''0'' @ nat_str n"

definition day_us :: int where "day_us = 86400000000"

text \<open>The text of the UTC wall time \<open>w\<close> (microseconds since 1970).\<close>

definition iso_utc :: "int \<Rightarrow> string" where
  "iso_utc w =
     (case civil_of_days (w div day_us) of (y, m, d) \<Rightarrow>
        let t = w mod day_us; s = t div 1000000 in
        pad 4 (nat y) @ ''-'' @ pad 2 (nat m) @ ''-'' @ pad 2 (nat d) @ ''T'' @
        pad 2 (nat (s div 3600)) @ '':'' @ pad 2 (nat (s div 60 mod 60)) @ '':'' @
        pad 2 (nat (s mod 60)) @ ''.'' @ pad 6 (nat (t mod 1000000)) @ ''Z'')"

definition number_at :: "string \<Rightarrow> nat \<Rightarrow> nat \<Rightarrow> int option" where
  "number_at s i n =
     (if list_all is_digit (slice s i (i + n)) then Some (int (dec_value (slice s i (i + n))))
      else None)"

text \<open>Reading of \<open>YYYY-MM-DDTHH:MM:SS.ffffffZ\<close>.\<close>

definition read_iso :: "string \<Rightarrow> exn + datetime" where
  "read_iso s =
     (if length s \<noteq> 27 \<or> s ! 4 \<noteq> CHR ''-'' \<or> s ! 7 \<noteq> CHR ''-'' \<or> s ! 10 \<noteq> CHR ''T'' \<or>
         s ! 13 \<noteq> CHR '':'' \<or> s ! 16 \<noteq> CHR '':'' \<or> s ! 19 \<noteq> CHR ''.'' \<or> s ! 26 \<noteq> CHR ''Z''
      then Inl ValueError
      else
        (case (number_at s 0 4, number_at s 5 2, number_at s 8 2, number_at s 11 2,
               number_at s 14 2, number_at s 17 2, number_at s 20 6) of
           (Some y, Some m, Some d, Some h, Some mi, Some sec, Some us) \<Rightarrow>
             let days = days_of_civil (y, m, d);
                 w = days * day_us + ((h * 60 + mi) * 60 + sec) * 1000000 + us in
             if civil_of_days days = (y, m, d) \<and> h < 24 \<and> mi < 60 \<and> sec < 60 \<and> in_range w
             then Inr (utc w) else Inl ValueError
         | _ \<Rightarrow> Inl ValueError))"

lemma dec_value_zeros: "dec_value (replicate k CHR ''0'' @ s) = dec_value s"
proof -
  have "foldl (\<lambda>a c. 10 * a + (code c - 48)) 0 (replicate k CHR ''0'') = 0"
    by (induction k) (simp_all add: code_def)
  then show ?thesis by (simp add: dec_value_def)
qed

lemma pad_props:
  assumes "n < 10 ^ w" and "0 < w"
  shows "length (pad w n) = w" "list_all is_digit (pad w n)" "dec_value (pad w n) = n"
proof -
  have "length (nat_str n) \<le> w" using length_nat_str [of n "w - 1"] assms by simp
  then show "length (pad w n) = w" by (simp add: pad_def)
  show "list_all is_digit (pad w n)"
    using nat_str_digits [of n] by (auto simp: pad_def list_all_iff is_digit_def code_def)
  show "dec_value (pad w n) = n" by (simp add: pad_def dec_value_zeros)
qed

lemma civil_in_range:
  assumes "in_range w"
  shows "case civil_of_days (w div day_us) of (y, m, d) \<Rightarrow>
    0 \<le> y \<and> y < 10000 \<and> 1 \<le> m \<and> m \<le> 12 \<and> 1 \<le> d \<and> d \<le> 31"
proof -
  obtain era c q y1 doy where cyc: "cycles (w div day_us + 719468) = (era, c, q, y1, doy)"
    by (cases "cycles (w div day_us + 719468)") auto
  note b = cycles_bounds [OF cyc]
  note m = month_bounds [OF b(8,9)]
  have "-719162 \<le> w div day_us" "w div day_us \<le> 2932896"
    using assms div_bounds [of day_us w]
    by (simp_all add: in_range_def min_wall_def max_wall_def day_us_def)
  with b have "0 \<le> era" "era \<le> 24" by linarith+
  have "\<not> doy < 306 \<Longrightarrow> 400 * era + (100 * c + 4 * q + y1) < 9999"
    using b \<open>w div day_us \<le> 2932896\<close> \<open>era \<le> 24\<close> by linarith
  moreover note \<open>0 \<le> era\<close> \<open>era \<le> 24\<close>
  moreover have "civil_of_days (w div day_us) =
      (let mp = month_index doy; d = doy - (153 * mp + 2) div 5 + 1;
           y = 400 * era + (100 * c + 4 * q + y1)
       in if mp < 10 then (y, mp + 3, d) else (y + 1, mp - 9, d))"
    by (simp add: civil_of_days_def cyc)
  ultimately show ?thesis
    using b(2-7) m by (cases "month_index doy < 10") (simp_all add: Let_def)
qed

text \<open>The layout, for digit strings of the right widths.\<close>

lemma read_layout:
  assumes "length Y = 4" "length M = 2" "length D = 2" "length H = 2" "length I = 2" "length S = 2"
    "length U = 6"
    and "list_all is_digit Y" "list_all is_digit M" "list_all is_digit D" "list_all is_digit H"
    "list_all is_digit I" "list_all is_digit S" "list_all is_digit U"
  shows "read_iso (Y @ ''-'' @ M @ ''-'' @ D @ ''T'' @ H @ '':'' @ I @ '':'' @ S @ ''.'' @ U @ ''Z'') =
    (let ymd = (int (dec_value Y), int (dec_value M), int (dec_value D));
         h = int (dec_value H); mi = int (dec_value I); sec = int (dec_value S);
         days = days_of_civil ymd;
         w = days * day_us + ((h * 60 + mi) * 60 + sec) * 1000000 + int (dec_value U) in
     if civil_of_days days = ymd \<and> h < 24 \<and> mi < 60 \<and> sec < 60 \<and> in_range w
     then Inr (utc w) else Inl ValueError)"
proof -
  let ?s = "Y @ ''-'' @ M @ ''-'' @ D @ ''T'' @ H @ '':'' @ I @ '':'' @ S @ ''.'' @ U @ ''Z''"
  have "number_at ?s 0 4 = Some (int (dec_value Y))" "number_at ?s 5 2 = Some (int (dec_value M))"
    "number_at ?s 8 2 = Some (int (dec_value D))" "number_at ?s 11 2 = Some (int (dec_value H))"
    "number_at ?s 14 2 = Some (int (dec_value I))" "number_at ?s 17 2 = Some (int (dec_value S))"
    "number_at ?s 20 6 = Some (int (dec_value U))"
    using assms by (simp_all add: number_at_def slice_def)
  moreover have "length ?s = 27" "?s ! 4 = CHR ''-''" "?s ! 7 = CHR ''-''" "?s ! 10 = CHR ''T''"
    "?s ! 13 = CHR '':''" "?s ! 16 = CHR '':''" "?s ! 19 = CHR ''.''" "?s ! 26 = CHR ''Z''"
    using assms(1-7) by (simp_all add: nth_append)
  ultimately show ?thesis
    unfolding read_iso_def by (simp only: Let_def option.case prod.case) simp
qed

lemma time_fields:
  fixes t :: int
  assumes "0 \<le> t" "t < 86400000000"
  obtains h mi sec us where
    "h = t div 1000000 div 3600" "mi = t div 1000000 div 60 mod 60" "sec = t div 1000000 mod 60"
    "us = t mod 1000000" "0 \<le> h" "h < 24" "0 \<le> mi" "mi < 60" "0 \<le> sec" "sec < 60"
    "0 \<le> us" "us < 1000000" "((h * 60 + mi) * 60 + sec) * 1000000 + us = t"
proof -
  define s where "s = t div 1000000"
  have s: "0 \<le> s" "s < 86400" "t = 1000000 * s + t mod 1000000"
    using assms div_bounds [of 1000000 t] by (simp_all add: s_def pos_imp_zdiv_nonneg_iff)
  have h: "s div 3600 = s div 60 div 60" by (simp add: zdiv_zmult2_eq [of 60 s 60, simplified])
  have "s = 60 * (60 * (s div 60 div 60) + s div 60 mod 60) + s mod 60" by simp
  then have "((s div 3600 * 60 + s div 60 mod 60) * 60 + s mod 60) * 1000000 + t mod 1000000 = t"
    using s(3) unfolding h by (simp add: algebra_simps)
  note sum = this [unfolded s_def]
  have hours: "0 \<le> t div 1000000 div 3600" "t div 1000000 div 3600 < 24"
    using s div_bounds [of 3600 s] unfolding s_def [symmetric]
    by (simp_all add: pos_imp_zdiv_nonneg_iff)
  have mods: "0 \<le> t div 1000000 div 60 mod 60" "t div 1000000 div 60 mod 60 < 60"
    "0 \<le> t div 1000000 mod 60" "t div 1000000 mod 60 < 60" "0 \<le> t mod 1000000"
    "t mod 1000000 < 1000000"
    by (rule pos_mod_sign pos_mod_bound, rule zero_less_numeral)+
  show ?thesis
    by (rule that [OF refl refl refl refl hours mods sum])
qed

lemma pad_int:
  assumes "0 \<le> x" "x < 10 ^ w" "0 < w"
  shows "length (pad w (nat x)) = w" "list_all is_digit (pad w (nat x))"
    "int (dec_value (pad w (nat x))) = x"
proof -
  have "nat x < 10 ^ w" using assms(1,2) by (simp add: nat_less_iff)
  then show "length (pad w (nat x)) = w" "list_all is_digit (pad w (nat x))"
    "int (dec_value (pad w (nat x))) = x"
    using assms by (simp_all add: pad_props)
qed

lemma read_iso_utc:
  assumes "in_range w"
  shows "read_iso (iso_utc w) = Inr (utc w)"
proof -
  define t where "t = w mod day_us"
  obtain y m d where civil: "civil_of_days (w div day_us) = (y, m, d)"
    by (cases "civil_of_days (w div day_us)") auto
  have ymd: "0 \<le> y" "y < 10 ^ 4" "0 \<le> m" "m < 10 ^ 2" "0 \<le> d" "d < 10 ^ 2"
    using civil_in_range [OF assms] by (simp_all add: civil)
  have t: "0 \<le> t" "t < 86400000000" by (simp_all add: t_def day_us_def)
  obtain h mi sec us where f: "h = t div 1000000 div 3600" "mi = t div 1000000 div 60 mod 60"
    "sec = t div 1000000 mod 60" "us = t mod 1000000"
    and b: "0 \<le> h" "h < 24" "0 \<le> mi" "mi < 60" "0 \<le> sec" "sec < 60" "0 \<le> us" "us < 1000000"
    and whole: "((h * 60 + mi) * 60 + sec) * 1000000 + us = t"
    using time_fields [OF t] by metis
  have b': "h < 10 ^ 2" "mi < 10 ^ 2" "sec < 10 ^ 2" "us < 10 ^ 6" using b by simp_all
  have iso: "iso_utc w = pad 4 (nat y) @ ''-'' @ pad 2 (nat m) @ ''-'' @ pad 2 (nat d) @ ''T'' @
      pad 2 (nat h) @ '':'' @ pad 2 (nat mi) @ '':'' @ pad 2 (nat sec) @ ''.'' @
      pad 6 (nat us) @ ''Z''"
    by (simp add: iso_utc_def civil Let_def t_def [symmetric] f)
  have "days_of_civil (y, m, d) = w div day_us"
    using days_of_civil_of_days [of "w div day_us"] by (simp add: civil)
  moreover have "w div day_us * day_us + ((h * 60 + mi) * 60 + sec) * 1000000 + us = w"
    using whole div_mult_mod_eq [of w day_us] unfolding t_def by linarith
  ultimately show ?thesis
    unfolding iso
    using ymd b b' assms civil
    by (subst read_layout) (simp_all only: pad_int zero_less_numeral Let_def if_True simp_thms)
qed

text \<open>Different times have different texts.\<close>

lemma iso_utc_inject: "in_range v \<Longrightarrow> in_range w \<Longrightarrow> iso_utc v = iso_utc w \<longleftrightarrow> v = w"
  by (metis read_iso_utc sum.inject(2) utc_inject)

end
