(* ===== verification/Control_Scope.thy ===== *)
theory Control_Scope
  imports Prelude
begin

text \<open>
  \<open>control_scope.py\<close>: the private tenant/workspace qualification of the keys of the control
  plane. A key is the version tag followed by length-prefixed segments, so no two qualified
  identifiers collide and a scope prefix selects exactly the keys of its scope.
\<close>

section \<open>The code\<close>

definition is_scope_char :: "char \<Rightarrow> bool" where
  "is_scope_char c = (is_lower c \<or> is_digit c \<or> c \<in> {CHR ''.'', CHR ''_'', CHR ''-''})"

definition scope_id_pattern :: "string \<Rightarrow> bool" where
  "scope_id_pattern = ident_pattern (\<lambda>c. is_lower c \<or> is_digit c) is_scope_char 2 63"

definition kind_pattern :: "string \<Rightarrow> bool" where
  "kind_pattern = ident_pattern is_lower (\<lambda>c. is_lower c \<or> is_digit c \<or> c = CHR ''_'') 1 31"

definition key_version :: string where
  "key_version = ''whscope1|''"

definition max_public_id_length :: nat where
  "max_public_id_length = 256"

record scope =
  tenant_id :: string
  workspace_id :: string

definition validate_scope :: "scope \<Rightarrow> exn + unit" where
  "validate_scope s =
     bindE (require (scope_id_pattern (tenant_id s)) ValueError) (\<lambda>_.
     require (scope_id_pattern (workspace_id s)) ValueError)"

text \<open>\<open>TenantWorkspaceScope(tenant, workspace)\<close> with its \<open>__post_init__\<close>.\<close>

definition make_scope :: "string \<Rightarrow> string \<Rightarrow> exn + scope" where
  "make_scope tenant workspace =
     (let s = \<lparr>tenant_id = tenant, workspace_id = workspace\<rparr>
      in bindE (validate_scope s) (\<lambda>_. Inr s))"

definition segment :: "string \<Rightarrow> string" where
  "segment v = nat_str (length v) @ '':'' @ v"

definition scope_prefix :: "scope \<Rightarrow> exn + string" where
  "scope_prefix s =
     bindE (validate_scope s) (\<lambda>_.
       Inr (key_version @ segment (tenant_id s) @ segment (workspace_id s)))"

definition kind_prefix :: "scope \<Rightarrow> string \<Rightarrow> exn + string" where
  "kind_prefix s kind =
     bindE (require (kind_pattern kind) ValueError) (\<lambda>_.
     bindE (scope_prefix s) (\<lambda>p. Inr (p @ segment kind)))"

definition qualify :: "scope \<Rightarrow> string \<Rightarrow> string \<Rightarrow> exn + string" where
  "qualify s kind public_id =
     bindE (kind_prefix s kind) (\<lambda>p.
     bindE (require (nonblank public_id \<and> length public_id \<le> max_public_id_length) ValueError)
       (\<lambda>_. Inr (p @ segment public_id)))"

definition read_segment :: "string \<Rightarrow> nat \<Rightarrow> exn + string \<times> nat" where
  "read_segment value offset =
     (case find_from CHR '':'' offset value of
        None \<Rightarrow> Inl ValueError
      | Some separator \<Rightarrow>
          let length_text = slice value offset separator in
          if length_text = [] \<or> \<not> list_all is_digit length_text then Inl ValueError
          else
            let len = dec_value length_text; start = separator + 1; stop = start + len in
            if len < 1 \<or> length value < stop then Inl ValueError
            else Inr (slice value start stop, stop))"

definition unqualify :: "scope \<Rightarrow> string \<Rightarrow> string \<Rightarrow> exn + string" where
  "unqualify s kind key =
     bindE (scope_prefix s) (\<lambda>p.
     if \<not> startswith key p then Inl ValueError
     else bindE (read_segment key (length p)) (\<lambda>(parsed_kind, offset).
          bindE (read_segment key offset) (\<lambda>(public_id, offset).
          if parsed_kind \<noteq> kind \<or> offset \<noteq> length key then Inl ValueError
          else Inr public_id)))"

section \<open>Segments\<close>

lemma find_from_append:
  "CHR '':'' \<notin> set a \<Longrightarrow>
   find_from CHR '':'' (length p) (p @ a @ CHR '':'' # b) = Some (length p + length a)"
  by (simp add: find_from_def takeWhile_append)

lemma read_segment_segment:
  assumes "v \<noteq> []"
  shows "read_segment (p @ segment v @ q) (length p) = Inr (v, length (p @ segment v))"
proof -
  have "find_from CHR '':'' (length p) (p @ segment v @ q) =
      Some (length p + length (nat_str (length v)))"
    using find_from_append [of "nat_str (length v)" p "v @ q"] by (simp add: segment_def)
  then show ?thesis
    using assms nat_str_digits [of "length v"]
    by (simp add: read_segment_def slice_def segment_def Let_def Suc_le_eq)
qed

text \<open>A segment is self-delimiting: it can be followed by anything.\<close>

lemma segment_append_inject: "segment a @ x = segment b @ y \<longleftrightarrow> a = b \<and> x = y"
proof
  assume eq: "segment a @ x = segment b @ y"
  let ?upto = "takeWhile (\<lambda>c. c \<noteq> CHR '':'')"
  have len: "?upto (segment v @ z) = nat_str (length v)" for v z
    by (simp add: segment_def takeWhile_append)
  from eq have "nat_str (length a) = nat_str (length b)"
    by (metis len)
  then have "length a = length b" by simp
  with eq show "a = b \<and> x = y" by (simp add: segment_def)
qed simp

lemma prefix_segment_append:
  "prefix (segment a @ u) (segment b @ v) \<longleftrightarrow> a = b \<and> prefix u v"
  by (auto simp: prefix_def segment_append_inject)

lemma length_segment: "length v < 10 ^ Suc k \<Longrightarrow> length (segment v) \<le> Suc k + 1 + length v"
  using length_nat_str [of "length v" k] by (simp add: segment_def)

section \<open>Round trip, injectivity and isolation\<close>

abbreviation valid_scope :: "scope \<Rightarrow> bool" where
  "valid_scope s \<equiv> validate_scope s = Inr ()"

lemma valid_scope_iff:
  "valid_scope s \<longleftrightarrow> scope_id_pattern (tenant_id s) \<and> scope_id_pattern (workspace_id s)"
  by (auto simp: validate_scope_def flow)

lemma scope_prefix_Inr [flow]:
  "scope_prefix s = Inr p \<longleftrightarrow>
     valid_scope s \<and> p = key_version @ segment (tenant_id s) @ segment (workspace_id s)"
  by (auto simp: scope_prefix_def flow)

lemma kind_prefix_Inr [flow]:
  "kind_prefix s kind = Inr p \<longleftrightarrow> kind_pattern kind \<and> valid_scope s \<and>
     p = key_version @ segment (tenant_id s) @ segment (workspace_id s) @ segment kind"
  by (auto simp: kind_prefix_def flow)

lemma qualify_Inr [flow]:
  "qualify s kind x = Inr k \<longleftrightarrow>
     kind_pattern kind \<and> valid_scope s \<and> nonblank x \<and> length x \<le> 256 \<and>
     k = key_version @ segment (tenant_id s) @ segment (workspace_id s) @ segment kind @ segment x"
  by (auto simp: qualify_def flow max_public_id_length_def)

lemma kind_pattern_not_Nil: "kind_pattern k \<Longrightarrow> k \<noteq> []"
  by (auto simp: kind_pattern_def ident_pattern_def)

lemma unqualify_qualify:
  assumes "qualify s kind x = Inr k"
  shows "unqualify s kind k = Inr x"
proof -
  let ?p = "key_version @ segment (tenant_id s) @ segment (workspace_id s)"
  have v: "kind \<noteq> []" "x \<noteq> []" "scope_prefix s = Inr ?p"
    and k: "k = ?p @ segment kind @ segment x"
    using assms by (auto simp: flow dest: kind_pattern_not_Nil nonblank_not_Nil)
  have r1: "read_segment k (length ?p) = Inr (kind, length (?p @ segment kind))"
    unfolding k using v(1) by (rule read_segment_segment)
  have "read_segment ((?p @ segment kind) @ segment x @ []) (length (?p @ segment kind)) =
      Inr (x, length ((?p @ segment kind) @ segment x))"
    using v(2) by (rule read_segment_segment)
  then have r2: "read_segment k (length (?p @ segment kind)) = Inr (x, length k)"
    by (simp add: k)
  have "startswith k ?p" by (simp add: k startswith_def)
  then show ?thesis
    using v r1 r2 by (simp add: unqualify_def)
qed

lemma key_segments_prefix:
  "prefix (key_version @ segment a @ segment b @ u) (key_version @ segment a' @ segment b' @ v)
     \<longleftrightarrow> a = a' \<and> b = b' \<and> prefix u v"
  by (simp add: prefix_segment_append)

lemma qualify_injective:
  assumes "qualify s kind x = Inr k" and "qualify s' kind' x' = Inr k"
  shows "s = s' \<and> kind = kind' \<and> x = x'"
proof -
  from assms have "segment (tenant_id s) @ segment (workspace_id s) @ segment kind @ segment x @ [] =
      segment (tenant_id s') @ segment (workspace_id s') @ segment kind' @ segment x' @ []"
    by (auto simp: flow)
  then show ?thesis
    by (simp only: segment_append_inject) (simp add: scope.equality)
qed

lemma kind_prefix_selects:
  assumes "kind_prefix s kind = Inr p" and "qualify s' kind' x = Inr k"
  shows "startswith k p \<longleftrightarrow> s = s' \<and> kind = kind'"
proof -
  have "startswith k p \<longleftrightarrow> tenant_id s = tenant_id s' \<and> workspace_id s = workspace_id s' \<and>
      kind = kind'"
    using assms prefix_segment_append [of kind "[]" kind' "segment x"]
    by (auto simp: flow startswith_prefix prefix_segment_append)
  then show ?thesis by (auto intro: scope.equality)
qed

lemma scope_prefix_selects:
  assumes "scope_prefix s = Inr p" and "qualify s' kind' x = Inr k"
  shows "startswith k p \<longleftrightarrow> s = s'"
proof -
  have "startswith k p \<longleftrightarrow> tenant_id s = tenant_id s' \<and> workspace_id s = workspace_id s'"
    using assms prefix_segment_append [of "workspace_id s" "[]" "workspace_id s'" "segment kind' @ segment x"]
    by (auto simp: flow startswith_prefix prefix_segment_append)
  then show ?thesis by (auto intro: scope.equality)
qed

lemma scope_id_length: "scope_id_pattern v \<Longrightarrow> 3 \<le> length v \<and> length v \<le> 64"
  by (auto simp: scope_id_pattern_def dest: ident_pattern_length)

lemma qualify_length:
  assumes "qualify s kind x = Inr k"
  shows "length k \<le> 438"
proof -
  have "length (tenant_id s) \<le> 64" "length (workspace_id s) \<le> 64" "length kind \<le> 32" "length x \<le> 256"
    and k: "k = key_version @ segment (tenant_id s) @ segment (workspace_id s) @ segment kind @ segment x"
    using assms by (auto simp: flow valid_scope_iff kind_pattern_def
        dest!: scope_id_length ident_pattern_length)
  then show ?thesis
    using length_segment [of "tenant_id s" 1] length_segment [of "workspace_id s" 1]
      length_segment [of kind 1] length_segment [of x 2]
    by (simp add: key_version_def)
qed

section \<open>The codec as an interface\<close>

text \<open>
  What the service relies on: a public identifier survives qualification. Anything qualified can
  be published again, and two requests meet on one internal key only if they name the same
  object.
\<close>

locale key_codec =
  fixes enc :: "string \<Rightarrow> exn + string" and dec :: "string \<Rightarrow> exn + string"
  assumes dec_enc: "enc x = Inr k \<Longrightarrow> dec k = Inr x"
begin

lemma enc_inject: "enc x = Inr k \<Longrightarrow> enc y = Inr k \<Longrightarrow> x = y"
  by (metis dec_enc sum.inject(2))

lemma publish: "enc x = Inr k \<Longrightarrow> bindE (dec k) f = f x"
  by (simp add: dec_enc)

end

interpretation scoped: key_codec "qualify s kind" "unqualify s kind" for s kind
  by unfold_locales (rule unqualify_qualify)

end
