(* ===== verification/Control_Auth.thy ===== *)
theory Control_Auth
  imports Control_Scope
begin

text \<open>
  Roles, actions and the authorization policy of \<open>control_auth.py\<close>: \<open>ControlRole\<close> and
  \<open>ControlAction\<close> with their string values, the table \<open>_ROLE_ACTIONS\<close>, the principal with its
  construction checks, \<open>allows\<close>, \<open>require\<close> and \<open>role_values\<close>. A frozenset of roles is a set.
\<close>

section \<open>Roles and actions\<close>

datatype control_role =
    CaptureUploader | DeterministicWorker | Reviewer | AuditReader | RetentionSteward
  | SafetySteward

datatype control_action =
    SessionRegister | SessionPresign | SessionUploadComplete | SessionList | SessionRead
  | SessionTimelineRead | SessionProcessingComplete
  | JobRegister | JobAcquire | JobHeartbeat | JobComplete
  | ReviewAppend | ReviewRead | AuditRead
  | RetentionRegister | RetentionRead | RetentionHold | RetentionStageTrash
  | RetentionAttestDelete | SafetyRead | SafetyEngage

fun role_value :: "control_role \<Rightarrow> string" where
  "role_value CaptureUploader = ''capture_uploader''"
| "role_value DeterministicWorker = ''deterministic_worker''"
| "role_value Reviewer = ''reviewer''"
| "role_value AuditReader = ''audit_reader''"
| "role_value RetentionSteward = ''retention_steward''"
| "role_value SafetySteward = ''safety_steward''"

fun action_value :: "control_action \<Rightarrow> string" where
  "action_value SessionRegister = ''session.register''"
| "action_value SessionPresign = ''session.presign''"
| "action_value SessionUploadComplete = ''session.upload_complete''"
| "action_value SessionList = ''session.list''"
| "action_value SessionRead = ''session.read''"
| "action_value SessionTimelineRead = ''session.timeline_read''"
| "action_value SessionProcessingComplete = ''session.processing_complete''"
| "action_value JobRegister = ''job.register''"
| "action_value JobAcquire = ''job.acquire''"
| "action_value JobHeartbeat = ''job.heartbeat''"
| "action_value JobComplete = ''job.complete''"
| "action_value ReviewAppend = ''review.append''"
| "action_value ReviewRead = ''review.read''"
| "action_value AuditRead = ''audit.read''"
| "action_value RetentionRegister = ''retention.register''"
| "action_value RetentionRead = ''retention.read''"
| "action_value RetentionHold = ''retention.hold''"
| "action_value RetentionStageTrash = ''retention.stage_trash''"
| "action_value RetentionAttestDelete = ''retention.attest_delete''"
| "action_value SafetyRead = ''safety.read''"
| "action_value SafetyEngage = ''safety.engage''"

lemma role_value_inject: "role_value r = role_value r' \<Longrightarrow> r = r'"
  by (cases r; cases r') simp_all

lemma action_value_inject: "action_value a = action_value b \<Longrightarrow> a = b"
  by (cases a; cases b) simp_all

text \<open>\<open>sorted\<close> of a set of roles compares their values.\<close>

instantiation control_role :: linorder
begin

definition less_eq_control_role :: "control_role \<Rightarrow> control_role \<Rightarrow> bool" where
  "less_eq_control_role r r' \<longleftrightarrow> role_value r \<le> role_value r'"

definition less_control_role :: "control_role \<Rightarrow> control_role \<Rightarrow> bool" where
  "less_control_role r r' \<longleftrightarrow> role_value r < role_value r'"

instance
  by standard
    (auto simp: less_eq_control_role_def less_control_role_def dest: role_value_inject)

end

fun role_actions :: "control_role \<Rightarrow> control_action set" where
  "role_actions CaptureUploader = {SessionRegister, SessionPresign, SessionUploadComplete}"
| "role_actions DeterministicWorker =
     {SessionProcessingComplete, JobRegister, JobAcquire, JobHeartbeat, JobComplete}"
| "role_actions Reviewer =
     {SessionList, SessionRead, SessionTimelineRead, ReviewAppend, ReviewRead}"
| "role_actions AuditReader = {AuditRead}"
| "role_actions RetentionSteward =
     {RetentionRegister, RetentionRead, RetentionHold, RetentionStageTrash,
      RetentionAttestDelete}"
| "role_actions SafetySteward = {SafetyRead, SafetyEngage}"

definition exclusive_roles :: "control_role set" where
  "exclusive_roles = {RetentionSteward, SafetySteward}"

section \<open>Principals\<close>

record principal =
  subject :: string
  roles :: "control_role set"
  principal_scope :: "scope option"

definition subject_char :: "char \<Rightarrow> bool" where
  "subject_char c =
     (is_lower c \<or> is_digit c \<or> c \<in> {CHR ''.'', CHR ''_'', CHR '':'', CHR ''-''})"

definition subject_pattern :: "string \<Rightarrow> bool" where
  "subject_pattern s = ident_pattern (\<lambda>c. is_lower c \<or> is_digit c) subject_char 2 127 s"

definition make_principal ::
  "string \<Rightarrow> control_role set \<Rightarrow> scope option \<Rightarrow> exn + principal" where
  "make_principal s R sc =
     bindE (require (subject_pattern s) ValueError) (\<lambda>_.
     bindE (case sc of None \<Rightarrow> Inr () | Some x \<Rightarrow> validate_scope x) (\<lambda>_.
     let exclusive = R \<inter> exclusive_roles in
     bindE (require (\<not> (exclusive \<noteq> {} \<and> card R \<noteq> 1)) ValueError) (\<lambda>_.
     Inr \<lparr>subject = s, roles = R, principal_scope = sc\<rparr>)))"

definition allows :: "principal \<Rightarrow> control_action \<Rightarrow> bool" where
  "allows p a = (\<exists>r \<in> roles p. a \<in> role_actions r)"

definition require_action :: "principal \<Rightarrow> control_action \<Rightarrow> exn + unit" where
  "require_action p a = (if \<not> allows p a then Inl AuthorizationDeniedError else Inr ())"

definition role_values :: "principal \<Rightarrow> string list" where
  "role_values p = map role_value (sorted_list_of_set (roles p))"

text \<open>What construction guarantees of every principal.\<close>

definition valid_principal :: "principal \<Rightarrow> bool" where
  "valid_principal p =
     (subject_pattern (subject p) \<and>
      (case principal_scope p of None \<Rightarrow> True | Some x \<Rightarrow> returns (validate_scope x)) \<and>
      (roles p \<inter> exclusive_roles \<noteq> {} \<longrightarrow> card (roles p) = 1))"

lemma make_principal_Inr [flow]:
  "make_principal s R sc = Inr p \<longleftrightarrow>
     p = \<lparr>subject = s, roles = R, principal_scope = sc\<rparr> \<and> valid_principal p"
  by (auto simp: make_principal_def valid_principal_def flow Let_def returns_iff
      split: option.splits)

lemma require_action_Inr [flow]: "require_action p a = Inr u \<longleftrightarrow> allows p a"
  by (simp add: require_action_def)

lemma require_action_Inl [flow]:
  "require_action p a = Inl e \<longleftrightarrow> \<not> allows p a \<and> e = AuthorizationDeniedError"
  by (auto simp: require_action_def)

lemma role_of_action: "a \<in> role_actions r \<Longrightarrow> a \<in> role_actions r' \<Longrightarrow> r = r'"
  by (cases r; cases r') auto

lemma finite_roles [simp]: "finite (R :: control_role set)"
proof (rule finite_subset)
  show "R \<subseteq> {CaptureUploader, DeterministicWorker, Reviewer, AuditReader, RetentionSteward,
      SafetySteward}"
    by (auto intro: control_role.exhaust)
qed simp

lemma exclusive_role_alone:
  "valid_principal p \<Longrightarrow> r \<in> roles p \<Longrightarrow> r \<in> exclusive_roles \<Longrightarrow> roles p = {r}"
  by (auto simp: valid_principal_def card_1_singleton_iff)

lemma set_role_values [simp]: "set (role_values p) = role_value ` roles p"
  by (simp add: role_values_def)

lemma strictly_sorted_role_values: "sorted_wrt (<) (role_values p)"
  by (auto simp: role_values_def sorted_wrt_map less_control_role_def [symmetric]
      intro: strict_sorted_list_of_set)

section \<open>Properties\<close>

text \<open>An action belongs to one role, so a principal may do it exactly when it holds that role:
  the policy has no action that two roles share.\<close>

theorem one_role_per_action: "\<exists>!r. a \<in> role_actions r"
proof -
  have "\<exists>r. a \<in> role_actions r"
    by (cases a) (metis role_actions.simps insertI1 insertI2)+
  then show ?thesis using role_of_action by blast
qed

text \<open>Separation of duty. A principal that construction accepts and that may do one
  retention or safety action holds that steward's role alone, so it may do nothing else; any other
  combination is refused with \<open>ValueError\<close>.\<close>

theorem stewards_are_exclusive:
  assumes "make_principal s R sc = Inr p" and "allows p a"
    and "a \<in> role_actions RetentionSteward \<union> role_actions SafetySteward"
  shows "\<exists>r \<in> exclusive_roles. roles p = {r} \<and> (\<forall>b. allows p b \<longleftrightarrow> b \<in> role_actions r)"
proof -
  obtain r where r: "r \<in> roles p" "a \<in> role_actions r"
    using assms(2) by (auto simp: allows_def)
  then have "r \<in> exclusive_roles"
    using assms(3) role_of_action by (fastforce simp: exclusive_roles_def)
  moreover have "roles p = {r}"
    using assms(1) r(1) calculation by (intro exclusive_role_alone) (auto simp: flow)
  ultimately show ?thesis by (auto simp: allows_def)
qed

theorem stewards_are_exclusive_witness:
  "\<exists>r \<in> exclusive_roles.
     roles \<lparr>subject = ''steward'', roles = {RetentionSteward}, principal_scope = None\<rparr> = {r} \<and>
     (\<forall>b. allows \<lparr>subject = ''steward'', roles = {RetentionSteward}, principal_scope = None\<rparr> b
        \<longleftrightarrow> b \<in> role_actions r)"
  by (rule stewards_are_exclusive [where s = "''steward''" and R = "{RetentionSteward}" and sc = None
        and a = RetentionHold])
    (simp_all add: make_principal_def subject_pattern_def ident_pattern_def subject_char_def
      is_lower_def code_def allows_def exclusive_roles_def Let_def)

end
