(* ===== verification/Json_Text.thy ===== *)
theory Json_Text
  imports Prelude
begin

text \<open>
  The JSON values the stores keep as text: \<open>json.dumps\<close> with sorted keys and compact separators
  (\<open>_canonical_json\<close> of the stores) and \<open>json.loads\<close>. A dict is an association list; numbers are
  integers (floats are outside the model, and text that holds one does not load here).
\<close>

section \<open>Values\<close>

datatype json =
    JNull
  | JBool bool
  | JInt int
  | JStr string
  | JArr "json list"
  | JObj "(string \<times> json) list"

text \<open>\<open>d.get(k)\<close>, \<open>k in d\<close>, and \<open>d[k] = v\<close>.\<close>

definition jget :: "(string \<times> json) list \<Rightarrow> string \<Rightarrow> json option" where
  "jget d k = map_of d k"

definition jhas :: "(string \<times> json) list \<Rightarrow> string \<Rightarrow> bool" where
  "jhas d k = (k \<in> fst ` set d)"

fun jset :: "(string \<times> json) list \<Rightarrow> string \<Rightarrow> json \<Rightarrow> (string \<times> json) list" where
  "jset [] k v = [(k, v)]"
| "jset ((k', v') # d) k v = (if k' = k then (k, v) # d else (k', v') # jset d k v)"

lemma jhas_iff: "jhas d k \<longleftrightarrow> jget d k \<noteq> None"
  by (simp add: jhas_def jget_def map_of_eq_None_iff)

lemma jget_jset: "jget (jset d k v) k' = (if k' = k then Some v else jget d k')"
  by (induction d) (auto simp: jget_def)

lemma keys_jset: "fst ` set (jset d k v) = insert k (fst ` set d)"
  by (induction d k v rule: jset.induct) (auto simp: insert_commute)

lemma jset_fresh: "k \<notin> fst ` set d \<Longrightarrow> jset d k v = d @ [(k, v)]"
  by (induction d) auto

text \<open>
  Two dicts are equal in Python whatever the order of their keys; sorting the keys throughout
  gives every value one representative.
\<close>

function normalize :: "json \<Rightarrow> json" where
  "normalize JNull = JNull"
| "normalize (JBool b) = JBool b"
| "normalize (JInt i) = JInt i"
| "normalize (JStr s) = JStr s"
| "normalize (JArr xs) = JArr (map normalize xs)"
| "normalize (JObj d) = JObj (sort_key fst (map (\<lambda>(k, v). (k, normalize v)) d))"
  by pat_completeness auto
termination
  by (relation "measure size")
    (auto simp: less_Suc_eq_le intro: size_list_estimation' order_trans [OF _ size_list_estimation'])

fun distinct_keys :: "json \<Rightarrow> bool" where
  "distinct_keys (JArr xs) = (\<forall>x \<in> set xs. distinct_keys x)"
| "distinct_keys (JObj d) = (distinct (map fst d) \<and> (\<forall>x \<in> set d. distinct_keys (snd x)))"
| "distinct_keys _ = True"

section \<open>Printing\<close>

definition hex_char :: "nat \<Rightarrow> char" where
  "hex_char n = (if n < 10 then digit_char n else char_of (87 + n))"

definition u_escape :: "nat \<Rightarrow> string" where
  "u_escape n = [CHR 0x5C, CHR ''u'', CHR ''0'', CHR ''0'', hex_char (n div 16), hex_char (n mod 16)]"

text \<open>\<open>ascii\<close> is the \<open>ensure_ascii\<close> flag of \<open>json.dumps\<close>.\<close>

definition escape_char :: "bool \<Rightarrow> char \<Rightarrow> string" where
  "escape_char ascii c =
     (let n = code c in
      if n = 34 then [CHR 0x5C, CHR 0x22]
      else if n = 92 then [CHR 0x5C, CHR 0x5C]
      else if n = 10 then [CHR 0x5C, CHR ''n'']
      else if n = 13 then [CHR 0x5C, CHR ''r'']
      else if n = 9 then [CHR 0x5C, CHR ''t'']
      else if n = 12 then [CHR 0x5C, CHR ''f'']
      else if n = 8 then [CHR 0x5C, CHR ''b'']
      else if n < 32 then u_escape n
      else if ascii \<and> 127 \<le> n then u_escape n
      else [c])"

definition quote :: "bool \<Rightarrow> string \<Rightarrow> string" where
  "quote ascii s = CHR 0x22 # concat (map (escape_char ascii) s) @ [CHR 0x22]"

fun commas :: "string list \<Rightarrow> string" where
  "commas [] = []"
| "commas [x] = x"
| "commas (x # y # xs) = x @ CHR '','' # commas (y # xs)"

text \<open>Printing of a value whose keys are already in order.\<close>

fun print :: "bool \<Rightarrow> json \<Rightarrow> string" where
  "print a JNull = ''null''"
| "print a (JBool b) = (if b then ''true'' else ''false'')"
| "print a (JInt i) = int_str i"
| "print a (JStr s) = quote a s"
| "print a (JArr xs) = CHR ''['' # commas (map (print a) xs) @ '']''"
| "print a (JObj d) =
     CHR ''{'' # commas (map (\<lambda>x. quote a (fst x) @ CHR '':'' # print a (snd x)) d) @ ''}''"

definition dumps :: "bool \<Rightarrow> json \<Rightarrow> string" where
  "dumps a v = print a (normalize v)"

definition canonical_json :: "json \<Rightarrow> string" where
  "canonical_json v = dumps False v"

section \<open>Parsing\<close>

definition is_ws :: "char \<Rightarrow> bool" where
  "is_ws c = (code c \<in> {9, 10, 13, 32})"

abbreviation skip_ws :: "string \<Rightarrow> string" where
  "skip_ws \<equiv> dropWhile is_ws"

definition hex_value :: "char \<Rightarrow> nat option" where
  "hex_value c =
     (let n = code c in
      if is_digit c then Some (n - 48)
      else if 97 \<le> n \<and> n \<le> 102 then Some (n - 87)
      else if 65 \<le> n \<and> n \<le> 70 then Some (n - 55)
      else None)"

text \<open>The rest of a string literal after its opening quote. A code point above 255 is not modelled.\<close>

fun parse_string :: "string \<Rightarrow> (string \<times> string) option" where
  "parse_string [] = None"
| "parse_string (c # cs) =
     (if code c = 34 then Some ([], cs)
      else if code c < 32 then None
      else if code c \<noteq> 92 then map_option (map_prod (Cons c) id) (parse_string cs)
      else
        (case cs of
           [] \<Rightarrow> None
         | e # es \<Rightarrow>
             (case map_of [(34, 34), (92, 92), (47, 47), (98, 8), (102, 12), (110, 10),
                 (114, 13), (116, 9)] (code e) of
                Some n \<Rightarrow> map_option (map_prod (Cons (char_of (n :: nat))) id) (parse_string es)
              | None \<Rightarrow>
                  if code e \<noteq> 117 then None
                  else
                    (case es of
                       h1 # h2 # h3 # h4 # rest \<Rightarrow>
                         (case (hex_value h1, hex_value h2, hex_value h3, hex_value h4) of
                            (Some 0, Some 0, Some a, Some b) \<Rightarrow>
                              map_option (map_prod (Cons (char_of (16 * a + b))) id)
                                (parse_string rest)
                          | _ \<Rightarrow> None)
                     | _ \<Rightarrow> None))))"

definition starts :: "char \<Rightarrow> string \<Rightarrow> bool" where
  "starts c s = (case s of [] \<Rightarrow> False | x # _ \<Rightarrow> x = c)"

definition parse_nat :: "string \<Rightarrow> (nat \<times> string) option" where
  "parse_nat s =
     (case s of
        [] \<Rightarrow> None
      | c # cs \<Rightarrow>
          if c = CHR ''0'' then Some (0, cs)
          else if is_digit c then Some (dec_value (takeWhile is_digit s), dropWhile is_digit s)
          else None)"

definition not_float :: "string \<Rightarrow> bool" where
  "not_float s = (case s of [] \<Rightarrow> True | c # _ \<Rightarrow> c \<notin> {CHR ''.'', CHR ''e'', CHR ''E''})"

definition parse_int :: "string \<Rightarrow> (int \<times> string) option" where
  "parse_int s =
     (case (if starts CHR ''-'' s then map_option (map_prod (\<lambda>n. - int n) id) (parse_nat (tl s))
            else map_option (map_prod int id) (parse_nat s)) of
        Some (i, rest) \<Rightarrow> if not_float rest then Some (i, rest) else None
      | None \<Rightarrow> None)"

definition expect :: "string \<Rightarrow> string \<Rightarrow> string option" where
  "expect p s = (if startswith s p then Some (drop (length p) s) else None)"

text \<open>
  Recursive descent, with fuel. \<open>parse_elems\<close> reads the elements of a non-empty array up to its
  closing bracket, \<open>parse_fields\<close> those of a non-empty object; a repeated key overwrites.
\<close>

fun parse_value :: "nat \<Rightarrow> string \<Rightarrow> (json \<times> string) option"
  and parse_elems :: "nat \<Rightarrow> string \<Rightarrow> (json list \<times> string) option"
  and parse_fields ::
    "nat \<Rightarrow> (string \<times> json) list \<Rightarrow> string \<Rightarrow> ((string \<times> json) list \<times> string) option" where
  "parse_value 0 s = None"
| "parse_value (Suc n) s =
     (if starts CHR 0x22 s then map_option (map_prod JStr id) (parse_string (tl s))
      else if starts CHR ''['' s then
        (let r = skip_ws (tl s) in
         if starts CHR '']'' r then Some (JArr [], tl r)
         else map_option (map_prod JArr id) (parse_elems n r))
      else if starts CHR ''{'' s then
        (let r = skip_ws (tl s) in
         if starts CHR ''}'' r then Some (JObj [], tl r)
         else map_option (map_prod JObj id) (parse_fields n [] r))
      else if starts CHR ''n'' s then map_option (Pair JNull) (expect ''null'' s)
      else if starts CHR ''t'' s then map_option (Pair (JBool True)) (expect ''true'' s)
      else if starts CHR ''f'' s then map_option (Pair (JBool False)) (expect ''false'' s)
      else map_option (map_prod JInt id) (parse_int s))"
| "parse_elems 0 s = None"
| "parse_elems (Suc n) s =
     (case parse_value n s of
        None \<Rightarrow> None
      | Some (v, r) \<Rightarrow>
          let r = skip_ws r in
          if starts CHR '']'' r then Some ([v], tl r)
          else if starts CHR '','' r then
            map_option (map_prod (Cons v) id) (parse_elems n (skip_ws (tl r)))
          else None)"
| "parse_fields 0 d s = None"
| "parse_fields (Suc n) d s =
     (if \<not> starts CHR 0x22 s then None
      else case parse_string (tl s) of
        None \<Rightarrow> None
      | Some (k, r) \<Rightarrow>
          let r = skip_ws r in
          if \<not> starts CHR '':'' r then None
          else case parse_value n (skip_ws (tl r)) of
            None \<Rightarrow> None
          | Some (v, r) \<Rightarrow>
              let r = skip_ws r in
              if starts CHR ''}'' r then Some (jset d k v, tl r)
              else if starts CHR '','' r then parse_fields n (jset d k v) (skip_ws (tl r))
              else None)"

definition loads :: "string \<Rightarrow> exn + json" where
  "loads s =
     (case parse_value (Suc (2 * length s)) (skip_ws s) of
        Some (v, r) \<Rightarrow> if skip_ws r = [] then Inr v else Inl ValueError
      | None \<Rightarrow> Inl ValueError)"

section \<open>Printing and parsing are inverse\<close>

lemma code_less [simp]: "code c < 256"
  by (simp add: code_def)

lemma char_of_code [simp]: "char_of (code c) = c"
  by (simp add: code_def)

lemma code_char_of [simp]: "n < 256 \<Longrightarrow> code (char_of n) = n"
  by (simp add: code_def)

lemma hex_value_hex_char [simp]: "n < 16 \<Longrightarrow> hex_value (hex_char n) = Some n"
  by (simp add: hex_value_def hex_char_def Let_def is_digit_def)

lemma starts_Cons [simp]: "starts c (x # xs) \<longleftrightarrow> x = c" "\<not> starts c []"
  by (simp_all add: starts_def)

lemma code_consts [simp]:
  "code CHR 0x5C = 92" "code CHR 0x22 = 34" "code CHR ''u'' = 117" "code CHR ''0'' = 48"
  "code CHR ''n'' = 110" "code CHR ''r'' = 114" "code CHR ''t'' = 116" "code CHR ''f'' = 102"
  "code CHR ''b'' = 98"
  by (simp_all add: code_def)

lemma hex_value_zero [simp]: "hex_value CHR ''0'' = Some 0"
  by (simp add: hex_value_def Let_def is_digit_def)

lemma digit_char_zero [simp]: "digit_char 0 = CHR ''0''"
  using char_of_code [of "CHR ''0''"] by (simp add: digit_char_def)

lemma parse_string_escape:
  "parse_string (escape_char a c @ t) = map_option (map_prod (Cons c) id) (parse_string t)"
proof -
  let ?n = "code c"
  have u: "parse_string (u_escape ?n @ t) = map_option (map_prod (Cons c) id) (parse_string t)"
  proof -
    have "?n div 16 < 16" by (simp add: div_less_iff_less_mult)
    moreover have "16 * (?n div 16) + ?n mod 16 = ?n" by simp
    ultimately show ?thesis by (simp add: u_escape_def)
  qed
  have short: "?n = k \<Longrightarrow> char_of k = c" for k
    by (metis char_of_code)
  show ?thesis
    using u short [of 34] short [of 92] short [of 10] short [of 13] short [of 9] short [of 12]
      short [of 8] by (auto simp: escape_char_def Let_def)
qed

lemma parse_string_quoted:
  "parse_string (concat (map (escape_char a) s) @ CHR 0x22 # rest) = Some (s, rest)"
  by (induction s) (simp_all add: parse_string_escape)

lemma nat_str_head: "0 < n \<Longrightarrow> \<exists>c cs. nat_str n = c # cs \<and> is_digit c \<and> c \<noteq> CHR ''0''"
proof (induction n rule: nat_str.induct)
  case (1 n)
  show ?case
  proof (cases "n < 10")
    case True
    then have "digit_char n \<noteq> digit_char 0"
      using 1(2) by (metis add_left_cancel code_digit_char less_numeral_extra(3) zero_less_numeral)
    then show ?thesis using True by (simp add: nat_str.simps [of n])
  next
    case False
    then have "0 < n div 10" by (simp add: div_greater_zero_iff)
    with 1(1) False show ?thesis by (auto simp: nat_str.simps [of n])
  qed
qed

definition num_end :: "string \<Rightarrow> bool" where
  "num_end s = (case s of [] \<Rightarrow> True | c # _ \<Rightarrow> \<not> is_digit c \<and> c \<notin> {CHR ''.'', CHR ''e'', CHR ''E''})"

lemma num_end_simps [simp]:
  "num_end []" "num_end (CHR '','' # s)" "num_end (CHR '']'' # s)" "num_end (CHR ''}'' # s)"
  by (simp_all add: num_end_def is_digit_def code_def)

lemma parse_nat_nat_str:
  assumes "num_end rest"
  shows "parse_nat (nat_str n @ rest) = Some (n, rest)"
proof (cases "n = 0")
  case True
  then show ?thesis
    by (simp add: parse_nat_def nat_str.simps [of 0])
next
  case False
  then obtain c cs where c: "nat_str n = c # cs" "is_digit c" "c \<noteq> CHR ''0''"
    using nat_str_head [of n] by auto
  have rest: "takeWhile is_digit rest = []" "dropWhile is_digit rest = rest"
    using assms by (cases rest; simp add: num_end_def)+
  have digits: "\<forall>x \<in> set (nat_str n). is_digit x"
    using nat_str_digits by (simp add: list_all_iff)
  have "takeWhile is_digit (nat_str n @ rest) = nat_str n"
    "dropWhile is_digit (nat_str n @ rest) = rest"
    using digits rest by (simp_all add: takeWhile_append2 dropWhile_append2)
  then show ?thesis using c dec_value_nat_str [of n] by (simp add: parse_nat_def)
qed

lemma starts_minus_nat_str: "\<not> starts CHR ''-'' (nat_str n @ rest)"
proof -
  obtain c cs where "nat_str n = c # cs" using nat_str_not_Nil by (meson list.exhaust)
  moreover have "is_digit c" using calculation nat_str_digits [of n] by simp
  ultimately show ?thesis by (auto simp: is_digit_def code_def)
qed

lemma parse_int_int_str: "num_end rest \<Longrightarrow> parse_int (int_str i @ rest) = Some (i, rest)"
proof -
  assume rest: "num_end rest"
  then have "not_float rest" by (cases rest) (simp_all add: not_float_def num_end_def)
  with rest show ?thesis
    by (simp add: parse_int_def int_str_def parse_nat_nat_str starts_minus_nat_str)
qed

text \<open>The first character of a printed value tells its kind and is no separator.\<close>

definition value_head :: "char \<Rightarrow> bool" where
  "value_head c = (\<not> is_ws c \<and> c \<notin> {CHR '']'', CHR ''}'', CHR '','', CHR '':''})"

lemma print_head: "\<exists>c cs. print a v = c # cs \<and> value_head c"
proof -
  have digit: "is_digit c \<Longrightarrow> value_head c" for c
    by (auto simp: value_head_def is_digit_def is_ws_def code_def)
  have "\<exists>c cs. nat_str n = c # cs \<and> value_head c" for n
    using digit nat_str_digits [of n] nat_str_not_Nil [of n] by (cases "nat_str n") auto
  then show ?thesis
    by (cases v) (auto simp: value_head_def is_ws_def code_def quote_def int_str_def)
qed

lemma skip_ws_head: "value_head c \<Longrightarrow> skip_ws (c # cs) = c # cs"
  by (simp add: value_head_def)

lemma skip_ws_print [simp]: "skip_ws (print a v @ rest) = print a v @ rest"
  using print_head [of a v] by (auto simp: value_head_def)

lemma is_ws_punct [simp]:
  "\<not> is_ws CHR '',''" "\<not> is_ws CHR '']''" "\<not> is_ws CHR ''}''" "\<not> is_ws CHR '':''"
  "\<not> is_ws CHR 0x22" "\<not> is_ws CHR ''[''" "\<not> is_ws CHR ''{''"
  by (simp_all add: is_ws_def code_def)

lemma quote_append: "quote a s @ t = CHR 0x22 # concat (map (escape_char a) s) @ CHR 0x22 # t"
  by (simp add: quote_def)

text \<open>Elements and fields, given the claim for the values they contain.\<close>

lemma parse_elems_commas:
  assumes "\<And>v n rest. v \<in> set xs \<Longrightarrow> 2 * length (print a v) < n \<Longrightarrow> num_end rest \<Longrightarrow>
      parse_value n (print a v @ rest) = Some (v, rest)"
    and "xs \<noteq> []" and "2 * length (commas (map (print a) xs)) + 1 < n"
  shows "parse_elems n (commas (map (print a) xs) @ CHR '']'' # rest) = Some (xs, rest)"
  using assms
proof (induction xs arbitrary: n)
  case (Cons x xs)
  then obtain m where n: "n = Suc m" by (cases n) auto
  show ?case
  proof (cases xs)
    case Nil
    have "parse_value m (print a x @ CHR '']'' # rest) = Some (x, CHR '']'' # rest)"
      using Cons.prems(3) n Nil by (intro Cons.prems(1)) simp_all
    with n Nil show ?thesis by (simp add: Let_def)
  next
    case (Cons y ys)
    let ?tail = "commas (map (print a) xs) @ CHR '']'' # rest"
    have split: "commas (map (print a) (x # xs)) = print a x @ CHR '','' # commas (map (print a) xs)"
      using Cons by simp
    have "parse_value m (print a x @ CHR '','' # ?tail) = Some (x, CHR '','' # ?tail)"
      using Cons.prems(3) n split by (intro Cons.prems(1)) simp_all
    moreover have "parse_elems m ?tail = Some (xs, rest)"
      using Cons.prems n Cons split by (intro Cons.IH) simp_all
    moreover have "skip_ws ?tail = ?tail"
      using Cons by (cases ys) simp_all
    ultimately show ?thesis using n split by (simp add: Let_def)
  qed
qed simp

lemma parse_fields_commas:
  assumes "\<And>v n rest. v \<in> snd ` set d \<Longrightarrow> 2 * length (print a v) < n \<Longrightarrow> num_end rest \<Longrightarrow>
      parse_value n (print a v @ rest) = Some (v, rest)"
    and "d \<noteq> []" and "distinct (map fst (e @ d))"
    and "2 * length (commas (map (\<lambda>x. quote a (fst x) @ CHR '':'' # print a (snd x)) d)) + 1 < n"
  shows "parse_fields n e
      (commas (map (\<lambda>x. quote a (fst x) @ CHR '':'' # print a (snd x)) d) @ CHR ''}'' # rest) =
    Some (e @ d, rest)"
  using assms
proof (induction d arbitrary: n e)
  case (Cons kv d)
  obtain k v where kv: "kv = (k, v)" by (cases kv)
  from Cons.prems(4) obtain m where n: "n = Suc m" by (cases n) auto
  have fresh: "jset e k v = e @ [(k, v)]"
    using Cons.prems(3) by (intro jset_fresh) (auto simp: kv)
  show ?case
  proof (cases d)
    case Nil
    have "parse_value m (print a v @ CHR ''}'' # rest) = Some (v, CHR ''}'' # rest)"
      using Cons.prems(4) n Nil kv by (intro Cons.prems(1)) simp_all
    with n Nil kv fresh show ?thesis
      by (simp add: Let_def quote_append parse_string_quoted)
  next
    case (Cons y ys)
    let ?p = "\<lambda>x. quote a (fst x) @ CHR '':'' # print a (snd x)"
    let ?tail = "commas (map ?p d) @ CHR ''}'' # rest"
    have split: "commas (map ?p (kv # d)) = ?p kv @ CHR '','' # commas (map ?p d)"
      using Cons by simp
    have "parse_value m (print a v @ CHR '','' # ?tail) = Some (v, CHR '','' # ?tail)"
      using Cons.prems(4) n split kv by (intro Cons.prems(1)) simp_all
    moreover have "parse_fields m (e @ [kv]) ?tail = Some ((e @ [kv]) @ d, rest)"
      using Cons.prems n Cons split by (intro Cons.IH) simp_all
    moreover have "skip_ws ?tail = ?tail"
      using Cons by (cases ys) (simp_all add: quote_append)
    ultimately show ?thesis
      using n kv fresh unfolding split
      by (simp add: Let_def quote_append parse_string_quoted)
  qed
qed simp

lemma int_str_head: "\<exists>c cs. int_str i = c # cs \<and> (is_digit c \<or> c = CHR ''-'')"
proof (cases "i < 0")
  case False
  then show ?thesis
    using nat_str_digits [of "nat i"] nat_str_not_Nil [of "nat i"]
    by (cases "nat_str (nat i)") (auto simp: int_str_def)
qed (simp add: int_str_def)

lemma parse_value_print:
  "distinct_keys v \<Longrightarrow> 2 * length (print a v) < n \<Longrightarrow> num_end rest \<Longrightarrow>
   parse_value n (print a v @ rest) = Some (v, rest)"
proof (induction v arbitrary: n rest)
  case JNull
  then show ?case by (cases n) (simp_all add: expect_def startswith_def)
next
  case (JBool b)
  then show ?case by (cases n) (auto simp: expect_def startswith_def)
next
  case (JInt i)
  obtain c cs where "int_str i = c # cs" "is_digit c \<or> c = CHR ''-''"
    using int_str_head by blast
  moreover have "\<not> (is_digit CHR 0x22 \<or> is_digit CHR ''['' \<or> is_digit CHR ''{'' \<or>
      is_digit CHR ''n'' \<or> is_digit CHR ''t'' \<or> is_digit CHR ''f'')"
    by (simp add: is_digit_def code_def)
  ultimately show ?case
    using JInt parse_int_int_str [of rest i] by (cases n) auto
next
  case (JStr s)
  then show ?case by (cases n) (simp_all add: quote_append parse_string_quoted)
next
  case (JArr xs)
  then obtain m where n: "n = Suc m" by (cases n) auto
  show ?case
  proof (cases xs)
    case Nil
    with n show ?thesis by (simp add: Let_def)
  next
    case (Cons y ys)
    have "parse_elems m (commas (map (print a) xs) @ CHR '']'' # rest) = Some (xs, rest)"
      using JArr n Cons by (intro parse_elems_commas) auto
    moreover have "\<exists>c cs. commas (map (print a) xs) @ CHR '']'' # rest = c # cs \<and> value_head c"
      using print_head [of a y] Cons by (cases ys) auto
    ultimately show ?thesis
      using n by (auto simp: Let_def value_head_def)
  qed
next
  case (JObj d)
  then obtain m where n: "n = Suc m" by (cases n) auto
  let ?p = "\<lambda>x. quote a (fst x) @ CHR '':'' # print a (snd x)"
  show ?case
  proof (cases d)
    case Nil
    with n show ?thesis by (simp add: Let_def)
  next
    case (Cons y ys)
    have "parse_fields m [] (commas (map ?p d) @ CHR ''}'' # rest) = Some ([] @ d, rest)"
      using JObj n Cons by (intro parse_fields_commas) force+
    moreover have "\<exists>cs. commas (map ?p d) @ CHR ''}'' # rest = CHR 0x22 # cs"
      using Cons by (cases ys) (auto simp: quote_append)
    ultimately show ?thesis
      using n by (auto simp: Let_def)
  qed
qed

lemma loads_print: "distinct_keys v \<Longrightarrow> loads (print a v) = Inr v"
  using parse_value_print [of v a "Suc (2 * length (print a v))" "[]"] skip_ws_print [of a v "[]"]
  by (simp add: loads_def)

lemma distinct_keys_sort: "distinct (map f (sort_key f d)) = distinct (map f d)"
  by (simp add: distinct_map)

lemma normalize_idem [simp]: "normalize (normalize v) = normalize v"
proof (induction v rule: normalize.induct)
  case (6 d)
  let ?f = "\<lambda>(k, v). (k, normalize v)"
  let ?s = "sort_key fst (map ?f d)"
  have same: "map ?f ?s = ?s"
    by (rule map_idI) (use 6 in auto)
  show ?case
    unfolding normalize.simps same by (simp add: sort_key_id_if_sorted)
qed auto

lemma distinct_keys_normalize: "distinct_keys v \<Longrightarrow> distinct_keys (normalize v)"
proof (induction v rule: normalize.induct)
  case (6 d)
  let ?d = "map (\<lambda>(k, v). (k, normalize v)) d"
  have "map fst ?d = map fst d" by (auto simp: case_prod_beta)
  then have "distinct (map fst (sort_key fst ?d))"
    using 6(2) by (simp only: distinct_keys_sort distinct_keys.simps)
  then show ?case using 6 by auto
qed auto

lemma loads_dumps: "distinct_keys v \<Longrightarrow> loads (dumps a v) = Inr (normalize v)"
  by (simp add: dumps_def loads_print distinct_keys_normalize)

lemma dumps_inject:
  "distinct_keys v \<Longrightarrow> distinct_keys w \<Longrightarrow> dumps a v = dumps a w \<longleftrightarrow> normalize v = normalize w"
  by (metis dumps_def loads_dumps sum.inject(2))

lemma jget_normalize:
  assumes "distinct (map fst d)"
  shows "jget (sort_key fst (map (\<lambda>(k, v). (k, normalize v)) d)) k = map_option normalize (jget d k)"
proof -
  let ?d = "map (\<lambda>(k, v). (k, normalize v)) d"
  have keys: "map fst ?d = map fst d" by (auto simp: case_prod_beta)
  have "map_of (sort_key fst ?d) k = Some v \<longleftrightarrow> map_of ?d k = Some v" for v
    by (subst (1 2) map_of_eq_Some_iff)
      (simp_all only: assms keys distinct_keys_sort set_sort)
  then have "map_of (sort_key fst ?d) k = map_of ?d k"
    by (metis option.exhaust)
  then show ?thesis by (simp add: jget_def map_of_map)
qed

end
