(* ===== verification/Audit_Log.thy ===== *)
theory Audit_Log
  imports Control_Auth Timestamps Json_Text
begin

text \<open>
  The append-only audit log that the control store and the retention ledger share: the allowlists
  of \<open>audit_schema.py\<close>, the two validators of an audit context, the insert, and the readers of
  \<open>control_store.py\<close> (whole log, one scope with scope-local sequence numbers, one event).

  A row keeps its roles as JSON text and its time as an integer, as the table does. The triggers
  that forbid update and delete are what makes insertion the only operation here. The check
  constraints of the table repeat checks that the validators have already made.
\<close>

section \<open>Allowlists\<close>

definition control_audit_actions :: "string list" where
  "control_audit_actions =
     [''job.register'', ''job.acquire'', ''job.heartbeat'', ''job.complete'',
      ''review.append'', ''review.read'', ''audit.read'']"

definition retention_audit_actions :: "string list" where
  "retention_audit_actions =
     [''retention.register'', ''retention.read'', ''retention.hold'',
      ''retention.stage_trash'', ''retention.attest_delete'']"

definition shared_audit_actions :: "string list" where
  "shared_audit_actions = control_audit_actions @ retention_audit_actions"

definition control_audit_roles :: "string list" where
  "control_audit_roles = [''deterministic_worker'', ''reviewer'', ''audit_reader'']"

definition shared_audit_roles :: "string list" where
  "shared_audit_roles = control_audit_roles @ [''retention_steward'']"

section \<open>Contexts, rows and events\<close>

record audit_context =
  ac_correlation_id :: string
  ac_idempotency_key :: "string option"
  ac_subject_id :: string
  ac_roles :: "string list"
  ac_action :: string
  ac_target_id :: string
  ac_result :: string
  ac_occurred_at :: datetime

record audit_row =
  ar_sequence :: nat
  ar_event_id :: string
  ar_correlation_id :: string
  ar_idempotency_key :: "string option"
  ar_subject_id :: string
  ar_roles_json :: string
  ar_action :: string
  ar_target_id :: string
  ar_result :: string
  ar_occurred_at :: int

record audit_event =
  ae_sequence :: nat
  ae_event_id :: string
  ae_correlation_id :: string
  ae_idempotency_key :: "string option"
  ae_subject_id :: string
  ae_roles :: "string list"
  ae_action :: string
  ae_target_id :: string
  ae_result :: string
  ae_occurred_at :: datetime

section \<open>Validation\<close>

definition require_text :: "string \<Rightarrow> exn + unit" where
  "require_text s = require (nonblank s) ValueError"

definition require_bounded_text :: "string \<Rightarrow> exn + unit" where
  "require_bounded_text s =
     bindE (require_text s) (\<lambda>_. require (\<not> length s > 512) ValueError)"

definition optionally :: "('a \<Rightarrow> exn + unit) \<Rightarrow> 'a option \<Rightarrow> exn + unit" where
  "optionally f x = (case x of None \<Rightarrow> Inr () | Some y \<Rightarrow> f y)"

definition sorted_unique :: "string list \<Rightarrow> bool" where
  "sorted_unique rs = (sort (remdups rs) = rs)"

text \<open>\<open>_validate_audit_context\<close> of \<open>control_store.py\<close>, then that of \<open>retention_store.py\<close>.\<close>

definition validate_audit_context :: "audit_context \<Rightarrow> exn + unit" where
  "validate_audit_context a =
     bindE (require (ac_action a \<in> set control_audit_actions) ValueError) (\<lambda>_.
     bindE (forE require_bounded_text
       [ac_correlation_id a, ac_subject_id a, ac_action a, ac_target_id a, ac_result a]) (\<lambda>_.
     bindE (optionally require_bounded_text (ac_idempotency_key a)) (\<lambda>_.
     bindE (require (\<not> (length (ac_roles a) > 3 \<or> \<not> sorted_unique (ac_roles a))) ValueError) (\<lambda>_.
     bindE (forE (\<lambda>r. bindE (require_text r) (\<lambda>_.
       require (r \<in> set control_audit_roles) ValueError)) (ac_roles a)) (\<lambda>_.
     bindE (require (ac_result a \<in> {''accepted'', ''denied''}) ValueError) (\<lambda>_.
     bindE (to_micros (ac_occurred_at a)) (\<lambda>_. Inr ())))))))"

definition validate_retention_audit :: "audit_context \<Rightarrow> exn + unit" where
  "validate_retention_audit a =
     bindE (require (ac_action a \<in> set shared_audit_actions) ValueError) (\<lambda>_.
     bindE (require (ac_result a \<in> {''accepted'', ''denied''}) ValueError) (\<lambda>_.
     bindE (require (sorted_unique (ac_roles a)) ValueError) (\<lambda>_.
     bindE (forE (\<lambda>r. require (r \<in> set shared_audit_roles) ValueError) (ac_roles a)) (\<lambda>_.
     bindE (forE require_bounded_text
       [ac_correlation_id a, ac_subject_id a, ac_target_id a]) (\<lambda>_.
     bindE (optionally require_bounded_text (ac_idempotency_key a)) (\<lambda>_.
     bindE (to_micros (ac_occurred_at a)) (\<lambda>_. Inr ())))))))"

section \<open>Insertion\<close>

definition audit_row_of :: "nat \<Rightarrow> string \<Rightarrow> audit_context \<Rightarrow> int \<Rightarrow> audit_row" where
  "audit_row_of n uuid a us =
     \<lparr>ar_sequence = n, ar_event_id = uuid, ar_correlation_id = ac_correlation_id a,
      ar_idempotency_key = ac_idempotency_key a, ar_subject_id = ac_subject_id a,
      ar_roles_json = canonical_json (JArr (map JStr (ac_roles a))),
      ar_action = ac_action a, ar_target_id = ac_target_id a, ar_result = ac_result a,
      ar_occurred_at = us\<rparr>"

text \<open>
  \<open>_append_audit_event\<close>, with the validator of the store that calls it; \<open>uuid\<close> is the value of
  \<open>uuid4()\<close>. It returns the new sequence number, or \<open>None\<close> without a context.
\<close>

definition append_audit ::
  "(audit_context \<Rightarrow> exn + unit) \<Rightarrow> string \<Rightarrow> audit_context option \<Rightarrow> audit_row list \<Rightarrow>
   exn + nat option \<times> audit_row list" where
  "append_audit validate uuid audit tbl =
     (case audit of
        None \<Rightarrow> Inr (None, tbl)
      | Some a \<Rightarrow>
          bindE (validate a) (\<lambda>_.
          bindE (to_micros (ac_occurred_at a)) (\<lambda>us.
          let n = next_sequence ar_sequence tbl in
          bindE (insert_row (\<lambda>r r'. ar_event_id r = ar_event_id r') (audit_row_of n uuid a us) tbl)
            (\<lambda>tbl'. Inr (Some n, tbl')))))"

section \<open>Readers\<close>

fun json_strings :: "json list \<Rightarrow> string list option" where
  "json_strings [] = Some []"
| "json_strings (JStr s # xs) = map_option (Cons s) (json_strings xs)"
| "json_strings (_ # xs) = None"

definition audit_event_from_row :: "audit_row \<Rightarrow> exn + audit_event" where
  "audit_event_from_row r =
     bindE (loads (ar_roles_json r)) (\<lambda>v.
     case (case v of JArr xs \<Rightarrow> json_strings xs | _ \<Rightarrow> None) of
       None \<Rightarrow> Inl ControlStoreError
     | Some rs \<Rightarrow>
         bindE (from_micros (ar_occurred_at r)) (\<lambda>t.
         Inr \<lparr>ae_sequence = ar_sequence r, ae_event_id = ar_event_id r,
           ae_correlation_id = ar_correlation_id r, ae_idempotency_key = ar_idempotency_key r,
           ae_subject_id = ar_subject_id r, ae_roles = rs, ae_action = ar_action r,
           ae_target_id = ar_target_id r, ae_result = ar_result r, ae_occurred_at = t\<rparr>))"

definition require_pagination :: "int \<Rightarrow> int \<Rightarrow> exn + unit" where
  "require_pagination after limit =
     bindE (require (\<not> after < 0) ValueError) (\<lambda>_.
     require (\<not> (limit < 1 \<or> limit > 100)) ValueError)"

definition list_audit_events :: "int \<Rightarrow> int \<Rightarrow> audit_row list \<Rightarrow> exn + audit_event list" where
  "list_audit_events after limit tbl =
     bindE (require_pagination after limit) (\<lambda>_.
     mapE audit_event_from_row
       (take (nat limit) (filter (\<lambda>r. int (ar_sequence r) > after) tbl)))"

definition get_audit_event :: "string \<Rightarrow> audit_row list \<Rightarrow> exn + audit_event option" where
  "get_audit_event uuid tbl =
     bindE (require_text uuid) (\<lambda>_.
     case find (\<lambda>r. ar_event_id r = uuid) tbl of
       None \<Rightarrow> Inr None
     | Some r \<Rightarrow> bindE (audit_event_from_row r) (\<lambda>e. Inr (Some e)))"

text \<open>\<open>row_number() over (order by sequence)\<close> of the rows of one scope.\<close>

definition scoped_audit_rows :: "string \<Rightarrow> audit_row list \<Rightarrow> audit_row list" where
  "scoped_audit_rows p tbl =
     number_rows (\<lambda>i r. r\<lparr>ar_sequence := i\<rparr>) (filter (\<lambda>r. startswith (ar_target_id r) p) tbl)"

definition list_scoped_audit_events ::
  "string \<Rightarrow> int \<Rightarrow> int \<Rightarrow> audit_row list \<Rightarrow> exn + audit_event list" where
  "list_scoped_audit_events p after limit tbl =
     bindE (require_text p) (\<lambda>_.
     bindE (require_pagination after limit) (\<lambda>_.
     mapE audit_event_from_row
       (take (nat limit) (filter (\<lambda>r. int (ar_sequence r) > after) (scoped_audit_rows p tbl)))))"

definition get_scoped_audit_event ::
  "string \<Rightarrow> string \<Rightarrow> audit_row list \<Rightarrow> exn + audit_event option" where
  "get_scoped_audit_event uuid p tbl =
     bindE (require_text uuid) (\<lambda>_.
     bindE (require_text p) (\<lambda>_.
     case find (\<lambda>r. ar_event_id r = uuid \<and> startswith (ar_target_id r) p) tbl of
       None \<Rightarrow> Inr None
     | Some r \<Rightarrow>
         let n = count_where
           (\<lambda>q. startswith (ar_target_id q) p \<and> ar_sequence q \<le> ar_sequence r) tbl in
         bindE (audit_event_from_row (r\<lparr>ar_sequence := n\<rparr>)) (\<lambda>e. Inr (Some e))))"

section \<open>Lemmas\<close>

interpretation audit_numbering: row_numbering ar_sequence "\<lambda>i r. r\<lparr>ar_sequence := i\<rparr>"
  by unfold_locales simp

lemma normalize_strings [simp]:
  "normalize (JArr (map JStr rs)) = JArr (map JStr rs)"
  by simp

lemma loads_roles [simp]: "loads (canonical_json (JArr (map JStr rs))) = Inr (JArr (map JStr rs))"
  unfolding canonical_json_def by (subst loads_dumps) simp_all

lemma json_strings_map [simp]: "json_strings (map JStr rs) = Some rs"
  by (induction rs) simp_all

lemma append_audit_Inr [flow]:
  "append_audit validate uuid audit tbl = Inr (n, tbl') \<longleftrightarrow>
     (case audit of
        None \<Rightarrow> n = None \<and> tbl' = tbl
      | Some a \<Rightarrow> validate a = Inr () \<and> n = Some (next_sequence ar_sequence tbl) \<and>
          (\<forall>x \<in> set tbl. ar_event_id x \<noteq> uuid) \<and>
          (\<exists>us. to_micros (ac_occurred_at a) = Inr us \<and>
            tbl' = tbl @ [audit_row_of (next_sequence ar_sequence tbl) uuid a us]))"
  by (auto simp: append_audit_def flow Let_def audit_row_of_def split: option.splits)

lemma append_audit_prefix: "append_audit validate uuid audit tbl = Inr (n, tbl') \<Longrightarrow> prefix tbl tbl'"
  by (auto simp: flow split: option.splits)

text \<open>Well-formedness of the table, and what the control store's validator adds to it.\<close>

definition audit_wf :: "audit_row list \<Rightarrow> bool" where
  "audit_wf tbl =
     (sequence_ok ar_sequence tbl \<and> distinct (map ar_event_id tbl) \<and>
      (\<forall>r \<in> set tbl. \<exists>rs. loads (ar_roles_json r) = Inr (JArr (map JStr rs))))"

definition control_audit_row :: "audit_row \<Rightarrow> bool" where
  "control_audit_row r =
     (ar_action r \<in> set control_audit_actions \<and> ar_result r \<in> {''accepted'', ''denied''} \<and>
      nonblank (ar_subject_id r) \<and> length (ar_subject_id r) \<le> 512 \<and>
      nonblank (ar_target_id r) \<and> length (ar_target_id r) \<le> 512 \<and>
      (\<exists>rs. loads (ar_roles_json r) = Inr (JArr (map JStr rs)) \<and>
         set rs \<subseteq> set control_audit_roles \<and> sorted_unique rs))"

lemma audit_wf_Nil [simp]: "audit_wf []"
  by (simp add: audit_wf_def)

lemma append_audit_wf:
  assumes "append_audit validate uuid audit tbl = Inr (n, tbl')" and "audit_wf tbl"
  shows "audit_wf tbl'"
  using assms
  by (auto simp: flow audit_wf_def audit_row_of_def sequence_ok_append split: option.splits) blast

lemma validate_audit_context_row:
  "validate_audit_context a = Inr () \<Longrightarrow> control_audit_row (audit_row_of n uuid a us)"
  by (auto simp: validate_audit_context_def control_audit_row_def audit_row_of_def flow forE_Inr
      require_bounded_text_def require_text_def)

lemma append_control_audit_rows:
  assumes "append_audit validate_audit_context uuid audit tbl = Inr (n, tbl')"
    and "\<forall>r \<in> set tbl. control_audit_row r"
  shows "\<forall>r \<in> set tbl'. control_audit_row r"
  using assms by (auto simp: flow validate_audit_context_row split: option.splits)

lemma audit_event_from_row_of:
  "audit_event_from_row (audit_row_of n uuid a us) =
     bindE (from_micros us) (\<lambda>t. Inr \<lparr>ae_sequence = n, ae_event_id = uuid,
       ae_correlation_id = ac_correlation_id a, ae_idempotency_key = ac_idempotency_key a,
       ae_subject_id = ac_subject_id a, ae_roles = ac_roles a, ae_action = ac_action a,
       ae_target_id = ac_target_id a, ae_result = ac_result a, ae_occurred_at = t\<rparr>)"
  by (simp add: audit_event_from_row_def audit_row_of_def)

lemma audit_event_from_row_fields:
  "audit_event_from_row r = Inr e \<Longrightarrow>
   ae_sequence e = ar_sequence r \<and> ae_event_id e = ar_event_id r \<and>
   ae_target_id e = ar_target_id r \<and> ae_subject_id e = ar_subject_id r \<and>
   ae_action e = ar_action r \<and> ae_result e = ar_result r"
  by (auto simp: audit_event_from_row_def flow split: option.splits json.splits)

lemma mapE_events:
  assumes "mapE audit_event_from_row rs = Inr es"
  shows "map ae_sequence es = map ar_sequence rs" "map ae_event_id es = map ar_event_id rs"
    "map ae_target_id es = map ar_target_id rs"
  using assms unfolding mapE_Inr_iff
  by (induction rule: list_all2_induct) (auto dest: audit_event_from_row_fields)

lemma map_scoped_rows:
  assumes "\<And>i r. f (r\<lparr>ar_sequence := i\<rparr>) = f r"
  shows "map f (scoped_audit_rows p tbl) = map f (filter (\<lambda>r. startswith (ar_target_id r) p) tbl)"
  by (rule nth_equalityI)
    (simp_all add: scoped_audit_rows_def audit_numbering.length_number_rows
      audit_numbering.nth_number_rows assms)

text \<open>A context that both validators accept, for examples.\<close>

definition sample_audit :: audit_context where
  "sample_audit =
     \<lparr>ac_correlation_id = ''c1'', ac_idempotency_key = None, ac_subject_id = ''alice'',
      ac_roles = [''audit_reader'', ''reviewer''], ac_action = ''review.read'',
      ac_target_id = ''t1'', ac_result = ''accepted'', ac_occurred_at = utc 1700000000000000\<rparr>"

lemma sample_time [simp]:
  "to_micros (utc 1700000000000000) = Inr 1700000000000000"
  "from_micros 1700000000000000 = Inr (utc 1700000000000000)"
  by (simp_all add: to_micros_exact_era from_micros_exact_era)

lemma nonblank_simps [simp]: "\<not> nonblank []" "nonblank (c # s) \<longleftrightarrow> \<not> is_space c \<or> nonblank s"
  by (auto simp: nonblank_iff)

lemma sample_audit_valid [simp]:
  "validate_audit_context sample_audit = Inr ()" "validate_retention_audit sample_audit = Inr ()"
  by (simp_all add: sample_audit_def validate_audit_context_def validate_retention_audit_def
      require_bounded_text_def require_text_def optionally_def is_space_def code_def
      control_audit_actions_def control_audit_roles_def shared_audit_actions_def
      shared_audit_roles_def sorted_unique_def)

definition sample_row :: audit_row where
  "sample_row = audit_row_of 1 ''e1'' sample_audit 1700000000000000"

lemma sample_row_simps [simp]:
  "ar_sequence sample_row = 1" "ar_target_id sample_row = ''t1''"
  "sample_row\<lparr>ar_sequence := Suc 0\<rparr> = sample_row"
  by (simp_all add: sample_row_def audit_row_of_def sample_audit_def)

lemma sample_row_readable: "returns (audit_event_from_row sample_row)"
  by (simp add: sample_row_def audit_event_from_row_of)

lemma append_sample_audit:
  "append_audit validate_audit_context ''e1'' (Some sample_audit) [] = Inr (Some 1, [sample_row])"
  "ac_occurred_at sample_audit = utc 1700000000000000"
  by (simp_all add: flow next_sequence_def sample_row_def)
    (simp_all add: sample_audit_def)

section \<open>Properties\<close>

text \<open>An audit event that a store appends reads back, under its event id, with every field of
  the context it was made from, the roles included, under the next sequence number; only the time
  goes through the microsecond column.\<close>

theorem audit_event_reads_back:
  assumes "append_audit validate uuid (Some a) tbl = Inr (n, tbl')" and "nonblank uuid"
  shows "\<exists>us. to_micros (ac_occurred_at a) = Inr us \<and>
    get_audit_event uuid tbl' =
      bindE (from_micros us) (\<lambda>t. Inr (Some
        \<lparr>ae_sequence = next_sequence ar_sequence tbl, ae_event_id = uuid,
         ae_correlation_id = ac_correlation_id a, ae_idempotency_key = ac_idempotency_key a,
         ae_subject_id = ac_subject_id a, ae_roles = ac_roles a, ae_action = ac_action a,
         ae_target_id = ac_target_id a, ae_result = ac_result a, ae_occurred_at = t\<rparr>))"
proof -
  from assms(1) obtain us where us: "to_micros (ac_occurred_at a) = Inr us"
    and tbl': "tbl' = tbl @ [audit_row_of (next_sequence ar_sequence tbl) uuid a us]"
    and fresh: "\<forall>x \<in> set tbl. ar_event_id x \<noteq> uuid"
    by (auto simp: flow)
  have "find (\<lambda>r. ar_event_id r = uuid) tbl = None"
    using fresh by (simp add: find_None_iff)
  then have "get_audit_event uuid tbl' =
      bindE (audit_event_from_row (audit_row_of (next_sequence ar_sequence tbl) uuid a us))
        (\<lambda>e. Inr (Some e))"
    using assms(2)
    by (simp add: get_audit_event_def require_text_def tbl' find_append audit_row_of_def)
  then show ?thesis
    using us by (simp add: audit_event_from_row_of bindE_assoc)
qed

theorem audit_event_reads_back_witness:
  "\<exists>us. to_micros (ac_occurred_at sample_audit) = Inr us \<and>
    get_audit_event ''e1'' [sample_row] =
      bindE (from_micros us) (\<lambda>t. Inr (Some
        \<lparr>ae_sequence = next_sequence ar_sequence ([] :: audit_row list), ae_event_id = ''e1'',
         ae_correlation_id = ac_correlation_id sample_audit,
         ae_idempotency_key = ac_idempotency_key sample_audit,
         ae_subject_id = ac_subject_id sample_audit, ae_roles = ac_roles sample_audit,
         ae_action = ac_action sample_audit, ae_target_id = ac_target_id sample_audit,
         ae_result = ac_result sample_audit, ae_occurred_at = t\<rparr>))"
  by (rule audit_event_reads_back [OF append_sample_audit(1)]) (simp add: is_space_def code_def)

text \<open>A page of one scope holds only events of that scope, in log order, numbered within the
  scope: events \<open>after + 1\<close>, \<open>after + 2\<close>, ... of the scope and nothing of any other, so consecutive
  pages neither skip nor repeat an event.\<close>

theorem scoped_audit_page:
  assumes "list_scoped_audit_events p (int k) (int l) tbl = Inr es"
  shows "map ae_event_id es =
      map ar_event_id (take l (drop k (filter (\<lambda>r. startswith (ar_target_id r) p) tbl))) \<and>
    map ae_sequence es =
      map Suc (take l [k..<length (filter (\<lambda>r. startswith (ar_target_id r) p) tbl)]) \<and>
    list_all (\<lambda>e. startswith (ae_target_id e) p) es"
proof -
  let ?own = "filter (\<lambda>r. startswith (ar_target_id r) p) tbl"
  let ?rows = "take l (drop k (scoped_audit_rows p tbl))"
  have "mapE audit_event_from_row ?rows = Inr es"
    using assms
    by (auto simp: list_scoped_audit_events_def flow scoped_audit_rows_def
        audit_numbering.filter_after)
  note es = mapE_events [OF this]
  have ids: "map ae_event_id es = map ar_event_id (take l (drop k ?own))"
    unfolding es take_map [symmetric] drop_map [symmetric] by (simp add: map_scoped_rows)
  have seqs: "map ae_sequence es = map Suc (take l [k..<length ?own])"
    unfolding es scoped_audit_rows_def by (rule audit_numbering.page_sequence)
  have targets: "map ae_target_id es = map ar_target_id (take l (drop k ?own))"
    unfolding es take_map [symmetric] drop_map [symmetric] by (simp add: map_scoped_rows)
  have own: "\<forall>r \<in> set (take l (drop k ?own)). startswith (ar_target_id r) p"
    by (auto dest!: in_set_takeD in_set_dropD)
  have "\<forall>t \<in> set (map ae_target_id es). startswith t p"
    unfolding targets set_map using own by blast
  then have "list_all (\<lambda>e. startswith (ae_target_id e) p) es"
    by (simp add: list_all_iff)
  with ids seqs show ?thesis by simp
qed

theorem scoped_audit_page_witness:
  "\<exists>e :: audit_event. map ae_event_id [e] = [ar_event_id sample_row] \<and> map ae_sequence [e] = [1] \<and>
    list_all (\<lambda>e. startswith (ae_target_id e) ''t'') [e]"
proof -
  obtain e where e: "audit_event_from_row sample_row = Inr e"
    using sample_row_readable by (auto simp: returns_iff)
  have rows: "scoped_audit_rows ''t'' [sample_row] = [sample_row]"
    by (simp add: scoped_audit_rows_def number_rows_def startswith_def)
  have "require_text ''t'' = Inr ()"
    by (simp add: require_text_def is_space_def code_def)
  then have "list_scoped_audit_events ''t'' (int 0) (int 1) [sample_row] = Inr [e]"
    by (simp add: list_scoped_audit_events_def rows require_pagination_def e)
  note page = scoped_audit_page [OF this]
  show ?thesis
    by (rule exI [of _ e]) (use page in \<open>simp add: startswith_def\<close>)
qed

end
