(* ===== verification/Control_Tables.thy ===== *)
theory Control_Tables
  imports Audit_Log
begin

text \<open>
  The database of \<open>control_store.py\<close>: one record field per table of \<open>_SCHEMA\<close>, one record per
  row, the dataclasses that the store returns, and the conversions from a row to them. A nullable
  column is an option; the lease and completion columns that a check constraint ties to the state
  are shown to be present in \<open>Control_Jobs\<close>.
\<close>

section \<open>Tables\<close>

datatype job_state = Queued | Leased | Completed

record job_row =
  jr_job_id :: string
  jr_payload_digest :: string
  jr_state :: job_state
  jr_owner :: "string option"
  jr_token :: nat
  jr_attempt :: nat
  jr_acquired_at :: "int option"
  jr_expires_at :: "int option"
  jr_heartbeat_at :: "int option"
  jr_completion_key :: "string option"
  jr_result_digest :: "string option"
  jr_completed_at :: "int option"
  jr_created_at :: int
  jr_updated_at :: int

datatype lease_event_type = AcquiredEvent | ReacquiredEvent | HeartbeatEvent | CompletedEvent

record lease_event =
  le_sequence :: nat
  le_event_id :: string
  le_job_id :: string
  le_type :: lease_event_type
  le_owner :: string
  le_token :: nat
  le_attempt :: nat
  le_occurred_at :: int
  le_expires_at :: "int option"
  le_result_digest :: "string option"

record review_row =
  rr_sequence :: nat
  rr_event_id :: string
  rr_target_id :: string
  rr_idempotency_key :: string
  rr_content_digest :: string
  rr_actor_id :: string
  rr_status :: string
  rr_provenance_json :: string
  rr_detail_json :: string
  rr_occurred_at :: int

record projection_row =
  pr_target_id :: string
  pr_status :: string
  pr_version :: nat
  pr_last_event_id :: string
  pr_actor_id :: string
  pr_provenance_json :: string
  pr_detail_json :: string
  pr_occurred_at :: int

record control_db =
  jobs :: "job_row list"
  lease_events :: "lease_event list"
  review_events :: "review_row list"
  projections :: "projection_row list"
  audit_events :: "audit_row list"

definition empty_db :: control_db where
  "empty_db = \<lparr>jobs = [], lease_events = [], review_events = [], projections = [],
     audit_events = []\<rparr>"

section \<open>Returned records\<close>

record job_record =
  job_id :: string
  job_payload_digest :: string
  job_state :: job_state
  job_created_at :: datetime
  job_updated_at :: datetime

record lease =
  l_job_id :: string
  l_owner :: string
  l_token :: nat
  l_attempt :: nat
  l_acquired_at :: datetime
  l_expires_at :: datetime

record completion =
  c_job_id :: string
  c_idempotency_key :: string
  c_result_digest :: string
  c_token :: nat
  c_completed_at :: datetime

text \<open>A nullable column where a value is used: \<open>None\<close> does not occur (see \<open>job_wf\<close>).\<close>

definition column :: "'a option \<Rightarrow> exn + 'a" where
  "column x = (case x of None \<Rightarrow> Inl TypeError | Some y \<Rightarrow> Inr y)"

definition job_from_row :: "job_row \<Rightarrow> exn + job_record" where
  "job_from_row r =
     bindE (from_micros (jr_created_at r)) (\<lambda>c.
     bindE (from_micros (jr_updated_at r)) (\<lambda>u.
     Inr \<lparr>job_id = jr_job_id r, job_payload_digest = jr_payload_digest r,
       job_state = jr_state r, job_created_at = c, job_updated_at = u\<rparr>))"

definition lease_from_row :: "job_row \<Rightarrow> exn + lease" where
  "lease_from_row r =
     bindE (column (jr_owner r)) (\<lambda>owner.
     bindE (bindE (column (jr_acquired_at r)) from_micros) (\<lambda>a.
     bindE (bindE (column (jr_expires_at r)) from_micros) (\<lambda>e.
     Inr \<lparr>l_job_id = jr_job_id r, l_owner = owner, l_token = jr_token r,
       l_attempt = jr_attempt r, l_acquired_at = a, l_expires_at = e\<rparr>)))"

definition completion_from_row :: "job_row \<Rightarrow> exn + completion" where
  "completion_from_row r =
     bindE (column (jr_completion_key r)) (\<lambda>k.
     bindE (column (jr_result_digest r)) (\<lambda>d.
     bindE (bindE (column (jr_completed_at r)) from_micros) (\<lambda>t.
     Inr \<lparr>c_job_id = jr_job_id r, c_idempotency_key = k, c_result_digest = d,
       c_token = jr_token r, c_completed_at = t\<rparr>)))"

lemma column_simps [simp]: "column (Some x) = Inr x" "column None = Inl TypeError"
  by (simp_all add: column_def)

text \<open>\<open>_append_audit_event\<close> of the control store on its database.\<close>

definition control_audit ::
  "string \<Rightarrow> audit_context option \<Rightarrow> control_db \<Rightarrow> exn + control_db" where
  "control_audit uuid audit db =
     bindE (append_audit validate_audit_context uuid audit (audit_events db)) (\<lambda>(_, tbl).
     Inr (db\<lparr>audit_events := tbl\<rparr>))"

lemma control_audit_Inr:
  "control_audit uuid audit db = Inr db' \<longleftrightarrow>
     (\<exists>n tbl. append_audit validate_audit_context uuid audit (audit_events db) = Inr (n, tbl) \<and>
       db' = db\<lparr>audit_events := tbl\<rparr>)"
  by (auto simp: control_audit_def bindE_Inr)

lemma control_audit_frame:
  assumes "control_audit uuid audit db = Inr db'"
  shows "jobs db' = jobs db" "lease_events db' = lease_events db"
    "review_events db' = review_events db" "projections db' = projections db"
    "prefix (audit_events db) (audit_events db')"
  using assms by (auto simp: control_audit_Inr dest: append_audit_prefix)

text \<open>The two public operations on the audit table alone.\<close>

definition append_audit_event ::
  "string \<Rightarrow> audit_context \<Rightarrow> control_db \<Rightarrow> exn + audit_event \<times> control_db" where
  "append_audit_event uuid audit db =
     bindE (append_audit validate_audit_context uuid (Some audit) (audit_events db)) (\<lambda>(n, tbl).
     case n of
       None \<Rightarrow> Inl AssertionError
     | Some n \<Rightarrow>
         (case find (\<lambda>r. ar_sequence r = n) tbl of
            None \<Rightarrow> Inl AssertionError
          | Some r \<Rightarrow>
              bindE (audit_event_from_row r) (\<lambda>e. Inr (e, db\<lparr>audit_events := tbl\<rparr>))))"

lemma append_audit_event_Inr:
  assumes "append_audit_event uuid audit db = Inr (e, db')"
  shows "control_audit uuid (Some audit) db = Inr db'"
proof -
  from assms obtain n tbl
    where "append_audit validate_audit_context uuid (Some audit) (audit_events db) = Inr (n, tbl)"
      "db' = db\<lparr>audit_events := tbl\<rparr>"
    by (auto simp: append_audit_event_def bindE_Inr split: option.splits)
  then show ?thesis by (auto simp: control_audit_Inr)
qed

end
