(* ===== verification/Control_Jobs.thy ===== *)
theory Control_Jobs
  imports Control_Tables
begin

text \<open>
  The bounded lease queue of \<open>control_store.py\<close>: register, get, acquire, heartbeat, complete.
  \<open>now\<close> is the value of \<open>now or datetime.now(UTC)\<close>; \<open>eid\<close> and \<open>aid\<close> are the values of \<open>uuid4()\<close>
  for the lease event and for the audit event; \<open>limit\<close> is \<open>self._max_active_leases\<close>.
\<close>

section \<open>The code\<close>

definition max_active_leases :: nat where "max_active_leases = 3"
definition max_lease_seconds :: int where "max_lease_seconds = 30 * 60"

definition require_sha256 :: "string \<Rightarrow> exn + unit" where
  "require_sha256 s = require (sha256_pattern s) ValueError"

definition require_ttl :: "int \<Rightarrow> exn + unit" where
  "require_ttl ttl = require (\<not> (ttl < 1 \<or> ttl > max_lease_seconds)) ValueError"

text \<open>The checks of \<open>__init__\<close> on its numbers.\<close>

definition configure_store :: "nat \<Rightarrow> rat \<Rightarrow> exn + nat" where
  "configure_store limit busy_timeout_seconds =
     bindE (require (\<not> (limit < 1 \<or> limit > max_active_leases)) ValueError) (\<lambda>_.
     bindE (require (\<not> busy_timeout_seconds \<le> 0) ValueError) (\<lambda>_. Inr limit))"

definition find_job :: "string \<Rightarrow> control_db \<Rightarrow> job_row option" where
  "find_job j db = find (\<lambda>r. jr_job_id r = j) (jobs db)"

definition job_row :: "string \<Rightarrow> control_db \<Rightarrow> exn + job_row" where
  "job_row j db = (case find_job j db of None \<Rightarrow> Inl JobNotFoundError | Some r \<Rightarrow> Inr r)"

definition update_job :: "string \<Rightarrow> (job_row \<Rightarrow> job_row) \<Rightarrow> control_db \<Rightarrow> control_db" where
  "update_job j f db = db\<lparr>jobs := update_where (\<lambda>r. jr_job_id r = j) f (jobs db)\<rparr>"

text \<open>\<open>state = 'leased' and lease_expires_at > now\<close>.\<close>

definition lease_active :: "int \<Rightarrow> job_row \<Rightarrow> bool" where
  "lease_active now_us r =
     (jr_state r = Leased \<and> (case jr_expires_at r of None \<Rightarrow> False | Some e \<Rightarrow> e > now_us))"

definition require_current_lease :: "job_row \<Rightarrow> lease \<Rightarrow> int \<Rightarrow> exn + unit" where
  "require_current_lease r l now_us =
     (if jr_state r \<noteq> Leased \<or> jr_owner r \<noteq> Some (l_owner l) \<or> jr_token r \<noteq> l_token l \<or>
         jr_attempt r \<noteq> l_attempt l \<or>
         (case jr_expires_at r of None \<Rightarrow> True | Some e \<Rightarrow> e \<le> now_us)
      then Inl StaleLeaseError else Inr ())"

definition append_lease_event ::
  "string \<Rightarrow> string \<Rightarrow> lease_event_type \<Rightarrow> string \<Rightarrow> nat \<Rightarrow> nat \<Rightarrow> int \<Rightarrow> int option \<Rightarrow>
   string option \<Rightarrow> control_db \<Rightarrow> exn + control_db" where
  "append_lease_event eid j ty owner token attempt now_us expires digest db =
     bindE (insert_row (\<lambda>r r'. le_event_id r = le_event_id r')
       \<lparr>le_sequence = next_sequence le_sequence (lease_events db), le_event_id = eid,
        le_job_id = j, le_type = ty, le_owner = owner, le_token = token, le_attempt = attempt,
        le_occurred_at = now_us, le_expires_at = expires, le_result_digest = digest\<rparr>
       (lease_events db)) (\<lambda>es.
     Inr (db\<lparr>lease_events := es\<rparr>))"

definition register_job ::
  "string \<Rightarrow> string \<Rightarrow> datetime \<Rightarrow> audit_context option \<Rightarrow> string \<Rightarrow> control_db \<Rightarrow>
   exn + job_record \<times> control_db" where
  "register_job j payload_digest now audit aid db =
     bindE (require_text j) (\<lambda>_.
     bindE (require_sha256 payload_digest) (\<lambda>_.
     bindE (to_micros now) (\<lambda>now_us.
     case find_job j db of
       Some r \<Rightarrow>
         if jr_payload_digest r \<noteq> payload_digest then Inl ControlConflictError
         else bindE (control_audit aid audit db) (\<lambda>db'.
              bindE (job_from_row r) (\<lambda>rec. Inr (rec, db')))
     | None \<Rightarrow>
         let r = \<lparr>jr_job_id = j, jr_payload_digest = payload_digest, jr_state = Queued,
                  jr_owner = None, jr_token = 0, jr_attempt = 0, jr_acquired_at = None,
                  jr_expires_at = None, jr_heartbeat_at = None, jr_completion_key = None,
                  jr_result_digest = None, jr_completed_at = None, jr_created_at = now_us,
                  jr_updated_at = now_us\<rparr> in
         bindE (insert_row (\<lambda>r r'. jr_job_id r = jr_job_id r') r (jobs db)) (\<lambda>js.
         let db1 = db\<lparr>jobs := js\<rparr> in
         case find_job j db1 of
           None \<Rightarrow> Inl AssertionError
         | Some r \<Rightarrow>
             bindE (control_audit aid audit db1) (\<lambda>db2.
             bindE (job_from_row r) (\<lambda>rec. Inr (rec, db2)))))))"

definition get_job :: "string \<Rightarrow> control_db \<Rightarrow> exn + job_record" where
  "get_job j db = bindE (job_row j db) job_from_row"

definition acquire ::
  "nat \<Rightarrow> string \<Rightarrow> string \<Rightarrow> datetime \<Rightarrow> int \<Rightarrow> audit_context option \<Rightarrow> string \<Rightarrow> string \<Rightarrow>
   control_db \<Rightarrow> exn + lease \<times> control_db" where
  "acquire limit j owner now ttl audit eid aid db =
     bindE (require_text j) (\<lambda>_.
     bindE (require_text owner) (\<lambda>_.
     bindE (require_ttl ttl) (\<lambda>_.
     bindE (to_micros now) (\<lambda>now_us.
     bindE (bindE (plus_us now (ttl * 1000000)) to_micros) (\<lambda>expires_us.
     bindE (job_row j db) (\<lambda>r.
     if jr_state r = Completed then Inl LeaseUnavailableError
     else if lease_active now_us r then
       if jr_owner r = Some owner then
         bindE (control_audit aid audit db) (\<lambda>db'.
         bindE (lease_from_row r) (\<lambda>l. Inr (l, db')))
       else Inl LeaseUnavailableError
     else if count_where (lease_active now_us) (jobs db) \<ge> limit then Inl LeaseUnavailableError
     else
       let token = jr_token r + 1;
           attempt = jr_attempt r + 1;
           ty = (if token = 1 then AcquiredEvent else ReacquiredEvent);
           db1 = update_job j (\<lambda>r. r\<lparr>jr_state := Leased, jr_owner := Some owner,
             jr_token := token, jr_attempt := attempt, jr_acquired_at := Some now_us,
             jr_expires_at := Some expires_us, jr_heartbeat_at := Some now_us,
             jr_updated_at := now_us\<rparr>) db in
       bindE (append_lease_event eid j ty owner token attempt now_us (Some expires_us) None db1)
         (\<lambda>db2.
       bindE (job_row j db2) (\<lambda>r.
       bindE (control_audit aid audit db2) (\<lambda>db3.
       bindE (lease_from_row r) (\<lambda>l. Inr (l, db3)))))))))))"

definition heartbeat ::
  "lease \<Rightarrow> datetime \<Rightarrow> int \<Rightarrow> audit_context option \<Rightarrow> string \<Rightarrow> string \<Rightarrow> control_db \<Rightarrow>
   exn + lease \<times> control_db" where
  "heartbeat l now ttl audit eid aid db =
     bindE (require_ttl ttl) (\<lambda>_.
     bindE (to_micros now) (\<lambda>now_us.
     bindE (bindE (plus_us now (ttl * 1000000)) to_micros) (\<lambda>expires_us.
     bindE (job_row (l_job_id l) db) (\<lambda>r.
     bindE (require_current_lease r l now_us) (\<lambda>_.
     let db1 = update_job (l_job_id l) (\<lambda>r. r\<lparr>jr_expires_at := Some expires_us,
           jr_heartbeat_at := Some now_us, jr_updated_at := now_us\<rparr>) db in
     bindE (append_lease_event eid (l_job_id l) HeartbeatEvent (l_owner l) (l_token l)
       (l_attempt l) now_us (Some expires_us) None db1) (\<lambda>db2.
     bindE (control_audit aid audit db2) (\<lambda>db3.
     bindE (bindE (job_row (l_job_id l) db3) lease_from_row) (\<lambda>l'. Inr (l', db3)))))))))"

definition complete ::
  "lease \<Rightarrow> string \<Rightarrow> string \<Rightarrow> datetime \<Rightarrow> audit_context option \<Rightarrow> string \<Rightarrow> string \<Rightarrow>
   control_db \<Rightarrow> exn + completion \<times> control_db" where
  "complete l key digest now audit eid aid db =
     bindE (require_text key) (\<lambda>_.
     bindE (require_sha256 digest) (\<lambda>_.
     bindE (to_micros now) (\<lambda>now_us.
     bindE (job_row (l_job_id l) db) (\<lambda>r.
     if jr_state r = Completed then
       if jr_owner r \<noteq> Some (l_owner l) \<or> jr_token r \<noteq> l_token l \<or> jr_attempt r \<noteq> l_attempt l
       then Inl StaleLeaseError
       else if jr_completion_key r = Some key \<and> jr_result_digest r = Some digest then
         bindE (control_audit aid audit db) (\<lambda>db'.
         bindE (completion_from_row r) (\<lambda>c. Inr (c, db')))
       else Inl ControlConflictError
     else
       bindE (require_current_lease r l now_us) (\<lambda>_.
       let db1 = update_job (l_job_id l) (\<lambda>r. r\<lparr>jr_state := Completed,
             jr_completion_key := Some key, jr_result_digest := Some digest,
             jr_completed_at := Some now_us, jr_updated_at := now_us\<rparr>) db in
       bindE (append_lease_event eid (l_job_id l) CompletedEvent (l_owner l) (l_token l)
         (l_attempt l) now_us None (Some digest) db1) (\<lambda>db2.
       bindE (control_audit aid audit db2) (\<lambda>db3.
       bindE (bindE (job_row (l_job_id l) db3) completion_from_row) (\<lambda>c. Inr (c, db3)))))))))"

section \<open>What the operations do to the queue\<close>

text \<open>
  The contract of the queue: a successful operation at time \<open>now\<close> leaves jobs and lease events
  alone, adds a queued job, grants a lease that is free, extends the lease that is current, or
  completes the job under it.
\<close>

definition lease_event_of ::
  "control_db \<Rightarrow> string \<Rightarrow> string \<Rightarrow> lease_event_type \<Rightarrow> string \<Rightarrow> nat \<Rightarrow> nat \<Rightarrow> int \<Rightarrow>
   int option \<Rightarrow> string option \<Rightarrow> lease_event" where
  "lease_event_of db eid j ty owner token attempt now_us expires digest =
     \<lparr>le_sequence = next_sequence le_sequence (lease_events db), le_event_id = eid,
      le_job_id = j, le_type = ty, le_owner = owner, le_token = token, le_attempt = attempt,
      le_occurred_at = now_us, le_expires_at = expires, le_result_digest = digest\<rparr>"

definition fresh_event :: "string \<Rightarrow> control_db \<Rightarrow> bool" where
  "fresh_event eid db = (\<forall>e \<in> set (lease_events db). le_event_id e \<noteq> eid)"

inductive job_effect :: "nat \<Rightarrow> int \<Rightarrow> control_db \<Rightarrow> control_db \<Rightarrow> bool"
  for limit now_us db db' where
  idle: "jobs db' = jobs db \<Longrightarrow> lease_events db' = lease_events db \<Longrightarrow> job_effect limit now_us db db'"
| enqueue: "jobs db' = jobs db @ [r] \<Longrightarrow> lease_events db' = lease_events db \<Longrightarrow>
    find_job (jr_job_id r) db = None \<Longrightarrow> jr_state r = Queued \<Longrightarrow> jr_token r = 0 \<Longrightarrow>
    jr_attempt r = 0 \<Longrightarrow> jr_expires_at r = None \<Longrightarrow> job_effect limit now_us db db'"
| grant: "find_job j db = Some r \<Longrightarrow> jr_state r \<noteq> Completed \<Longrightarrow> \<not> lease_active now_us r \<Longrightarrow>
    count_where (lease_active now_us) (jobs db) < limit \<Longrightarrow>
    jobs db' = jobs (update_job j (\<lambda>x. x\<lparr>jr_state := Leased, jr_owner := Some owner,
      jr_token := Suc (jr_token r), jr_attempt := Suc (jr_attempt r), jr_acquired_at := Some now_us,
      jr_expires_at := Some expires, jr_heartbeat_at := Some now_us,
      jr_updated_at := now_us\<rparr>) db) \<Longrightarrow> fresh_event eid db \<Longrightarrow>
    lease_events db' = lease_events db @ [lease_event_of db eid j
      (if jr_token r = 0 then AcquiredEvent else ReacquiredEvent) owner (Suc (jr_token r))
      (Suc (jr_attempt r)) now_us (Some expires) None] \<Longrightarrow> job_effect limit now_us db db'"
| extend: "find_job j db = Some r \<Longrightarrow> lease_active now_us r \<Longrightarrow>
    jr_owner r = Some owner \<Longrightarrow>
    jobs db' = jobs (update_job j (\<lambda>x. x\<lparr>jr_expires_at := Some expires,
      jr_heartbeat_at := Some now_us, jr_updated_at := now_us\<rparr>) db) \<Longrightarrow> fresh_event eid db \<Longrightarrow>
    lease_events db' = lease_events db @ [lease_event_of db eid j HeartbeatEvent owner (jr_token r)
      (jr_attempt r) now_us (Some expires) None] \<Longrightarrow> job_effect limit now_us db db'"
| finish: "find_job j db = Some r \<Longrightarrow> lease_active now_us r \<Longrightarrow>
    jr_owner r = Some owner \<Longrightarrow>
    jobs db' = jobs (update_job j (\<lambda>x. x\<lparr>jr_state := Completed, jr_completion_key := Some key,
      jr_result_digest := Some digest, jr_completed_at := Some now_us,
      jr_updated_at := now_us\<rparr>) db) \<Longrightarrow> fresh_event eid db \<Longrightarrow>
    lease_events db' = lease_events db @ [lease_event_of db eid j CompletedEvent owner (jr_token r)
      (jr_attempt r) now_us None (Some digest)] \<Longrightarrow> job_effect limit now_us db db'"

lemma find_job_Some:
  "find_job j db = Some r \<Longrightarrow> r \<in> set (jobs db) \<and> jr_job_id r = j"
  unfolding find_job_def by (drule find_SomeD)

lemma job_row_Inr [flow]: "job_row j db = Inr r \<longleftrightarrow> find_job j db = Some r"
  by (simp add: job_row_def split: option.splits)

lemma require_current_lease_Inr [flow]:
  "require_current_lease r l now_us = Inr u \<longleftrightarrow>
     lease_active now_us r \<and> jr_owner r = Some (l_owner l) \<and> jr_token r = l_token l \<and>
     jr_attempt r = l_attempt l"
  by (auto simp: require_current_lease_def lease_active_def split: option.splits)

lemma require_current_lease_Inl [flow]:
  "require_current_lease r l now_us = Inl e \<longleftrightarrow>
     e = StaleLeaseError \<and> \<not> (lease_active now_us r \<and> jr_owner r = Some (l_owner l) \<and>
     jr_token r = l_token l \<and> jr_attempt r = l_attempt l)"
  by (auto simp: require_current_lease_def lease_active_def split: option.splits)

lemma append_lease_event_Inr [flow]:
  "append_lease_event eid j ty owner token attempt now_us expires digest db = Inr db' \<longleftrightarrow>
     fresh_event eid db \<and>
     db' = db\<lparr>lease_events := lease_events db @ [lease_event_of db eid j ty owner token attempt
       now_us expires digest]\<rparr>"
  by (auto simp: append_lease_event_def bindE_Inr insert_row_Inr fresh_event_def
      lease_event_of_def)

lemma update_job_simps [simp]:
  "lease_events (update_job j f db) = lease_events db"
  "audit_events (update_job j f db) = audit_events db"
  "jobs (update_job j f db) = update_where (\<lambda>r. jr_job_id r = j) f (jobs db)"
  "fresh_event eid (update_job j f db) = fresh_event eid db"
  "lease_event_of (update_job j f db) = lease_event_of db"
  by (simp_all add: update_job_def fresh_event_def lease_event_of_def fun_eq_iff)

lemma find_job_update [simp]:
  assumes "\<And>x. jr_job_id (f x) = jr_job_id x"
  shows "find_job i (update_job j f db) =
    (if i = j then map_option f (find_job i db) else find_job i db)"
  using assms by (simp add: find_job_def find_update_where_key)

lemma find_job_cong: "jobs db' = jobs db \<Longrightarrow> find_job j db' = find_job j db"
  by (simp add: find_job_def)

lemma control_audit_effect:
  "control_audit aid audit db1 = Inr db2 \<Longrightarrow> jobs db2 = jobs db1 \<and> lease_events db2 = lease_events db1"
  by (simp add: control_audit_frame)

lemma register_job_effect:
  assumes "register_job j d now audit aid db = Inr (rec, db')"
  shows "\<exists>now_us. to_micros now = Inr now_us \<and> job_effect limit now_us db db'"
proof (cases "find_job j db")
  case (Some r)
  with assms show ?thesis
    by (auto simp: register_job_def flow split: if_splits dest!: control_audit_effect
        intro: job_effect.idle)
next
  case None
  with assms show ?thesis
    by (auto simp: register_job_def flow Let_def split: option.splits dest!: control_audit_effect
        intro!: job_effect.enqueue)
qed

lemma acquire_effect:
  assumes "acquire limit j owner now ttl audit eid aid db = Inr (l, db')"
  shows "\<exists>now_us. to_micros now = Inr now_us \<and> job_effect limit now_us db db'"
proof -
  from assms obtain now_us expires r where t: "to_micros now = Inr now_us"
    and r: "find_job j db = Some r"
    and expires: "bindE (plus_us now (ttl * 1000000)) to_micros = Inr expires"
    by (auto simp: acquire_def bindE_Inr job_row_Inr)
  show ?thesis
  proof (cases "lease_active now_us r")
    case True
    then have "jobs db' = jobs db \<and> lease_events db' = lease_events db"
      using assms t r expires
      by (auto simp: acquire_def bindE_Inr job_row_def dest: control_audit_effect split: if_splits)
    then show ?thesis using t by (auto intro: job_effect.idle)
  next
    case False
    have "job_effect limit now_us db db'"
      by (rule job_effect.grant [OF r _ False, where owner = owner and expires = expires
            and eid = eid])
        (use assms t r expires False in \<open>auto simp: acquire_def bindE_Inr job_row_def Let_def
          append_lease_event_Inr dest!: control_audit_effect split: if_splits\<close>)
    then show ?thesis using t by blast
  qed
qed

lemma heartbeat_effect:
  assumes "heartbeat l now ttl audit eid aid db = Inr (l', db')"
  shows "\<exists>now_us. to_micros now = Inr now_us \<and> job_effect limit now_us db db'"
proof -
  from assms obtain now_us expires r where t: "to_micros now = Inr now_us"
    and r: "find_job (l_job_id l) db = Some r"
    and current: "require_current_lease r l now_us = Inr ()"
    and expires: "bindE (plus_us now (ttl * 1000000)) to_micros = Inr expires"
    by (auto simp: heartbeat_def bindE_Inr job_row_Inr)
  have "job_effect limit now_us db db'"
    by (rule job_effect.extend [OF r, where owner = "l_owner l" and expires = expires and eid = eid])
      (use assms t r current expires in \<open>auto simp: heartbeat_def bindE_Inr job_row_Inr Let_def
        append_lease_event_Inr require_current_lease_Inr dest!: control_audit_effect\<close>)
  then show ?thesis using t by blast
qed

lemma complete_effect:
  assumes "complete l key digest now audit eid aid db = Inr (c, db')"
  shows "\<exists>now_us. to_micros now = Inr now_us \<and> job_effect limit now_us db db'"
proof -
  from assms obtain now_us r where t: "to_micros now = Inr now_us"
    and r: "find_job (l_job_id l) db = Some r"
    by (auto simp: complete_def bindE_Inr job_row_Inr)
  show ?thesis
  proof (cases "jr_state r = Completed")
    case True
    with assms t r have "jobs db' = jobs db \<and> lease_events db' = lease_events db"
      by (auto simp: complete_def bindE_Inr job_row_def dest: control_audit_effect split: if_splits)
    then show ?thesis using t by (auto intro: job_effect.idle)
  next
    case False
    have "job_effect limit now_us db db'"
      by (rule job_effect.finish [OF r, where owner = "l_owner l" and key = key and digest = digest
            and eid = eid])
        (use assms t r False in \<open>auto simp: complete_def bindE_Inr job_row_def Let_def
          append_lease_event_Inr require_current_lease_Inr dest!: control_audit_effect\<close>)
    then show ?thesis using t by blast
  qed
qed

section \<open>The queue as a transition system\<close>

text \<open>
  One call at time \<open>now_us\<close>, with any arguments and any outcome; a call that raises is rolled back
  and is a step that changes nothing.
\<close>

inductive job_step :: "nat \<Rightarrow> int \<Rightarrow> control_db \<Rightarrow> control_db \<Rightarrow> bool" for limit now_us db db' where
  register_step: "to_micros now = Inr now_us \<Longrightarrow>
    db' = snd (transaction (register_job j d now audit aid) db) \<Longrightarrow> job_step limit now_us db db'"
| acquire_step: "to_micros now = Inr now_us \<Longrightarrow>
    db' = snd (transaction (acquire limit j owner now ttl audit eid aid) db) \<Longrightarrow>
    job_step limit now_us db db'"
| heartbeat_step: "to_micros now = Inr now_us \<Longrightarrow>
    db' = snd (transaction (heartbeat l now ttl audit eid aid) db) \<Longrightarrow>
    job_step limit now_us db db'"
| complete_step: "to_micros now = Inr now_us \<Longrightarrow>
    db' = snd (transaction (complete l key digest now audit eid aid) db) \<Longrightarrow>
    job_step limit now_us db db'"

definition any_job_step :: "nat \<Rightarrow> control_db \<Rightarrow> control_db \<Rightarrow> bool" where
  "any_job_step limit db db' = (\<exists>now_us. job_step limit now_us db db')"

text \<open>A history in which the clock of the callers never goes back.\<close>

definition timed_step :: "nat \<Rightarrow> int \<times> control_db \<Rightarrow> int \<times> control_db \<Rightarrow> bool" where
  "timed_step limit s s' = (fst s \<le> fst s' \<and> job_step limit (fst s') (snd s) (snd s'))"

lemma transaction_effect:
  assumes "\<And>r db'. body db = Inr (r, db') \<Longrightarrow> \<exists>t. to_micros now = Inr t \<and> job_effect limit t db db'"
    and "to_micros now = Inr now_us"
  shows "job_effect limit now_us db (snd (transaction body db))"
proof (cases "body db")
  case (Inl e)
  then show ?thesis by (simp add: transaction_def job_effect.idle)
next
  case (Inr x)
  with assms show ?thesis by (cases x) (force simp: transaction_def)
qed

lemma job_step_effect: "job_step limit now_us db db' \<Longrightarrow> job_effect limit now_us db db'"
  by (induction rule: job_step.induct)
    (auto intro!: transaction_effect dest: register_job_effect acquire_effect heartbeat_effect
      complete_effect)

section \<open>The invariant\<close>

definition events_of :: "string \<Rightarrow> lease_event list \<Rightarrow> lease_event list" where
  "events_of j es = filter (\<lambda>e. le_job_id e = j) es"

definition is_grant :: "lease_event \<Rightarrow> bool" where
  "is_grant e = (le_type e \<in> {AcquiredEvent, ReacquiredEvent})"

definition is_completion :: "lease_event \<Rightarrow> bool" where
  "is_completion e = (le_type e = CompletedEvent)"

text \<open>
  What the history of one job and its row say of each other: the fencing token counts the grants,
  which are numbered 1, 2, ... in order; no event carries a later token; a completed job has
  one completion, and the nullable columns are present in the states that use them.
\<close>

definition row_wf :: "lease_event list \<Rightarrow> job_row \<Rightarrow> bool" where
  "row_wf es r =
     (jr_attempt r = jr_token r \<and>
      map le_token (filter is_grant es) = map Suc [0..<jr_token r] \<and>
      (\<forall>e \<in> set es. 1 \<le> le_token e \<and> le_token e \<le> jr_token r) \<and>
      count_where is_completion es = (if jr_state r = Completed then 1 else 0) \<and>
      (jr_state r = Queued \<longrightarrow> jr_token r = 0) \<and>
      (jr_state r \<noteq> Queued \<longrightarrow> 0 < jr_token r \<and> jr_owner r \<noteq> None \<and> jr_acquired_at r \<noteq> None \<and>
         jr_expires_at r \<noteq> None) \<and>
      (jr_state r = Completed \<longrightarrow> jr_completion_key r \<noteq> None \<and> jr_result_digest r \<noteq> None \<and>
         jr_completed_at r \<noteq> None))"

definition job_wf :: "control_db \<Rightarrow> bool" where
  "job_wf db =
     (distinct (map jr_job_id (jobs db)) \<and>
      sequence_ok le_sequence (lease_events db) \<and> distinct (map le_event_id (lease_events db)) \<and>
      (\<forall>e \<in> set (lease_events db). le_job_id e \<in> jr_job_id ` set (jobs db)) \<and>
      (\<forall>r \<in> set (jobs db). row_wf (events_of (jr_job_id r) (lease_events db)) r))"

lemma events_of_simps [simp]:
  "events_of j [] = []"
  "events_of j (es @ [e]) = (if le_job_id e = j then events_of j es @ [e] else events_of j es)"
  by (simp_all add: events_of_def)

lemma lease_event_of_simps [simp]:
  "le_sequence (lease_event_of db eid j ty owner token attempt t x d) =
     next_sequence le_sequence (lease_events db)"
  "le_event_id (lease_event_of db eid j ty owner token attempt t x d) = eid"
  "le_job_id (lease_event_of db eid j ty owner token attempt t x d) = j"
  "le_token (lease_event_of db eid j ty owner token attempt t x d) = token"
  "is_grant (lease_event_of db eid j ty owner token attempt t x d) \<longleftrightarrow>
     ty \<in> {AcquiredEvent, ReacquiredEvent}"
  "is_completion (lease_event_of db eid j ty owner token attempt t x d) \<longleftrightarrow> ty = CompletedEvent"
  by (simp_all add: lease_event_of_def is_grant_def is_completion_def)

text \<open>All three updates of a job touch one row and add one event of that job.\<close>

lemma job_wf_update:
  assumes wf: "job_wf db" and r: "find_job j db = Some r"
    and "jobs db' = jobs (update_job j f db)" and key: "\<And>x. jr_job_id (f x) = jr_job_id x"
    and "lease_events db' = lease_events db @ [e]" and "le_job_id e = j"
    and "le_sequence e = next_sequence le_sequence (lease_events db)"
    and "le_event_id e = eid" and "fresh_event eid db"
    and row: "row_wf (events_of j (lease_events db)) r \<Longrightarrow>
      row_wf (events_of j (lease_events db) @ [e]) (f r)"
  shows "job_wf db'"
proof -
  have dist: "distinct (map jr_job_id (jobs db))" and r': "r \<in> set (jobs db)" "jr_job_id r = j"
    using wf find_job_Some [OF r] by (auto simp: job_wf_def)
  have js: "jobs db' = update_where (\<lambda>x. jr_job_id x = j) f (jobs db)"
    using assms(3) by simp
  have rows: "row_wf (events_of (jr_job_id x) (lease_events db')) x" if "x \<in> set (jobs db')" for x
    using that unfolding js
  proof (cases rule: update_whereE)
    case 1
    with wf assms(5,6) show ?thesis by (simp add: job_wf_def)
  next
    case (2 y)
    then have "y = r" using key_inj [OF dist _ r'(1)] r'(2) by simp
    with 2 wf key row assms(5,6) r' show ?thesis by (auto simp: job_wf_def)
  qed
  have ids: "jr_job_id ` set (jobs db') = jr_job_id ` set (jobs db)"
    unfolding js using key by (rule keys_update_where)
  have "distinct (map jr_job_id (jobs db'))"
    unfolding js using dist key by (simp add: map_update_where)
  moreover have "le_job_id e \<in> jr_job_id ` set (jobs db)" using r' assms(6) by blast
  ultimately show ?thesis
    using rows wf assms(5-9) unfolding job_wf_def ids by (auto simp: sequence_ok_append fresh_event_def)
qed

lemma job_effect_wf:
  assumes "job_effect limit now_us db db'" and wf: "job_wf db"
  shows "job_wf db'"
  using assms(1)
proof cases
  case idle
  with wf show ?thesis by (simp add: job_wf_def)
next
  case (enqueue r)
  have "jr_job_id r \<notin> jr_job_id ` set (jobs db)"
    using enqueue(3) by (auto simp: find_job_def find_None_iff)
  moreover from this have "events_of (jr_job_id r) (lease_events db) = []"
    using wf unfolding job_wf_def events_of_def filter_empty_conv by metis
  ultimately show ?thesis
    using wf enqueue by (auto simp: job_wf_def row_wf_def)
next
  case (grant j r expires owner eid)
  show ?thesis
    by (rule job_wf_update [OF wf grant(1) grant(5) _ grant(7)])
      (use grant in \<open>auto simp: row_wf_def\<close>)
next
  case (extend j r owner expires eid)
  show ?thesis
    by (rule job_wf_update [OF wf extend(1) extend(4) _ extend(6)])
      (use extend in \<open>auto simp: row_wf_def lease_active_def\<close>)
next
  case (finish j r owner digest key eid)
  show ?thesis
    by (rule job_wf_update [OF wf finish(1) finish(4) _ finish(6)])
      (use finish in \<open>auto simp: row_wf_def lease_active_def\<close>)
qed

section \<open>Bounds, monotonicity and the interfaces\<close>

lemma lease_active_mono: "lease_active t r \<Longrightarrow> s \<le> t \<Longrightarrow> lease_active s r"
  by (auto simp: lease_active_def split: option.splits)

lemma job_effect_active:
  assumes "job_effect limit now_us db db'" and wf: "job_wf db"
    and "count_where (lease_active now_us) (jobs db) \<le> limit"
  shows "count_where (lease_active now_us) (jobs db') \<le> limit"
proof -
  have dist: "distinct (map jr_job_id (jobs db))" using wf by (simp add: job_wf_def)
  have upd: "count_where Q (update_where (\<lambda>x. jr_job_id x = j) f (jobs db)) + (if Q r then 1 else 0) =
      count_where Q (jobs db) + (if Q (f r) then 1 else 0)"
    if "find_job j db = Some r" "\<And>x. jr_job_id (f x) = jr_job_id x" for Q j r f
    using that find_job_Some [OF that(1)] by (intro count_where_update_key [OF dist]) auto
  show ?thesis
    using assms(1)
  proof cases
    case idle
    with assms(3) show ?thesis by simp
  next
    case (enqueue r)
    with assms(3) show ?thesis by (simp add: lease_active_def)
  next
    case (grant j r expires owner eid)
    show ?thesis
      unfolding grant(5) update_job_simps
      using upd [OF grant(1), of "\<lambda>x. x\<lparr>jr_state := Leased, jr_owner := Some owner,
        jr_token := Suc (jr_token r), jr_attempt := Suc (jr_attempt r), jr_acquired_at := Some now_us,
        jr_expires_at := Some expires, jr_heartbeat_at := Some now_us, jr_updated_at := now_us\<rparr>"
        "lease_active now_us"] grant(3,4) by (simp split: if_splits)
  next
    case (extend j r owner expires eid)
    show ?thesis
      unfolding extend(4) update_job_simps
      using upd [OF extend(1), of "\<lambda>x. x\<lparr>jr_expires_at := Some expires,
        jr_heartbeat_at := Some now_us, jr_updated_at := now_us\<rparr>" "lease_active now_us"]
        extend(2) assms(3) by (simp split: if_splits)
  next
    case (finish j r owner digest key eid)
    show ?thesis
      unfolding finish(4) update_job_simps
      using upd [OF finish(1), of "\<lambda>x. x\<lparr>jr_state := Completed, jr_completion_key := Some key,
        jr_result_digest := Some digest, jr_completed_at := Some now_us, jr_updated_at := now_us\<rparr>"
        "lease_active now_us"]
        finish(2) assms(3) by (simp split: if_splits)
  qed
qed

text \<open>A row only moves forward, and not at all once its job is completed.\<close>

definition row_forward :: "job_row \<Rightarrow> job_row \<Rightarrow> bool" where
  "row_forward r r' =
     (jr_job_id r' = jr_job_id r \<and> jr_payload_digest r' = jr_payload_digest r \<and>
      jr_created_at r' = jr_created_at r \<and> jr_token r \<le> jr_token r' \<and>
      (jr_state r = Completed \<longrightarrow> r' = r))"

lemma row_forward_refl [simp]: "row_forward r r"
  by (simp add: row_forward_def)

lemma row_forward_trans: "row_forward r r' \<Longrightarrow> row_forward r' r'' \<Longrightarrow> row_forward r r''"
  by (auto simp: row_forward_def)

lemma job_effect_forward:
  assumes "job_effect limit now_us db db'" and "find_job j db = Some r"
  shows "\<exists>r'. find_job j db' = Some r' \<and> row_forward r r'"
  using assms
  by cases (auto simp: find_job_def find_append find_update_where_key row_forward_def
      lease_active_def)

lemma steps_forward:
  "(any_job_step limit)\<^sup>*\<^sup>* db db' \<Longrightarrow> find_job j db = Some r \<Longrightarrow>
   \<exists>r'. find_job j db' = Some r' \<and> row_forward r r'"
proof (induction rule: rtranclp_induct)
  case (step db1 db2)
  then obtain r1 t where "find_job j db1 = Some r1" "row_forward r r1" "job_step limit t db1 db2"
    by (auto simp: any_job_step_def)
  then show ?case
    using job_effect_forward [OF job_step_effect] row_forward_trans by blast
qed simp

lemma job_wf_empty [simp]: "job_wf empty_db"
  by (simp add: job_wf_def empty_db_def)

interpretation job_table: invariant_system "\<lambda>db. db = empty_db" "any_job_step limit" job_wf for limit
  by unfold_locales (auto simp: any_job_step_def dest!: job_step_effect intro: job_effect_wf)

interpretation bounded_queue: invariant_system "\<lambda>s. snd s = empty_db" "timed_step limit"
  "\<lambda>s. job_wf (snd s) \<and> count_where (lease_active (fst s)) (jobs (snd s)) \<le> limit" for limit
proof (unfold_locales, goal_cases)
  case (1 s)
  then show ?case by simp (simp add: empty_db_def)
next
  case (2 s t)
  have "count_where (lease_active (fst t)) (jobs (snd s)) \<le> count_where (lease_active (fst s)) (jobs (snd s))"
    using 2 by (intro count_where_mono) (auto simp: timed_step_def intro: lease_active_mono)
  with 2 show ?case
    by (auto simp: timed_step_def dest!: job_step_effect intro: job_effect_wf job_effect_active)
qed

lemma job_effect_log: "job_effect limit t db db' \<Longrightarrow> prefix (lease_events db) (lease_events db')"
  by (induction rule: job_effect.induct) auto

interpretation lease_log: append_only_log "any_job_step limit" lease_events for limit
  by unfold_locales (auto simp: any_job_step_def dest!: job_step_effect intro: job_effect_log)

lemma heartbeat_stale:
  assumes "find_job (l_job_id l) db = Some r" and "jr_token r \<noteq> l_token l"
    and "require_ttl ttl = Inr ()" and "to_micros now = Inr t"
    and "bindE (plus_us now (ttl * 1000000)) to_micros = Inr e"
  shows "heartbeat l now ttl audit eid aid db = Inl StaleLeaseError"
  using assms by (simp add: heartbeat_def job_row_def require_current_lease_def)

lemma complete_stale:
  assumes "find_job (l_job_id l) db = Some r" and "jr_token r \<noteq> l_token l"
    and "require_text key = Inr ()" and "require_sha256 digest = Inr ()" and "to_micros now = Inr t"
  shows "complete l key digest now audit eid aid db = Inl StaleLeaseError"
  using assms by (simp add: complete_def job_row_def require_current_lease_def)

section \<open>Progress\<close>

lemma find_job_frame [simp]:
  "find_job j (db\<lparr>lease_events := x\<rparr>) = find_job j db"
  "find_job j (db\<lparr>audit_events := y\<rparr>) = find_job j db"
  by (simp_all add: find_job_def)

lemma control_audit_None [simp]: "control_audit aid None db = Inr db"
  by (simp add: control_audit_def append_audit_def)

text \<open>The audit log accepts the record of a call (or there is none), and is \<open>rows'\<close> afterwards.\<close>

definition audit_accepted :: "string \<Rightarrow> audit_context option \<Rightarrow> audit_row list \<Rightarrow> audit_row list \<Rightarrow> bool" where
  "audit_accepted aid audit rows rows' \<longleftrightarrow>
     (\<exists>n. append_audit validate_audit_context aid audit rows = Inr (n, rows'))"

lemma control_audit_accepted:
  "audit_accepted aid audit (audit_events db) rows \<Longrightarrow> control_audit aid audit db = Inr (db\<lparr>audit_events := rows\<rparr>)"
  by (auto simp: audit_accepted_def control_audit_def)

definition granted_row :: "string \<Rightarrow> int \<Rightarrow> int \<Rightarrow> job_row \<Rightarrow> job_row" where
  "granted_row owner now_us expires_us r =
     r\<lparr>jr_state := Leased, jr_owner := Some owner, jr_token := jr_token r + 1,
       jr_attempt := jr_attempt r + 1, jr_acquired_at := Some now_us,
       jr_expires_at := Some expires_us, jr_heartbeat_at := Some now_us, jr_updated_at := now_us\<rparr>"

lemma acquire_free:
  assumes "find_job j db = Some r" and "jr_state r \<noteq> Completed" and "\<not> lease_active now_us r"
    and "count_where (lease_active now_us) (jobs db) < limit" and "fresh_event eid db"
    and "require_text j = Inr ()" and "require_text owner = Inr ()" and "require_ttl ttl = Inr ()"
    and "to_micros now = Inr now_us" and "plus_us now (ttl * 1000000) = Inr later"
    and "to_micros later = Inr expires_us"
    and "from_micros now_us = Inr acquired" and "from_micros expires_us = Inr expires"
    and "audit_accepted aid audit (audit_events db) rows"
  shows "\<exists>db'. acquire limit j owner now ttl audit eid aid db =
      Inr (\<lparr>l_job_id = j, l_owner = owner, l_token = jr_token r + 1, l_attempt = jr_attempt r + 1,
        l_acquired_at = acquired, l_expires_at = expires\<rparr>, db') \<and>
    find_job j db' = Some (granted_row owner now_us expires_us r) \<and>
    (\<exists>e. le_event_id e = eid \<and> lease_events db' = lease_events db @ [e]) \<and> audit_events db' = rows"
  using assms find_job_Some [OF assms(1)]
  by (auto simp: control_audit_accepted acquire_def job_row_def Let_def append_lease_event_Inr [THEN iffD2]
      lease_from_row_def granted_row_def bindE_def require_def
      intro!: exI simp del: One_nat_def)

definition completed_row :: "string \<Rightarrow> string \<Rightarrow> int \<Rightarrow> job_row \<Rightarrow> job_row" where
  "completed_row key digest now_us r =
     r\<lparr>jr_state := Completed, jr_completion_key := Some key, jr_result_digest := Some digest,
       jr_completed_at := Some now_us, jr_updated_at := now_us\<rparr>"

lemma complete_current:
  assumes "find_job (l_job_id l) db = Some r" and active: "lease_active now_us r"
    and "jr_owner r = Some (l_owner l)" and "jr_token r = l_token l" and "jr_attempt r = l_attempt l"
    and "fresh_event eid db" and "require_text key = Inr ()" and "require_sha256 digest = Inr ()"
    and "to_micros now = Inr now_us" and "from_micros now_us = Inr completed"
    and "audit_accepted aid audit (audit_events db) rows"
  shows "\<exists>db'. complete l key digest now audit eid aid db =
      Inr (\<lparr>c_job_id = l_job_id l, c_idempotency_key = key, c_result_digest = digest,
        c_token = l_token l, c_completed_at = completed\<rparr>, db') \<and>
    find_job (l_job_id l) db' = Some (completed_row key digest now_us r) \<and> audit_events db' = rows"
proof -
  have "require_current_lease r l now_us = Inr ()" "jr_state r \<noteq> Completed"
    using assms(2-5) by (auto simp: flow lease_active_def)
  with assms(1,3-11) find_job_Some [OF assms(1)] show ?thesis
    by (auto simp: control_audit_accepted complete_def job_row_def Let_def append_lease_event_Inr [THEN iffD2]
        completion_from_row_def completed_row_def intro!: exI simp del: One_nat_def)
qed

section \<open>A run\<close>

text \<open>A digest, a registration and an acquisition, for examples.\<close>

definition sample_digest :: string where
  "sample_digest = replicate 64 CHR ''a''"

definition sample_registered :: control_db where
  "sample_registered = snd (transaction
     (register_job ''job'' sample_digest (utc 1700000000000000) None ''a0'') empty_db)"

definition sample_leased :: control_db where
  "sample_leased = snd (transaction
     (acquire 3 ''job'' ''worker'' (utc 1700000000000000) 60 None ''e1'' ''a1'') sample_registered)"

definition sample_lease :: lease where
  "sample_lease = \<lparr>l_job_id = ''job'', l_owner = ''worker'', l_token = 1, l_attempt = 1,
     l_acquired_at = utc 1700000000000000, l_expires_at = utc 1700000060000000\<rparr>"

lemma sample_digest_ok [simp]: "require_sha256 sample_digest = Inr ()"
  by (simp add: require_sha256_def sha256_pattern_def sample_digest_def list_all_iff is_hex_def
      code_def)

lemma sample_text [simp]:
  "require_text ''job'' = Inr ()" "require_text ''worker'' = Inr ()" "require_text ''done'' = Inr ()"
  by (simp_all add: require_text_def is_space_def code_def)

lemma era_times [simp]:
  "to_micros (utc 1700000060000000) = Inr 1700000060000000"
  "from_micros 1700000060000000 = Inr (utc 1700000060000000)"
  "to_micros (utc 1700000030000000) = Inr 1700000030000000"
  "from_micros 1700000030000000 = Inr (utc 1700000030000000)"
  "plus_us (utc 1700000000000000) 60000000 = Inr (utc 1700000060000000)"
  by (simp_all add: to_micros_exact_era from_micros_exact_era in_range_def min_wall_def max_wall_def)

lemma sample_register:
  "register_job ''job'' sample_digest (utc 1700000000000000) None ''a0'' empty_db =
     Inr (\<lparr>job_id = ''job'', job_payload_digest = sample_digest, job_state = Queued,
       job_created_at = utc 1700000000000000, job_updated_at = utc 1700000000000000\<rparr>,
     sample_registered)"
  by (simp add: sample_registered_def transaction_def register_job_def find_job_def empty_db_def
      insert_row_def control_audit_def append_audit_def job_from_row_def Let_def)

definition sample_job :: job_row where
  "sample_job = \<lparr>jr_job_id = ''job'', jr_payload_digest = sample_digest,
     jr_state = Queued, jr_owner = None, jr_token = 0, jr_attempt = 0, jr_acquired_at = None,
     jr_expires_at = None, jr_heartbeat_at = None, jr_completion_key = None,
     jr_result_digest = None, jr_completed_at = None, jr_created_at = 1700000000000000,
     jr_updated_at = 1700000000000000\<rparr>"

lemma sample_registered_db [simp]:
  "jobs sample_registered = [sample_job]" "lease_events sample_registered = []"
  "audit_events sample_registered = []"
  by (simp_all add: sample_registered_def transaction_def register_job_def find_job_def empty_db_def
      insert_row_def control_audit_def append_audit_def job_from_row_def Let_def sample_job_def)

lemma sample_job_simps [simp]:
  "jr_job_id sample_job = ''job''" "jr_state sample_job = Queued" "jr_token sample_job = 0"
  "jr_attempt sample_job = 0" "\<not> lease_active t sample_job"
  by (simp_all add: sample_job_def lease_active_def)

lemma find_sample_job [simp]: "find_job ''job'' sample_registered = Some sample_job"
  by (simp add: find_job_def)

lemma no_audit_accepted [simp]: "audit_accepted aid None rows rows' \<longleftrightarrow> rows' = rows"
  by (auto simp: audit_accepted_def append_audit_def)

lemma sample_acquire:
  "acquire 3 ''job'' ''worker'' (utc 1700000000000000) 60 None ''e1'' ''a1'' sample_registered =
     Inr (sample_lease, sample_leased) \<and>
   find_job ''job'' sample_leased =
     Some (granted_row ''worker'' 1700000000000000 1700000060000000 sample_job) \<and>
   (\<exists>e. le_event_id e = ''e1'' \<and> lease_events sample_leased = [e]) \<and> audit_events sample_leased = []"
  using acquire_free [OF find_sample_job, where limit = 3 and now_us = 1700000000000000
      and now = "utc 1700000000000000" and owner = "''worker''" and ttl = 60 and eid = "''e1''"
      and aid = "''a1''" and expires_us = 1700000060000000 and expires = "utc 1700000060000000"
      and acquired = "utc 1700000000000000" and later = "utc 1700000060000000" and audit = None
      and rows = "[]"]
  by (auto simp: sample_leased_def transaction_def sample_lease_def fresh_event_def
      require_ttl_def max_lease_seconds_def)

section \<open>Properties\<close>

text \<open>C3: fencing. Once a job has been granted under a later token, its earlier leases are dead:
  in every state reached from there, and whatever the clock says, a heartbeat or a completion with
  such a lease is refused with \<open>StaleLeaseError\<close>.\<close>

theorem superseded_lease_is_fenced:
  assumes "find_job (l_job_id l) db = Some r" and "l_token l < jr_token r"
    and "(any_job_step limit)\<^sup>*\<^sup>* db db'"
    and "require_ttl ttl = Inr ()" and "to_micros now = Inr t"
    and "bindE (plus_us now (ttl * 1000000)) to_micros = Inr e"
    and "require_text key = Inr ()" and "require_sha256 digest = Inr ()"
  shows "heartbeat l now ttl audit eid aid db' = Inl StaleLeaseError \<and>
    complete l key digest now audit eid aid db' = Inl StaleLeaseError"
proof -
  obtain r' where "find_job (l_job_id l) db' = Some r'" "row_forward r r'"
    using steps_forward [OF assms(3,1)] by blast
  moreover from this have "jr_token r' \<noteq> l_token l"
    using assms(2) by (simp add: row_forward_def)
  ultimately show ?thesis
    using assms(4-8) heartbeat_stale complete_stale by blast
qed

theorem superseded_lease_is_fenced_witness:
  "heartbeat (sample_lease\<lparr>l_token := 0\<rparr>) (utc 1700000000000000) 60 None ''e2'' ''a2'' sample_leased =
     Inl StaleLeaseError \<and>
   complete (sample_lease\<lparr>l_token := 0\<rparr>) ''done'' sample_digest (utc 1700000000000000) None ''e2''
     ''a2'' sample_leased = Inl StaleLeaseError"
  by (rule superseded_lease_is_fenced [where limit = 3 and db = sample_leased and
        r = "granted_row ''worker'' 1700000000000000 1700000060000000 sample_job" and
        t = 1700000000000000 and e = 1700000060000000])
    (use sample_acquire in \<open>simp_all add: sample_lease_def granted_row_def require_ttl_def
      max_lease_seconds_def\<close>)

text \<open>C2: bounded concurrency. Starting from an empty database, and with clocks that never go back,
  at most \<open>max_active_leases\<close> leases are unexpired at any time, whatever calls are made, by whom,
  and however they interleave or fail.\<close>

theorem active_leases_bounded:
  assumes "(timed_step limit)\<^sup>*\<^sup>* (t0, empty_db) (t, db)"
  shows "count_where (lease_active t) (jobs db) \<le> limit"
  using bounded_queue.reachable_inv [OF _ assms] by simp

theorem active_leases_bounded_witness:
  "count_where (lease_active 1700000000000000) (jobs sample_leased) \<le> 3"
proof (rule active_leases_bounded)
  have "timed_step 3 (0, empty_db) (1700000000000000, sample_registered)"
    unfolding timed_step_def fst_conv snd_conv sample_registered_def
    by (intro conjI job_step.register_step [OF sample_time(1) refl]) simp
  moreover have "timed_step 3 (1700000000000000, sample_registered) (1700000000000000, sample_leased)"
    unfolding timed_step_def fst_conv snd_conv sample_leased_def
    by (intro conjI job_step.acquire_step [OF sample_time(1) refl]) simp
  ultimately show "(timed_step 3)\<^sup>*\<^sup>* (0, empty_db) (1700000000000000, sample_leased)"
    by (meson converse_rtranclp_into_rtranclp r_into_rtranclp)
qed

text \<open>C1: the lease history is sound in every reachable state: the grants of a job are numbered
  1, 2, 3, ... without gap, the row's fencing token and attempt are the number of grants, no event
  of the job carries a later token, and the job is completed exactly when its history holds one
  completion.\<close>

theorem lease_history_sound:
  assumes "(any_job_step limit)\<^sup>*\<^sup>* empty_db db" and "find_job j db = Some r"
  shows "map le_token (filter is_grant (events_of j (lease_events db))) = map Suc [0..<jr_token r] \<and>
    jr_attempt r = jr_token r \<and>
    list_all (\<lambda>e. le_token e \<in> {1..jr_token r}) (events_of j (lease_events db)) \<and>
    count_where is_completion (events_of j (lease_events db)) =
      (if jr_state r = Completed then 1 else 0)"
proof -
  have "row_wf (events_of j (lease_events db)) r"
    using job_table.reachable_inv [OF refl assms(1)] find_job_Some [OF assms(2)]
    by (auto simp: job_wf_def)
  then show ?thesis by (simp add: row_wf_def list_all_iff)
qed

theorem lease_history_sound_witness:
  "\<exists>r :: job_row. map le_token (filter is_grant (events_of ''job'' (lease_events sample_leased))) =
      map Suc [0..<jr_token r] \<and> jr_attempt r = jr_token r \<and> jr_token r = 1 \<and>
    list_all (\<lambda>e. le_token e \<in> {1..jr_token r}) (events_of ''job'' (lease_events sample_leased)) \<and>
    count_where is_completion (events_of ''job'' (lease_events sample_leased)) =
      (if jr_state r = Completed then 1 else 0)"
proof -
  have "any_job_step 3 empty_db sample_registered"
    unfolding any_job_step_def sample_registered_def
    by (rule exI, rule job_step.register_step [OF sample_time(1) refl])
  moreover have "any_job_step 3 sample_registered sample_leased"
    unfolding any_job_step_def sample_leased_def
    by (rule exI, rule job_step.acquire_step [OF sample_time(1) refl])
  ultimately have "(any_job_step 3)\<^sup>*\<^sup>* empty_db sample_leased"
    by (meson converse_rtranclp_into_rtranclp r_into_rtranclp)
  note sound = lease_history_sound [OF this sample_acquire [THEN conjunct2, THEN conjunct1]]
  show ?thesis
    using sound by (intro exI [of _ "granted_row _ _ _ sample_job"] conjI; simp add: granted_row_def)
qed

text \<open>C4: a completion is final. From a state in which a job is completed, every later state has the
  same row. A call of \<open>complete\<close> with a valid key, digest and clock raises \<open>StaleLeaseError\<close> for any lease
  but the completing one and \<open>ControlConflictError\<close> for that lease with another key or digest; the
  completing lease may replay its key and digest and is given the stored completion, once the audit
  log has taken the record of the call. A call that returns has changed nothing but the audit log,
  by appending to it, and not even that when it carries no audit record.\<close>

theorem completion_is_final:
  assumes "find_job (l_job_id l) db = Some r" and "jr_state r = Completed"
    and "(any_job_step limit)\<^sup>*\<^sup>* db db'"
    and "require_text key = Inr ()" and "require_sha256 digest = Inr ()" and "to_micros now = Inr t"
  shows "find_job (l_job_id l) db' = Some r \<and>
    complete l key digest now audit eid aid db' =
      (if jr_owner r \<noteq> Some (l_owner l) \<or> jr_token r \<noteq> l_token l \<or> jr_attempt r \<noteq> l_attempt l
       then Inl StaleLeaseError
       else if jr_completion_key r = Some key \<and> jr_result_digest r = Some digest
       then bindE (control_audit aid audit db') (\<lambda>db2. bindE (completion_from_row r) (\<lambda>c. Inr (c, db2)))
       else Inl ControlConflictError) \<and>
    (\<forall>c db2. complete l key digest now audit eid aid db' = Inr (c, db2) \<longrightarrow>
      db2 = db'\<lparr>audit_events := audit_events db2\<rparr> \<and> prefix (audit_events db') (audit_events db2) \<and>
      (audit = None \<longrightarrow> db2 = db'))"
proof -
  have row: "find_job (l_job_id l) db' = Some r"
    using steps_forward [OF assms(3,1)] assms(2) by (auto simp: row_forward_def)
  have frame: "db2 = db'\<lparr>audit_events := audit_events db2\<rparr> \<and> prefix (audit_events db') (audit_events db2) \<and>
      (audit = None \<longrightarrow> db2 = db')" if "control_audit aid audit db' = Inr db2" for db2
    using that control_audit_frame(5) [OF that] by (auto simp: control_audit_Inr append_audit_def)
  from row assms(2,4-6) show ?thesis
    using frame by (auto simp: complete_def job_row_def bindE_Inr)
qed

lemma sample_audit_accepted [simp]:
  "audit_accepted ''a3'' (Some sample_audit) [] [audit_row_of 1 ''a3'' sample_audit 1700000000000000]"
  "audit_accepted ''a4'' (Some sample_audit) [audit_row_of 1 ''a3'' sample_audit 1700000000000000]
     [audit_row_of 1 ''a3'' sample_audit 1700000000000000, audit_row_of 2 ''a4'' sample_audit 1700000000000000]"
  by (simp_all add: audit_accepted_def append_audit_def append_sample_audit(2) insert_row_def
      next_sequence_def audit_row_of_def Let_def)

theorem completion_is_final_witness:
  "\<exists>c db db2. complete sample_lease ''done'' sample_digest (utc 1700000030000000) None ''e2'' ''a2''
       sample_leased = Inr (c, db) \<and>
     complete sample_lease ''done'' sample_digest (utc 1700000030000000) (Some sample_audit) ''e3'' ''a3'' db =
       Inr (c, db2) \<and> jobs db2 = jobs db \<and> length (audit_events db2) = 1 \<and>
     complete sample_lease ''again'' sample_digest (utc 1700000030000000) (Some sample_audit) ''e3'' ''a3'' db =
       Inl ControlConflictError"
proof -
  let ?r = "completed_row ''done'' sample_digest 1700000030000000
    (granted_row ''worker'' 1700000000000000 1700000060000000 sample_job)"
  let ?db2 = "\<lambda>db. db\<lparr>audit_events := [audit_row_of 1 ''a3'' sample_audit 1700000000000000]\<rparr>"
  obtain c db where first: "complete sample_lease ''done'' sample_digest (utc 1700000030000000) None
      ''e2'' ''a2'' sample_leased = Inr (c, db)" "find_job ''job'' db = Some ?r" "audit_events db = []"
    and c: "c = \<lparr>c_job_id = ''job'', c_idempotency_key = ''done'', c_result_digest = sample_digest,
      c_token = 1, c_completed_at = utc 1700000030000000\<rparr>"
    using complete_current [where l = sample_lease and db = sample_leased and
        now_us = 1700000030000000 and now = "utc 1700000030000000" and key = "''done''" and
        digest = sample_digest and completed = "utc 1700000030000000" and eid = "''e2''" and
        aid = "''a2''" and audit = None and rows = "[]" and
        r = "granted_row ''worker'' 1700000000000000 1700000060000000 sample_job"] sample_acquire
    by (auto simp: sample_lease_def granted_row_def lease_active_def fresh_event_def)
  have "require_text ''again'' = Inr ()" by (simp add: require_text_def is_space_def code_def)
  note final = completion_is_final [where l = sample_lease and db = db and db' = db and limit = 3 and
        r = ?r and digest = sample_digest and now = "utc 1700000030000000" and
        eid = "''e3''" and aid = "''a3''" and audit = "Some sample_audit"]
  have "complete sample_lease ''done'' sample_digest (utc 1700000030000000) (Some sample_audit) ''e3'' ''a3'' db =
      Inr (c, ?db2 db)"
    using final [where key = "''done''"] first(2,3) control_audit_accepted [OF sample_audit_accepted(1) [folded first(3)]]
    by (simp add: sample_lease_def completed_row_def granted_row_def completion_from_row_def c)
  moreover have "complete sample_lease ''again'' sample_digest (utc 1700000030000000) (Some sample_audit) ''e3'' ''a3'' db =
      Inl ControlConflictError"
    using final [where key = "''again''"] first(2) \<open>require_text ''again'' = Inr ()\<close>
    by (simp add: sample_lease_def completed_row_def granted_row_def)
  ultimately show ?thesis using first(1) by (intro exI [of _ c] exI [of _ db] exI [of _ "?db2 db"]) simp
qed

text \<open>C5: progress. Let the audit log accept the records of the two calls (or let them carry none), let the event
  ids be fresh, and let the times lie where the conversion to float timestamps is exact (after
  September 2005, and the expiry before January 2038). Then a free job under the limit is granted to the worker that
  asks, under the next token and attempt and until \<open>now + ttl\<close>; and at any time before that, the lease
  completes the job with the worker's key and digest.\<close>

theorem free_job_is_granted_and_completed:
  assumes "find_job j db = Some r" and "jr_state r \<noteq> Completed" and "\<not> lease_active now_us r"
    and "count_where (lease_active now_us) (jobs db) < limit"
    and "fresh_event eid db" and "fresh_event eid' db" and "eid \<noteq> eid'"
    and "require_text j = Inr ()" and "require_text owner = Inr ()" and "require_ttl ttl = Inr ()"
    and "2 ^ 50 < now_us" and "now_us + ttl * 1000000 < 2 ^ 31 * 1000000"
    and "require_text key = Inr ()" and "require_sha256 digest = Inr ()"
    and "now_us \<le> t" and "t < now_us + ttl * 1000000"
    and "audit_accepted aid audit (audit_events db) rows" and "audit_accepted aid' audit' rows rows'"
  shows "\<exists>db1 db2 r2.
    acquire limit j owner (utc now_us) ttl audit eid aid db =
      Inr (\<lparr>l_job_id = j, l_owner = owner, l_token = jr_token r + 1, l_attempt = jr_attempt r + 1,
        l_acquired_at = utc now_us, l_expires_at = utc (now_us + ttl * 1000000)\<rparr>, db1) \<and>
    complete \<lparr>l_job_id = j, l_owner = owner, l_token = jr_token r + 1,
        l_attempt = jr_attempt r + 1, l_acquired_at = utc now_us,
        l_expires_at = utc (now_us + ttl * 1000000)\<rparr> key digest (utc t) audit' eid' aid' db1 =
      Inr (\<lparr>c_job_id = j, c_idempotency_key = key, c_result_digest = digest,
        c_token = jr_token r + 1, c_completed_at = utc t\<rparr>, db2) \<and>
    find_job j db2 = Some r2 \<and> jr_state r2 = Completed \<and> jr_completion_key r2 = Some key \<and>
    jr_result_digest r2 = Some digest"
proof -
  let ?e = "now_us + ttl * 1000000"
  let ?l = "\<lparr>l_job_id = j, l_owner = owner, l_token = jr_token r + 1,
    l_attempt = jr_attempt r + 1, l_acquired_at = utc now_us, l_expires_at = utc ?e\<rparr>"
  have ttl: "1 \<le> ttl" using assms(10) by (simp add: require_ttl_def require_Inr)
  have times: "to_micros (utc now_us) = Inr now_us" "from_micros now_us = Inr (utc now_us)"
      "to_micros (utc ?e) = Inr ?e" "from_micros ?e = Inr (utc ?e)" "to_micros (utc t) = Inr t"
      "from_micros t = Inr (utc t)" "plus_us (utc now_us) (ttl * 1000000) = Inr (utc ?e)"
    using assms(11,12,15,16) ttl
    by (simp_all add: to_micros_exact_era from_micros_exact_era in_range_def min_wall_def max_wall_def)
  obtain db1 ev where acq: "acquire limit j owner (utc now_us) ttl audit eid aid db = Inr (?l, db1)"
    and job: "find_job j db1 = Some (granted_row owner now_us ?e r)"
    and ev: "le_event_id ev = eid" "lease_events db1 = lease_events db @ [ev]"
    and rows: "audit_events db1 = rows"
    using acquire_free [OF assms(1-5,8-10) times(1,7,3,2,4) assms(17)] by metis
  have "\<exists>db2. complete ?l key digest (utc t) audit' eid' aid' db1 =
      Inr (\<lparr>c_job_id = l_job_id ?l, c_idempotency_key = key, c_result_digest = digest,
        c_token = l_token ?l, c_completed_at = utc t\<rparr>, db2) \<and>
    find_job (l_job_id ?l) db2 = Some (completed_row key digest t (granted_row owner now_us ?e r)) \<and> audit_events db2 = rows'"
    by (rule complete_current)
      (use assms(6,7,13-16,18) rows times job ev in \<open>auto simp: granted_row_def lease_active_def fresh_event_def\<close>)
  with acq show ?thesis by (auto simp: completed_row_def)
qed

theorem free_job_is_granted_and_completed_witness:
  "\<exists>db1 db2 r2.
    acquire 3 ''job'' ''worker'' (utc 1700000000000000) 60 (Some sample_audit) ''e1'' ''a3'' sample_registered =
      Inr (\<lparr>l_job_id = ''job'', l_owner = ''worker'', l_token = jr_token sample_job + 1,
        l_attempt = jr_attempt sample_job + 1, l_acquired_at = utc 1700000000000000,
        l_expires_at = utc (1700000000000000 + 60 * 1000000)\<rparr>, db1) \<and>
    complete \<lparr>l_job_id = ''job'', l_owner = ''worker'', l_token = jr_token sample_job + 1,
        l_attempt = jr_attempt sample_job + 1, l_acquired_at = utc 1700000000000000,
        l_expires_at = utc (1700000000000000 + 60 * 1000000)\<rparr> ''done'' sample_digest
        (utc 1700000030000000) (Some sample_audit) ''e2'' ''a4'' db1 =
      Inr (\<lparr>c_job_id = ''job'', c_idempotency_key = ''done'', c_result_digest = sample_digest,
        c_token = jr_token sample_job + 1, c_completed_at = utc 1700000030000000\<rparr>, db2) \<and>
    find_job ''job'' db2 = Some r2 \<and> jr_state r2 = Completed \<and> jr_completion_key r2 = Some ''done'' \<and>
    jr_result_digest r2 = Some sample_digest"
  by (rule free_job_is_granted_and_completed [where rows = "[audit_row_of 1 ''a3'' sample_audit 1700000000000000]"
      and rows' = "[audit_row_of 1 ''a3'' sample_audit 1700000000000000, audit_row_of 2 ''a4'' sample_audit 1700000000000000]"])
    (simp_all add: fresh_event_def require_ttl_def max_lease_seconds_def del: One_nat_def)

end
