(* ===== verification/Control_Reviews.thy ===== *)
theory Control_Reviews
  imports Control_Jobs Iso_Time
begin

text \<open>
  Append-only reviews of \<open>control_store.py\<close>: the content digest, the ordinary writer
  \<open>append_review_event\<close> with its idempotency rule and its projection, and the readers. The hash
  (\<open>hashlib.sha256\<close> of the UTF-8 text, as a hex digest) is the parameter \<open>sha\<close>; a mapping is an
  association list with distinct keys. Candidate targets are recognised here and handled in
  \<open>Candidate_Reviews\<close>.
\<close>

section \<open>Targets and digests\<close>

definition candidate_prefix :: string where
  "candidate_prefix = ''candidate-skill:1.0:''"

text \<open>\<open>_CANDIDATE_TARGET_PATTERN.fullmatch\<close> with its two groups.\<close>

definition parse_candidate_target :: "string \<Rightarrow> (string \<times> string) option" where
  "parse_candidate_target v =
     (let skill = slice v 20 56; content = drop 64 v in
      if length v = 128 \<and> startswith v candidate_prefix \<and> uuid_pattern skill \<and>
         slice v 56 64 = '':sha256:'' \<and> sha256_pattern content
      then Some (skill, content) else None)"

text \<open>
  The pattern has 128 characters, so \<open>re.search\<close> with a final \<open>$\<close> looks at the last 128 characters,
  or at those before one final newline.
\<close>

definition candidate_suffix :: "string \<Rightarrow> bool" where
  "candidate_suffix v =
     (128 \<le> length v \<and> parse_candidate_target (drop (length v - 128) v) \<noteq> None)"

definition is_candidate_review_target :: "string \<Rightarrow> bool" where
  "is_candidate_review_target v =
     (parse_candidate_target v \<noteq> None \<or> candidate_suffix v \<or>
      v \<noteq> [] \<and> code (last v) = 10 \<and> candidate_suffix (butlast v))"

definition review_content_digest ::
  "(string \<Rightarrow> string) \<Rightarrow> string \<Rightarrow> string \<Rightarrow> string \<Rightarrow> (string \<times> json) list \<Rightarrow>
   (string \<times> json) list \<Rightarrow> string" where
  "review_content_digest sha target_id actor_id status provenance detail =
     sha (canonical_json (JObj
       [(''target_id'', JStr target_id), (''actor_id'', JStr actor_id), (''status'', JStr status),
        (''provenance'', JObj provenance), (''detail'', JObj detail)]))"

section \<open>Events and projections\<close>

record review_event =
  re_sequence :: nat
  re_event_id :: string
  re_target_id :: string
  re_idempotency_key :: string
  re_actor_id :: string
  re_status :: string
  re_provenance :: "(string \<times> json) list"
  re_detail :: "(string \<times> json) list"
  re_occurred_at :: datetime
  re_content_digest :: string

record review_projection =
  rp_target_id :: string
  rp_status :: string
  rp_version :: nat
  rp_last_event_id :: string
  rp_actor_id :: string
  rp_provenance :: "(string \<times> json) list"
  rp_detail :: "(string \<times> json) list"
  rp_occurred_at :: datetime
  rp_content_digest :: string

text \<open>\<open>json.loads\<close> of a column that must hold an object.\<close>

definition json_object :: "string \<Rightarrow> exn + (string \<times> json) list" where
  "json_object s = bindE (loads s) (\<lambda>v. case v of JObj d \<Rightarrow> Inr d | _ \<Rightarrow> Inl TypeError)"

definition type_or_value :: "exn \<Rightarrow> bool" where
  "type_or_value e = (e \<in> {TypeError, ValueError})"

definition review_event_from_row :: "(string \<Rightarrow> string) \<Rightarrow> review_row \<Rightarrow> exn + review_event" where
  "review_event_from_row sha r =
     bindE (except type_or_value ControlStoreError
       (bindE (json_object (rr_provenance_json r)) (\<lambda>p.
        bindE (json_object (rr_detail_json r)) (\<lambda>d.
        if rr_content_digest r \<noteq>
             review_content_digest sha (rr_target_id r) (rr_actor_id r) (rr_status r) p d
        then Inl ControlStoreError else Inr (p, d))))) (\<lambda>(p, d).
     bindE (from_micros (rr_occurred_at r)) (\<lambda>t.
     Inr \<lparr>re_sequence = rr_sequence r, re_event_id = rr_event_id r, re_target_id = rr_target_id r,
       re_idempotency_key = rr_idempotency_key r, re_actor_id = rr_actor_id r,
       re_status = rr_status r, re_provenance = p, re_detail = d, re_occurred_at = t,
       re_content_digest = rr_content_digest r\<rparr>))"

definition review_projection_from_row ::
  "(string \<Rightarrow> string) \<Rightarrow> projection_row \<Rightarrow> exn + review_projection" where
  "review_projection_from_row sha r =
     bindE (json_object (pr_provenance_json r)) (\<lambda>p.
     bindE (json_object (pr_detail_json r)) (\<lambda>d.
     bindE (from_micros (pr_occurred_at r)) (\<lambda>t.
     Inr \<lparr>rp_target_id = pr_target_id r, rp_status = pr_status r, rp_version = pr_version r,
       rp_last_event_id = pr_last_event_id r, rp_actor_id = pr_actor_id r, rp_provenance = p,
       rp_detail = d, rp_occurred_at = t,
       rp_content_digest =
         review_content_digest sha (pr_target_id r) (pr_actor_id r) (pr_status r) p d\<rparr>)))"

section \<open>Tables\<close>

definition find_event_by_key :: "string \<Rightarrow> control_db \<Rightarrow> review_row option" where
  "find_event_by_key k db = find (\<lambda>r. rr_idempotency_key r = k) (review_events db)"

definition find_projection :: "string \<Rightarrow> control_db \<Rightarrow> projection_row option" where
  "find_projection t db = find (\<lambda>r. pr_target_id r = t) (projections db)"

definition target_events :: "string \<Rightarrow> control_db \<Rightarrow> review_row list" where
  "target_events t db = filter (\<lambda>r. rr_target_id r = t) (review_events db)"

text \<open>The insert of an event: its id and its idempotency key are unique.\<close>

definition insert_review_event :: "review_row \<Rightarrow> control_db \<Rightarrow> exn + control_db" where
  "insert_review_event r db =
     bindE (insert_row (\<lambda>r r'. rr_event_id r = rr_event_id r' \<or>
       rr_idempotency_key r = rr_idempotency_key r') r (review_events db)) (\<lambda>es.
     Inr (db\<lparr>review_events := es\<rparr>))"

text \<open>\<open>insert into review_projection ... on conflict (target_id) do update\<close>.\<close>

definition upsert_projection :: "projection_row \<Rightarrow> control_db \<Rightarrow> control_db" where
  "upsert_projection p db =
     db\<lparr>projections :=
       (if find_projection (pr_target_id p) db = None then projections db @ [p]
        else update_where (\<lambda>r. pr_target_id r = pr_target_id p) (\<lambda>_. p) (projections db))\<rparr>"

definition event_row_at :: "nat \<Rightarrow> control_db \<Rightarrow> exn + review_row" where
  "event_row_at n db =
     (case find (\<lambda>r. rr_sequence r = n) (review_events db) of
        None \<Rightarrow> Inl AssertionError | Some r \<Rightarrow> Inr r)"

definition review_statuses :: "string list" where
  "review_statuses = [''pending'', ''approved'', ''rejected'', ''needs_changes'']"

text \<open>\<open>isinstance(d.get(k), str) and d.get(k).strip()\<close>.\<close>

definition text_field :: "(string \<times> json) list \<Rightarrow> string \<Rightarrow> bool" where
  "text_field d k = (case jget d k of Some (JStr s) \<Rightarrow> nonblank s | _ \<Rightarrow> False)"

section \<open>The ordinary writer\<close>

definition append_review_event ::
  "(string \<Rightarrow> string) \<Rightarrow> string \<Rightarrow> string \<Rightarrow> string \<Rightarrow> string \<Rightarrow> (string \<times> json) list \<Rightarrow>
   (string \<times> json) list \<Rightarrow> datetime \<Rightarrow> audit_context option \<Rightarrow> string \<Rightarrow> string \<Rightarrow> control_db \<Rightarrow>
   exn + review_event \<times> control_db" where
  "append_review_event sha target_id key actor_id status provenance detail now audit eid aid db =
     bindE (require_text target_id) (\<lambda>_.
     bindE (require_text key) (\<lambda>_.
     bindE (require_text actor_id) (\<lambda>_.
     if is_candidate_review_target target_id then Inl ControlConflictError
     else
     bindE (require (status \<in> set review_statuses) ValueError) (\<lambda>_.
     bindE (require (text_field provenance ''source'') ValueError) (\<lambda>_.
     bindE (require (text_field provenance ''artifact_id'') ValueError) (\<lambda>_.
     bindE (require (text_field provenance ''revision'') ValueError) (\<lambda>_.
     bindE (require (case jget provenance ''sha256'' of
         Some (JStr s) \<Rightarrow> sha256_pattern s | _ \<Rightarrow> False) ValueError) (\<lambda>_.
     let provenance_json = canonical_json (JObj provenance);
         detail_json = canonical_json (JObj detail) in
     bindE (json_object provenance_json) (\<lambda>p.
     bindE (json_object detail_json) (\<lambda>d.
     let digest = review_content_digest sha target_id actor_id status p d in
     bindE (to_micros now) (\<lambda>occurred_us.
     case find_event_by_key key db of
       Some existing \<Rightarrow>
         if rr_content_digest existing \<noteq> digest then Inl ControlConflictError
         else
           bindE (control_audit aid audit db) (\<lambda>db'.
           bindE (review_event_from_row sha existing) (\<lambda>ev. Inr (ev, db')))
     | None \<Rightarrow>
         let n = next_sequence rr_sequence (review_events db) in
         bindE (insert_review_event
           \<lparr>rr_sequence = n, rr_event_id = eid, rr_target_id = target_id,
            rr_idempotency_key = key, rr_content_digest = digest, rr_actor_id = actor_id,
            rr_status = status, rr_provenance_json = provenance_json,
            rr_detail_json = detail_json, rr_occurred_at = occurred_us\<rparr> db) (\<lambda>db1.
         let version = (case find_projection target_id db1 of None \<Rightarrow> 1 | Some q \<Rightarrow> pr_version q + 1);
             db2 = upsert_projection
               \<lparr>pr_target_id = target_id, pr_status = status, pr_version = version,
                pr_last_event_id = eid, pr_actor_id = actor_id,
                pr_provenance_json = provenance_json, pr_detail_json = detail_json,
                pr_occurred_at = occurred_us\<rparr> db1 in
         bindE (event_row_at n db2) (\<lambda>r.
         bindE (control_audit aid audit db2) (\<lambda>db3.
         bindE (review_event_from_row sha r) (\<lambda>ev. Inr (ev, db3))))))))))))))))"

end
