(* ===== verification/Candidate_Reviews.thy ===== *)
theory Candidate_Reviews
  imports Control_Reviews
begin

text \<open>
  The candidate lifecycle of \<open>control_store.py\<close>: the guarded writer
  \<open>append_candidate_review_event\<close>, the payload it stores, and the validation of a whole event
  history against its projection that every candidate read performs. A keyword argument with the
  default \<open>_UNSET\<close> is an option of a JSON value. The clock (\<open>datetime.now(UTC)\<close>) and the two values
  of \<open>uuid4()\<close> are arguments.
\<close>

section \<open>Patterns and scope keys\<close>

definition publication_prefix :: string where
  "publication_prefix = ''candidate-publication:1.0:''"

definition parse_publication_key :: "string \<Rightarrow> string option" where
  "parse_publication_key v =
     (let skill = drop 26 v in
      if startswith v publication_prefix \<and> uuid_pattern skill then Some skill else None)"

definition reviewer_char :: "char \<Rightarrow> bool" where
  "reviewer_char c = (is_lower c \<or> is_digit c \<or> c \<in> {CHR ''_'', CHR ''-''})"

definition reviewer_id_pattern :: "string \<Rightarrow> bool" where
  "reviewer_id_pattern v =
     (startswith v ''reviewer_'' \<and>
      ident_pattern (\<lambda>c. is_lower c \<or> is_digit c) reviewer_char 2 63 (drop 9 v))"

definition max_review_reason :: nat where "max_review_reason = 512"
definition max_review_evidence_bytes :: nat where "max_review_evidence_bytes = 16 * 1024"
definition candidate_lifecycle_version :: string where "candidate_lifecycle_version = ''138.1''"

text \<open>One length-prefixed segment of a scope key, from \<open>offset\<close>; the result is where it ends.\<close>

definition scope_key_part :: "string \<Rightarrow> nat \<Rightarrow> nat option" where
  "scope_key_part v offset =
     (case find_from CHR '':'' offset v of
        None \<Rightarrow> None
      | Some separator \<Rightarrow>
          let text = slice v offset separator in
          if separator \<le> offset \<or> \<not> list_all is_digit text then None
          else
            let len = dec_value text; start = separator + 1; stop = start + len in
            if len < 3 \<or> len > 64 \<or> stop > length v \<or> text \<noteq> nat_str len \<or>
               \<not> scope_id_pattern (slice v start stop)
            then None else Some stop)"

definition valid_scope_key :: "string \<Rightarrow> bool" where
  "valid_scope_key v =
     (startswith v key_version \<and>
      (case scope_key_part v (length key_version) of
         None \<Rightarrow> False
       | Some offset \<Rightarrow> scope_key_part v offset = Some (length v)))"

text \<open>A scope argument is a scope key or a \<open>TenantWorkspaceScope\<close>.\<close>

datatype scope_arg = ScopeKey string | ScopeValue scope

definition scope_key :: "scope_arg option \<Rightarrow> exn + string" where
  "scope_key x =
     (case x of
        None \<Rightarrow> Inl ValueError
      | Some (ScopeKey v) \<Rightarrow> if valid_scope_key v then Inr v else Inl ValueError
      | Some (ScopeValue s) \<Rightarrow>
          bindE (except type_or_value ValueError (scope_prefix s)) (\<lambda>r.
          if valid_scope_key r then Inr r else Inl ValueError))"

definition qualify_scope_key :: "string \<Rightarrow> string \<Rightarrow> string \<Rightarrow> exn + string" where
  "qualify_scope_key key kind public_id =
     bindE (require (nonblank public_id) ValueError) (\<lambda>_.
     Inr (key @ segment kind @ segment public_id))"

definition idempotency_prefix :: "string \<Rightarrow> string" where
  "idempotency_prefix key = key @ segment ''review_idempotency''"

definition candidate_idempotency_key ::
  "string \<Rightarrow> string option \<Rightarrow> string option \<Rightarrow> exn + string" where
  "candidate_idempotency_key key plain qualified =
     (if plain \<noteq> None \<and> qualified \<noteq> None \<and> plain \<noteq> qualified then Inl ControlConflictError
      else
        case (if qualified = None \<or> qualified = Some [] then plain else qualified) of
          None \<Rightarrow> Inl ValueError
        | Some selected \<Rightarrow>
            if \<not> nonblank selected \<or> length selected > 512 then Inl ValueError
            else if startswith selected (idempotency_prefix key) then
              let public = drop (length (idempotency_prefix key)) selected in
              (case find_from CHR '':'' 0 public of
                 None \<Rightarrow> Inl ValueError
               | Some separator \<Rightarrow>
                   if separator = 0 \<or> \<not> list_all is_digit (take separator public)
                   then Inl ValueError
                   else
                     let len = dec_value (take separator public);
                         rest = drop (separator + 1) public in
                     if len < 1 \<or> len > 512 \<or> length rest \<noteq> len then Inl ValueError
                     else Inr selected)
            else if qualified \<noteq> None then Inl ControlConflictError
            else Inr (idempotency_prefix key @ segment selected))"

section \<open>JSON helpers\<close>

text \<open>Equality of JSON values in Python: order of keys is irrelevant, and \<open>True == 1\<close>.\<close>

function unbool :: "json \<Rightarrow> json" where
  "unbool JNull = JNull"
| "unbool (JBool b) = JInt (if b then 1 else 0)"
| "unbool (JInt i) = JInt i"
| "unbool (JStr s) = JStr s"
| "unbool (JArr xs) = JArr (map unbool xs)"
| "unbool (JObj d) = JObj (map (\<lambda>(k, v). (k, unbool v)) d)"
  by pat_completeness auto
termination
  by (relation "measure size")
    (auto simp: less_Suc_eq_le intro: size_list_estimation' order_trans [OF _ size_list_estimation'])

definition py_eq :: "json \<Rightarrow> json \<Rightarrow> bool" where
  "py_eq a b = (unbool (normalize a) = unbool (normalize b))"

definition py_eq_opt :: "json option \<Rightarrow> json option \<Rightarrow> bool" where
  "py_eq_opt a b =
     (py_eq (case a of None \<Rightarrow> JNull | Some x \<Rightarrow> x) (case b of None \<Rightarrow> JNull | Some x \<Rightarrow> x))"

definition utf8_length :: "string \<Rightarrow> nat" where
  "utf8_length s = sum_list (map (\<lambda>c. if code c < 128 then 1 else 2) s)"

definition bounded_review_value :: "json \<Rightarrow> exn + json" where
  "bounded_review_value v =
     (if v = JNull then Inr JNull
      else
        bindE (loads (canonical_json v)) (\<lambda>n.
        if utf8_length (canonical_json n) > max_review_evidence_bytes then Inl ValueError
        else Inr n))"

definition bounded_review_mapping :: "(string \<times> json) list \<Rightarrow> exn + (string \<times> json) list" where
  "bounded_review_mapping d =
     bindE (bounded_review_value (JObj d)) (\<lambda>v.
     case v of JObj d' \<Rightarrow> Inr d' | _ \<Rightarrow> Inl TypeError)"

definition validate_review_provenance :: "(string \<times> json) list \<Rightarrow> exn + unit" where
  "validate_review_provenance p =
     bindE (forE (\<lambda>k. require (text_field p k) ValueError)
       [''source'', ''artifact_id'', ''revision'']) (\<lambda>_.
     case jget p ''sha256'' of
       Some (JStr s) \<Rightarrow> require_sha256 s
     | _ \<Rightarrow> Inl TypeError)"

definition resolve_review_time :: "datetime option \<Rightarrow> datetime \<Rightarrow> exn + datetime" where
  "resolve_review_time value clock =
     (let resolved = (case value of None \<Rightarrow> clock | Some d \<Rightarrow> d) in
      if tz resolved = Naive then Inl ValueError
      else bindE (to_micros resolved) from_micros)"

section \<open>The payload\<close>

text \<open>The fields that one call fixes for its event, whatever the stored state.\<close>

record candidate_event =
  cv_scope_key :: string
  cv_qualified_target :: string
  cv_qualified_key :: string
  cv_publication_key :: string
  cv_review_target_id :: string
  cv_schema_version :: string
  cv_skill_id :: string
  cv_content_sha256 :: string
  cv_full_sha256 :: string
  cv_source_result_sha256 :: string
  cv_status :: string
  cv_actor_id :: string
  cv_legacy :: "((string \<times> json) list \<times> (string \<times> json) list) option"

definition candidate_states :: "string list" where
  "candidate_states = ''unreviewed'' # review_statuses"

definition check_prior_state :: "json \<Rightarrow> exn + unit" where
  "check_prior_state v =
     (case v of
        JStr s \<Rightarrow> require (s \<in> set candidate_states) ValueError
      | JArr _ \<Rightarrow> Inl TypeError
      | JObj _ \<Rightarrow> Inl TypeError
      | _ \<Rightarrow> Inl ValueError)"

definition check_prior_version :: "json \<Rightarrow> exn + unit" where
  "check_prior_version v =
     (case v of JInt i \<Rightarrow> require (0 \<le> i \<and> i \<le> 2 ^ 63 - 1) ValueError | _ \<Rightarrow> Inl ValueError)"

definition check_prior_event :: "json \<Rightarrow> exn + unit" where
  "check_prior_event v =
     (case v of
        JNull \<Rightarrow> Inr ()
      | JStr s \<Rightarrow> require (uuid_pattern s) ValueError
      | _ \<Rightarrow> Inl ValueError)"

text \<open>A naive time, which only a replay can carry, is read as UTC (the code reads the host's zone).\<close>

definition server_time_text :: "datetime \<Rightarrow> exn + string" where
  "server_time_text d = bindE (astimezone_utc d) (\<lambda>u. Inr (iso_utc (wall u)))"

text \<open>The bindings that provenance and detail share.\<close>

definition lifecycle_fields ::
  "candidate_event \<Rightarrow> json \<Rightarrow> json \<Rightarrow> json \<Rightarrow> string \<Rightarrow> (string \<times> json) list" where
  "lifecycle_fields v prior_state prior_version prior_event server_time =
     [(''scope'', JStr (cv_scope_key v)),
      (''publication_key'', JStr (cv_publication_key v)),
      (''review_target_id'', JStr (cv_review_target_id v)),
      (''schema_version'', JStr (cv_schema_version v)),
      (''candidate_id'', JStr (cv_skill_id v)),
      (''skill_id'', JStr (cv_skill_id v)),
      (''content_sha256'', JStr (cv_content_sha256 v)),
      (''full_sha256'', JStr (cv_full_sha256 v)),
      (''source_result_sha256'', JStr (cv_source_result_sha256 v)),
      (''destination_status'', JStr (cv_status v)),
      (''expected_prior_state'', prior_state),
      (''expected_prior_version'', prior_version),
      (''expected_prior_event_id'', prior_event),
      (''reviewer_id'', JStr (cv_actor_id v)),
      (''server_reviewer_id'', JStr (cv_actor_id v)),
      (''server_utc_time'', JStr server_time),
      (''qualified_idempotency_key'', JStr (cv_qualified_key v))]"

definition lifecycle_provenance ::
  "candidate_event \<Rightarrow> json \<Rightarrow> json \<Rightarrow> json \<Rightarrow> string \<Rightarrow> (string \<times> json) list" where
  "lifecycle_provenance v prior_state prior_version prior_event server_time =
     [(''source'', JStr ''candidate_publication_review''),
      (''artifact_id'', JStr (cv_publication_key v)),
      (''revision'', JStr (cv_schema_version v)),
      (''sha256'', JStr (cv_content_sha256 v))] @
     lifecycle_fields v prior_state prior_version prior_event server_time"

definition lifecycle_detail ::
  "candidate_event \<Rightarrow> json \<Rightarrow> json \<Rightarrow> json \<Rightarrow> json \<Rightarrow> json \<Rightarrow> string \<Rightarrow> (string \<times> json) list" where
  "lifecycle_detail v reason evidence prior_state prior_version prior_event server_time =
     [(''lifecycle_schema_version'', JStr candidate_lifecycle_version),
      (''status'', JStr (cv_status v)),
      (''reason'', reason),
      (''evidence'', evidence)] @
     lifecycle_fields v prior_state prior_version prior_event server_time"

definition unset_or :: "json option \<Rightarrow> json \<Rightarrow> json" where
  "unset_or x d = (case x of None \<Rightarrow> d | Some v \<Rightarrow> v)"

definition candidate_event_payload ::
  "(string \<Rightarrow> string) \<Rightarrow> candidate_event \<Rightarrow> json \<Rightarrow> json \<Rightarrow> json option \<Rightarrow> json option \<Rightarrow>
   json option \<Rightarrow> datetime \<Rightarrow> exn + string \<times> string \<times> string" where
  "candidate_event_payload sha v reason evidence prior_state prior_version prior_event at_time =
     bindE (case cv_legacy v of
       Some (p, d) \<Rightarrow> Inr (p, d)
     | None \<Rightarrow>
         let ps = unset_or prior_state (JStr ''unreviewed'');
             pv = unset_or prior_version (JInt 0);
             pe = unset_or prior_event JNull in
         bindE (check_prior_state ps) (\<lambda>_.
         bindE (check_prior_version pv) (\<lambda>_.
         bindE (check_prior_event pe) (\<lambda>_.
         bindE (server_time_text at_time) (\<lambda>server_time.
         Inr (lifecycle_provenance v ps pv pe server_time,
              lifecycle_detail v reason evidence ps pv pe server_time)))))) (\<lambda>(provenance, detail).
     bindE (validate_review_provenance provenance) (\<lambda>_.
     Inr (review_content_digest sha (cv_qualified_target v) (cv_actor_id v) (cv_status v)
            provenance detail,
          canonical_json (JObj provenance), canonical_json (JObj detail))))"

section \<open>Validation of a stored history\<close>

definition legal_candidate_transition :: "string \<Rightarrow> string \<Rightarrow> bool" where
  "legal_candidate_transition current destination =
     (destination \<in> set
        (if current = ''unreviewed'' then [''pending'', ''approved'']
         else if current = ''pending'' then [''approved'', ''rejected'', ''needs_changes'']
         else []))"

definition validate_expected_prior ::
  "string \<Rightarrow> nat \<Rightarrow> string option \<Rightarrow> json \<Rightarrow> json \<Rightarrow> json \<Rightarrow> exn + unit" where
  "validate_expected_prior state version event_id e_state e_version e_event =
     bindE (require (py_eq e_state (JStr state)) ControlConflictError) (\<lambda>_.
     bindE (require (py_eq e_version (JInt (int version))) ControlConflictError) (\<lambda>_.
     require (py_eq e_event (case event_id of None \<Rightarrow> JNull | Some i \<Rightarrow> JStr i))
       ControlConflictError))"

definition required_bindings :: "string list" where
  "required_bindings =
     [''scope'', ''publication_key'', ''review_target_id'', ''schema_version'', ''candidate_id'',
      ''skill_id'', ''content_sha256'', ''full_sha256'', ''source_result_sha256'',
      ''destination_status'', ''expected_prior_state'', ''expected_prior_version'',
      ''expected_prior_event_id'', ''reviewer_id'', ''server_reviewer_id'', ''server_utc_time'',
      ''qualified_idempotency_key'']"

text \<open>\<open>d[k]\<close> of a key that is present, as a string if it is one.\<close>

definition str_field :: "(string \<times> json) list \<Rightarrow> string \<Rightarrow> string option" where
  "str_field d k = (case jget d k of Some (JStr s) \<Rightarrow> Some s | _ \<Rightarrow> None)"

definition conflict_unless :: "bool \<Rightarrow> exn + unit" where
  "conflict_unless b = require b ControlConflictError"

text \<open>A string that must be there: anything else is \<open>ControlConflictError\<close>.\<close>

definition str_or_conflict :: "(string \<times> json) list \<Rightarrow> string \<Rightarrow> exn + string" where
  "str_or_conflict d k =
     (case str_field d k of None \<Rightarrow> Inl ControlConflictError | Some s \<Rightarrow> Inr s)"

definition time_error :: "exn \<Rightarrow> bool" where
  "time_error e = (e \<in> {TypeError, ValueError, OverflowError})"

definition validate_server_time :: "string \<Rightarrow> int \<Rightarrow> exn + unit" where
  "validate_server_time server_time occurred_us =
     bindE (conflict_unless (server_time \<noteq> [] \<and> last server_time = CHR ''Z'')) (\<lambda>_.
     bindE (except time_error ControlConflictError (bindE (read_iso server_time) to_micros)) (\<lambda>parsed.
     bindE (conflict_unless (parsed = occurred_us)) (\<lambda>_.
     bindE (bindE (from_micros occurred_us) server_time_text) (\<lambda>expected.
     conflict_unless (server_time = expected)))))"

definition validate_reason :: "json option \<Rightarrow> exn \<Rightarrow> exn + unit" where
  "validate_reason reason e =
     (case reason of
        None \<Rightarrow> Inr ()
      | Some JNull \<Rightarrow> Inr ()
      | Some (JStr s) \<Rightarrow> require (nonblank s \<and> length s \<le> max_review_reason) e
      | _ \<Rightarrow> Inl e)"

definition validate_candidate_lifecycle_event ::
  "review_row \<Rightarrow> (string \<times> json) list \<Rightarrow> (string \<times> json) list \<Rightarrow> string \<Rightarrow> nat \<Rightarrow> string option \<Rightarrow>
   exn + unit" where
  "validate_candidate_lifecycle_event ev provenance detail state version event_id =
     bindE (conflict_unless (str_field detail ''lifecycle_schema_version'' =
       Some candidate_lifecycle_version)) (\<lambda>_.
     bindE (conflict_unless (list_all (\<lambda>k. jhas provenance k \<and> jhas detail k) required_bindings))
       (\<lambda>_.
     bindE (conflict_unless (jhas detail ''reason'' \<and> jhas detail ''evidence'')) (\<lambda>_.
     bindE (conflict_unless (str_field detail ''status'' = Some (rr_status ev))) (\<lambda>_.
     bindE (conflict_unless (list_all (\<lambda>k. py_eq_opt (jget provenance k) (jget detail k))
       required_bindings)) (\<lambda>_.
     bindE (except type_or_value ControlConflictError (validate_review_provenance provenance)) (\<lambda>_.
     bindE (conflict_unless
       (str_field provenance ''source'' = Some ''candidate_publication_review'' \<and>
        py_eq_opt (jget provenance ''artifact_id'') (jget detail ''publication_key'') \<and>
        py_eq_opt (jget provenance ''revision'') (jget detail ''schema_version'') \<and>
        py_eq_opt (jget provenance ''sha256'') (jget detail ''content_sha256''))) (\<lambda>_.
     bindE (str_or_conflict detail ''scope'') (\<lambda>key.
     bindE (conflict_unless (valid_scope_key key)) (\<lambda>_.
     bindE (str_or_conflict detail ''review_target_id'') (\<lambda>target.
     case parse_candidate_target target of
       None \<Rightarrow> Inl ControlConflictError
     | Some (skill, content) \<Rightarrow>
     bindE (qualify_scope_key key ''review_target'' target) (\<lambda>qualified.
     bindE (conflict_unless (qualified = rr_target_id ev)) (\<lambda>_.
     bindE (str_or_conflict detail ''publication_key'') (\<lambda>publication.
     bindE (conflict_unless (parse_publication_key publication \<noteq> None)) (\<lambda>_.
     bindE (conflict_unless (publication = publication_prefix @ skill)) (\<lambda>_.
     bindE (conflict_unless (str_field detail ''schema_version'' = Some ''1.0'' \<and>
       str_field detail ''candidate_id'' = Some skill \<and> str_field detail ''skill_id'' = Some skill))
       (\<lambda>_.
     bindE (conflict_unless (list_all
       (\<lambda>k. case str_field detail k of None \<Rightarrow> False | Some s \<Rightarrow> sha256_pattern s)
       [''content_sha256'', ''full_sha256'', ''source_result_sha256''])) (\<lambda>_.
     bindE (conflict_unless (str_field detail ''content_sha256'' = Some content)) (\<lambda>_.
     bindE (conflict_unless (str_field detail ''destination_status'' = Some (rr_status ev))) (\<lambda>_.
     bindE (conflict_unless (str_field detail ''expected_prior_state'' = Some state)) (\<lambda>_.
     bindE (conflict_unless (py_eq_opt (jget detail ''expected_prior_version'')
       (Some (JInt (int version))))) (\<lambda>_.
     bindE (conflict_unless (py_eq_opt (jget detail ''expected_prior_event_id'')
       (map_option JStr event_id))) (\<lambda>_.
     bindE (conflict_unless (str_field detail ''reviewer_id'' = Some (rr_actor_id ev) \<and>
       str_field detail ''server_reviewer_id'' = Some (rr_actor_id ev))) (\<lambda>_.
     bindE (conflict_unless (reviewer_id_pattern (rr_actor_id ev))) (\<lambda>_.
     bindE (str_or_conflict detail ''server_utc_time'') (\<lambda>server_time.
     bindE (validate_server_time server_time (rr_occurred_at ev)) (\<lambda>_.
     bindE (case jget detail ''qualified_idempotency_key'' of
         Some JNull \<Rightarrow> candidate_idempotency_key key (Some (rr_idempotency_key ev)) None
       | Some (JStr q) \<Rightarrow> candidate_idempotency_key key (Some (rr_idempotency_key ev)) (Some q)
       | _ \<Rightarrow> Inl ControlConflictError) (\<lambda>k.
     bindE (conflict_unless (k = rr_idempotency_key ev)) (\<lambda>_.
     bindE (conflict_unless (py_eq_opt (jget detail ''qualified_idempotency_key'')
       (jget provenance ''qualified_idempotency_key''))) (\<lambda>_.
     bindE (validate_reason (jget detail ''reason'') ControlConflictError) (\<lambda>_.
     bindE (except type_or_value ControlConflictError
       (bounded_review_value (unset_or (jget detail ''evidence'') JNull))) (\<lambda>e.
     conflict_unless (py_eq e (unset_or (jget detail ''evidence'') JNull)))))))))))))))))))))))))))))))))"

text \<open>The only other shape an event may have: the one initial approval of the older wrapper.\<close>

definition hex_or_dash :: "char \<Rightarrow> bool" where
  "hex_or_dash c = (is_hex c \<or> c = CHR ''-'')"

definition search_candidate_target :: "string \<Rightarrow> (string \<times> string) option" where
  "search_candidate_target v =
     (let w = (if v \<noteq> [] \<and> code (last v) = 10 then butlast v else v);
          t = drop (length w - 128) w; skill = slice t 20 56; content = drop 64 t in
      if length t = 128 \<and> startswith t candidate_prefix \<and> list_all hex_or_dash skill \<and>
         slice t 56 64 = '':sha256:'' \<and> sha256_pattern content
      then Some (skill, content) else None)"

definition keys_are :: "(string \<times> json) list \<Rightarrow> string list \<Rightarrow> bool" where
  "keys_are d ks = (list_all (jhas d) ks \<and> list_all (\<lambda>k. k \<in> set ks) (map fst d))"

definition validate_legacy_candidate_event ::
  "review_row \<Rightarrow> (string \<times> json) list \<Rightarrow> (string \<times> json) list \<Rightarrow> bool" where
  "validate_legacy_candidate_event ev provenance detail =
     (keys_are provenance [''source'', ''artifact_id'', ''revision'', ''sha256''] \<and>
      keys_are detail [''kind'', ''decision'', ''schema_version'', ''skill_id'', ''content_sha256'',
        ''approval_basis''] \<and>
      is_candidate_review_target (rr_target_id ev) \<and>
      (case search_candidate_target (rr_target_id ev) of
         None \<Rightarrow> False
       | Some (skill, content) \<Rightarrow>
           str_field provenance ''source'' = Some ''candidate_skill_canonical_sha256'' \<and>
           str_field provenance ''artifact_id'' = Some skill \<and>
           str_field provenance ''revision'' = Some ''1.0'' \<and>
           str_field provenance ''sha256'' = Some content \<and>
           str_field detail ''kind'' = Some ''candidate_skill_approval'' \<and>
           str_field detail ''decision'' = Some ''approve'' \<and>
           str_field detail ''schema_version'' = Some ''1.0'' \<and>
           str_field detail ''skill_id'' = Some skill \<and>
           str_field detail ''content_sha256'' = Some content \<and>
           text_field detail ''approval_basis'' \<and>
           reviewer_id_pattern (rr_actor_id ev)))"

definition lifecycle_markers :: "string list" where
  "lifecycle_markers =
     [''lifecycle_schema_version'', ''publication_key'', ''review_target_id'',
      ''destination_status'', ''expected_prior_state'', ''expected_prior_version'',
      ''expected_prior_event_id'', ''qualified_idempotency_key'']"

text \<open>One turn of the loop over the history, at \<open>index\<close> and with the state that the loop carries.\<close>

definition validate_history_event ::
  "(string \<Rightarrow> string) \<Rightarrow> string \<Rightarrow> nat \<Rightarrow> string \<Rightarrow> string option \<Rightarrow> review_row \<Rightarrow> exn + unit" where
  "validate_history_event sha target index state event_id r =
     bindE (conflict_unless (rr_target_id r = target)) (\<lambda>_.
     bindE (conflict_unless (uuid_pattern (rr_event_id r))) (\<lambda>_.
     bindE (except type_or_value ControlConflictError
       (bindE (json_object (rr_provenance_json r)) (\<lambda>p.
        bindE (json_object (rr_detail_json r)) (\<lambda>d. Inr (p, d))))) (\<lambda>(p, d).
     bindE (conflict_unless (rr_content_digest r =
       review_content_digest sha (rr_target_id r) (rr_actor_id r) (rr_status r) p d)) (\<lambda>_.
     bindE (conflict_unless (legal_candidate_transition state (rr_status r))) (\<lambda>_.
     if list_ex (\<lambda>k. jhas d k \<or> jhas p k) lifecycle_markers
     then validate_candidate_lifecycle_event r p d state index event_id
     else conflict_unless (index = 0 \<and> rr_status r = ''approved'' \<and>
       validate_legacy_candidate_event r p d))))))"

fun validate_history ::
  "(string \<Rightarrow> string) \<Rightarrow> string \<Rightarrow> nat \<Rightarrow> string \<Rightarrow> string option \<Rightarrow> review_row list \<Rightarrow> exn + unit" where
  "validate_history sha target index state event_id [] = Inr ()"
| "validate_history sha target index state event_id (r # rs) =
     bindE (validate_history_event sha target index state event_id r) (\<lambda>_.
     validate_history sha target (index + 1) (rr_status r) (Some (rr_event_id r)) rs)"

definition validate_candidate_rows ::
  "(string \<Rightarrow> string) \<Rightarrow> review_row \<Rightarrow> projection_row \<Rightarrow> exn + unit" where
  "validate_candidate_rows sha ev projection =
     bindE (except type_or_value ControlConflictError
       (bindE (json_object (rr_provenance_json ev)) (\<lambda>p.
        bindE (json_object (rr_detail_json ev)) (\<lambda>d.
        bindE (json_object (pr_provenance_json projection)) (\<lambda>pp.
        bindE (json_object (pr_detail_json projection)) (\<lambda>pd. Inr (p, d, pp, pd))))))) (\<lambda>(p, d, pp, pd).
     bindE (conflict_unless (rr_target_id ev = pr_target_id projection)) (\<lambda>_.
     bindE (conflict_unless (rr_status ev = pr_status projection \<and>
       rr_actor_id ev = pr_actor_id projection)) (\<lambda>_.
     bindE (conflict_unless (rr_event_id ev = pr_last_event_id projection)) (\<lambda>_.
     bindE (conflict_unless (rr_occurred_at ev = pr_occurred_at projection)) (\<lambda>_.
     bindE (conflict_unless (py_eq (JObj p) (JObj pp) \<and> py_eq (JObj d) (JObj pd))) (\<lambda>_.
     conflict_unless (rr_content_digest ev =
       review_content_digest sha (rr_target_id ev) (rr_actor_id ev) (rr_status ev) p d)))))))"

definition validate_candidate_projection ::
  "(string \<Rightarrow> string) \<Rightarrow> control_db \<Rightarrow> projection_row \<Rightarrow> review_row list \<Rightarrow> exn + unit" where
  "validate_candidate_projection sha db projection events =
     bindE (conflict_unless (events \<noteq> [])) (\<lambda>_.
     bindE (conflict_unless (is_candidate_review_target (pr_target_id projection))) (\<lambda>_.
     bindE (conflict_unless (pr_status projection \<in> set review_statuses)) (\<lambda>_.
     bindE (conflict_unless (pr_version projection = length events)) (\<lambda>_.
     bindE (validate_history sha (pr_target_id projection) 0 ''unreviewed'' None events) (\<lambda>_.
     case find (\<lambda>r. rr_event_id r = pr_last_event_id projection) (review_events db) of
       None \<Rightarrow> Inl ControlConflictError
     | Some ev \<Rightarrow>
         bindE (conflict_unless (rr_event_id ev = rr_event_id (last events))) (\<lambda>_.
         bindE (validate_candidate_rows sha ev projection) (\<lambda>_.
         bindE (json_object (rr_provenance_json ev)) (\<lambda>p.
         bindE (json_object (rr_detail_json ev)) (\<lambda>d.
         conflict_unless (rr_content_digest ev =
           review_content_digest sha (rr_target_id ev) (rr_actor_id ev) (rr_status ev) p d))))))))))"

section \<open>The guarded writer\<close>

record candidate_request =
  cq_scope :: "scope_arg option"
  cq_server_scope :: "scope_arg option"
  cq_publication_key :: string
  cq_review_target_id :: "string option"
  cq_target_id :: "string option"
  cq_idempotency_key :: "string option"
  cq_qualified_key :: "string option"
  cq_actor_id :: string
  cq_status :: "string option"
  cq_destination_status :: "string option"
  cq_schema_version :: string
  cq_candidate_id :: "string option"
  cq_skill_id :: "string option"
  cq_content_sha256 :: string
  cq_full_sha256 :: string
  cq_source_result_sha256 :: string
  cq_reason :: "json option"
  cq_evidence :: "json option"
  cq_prior_state :: "json option"
  cq_prior_version :: "json option"
  cq_prior_event :: "json option"
  cq_occurred_at :: "datetime option"
  cq_now :: "datetime option"
  cq_legacy_provenance :: "(string \<times> json) list option"
  cq_legacy_detail :: "(string \<times> json) list option"

text \<open>\<open>a if a is not None else b\<close>.\<close>

definition first_given :: "'a option \<Rightarrow> 'a option \<Rightarrow> 'a option" where
  "first_given a b = (case a of None \<Rightarrow> b | Some x \<Rightarrow> Some x)"

definition both_differ :: "'a option \<Rightarrow> 'a option \<Rightarrow> bool" where
  "both_differ a b = (a \<noteq> None \<and> b \<noteq> None \<and> a \<noteq> b)"

text \<open>
  Everything before the transaction: the identities are resolved and checked against each other,
  and the bounded arguments normalized. The result is the event, the evidence and the explicit
  time.
\<close>

definition prepare_candidate_event ::
  "candidate_request \<Rightarrow> exn + candidate_event \<times> json \<times> datetime option" where
  "prepare_candidate_event q =
     bindE (scope_key (first_given (cq_scope q) (cq_server_scope q))) (\<lambda>key.
     bindE (if cq_scope q \<noteq> None \<and> cq_server_scope q \<noteq> None
            then bindE (scope_key (cq_server_scope q)) (\<lambda>k. conflict_unless (k = key))
            else Inr ()) (\<lambda>_.
     bindE (require (parse_publication_key (cq_publication_key q) \<noteq> None) ValueError) (\<lambda>_.
     bindE (conflict_unless (\<not> both_differ (cq_review_target_id q) (cq_target_id q))) (\<lambda>_.
     case first_given (cq_review_target_id q) (cq_target_id q) of
       None \<Rightarrow> Inl ValueError
     | Some target \<Rightarrow>
     bindE (require_text target) (\<lambda>_.
     case parse_candidate_target target of
       None \<Rightarrow> Inl ControlConflictError
     | Some (target_skill, target_content) \<Rightarrow>
     bindE (conflict_unless (parse_publication_key (cq_publication_key q) = Some target_skill)) (\<lambda>_.
     bindE (conflict_unless (\<not> both_differ (cq_skill_id q) (cq_candidate_id q))) (\<lambda>_.
     let skill = (case first_given (cq_skill_id q) (cq_candidate_id q) of
                    None \<Rightarrow> target_skill | Some s \<Rightarrow> s) in
     bindE (conflict_unless (skill = target_skill \<and> uuid_pattern skill)) (\<lambda>_.
     bindE (require (cq_schema_version q = ''1.0'') ValueError) (\<lambda>_.
     bindE (forE require_sha256
       [cq_content_sha256 q, cq_full_sha256 q, cq_source_result_sha256 q]) (\<lambda>_.
     bindE (conflict_unless (target_content = cq_content_sha256 q)) (\<lambda>_.
     bindE (conflict_unless (\<not> both_differ (cq_status q) (cq_destination_status q))) (\<lambda>_.
     case first_given (cq_status q) (cq_destination_status q) of
       None \<Rightarrow> Inl ValueError
     | Some status \<Rightarrow>
     bindE (require (status \<in> set review_statuses) ValueError) (\<lambda>_.
     bindE (require_text (cq_actor_id q)) (\<lambda>_.
     bindE (conflict_unless (reviewer_id_pattern (cq_actor_id q))) (\<lambda>_.
     bindE (qualify_scope_key key ''review_target'' target) (\<lambda>qualified_target.
     bindE (candidate_idempotency_key key (cq_idempotency_key q) (cq_qualified_key q))
       (\<lambda>qualified_key.
     bindE (require (cq_legacy_provenance q \<noteq> None \<longleftrightarrow> cq_legacy_detail q \<noteq> None) ValueError) (\<lambda>_.
     bindE (case (cq_legacy_provenance q, cq_legacy_detail q) of
         (Some p, Some d) \<Rightarrow>
           bindE (bounded_review_mapping p) (\<lambda>p'.
           bindE (bounded_review_mapping d) (\<lambda>d'.
           bindE (validate_review_provenance p') (\<lambda>_. Inr (Some (p', d')))))
       | _ \<Rightarrow> Inr None) (\<lambda>legacy.
     bindE (validate_reason (cq_reason q) ValueError) (\<lambda>_.
     bindE (case cq_evidence q of None \<Rightarrow> Inr JNull | Some e \<Rightarrow> bounded_review_value e)
       (\<lambda>evidence.
     bindE (case (cq_occurred_at q, cq_now q) of
         (Some o1, Some o2) \<Rightarrow>
           bindE (to_micros o1) (\<lambda>a. bindE (to_micros o2) (\<lambda>b. require (a = b) ValueError))
       | _ \<Rightarrow> Inr ()) (\<lambda>_.
     Inr (\<lparr>cv_scope_key = key, cv_qualified_target = qualified_target,
            cv_qualified_key = qualified_key, cv_publication_key = cq_publication_key q,
            cv_review_target_id = target, cv_schema_version = cq_schema_version q,
            cv_skill_id = skill, cv_content_sha256 = cq_content_sha256 q,
            cv_full_sha256 = cq_full_sha256 q,
            cv_source_result_sha256 = cq_source_result_sha256 q, cv_status = status,
            cv_actor_id = cq_actor_id q, cv_legacy = legacy\<rparr>,
          evidence, first_given (cq_occurred_at q) (cq_now q))))))))))))))))))))))))"

text \<open>A retry under a stored idempotency key: read-only.\<close>

definition replay_candidate_event ::
  "(string \<Rightarrow> string) \<Rightarrow> candidate_request \<Rightarrow> candidate_event \<Rightarrow> json \<Rightarrow> datetime option \<Rightarrow>
   review_row \<Rightarrow> control_db \<Rightarrow> exn + review_event" where
  "replay_candidate_event sha q v evidence explicit_time existing db =
     bindE (case explicit_time of None \<Rightarrow> from_micros (rr_occurred_at existing) | Some t \<Rightarrow> Inr t)
       (\<lambda>replay_time.
     bindE (if cv_legacy v = None
            then except type_or_value ControlConflictError (json_object (rr_detail_json existing))
            else Inr []) (\<lambda>stored.
     let prior_state = first_given (cq_prior_state q) (jget stored ''expected_prior_state'');
         prior_version = first_given (cq_prior_version q) (jget stored ''expected_prior_version'');
         prior_event = first_given (cq_prior_event q) (jget stored ''expected_prior_event_id'');
         reason = unset_or (first_given (cq_reason q) (jget stored ''reason'')) JNull;
         ev = (if cq_evidence q = None then unset_or (jget stored ''evidence'') evidence
               else evidence) in
     bindE (candidate_event_payload sha v reason ev prior_state prior_version prior_event
       replay_time) (\<lambda>(digest, _, _).
     bindE (conflict_unless (rr_content_digest existing = digest)) (\<lambda>_.
     let history = target_events (rr_target_id existing) db in
     case find_projection (rr_target_id existing) db of
       None \<Rightarrow> Inl ControlConflictError
     | Some projection \<Rightarrow>
         bindE (conflict_unless (list_ex (\<lambda>r. rr_event_id r = rr_event_id existing) history)) (\<lambda>_.
         bindE (validate_candidate_projection sha db projection history) (\<lambda>_.
         review_event_from_row sha existing))))))"

text \<open>The state that the stored history proves: status, version and last event.\<close>

definition current_candidate_state ::
  "(string \<Rightarrow> string) \<Rightarrow> string \<Rightarrow> control_db \<Rightarrow> exn + string \<times> nat \<times> string option" where
  "current_candidate_state sha target db =
     (let prior_events = target_events target db in
      case find_projection target db of
        None \<Rightarrow> if prior_events \<noteq> [] then Inl ControlConflictError else Inr (''unreviewed'', 0, None)
      | Some projection \<Rightarrow>
          if prior_events = [] \<or> length prior_events \<noteq> 1 \<and> pr_status projection = ''unreviewed''
          then Inl ControlConflictError
          else
            bindE (validate_candidate_projection sha db projection prior_events) (\<lambda>_.
            Inr (pr_status projection, pr_version projection, Some (pr_last_event_id projection))))"

definition append_candidate_review_event ::
  "(string \<Rightarrow> string) \<Rightarrow> candidate_request \<Rightarrow> datetime \<Rightarrow> audit_context option \<Rightarrow> string \<Rightarrow>
   string \<Rightarrow> control_db \<Rightarrow> exn + review_event \<times> control_db" where
  "append_candidate_review_event sha q clock audit eid aid db =
     bindE (prepare_candidate_event q) (\<lambda>(v, evidence, explicit_time).
     case find_event_by_key (cv_qualified_key v) db of
       Some existing \<Rightarrow>
         bindE (replay_candidate_event sha q v evidence explicit_time existing db) (\<lambda>ev.
         Inr (ev, db))
     | None \<Rightarrow>
         bindE (current_candidate_state sha (cv_qualified_target v) db) (\<lambda>(state, version, event_id).
         let prior_state = unset_or (cq_prior_state q) (JStr state);
             prior_version = unset_or (cq_prior_version q) (JInt (int version));
             prior_event = unset_or (cq_prior_event q)
               (case event_id of None \<Rightarrow> JNull | Some i \<Rightarrow> JStr i) in
         bindE (validate_expected_prior state version event_id prior_state prior_version prior_event)
           (\<lambda>_.
         bindE (conflict_unless (legal_candidate_transition state (cv_status v))) (\<lambda>_.
         bindE (resolve_review_time explicit_time clock) (\<lambda>event_time.
         bindE (candidate_event_payload sha v (unset_or (cq_reason q) JNull) evidence
           (Some prior_state) (Some prior_version) (Some prior_event) event_time)
           (\<lambda>(digest, provenance_json, detail_json).
         bindE (to_micros event_time) (\<lambda>us.
         let n = next_sequence rr_sequence (review_events db) in
         bindE (insert_review_event
           \<lparr>rr_sequence = n, rr_event_id = eid, rr_target_id = cv_qualified_target v,
            rr_idempotency_key = cv_qualified_key v, rr_content_digest = digest,
            rr_actor_id = cv_actor_id v, rr_status = cv_status v,
            rr_provenance_json = provenance_json, rr_detail_json = detail_json,
            rr_occurred_at = us\<rparr> db) (\<lambda>db1.
         let db2 = upsert_projection
               \<lparr>pr_target_id = cv_qualified_target v, pr_status = cv_status v,
                pr_version = version + 1, pr_last_event_id = eid, pr_actor_id = cv_actor_id v,
                pr_provenance_json = provenance_json, pr_detail_json = detail_json,
                pr_occurred_at = us\<rparr> db1 in
         bindE (control_audit aid audit db2) (\<lambda>db3.
         bindE (event_row_at n db3) (\<lambda>r.
         bindE (review_event_from_row sha r) (\<lambda>ev. Inr (ev, db3))))))))))))"

section \<open>Readers\<close>

definition get_candidate_review_projection ::
  "(string \<Rightarrow> string) \<Rightarrow> string \<Rightarrow> control_db \<Rightarrow> exn + review_projection option" where
  "get_candidate_review_projection sha target db =
     bindE (conflict_unless (is_candidate_review_target target)) (\<lambda>_.
     case find_projection target db of
       None \<Rightarrow> if target_events target db \<noteq> [] then Inl ControlConflictError else Inr None
     | Some projection \<Rightarrow>
         bindE (validate_candidate_projection sha db projection (target_events target db)) (\<lambda>_.
         bindE (review_projection_from_row sha projection) (\<lambda>p. Inr (Some p))))"

definition get_review_projection ::
  "(string \<Rightarrow> string) \<Rightarrow> string \<Rightarrow> control_db \<Rightarrow> exn + review_projection option" where
  "get_review_projection sha target db =
     (if is_candidate_review_target target then get_candidate_review_projection sha target db
      else
        case find_projection target db of
          None \<Rightarrow> Inr None
        | Some r \<Rightarrow> bindE (review_projection_from_row sha r) (\<lambda>p. Inr (Some p)))"

definition list_candidate_review_events ::
  "(string \<Rightarrow> string) \<Rightarrow> string \<Rightarrow> int \<Rightarrow> int \<Rightarrow> control_db \<Rightarrow> exn + review_event list" where
  "list_candidate_review_events sha target after limit db =
     bindE (conflict_unless (is_candidate_review_target target)) (\<lambda>_.
     bindE (require_pagination after limit) (\<lambda>_.
     let rows = target_events target db in
     case find_projection target db of
       None \<Rightarrow> if rows \<noteq> [] then Inl ControlConflictError else Inr []
     | Some projection \<Rightarrow>
         bindE (validate_candidate_projection sha db projection rows) (\<lambda>_.
         bindE (mapE (review_event_from_row sha) rows) (\<lambda>evs.
         Inr (filter (\<lambda>e. after < int (re_sequence e) \<and> int (re_sequence e) \<le> after + limit)
           (number_rows (\<lambda>i e. e\<lparr>re_sequence := i\<rparr>) evs))))))"

definition list_review_events ::
  "(string \<Rightarrow> string) \<Rightarrow> string \<Rightarrow> control_db \<Rightarrow> exn + review_event list" where
  "list_review_events sha target db =
     (if is_candidate_review_target target then list_candidate_review_events sha target 0 100 db
      else mapE (review_event_from_row sha) (target_events target db))"

definition list_scoped_review_events ::
  "(string \<Rightarrow> string) \<Rightarrow> string \<Rightarrow> int \<Rightarrow> int \<Rightarrow> control_db \<Rightarrow> exn + review_event list" where
  "list_scoped_review_events sha target after limit db =
     bindE (require_text target) (\<lambda>_.
     bindE (require_pagination after limit) (\<lambda>_.
     if is_candidate_review_target target then list_candidate_review_events sha target after limit db
     else mapE (review_event_from_row sha)
       (take (nat limit) (filter (\<lambda>r. int (rr_sequence r) > after)
         (number_rows (\<lambda>i r. r\<lparr>rr_sequence := i\<rparr>) (target_events target db))))))"

end
