(* ===== verification/Canonical_Bytes.thy ===== *)
theory Canonical_Bytes
  imports Json_Text
begin

text \<open>
  Canonical bytes: UTF-8, the restricted JSON canonicalization (RFC 8785 without numbers other than
  integers) that \<open>processing_job_v2_identity.py\<close>, \<open>processing_job_v2_result_identity.py\<close> and
  \<open>candidate_publication_store.py\<close> each write out, and that the JSON reader always returns: its
  fuel never runs out. A byte string is a list of characters below 256.
\<close>

section \<open>UTF-8 of code points below 256\<close>

definition utf8_char :: "char \<Rightarrow> string" where
  "utf8_char c =
     (if code c < 128 then [c]
      else [char_of (192 + code c div 64), char_of (128 + code c mod 64)])"

definition utf8 :: "string \<Rightarrow> string" where
  "utf8 s = concat (map utf8_char s)"

text \<open>\<open>bytes.decode("utf-8")\<close>; text with a code point above 255 is outside the model.\<close>

fun utf8_decode :: "string \<Rightarrow> string option" where
  "utf8_decode [] = Some []"
| "utf8_decode (c # cs) =
     (if code c < 128 then map_option (Cons c) (utf8_decode cs)
      else if code c \<noteq> 194 \<and> code c \<noteq> 195 then None
      else case cs of
        [] \<Rightarrow> None
      | d # ds \<Rightarrow>
          if 128 \<le> code d \<and> code d < 192
          then map_option (Cons (char_of (64 * (code c - 192) + (code d - 128)))) (utf8_decode ds)
          else None)"

lemma utf8_simps [simp]: "utf8 [] = []" "utf8 (c # s) = utf8_char c @ utf8 s"
  by (simp_all add: utf8_def)

lemma utf8_append [simp]: "utf8 (s @ t) = utf8 s @ utf8 t"
  by (simp add: utf8_def)

lemma utf8_decode_char: "utf8_decode (utf8_char c @ t) = map_option (Cons c) (utf8_decode t)"
proof (cases "code c < 128")
  case False
  have "code c div 64 < 4" by (simp add: div_less_iff_less_mult)
  moreover have "2 \<le> code c div 64" using False by (simp add: less_eq_div_iff_mult_less_eq)
  ultimately have "code c div 64 = 2 \<or> code c div 64 = 3" by linarith
  then obtain k where k: "code c div 64 = k" "k = 2 \<or> k = 3" by blast
  then have "64 * k + code c mod 64 = code c" by (metis mult_div_mod_eq)
  then have "char_of (64 * k + code c mod 64) = c" by simp
  moreover have "code c mod 64 < 64" by simp
  ultimately show ?thesis
    using False k by (auto simp: utf8_char_def)
qed (simp add: utf8_char_def)

lemma utf8_decode_utf8 [simp]: "utf8_decode (utf8 s) = Some s"
  by (induction s) (simp_all add: utf8_decode_char)

lemma utf8_inject [simp]: "utf8 s = utf8 t \<longleftrightarrow> s = t"
  by (metis option.inject utf8_decode_utf8)

section \<open>Restricted canonical JSON\<close>

text \<open>
  The body the three modules share: \<open>q\<close> quotes a string, \<open>arrays\<close> says whether lists are admitted
  and \<open>e\<close> is the rejection. Keys sort by UTF-16, which below 256 is the order of code points.
\<close>

lemma mapE_cong [fundef_cong]:
  "xs = ys \<Longrightarrow> (\<And>x. x \<in> set ys \<Longrightarrow> f x = g x) \<Longrightarrow> mapE f xs = mapE g ys"
  by (induction xs arbitrary: ys) auto

function jcs :: "(string \<Rightarrow> string) \<Rightarrow> bool \<Rightarrow> exn \<Rightarrow> json \<Rightarrow> exn + string" where
  "jcs q arrays e (JStr s) = Inr (q s)"
| "jcs q arrays e (JInt i) = Inr (int_str i)"
| "jcs q arrays e (JObj d) =
     bindE (mapE (\<lambda>(k, v). bindE (jcs q arrays e v) (\<lambda>t. Inr (q k @ '':'' @ t))) (sort_key fst d))
       (\<lambda>ps. Inr (''{'' @ commas ps @ ''}''))"
| "jcs q arrays e (JArr xs) =
     (if arrays then bindE (mapE (jcs q arrays e) xs) (\<lambda>ps. Inr (''['' @ commas ps @ '']''))
      else Inl e)"
| "jcs q arrays e JNull = Inl e"
| "jcs q arrays e (JBool b) = Inl e"
  by pat_completeness auto
termination
proof (relation "measure (\<lambda>(_, _, _, v). size v)", goal_cases)
  case (2 q arrays e d x k v)
  then have "x \<in> set d" by simp
  with 2(2) show ?case
    by (auto simp: less_Suc_eq_le intro!: order_trans [OF _ size_list_estimation'])
qed (auto simp: less_Suc_eq_le intro: size_list_estimation')

text \<open>What it writes is the compact text of \<open>json.dumps\<close> with sorted keys.\<close>

lemma insort_map_snd:
  "insort_key fst (k, f v) (map (\<lambda>(k, v). (k, f v)) d) = map (\<lambda>(k, v). (k, f v)) (insort_key fst (k, v) d)"
  by (induction d) auto

lemma jcs_print: "jcs (quote a) l e v = Inr t \<Longrightarrow> t = print a (normalize v)"
proof (induction v arbitrary: t)
  case (JArr xs)
  from JArr.prems obtain ps where ps: "mapE (jcs (quote a) l e) xs = Inr ps" "t = ''['' @ commas ps @ '']''"
    by (auto simp: flow split: if_splits)
  have "ps = map (print a \<circ> normalize) xs"
    using ps(1) JArr.IH by (induction xs arbitrary: ps) (auto simp: flow)
  with ps(2) show ?case by simp
next
  case (JObj d)
  let ?f = "\<lambda>x. quote a (fst x) @ CHR '':'' # print a (normalize (snd x))"
  from JObj.prems obtain ps where ps: "mapE (\<lambda>(k, v). bindE (jcs (quote a) l e v)
      (\<lambda>t. Inr (quote a k @ '':'' @ t))) (sort_key fst d) = Inr ps" "t = ''{'' @ commas ps @ ''}''"
    by (auto simp: flow)
  have "set ds \<subseteq> set d \<Longrightarrow> mapE (\<lambda>(k, v). bindE (jcs (quote a) l e v)
      (\<lambda>t. Inr (quote a k @ '':'' @ t))) ds = Inr qs \<Longrightarrow> qs = map ?f ds" for ds qs
    using JObj.IH by (induction ds arbitrary: qs) (force simp: flow)+
  from this [OF _ ps(1)] have "ps = map ?f (sort_key fst d)" by simp
  moreover have "sort_key fst (map (\<lambda>(k, v). (k, normalize v)) d) =
      map (\<lambda>(k, v). (k, normalize v)) (sort_key fst d)"
    by (induction d) (auto simp: insort_map_snd)
  ultimately show ?case using ps(2) by (simp add: comp_def case_prod_beta)
qed auto

section \<open>The reader terminates\<close>

text \<open>Every part of the reader leaves less text than it was given.\<close>

lemma parse_string_shorter: "parse_string s = Some (x, r) \<Longrightarrow> length r < length s"
proof (induction s arbitrary: x r rule: length_induct)
  case (1 s)
  have IH: "parse_string t = Some (y, r) \<Longrightarrow> length t < length s \<Longrightarrow> length r < length s" for t y r
    using 1(1) by (meson order.strict_trans)
  show ?case
  proof (cases s)
    case (Cons c cs)
    with 1(2) show ?thesis
      by (auto split: if_splits option.splits list.splits prod.splits nat.splits dest: IH)
  qed (use 1(2) in simp)
qed

lemma length_skip_ws: "length (skip_ws s) \<le> length s"
  by (rule length_dropWhile_le)

lemma starts_length: "starts c s \<Longrightarrow> length (tl s) < length s"
  by (cases s) auto

lemma parse_nat_shorter: "parse_nat s = Some (n, r) \<Longrightarrow> length r < length s"
  by (cases s) (auto simp: parse_nat_def le_imp_less_Suc length_dropWhile_le split: if_splits)

lemma parse_int_shorter: "parse_int s = Some (i, r) \<Longrightarrow> length r < length s"
proof -
  assume "parse_int s = Some (i, r)"
  then consider n where "starts CHR ''-'' s" "parse_nat (tl s) = Some (n, r)"
    | n where "parse_nat s = Some (n, r)"
    by (auto simp: parse_int_def split: if_splits option.splits)
  then show ?thesis
    by cases (use parse_nat_shorter starts_length in fastforce)+
qed

lemma expect_shorter: "expect p s = Some r \<Longrightarrow> p \<noteq> [] \<Longrightarrow> length r < length s"
  by (cases s; cases p) (auto simp: expect_def startswith_def split: if_splits)

lemma skip_length:
  "starts c s \<Longrightarrow> length (skip_ws (tl s)) < length s"
  "starts c (skip_ws s) \<Longrightarrow> length (tl (skip_ws s)) < length s"
  "starts c (skip_ws s) \<Longrightarrow> length (skip_ws (tl (skip_ws s))) < length s"
  using length_skip_ws [of "tl s"] length_skip_ws [of s] length_skip_ws [of "tl (skip_ws s)"]
    starts_length [of c s] starts_length [of c "skip_ws s"]
  by linarith+

lemma parse_elems_SucE:
  assumes "parse_elems (Suc n) s = Some (vs, r)"
  obtains v r0 where "parse_value n s = Some (v, r0)" "starts CHR '']'' (skip_ws r0)"
    "vs = [v]" "r = tl (skip_ws r0)"
  | v r0 vs' where "parse_value n s = Some (v, r0)" "starts CHR '','' (skip_ws r0)"
    "parse_elems n (skip_ws (tl (skip_ws r0))) = Some (vs', r)" "vs = v # vs'"
  using assms by (auto simp: Let_def split: if_splits option.splits)

lemma parse_fields_SucE:
  assumes "parse_fields (Suc n) d s = Some (d', r)"
  obtains k r0 v r1 where "starts CHR 0x22 s" "parse_string (tl s) = Some (k, r0)"
    "starts CHR '':'' (skip_ws r0)" "parse_value n (skip_ws (tl (skip_ws r0))) = Some (v, r1)"
    "starts CHR ''}'' (skip_ws r1)" "r = tl (skip_ws r1)"
  | k r0 v r1 where "starts CHR 0x22 s" "parse_string (tl s) = Some (k, r0)"
    "starts CHR '':'' (skip_ws r0)" "parse_value n (skip_ws (tl (skip_ws r0))) = Some (v, r1)"
    "starts CHR '','' (skip_ws r1)"
    "parse_fields n (jset d k v) (skip_ws (tl (skip_ws r1))) = Some (d', r)"
  using assms by (auto simp: Let_def split: if_splits option.splits)

lemma parse_shorter:
  "parse_value n s = Some (v, r) \<Longrightarrow> length r < length s"
  "parse_elems n s = Some (vs, r) \<Longrightarrow> length r < length s"
  "parse_fields n d s = Some (d', r) \<Longrightarrow> length r < length s"
proof (induction n arbitrary: s v r vs d d')
  case (Suc n)
  {
    case 1
    then show ?case
      using length_skip_ws [of "tl s"]
      by (auto simp: Let_def split: if_splits dest: starts_length
          dest!: Suc.IH(2,3) parse_string_shorter parse_int_shorter expect_shorter)
  next
    case 2
    then show ?case
      by (cases rule: parse_elems_SucE)
        (use skip_length Suc.IH(1,2) in \<open>meson order.strict_trans\<close>)+
  next
    case 3
    then show ?case
    proof (cases rule: parse_fields_SucE)
      case (1 k r0 v r1)
      then show ?thesis
        using skip_length(3) [of _ r0] skip_length(2) [of _ r1] Suc.IH(1) [OF 1(4)]
          parse_string_shorter [OF 1(2)] starts_length [OF 1(1)] by fastforce
    next
      case (2 k r0 v r1)
      then show ?thesis
        using skip_length(3) [of _ r0] skip_length(3) [of _ r1] Suc.IH(1) [OF 2(4)]
          Suc.IH(3) [OF 2(6)] parse_string_shorter [OF 2(2)] starts_length [OF 2(1)] by fastforce
    qed
  }
qed simp_all

text \<open>With fuel for twice the text, more fuel changes nothing.\<close>

lemma parse_stable:
  "2 * length s + 1 \<le> n \<Longrightarrow> parse_value (Suc n) s = parse_value n s"
  "2 * length s + 2 \<le> n \<Longrightarrow> parse_elems (Suc n) s = parse_elems n s"
  "2 * length s + 2 \<le> n \<Longrightarrow> parse_fields (Suc n) d s = parse_fields n d s"
proof (induction n arbitrary: s d)
  case (Suc n)
  {
    case 1
    show ?case
    proof (cases "starts CHR ''['' s \<or> starts CHR ''{'' s")
      case True
      then have "length (skip_ws (tl s)) < length s" using skip_length(1) by blast
      then have "2 * length (skip_ws (tl s)) + 2 \<le> n" using 1 by linarith
      from Suc.IH(2) [OF this] Suc.IH(3) [OF this] show ?thesis
        by (simp only: parse_value.simps Let_def)
    qed auto
  next
    case 2
    then have v: "parse_value (Suc n) s = parse_value n s" by (intro Suc.IH(1)) linarith
    show ?case
    proof (cases "parse_value n s")
      case (Some p)
      then obtain w r where p: "parse_value n s = Some (w, r)" by (cases p) simp
      have "parse_elems (Suc n) (skip_ws (tl (skip_ws r))) = parse_elems n (skip_ws (tl (skip_ws r)))"
        if "starts CHR '','' (skip_ws r)"
        using parse_shorter(1) [OF p] skip_length(3) [OF that] 2 by (intro Suc.IH(2)) linarith
      then show ?thesis
        by (simp only: parse_elems.simps v p Let_def option.case prod.case cong: if_cong)
    qed (simp only: parse_elems.simps v option.case)
  next
    case 3
    show ?case
    proof (cases "\<exists>k r. starts CHR 0x22 s \<and> parse_string (tl s) = Some (k, r) \<and> starts CHR '':'' (skip_ws r)")
      case True
      then obtain k r where k: "starts CHR 0x22 s" "parse_string (tl s) = Some (k, r)"
        "starts CHR '':'' (skip_ws r)" by blast
      let ?t = "skip_ws (tl (skip_ws r))"
      have t: "length ?t < length s"
        using parse_string_shorter [OF k(2)] starts_length [OF k(1)] skip_length(3) [OF k(3)] by linarith
      then have v: "parse_value (Suc n) ?t = parse_value n ?t" using 3 by (intro Suc.IH(1)) linarith
      show ?thesis
      proof (cases "parse_value n ?t")
        case (Some p)
        then obtain w r' where p: "parse_value n ?t = Some (w, r')" by (cases p) simp
        have "parse_fields (Suc n) e (skip_ws (tl (skip_ws r'))) = parse_fields n e (skip_ws (tl (skip_ws r')))"
          if "starts CHR '','' (skip_ws r')" for e
          using parse_shorter(1) [OF p] skip_length(3) [OF that] t 3 by (intro Suc.IH(3)) linarith
        then show ?thesis
          by (simp only: parse_fields.simps k v p Let_def option.case prod.case cong: if_cong)
      qed (simp only: parse_fields.simps k v Let_def option.case prod.case)
    qed (auto simp: Let_def split: option.splits)
  }
qed simp_all

theorem reader_fuel_suffices:
  assumes "2 * length s < n"
  shows "parse_value n (skip_ws s) = parse_value (Suc (2 * length s)) (skip_ws s)"
  using assms
proof (induction n)
  case (Suc n)
  show ?case
  proof (cases "2 * length s < n")
    case True
    have "2 * length (skip_ws s) + 1 \<le> n" using True length_skip_ws [of s] by linarith
    then show ?thesis using parse_stable(1) Suc.IH [OF True] by metis
  next
    case False
    with Suc.prems have "n = 2 * length s" by linarith
    then show ?thesis by simp
  qed
qed simp

end
