(* ===== verification/Processing_Contracts.thy ===== *)
theory Processing_Contracts
  imports Canonical_Bytes
begin

text \<open>
  The processing contracts both sides share (\<open>models.py\<close> of the API and of the worker): artifact
  references, version 2 jobs and version 2 results with their validators, and the payload and
  result identities (\<open>processing_job_v2_identity.py\<close> on both sides, the worker's
  \<open>package_input_admission.py\<close> and \<open>processing_job_v2_result_identity.py\<close>).
  What pydantic accepts for a field of type UUID, int or float is a parameter, the record
  \<open>coercions\<close>; the constraints the models declare on the fields are written out. A duration is
  its number of microseconds, and \<open>None\<close> the float infinity. A \<open>ValidationError\<close> is a
  \<open>ValueError\<close>.
\<close>

section \<open>Values\<close>

datatype artifact_provider = S3 | Google_Drive

datatype artifact_role = Raw_Package | Timeline | Crop | Manifest

datatype event_type =
    Session_Started | Session_Paused | Session_Resumed | Session_Ended
  | Drawing_Opened | Drawing_Saved | Drawing_Closed | Cad_Command
  | Foreground_Changed | Idle_Started | Idle_Ended

fun provider_value :: "artifact_provider \<Rightarrow> string" where
  "provider_value S3 = ''s3''"
| "provider_value Google_Drive = ''google_drive''"

fun role_value :: "artifact_role \<Rightarrow> string" where
  "role_value Raw_Package = ''raw_package''"
| "role_value Timeline = ''timeline''"
| "role_value Crop = ''crop''"
| "role_value Manifest = ''manifest''"

fun event_value :: "event_type \<Rightarrow> string" where
  "event_value Session_Started = ''session_started''"
| "event_value Session_Paused = ''session_paused''"
| "event_value Session_Resumed = ''session_resumed''"
| "event_value Session_Ended = ''session_ended''"
| "event_value Drawing_Opened = ''drawing_opened''"
| "event_value Drawing_Saved = ''drawing_saved''"
| "event_value Drawing_Closed = ''drawing_closed''"
| "event_value Cad_Command = ''cad_command''"
| "event_value Foreground_Changed = ''foreground_changed''"
| "event_value Idle_Started = ''idle_started''"
| "event_value Idle_Ended = ''idle_ended''"

definition event_types :: "event_type list" where
  "event_types = [Session_Started, Session_Paused, Session_Resumed, Session_Ended, Drawing_Opened,
     Drawing_Saved, Drawing_Closed, Cad_Command, Foreground_Changed, Idle_Started, Idle_Ended]"

record artifact_ref =
  ar_provider :: artifact_provider
  ar_file_id :: string
  ar_revision :: string
  ar_sha256 :: string
  ar_size_bytes :: int
  ar_mime_type :: string
  ar_role :: artifact_role

record job_v2 =
  jv_schema_version :: string
  jv_job_id :: string
  jv_session_id :: string
  jv_input_artifact :: artifact_ref

record timeline_item =
  ti_offset :: "int option"
  ti_event_type :: event_type
  ti_summary :: string
  ti_source_event_id :: string

record operation_segment =
  os_sequence :: int
  os_start :: int
  os_end :: int
  os_command_names :: "string list"
  os_drawing_ref :: string
  os_summary :: string
  os_source_event_ids :: "string list"

record result_v2 =
  rv_session_id :: string
  rv_event_count :: int
  rv_meaningful_event_count :: int
  rv_timeline :: "timeline_item list"
  rv_operation_segments :: "operation_segment list"
  rv_keyframes :: "string list"
  rv_warnings :: "string list"

section \<open>Reading declared fields\<close>

record coercions =
  as_uuid :: "json \<Rightarrow> string option"
  as_int :: "json \<Rightarrow> int option"
  as_seconds :: "json \<Rightarrow> int option option"

text \<open>The laws the development relies on: canonical values read as themselves.\<close>

definition reads_canonical :: "coercions \<Rightarrow> bool" where
  "reads_canonical c \<longleftrightarrow>
     (\<forall>u. uuid_pattern u \<longrightarrow> as_uuid c (JStr u) = Some u) \<and>
     (\<forall>j u. as_uuid c j = Some u \<longrightarrow> uuid_pattern u)"

definition demand :: "'a option \<Rightarrow> exn + 'a" where
  "demand x = (case x of None \<Rightarrow> Inl ValueError | Some v \<Rightarrow> Inr v)"

lemma demand_simps [simp]: "demand None = Inl ValueError" "demand (Some v) = Inr v"
  by (simp_all add: demand_def)

lemma demand_Inr [flow]: "demand x = Inr v \<longleftrightarrow> x = Some v"
  by (cases x) auto

text \<open>\<open>extra="forbid"\<close>, and a required field.\<close>

definition model_fields :: "string list \<Rightarrow> json \<Rightarrow> exn + (string \<times> json) list" where
  "model_fields names j =
     (case j of
        JObj d \<Rightarrow> if \<forall>k \<in> fst ` set d. k \<in> set names then Inr d else Inl ValueError
      | _ \<Rightarrow> Inl ValueError)"

definition bounded_str :: "nat \<Rightarrow> nat \<Rightarrow> json \<Rightarrow> exn + string" where
  "bounded_str lo hi j =
     (case j of
        JStr s \<Rightarrow> if lo \<le> length s \<and> length s \<le> hi then Inr s else Inl ValueError
      | _ \<Rightarrow> Inl ValueError)"

definition sha256_str :: "json \<Rightarrow> exn + string" where
  "sha256_str j =
     (case j of JStr s \<Rightarrow> if sha256_pattern s then Inr s else Inl ValueError | _ \<Rightarrow> Inl ValueError)"

text \<open>\<open>ArtifactRef.validate_json_integer\<close> and the bounds of \<open>size_bytes\<close>: no bool, no float.\<close>

definition json_integer :: "int \<Rightarrow> int \<Rightarrow> json \<Rightarrow> exn + int" where
  "json_integer lo hi j =
     (case j of JInt i \<Rightarrow> if lo \<le> i \<and> i \<le> hi then Inr i else Inl ValueError | _ \<Rightarrow> Inl ValueError)"

definition enum_str :: "('e \<Rightarrow> string) \<Rightarrow> 'e list \<Rightarrow> json \<Rightarrow> exn + 'e" where
  "enum_str value es j =
     (case j of JStr s \<Rightarrow> demand (find (\<lambda>e. value e = s) es) | _ \<Rightarrow> Inl ValueError)"

definition list_of :: "(json \<Rightarrow> exn + 'a) \<Rightarrow> json \<Rightarrow> exn + 'a list" where
  "list_of f j = (case j of JArr xs \<Rightarrow> mapE f xs | _ \<Rightarrow> Inl ValueError)"

definition length_between :: "nat \<Rightarrow> nat \<Rightarrow> 'a list \<Rightarrow> exn + 'a list" where
  "length_between lo hi xs =
     (if lo \<le> length xs \<and> length xs \<le> hi then Inr xs else Inl ValueError)"

definition field_of :: "(string \<times> json) list \<Rightarrow> string \<Rightarrow> (json \<Rightarrow> exn + 'a) \<Rightarrow> exn + 'a" where
  "field_of d k f = bindE (demand (jget d k)) f"

section \<open>Artifact references and jobs\<close>

definition artifact_ref_validate :: "json \<Rightarrow> exn + artifact_ref" where
  "artifact_ref_validate j =
     bindE (model_fields [''provider'', ''file_id'', ''revision'', ''sha256'', ''size_bytes'',
         ''mime_type'', ''role''] j) (\<lambda>d.
     bindE (field_of d ''provider'' (enum_str provider_value [S3, Google_Drive])) (\<lambda>p.
     bindE (field_of d ''file_id'' (bounded_str 1 1024)) (\<lambda>f.
     bindE (field_of d ''revision'' (bounded_str 1 255)) (\<lambda>r.
     bindE (field_of d ''sha256'' sha256_str) (\<lambda>h.
     bindE (field_of d ''size_bytes'' (json_integer 0 536870912)) (\<lambda>n.
     bindE (field_of d ''mime_type'' (bounded_str 1 255)) (\<lambda>m.
     bindE (field_of d ''role'' (enum_str role_value [Raw_Package, Timeline, Crop, Manifest])) (\<lambda>ro.
     Inr \<lparr>ar_provider = p, ar_file_id = f, ar_revision = r, ar_sha256 = h, ar_size_bytes = n,
       ar_mime_type = m, ar_role = ro\<rparr>))))))))"

text \<open>\<open>model_dump(mode="json")\<close>.\<close>

definition artifact_ref_dump :: "artifact_ref \<Rightarrow> json" where
  "artifact_ref_dump a = JObj
     [(''provider'', JStr (provider_value (ar_provider a))),
      (''file_id'', JStr (ar_file_id a)), (''revision'', JStr (ar_revision a)),
      (''sha256'', JStr (ar_sha256 a)), (''size_bytes'', JInt (ar_size_bytes a)),
      (''mime_type'', JStr (ar_mime_type a)), (''role'', JStr (role_value (ar_role a)))]"

definition job_v2_validate :: "coercions \<Rightarrow> json \<Rightarrow> exn + job_v2" where
  "job_v2_validate c j =
     bindE (model_fields [''schema_version'', ''job_id'', ''session_id'', ''input_artifact''] j) (\<lambda>d.
     bindE (field_of d ''schema_version'' (\<lambda>v. if v = JStr ''2.0'' then Inr ''2.0'' else Inl ValueError)) (\<lambda>s.
     bindE (field_of d ''job_id'' (\<lambda>v. demand (as_uuid c v))) (\<lambda>ji.
     bindE (field_of d ''session_id'' (\<lambda>v. demand (as_uuid c v))) (\<lambda>si.
     bindE (field_of d ''input_artifact'' artifact_ref_validate) (\<lambda>a.
     Inr \<lparr>jv_schema_version = s, jv_job_id = ji, jv_session_id = si, jv_input_artifact = a\<rparr>)))))"

definition job_v2_dump :: "job_v2 \<Rightarrow> json" where
  "job_v2_dump job = JObj
     [(''schema_version'', JStr (jv_schema_version job)), (''job_id'', JStr (jv_job_id job)),
      (''session_id'', JStr (jv_session_id job)),
      (''input_artifact'', artifact_ref_dump (jv_input_artifact job))]"

text \<open>
  The two models override \<open>model_validate_json\<close>: a JSON number outside \<open>+-536870912\<close> becomes null
  before validation, so that it cannot be rounded into range.
\<close>

fun normalize_lossless_json_numbers :: "json \<Rightarrow> json" where
  "normalize_lossless_json_numbers (JInt i) =
     (if - 536870912 \<le> i \<and> i \<le> 536870912 then JInt i else JNull)"
| "normalize_lossless_json_numbers (JArr xs) = JArr (map normalize_lossless_json_numbers xs)"
| "normalize_lossless_json_numbers (JObj d) =
     JObj (map (\<lambda>(k, v). (k, normalize_lossless_json_numbers v)) d)"
| "normalize_lossless_json_numbers v = v"

definition lossless_json_value :: "string \<Rightarrow> exn + json" where
  "lossless_json_value t = bindE (loads t) (\<lambda>j. Inr (normalize_lossless_json_numbers j))"

definition job_v2_validate_json :: "coercions \<Rightarrow> string \<Rightarrow> exn + job_v2" where
  "job_v2_validate_json c t = bindE (lossless_json_value t) (job_v2_validate c)"

definition artifact_ref_validate_json :: "string \<Rightarrow> exn + artifact_ref" where
  "artifact_ref_validate_json t = bindE (lossless_json_value t) artifact_ref_validate"

text \<open>\<open>model_validate_json(model_dump_json(x))\<close>, the independent copy every consumer takes.\<close>

definition copy_job :: "coercions \<Rightarrow> job_v2 \<Rightarrow> exn + job_v2" where
  "copy_job c job = job_v2_validate_json c (print False (job_v2_dump job))"

definition copy_reference :: "artifact_ref \<Rightarrow> exn + artifact_ref" where
  "copy_reference a = artifact_ref_validate_json (print False (artifact_ref_dump a))"

section \<open>Results\<close>

definition timeline_item_validate :: "coercions \<Rightarrow> json \<Rightarrow> exn + timeline_item" where
  "timeline_item_validate c j =
     bindE (model_fields [''offset_seconds'', ''event_type'', ''summary'', ''source_event_id''] j) (\<lambda>d.
     bindE (field_of d ''offset_seconds'' (\<lambda>v. bindE (demand (as_seconds c v)) (\<lambda>t.
         if (case t of None \<Rightarrow> True | Some us \<Rightarrow> 0 \<le> us) then Inr t else Inl ValueError))) (\<lambda>t.
     bindE (field_of d ''event_type'' (enum_str event_value event_types)) (\<lambda>e.
     bindE (field_of d ''summary'' (bounded_str 1 512)) (\<lambda>s.
     bindE (field_of d ''source_event_id'' (\<lambda>v. demand (as_uuid c v))) (\<lambda>u.
     Inr \<lparr>ti_offset = t, ti_event_type = e, ti_summary = s, ti_source_event_id = u\<rparr>)))))"

text \<open>\<open>0 <= x <= 604800\<close> seconds, and finite.\<close>

definition max_offset_us :: int where
  "max_offset_us = 604800 * 1000000"

definition bounded_seconds :: "coercions \<Rightarrow> json \<Rightarrow> exn + int" where
  "bounded_seconds c v =
     bindE (demand (as_seconds c v)) (\<lambda>t.
     case t of
       Some us \<Rightarrow> if 0 \<le> us \<and> us \<le> max_offset_us then Inr us else Inl ValueError
     | None \<Rightarrow> Inl ValueError)"

text \<open>\<open>OperationSegment.validate_unique_values\<close>.\<close>

definition validate_unique_values :: "operation_segment \<Rightarrow> exn + unit" where
  "validate_unique_values s =
     bindE (require (distinct (os_command_names s)) ValueError) (\<lambda>_.
     bindE (require (list_all (\<lambda>n. 1 \<le> length n \<and> length n \<le> 128) (os_command_names s)) ValueError) (\<lambda>_.
     require (distinct (os_source_event_ids s)) ValueError))"

definition any_str :: "json \<Rightarrow> exn + string" where
  "any_str v = (case v of JStr s \<Rightarrow> Inr s | _ \<Rightarrow> Inl ValueError)"

definition operation_segment_validate :: "coercions \<Rightarrow> json \<Rightarrow> exn + operation_segment" where
  "operation_segment_validate c j =
     bindE (model_fields [''sequence'', ''start_offset_seconds'', ''end_offset_seconds'',
         ''command_names'', ''drawing_ref'', ''summary'', ''source_event_ids''] j) (\<lambda>d.
     bindE (field_of d ''sequence'' (\<lambda>v. bindE (demand (as_int c v)) (\<lambda>i.
         if 1 \<le> i \<and> i \<le> 1000 then Inr i else Inl ValueError))) (\<lambda>n.
     bindE (field_of d ''start_offset_seconds'' (bounded_seconds c)) (\<lambda>a.
     bindE (field_of d ''end_offset_seconds'' (bounded_seconds c)) (\<lambda>b.
     bindE (field_of d ''command_names''
         (\<lambda>v. bindE (list_of any_str v) (length_between 1 64))) (\<lambda>names.
     bindE (field_of d ''drawing_ref'' (bounded_str 1 255)) (\<lambda>dr.
     bindE (field_of d ''summary'' (bounded_str 1 512)) (\<lambda>su.
     bindE (field_of d ''source_event_ids''
         (\<lambda>v. bindE (list_of (\<lambda>u. demand (as_uuid c u)) v) (length_between 1 256))) (\<lambda>ids.
     let s = \<lparr>os_sequence = n, os_start = a, os_end = b, os_command_names = names,
       os_drawing_ref = dr, os_summary = su, os_source_event_ids = ids\<rparr>
     in bindE (validate_unique_values s) (\<lambda>_. Inr s)))))))))"

text \<open>
  \<open>validate_operation_segments\<close>: the loop over the timeline builds the map from event to offset,
  the loop over the segments carries the previous end and the events used so far.
\<close>

fun timeline_events :: "timeline_item list \<Rightarrow> (string \<times> int) list \<Rightarrow> exn + (string \<times> int) list" where
  "timeline_events [] m = Inr m"
| "timeline_events (e # es) m =
     (case ti_offset e of
        None \<Rightarrow> Inl ValueError
      | Some us \<Rightarrow>
          if ti_source_event_id e \<in> fst ` set m then Inl ValueError
          else timeline_events es ((ti_source_event_id e, us) # m))"

fun segment_sources :: "(string \<times> int) list \<Rightarrow> operation_segment \<Rightarrow> string list \<Rightarrow> string list \<Rightarrow>
    exn + string list" where
  "segment_sources m s [] used = Inr used"
| "segment_sources m s (u # us) used =
     (case map_of m u of
        None \<Rightarrow> Inl ValueError
      | Some offset \<Rightarrow>
          if u \<in> set used then Inl ValueError
          else if \<not> (os_start s \<le> offset \<and> offset \<le> os_end s) then Inl ValueError
          else segment_sources m s us (u # used))"

fun check_segments :: "(string \<times> int) list \<Rightarrow> int \<Rightarrow> int \<Rightarrow> string list \<Rightarrow> operation_segment list \<Rightarrow>
    exn + unit" where
  "check_segments m expected previous_end used [] = Inr ()"
| "check_segments m expected previous_end used (s # ss) =
     (if os_sequence s \<noteq> expected then Inl ValueError
      else if os_start s > os_end s then Inl ValueError
      else if os_start s < previous_end then Inl ValueError
      else bindE (segment_sources m s (os_source_event_ids s) used) (\<lambda>used'.
        check_segments m (expected + 1) (os_end s) used' ss))"

definition validate_operation_segments :: "result_v2 \<Rightarrow> exn + unit" where
  "validate_operation_segments r =
     bindE (timeline_events (rv_timeline r) []) (\<lambda>m.
       check_segments m 1 (- 1000000) [] (rv_operation_segments r))"

definition natural :: "coercions \<Rightarrow> json \<Rightarrow> exn + int" where
  "natural c v = bindE (demand (as_int c v)) (\<lambda>i. if 0 \<le> i then Inr i else Inl ValueError)"

definition result_v2_validate :: "coercions \<Rightarrow> json \<Rightarrow> exn + result_v2" where
  "result_v2_validate c j =
     bindE (model_fields [''schema_version'', ''session_id'', ''event_count'',
         ''meaningful_event_count'', ''timeline'', ''operation_segments'', ''keyframes'', ''warnings''] j) (\<lambda>d.
     bindE (require (jget d ''schema_version'' \<in> {None, Some (JStr ''2.0'')}) ValueError) (\<lambda>_.
     bindE (field_of d ''session_id'' (\<lambda>v. demand (as_uuid c v))) (\<lambda>sid.
     bindE (field_of d ''event_count'' (natural c)) (\<lambda>n.
     bindE (field_of d ''meaningful_event_count'' (natural c)) (\<lambda>k.
     bindE (field_of d ''timeline'' (list_of (timeline_item_validate c))) (\<lambda>tl.
     bindE (field_of d ''operation_segments''
         (\<lambda>v. bindE (list_of (operation_segment_validate c) v) (length_between 0 1000))) (\<lambda>ss.
     bindE (field_of d ''keyframes'' (list_of (bounded_str 1 1024))) (\<lambda>ks.
     bindE (field_of d ''warnings'' (list_of (bounded_str 1 2000))) (\<lambda>ws.
     let r = \<lparr>rv_session_id = sid, rv_event_count = n, rv_meaningful_event_count = k,
       rv_timeline = tl, rv_operation_segments = ss, rv_keyframes = ks, rv_warnings = ws\<rparr>
     in bindE (validate_operation_segments r) (\<lambda>_. Inr r))))))))))"

section \<open>Payload identity of a job\<close>

definition nul :: char where
  "nul = CHR 0x00"

definition payload_digest_scheme :: string where
  "payload_digest_scheme = ''workflow-helper.processing-job-v2.payload.sha256-jcs.v1''"

definition payload_domain_prefix :: string where
  "payload_domain_prefix = ''workflow-helper'' @ [nul] @ ''processing-job-v2'' @ [nul] @
     ''payload-digest'' @ [nul] @ ''sha256-jcs-v1'' @ [nul]"

definition short_escapes :: "(nat \<times> string) list" where
  "short_escapes =
     [(8, [CHR 0x5C, CHR ''b'']), (9, [CHR 0x5C, CHR ''t'']), (10, [CHR 0x5C, CHR ''n'']),
      (12, [CHR 0x5C, CHR ''f'']), (13, [CHR 0x5C, CHR ''r'']), (34, [CHR 0x5C, CHR 0x22]),
      (92, [CHR 0x5C, CHR 0x5C])]"

definition quote_string :: "string \<Rightarrow> string" where
  "quote_string s =
     CHR 0x22 # concat (map (\<lambda>c.
       case map_of short_escapes (code c) of
         Some e \<Rightarrow> e
       | None \<Rightarrow> if code c \<le> 31 then u_escape (code c) else [c]) s) @ [CHR 0x22]"

definition serialize_payload_jcs :: "json \<Rightarrow> exn + string" where
  "serialize_payload_jcs v = jcs quote_string False ValueError v"

text \<open>
  The API's \<open>_admit_processing_job_v2\<close> and the worker's \<open>admit_package_input\<close>; the tests of exact
  field sets and types hold of every value of the record types.
\<close>

definition max_package_bytes :: int where
  "max_package_bytes = 536870912"

definition admit_processing_job_v2 :: "coercions \<Rightarrow> job_v2 \<Rightarrow> exn + job_v2" where
  "admit_processing_job_v2 c job =
     bindE (except (\<lambda>_. True) ValueError (copy_job c job)) (\<lambda>snapshot.
       let a = jv_input_artifact snapshot in
       if jv_schema_version snapshot \<noteq> ''2.0'' \<or>
          ar_provider a \<notin> {S3, Google_Drive} \<or>
          \<not> (1 \<le> length (ar_file_id a) \<and> length (ar_file_id a) \<le> 1024) \<or>
          \<not> (1 \<le> length (ar_revision a) \<and> length (ar_revision a) \<le> 255) \<or>
          \<not> sha256_pattern (ar_sha256 a) \<or>
          \<not> (1 \<le> ar_size_bytes a \<and> ar_size_bytes a \<le> max_package_bytes) \<or>
          ar_mime_type a \<noteq> ''application/zip'' \<or> ar_role a \<noteq> Raw_Package
       then Inl ValueError else Inr snapshot)"

definition admit_package_input :: "coercions \<Rightarrow> job_v2 \<Rightarrow> exn + job_v2" where
  "admit_package_input c job =
     bindE (except (\<lambda>_. True) ValueError (copy_job c job)) (\<lambda>snapshot.
       let a = jv_input_artifact snapshot in
       if ar_provider a \<notin> {S3, Google_Drive} \<or> ar_role a \<noteq> Raw_Package \<or>
          ar_mime_type a \<noteq> ''application/zip'' \<or>
          \<not> (1 \<le> ar_size_bytes a \<and> ar_size_bytes a \<le> max_package_bytes)
       then Inl ValueError else Inr snapshot)"

definition normalized_semantic_object :: "job_v2 \<Rightarrow> json" where
  "normalized_semantic_object job =
     (let a = jv_input_artifact job in
      JObj
       [(''schema_version'', JStr (jv_schema_version job)), (''job_id'', JStr (jv_job_id job)),
        (''session_id'', JStr (jv_session_id job)),
        (''input_artifact'', JObj
          [(''provider'', JStr (provider_value (ar_provider a))),
           (''file_id'', JStr (ar_file_id a)), (''revision'', JStr (ar_revision a)),
           (''sha256'', JStr (ar_sha256 a)), (''size_bytes'', JInt (ar_size_bytes a)),
           (''mime_type'', JStr (ar_mime_type a)), (''role'', JStr (role_value (ar_role a)))])])"

definition api_payload_preimage :: "coercions \<Rightarrow> job_v2 \<Rightarrow> exn + string" where
  "api_payload_preimage c job =
     except (\<lambda>_. True) ValueError
       (bindE (admit_processing_job_v2 c job) (\<lambda>snapshot.
        bindE (serialize_payload_jcs (normalized_semantic_object snapshot)) (\<lambda>t.
        Inr (payload_domain_prefix @ utf8 t))))"

definition api_payload_digest :: "(string \<Rightarrow> string) \<Rightarrow> coercions \<Rightarrow> job_v2 \<Rightarrow> exn + string" where
  "api_payload_digest sha c job = bindE (api_payload_preimage c job) (\<lambda>p. Inr (sha p))"

definition worker_payload_preimage :: "coercions \<Rightarrow> job_v2 \<Rightarrow> exn + string" where
  "worker_payload_preimage c job =
     except (\<lambda>_. True) ValueError
       (bindE (admit_package_input c job) (\<lambda>snapshot.
        bindE (serialize_payload_jcs (normalized_semantic_object snapshot)) (\<lambda>t.
        Inr (payload_domain_prefix @ utf8 t))))"

definition worker_payload_digest :: "(string \<Rightarrow> string) \<Rightarrow> coercions \<Rightarrow> job_v2 \<Rightarrow> exn + string" where
  "worker_payload_digest sha c job = bindE (worker_payload_preimage c job) (\<lambda>p. Inr (sha p))"

section \<open>Lemmas\<close>

text \<open>What validation establishes, and that a valid value survives its copy.\<close>

definition artifact_ref_ok :: "artifact_ref \<Rightarrow> bool" where
  "artifact_ref_ok a \<longleftrightarrow>
     1 \<le> length (ar_file_id a) \<and> length (ar_file_id a) \<le> 1024 \<and>
     1 \<le> length (ar_revision a) \<and> length (ar_revision a) \<le> 255 \<and> sha256_pattern (ar_sha256 a) \<and>
     0 \<le> ar_size_bytes a \<and> ar_size_bytes a \<le> 536870912 \<and>
     1 \<le> length (ar_mime_type a) \<and> length (ar_mime_type a) \<le> 255"

definition job_v2_ok :: "job_v2 \<Rightarrow> bool" where
  "job_v2_ok job \<longleftrightarrow> jv_schema_version job = ''2.0'' \<and> uuid_pattern (jv_job_id job) \<and>
     uuid_pattern (jv_session_id job) \<and> artifact_ref_ok (jv_input_artifact job)"

lemma field_of_Inr [flow]: "field_of d k f = Inr v \<longleftrightarrow> (\<exists>j. jget d k = Some j \<and> f j = Inr v)"
  by (auto simp: field_of_def flow)

lemma bounded_str_Inr [flow]:
  "bounded_str lo hi j = Inr s \<longleftrightarrow> j = JStr s \<and> lo \<le> length s \<and> length s \<le> hi"
  by (auto simp: bounded_str_def split: json.splits)

lemma sha256_str_Inr [flow]: "sha256_str j = Inr s \<longleftrightarrow> j = JStr s \<and> sha256_pattern s"
  by (auto simp: sha256_str_def split: json.splits)

lemma json_integer_Inr [flow]: "json_integer lo hi j = Inr i \<longleftrightarrow> j = JInt i \<and> lo \<le> i \<and> i \<le> hi"
  by (auto simp: json_integer_def split: json.splits)

lemma provider_value_inject [simp]: "provider_value p = provider_value q \<longleftrightarrow> p = q"
  by (cases p; cases q) simp_all

lemma artifact_role_value_inject [simp]: "role_value p = role_value q \<longleftrightarrow> p = q"
  by (cases p; cases q) simp_all

lemma enum_provider [simp]:
  "enum_str provider_value [S3, Google_Drive] (JStr (provider_value p)) = Inr p"
  by (cases p) (simp_all add: enum_str_def)

lemma enum_role [simp]:
  "enum_str role_value [Raw_Package, Timeline, Crop, Manifest] (JStr (role_value r)) = Inr r"
  by (cases r) (simp_all add: enum_str_def)

lemma artifact_ref_validate_ok: "artifact_ref_validate j = Inr a \<Longrightarrow> artifact_ref_ok a"
  unfolding artifact_ref_validate_def artifact_ref_ok_def
  by (elim bindE_InrE) (auto simp: flow split: json.splits if_splits)

lemma job_v2_validate_ok: "reads_canonical c \<Longrightarrow> job_v2_validate c j = Inr job \<Longrightarrow> job_v2_ok job"
  unfolding job_v2_validate_def job_v2_ok_def reads_canonical_def
  by (elim bindE_InrE) (auto simp: flow artifact_ref_validate_ok split: if_splits)

lemma artifact_ref_dump_validate: "artifact_ref_ok a \<Longrightarrow> artifact_ref_validate (artifact_ref_dump a) = Inr a"
  by (simp add: artifact_ref_validate_def artifact_ref_dump_def artifact_ref_ok_def model_fields_def
      field_of_def jget_def bounded_str_def sha256_str_def json_integer_def)

lemma job_v2_dump_validate:
  "reads_canonical c \<Longrightarrow> job_v2_ok job \<Longrightarrow> job_v2_validate c (job_v2_dump job) = Inr job"
  by (simp add: job_v2_validate_def job_v2_dump_def job_v2_ok_def model_fields_def field_of_def
      jget_def artifact_ref_dump_validate reads_canonical_def)

lemma dump_distinct_keys [simp]:
  "distinct_keys (artifact_ref_dump a)" "distinct_keys (job_v2_dump job)"
  by (simp_all add: artifact_ref_dump_def job_v2_dump_def)

lemma normalize_dump:
  "artifact_ref_ok a \<Longrightarrow> normalize_lossless_json_numbers (artifact_ref_dump a) = artifact_ref_dump a"
  "job_v2_ok job \<Longrightarrow> normalize_lossless_json_numbers (job_v2_dump job) = job_v2_dump job"
  by (auto simp: artifact_ref_dump_def job_v2_dump_def artifact_ref_ok_def job_v2_ok_def)

lemma copy_reference_ok: "artifact_ref_ok a \<Longrightarrow> copy_reference a = Inr a"
  by (simp add: copy_reference_def artifact_ref_validate_json_def lossless_json_value_def loads_print
      normalize_dump artifact_ref_dump_validate)

lemma copy_job_ok: "reads_canonical c \<Longrightarrow> job_v2_ok job \<Longrightarrow> copy_job c job = Inr job"
  by (simp add: copy_job_def job_v2_validate_json_def lossless_json_value_def loads_print
      normalize_dump job_v2_dump_validate)

lemma copy_reference_Inr: "copy_reference a = Inr b \<Longrightarrow> artifact_ref_ok b"
  by (auto simp: copy_reference_def artifact_ref_validate_json_def flow dest: artifact_ref_validate_ok)

lemma copy_job_Inr: "copy_job c job = Inr b \<Longrightarrow> jv_schema_version b = ''2.0'' \<and> artifact_ref_ok (jv_input_artifact b)"
  unfolding copy_job_def job_v2_validate_json_def job_v2_validate_def
  by (elim bindE_InrE) (auto simp: flow artifact_ref_validate_ok split: if_splits)

text \<open>The hand-written quoting is the one of \<open>json.dumps(..., ensure_ascii=False)\<close>.\<close>

lemma quote_string_is_quote: "quote_string = quote False"
proof
  fix s
  have "(case map_of short_escapes (code c) of Some e \<Rightarrow> e
      | None \<Rightarrow> if code c \<le> 31 then u_escape (code c) else [c]) = escape_char False c" for c
    by (simp add: short_escapes_def escape_char_def Let_def)
  then show "quote_string s = quote False s"
    by (simp add: quote_string_def quote_def)
qed

text \<open>The API admits a job for its digest exactly when the worker does.\<close>

lemma admissions_agree: "admit_processing_job_v2 c job = admit_package_input c job"
proof (cases "copy_job c job")
  case (Inr b)
  from copy_job_Inr [OF Inr] Inr show ?thesis
    by (auto simp: admit_processing_job_v2_def admit_package_input_def artifact_ref_ok_def Let_def)
qed (simp add: admit_processing_job_v2_def admit_package_input_def)

end
