(* ===== verification/Result_Manifest.thy ===== *)
theory Result_Manifest
  imports Processing_Contracts
begin

text \<open>
  The worker's result manifest (\<open>processing_job_v2_result_identity.py\<close>): the manifest that binds the
  outputs of an admitted job to exact artifact references and store namespaces, its canonical
  preimage and its digest. Every failure is the one \<open>ValueError\<close> of \<open>_reject\<close>.
\<close>

section \<open>Namespaces\<close>

definition name_char :: "char \<Rightarrow> bool" where
  "name_char ch = (is_digit ch \<or> is_lower ch \<or> is_upper ch \<or> ch \<in> {CHR ''_'', CHR ''-''})"

definition lower_alnum :: "char \<Rightarrow> bool" where
  "lower_alnum ch = (is_digit ch \<or> is_lower ch)"

text \<open>The text cut at every \<open>/\<close>; the patterns constrain each part.\<close>

fun split_on :: "char \<Rightarrow> string \<Rightarrow> string list" where
  "split_on sep [] = [[]]"
| "split_on sep (x # xs) =
     (if x = sep then [] # split_on sep xs
      else case split_on sep xs of [] \<Rightarrow> [[x]] | p # ps \<Rightarrow> (x # p) # ps)"

definition drive_part :: "string \<Rightarrow> bool" where
  "drive_part p = (1 \<le> length p \<and> length p \<le> 128 \<and> list_all name_char p)"

definition drive_namespace :: "string \<Rightarrow> bool" where
  "drive_namespace s =
     (case split_on CHR ''/'' s of
        [scheme, e, a, b] \<Rightarrow> scheme = ''google-drive:'' \<and> e = [] \<and> drive_part a \<and> drive_part b
      | _ \<Rightarrow> False)"

text \<open>\<open>[a-z]{2}(?:-[a-z0-9]+)+-[0-9]\<close>, by its parts between hyphens.\<close>

definition region_pattern :: "string \<Rightarrow> bool" where
  "region_pattern s =
     (let ps = split_on CHR ''-'' s in
      3 \<le> length ps \<and> length (hd ps) = 2 \<and> list_all is_lower (hd ps) \<and>
      list_all (\<lambda>p. p \<noteq> [] \<and> list_all lower_alnum p) (tl ps) \<and>
      length (last ps) = 1 \<and> list_all is_digit (last ps))"

definition bucket_pattern :: "string \<Rightarrow> bool" where
  "bucket_pattern s =
     (3 \<le> length s \<and> length s \<le> 63 \<and> lower_alnum (hd s) \<and> lower_alnum (last s) \<and>
      list_all (\<lambda>ch. lower_alnum ch \<or> ch = CHR ''-'') s)"

definition s3_namespace :: "string \<Rightarrow> bool" where
  "s3_namespace s =
     (case split_on CHR ''/'' s of
        [scheme, e, part, account, region, bucket] \<Rightarrow>
          scheme = ''aws-s3:'' \<and> e = [] \<and> part \<in> {''aws'', ''aws-cn'', ''aws-us-gov''} \<and>
          length account = 12 \<and> list_all is_digit account \<and>
          region_pattern region \<and> bucket_pattern bucket
      | _ \<Rightarrow> False)"

definition region_of :: "string \<Rightarrow> string" where
  "region_of s = split_on CHR ''/'' s ! 4"

definition validate_namespace :: "string \<Rightarrow> artifact_provider \<Rightarrow> exn + string" where
  "validate_namespace ns p =
     (case p of
        Google_Drive \<Rightarrow> if drive_namespace ns then Inr ns else Inl ValueError
      | S3 \<Rightarrow>
          if \<not> s3_namespace ns then Inl ValueError
          else if length (region_of ns) > 32 then Inl ValueError
          else Inr ns)"

section \<open>Outputs\<close>

record output_binding =
  ob_store_namespace :: string
  ob_artifact_ref :: artifact_ref

fun role_mime :: "artifact_role \<Rightarrow> string option" where
  "role_mime Timeline = Some ''application/json''"
| "role_mime Manifest = Some ''application/json''"
| "role_mime Crop = Some ''image/png''"
| "role_mime Raw_Package = None"

definition snapshot_artifact :: "artifact_ref \<Rightarrow> exn + json" where
  "snapshot_artifact a =
     (if role_mime (ar_role a) \<noteq> Some (ar_mime_type a) \<or>
         \<not> (1 \<le> length (ar_file_id a) \<and> length (ar_file_id a) \<le> 1024) \<or>
         \<not> (1 \<le> length (ar_revision a) \<and> length (ar_revision a) \<le> 255) \<or>
         length (utf8 (ar_revision a)) > 1024 \<or> \<not> sha256_pattern (ar_sha256 a) \<or>
         \<not> (1 \<le> ar_size_bytes a \<and> ar_size_bytes a \<le> 536870912)
      then Inl ValueError
      else Inr (artifact_ref_dump a))"

definition snapshot_binding :: "output_binding \<Rightarrow> exn + json" where
  "snapshot_binding b =
     bindE (snapshot_artifact (ob_artifact_ref b)) (\<lambda>a.
     bindE (validate_namespace (ob_store_namespace b) (ar_provider (ob_artifact_ref b))) (\<lambda>ns.
     Inr (JObj [(''store_namespace'', JStr ns), (''artifact_ref'', a)])))"

definition locator :: "output_binding \<Rightarrow> string \<times> string \<times> string \<times> string" where
  "locator b =
     (provider_value (ar_provider (ob_artifact_ref b)), ob_store_namespace b,
      ar_file_id (ob_artifact_ref b), ar_revision (ob_artifact_ref b))"

fun snapshot_loop :: "(string \<times> string \<times> string \<times> string) set \<Rightarrow> output_binding list \<Rightarrow> exn + json list" where
  "snapshot_loop seen [] = Inr []"
| "snapshot_loop seen (b # bs) =
     bindE (snapshot_binding b) (\<lambda>out.
       if locator b \<in> seen then Inl ValueError
       else bindE (snapshot_loop (insert (locator b) seen) bs) (\<lambda>outs. Inr (out # outs)))"

definition snapshot_outputs :: "output_binding list \<Rightarrow> exn + json list" where
  "snapshot_outputs bs =
     (if 1 \<le> length bs \<and> length bs \<le> 1024 then snapshot_loop {} bs else Inl ValueError)"

section \<open>Manifests and their digest\<close>

definition bound_job_identity :: "(string \<Rightarrow> string) \<Rightarrow> coercions \<Rightarrow> job_v2 \<Rightarrow> exn + job_v2 \<times> string" where
  "bound_job_identity sha c job =
     bindE (admit_package_input c job) (\<lambda>admitted.
     bindE (worker_payload_digest sha c admitted) (\<lambda>digest. Inr (admitted, digest)))"

definition manifest_json :: "job_v2 \<Rightarrow> string \<Rightarrow> json list \<Rightarrow> (string \<times> json) list" where
  "manifest_json admitted digest outs =
     [(''schema_version'', JStr ''1.0''), (''job_id'', JStr (jv_job_id admitted)),
      (''session_id'', JStr (jv_session_id admitted)),
      (''payload_digest_scheme'', JStr payload_digest_scheme), (''payload_digest'', JStr digest),
      (''outputs'', JArr outs)]"

definition build_manifest ::
  "(string \<Rightarrow> string) \<Rightarrow> coercions \<Rightarrow> job_v2 \<Rightarrow> output_binding list \<Rightarrow> exn + (string \<times> json) list" where
  "build_manifest sha c job bs =
     bindE (bound_job_identity sha c job) (\<lambda>(admitted, digest).
     bindE (snapshot_outputs bs) (\<lambda>outs. Inr (manifest_json admitted digest outs)))"

text \<open>\<open>_has_exact_dict_fields\<close>.\<close>

definition exact_keys :: "string list \<Rightarrow> (string \<times> json) list \<Rightarrow> bool" where
  "exact_keys names d = (length d = length names \<and> (\<forall>k \<in> fst ` set d. k \<in> set names))"

definition exact_dict :: "string list \<Rightarrow> json \<Rightarrow> exn + (string \<times> json) list" where
  "exact_dict names j =
     (case j of JObj d \<Rightarrow> if exact_keys names d then Inr d else Inl ValueError | _ \<Rightarrow> Inl ValueError)"

definition read_output :: "json \<Rightarrow> exn + output_binding" where
  "read_output j =
     bindE (exact_dict [''store_namespace'', ''artifact_ref''] j) (\<lambda>d.
     bindE (demand (jget d ''artifact_ref'')) (\<lambda>raw.
     bindE (exact_dict [''provider'', ''file_id'', ''revision'', ''sha256'', ''size_bytes'',
         ''mime_type'', ''role''] raw) (\<lambda>_.
     bindE (artifact_ref_validate raw) (\<lambda>a.
     bindE (field_of d ''store_namespace'' any_str) (\<lambda>ns.
     Inr \<lparr>ob_store_namespace = ns, ob_artifact_ref = a\<rparr>)))))"

definition snapshot_manifest ::
  "(string \<Rightarrow> string) \<Rightarrow> coercions \<Rightarrow> job_v2 \<Rightarrow> (string \<times> json) list \<Rightarrow> exn + (string \<times> json) list" where
  "snapshot_manifest sha c job m =
     bindE (bound_job_identity sha c job) (\<lambda>(admitted, expected).
     bindE (require (exact_keys [''schema_version'', ''job_id'', ''session_id'',
         ''payload_digest_scheme'', ''payload_digest'', ''outputs''] m) ValueError) (\<lambda>_.
     bindE (require (jget m ''schema_version'' = Some (JStr ''1.0'') \<and>
         jget m ''job_id'' = Some (JStr (jv_job_id admitted)) \<and>
         jget m ''session_id'' = Some (JStr (jv_session_id admitted)) \<and>
         jget m ''payload_digest_scheme'' = Some (JStr payload_digest_scheme) \<and>
         jget m ''payload_digest'' = Some (JStr expected)) ValueError) (\<lambda>_.
     bindE (field_of m ''outputs'' (\<lambda>j. case j of JArr xs \<Rightarrow> Inr xs | _ \<Rightarrow> Inl ValueError)) (\<lambda>raw.
     bindE (require (1 \<le> length raw \<and> length raw \<le> 1024) ValueError) (\<lambda>_.
     bindE (mapE read_output raw) (\<lambda>bs.
     bindE (snapshot_outputs bs) (\<lambda>outs. Inr (manifest_json admitted expected outs))))))))"

definition result_domain_prefix :: string where
  "result_domain_prefix = ''workflow-helper'' @ [nul] @ ''processing-job-v2'' @ [nul] @
     ''result-digest'' @ [nul] @ ''sha256-jcs-v1'' @ [nul]"

definition serialize_result_jcs :: "json \<Rightarrow> exn + string" where
  "serialize_result_jcs v = jcs quote_string True ValueError v"

definition canonical_preimage :: "(string \<times> json) list \<Rightarrow> exn + string" where
  "canonical_preimage m =
     bindE (serialize_result_jcs (JObj m)) (\<lambda>t.
       let p = result_domain_prefix @ utf8 t in
       if length p > 16777216 then Inl ValueError else Inr p)"

text \<open>The public functions replace every failure by the one rejection.\<close>

definition build_result_manifest ::
  "(string \<Rightarrow> string) \<Rightarrow> coercions \<Rightarrow> job_v2 \<Rightarrow> output_binding list \<Rightarrow> exn + (string \<times> json) list" where
  "build_result_manifest sha c job bs = except (\<lambda>_. True) ValueError (build_manifest sha c job bs)"

definition canonical_result_preimage ::
  "(string \<Rightarrow> string) \<Rightarrow> coercions \<Rightarrow> job_v2 \<Rightarrow> output_binding list \<Rightarrow> exn + string" where
  "canonical_result_preimage sha c job bs =
     except (\<lambda>_. True) ValueError (bindE (build_manifest sha c job bs) canonical_preimage)"

definition verify_result_manifest_preimage ::
  "(string \<Rightarrow> string) \<Rightarrow> coercions \<Rightarrow> job_v2 \<Rightarrow> (string \<times> json) list \<Rightarrow> exn + string" where
  "verify_result_manifest_preimage sha c job m =
     except (\<lambda>_. True) ValueError (bindE (snapshot_manifest sha c job m) canonical_preimage)"

definition result_digest ::
  "(string \<Rightarrow> string) \<Rightarrow> coercions \<Rightarrow> job_v2 \<Rightarrow> output_binding list \<Rightarrow> exn + string" where
  "result_digest sha c job bs =
     except (\<lambda>_. True) ValueError (bindE (canonical_result_preimage sha c job bs) (\<lambda>p. Inr (sha p)))"

section \<open>A built manifest verifies as itself\<close>

lemma exact_dict_JObj [simp]: "exact_dict names (JObj d) = (if exact_keys names d then Inr d else Inl ValueError)"
  by (simp add: exact_dict_def)

lemma role_mime_length: "role_mime r = Some m \<Longrightarrow> Suc 0 \<le> length m \<and> length m \<le> 255"
  by (cases r) auto

lemma snapshot_artifact_Inr:
  "snapshot_artifact a = Inr j \<Longrightarrow> j = artifact_ref_dump a \<and> artifact_ref_ok a"
  by (auto simp: snapshot_artifact_def artifact_ref_ok_def dest: role_mime_length split: if_splits)

lemma validate_namespace_Inr: "validate_namespace ns p = Inr n \<Longrightarrow> n = ns"
  by (auto simp: validate_namespace_def split: artifact_provider.splits if_splits)

lemma snapshot_binding_Inr:
  "snapshot_binding b = Inr j \<Longrightarrow> artifact_ref_ok (ob_artifact_ref b) \<and>
     j = JObj [(''store_namespace'', JStr (ob_store_namespace b)),
       (''artifact_ref'', artifact_ref_dump (ob_artifact_ref b))]"
  by (auto simp: snapshot_binding_def flow dest!: snapshot_artifact_Inr validate_namespace_Inr)

lemma read_snapshot: "snapshot_binding b = Inr j \<Longrightarrow> read_output j = Inr b"
proof (drule snapshot_binding_Inr, elim conjE)
  assume "artifact_ref_ok (ob_artifact_ref b)"
    and j: "j = JObj [(''store_namespace'', JStr (ob_store_namespace b)),
       (''artifact_ref'', artifact_ref_dump (ob_artifact_ref b))]"
  from artifact_ref_dump_validate [OF this(1)] show ?thesis
    unfolding j by (simp add: read_output_def exact_keys_def jget_def field_of_def any_str_def
        artifact_ref_dump_def)
qed

lemma read_snapshot_loop: "snapshot_loop seen bs = Inr outs \<Longrightarrow> mapE read_output outs = Inr bs"
  by (induction seen bs arbitrary: outs rule: snapshot_loop.induct)
    (auto simp: flow read_snapshot split: if_splits)

lemma snapshot_loop_length: "snapshot_loop seen bs = Inr outs \<Longrightarrow> length outs = length bs"
  by (induction seen bs arbitrary: outs rule: snapshot_loop.induct) (auto simp: flow split: if_splits)

lemma snapshot_loop_locators: "snapshot_loop seen bs = Inr outs \<Longrightarrow>
    distinct (map locator bs) \<and> locator ` set bs \<inter> seen = {}"
  by (induction seen bs arbitrary: outs rule: snapshot_loop.induct)
    (fastforce simp: flow split: if_splits)+

lemma snapshot_outputs_Inr:
  "snapshot_outputs bs = Inr outs \<Longrightarrow>
     1 \<le> length bs \<and> length bs \<le> 1024 \<and> length outs = length bs \<and>
     mapE read_output outs = Inr bs \<and> distinct (map locator bs)"
  by (auto simp: snapshot_outputs_def snapshot_loop_length read_snapshot_loop
      dest: snapshot_loop_locators split: if_splits)

lemma build_manifest_Inr:
  assumes "build_manifest sha c job bs = Inr m"
  obtains admitted digest outs where "bound_job_identity sha c job = Inr (admitted, digest)"
    "snapshot_outputs bs = Inr outs" "m = manifest_json admitted digest outs"
  using assms by (auto simp: build_manifest_def flow split: prod.splits)

lemma built_manifest_snapshots:
  assumes "build_manifest sha c job bs = Inr m"
  shows "snapshot_manifest sha c job m = Inr m"
proof -
  obtain admitted digest outs where b: "bound_job_identity sha c job = Inr (admitted, digest)"
    "snapshot_outputs bs = Inr outs" "m = manifest_json admitted digest outs"
    using assms by (rule build_manifest_Inr)
  from snapshot_outputs_Inr [OF b(2)] b show ?thesis
    by (simp add: snapshot_manifest_def manifest_json_def exact_keys_def jget_def field_of_def)
qed

end
