(* ===== verification/Publication_Evidence.thy ===== *)
theory Publication_Evidence
  imports Result_Manifest
begin

text \<open>
  The derivation of a candidate publication (\<open>_prepare_publication\<close> of
  \<open>candidate_publication_store.py\<close> and what it calls): the evidence envelope is normalized and
  admitted against the job, the result and the result manifest, the unique run of CAD commands is
  derived from the result, and the candidate body is built from it. The evidence is a JSON value
  (\<open>_json_value\<close> is the identity on it).
\<close>

abbreviation invalid :: exn where
  "invalid \<equiv> CandidatePublicationValidationError"

text \<open>The class hierarchy under \<open>CandidatePublicationError\<close>.\<close>

definition publication_error :: "exn \<Rightarrow> bool" where
  "publication_error e = (e \<in> {invalid, NoCandidateError, CandidatePublicationConflictError,
     CandidatePublicationUnavailableError, CandidatePublicationNotFoundError,
     CandidatePublicationCorruptionError, CandidatePublicationStaleReservationError,
     CandidateAuthorityUnavailableError})"

section \<open>Scalar checks\<close>

definition max_canonical_bytes :: nat where
  "max_canonical_bytes = 256 * 1024"

definition require_byte_cap :: "string \<Rightarrow> exn + unit" where
  "require_byte_cap b = require (1 \<le> length b \<and> length b \<le> max_canonical_bytes) invalid"

definition canonical_uuid :: "json option \<Rightarrow> exn + string" where
  "canonical_uuid v =
     (case v of Some (JStr s) \<Rightarrow> if uuid_pattern s then Inr s else Inl invalid | _ \<Rightarrow> Inl invalid)"

text \<open>
  Python compares dicts without regard to key order, and \<open>True\<close> with \<open>1\<close> as equal.
\<close>

fun unbool :: "json \<Rightarrow> json" where
  "unbool (JBool b) = JInt (if b then 1 else 0)"
| "unbool (JArr xs) = JArr (map unbool xs)"
| "unbool (JObj d) = JObj (map (\<lambda>(k, v). (k, unbool v)) d)"
| "unbool v = v"

definition py_eq :: "json \<Rightarrow> json \<Rightarrow> bool" where
  "py_eq a b = (unbool (normalize a) = unbool (normalize b))"

definition canonical_json_bytes :: "json \<Rightarrow> exn + string" where
  "canonical_json_bytes v =
     (let t = canonical_json v in
      bindE (loads t) (\<lambda>w. if py_eq w v then Inr (utf8 t) else Inl invalid))"

definition restricted_jcs :: "json \<Rightarrow> exn + string" where
  "restricted_jcs v = jcs (quote False) True invalid v"

section \<open>The envelope\<close>

definition envelope_fields :: "string list" where
  "envelope_fields = [''envelope_version'', ''job'', ''result'', ''result_manifest'', ''manifest'',
     ''timeline_binding'', ''drawing_ref'', ''occurrences'', ''rejected_alternative_count'',
     ''qualifying_run_length'']"

definition required_envelope_fields :: "string list" where
  "required_envelope_fields = [''envelope_version'', ''job'', ''result'', ''result_manifest'',
     ''timeline_binding'', ''drawing_ref'', ''occurrences'', ''rejected_alternative_count'']"

definition jpop :: "(string \<times> json) list \<Rightarrow> string \<Rightarrow> (string \<times> json) list" where
  "jpop d k = filter (\<lambda>x. fst x \<noteq> k) d"

definition rename_manifest :: "(string \<times> json) list \<Rightarrow> (string \<times> json) list" where
  "rename_manifest d =
     (case (jget d ''result_manifest'', jget d ''manifest'') of
        (None, Some m) \<Rightarrow> jset (jpop d ''manifest'') ''result_manifest'' m
      | _ \<Rightarrow> d)"

definition is_json_int :: "json \<Rightarrow> bool" where
  "is_json_int v = (case v of JInt _ \<Rightarrow> True | _ \<Rightarrow> False)"

definition normalize_envelope :: "json \<Rightarrow> exn + (string \<times> json) list" where
  "normalize_envelope evidence =
     (case evidence of
        JObj d0 \<Rightarrow>
          bindE (require (\<forall>k \<in> fst ` set d0. k \<in> set envelope_fields) invalid) (\<lambda>_.
          let d = rename_manifest d0 in
          bindE (require (\<forall>k \<in> set required_envelope_fields. jhas d k) invalid) (\<lambda>_.
          bindE (require (jget d ''envelope_version'' = Some (JStr ''1.0'')) invalid) (\<lambda>_.
          bindE (require (jget d ''rejected_alternative_count'' = Some (JInt 0)) invalid) (\<lambda>_.
          bindE (require (case jget d ''qualifying_run_length'' of
              None \<Rightarrow> True | Some v \<Rightarrow> is_json_int v) invalid) (\<lambda>_.
          Inr d)))))
      | _ \<Rightarrow> Inl invalid)"

section \<open>The result manifest and the timeline binding\<close>

definition manifest_fields :: "string list" where
  "manifest_fields = [''schema_version'', ''job_id'', ''session_id'', ''payload_digest'',
     ''payload_digest_scheme'', ''outputs'', ''result_manifest_jcs'', ''source_result_sha256'',
     ''result_sha256'']"

definition verify_result_manifest ::
  "(string \<Rightarrow> string) \<Rightarrow> coercions \<Rightarrow> job_v2 \<Rightarrow> (string \<times> json) list \<Rightarrow> exn + string" where
  "verify_result_manifest sha c job m =
     except (\<lambda>e. \<not> publication_error e) invalid
      (bindE (require (\<forall>k \<in> fst ` set m. k \<in> set manifest_fields) ValueError) (\<lambda>_.
       bindE (require (jget m ''schema_version'' = Some (JStr ''1.0'')) ValueError) (\<lambda>_.
       bindE (canonical_uuid (jget m ''job_id'')) (\<lambda>j.
       bindE (require (j = jv_job_id job) ValueError) (\<lambda>_.
       bindE (canonical_uuid (jget m ''session_id'')) (\<lambda>s.
       bindE (require (s = jv_session_id job) ValueError) (\<lambda>_.
       bindE (api_payload_digest sha c job) (\<lambda>expected.
       bindE (require (jget m ''payload_digest'' = Some (JStr expected)) ValueError) (\<lambda>_.
       bindE (require (jget m ''payload_digest_scheme'' = Some (JStr payload_digest_scheme)) ValueError) (\<lambda>_.
       bindE (case jget m ''outputs'' of
           Some (JArr outs) \<Rightarrow> if outs = [] then Inl ValueError else Inr outs
         | _ \<Rightarrow> Inl ValueError) (\<lambda>outs.
       bindE (restricted_jcs (JObj
           [(''schema_version'', JStr ''1.0''), (''job_id'', JStr j), (''session_id'', JStr s),
            (''payload_digest'', JStr expected), (''payload_digest_scheme'', JStr payload_digest_scheme),
            (''outputs'', JArr outs)])) (\<lambda>t.
       let manifest_jcs = utf8 t in
       bindE (case jget m ''result_manifest_jcs'' of
           None \<Rightarrow> Inr () | Some JNull \<Rightarrow> Inr ()
         | Some (JStr supplied) \<Rightarrow> require (utf8 supplied = manifest_jcs) ValueError
         | Some _ \<Rightarrow> Inl TypeError) (\<lambda>_.
       let source_h = sha (result_domain_prefix @ manifest_jcs) in
       bindE (require (\<forall>k \<in> {''source_result_sha256'', ''result_sha256''}.
           jget m k \<in> {None, Some (JStr source_h)}) ValueError) (\<lambda>_.
       Inr source_h))))))))))))))"

text \<open>\<open>output.get("artifact_ref", output.get("artifact"))\<close>, and \<open>get\<close> with its default \<open>None\<close>.\<close>

definition get_null :: "(string \<times> json) list \<Rightarrow> string \<Rightarrow> json" where
  "get_null d k = (case jget d k of None \<Rightarrow> JNull | Some v \<Rightarrow> v)"

definition artifact_of :: "(string \<times> json) list \<Rightarrow> json" where
  "artifact_of d = (case jget d ''artifact_ref'' of None \<Rightarrow> get_null d ''artifact'' | Some v \<Rightarrow> v)"

fun timeline_candidates :: "json list \<Rightarrow> exn + (json \<times> json) list" where
  "timeline_candidates [] = Inr []"
| "timeline_candidates (out # outs) =
     (case out of
        JObj d \<Rightarrow>
          bindE (timeline_candidates outs) (\<lambda>rest.
          case artifact_of d of
            JObj a \<Rightarrow>
              if jget a ''role'' = Some (JStr ''timeline'') \<and>
                 jget a ''mime_type'' = Some (JStr ''application/json'')
              then Inr ((JObj a, get_null d ''store_namespace'') # rest)
              else Inr rest
          | _ \<Rightarrow> Inr rest)
      | _ \<Rightarrow> Inl invalid)"

definition select_timeline_binding :: "(string \<times> json) list \<Rightarrow> json \<Rightarrow> exn + json \<times> json" where
  "select_timeline_binding m supplied =
     (case supplied of
        JObj d \<Rightarrow>
          bindE (timeline_candidates (case jget m ''outputs'' of Some (JArr outs) \<Rightarrow> outs | _ \<Rightarrow> []))
           (\<lambda>candidates.
            case candidates of
              [(artifact, namespace)] \<Rightarrow>
                if py_eq (artifact_of d) artifact \<and> py_eq (get_null d ''store_namespace'') namespace
                then Inr (artifact, namespace) else Inl invalid
            | _ \<Rightarrow> Inl NoCandidateError)
      | _ \<Rightarrow> Inl invalid)"

definition admit_timeline_artifact :: "json \<Rightarrow> exn + json" where
  "admit_timeline_artifact v =
     except (\<lambda>_. True) invalid
       (bindE (artifact_ref_validate v) (\<lambda>a.
        if ar_role a \<noteq> Timeline \<or> ar_mime_type a \<noteq> ''application/json'' then Inl ValueError
        else Inr (artifact_ref_dump a)))"

section \<open>The qualifying run\<close>

fun segments_by_event :: "operation_segment list \<Rightarrow> (string \<times> operation_segment) list \<Rightarrow>
    exn + (string \<times> operation_segment) list" where
  "segments_by_event [] m = Inr m"
| "segments_by_event (s # ss) m =
     (if length (os_command_names s) \<noteq> 1 \<or> length (os_source_event_ids s) \<noteq> 1 then Inl invalid
      else if hd (os_source_event_ids s) \<in> fst ` set m then Inl invalid
      else segments_by_event ss ((hd (os_source_event_ids s), s) # m))"

fun cad_units :: "(string \<times> operation_segment) list \<Rightarrow> timeline_item list \<Rightarrow>
    exn + (timeline_item \<times> operation_segment) list" where
  "cad_units m [] = Inr []"
| "cad_units m (i # is) =
     (if ti_event_type i \<noteq> Cad_Command then Inl NoCandidateError
      else case map_of m (ti_source_event_id i) of
        None \<Rightarrow> Inl invalid
      | Some s \<Rightarrow> bindE (cad_units m is) (\<lambda>us. Inr ((i, s) # us)))"

text \<open>
  The loop that cuts the units into runs of one drawing, each of at least two commands. A unit is
  only ever appended with kind \<open>cad\<close>, so the branch for other kinds is not taken.
\<close>

fun qualifying_runs :: "(timeline_item \<times> operation_segment) list list \<Rightarrow>
    (timeline_item \<times> operation_segment) list \<Rightarrow> (timeline_item \<times> operation_segment) list \<Rightarrow>
    (timeline_item \<times> operation_segment) list list" where
  "qualifying_runs runs current [] = (if 2 \<le> length current then runs @ [current] else runs)"
| "qualifying_runs runs current (u # us) =
     (if current \<noteq> [] \<and> os_drawing_ref (snd u) \<noteq> os_drawing_ref (snd (last current))
      then qualifying_runs (if 2 \<le> length current then runs @ [current] else runs) [u] us
      else qualifying_runs runs (current @ [u]) us)"

record occurrence =
  oc_event_id :: string
  oc_command_name :: string
  oc_segment_sequence :: int

definition occurrence_of :: "timeline_item \<times> operation_segment \<Rightarrow> occurrence" where
  "occurrence_of u =
     \<lparr>oc_event_id = ti_source_event_id (fst u), oc_command_name = hd (os_command_names (snd u)),
      oc_segment_sequence = os_sequence (snd u)\<rparr>"

definition derive_occurrences :: "result_v2 \<Rightarrow> exn + occurrence list \<times> string \<times> nat" where
  "derive_occurrences r =
     bindE (segments_by_event (rv_operation_segments r) []) (\<lambda>m.
     bindE (cad_units m (rv_timeline r)) (\<lambda>units.
     bindE (require (length (remdups (map (os_drawing_ref \<circ> snd) units)) = 1) NoCandidateError) (\<lambda>_.
     case qualifying_runs [] [] units of
       [run] \<Rightarrow>
         bindE (require (2 \<le> length run \<and> length run \<le> 64) NoCandidateError) (\<lambda>_.
         let drawing = os_drawing_ref (snd (hd run)) in
         bindE (require (list_all (\<lambda>u. os_drawing_ref (snd u) = drawing) run) NoCandidateError) (\<lambda>_.
         Inr (map occurrence_of run, drawing, length run)))
     | _ \<Rightarrow> Inl NoCandidateError)))"

definition normalize_occurrence :: "json \<Rightarrow> exn + occurrence" where
  "normalize_occurrence j =
     (case j of
        JObj d \<Rightarrow>
          if fst ` set d \<noteq> {''event_id'', ''command_name'', ''segment_sequence''} then Inl invalid
          else
            bindE (canonical_uuid (jget d ''event_id'')) (\<lambda>e.
            bindE (case jget d ''command_name'' of
                Some (JStr n) \<Rightarrow> if n = [] then Inl invalid else Inr n | _ \<Rightarrow> Inl invalid) (\<lambda>n.
            bindE (case jget d ''segment_sequence'' of
                Some (JInt i) \<Rightarrow> Inr i | _ \<Rightarrow> Inl invalid) (\<lambda>i.
            Inr \<lparr>oc_event_id = e, oc_command_name = n, oc_segment_sequence = i\<rparr>)))
      | _ \<Rightarrow> Inl invalid)"

definition normalize_occurrences :: "json \<Rightarrow> exn + occurrence list" where
  "normalize_occurrences j =
     (case j of JArr xs \<Rightarrow> mapE normalize_occurrence xs | _ \<Rightarrow> Inl invalid)"

section \<open>Admission\<close>

record admitted =
  ad_job_id :: string
  ad_session_id :: string
  ad_source :: string
  ad_artifact :: json
  ad_namespace :: string
  ad_drawing_ref :: string
  ad_occurrences :: "occurrence list"

text \<open>A name or a reference that must be a non-empty string.\<close>

definition nonempty_str :: "json \<Rightarrow> exn + string" where
  "nonempty_str v = (case v of JStr s \<Rightarrow> if s = [] then Inl ValueError else Inr s | _ \<Rightarrow> Inl ValueError)"

definition admit_evidence ::
  "(string \<Rightarrow> string) \<Rightarrow> coercions \<Rightarrow> (string \<times> json) list \<Rightarrow> exn + admitted" where
  "admit_evidence sha c env =
     except (\<lambda>e. e \<noteq> NoCandidateError) invalid
      (bindE (job_v2_validate c (get_null env ''job'')) (\<lambda>job0.
       bindE (copy_job c job0) (\<lambda>job.
       bindE (result_v2_validate c (get_null env ''result'')) (\<lambda>result.
       bindE (require (rv_session_id result = jv_session_id job) ValueError) (\<lambda>_.
       bindE (case get_null env ''result_manifest'' of JObj m \<Rightarrow> Inr m | _ \<Rightarrow> Inl TypeError) (\<lambda>m.
       bindE (verify_result_manifest sha c job m) (\<lambda>source_h.
       bindE (select_timeline_binding m (get_null env ''timeline_binding'')) (\<lambda>binding.
       bindE (admit_timeline_artifact (fst binding)) (\<lambda>artifact.
       bindE (nonempty_str (snd binding)) (\<lambda>namespace.
       bindE (nonempty_str (get_null env ''drawing_ref'')) (\<lambda>drawing_ref.
       bindE (derive_occurrences result) (\<lambda>(derived, derived_drawing, run_length).
       bindE (require (drawing_ref = derived_drawing \<and>
           get_null env ''qualifying_run_length'' \<in> {JNull, JInt (int run_length)})
           NoCandidateError) (\<lambda>_.
       bindE (normalize_occurrences (get_null env ''occurrences'')) (\<lambda>supplied.
       bindE (require (supplied = derived) invalid) (\<lambda>_.
       Inr \<lparr>ad_job_id = jv_job_id job, ad_session_id = jv_session_id job, ad_source = source_h,
         ad_artifact = artifact, ad_namespace = namespace, ad_drawing_ref = drawing_ref,
         ad_occurrences = derived\<rparr>)))))))))))))))"

section \<open>The candidate body\<close>

definition action_json :: "nat \<Rightarrow> occurrence \<Rightarrow> json" where
  "action_json index i = JObj
     [(''sequence'', JInt (int index)),
      (''instruction'', JStr (''AutoCAD command: '' @ quote False (oc_command_name i) @
         ''; source_event_id='' @ oc_event_id i)),
      (''parameter_names'', JArr [])]"

definition build_candidate :: "admitted \<Rightarrow> (string \<times> json) list" where
  "build_candidate ad =
     (let quoted_drawing = quote False (ad_drawing_ref ad);
          h = ad_source ad;
          n = length (ad_occurrences ad)
      in
      [(''schema_version'', JStr ''1.0''),
       (''skill_id'', JStr (ad_job_id ad)),
       (''name'', JStr (''Observed CAD run '' @ h)),
       (''description'', JStr (''Source result '' @ h @ ''; drawing_ref='' @ quoted_drawing @
          ''; command_count='' @ nat_str n)),
       (''trigger'', JObj
          [(''condition'', JStr (''Observed CAD command run on drawing_ref='' @ quoted_drawing)),
           (''signals'', JArr [JStr (''source_result_sha256='' @ h)])]),
       (''preconditions'', JArr [JStr ''A verified result-manifest timeline binding exists.'']),
       (''inputs'', JArr [JObj
          [(''name'', JStr ''timeline_artifact''), (''kind'', JStr ''artifact''),
           (''description'', JStr ''Verified result timeline ArtifactRef.''),
           (''required'', JBool True)]]),
       (''relevant_drawing_state'', JObj
          [(''description'', JStr (''drawing_ref='' @ quoted_drawing)),
           (''required_conditions'', JArr [JStr ''All command occurrences use the same drawing_ref.'']),
           (''excluded_conditions'', JArr [])]),
       (''ordered_actions'', JArr
          (map (\<lambda>(i, x). action_json (Suc i) x) (zip [0..<n] (ad_occurrences ad)))),
       (''parameters'', JArr []),
       (''constraints'', JArr [JStr
          ''Preserve source command order, duplicate occurrences, and source-event identity.'']),
       (''expected_result'', JObj
          [(''description'', JStr ''The qualifying command run is represented in source order.''),
           (''observable_outcomes'', JArr [JStr (''source_result_sha256='' @ h)])]),
       (''validation_checks'', JArr [JObj
          [(''description'', JStr ''Verify the candidate against the exact source result.''),
           (''success_criterion'', JStr
            ''The verified source-result digest and timeline ArtifactRef match the published supporting evidence.'')]]),
       (''known_exceptions'', JArr []),
       (''supporting_examples'', JArr [JObj
          [(''session_id'', JStr (ad_session_id ad)),
           (''summary'', JStr (''source_result_sha256='' @ h @ '';timeline_store_namespace='' @
              quote False (ad_namespace ad))),
           (''artifact_references'', JArr [ad_artifact ad])]]),
       (''confidence'', JInt 0),
       (''provenance'', JStr ''observed''),
       (''approval_status'', JStr ''unreviewed''),
       (''human_approval_evidence'', JNull)])"

definition content_projection :: "(string \<times> json) list \<Rightarrow> (string \<times> json) list" where
  "content_projection d =
     filter (\<lambda>x. fst x \<notin> {''approval_status'', ''human_approval_evidence''}) d"

definition candidate_publication_key :: "string \<Rightarrow> exn + string" where
  "candidate_publication_key job_id =
     bindE (canonical_uuid (Some (JStr job_id))) (\<lambda>j. Inr (''candidate-publication:1.0:'' @ j))"

definition publication_identity :: "string \<Rightarrow> string \<Rightarrow> string \<Rightarrow> string" where
  "publication_identity job_id source_h full_h =
     ''candidate-publication:1.0:'' @ job_id @ '':source:'' @ source_h @ '':sha256:'' @ full_h"

section \<open>Preparation\<close>

record prepared =
  pp_evidence_bytes :: string
  pp_candidate :: "(string \<times> json) list"
  pp_candidate_bytes :: string
  pp_content_bytes :: string
  pp_job_id :: string
  pp_session_id :: string
  pp_source_result_sha256 :: string
  pp_publication_key :: string
  pp_publication_identity :: string
  pp_review_target_id :: string
  pp_content_sha256 :: string
  pp_full_sha256 :: string

definition prepare_publication :: "(string \<Rightarrow> string) \<Rightarrow> coercions \<Rightarrow> json \<Rightarrow> exn + prepared" where
  "prepare_publication sha c evidence =
     bindE (normalize_envelope evidence) (\<lambda>env0.
     bindE (admit_evidence sha c env0) (\<lambda>ad.
     let env = jset env0 ''qualifying_run_length'' (JInt (int (length (ad_occurrences ad)))) in
     bindE (canonical_json_bytes (JObj env)) (\<lambda>evidence_bytes.
     bindE (require_byte_cap evidence_bytes) (\<lambda>_.
     let candidate = build_candidate ad in
     bindE (canonical_json_bytes (JObj candidate)) (\<lambda>candidate_bytes.
     bindE (require_byte_cap candidate_bytes) (\<lambda>_.
     bindE (canonical_json_bytes (JObj (content_projection candidate))) (\<lambda>content_bytes.
     let content_sha = sha content_bytes; full_sha = sha candidate_bytes in
     bindE (candidate_publication_key (ad_job_id ad)) (\<lambda>key.
     bindE (require (jget candidate ''skill_id'' = Some (JStr (ad_job_id ad))) invalid) (\<lambda>_.
     Inr \<lparr>pp_evidence_bytes = evidence_bytes, pp_candidate = candidate,
       pp_candidate_bytes = candidate_bytes, pp_content_bytes = content_bytes,
       pp_job_id = ad_job_id ad, pp_session_id = ad_session_id ad,
       pp_source_result_sha256 = ad_source ad, pp_publication_key = key,
       pp_publication_identity = publication_identity (ad_job_id ad) (ad_source ad) full_sha,
       pp_review_target_id =
         ''candidate-skill:1.0:'' @ ad_job_id ad @ '':sha256:'' @ content_sha,
       pp_content_sha256 = content_sha, pp_full_sha256 = full_sha\<rparr>)))))))))"

end
