(* ===== verification/Skill_Contract.thy ===== *)
theory Skill_Contract
  imports Iso_Time Candidate_Reviews Publication_Evidence
begin

text \<open>
  The candidate skill contract of \<open>candidate_skill_approval.py\<close> and the coherence checks of
  \<open>candidate_skill_semantics.py\<close>. Every check of the contract raises the one \<open>ValueError\<close>, so a check
  is a predicate; that a value has the type a field demands is its constructor. Numbers are integers.
\<close>

section \<open>Bounds\<close>

definition max_depth :: nat where "max_depth = 12"
definition max_container_items :: nat where "max_container_items = 512"
definition max_total_values :: nat where "max_total_values = 4096"
definition max_string_characters :: nat where "max_string_characters = 16384"
definition max_key_characters :: nat where "max_key_characters = 256"
definition max_skill_bytes :: nat where "max_skill_bytes = 256 * 1024"
definition max_integer_magnitude :: int where "max_integer_magnitude = 10 ^ 100"

text \<open>
  \<open>_bounded_json_value\<close>: the value with the number of values visited so far. The copy it returns is
  the value itself; a value of the datatype has no cycles.
\<close>

function bounded_json_value :: "nat \<Rightarrow> nat \<Rightarrow> json \<Rightarrow> exn + nat"
  and bounded_items :: "nat \<Rightarrow> nat \<Rightarrow> json list \<Rightarrow> exn + nat"
  and bounded_entries :: "nat \<Rightarrow> nat \<Rightarrow> (string \<times> json) list \<Rightarrow> exn + nat" where
  "bounded_json_value depth n v =
     (if depth > max_depth then Inl ValueError
      else if n + 1 > max_total_values then Inl ValueError
      else case v of
        JNull \<Rightarrow> Inr (n + 1)
      | JBool b \<Rightarrow> Inr (n + 1)
      | JStr s \<Rightarrow> if length s > max_string_characters then Inl ValueError else Inr (n + 1)
      | JInt i \<Rightarrow> if \<bar>i\<bar> > max_integer_magnitude then Inl ValueError else Inr (n + 1)
      | JObj d \<Rightarrow> if length d > max_container_items then Inl ValueError else bounded_entries depth (n + 1) d
      | JArr xs \<Rightarrow> if length xs > max_container_items then Inl ValueError else bounded_items depth (n + 1) xs)"
| "bounded_items depth n [] = Inr n"
| "bounded_items depth n (x # xs) =
     bindE (bounded_json_value (depth + 1) n x) (\<lambda>n. bounded_items depth n xs)"
| "bounded_entries depth n [] = Inr n"
| "bounded_entries depth n ((k, x) # d) =
     (if length k > max_key_characters then Inl ValueError
      else bindE (bounded_json_value (depth + 1) n x) (\<lambda>n. bounded_entries depth n d))"
  by pat_completeness auto
termination
  by (relation "measure (\<lambda>p. case p of Inl (_, _, v) \<Rightarrow> 2 * size v
      | Inr (Inl (_, _, xs)) \<Rightarrow> 2 * size_list size xs + 1
      | Inr (Inr (_, _, d)) \<Rightarrow> 2 * size_list (size_prod (\<lambda>_. 0) size) d + 1)")
    (auto simp: size_list_conv_sum_list)

section \<open>Field checks\<close>

definition exact_object :: "string list \<Rightarrow> ((string \<times> json) list \<Rightarrow> bool) \<Rightarrow> json \<Rightarrow> bool" where
  "exact_object names check v =
     (case v of JObj d \<Rightarrow> list_all (jhas d) names \<and> list_all (\<lambda>x. fst x \<in> set names) d \<and> check d
      | _ \<Rightarrow> False)"

definition array_of :: "nat \<Rightarrow> nat \<Rightarrow> (json \<Rightarrow> bool) \<Rightarrow> json \<Rightarrow> bool" where
  "array_of lo hi check v =
     (case v of JArr xs \<Rightarrow> lo \<le> length xs \<and> length xs \<le> hi \<and> list_all check xs | _ \<Rightarrow> False)"

definition text_contract :: "nat \<Rightarrow> nat \<Rightarrow> json \<Rightarrow> bool" where
  "text_contract lo hi v = (case v of JStr s \<Rightarrow> lo \<le> length s \<and> length s \<le> hi | _ \<Rightarrow> False)"

text \<open>Checked texts are equal exactly when they are equal as values.\<close>

definition unique_text_array :: "nat \<Rightarrow> nat \<Rightarrow> nat \<Rightarrow> json \<Rightarrow> bool" where
  "unique_text_array lo hi text_maximum v =
     (array_of lo hi (text_contract 1 text_maximum) v \<and>
      (case v of JArr xs \<Rightarrow> distinct xs | _ \<Rightarrow> False))"

definition is_enum :: "string list \<Rightarrow> json \<Rightarrow> bool" where
  "is_enum allowed v = (case v of JStr s \<Rightarrow> s \<in> set allowed | _ \<Rightarrow> False)"

definition number_range :: "int \<Rightarrow> int \<Rightarrow> json \<Rightarrow> bool" where
  "number_range lo hi v = (case v of JInt i \<Rightarrow> lo \<le> i \<and> i \<le> hi | _ \<Rightarrow> False)"

definition is_sha256 :: "json \<Rightarrow> bool" where
  "is_sha256 v = (case v of JStr s \<Rightarrow> sha256_pattern s | _ \<Rightarrow> False)"

definition is_bool :: "json \<Rightarrow> bool" where
  "is_bool v = (case v of JBool _ \<Rightarrow> True | _ \<Rightarrow> False)"

definition provenance_values :: "string list" where
  "provenance_values = [''observed'', ''deterministic'', ''ai_inferred'', ''human_supplied'']"

text \<open>The field \<open>k\<close> of an object passes a check.\<close>

definition field_ok :: "(string \<times> json) list \<Rightarrow> string \<Rightarrow> (json \<Rightarrow> bool) \<Rightarrow> bool" where
  "field_ok d k check = (case jget d k of None \<Rightarrow> False | Some v \<Rightarrow> check v)"

text \<open>
  \<open>int(text, 16)\<close> as \<open>UUID\<close> calls it: blanks around the digits, a plus sign, a prefix \<open>0x\<close> and single
  underscores between digits are accepted. A minus sign cannot occur, and a character that \<open>UUID\<close>
  removes first leaves too few digits.
\<close>

fun hex_digits_text :: "bool \<Rightarrow> string \<Rightarrow> bool" where
  "hex_digits_text after_digit [] = after_digit"
| "hex_digits_text after_digit (ch # s) =
     (if is_hex ch \<or> 65 \<le> code ch \<and> code ch \<le> 70 then hex_digits_text True s
      else ch = CHR ''_'' \<and> after_digit \<and> hex_digits_text False s)"

definition hex_int_text :: "string \<Rightarrow> bool" where
  "hex_int_text s0 =
     (let s1 = strip s0;
          s2 = (if startswith s1 ''+'' then drop 1 s1 else s1)
      in if startswith s2 ''0x'' \<or> startswith s2 ''0X''
         then let t = drop 2 s2 in hex_digits_text False (if startswith t ''_'' then drop 1 t else t)
         else hex_digits_text False s2)"

definition uuid_format :: "json \<Rightarrow> bool" where
  "uuid_format v =
     (case v of
        JStr s \<Rightarrow> length s = 36 \<and> list_all (\<lambda>i. s ! i = CHR ''-'') [8, 13, 18, 23] \<and>
          (let h = filter (\<lambda>ch. ch \<noteq> CHR ''-'') s in length h = 32 \<and> hex_int_text h)
      | _ \<Rightarrow> False)"

text \<open>
  The text of a date-time: the pattern of \<open>_RFC3339_PATTERN\<close> (letters in either case) and what
  \<open>datetime.fromisoformat\<close> demands of the numbers; digits of the fraction are not bounded. The offset
  has less than 24 hours; its minutes are not checked on their own.
\<close>

definition rfc3339_offset :: "string \<Rightarrow> bool" where
  "rfc3339_offset z \<longleftrightarrow> z = ''Z'' \<or> z = ''z'' \<or>
     length z = 6 \<and> (hd z = CHR ''+'' \<or> hd z = CHR ''-'') \<and> z ! 3 = CHR '':'' \<and>
     (case (number_at z 1 2, number_at z 4 2) of
        (Some h, Some mi) \<Rightarrow> 60 * h + mi < 1440 | _ \<Rightarrow> False)"

definition rfc3339_rest :: "string \<Rightarrow> bool" where
  "rfc3339_rest r =
     (if startswith r ''.''
      then takeWhile is_digit (drop 1 r) \<noteq> [] \<and> rfc3339_offset (dropWhile is_digit (drop 1 r))
      else rfc3339_offset r)"

definition rfc3339_text :: "string \<Rightarrow> bool" where
  "rfc3339_text s \<longleftrightarrow>
     length s > 19 \<and> s ! 4 = CHR ''-'' \<and> s ! 7 = CHR ''-'' \<and> (s ! 10 = CHR ''T'' \<or> s ! 10 = CHR ''t'') \<and>
     s ! 13 = CHR '':'' \<and> s ! 16 = CHR '':'' \<and> rfc3339_rest (drop 19 s) \<and>
     (case (number_at s 0 4, number_at s 5 2, number_at s 8 2, number_at s 11 2, number_at s 14 2,
            number_at s 17 2) of
        (Some y, Some m, Some d, Some h, Some mi, Some sec) \<Rightarrow>
          1 \<le> y \<and> civil_of_days (days_of_civil (y, m, d)) = (y, m, d) \<and> h < 24 \<and> mi < 60 \<and> sec < 60
      | _ \<Rightarrow> False)"

definition datetime_text :: "json \<Rightarrow> bool" where
  "datetime_text v = (case v of JStr s \<Rightarrow> rfc3339_text s | _ \<Rightarrow> False)"

section \<open>The contract\<close>

definition trigger_ok :: "json \<Rightarrow> bool" where
  "trigger_ok = exact_object [''condition'', ''signals''] (\<lambda>d.
     field_ok d ''condition'' (text_contract 1 2000) \<and>
     field_ok d ''signals'' (unique_text_array 1 32 2000))"

definition input_ok :: "json \<Rightarrow> bool" where
  "input_ok = exact_object [''name'', ''kind'', ''description'', ''required''] (\<lambda>d.
     field_ok d ''name'' (text_contract 1 128) \<and>
     field_ok d ''kind'' (is_enum [''drawing_state'', ''artifact'', ''measurement'', ''parameter'',
       ''instruction'']) \<and>
     field_ok d ''description'' (text_contract 1 2000) \<and> field_ok d ''required'' is_bool)"

definition drawing_state_ok :: "json \<Rightarrow> bool" where
  "drawing_state_ok = exact_object [''description'', ''required_conditions'', ''excluded_conditions''] (\<lambda>d.
     field_ok d ''description'' (text_contract 1 2000) \<and>
     field_ok d ''required_conditions'' (unique_text_array 0 64 2000) \<and>
     field_ok d ''excluded_conditions'' (unique_text_array 0 64 2000))"

definition action_ok :: "json \<Rightarrow> bool" where
  "action_ok = exact_object [''sequence'', ''instruction'', ''parameter_names''] (\<lambda>d.
     field_ok d ''sequence'' (number_range 1 256) \<and>
     field_ok d ''instruction'' (text_contract 1 2000) \<and>
     field_ok d ''parameter_names'' (unique_text_array 0 32 128))"

definition parameter_value_ok :: "json \<Rightarrow> bool" where
  "parameter_value_ok v =
     (case v of JStr s \<Rightarrow> length s \<le> 512 | JInt _ \<Rightarrow> True | JBool _ \<Rightarrow> True | _ \<Rightarrow> False)"

definition unit_ok :: "json \<Rightarrow> bool" where
  "unit_ok v = (case v of JNull \<Rightarrow> True | JStr s \<Rightarrow> length s \<le> 64 | _ \<Rightarrow> False)"

definition parameter_ok :: "json \<Rightarrow> bool" where
  "parameter_ok = exact_object [''name'', ''value'', ''unit'', ''provenance''] (\<lambda>d.
     field_ok d ''name'' (text_contract 1 128) \<and> field_ok d ''value'' parameter_value_ok \<and>
     field_ok d ''unit'' unit_ok \<and> field_ok d ''provenance'' (is_enum provenance_values))"

definition expected_result_ok :: "json \<Rightarrow> bool" where
  "expected_result_ok = exact_object [''description'', ''observable_outcomes''] (\<lambda>d.
     field_ok d ''description'' (text_contract 1 2000) \<and>
     field_ok d ''observable_outcomes'' (unique_text_array 1 64 2000))"

definition validation_check_ok :: "json \<Rightarrow> bool" where
  "validation_check_ok = exact_object [''description'', ''success_criterion''] (\<lambda>d.
     field_ok d ''description'' (text_contract 1 2000) \<and>
     field_ok d ''success_criterion'' (text_contract 1 2000))"

definition known_exception_ok :: "json \<Rightarrow> bool" where
  "known_exception_ok = exact_object [''condition'', ''handling''] (\<lambda>d.
     field_ok d ''condition'' (text_contract 1 2000) \<and> field_ok d ''handling'' (text_contract 1 2000))"

definition artifact_reference_ok :: "json \<Rightarrow> bool" where
  "artifact_reference_ok = exact_object [''provider'', ''file_id'', ''revision'', ''sha256'', ''size_bytes'',
       ''mime_type'', ''role''] (\<lambda>d.
     field_ok d ''provider'' (is_enum [''s3'', ''google_drive'']) \<and>
     field_ok d ''file_id'' (text_contract 1 1024) \<and> field_ok d ''revision'' (text_contract 1 255) \<and>
     field_ok d ''sha256'' is_sha256 \<and> field_ok d ''size_bytes'' (number_range 0 536870912) \<and>
     field_ok d ''mime_type'' (text_contract 1 255) \<and>
     field_ok d ''role'' (is_enum [''raw_package'', ''timeline'', ''crop'', ''manifest'']))"

definition supporting_example_ok :: "json \<Rightarrow> bool" where
  "supporting_example_ok = exact_object [''session_id'', ''summary'', ''artifact_references''] (\<lambda>d.
     field_ok d ''session_id'' uuid_format \<and> field_ok d ''summary'' (text_contract 1 2000) \<and>
     field_ok d ''artifact_references'' (array_of 1 32 artifact_reference_ok))"

definition reviewer_id_ok :: "json \<Rightarrow> bool" where
  "reviewer_id_ok v = (case v of JStr s \<Rightarrow> reviewer_id_pattern s | _ \<Rightarrow> False)"

definition approval_evidence_ok :: "json \<Rightarrow> bool" where
  "approval_evidence_ok = exact_object [''reviewer_id'', ''decision_event_id'', ''decided_at'',
       ''approval_basis''] (\<lambda>d.
     field_ok d ''reviewer_id'' reviewer_id_ok \<and> field_ok d ''decision_event_id'' uuid_format \<and>
     field_ok d ''decided_at'' datetime_text \<and> field_ok d ''approval_basis'' (text_contract 1 2000))"

definition canonical_uuid_text :: "json \<Rightarrow> bool" where
  "canonical_uuid_text v = (case v of JStr s \<Rightarrow> uuid_pattern s | _ \<Rightarrow> False)"

definition skill_fields :: "string list" where
  "skill_fields = [''schema_version'', ''skill_id'', ''name'', ''description'', ''trigger'',
     ''preconditions'', ''inputs'', ''relevant_drawing_state'', ''ordered_actions'', ''parameters'',
     ''constraints'', ''expected_result'', ''validation_checks'', ''known_exceptions'',
     ''supporting_examples'', ''confidence'', ''provenance'', ''approval_status'',
     ''human_approval_evidence'']"

definition skill_contract :: "(string \<times> json) list \<Rightarrow> bool" where
  "skill_contract d = exact_object skill_fields (\<lambda>d.
     field_ok d ''schema_version'' (\<lambda>v. v = JStr ''1.0'') \<and>
     field_ok d ''skill_id'' canonical_uuid_text \<and>
     field_ok d ''name'' (text_contract 1 160) \<and>
     field_ok d ''description'' (text_contract 1 2000) \<and>
     field_ok d ''trigger'' trigger_ok \<and>
     field_ok d ''preconditions'' (unique_text_array 1 64 2000) \<and>
     field_ok d ''inputs'' (array_of 1 64 input_ok) \<and>
     field_ok d ''relevant_drawing_state'' drawing_state_ok \<and>
     field_ok d ''ordered_actions'' (array_of 1 256 action_ok) \<and>
     field_ok d ''parameters'' (array_of 0 128 parameter_ok) \<and>
     field_ok d ''constraints'' (unique_text_array 1 128 2000) \<and>
     field_ok d ''expected_result'' expected_result_ok \<and>
     field_ok d ''validation_checks'' (array_of 1 128 validation_check_ok) \<and>
     field_ok d ''known_exceptions'' (array_of 0 128 known_exception_ok) \<and>
     field_ok d ''supporting_examples'' (array_of 1 128 supporting_example_ok) \<and>
     field_ok d ''confidence'' (number_range 0 1) \<and>
     field_ok d ''provenance'' (is_enum provenance_values) \<and>
     field_ok d ''approval_status'' (is_enum [''unreviewed'', ''approved'', ''rejected'', ''needs_changes'']) \<and>
     field_ok d ''human_approval_evidence'' (\<lambda>v. v = JNull \<or> approval_evidence_ok v) \<and>
     (field_ok d ''approval_status'' (\<lambda>v. v = JStr ''approved'') \<longrightarrow>
      field_ok d ''human_approval_evidence'' (\<lambda>v. v \<noteq> JNull))) (JObj d)"

section \<open>Coherence\<close>

definition items_of :: "json option \<Rightarrow> json list" where
  "items_of v = (case v of Some (JArr xs) \<Rightarrow> xs | _ \<Rightarrow> [])"

definition entry :: "string \<Rightarrow> json \<Rightarrow> json option" where
  "entry k v = (case v of JObj d \<Rightarrow> jget d k | _ \<Rightarrow> None)"

text \<open>The loop over the actions, from the number \<open>index\<close>.\<close>

fun actions_coherent :: "json option list \<Rightarrow> int \<Rightarrow> json list \<Rightarrow> bool" where
  "actions_coherent names index [] = True"
| "actions_coherent names index (a # as) =
     (entry ''sequence'' a = Some (JInt index) \<and>
      list_all (\<lambda>n. Some n \<in> set names) (items_of (entry ''parameter_names'' a)) \<and>
      actions_coherent names (index + 1) as)"

definition internally_coherent :: "(string \<times> json) list \<Rightarrow> bool" where
  "internally_coherent d =
     (let names = map (entry ''name'') (items_of (jget d ''parameters'')) in
      distinct (map (entry ''name'') (items_of (jget d ''inputs''))) \<and> distinct names \<and>
      actions_coherent names 1 (items_of (jget d ''ordered_actions'')))"

end
