(* ===== verification/Skill_Identity.thy ===== *)
theory Skill_Identity
  imports Skill_Contract
begin

text \<open>
  The identity of a candidate skill (\<open>_candidate_identity\<close>): its digests, the keys derived from them and
  the two objects that an approval event carries. \<open>sha\<close> is the hex digest of SHA-256.
\<close>

record skill_identity =
  si_schema_version :: string
  si_skill_id :: string
  si_content_sha256 :: string
  si_full_sha256 :: string
  si_source_result_sha256 :: string
  si_publication_key :: string
  si_target_id :: string
  si_idempotency_key :: string
  si_provenance :: "(string \<times> json) list"
  si_detail :: "(string \<times> json) list"

text \<open>\<open>json.dumps(..., sort_keys=True, ensure_ascii=False).encode("utf-8")\<close>.\<close>

definition skill_json_bytes :: "(string \<times> json) list \<Rightarrow> string" where
  "skill_json_bytes d = utf8 (dumps False (JObj d))"

definition approval_envelope :: "string list" where
  "approval_envelope = [''approval_status'', ''human_approval_evidence'']"

definition skill_content :: "(string \<times> json) list \<Rightarrow> (string \<times> json) list" where
  "skill_content d = filter (\<lambda>x. fst x \<notin> set approval_envelope) d"

definition skill_text :: "(string \<times> json) list \<Rightarrow> string \<Rightarrow> exn + string" where
  "skill_text d k = (case jget d k of Some (JStr s) \<Rightarrow> Inr s | _ \<Rightarrow> Inl ValueError)"

definition approval_basis :: "string \<Rightarrow> string \<Rightarrow> string \<Rightarrow> string" where
  "approval_basis schema skill digest =
     ''Authenticated scoped review accepted canonical candidate content for '' @ ''schema '' @ schema @
     '', skill '' @ skill @ '', and SHA-256 '' @ digest @ ''.''"

definition candidate_identity :: "(string \<Rightarrow> string) \<Rightarrow> (string \<times> json) list \<Rightarrow> exn + skill_identity" where
  "candidate_identity sha candidate =
     bindE (bounded_json_value 0 0 (JObj candidate)) (\<lambda>_.
     bindE (require (length (skill_json_bytes candidate) \<le> max_skill_bytes) ValueError) (\<lambda>_.
     bindE (require (skill_contract candidate) ValueError) (\<lambda>_.
     bindE (require (internally_coherent candidate) ValueError) (\<lambda>_.
     bindE (skill_text candidate ''schema_version'') (\<lambda>schema.
     bindE (require (schema = ''1.0'') ValueError) (\<lambda>_.
     bindE (skill_text candidate ''skill_id'') (\<lambda>skill.
     bindE (require (uuid_pattern skill) ValueError) (\<lambda>_.
     let canonical = skill_json_bytes (skill_content candidate) in
     bindE (require (length canonical \<le> max_skill_bytes) ValueError) (\<lambda>_.
     let digest = sha canonical; full_digest = sha (skill_json_bytes candidate) in
     Inr
       \<lparr>si_schema_version = schema, si_skill_id = skill, si_content_sha256 = digest,
        si_full_sha256 = full_digest, si_source_result_sha256 = digest,
        si_publication_key = ''candidate-publication:'' @ schema @ '':'' @ skill,
        si_target_id = ''candidate-skill:'' @ schema @ '':'' @ skill @ '':sha256:'' @ digest,
        si_idempotency_key = ''candidate-skill-approval:'' @ schema @ '':'' @ skill,
        si_provenance =
          [(''source'', JStr ''candidate_skill_canonical_sha256''), (''artifact_id'', JStr skill),
           (''revision'', JStr schema), (''sha256'', JStr digest)],
        si_detail =
          [(''kind'', JStr ''candidate_skill_approval''), (''decision'', JStr ''approve''),
           (''schema_version'', JStr schema), (''skill_id'', JStr skill),
           (''content_sha256'', JStr digest),
           (''approval_basis'', JStr (approval_basis schema skill digest))]\<rparr>)))))))))"

definition candidate_skill_approval_idempotency_key :: "(string \<Rightarrow> string) \<Rightarrow> (string \<times> json) list \<Rightarrow> exn + string" where
  "candidate_skill_approval_idempotency_key sha candidate =
     bindE (candidate_identity sha candidate) (\<lambda>i. Inr (si_idempotency_key i))"

definition canonical_candidate_skill_sha256 :: "(string \<Rightarrow> string) \<Rightarrow> (string \<times> json) list \<Rightarrow> exn + string" where
  "canonical_candidate_skill_sha256 sha candidate =
     bindE (candidate_identity sha candidate) (\<lambda>i. Inr (si_content_sha256 i))"

section \<open>Values within the bounds\<close>

text \<open>The number of values in a value, its depth, and that no part of it is too large.\<close>

fun json_count :: "json \<Rightarrow> nat" where
  "json_count (JArr xs) = 1 + sum_list (map json_count xs)"
| "json_count (JObj d) = 1 + sum_list (map (\<lambda>x. json_count (snd x)) d)"
| "json_count v = 1"

fun json_within :: "nat \<Rightarrow> json \<Rightarrow> bool" where
  "json_within depth (JStr s) = (length s \<le> max_string_characters)"
| "json_within depth (JInt i) = (\<bar>i\<bar> \<le> max_integer_magnitude)"
| "json_within depth (JArr xs) =
     (length xs \<le> max_container_items \<and> (xs \<noteq> [] \<longrightarrow> 0 < depth) \<and> list_all (json_within (depth - 1)) xs)"
| "json_within depth (JObj d) =
     (length d \<le> max_container_items \<and> (d \<noteq> [] \<longrightarrow> 0 < depth) \<and>
      list_all (\<lambda>x. length (fst x) \<le> max_key_characters \<and> json_within (depth - 1) (snd x)) d)"
| "json_within depth v = True"

lemma bounded_json_value_within:
  "json_within (max_depth - depth) v \<Longrightarrow> depth \<le> max_depth \<Longrightarrow> n + json_count v \<le> max_total_values \<Longrightarrow>
     bounded_json_value depth n v = Inr (n + json_count v)"
  "list_all (json_within (max_depth - depth - 1)) xs \<Longrightarrow> (xs \<noteq> [] \<longrightarrow> depth < max_depth) \<Longrightarrow>
     n + sum_list (map json_count xs) \<le> max_total_values \<Longrightarrow>
     bounded_items depth n xs = Inr (n + sum_list (map json_count xs))"
  "list_all (\<lambda>x. length (fst x) \<le> max_key_characters \<and> json_within (max_depth - depth - 1) (snd x)) d \<Longrightarrow>
     (d \<noteq> [] \<longrightarrow> depth < max_depth) \<Longrightarrow>
     n + sum_list (map (\<lambda>x. json_count (snd x)) d) \<le> max_total_values \<Longrightarrow>
     bounded_entries depth n d = Inr (n + sum_list (map (\<lambda>x. json_count (snd x)) d))"
proof (induction depth n v and depth n xs and depth n d
    rule: bounded_json_value_bounded_items_bounded_entries.induct)
  case (1 depth n v)
  then show ?case by (cases v) auto
qed auto

end
