(* ===== verification/Retention_Tables.thy ===== *)
theory Retention_Tables
  imports Control_Jobs "HOL-Library.Product_Lexorder"
begin

text \<open>
  The retention ledger of \<open>retention_store.py\<close>: its tables, the records it returns, the helpers on
  rows and digests, and its operations. The ledger records intent and evidence only; no operation
  calls a provider. The audit table is the shared one of \<open>Audit_Log\<close>, with the ledger's own
  validator. The foreign keys of the schema are never violated: an event or a copy is only inserted
  for a target that the same transaction has found or inserted.
\<close>

section \<open>Tables and records\<close>

datatype copy_state = CopyActive | TrashStaged | CopyDeleted

datatype retention_event_type =
  TargetRegistered | HoldPlaced | HoldReleased | CopyStaged | DeletionAttested

fun event_type_value :: "retention_event_type \<Rightarrow> string" where
  "event_type_value TargetRegistered = ''registered''"
| "event_type_value HoldPlaced = ''hold_placed''"
| "event_type_value HoldReleased = ''hold_released''"
| "event_type_value CopyStaged = ''trash_staged''"
| "event_type_value DeletionAttested = ''deletion_attested''"

record target_row =
  tg_id :: string
  tg_created_by :: string
  tg_created_at :: int
  tg_expires_at :: int
  tg_hold :: bool
  tg_hold_reason :: "string option"
  tg_completed_at :: "int option"
  tg_updated_at :: int

record copy_row =
  cp_target :: string
  cp_id :: string
  cp_provider :: string
  cp_file :: string
  cp_revision :: string
  cp_sha256 :: string
  cp_state :: copy_state
  cp_staged_at :: "int option"
  cp_deleted_at :: "int option"
  cp_receipt :: "string option"

record retention_row =
  vr_sequence :: nat
  vr_event_id :: string
  vr_target :: string
  vr_copy :: "string option"
  vr_key :: string
  vr_digest :: string
  vr_actor :: string
  vr_type :: retention_event_type
  vr_detail_json :: string
  vr_occurred_at :: int

record retention_db =
  targets :: "target_row list"
  copies :: "copy_row list"
  retention_events :: "retention_row list"
  retention_audits :: "audit_row list"

definition empty_retention :: retention_db where
  "empty_retention = \<lparr>targets = [], copies = [], retention_events = [], retention_audits = []\<rparr>"

record copy_state_record =
  cs_id :: string
  cs_provider :: string
  cs_file :: string
  cs_revision :: string
  cs_sha256 :: string
  cs_state :: copy_state
  cs_staged_at :: "datetime option"
  cs_deleted_at :: "datetime option"
  cs_receipt :: "string option"

record target_state =
  ts_id :: string
  ts_created_by :: string
  ts_created_at :: datetime
  ts_expires_at :: datetime
  ts_hold :: bool
  ts_hold_reason :: "string option"
  ts_completed_at :: "datetime option"
  ts_copies :: "copy_state_record list"

record retention_event =
  ve_sequence :: nat
  ve_event_id :: string
  ve_target :: string
  ve_copy :: "string option"
  ve_key :: string
  ve_actor :: string
  ve_type :: retention_event_type
  ve_detail :: json
  ve_occurred_at :: datetime

section \<open>Rows\<close>

definition retention_days :: int where "retention_days = 14"

definition find_target :: "string \<Rightarrow> retention_db \<Rightarrow> target_row option" where
  "find_target t db = find (\<lambda>r. tg_id r = t) (targets db)"

definition target_row :: "string \<Rightarrow> retention_db \<Rightarrow> exn + target_row" where
  "target_row t db = (case find_target t db of None \<Rightarrow> Inl ControlStoreError | Some r \<Rightarrow> Inr r)"

definition copies_of :: "string \<Rightarrow> retention_db \<Rightarrow> copy_row list" where
  "copies_of t db = filter (\<lambda>r. cp_target r = t) (copies db)"

definition find_copy :: "string \<Rightarrow> string \<Rightarrow> retention_db \<Rightarrow> copy_row option" where
  "find_copy t c db = find (\<lambda>r. (cp_target r, cp_id r) = (t, c)) (copies db)"

definition copy_row :: "string \<Rightarrow> string \<Rightarrow> retention_db \<Rightarrow> exn + copy_row" where
  "copy_row t c db = (case find_copy t c db of None \<Rightarrow> Inl ControlStoreError | Some r \<Rightarrow> Inr r)"

definition update_target :: "string \<Rightarrow> (target_row \<Rightarrow> target_row) \<Rightarrow> retention_db \<Rightarrow> retention_db" where
  "update_target t f db = db\<lparr>targets := update_where (\<lambda>r. tg_id r = t) f (targets db)\<rparr>"

definition update_copy ::
  "string \<Rightarrow> string \<Rightarrow> (copy_row \<Rightarrow> copy_row) \<Rightarrow> retention_db \<Rightarrow> retention_db" where
  "update_copy t c f db =
     db\<lparr>copies := update_where (\<lambda>r. (cp_target r, cp_id r) = (t, c)) f (copies db)\<rparr>"

definition require_not_held_or_completed :: "target_row \<Rightarrow> exn + unit" where
  "require_not_held_or_completed r =
     (if tg_hold r then Inl ControlConflictError
      else if tg_completed_at r \<noteq> None then Inl ControlConflictError else Inr ())"

definition optional_micros :: "int option \<Rightarrow> exn + datetime option" where
  "optional_micros x =
     (case x of None \<Rightarrow> Inr None | Some us \<Rightarrow> bindE (from_micros us) (\<lambda>d. Inr (Some d)))"

definition copy_state_from_row :: "copy_row \<Rightarrow> exn + copy_state_record" where
  "copy_state_from_row r =
     bindE (optional_micros (cp_staged_at r)) (\<lambda>s.
     bindE (optional_micros (cp_deleted_at r)) (\<lambda>d.
     Inr \<lparr>cs_id = cp_id r, cs_provider = cp_provider r, cs_file = cp_file r,
       cs_revision = cp_revision r, cs_sha256 = cp_sha256 r, cs_state = cp_state r,
       cs_staged_at = s, cs_deleted_at = d, cs_receipt = cp_receipt r\<rparr>))"

definition target_state :: "string \<Rightarrow> retention_db \<Rightarrow> exn + target_state" where
  "target_state t db =
     bindE (target_row t db) (\<lambda>r.
     bindE (from_micros (tg_created_at r)) (\<lambda>created.
     bindE (from_micros (tg_expires_at r)) (\<lambda>expires.
     bindE (optional_micros (tg_completed_at r)) (\<lambda>completed.
     bindE (mapE copy_state_from_row (sort_key cp_id (copies_of t db))) (\<lambda>cs.
     Inr \<lparr>ts_id = tg_id r, ts_created_by = tg_created_by r, ts_created_at = created,
       ts_expires_at = expires, ts_hold = tg_hold r, ts_hold_reason = tg_hold_reason r,
       ts_completed_at = completed, ts_copies = cs\<rparr>)))))"

definition retention_event_from_row :: "retention_row \<Rightarrow> exn + retention_event" where
  "retention_event_from_row r =
     bindE (loads (vr_detail_json r)) (\<lambda>d.
     bindE (from_micros (vr_occurred_at r)) (\<lambda>t.
     Inr \<lparr>ve_sequence = vr_sequence r, ve_event_id = vr_event_id r, ve_target = vr_target r,
       ve_copy = vr_copy r, ve_key = vr_key r, ve_actor = vr_actor r, ve_type = vr_type r,
       ve_detail = d, ve_occurred_at = t\<rparr>))"

section \<open>Digests, copies and events\<close>

definition content_digest ::
  "(string \<Rightarrow> string) \<Rightarrow> string \<Rightarrow> string option \<Rightarrow> string \<Rightarrow> retention_event_type \<Rightarrow>
   (string \<times> json) list \<Rightarrow> string" where
  "content_digest sha t c actor ty detail =
     sha (canonical_json (JObj
       [(''target_id'', JStr t), (''copy_id'', case c of None \<Rightarrow> JNull | Some x \<Rightarrow> JStr x),
        (''actor_id'', JStr actor), (''event_type'', JStr (event_type_value ty)),
        (''detail'', JObj detail)]))"

definition allowed_providers :: "string list" where
  "allowed_providers = [''google_drive'', ''s3'']"

record retention_copy =
  rc_id :: string
  rc_provider :: string
  rc_file :: string
  rc_revision :: string
  rc_sha256 :: string

text \<open>\<open>raw.get(name) or ""\<close>.\<close>

definition raw_text :: "(string \<times> string) list \<Rightarrow> string \<Rightarrow> string" where
  "raw_text raw name = (case map_of raw name of None \<Rightarrow> [] | Some v \<Rightarrow> v)"

definition canonicalize_copy :: "string list \<Rightarrow> (string \<times> string) list \<Rightarrow> exn + retention_copy" where
  "canonicalize_copy seen raw =
     bindE (forE require_bounded_text (map (raw_text raw)
       [''copy_id'', ''provider'', ''file_id'', ''revision''])) (\<lambda>_.
     bindE (require (raw_text raw ''copy_id'' \<notin> set seen) ValueError) (\<lambda>_.
     bindE (require (raw_text raw ''provider'' \<in> set allowed_providers) ValueError) (\<lambda>_.
     bindE (require_sha256 (raw_text raw ''sha256'')) (\<lambda>_.
     Inr \<lparr>rc_id = raw_text raw ''copy_id'', rc_provider = raw_text raw ''provider'',
       rc_file = raw_text raw ''file_id'', rc_revision = raw_text raw ''revision'',
       rc_sha256 = raw_text raw ''sha256''\<rparr>))))"

fun canonicalize_loop ::
  "string list \<Rightarrow> (string \<times> string) list list \<Rightarrow> exn + retention_copy list" where
  "canonicalize_loop seen [] = Inr []"
| "canonicalize_loop seen (raw # raws) =
     bindE (canonicalize_copy seen raw) (\<lambda>c.
     bindE (canonicalize_loop (rc_id c # seen) raws) (\<lambda>cs. Inr (c # cs)))"

definition canonicalize_copies ::
  "(string \<times> string) list list \<Rightarrow> exn + retention_copy list" where
  "canonicalize_copies raws =
     bindE (require (raws \<noteq> []) ValueError) (\<lambda>_.
     bindE (canonicalize_loop [] raws) (\<lambda>cs. Inr (sort_key rc_id cs)))"

definition copy_json :: "retention_copy \<Rightarrow> json" where
  "copy_json c = JObj [(''copy_id'', JStr (rc_id c)), (''provider'', JStr (rc_provider c)),
     (''file_id'', JStr (rc_file c)), (''revision'', JStr (rc_revision c)),
     (''sha256'', JStr (rc_sha256 c))]"

definition new_copy_row :: "string \<Rightarrow> retention_copy \<Rightarrow> copy_row" where
  "new_copy_row t c = \<lparr>cp_target = t, cp_id = rc_id c, cp_provider = rc_provider c,
     cp_file = rc_file c, cp_revision = rc_revision c, cp_sha256 = rc_sha256 c,
     cp_state = CopyActive, cp_staged_at = None, cp_deleted_at = None, cp_receipt = None\<rparr>"

fun insert_copies :: "string \<Rightarrow> retention_copy list \<Rightarrow> copy_row list \<Rightarrow> exn + copy_row list" where
  "insert_copies t [] tbl = Inr tbl"
| "insert_copies t (c # cs) tbl =
     bindE (insert_row (\<lambda>r r'. (cp_target r, cp_id r) = (cp_target r', cp_id r'))
       (new_copy_row t c) tbl) (insert_copies t cs)"

definition append_retention_event ::
  "string \<Rightarrow> string \<Rightarrow> string option \<Rightarrow> string \<Rightarrow> string \<Rightarrow> string \<Rightarrow> retention_event_type \<Rightarrow>
   (string \<times> json) list \<Rightarrow> int \<Rightarrow> retention_db \<Rightarrow> exn + retention_db" where
  "append_retention_event eid t c key digest actor ty detail us db =
     bindE (insert_row (\<lambda>r r'. vr_event_id r = vr_event_id r' \<or> vr_key r = vr_key r')
       \<lparr>vr_sequence = next_sequence vr_sequence (retention_events db), vr_event_id = eid,
        vr_target = t, vr_copy = c, vr_key = key, vr_digest = digest, vr_actor = actor,
        vr_type = ty, vr_detail_json = canonical_json (JObj detail), vr_occurred_at = us\<rparr>
       (retention_events db)) (\<lambda>es.
     Inr (db\<lparr>retention_events := es\<rparr>))"

definition retention_audit ::
  "string \<Rightarrow> audit_context option \<Rightarrow> retention_db \<Rightarrow> exn + nat option \<times> retention_db" where
  "retention_audit aid audit db =
     bindE (append_audit validate_retention_audit aid audit (retention_audits db)) (\<lambda>(n, tbl).
     Inr (n, db\<lparr>retention_audits := tbl\<rparr>))"

text \<open>\<open>_idempotent_replay\<close>: whether the key is stored, with the same content.\<close>

definition idempotent_replay :: "string \<Rightarrow> string \<Rightarrow> retention_db \<Rightarrow> exn + bool" where
  "idempotent_replay key digest db =
     (case find (\<lambda>r. vr_key r = key) (retention_events db) of
        None \<Rightarrow> Inr False
      | Some r \<Rightarrow> if vr_digest r \<noteq> digest then Inl ControlConflictError else Inr True)"

text \<open>How every mutation ends: the audit event, then the state of the target.\<close>

definition audited_state ::
  "string \<Rightarrow> string \<Rightarrow> audit_context option \<Rightarrow> retention_db \<Rightarrow> exn + target_state \<times> retention_db"
  where
  "audited_state t aid audit db =
     bindE (retention_audit aid audit db) (\<lambda>(_, db').
     bindE (target_state t db') (\<lambda>s. Inr (s, db')))"

section \<open>Operations\<close>

definition register_target ::
  "(string \<Rightarrow> string) \<Rightarrow> string \<Rightarrow> (string \<times> string) list list \<Rightarrow> string \<Rightarrow> string \<Rightarrow> datetime \<Rightarrow>
   audit_context option \<Rightarrow> string \<Rightarrow> string \<Rightarrow> retention_db \<Rightarrow> exn + target_state \<times> retention_db" where
  "register_target sha t raws key actor now audit eid aid db =
     bindE (require_bounded_text t) (\<lambda>_.
     bindE (require_bounded_text key) (\<lambda>_.
     bindE (require_bounded_text actor) (\<lambda>_.
     bindE (canonicalize_copies raws) (\<lambda>cs.
     bindE (to_micros now) (\<lambda>created_us.
     bindE (plus_us now (seconds (retention_days * 86400))) (\<lambda>expires.
     let detail = [(''copies'', JArr (map copy_json cs)), (''retention_days'', JInt retention_days)];
         digest = content_digest sha t None actor TargetRegistered detail in
     bindE (idempotent_replay key digest db) (\<lambda>replay.
     if replay then audited_state t aid audit db
     else if find_target t db \<noteq> None then Inl ControlConflictError
     else
       bindE (to_micros expires) (\<lambda>expires_us.
       bindE (require (expires_us > created_us) IntegrityError) (\<lambda>_.
       bindE (insert_row (\<lambda>r r'. tg_id r = tg_id r')
         \<lparr>tg_id = t, tg_created_by = actor, tg_created_at = created_us, tg_expires_at = expires_us,
          tg_hold = False, tg_hold_reason = None, tg_completed_at = None,
          tg_updated_at = created_us\<rparr> (targets db)) (\<lambda>tgs.
       bindE (insert_copies t cs (copies db)) (\<lambda>cps.
       bindE (append_retention_event eid t None key digest actor TargetRegistered detail created_us
         (db\<lparr>targets := tgs, copies := cps\<rparr>)) (audited_state t aid audit))))))))))))"

definition set_legal_hold ::
  "(string \<Rightarrow> string) \<Rightarrow> string \<Rightarrow> bool \<Rightarrow> string option \<Rightarrow> string \<Rightarrow> string \<Rightarrow> datetime \<Rightarrow>
   audit_context option \<Rightarrow> string \<Rightarrow> string \<Rightarrow> retention_db \<Rightarrow> exn + target_state \<times> retention_db" where
  "set_legal_hold sha t hold reason key actor now audit eid aid db =
     bindE (require_bounded_text t) (\<lambda>_.
     bindE (require_bounded_text key) (\<lambda>_.
     bindE (require_bounded_text actor) (\<lambda>_.
     bindE (if hold then
              bindE (require_bounded_text (case reason of None \<Rightarrow> [] | Some x \<Rightarrow> x)) (\<lambda>_.
              Inr (map_option strip reason))
            else bindE (require (reason = None) ValueError) (\<lambda>_. Inr None)) (\<lambda>why.
     let ty = (if hold then HoldPlaced else HoldReleased);
         detail = [(''hold'', JBool hold),
                   (''reason'', case why of None \<Rightarrow> JNull | Some x \<Rightarrow> JStr x)];
         digest = content_digest sha t None actor ty detail in
     bindE (to_micros now) (\<lambda>us.
     bindE (idempotent_replay key digest db) (\<lambda>replay.
     if replay then audited_state t aid audit db
     else
       bindE (target_row t db) (\<lambda>r.
       if tg_completed_at r \<noteq> None then Inl ControlConflictError
       else if tg_hold r = hold then Inl ControlConflictError
       else
         bindE (append_retention_event eid t None key digest actor ty detail us
           (update_target t (\<lambda>r. r\<lparr>tg_hold := hold, tg_hold_reason := why,
             tg_updated_at := us\<rparr>) db)) (audited_state t aid audit))))))))"

definition stage_trash ::
  "(string \<Rightarrow> string) \<Rightarrow> string \<Rightarrow> string \<Rightarrow> string \<Rightarrow> string \<Rightarrow> datetime \<Rightarrow> audit_context option \<Rightarrow>
   string \<Rightarrow> string \<Rightarrow> retention_db \<Rightarrow> exn + target_state \<times> retention_db" where
  "stage_trash sha t c key actor now audit eid aid db =
     bindE (forE require_bounded_text [t, c, key, actor]) (\<lambda>_.
     let detail = [(''copy_id'', JStr c), (''provider_call'', JBool False)];
         digest = content_digest sha t (Some c) actor CopyStaged detail in
     bindE (to_micros now) (\<lambda>us.
     bindE (idempotent_replay key digest db) (\<lambda>replay.
     if replay then audited_state t aid audit db
     else
       bindE (target_row t db) (\<lambda>r.
       bindE (require_not_held_or_completed r) (\<lambda>_.
       bindE (require (\<not> us < tg_expires_at r) ControlConflictError) (\<lambda>_.
       bindE (copy_row t c db) (\<lambda>k.
       bindE (require (cp_state k = CopyActive) ControlConflictError) (\<lambda>_.
       bindE (append_retention_event eid t (Some c) key digest actor CopyStaged detail us
         (update_target t (\<lambda>r. r\<lparr>tg_updated_at := us\<rparr>)
           (update_copy t c (\<lambda>k. k\<lparr>cp_state := TrashStaged, cp_staged_at := Some us\<rparr>) db)))
         (audited_state t aid audit)))))))))"

definition attest_deleted ::
  "(string \<Rightarrow> string) \<Rightarrow> string \<Rightarrow> string \<Rightarrow> string \<Rightarrow> string \<Rightarrow> string \<Rightarrow> datetime \<Rightarrow>
   audit_context option \<Rightarrow> string \<Rightarrow> string \<Rightarrow> retention_db \<Rightarrow> exn + target_state \<times> retention_db" where
  "attest_deleted sha t c receipt key actor now audit eid aid db =
     bindE (forE require_bounded_text [t, c, key, actor]) (\<lambda>_.
     bindE (require_sha256 receipt) (\<lambda>_.
     let detail = [(''copy_id'', JStr c), (''deletion_receipt_sha256'', JStr receipt),
                   (''provider_call'', JBool False)];
         digest = content_digest sha t (Some c) actor DeletionAttested detail in
     bindE (to_micros now) (\<lambda>us.
     bindE (idempotent_replay key digest db) (\<lambda>replay.
     if replay then audited_state t aid audit db
     else
       bindE (target_row t db) (\<lambda>r.
       bindE (require_not_held_or_completed r) (\<lambda>_.
       bindE (copy_row t c db) (\<lambda>k.
       bindE (require (cp_state k = TrashStaged) ControlConflictError) (\<lambda>_.
       let db1 = update_copy t c (\<lambda>k. k\<lparr>cp_state := CopyDeleted, cp_deleted_at := Some us,
             cp_receipt := Some receipt\<rparr>) db;
           remaining = count_where (\<lambda>k. cp_target k = t \<and> cp_state k \<noteq> CopyDeleted) (copies db1);
           completed_at = (if remaining = 0 then Some us else None) in
       bindE (append_retention_event eid t (Some c) key digest actor DeletionAttested detail us
         (update_target t (\<lambda>r. r\<lparr>tg_completed_at :=
             (case tg_completed_at r of None \<Rightarrow> completed_at | Some x \<Rightarrow> Some x),
           tg_updated_at := us\<rparr>) db1))
         (audited_state t aid audit)))))))))"

definition get_target ::
  "string \<Rightarrow> audit_context option \<Rightarrow> string \<Rightarrow> retention_db \<Rightarrow>
   exn + target_state option \<times> retention_db" where
  "get_target t audit aid db =
     bindE (require_bounded_text t) (\<lambda>_.
     bindE (retention_audit aid audit db) (\<lambda>(_, db').
     if find_target t db = None then Inr (None, db')
     else bindE (target_state t db') (\<lambda>s. Inr (Some s, db'))))"

definition overdue :: "int \<Rightarrow> target_row \<Rightarrow> bool" where
  "overdue now_us r = (tg_expires_at r \<le> now_us \<and> \<not> tg_hold r \<and> tg_completed_at r = None)"

definition list_overdue ::
  "datetime \<Rightarrow> audit_context option \<Rightarrow> string \<Rightarrow> retention_db \<Rightarrow>
   exn + target_state list \<times> retention_db" where
  "list_overdue now audit aid db =
     bindE (to_micros now) (\<lambda>now_us.
     let rows = sort_key (\<lambda>r. (tg_expires_at r, tg_id r)) (filter (overdue now_us) (targets db)) in
     bindE (retention_audit aid audit db) (\<lambda>(_, db').
     bindE (mapE (\<lambda>r. target_state (tg_id r) db') rows) (\<lambda>ss. Inr (ss, db'))))"

definition list_scoped_overdue ::
  "string \<Rightarrow> datetime \<Rightarrow> audit_context option \<Rightarrow> string \<Rightarrow> retention_db \<Rightarrow>
   exn + target_state list \<times> retention_db" where
  "list_scoped_overdue p now audit aid db =
     bindE (require_bounded_text p) (\<lambda>_.
     bindE (to_micros now) (\<lambda>now_us.
     let rows = sort_key (\<lambda>r. (tg_expires_at r, tg_id r))
           (filter (\<lambda>r. startswith (tg_id r) p \<and> overdue now_us r) (targets db)) in
     bindE (retention_audit aid audit db) (\<lambda>(_, db').
     bindE (mapE (\<lambda>r. target_state (tg_id r) db') rows) (\<lambda>ss. Inr (ss, db')))))"

definition list_retention_events :: "string \<Rightarrow> retention_db \<Rightarrow> exn + retention_event list" where
  "list_retention_events t db =
     bindE (require_bounded_text t) (\<lambda>_.
     mapE retention_event_from_row (filter (\<lambda>r. vr_target r = t) (retention_events db)))"

definition append_retention_audit_event ::
  "string \<Rightarrow> audit_context \<Rightarrow> retention_db \<Rightarrow> exn + nat \<times> retention_db" where
  "append_retention_audit_event aid audit db =
     bindE (retention_audit aid (Some audit) db) (\<lambda>(n, db').
     case n of None \<Rightarrow> Inl AssertionError | Some n \<Rightarrow> Inr (n, db'))"

end
