(* ===== verification/Control_Service.thy ===== *)
theory Control_Service
  imports Candidate_Reviews Retention_Tables
begin

text \<open>
  The authenticated boundary of \<open>control_service.py\<close>: authorize first, with durable evidence of a
  denial, derive the actor from the principal, qualify every identifier with the scope of the
  principal, call a transactional store, and publish what it returns. A call is a function of the
  two databases; a store operation inside it is one transaction of one of them.
\<close>

section \<open>Calls\<close>

record service_state =
  sv_control :: control_db
  sv_retention :: "retention_db option"

type_synonym 'a call = "service_state \<Rightarrow> (exn + 'a) \<times> service_state"

text \<open>The clock of the authorization, the time of the store operation, and the fresh identifiers.\<close>

record call_env =
  ce_clock :: datetime
  ce_now :: datetime
  ce_audit_id :: string
  ce_event_id :: string

definition result :: "exn + 'a \<Rightarrow> 'a call" where
  "result r st = (r, st)"

definition bindS :: "'a call \<Rightarrow> ('a \<Rightarrow> 'b call) \<Rightarrow> 'b call" where
  "bindS m f st = (case m st of (Inl e, st') \<Rightarrow> (Inl e, st') | (Inr x, st') \<Rightarrow> f x st')"

definition in_control :: "(control_db \<Rightarrow> exn + 'r \<times> control_db) \<Rightarrow> 'r call" where
  "in_control body st =
     (let (r, db) = transaction body (sv_control st) in (r, st\<lparr>sv_control := db\<rparr>))"

definition read_control :: "(control_db \<Rightarrow> exn + 'r) \<Rightarrow> 'r call" where
  "read_control body st = (body (sv_control st), st)"

text \<open>\<open>_require_retention\<close> and an operation of the ledger.\<close>

definition require_retention :: "unit call" where
  "require_retention st = (if sv_retention st = None then (Inl ControlStoreError, st) else (Inr (), st))"

definition in_retention :: "(retention_db \<Rightarrow> exn + 'r \<times> retention_db) \<Rightarrow> 'r call" where
  "in_retention body st =
     (case sv_retention st of
        None \<Rightarrow> (Inl ControlStoreError, st)
      | Some db \<Rightarrow> let (r, db') = transaction body db in (r, st\<lparr>sv_retention := Some db'\<rparr>))"

section \<open>Authorization\<close>

definition require_scope :: "principal \<Rightarrow> exn + scope" where
  "require_scope p =
     (case principal_scope p of
        None \<Rightarrow> Inl AuthorizationDeniedError
      | Some s \<Rightarrow>
          bindE (except type_or_value AuthorizationDeniedError (validate_scope s)) (\<lambda>_. Inr s))"

definition audit_context_for ::
  "scope \<Rightarrow> principal \<Rightarrow> control_action \<Rightarrow> string \<Rightarrow> string \<Rightarrow> string option \<Rightarrow> string \<Rightarrow> datetime \<Rightarrow>
   exn + audit_context" where
  "audit_context_for s p action target correlation key res occurred_at =
     bindE (case key of None \<Rightarrow> Inr None
            | Some k \<Rightarrow> bindE (qualify s ''audit_idempotency'' k) (\<lambda>k'. Inr (Some k'))) (\<lambda>key'.
     bindE (qualify s ''audit_target'' target) (\<lambda>target'.
     Inr \<lparr>ac_correlation_id = correlation, ac_idempotency_key = key', ac_subject_id = subject p,
       ac_roles = role_values p, ac_action = action_value action, ac_target_id = target',
       ac_result = res, ac_occurred_at = occurred_at\<rparr>))"

definition validate_reviewer_subject_value :: "string \<Rightarrow> exn + unit" where
  "validate_reviewer_subject_value s = require (reviewer_id_pattern s) AuthorizationDeniedError"

definition authorize ::
  "call_env \<Rightarrow> principal \<Rightarrow> control_action \<Rightarrow> string \<Rightarrow> string \<Rightarrow> string option \<Rightarrow> bool \<Rightarrow>
   audit_context call" where
  "authorize env p action target correlation key check_reviewer =
     bindS (result (require_scope p)) (\<lambda>s.
     if bindE (require_action p action) (\<lambda>_.
          if check_reviewer then validate_reviewer_subject_value (subject p) else Inr ()) = Inr ()
     then result (audit_context_for s p action target correlation key ''accepted'' (ce_clock env))
     else
       bindS (result (audit_context_for s p action target correlation key ''denied'' (ce_clock env)))
         (\<lambda>audit.
       bindS (\<lambda>st.
         if sv_retention st \<noteq> None \<and> RetentionSteward \<in> roles p
         then bindS (in_retention (append_retention_audit_event (ce_audit_id env) audit))
           (\<lambda>_. result (Inr ())) st
         else bindS (in_control (append_audit_event (ce_audit_id env) audit))
           (\<lambda>_. result (Inr ())) st) (\<lambda>_.
       result (Inl AuthorizationDeniedError))))"

definition authorize_retention ::
  "call_env \<Rightarrow> principal \<Rightarrow> control_action \<Rightarrow> string \<Rightarrow> string \<Rightarrow> string option \<Rightarrow>
   audit_context call" where
  "authorize_retention env p action target correlation key =
     bindS require_retention (\<lambda>_.
     bindS (result (require_scope p)) (\<lambda>s.
     if require_action p action = Inr ()
     then result (audit_context_for s p action target correlation key ''accepted'' (ce_clock env))
     else
       bindS (result (audit_context_for s p action target correlation key ''denied'' (ce_clock env)))
         (\<lambda>audit.
       bindS (in_retention (append_retention_audit_event (ce_audit_id env) audit)) (\<lambda>_.
       result (Inl AuthorizationDeniedError)))))"

section \<open>Leases and public records\<close>

definition owned_lease :: "principal \<Rightarrow> lease \<Rightarrow> lease" where
  "owned_lease p l = l\<lparr>l_owner := subject p\<rparr>"

definition qualified_lease :: "scope \<Rightarrow> lease \<Rightarrow> exn + lease" where
  "qualified_lease s l = bindE (qualify s ''job'' (l_job_id l)) (\<lambda>j. Inr (l\<lparr>l_job_id := j\<rparr>))"

definition public_job :: "scope \<Rightarrow> job_record \<Rightarrow> exn + job_record" where
  "public_job s v = bindE (unqualify s ''job'' (job_id v)) (\<lambda>j. Inr (v\<lparr>job_id := j\<rparr>))"

definition public_lease :: "scope \<Rightarrow> lease \<Rightarrow> exn + lease" where
  "public_lease s v = bindE (unqualify s ''job'' (l_job_id v)) (\<lambda>j. Inr (v\<lparr>l_job_id := j\<rparr>))"

definition public_completion :: "scope \<Rightarrow> completion \<Rightarrow> exn + completion" where
  "public_completion s v =
     bindE (unqualify s ''job'' (c_job_id v)) (\<lambda>j.
     bindE (unqualify s ''completion_idempotency'' (c_idempotency_key v)) (\<lambda>k.
     Inr (v\<lparr>c_job_id := j, c_idempotency_key := k\<rparr>)))"

text \<open>\<open>str.lower\<close> on the code points it changes below 128.\<close>

definition ascii_lower :: "string \<Rightarrow> string" where
  "ascii_lower = map (\<lambda>c. if is_upper c then char_of (code c + 32) else c)"

definition endswith :: "string \<Rightarrow> string \<Rightarrow> bool" where
  "endswith v x = startswith (rev v) (rev x)"

definition hidden_keys :: "string list" where
  "hidden_keys = [''scope'', ''qualified_idempotency_key'', ''qualified_review_target_id'',
     ''server_scope'']"

definition sensitive_keys :: "string list" where
  "sensitive_keys = [''authorization'', ''canonical_bytes'', ''credential'', ''credentials'',
     ''derivation_evidence_jcs'', ''password'', ''raw_artifact'', ''reservation_epoch'',
     ''reservation_expires_at_us'', ''reservation_owner_id'', ''secret'', ''signed_url'', ''token'',
     ''url'', ''uri'']"

definition sensitive_key :: "string \<Rightarrow> bool" where
  "sensitive_key k =
     (let l = ascii_lower k in
      l \<in> set sensitive_keys \<or> endswith l ''_url'' \<or> endswith l ''_uri'' \<or> endswith l ''_token'')"

definition public_key :: "bool \<Rightarrow> string \<Rightarrow> bool" where
  "public_key lifecycle k = (k \<notin> set hidden_keys \<and> \<not> (lifecycle \<and> sensitive_key k))"

definition external_locator :: "string \<Rightarrow> bool" where
  "external_locator v =
     list_ex (startswith (ascii_lower v))
       [''http://'', ''https://'', ''file://'', ''s3://'', ''gs://'']"

function clean :: "bool \<Rightarrow> json \<Rightarrow> json" where
  "clean lifecycle (JObj d) =
     JObj (filter (\<lambda>x. public_key lifecycle (fst x)) (map (\<lambda>(k, v). (k, clean lifecycle v)) d))"
| "clean lifecycle (JArr xs) = JArr (map (clean lifecycle) xs)"
| "clean lifecycle (JStr v) =
     (if startswith v key_version \<or> lifecycle \<and> external_locator v then JNull else JStr v)"
| "clean lifecycle JNull = JNull"
| "clean lifecycle (JBool b) = JBool b"
| "clean lifecycle (JInt i) = JInt i"
  by pat_completeness auto
termination
  by (relation "measure (\<lambda>(_, v). size v)")
    (auto simp: less_Suc_eq_le intro: size_list_estimation' order_trans [OF _ size_list_estimation'])

definition public_candidate_json :: "(string \<times> json) list \<Rightarrow> (string \<times> json) list" where
  "public_candidate_json value =
     (case clean (jhas value ''lifecycle_schema_version'' \<or> jhas value ''publication_key'')
        (JObj value) of JObj d \<Rightarrow> d | _ \<Rightarrow> [])"

definition public_review_event :: "scope \<Rightarrow> review_event \<Rightarrow> exn + review_event" where
  "public_review_event s v =
     bindE (unqualify s ''review_target'' (re_target_id v)) (\<lambda>t.
     bindE (unqualify s ''review_idempotency'' (re_idempotency_key v)) (\<lambda>k.
     let hide = (if is_candidate_review_target t then public_candidate_json else id) in
     Inr (v\<lparr>re_target_id := t, re_idempotency_key := k, re_provenance := hide (re_provenance v),
       re_detail := hide (re_detail v)\<rparr>)))"

definition public_review_projection :: "scope \<Rightarrow> review_projection \<Rightarrow> exn + review_projection" where
  "public_review_projection s v =
     bindE (unqualify s ''review_target'' (rp_target_id v)) (\<lambda>t.
     let hide = (if is_candidate_review_target t then public_candidate_json else id) in
     Inr (v\<lparr>rp_target_id := t, rp_provenance := hide (rp_provenance v),
       rp_detail := hide (rp_detail v)\<rparr>))"

definition public_audit_event :: "scope \<Rightarrow> audit_event \<Rightarrow> exn + audit_event" where
  "public_audit_event s v =
     bindE (case ae_idempotency_key v of None \<Rightarrow> Inr None
            | Some k \<Rightarrow> bindE (unqualify s ''audit_idempotency'' k) (\<lambda>k'. Inr (Some k'))) (\<lambda>k.
     bindE (unqualify s ''audit_target'' (ae_target_id v)) (\<lambda>t.
     Inr (v\<lparr>ae_idempotency_key := k, ae_target_id := t\<rparr>)))"

definition public_retention_state :: "scope \<Rightarrow> target_state \<Rightarrow> exn + target_state" where
  "public_retention_state s v =
     bindE (mapE (\<lambda>c. bindE (unqualify s ''retention_copy'' (cs_id c)) (\<lambda>i. Inr (c\<lparr>cs_id := i\<rparr>)))
       (ts_copies v)) (\<lambda>cs.
     bindE (unqualify s ''retention_target'' (ts_id v)) (\<lambda>t.
     Inr (v\<lparr>ts_id := t, ts_copies := cs\<rparr>)))"

section \<open>Jobs\<close>

definition service_register_job ::
  "call_env \<Rightarrow> principal \<Rightarrow> string \<Rightarrow> string \<Rightarrow> string \<Rightarrow> string option \<Rightarrow> job_record call" where
  "service_register_job env p j digest correlation key =
     bindS (result (require_scope p)) (\<lambda>s.
     bindS (authorize env p JobRegister j correlation key False) (\<lambda>audit.
     bindS (result (qualify s ''job'' j)) (\<lambda>j'.
     bindS (in_control (register_job j' digest (ce_now env) (Some audit) (ce_audit_id env))) (\<lambda>r.
     result (public_job s r)))))"

definition service_acquire ::
  "nat \<Rightarrow> call_env \<Rightarrow> principal \<Rightarrow> string \<Rightarrow> int \<Rightarrow> string \<Rightarrow> string option \<Rightarrow> lease call" where
  "service_acquire limit env p j ttl correlation key =
     bindS (result (require_scope p)) (\<lambda>s.
     bindS (authorize env p JobAcquire j correlation key False) (\<lambda>audit.
     bindS (result (qualify s ''job'' j)) (\<lambda>j'.
     bindS (in_control (acquire limit j' (subject p) (ce_now env) ttl (Some audit) (ce_event_id env)
       (ce_audit_id env))) (\<lambda>l.
     result (public_lease s l)))))"

definition service_heartbeat ::
  "call_env \<Rightarrow> principal \<Rightarrow> lease \<Rightarrow> int \<Rightarrow> string \<Rightarrow> string option \<Rightarrow> lease call" where
  "service_heartbeat env p l ttl correlation key =
     bindS (result (require_scope p)) (\<lambda>s.
     let owned = owned_lease p l in
     bindS (authorize env p JobHeartbeat (l_job_id owned) correlation key False) (\<lambda>audit.
     bindS (result (qualified_lease s owned)) (\<lambda>internal.
     bindS (in_control (heartbeat internal (ce_now env) ttl (Some audit) (ce_event_id env)
       (ce_audit_id env))) (\<lambda>renewed.
     result (public_lease s renewed)))))"

definition service_complete ::
  "call_env \<Rightarrow> principal \<Rightarrow> lease \<Rightarrow> string \<Rightarrow> string \<Rightarrow> string \<Rightarrow> completion call" where
  "service_complete env p l key digest correlation =
     bindS (result (require_scope p)) (\<lambda>s.
     let owned = owned_lease p l in
     bindS (authorize env p JobComplete (l_job_id owned) correlation (Some key) False) (\<lambda>audit.
     bindS (result (qualified_lease s owned)) (\<lambda>internal.
     bindS (result (qualify s ''completion_idempotency'' key)) (\<lambda>key'.
     bindS (in_control (complete internal key' digest (ce_now env) (Some audit) (ce_event_id env)
       (ce_audit_id env))) (\<lambda>c.
     result (public_completion s c))))))"

section \<open>Reviews\<close>

definition service_append_review ::
  "(string \<Rightarrow> string) \<Rightarrow> call_env \<Rightarrow> principal \<Rightarrow> string \<Rightarrow> string \<Rightarrow> string \<Rightarrow> (string \<times> json) list \<Rightarrow>
   (string \<times> json) list option \<Rightarrow> string \<Rightarrow> review_event call" where
  "service_append_review sha env p target key status provenance detail correlation =
     (if is_candidate_review_target target then result (Inl ControlConflictError)
      else
        bindS (result (require_scope p)) (\<lambda>s.
        bindS (authorize env p ReviewAppend target correlation (Some key) False) (\<lambda>audit.
        bindS (result (qualify s ''review_target'' target)) (\<lambda>target'.
        bindS (result (qualify s ''review_idempotency'' key)) (\<lambda>key'.
        bindS (in_control (append_review_event sha target' key' (subject p) status provenance
          (case detail of None \<Rightarrow> [] | Some d \<Rightarrow> d) (ce_now env) (Some audit) (ce_event_id env)
          (ce_audit_id env))) (\<lambda>e.
        result (public_review_event s e)))))))"

text \<open>
  A capability binds everything that was authorized. Its seal is a private copy of the bindings;
  an object that the module did not seal has none. Services are told apart by number.
\<close>

record capability_binding =
  cb_principal :: principal
  cb_scope :: scope
  cb_publication_key :: string
  cb_review_target_id :: string
  cb_correlation_id :: string
  cb_idempotency_key :: string
  cb_audit :: audit_context
  cb_service :: nat

record candidate_capability =
  cap_binding :: capability_binding
  cap_seal :: "capability_binding option"

definition issue_capability :: "capability_binding \<Rightarrow> candidate_capability" where
  "issue_capability b = \<lparr>cap_binding = b, cap_seal = Some b\<rparr>"

definition validate_candidate_review_identity :: "string \<Rightarrow> string \<Rightarrow> exn + unit" where
  "validate_candidate_review_identity publication_key target =
     (case parse_publication_key publication_key of
        None \<Rightarrow> Inl ValueError
      | Some skill \<Rightarrow>
          (case parse_candidate_target target of
             None \<Rightarrow> Inl ValueError
           | Some (target_skill, _) \<Rightarrow> conflict_unless (skill = target_skill)))"

definition authorize_candidate_review ::
  "nat \<Rightarrow> call_env \<Rightarrow> principal \<Rightarrow> string \<Rightarrow> string \<Rightarrow> string \<Rightarrow> string \<Rightarrow>
   candidate_capability call" where
  "authorize_candidate_review self env p publication_key target correlation key =
     bindS (result (require_scope p)) (\<lambda>s.
     bindS (result (require (nonblank correlation) ValueError)) (\<lambda>_.
     bindS (result (require (nonblank key) ValueError)) (\<lambda>_.
     bindS (authorize env p ReviewAppend target correlation (Some key) True) (\<lambda>audit.
     bindS (result (validate_candidate_review_identity publication_key target)) (\<lambda>_.
     result (Inr (issue_capability
       \<lparr>cb_principal = p, cb_scope = s, cb_publication_key = publication_key,
        cb_review_target_id = target, cb_correlation_id = correlation, cb_idempotency_key = key,
        cb_audit = audit, cb_service = self\<rparr>)))))))"

definition validate_candidate_review_capability ::
  "nat \<Rightarrow> candidate_capability \<Rightarrow> principal \<Rightarrow> string \<Rightarrow> string \<Rightarrow> string \<Rightarrow> string \<Rightarrow>
   exn + audit_context" where
  "validate_candidate_review_capability self cap p publication_key target correlation key =
     (let b = cap_binding cap; audit = cb_audit b in
      bindE (conflict_unless (cap_seal cap = Some b)) (\<lambda>_.
      bindE (conflict_unless (cb_service b = self)) (\<lambda>_.
      bindE (conflict_unless (p = cb_principal b)) (\<lambda>_.
      bindE (require_scope p) (\<lambda>s.
      bindE (conflict_unless (cb_scope b = s)) (\<lambda>_.
      bindE (validate_candidate_review_identity publication_key target) (\<lambda>_.
      bindE (conflict_unless (cb_publication_key b = publication_key \<and>
        cb_review_target_id b = target \<and> cb_correlation_id b = correlation \<and>
        cb_idempotency_key b = key)) (\<lambda>_.
      bindE (validate_reviewer_subject_value (subject p)) (\<lambda>_.
      bindE (qualify s ''audit_target'' target) (\<lambda>expected_target.
      bindE (qualify s ''audit_idempotency'' key) (\<lambda>expected_key.
      bindE (conflict_unless (ac_correlation_id audit = correlation \<and>
        ac_idempotency_key audit = Some expected_key \<and> ac_subject_id audit = subject p \<and>
        ac_roles audit = role_values p \<and> ac_action audit = action_value ReviewAppend \<and>
        ac_target_id audit = expected_target \<and> ac_result audit = ''accepted'' \<and>
        tz (ac_occurred_at audit) = UTC)) (\<lambda>_.
      Inr audit))))))))))))"

text \<open>\<open>_publication_review_fields\<close> (the fields of a mapping that are set) and \<open>_coalesce_review_field\<close>.\<close>

definition publication_fields :: "(string \<times> string option) list \<Rightarrow> string \<Rightarrow> string option" where
  "publication_fields publication name =
     (if name \<in> {''publication_key'', ''review_target_id'', ''content_sha256'', ''full_sha256'',
        ''source_result_sha256'', ''schema_version'', ''job_id'', ''skill_id''}
      then (case map_of publication name of Some (Some v) \<Rightarrow> Some v | _ \<Rightarrow> None) else None)"

definition coalesce_field :: "string option \<Rightarrow> (string \<Rightarrow> string option) \<Rightarrow> string \<Rightarrow>
  exn + string option" where
  "coalesce_field v given name =
     (if both_differ v (given name) then Inl ControlConflictError
      else Inr (first_given v (given name)))"

record review_call =
  rv_publication_key :: "string option"
  rv_publication :: "(string \<times> string option) list"
  rv_review_target_id :: "string option"
  rv_target_id :: "string option"
  rv_idempotency_key :: string
  rv_status :: "string option"
  rv_destination_status :: "string option"
  rv_schema_version :: string
  rv_candidate_id :: "string option"
  rv_skill_id :: "string option"
  rv_content_sha256 :: "string option"
  rv_full_sha256 :: "string option"
  rv_source_result_sha256 :: "string option"
  rv_reason :: "json option"
  rv_evidence :: "json option"
  rv_prior_state :: "json option"
  rv_prior_version :: "json option"
  rv_prior_event :: "json option"
  rv_occurred_at :: "datetime option"
  rv_now :: "datetime option"
  rv_correlation_id :: string
  rv_capability :: "candidate_capability option"
  rv_legacy_provenance :: "(string \<times> json) list option"
  rv_legacy_detail :: "(string \<times> json) list option"

definition candidate_request_of ::
  "scope \<Rightarrow> principal \<Rightarrow> review_call \<Rightarrow> string \<Rightarrow> string \<Rightarrow> string \<Rightarrow> string \<Rightarrow> string \<Rightarrow> candidate_request" where
  "candidate_request_of s p q publication_key target content full source =
     \<lparr>cq_scope = Some (ScopeValue s), cq_server_scope = None, cq_publication_key = publication_key,
      cq_review_target_id = Some target, cq_target_id = None,
      cq_idempotency_key = Some (rv_idempotency_key q), cq_qualified_key = None,
      cq_actor_id = subject p, cq_status = rv_status q,
      cq_destination_status = rv_destination_status q, cq_schema_version = rv_schema_version q,
      cq_candidate_id = rv_candidate_id q, cq_skill_id = rv_skill_id q,
      cq_content_sha256 = content, cq_full_sha256 = full, cq_source_result_sha256 = source,
      cq_reason = rv_reason q, cq_evidence = rv_evidence q, cq_prior_state = rv_prior_state q,
      cq_prior_version = rv_prior_version q, cq_prior_event = rv_prior_event q,
      cq_occurred_at = rv_occurred_at q, cq_now = rv_now q,
      cq_legacy_provenance = rv_legacy_provenance q, cq_legacy_detail = rv_legacy_detail q\<rparr>"

definition append_candidate_review ::
  "nat \<Rightarrow> (string \<Rightarrow> string) \<Rightarrow> call_env \<Rightarrow> principal \<Rightarrow> review_call \<Rightarrow> review_event call" where
  "append_candidate_review self sha env p q =
     (let given = publication_fields (rv_publication q) in
      bindS (result (coalesce_field (rv_publication_key q) given ''publication_key'')) (\<lambda>pub.
      bindS (result (coalesce_field (first_given (rv_review_target_id q) (rv_target_id q)) given
        ''review_target_id'')) (\<lambda>target.
      bindS (result (conflict_unless (rv_target_id q = None \<or> target = rv_target_id q))) (\<lambda>_.
      bindS (result (coalesce_field (rv_content_sha256 q) given ''content_sha256'')) (\<lambda>content.
      bindS (result (coalesce_field (rv_full_sha256 q) given ''full_sha256'')) (\<lambda>full.
      bindS (result (coalesce_field (rv_source_result_sha256 q) given ''source_result_sha256''))
        (\<lambda>source.
      case (pub, target, content, full, source) of
        (Some pub, Some target, Some content, Some full, Some source) \<Rightarrow>
          bindS (result (require_scope p)) (\<lambda>s.
          bindS (result (conflict_unless (is_candidate_review_target target))) (\<lambda>_.
          bindS (case rv_capability q of
              None \<Rightarrow> authorize env p ReviewAppend target (rv_correlation_id q)
                (Some (rv_idempotency_key q)) False
            | Some cap \<Rightarrow>
                bindS (result (conflict_unless (rv_legacy_provenance q = None \<and>
                  rv_legacy_detail q = None))) (\<lambda>_.
                result (validate_candidate_review_capability self cap p pub target
                  (rv_correlation_id q) (rv_idempotency_key q)))) (\<lambda>audit.
          bindS (in_control (append_candidate_review_event sha
            (candidate_request_of s p q pub target content full source) (ce_now env) (Some audit)
            (ce_event_id env) (ce_audit_id env))) (\<lambda>e.
          result (public_review_event s e)))))
      | _ \<Rightarrow> result (Inl ValueError))))))))"

definition read_candidate_review ::
  "(string \<Rightarrow> string) \<Rightarrow> call_env \<Rightarrow> principal \<Rightarrow> string option \<Rightarrow> string option \<Rightarrow> string \<Rightarrow>
   review_projection option call" where
  "read_candidate_review sha env p review_target_id target_id correlation =
     bindS (result (conflict_unless (\<not> both_differ review_target_id target_id))) (\<lambda>_.
     case first_given review_target_id target_id of
       None \<Rightarrow> result (Inl ControlConflictError)
     | Some target \<Rightarrow>
         bindS (result (conflict_unless (is_candidate_review_target target))) (\<lambda>_.
         bindS (result (require_scope p)) (\<lambda>s.
         bindS (authorize env p ReviewRead target correlation None False) (\<lambda>_.
         bindS (result (qualify s ''review_target'' target)) (\<lambda>target'.
         bindS (read_control (get_candidate_review_projection sha target')) (\<lambda>projection.
         result (case projection of None \<Rightarrow> Inr None
           | Some v \<Rightarrow> bindE (public_review_projection s v) (\<lambda>v'. Inr (Some v')))))))))"

definition service_list_reviews ::
  "(string \<Rightarrow> string) \<Rightarrow> call_env \<Rightarrow> principal \<Rightarrow> string \<Rightarrow> string \<Rightarrow> int \<Rightarrow> int \<Rightarrow>
   review_event list call" where
  "service_list_reviews sha env p target correlation after limit =
     bindS (result (require_scope p)) (\<lambda>s.
     bindS (authorize env p ReviewRead target correlation None False) (\<lambda>_.
     bindS (result (qualify s ''review_target'' target)) (\<lambda>target'.
     bindS (read_control
       ((if is_candidate_review_target target then list_candidate_review_events
         else list_scoped_review_events) sha target' after limit)) (\<lambda>es.
     result (mapE (public_review_event s) es)))))"

definition service_read_review ::
  "(string \<Rightarrow> string) \<Rightarrow> call_env \<Rightarrow> principal \<Rightarrow> string \<Rightarrow> string \<Rightarrow>
   review_projection option call" where
  "service_read_review sha env p target correlation =
     (if is_candidate_review_target target
      then read_candidate_review sha env p (Some target) None correlation
      else
        bindS (result (require_scope p)) (\<lambda>s.
        bindS (authorize env p ReviewRead target correlation None False) (\<lambda>_.
        bindS (result (qualify s ''review_target'' target)) (\<lambda>target'.
        bindS (read_control (get_review_projection sha target')) (\<lambda>projection.
        result (case projection of None \<Rightarrow> Inr None
          | Some v \<Rightarrow> bindE (public_review_projection s v) (\<lambda>v'. Inr (Some v'))))))))"

section \<open>Audit events\<close>

definition service_list_audit_events ::
  "call_env \<Rightarrow> principal \<Rightarrow> string \<Rightarrow> int \<Rightarrow> int \<Rightarrow> audit_event list call" where
  "service_list_audit_events env p correlation after limit =
     bindS (result (require_scope p)) (\<lambda>s.
     bindS (authorize env p AuditRead ''audit-events'' correlation None False) (\<lambda>_.
     bindS (result (kind_prefix s ''audit_target'')) (\<lambda>prefix.
     bindS (read_control (\<lambda>db. list_scoped_audit_events prefix after limit (audit_events db))) (\<lambda>es.
     result (mapE (public_audit_event s) es)))))"

definition service_read_audit_event ::
  "call_env \<Rightarrow> principal \<Rightarrow> string \<Rightarrow> string \<Rightarrow> audit_event option call" where
  "service_read_audit_event env p event_id correlation =
     bindS (result (require_scope p)) (\<lambda>s.
     bindS (authorize env p AuditRead event_id correlation None False) (\<lambda>_.
     bindS (result (kind_prefix s ''audit_target'')) (\<lambda>prefix.
     bindS (read_control (\<lambda>db. get_scoped_audit_event event_id prefix (audit_events db))) (\<lambda>e.
     result (case e of None \<Rightarrow> Inr None
       | Some v \<Rightarrow> bindE (public_audit_event s v) (\<lambda>v'. Inr (Some v')))))))"

section \<open>Retention\<close>

text \<open>\<open>{**dict(copy), "copy_id": ..}\<close>: the entry is replaced in place or added.\<close>

fun set_entry :: "string \<Rightarrow> string \<Rightarrow> (string \<times> string) list \<Rightarrow> (string \<times> string) list" where
  "set_entry k v [] = [(k, v)]"
| "set_entry k v ((k', v') # d) = (if k' = k then (k, v) # d else (k', v') # set_entry k v d)"

definition qualified_copy :: "scope \<Rightarrow> (string \<times> string) list \<Rightarrow> exn + (string \<times> string) list" where
  "qualified_copy s c =
     bindE (qualify s ''retention_copy'' (raw_text c ''copy_id'')) (\<lambda>i. Inr (set_entry ''copy_id'' i c))"

definition register_retention ::
  "(string \<Rightarrow> string) \<Rightarrow> call_env \<Rightarrow> principal \<Rightarrow> string \<Rightarrow> (string \<times> string) list list \<Rightarrow> string \<Rightarrow>
   string \<Rightarrow> target_state call" where
  "register_retention sha env p t cs correlation key =
     bindS (result (require_scope p)) (\<lambda>s.
     bindS (authorize_retention env p RetentionRegister t correlation (Some key)) (\<lambda>audit.
     bindS (result (mapE (qualified_copy s) cs)) (\<lambda>cs'.
     bindS (result (qualify s ''retention_target'' t)) (\<lambda>t'.
     bindS (result (qualify s ''retention_idempotency'' key)) (\<lambda>key'.
     bindS (in_retention (register_target sha t' cs' key' (subject p) (ce_now env) (Some audit)
       (ce_event_id env) (ce_audit_id env))) (\<lambda>v.
     result (public_retention_state s v)))))))"

definition read_retention ::
  "call_env \<Rightarrow> principal \<Rightarrow> string \<Rightarrow> string \<Rightarrow> target_state option call" where
  "read_retention env p t correlation =
     bindS (result (require_scope p)) (\<lambda>s.
     bindS (authorize_retention env p RetentionRead t correlation None) (\<lambda>audit.
     bindS (result (qualify s ''retention_target'' t)) (\<lambda>t'.
     bindS (in_retention (get_target t' (Some audit) (ce_audit_id env))) (\<lambda>v.
     result (case v of None \<Rightarrow> Inr None
       | Some v \<Rightarrow> bindE (public_retention_state s v) (\<lambda>v'. Inr (Some v')))))))"

definition set_retention_hold ::
  "(string \<Rightarrow> string) \<Rightarrow> call_env \<Rightarrow> principal \<Rightarrow> string \<Rightarrow> bool \<Rightarrow> string option \<Rightarrow> string \<Rightarrow>
   string \<Rightarrow> target_state call" where
  "set_retention_hold sha env p t hold reason correlation key =
     bindS (result (require_scope p)) (\<lambda>s.
     bindS (authorize_retention env p RetentionHold t correlation (Some key)) (\<lambda>audit.
     bindS (result (qualify s ''retention_target'' t)) (\<lambda>t'.
     bindS (result (qualify s ''retention_idempotency'' key)) (\<lambda>key'.
     bindS (in_retention (set_legal_hold sha t' hold reason key' (subject p) (ce_now env)
       (Some audit) (ce_event_id env) (ce_audit_id env))) (\<lambda>v.
     result (public_retention_state s v))))))"

definition stage_retention_trash ::
  "(string \<Rightarrow> string) \<Rightarrow> call_env \<Rightarrow> principal \<Rightarrow> string \<Rightarrow> string \<Rightarrow> string \<Rightarrow> string \<Rightarrow>
   target_state call" where
  "stage_retention_trash sha env p t c correlation key =
     bindS (result (require_scope p)) (\<lambda>s.
     bindS (authorize_retention env p RetentionStageTrash t correlation (Some key)) (\<lambda>audit.
     bindS (result (qualify s ''retention_target'' t)) (\<lambda>t'.
     bindS (result (qualify s ''retention_copy'' c)) (\<lambda>c'.
     bindS (result (qualify s ''retention_idempotency'' key)) (\<lambda>key'.
     bindS (in_retention (stage_trash sha t' c' key' (subject p) (ce_now env) (Some audit)
       (ce_event_id env) (ce_audit_id env))) (\<lambda>v.
     result (public_retention_state s v)))))))"

definition attest_retention_delete ::
  "(string \<Rightarrow> string) \<Rightarrow> call_env \<Rightarrow> principal \<Rightarrow> string \<Rightarrow> string \<Rightarrow> string \<Rightarrow> string \<Rightarrow> string \<Rightarrow>
   target_state call" where
  "attest_retention_delete sha env p t c receipt correlation key =
     bindS (result (require_scope p)) (\<lambda>s.
     bindS (authorize_retention env p RetentionAttestDelete t correlation (Some key)) (\<lambda>audit.
     bindS (result (qualify s ''retention_target'' t)) (\<lambda>t'.
     bindS (result (qualify s ''retention_copy'' c)) (\<lambda>c'.
     bindS (result (qualify s ''retention_idempotency'' key)) (\<lambda>key'.
     bindS (in_retention (attest_deleted sha t' c' receipt key' (subject p) (ce_now env) (Some audit)
       (ce_event_id env) (ce_audit_id env))) (\<lambda>v.
     result (public_retention_state s v)))))))"

definition list_overdue_retention ::
  "call_env \<Rightarrow> principal \<Rightarrow> string \<Rightarrow> target_state list call" where
  "list_overdue_retention env p correlation =
     bindS (result (require_scope p)) (\<lambda>s.
     bindS (authorize_retention env p RetentionRead ''retention-overdue'' correlation None) (\<lambda>audit.
     bindS (result (kind_prefix s ''retention_target'')) (\<lambda>prefix.
     bindS (in_retention (list_scoped_overdue prefix (ce_now env) (Some audit) (ce_audit_id env)))
       (\<lambda>vs.
     result (mapE (public_retention_state s) vs)))))"

end
