(* ===== verification/Review_Ledger.thy ===== *)
theory Review_Ledger
  imports Candidate_Reviews
begin

text \<open>
  What the two writers of \<open>control_store.py\<close> do to the review tables, as one transition system:
  its invariant (the projection is the fold of the append-only events, every stored digest
  matches, candidate histories follow the legal transitions) and its consequences.
\<close>

section \<open>Effects\<close>

definition row_of_projection :: "review_row \<Rightarrow> projection_row \<Rightarrow> bool" where
  "row_of_projection r p =
     (pr_target_id p = rr_target_id r \<and> pr_status p = rr_status r \<and>
      pr_last_event_id p = rr_event_id r \<and> pr_actor_id p = rr_actor_id r \<and>
      pr_provenance_json p = rr_provenance_json r \<and> pr_detail_json p = rr_detail_json r \<and>
      pr_occurred_at p = rr_occurred_at r)"

text \<open>A row whose JSON columns hold objects and whose digest matches them.\<close>

definition row_intact :: "(string \<Rightarrow> string) \<Rightarrow> review_row \<Rightarrow> bool" where
  "row_intact sha r =
     (\<exists>p d. json_object (rr_provenance_json r) = Inr p \<and> json_object (rr_detail_json r) = Inr d \<and>
        rr_content_digest r =
          review_content_digest sha (rr_target_id r) (rr_actor_id r) (rr_status r) p d)"

text \<open>One accepted event: a fresh row is appended and becomes the projection of its target.\<close>

definition event_appended :: "control_db \<Rightarrow> review_row \<Rightarrow> projection_row \<Rightarrow> control_db \<Rightarrow> bool" where
  "event_appended db r p db' =
     (rr_sequence r = next_sequence rr_sequence (review_events db) \<and>
      (\<forall>x \<in> set (review_events db). rr_event_id x \<noteq> rr_event_id r \<and>
         rr_idempotency_key x \<noteq> rr_idempotency_key r) \<and>
      row_of_projection r p \<and>
      review_events db' = review_events db @ [r] \<and>
      projections db' = projections (upsert_projection p db))"

inductive review_effect :: "(string \<Rightarrow> string) \<Rightarrow> control_db \<Rightarrow> control_db \<Rightarrow> bool"
  for sha db db' where
  idle: "review_events db' = review_events db \<Longrightarrow> projections db' = projections db \<Longrightarrow>
    review_effect sha db db'"
| ordinary: "\<not> is_candidate_review_target (rr_target_id r) \<Longrightarrow> event_appended db r p db' \<Longrightarrow>
    pr_version p = (case find_projection (rr_target_id r) db of None \<Rightarrow> 1 | Some q \<Rightarrow> pr_version q + 1) \<Longrightarrow>
    row_intact sha r \<Longrightarrow> review_effect sha db db'"
| guarded: "is_candidate_review_target (rr_target_id r) \<Longrightarrow> event_appended db r p db' \<Longrightarrow>
    current_candidate_state sha (rr_target_id r) db = Inr (state, version, event_id) \<Longrightarrow>
    legal_candidate_transition state (rr_status r) \<Longrightarrow> pr_version p = version + 1 \<Longrightarrow>
    row_intact sha r \<Longrightarrow> review_effect sha db db'"

section \<open>Inversion of the writers\<close>

lemma conflict_unless_Inr [flow]: "conflict_unless b = Inr u \<longleftrightarrow> b"
  by (simp add: conflict_unless_def flow)

lemma conflict_unless_simps [simp]:
  "conflict_unless True = Inr ()" "conflict_unless False = Inl ControlConflictError"
  by (simp_all add: conflict_unless_def)

lemma insert_review_event_Inr [flow]:
  "insert_review_event r db = Inr db' \<longleftrightarrow>
     (\<forall>x \<in> set (review_events db). rr_event_id r \<noteq> rr_event_id x \<and>
        rr_idempotency_key r \<noteq> rr_idempotency_key x) \<and>
     db' = db\<lparr>review_events := review_events db @ [r]\<rparr>"
  by (auto simp: insert_review_event_def bindE_Inr insert_row_Inr)

lemma event_row_at_Inr:
  "event_row_at n db = Inr r \<longleftrightarrow> find (\<lambda>r. rr_sequence r = n) (review_events db) = Some r"
  by (simp add: event_row_at_def split: option.splits)

lemma upsert_projection_simps [simp]:
  "review_events (upsert_projection p db) = review_events db"
  "jobs (upsert_projection p db) = jobs db" "lease_events (upsert_projection p db) = lease_events db"
  "projections (upsert_projection p (db\<lparr>review_events := es\<rparr>)) = projections (upsert_projection p db)"
  by (simp_all add: upsert_projection_def find_projection_def)

lemma find_projection_frame [simp]:
  "find_projection t (db\<lparr>review_events := es\<rparr>) = find_projection t db"
  by (simp add: find_projection_def)

lemma review_event_from_row_intact:
  "review_event_from_row sha r = Inr ev \<Longrightarrow> row_intact sha r"
  by (auto simp: review_event_from_row_def row_intact_def flow split: if_splits)

lemma control_audit_reviews:
  "control_audit aid audit db1 = Inr db2 \<Longrightarrow>
   review_events db2 = review_events db1 \<and> projections db2 = projections db1"
  by (simp add: control_audit_frame)

lemma control_audit_find_event:
  "control_audit aid audit db1 = Inr db2 \<Longrightarrow> event_row_at n db2 = event_row_at n db1"
  by (simp add: event_row_at_def control_audit_frame)

lemma append_review_event_effect:
  assumes "append_review_event sha target key actor status prov detail now audit eid aid db =
      Inr (ev, db')"
  shows "review_effect sha db db'"
proof (cases "find_event_by_key key db")
  case (Some existing)
  with assms show ?thesis
    by (auto simp: append_review_event_def bindE_Inr Let_def dest!: control_audit_reviews
        intro!: review_effect.idle split: if_splits)
next
  case None
  from assms obtain p d where pd: "json_object (canonical_json (JObj prov)) = Inr p"
    "json_object (canonical_json (JObj detail)) = Inr d"
    and target: "\<not> is_candidate_review_target target"
    by (auto simp: append_review_event_def bindE_Inr Let_def split: if_splits)
  from assms None pd target obtain us db1 db2 r
    where ins: "insert_review_event \<lparr>rr_sequence = next_sequence rr_sequence (review_events db),
        rr_event_id = eid, rr_target_id = target, rr_idempotency_key = key,
        rr_content_digest = review_content_digest sha target actor status p d,
        rr_actor_id = actor, rr_status = status, rr_provenance_json = canonical_json (JObj prov),
        rr_detail_json = canonical_json (JObj detail), rr_occurred_at = us\<rparr> db = Inr db1"
    and aud: "control_audit aid audit (upsert_projection
        \<lparr>pr_target_id = target, pr_status = status,
          pr_version = (case find_projection target db1 of None \<Rightarrow> 1 | Some q \<Rightarrow> pr_version q + 1),
          pr_last_event_id = eid, pr_actor_id = actor,
          pr_provenance_json = canonical_json (JObj prov),
          pr_detail_json = canonical_json (JObj detail), pr_occurred_at = us\<rparr> db1) = Inr db'"
    by (auto simp: append_review_event_def bindE_Inr Let_def split: if_splits)
  show ?thesis
    using ins aud target pd
    by (intro review_effect.ordinary [where r = "last (review_events db')" and
          p = "\<lparr>pr_target_id = target, pr_status = status,
          pr_version = (case find_projection target db of None \<Rightarrow> 1 | Some q \<Rightarrow> pr_version q + 1),
          pr_last_event_id = eid, pr_actor_id = actor,
          pr_provenance_json = canonical_json (JObj prov),
          pr_detail_json = canonical_json (JObj detail), pr_occurred_at = us\<rparr>"])
      (auto simp: insert_review_event_Inr event_appended_def row_of_projection_def row_intact_def
        dest!: control_audit_reviews)
qed

text \<open>What a prepared event is: its target is a candidate target of the right scope and status.\<close>

lemma drop_segment_suffix: "drop (length (a @ b) - length b) (a @ b) = b"
  by simp

lemma qualified_candidate_target:
  assumes "parse_candidate_target t \<noteq> None" and "qualify_scope_key key kind t = Inr q"
  shows "is_candidate_review_target q"
proof -
  have "length t = 128"
    using assms(1) by (auto simp: parse_candidate_target_def Let_def split: if_splits)
  moreover obtain a where "q = a @ t"
    using assms(2) by (auto simp: qualify_scope_key_def flow segment_def)
  ultimately show ?thesis
    using assms(1) by (simp add: is_candidate_review_target_def candidate_suffix_def)
qed

lemma prepare_candidate_fields:
  assumes "prepare_candidate_event q = Inr (v, evidence, t)"
  shows "\<exists>skill. parse_candidate_target (cv_review_target_id v) = Some (skill, cv_content_sha256 v) \<and>
    parse_publication_key (cv_publication_key v) = Some skill \<and> cv_skill_id v = skill"
    "scope_key (first_given (cq_scope q) (cq_server_scope q)) = Inr (cv_scope_key v)"
    "qualify_scope_key (cv_scope_key v) ''review_target'' (cv_review_target_id v) =
      Inr (cv_qualified_target v)"
    "candidate_idempotency_key (cv_scope_key v) (cq_idempotency_key q) (cq_qualified_key q) =
      Inr (cv_qualified_key v)"
    "cv_schema_version v = ''1.0''" "sha256_pattern (cv_content_sha256 v)"
    "sha256_pattern (cv_full_sha256 v)" "sha256_pattern (cv_source_result_sha256 v)"
    "cv_status v \<in> set review_statuses" "reviewer_id_pattern (cv_actor_id v)"
    "validate_reason (cq_reason q) ValueError = Inr ()"
    "(case cq_evidence q of None \<Rightarrow> Inr JNull | Some e \<Rightarrow> bounded_review_value e) = Inr evidence"
    "t = first_given (cq_occurred_at q) (cq_now q)"
    "cq_legacy_provenance q = None \<Longrightarrow> cv_legacy v = None"
proof -
  obtain target where T: "first_given (cq_review_target_id q) (cq_target_id q) = Some target"
    using assms by (cases "first_given (cq_review_target_id q) (cq_target_id q)")
      (auto simp: prepare_candidate_event_def bindE_Inr)
  obtain skill content where P: "parse_candidate_target target = Some (skill, content)"
    using assms T by (cases "parse_candidate_target target")
      (auto simp: prepare_candidate_event_def bindE_Inr)
  obtain status where S: "first_given (cq_status q) (cq_destination_status q) = Some status"
    using assms T P by (cases "first_given (cq_status q) (cq_destination_status q)")
      (auto simp: prepare_candidate_event_def bindE_Inr Let_def)
  note prep = assms [unfolded prepare_candidate_event_def T P S bindE_Inr Let_def
      option.case prod.case conflict_unless_Inr require_Inr forE_Inr require_sha256_def]
  show "\<exists>skill. parse_candidate_target (cv_review_target_id v) = Some (skill, cv_content_sha256 v) \<and>
    parse_publication_key (cv_publication_key v) = Some skill \<and> cv_skill_id v = skill"
    using prep P by auto
  show "scope_key (first_given (cq_scope q) (cq_server_scope q)) = Inr (cv_scope_key v)"
    "qualify_scope_key (cv_scope_key v) ''review_target'' (cv_review_target_id v) =
      Inr (cv_qualified_target v)"
    "candidate_idempotency_key (cv_scope_key v) (cq_idempotency_key q) (cq_qualified_key q) =
      Inr (cv_qualified_key v)"
    "cv_schema_version v = ''1.0''" "sha256_pattern (cv_content_sha256 v)"
    "sha256_pattern (cv_full_sha256 v)" "sha256_pattern (cv_source_result_sha256 v)"
    "cv_status v \<in> set review_statuses" "reviewer_id_pattern (cv_actor_id v)"
    "validate_reason (cq_reason q) ValueError = Inr ()"
    "(case cq_evidence q of None \<Rightarrow> Inr JNull | Some e \<Rightarrow> bounded_review_value e) = Inr evidence"
    "t = first_given (cq_occurred_at q) (cq_now q)"
    "cq_legacy_provenance q = None \<Longrightarrow> cv_legacy v = None"
    using prep by auto
qed

lemma prepare_candidate_target:
  assumes "prepare_candidate_event q = Inr (v, evidence, t)"
  shows "is_candidate_review_target (cv_qualified_target v)"
  using prepare_candidate_fields(1,3) [OF assms] qualified_candidate_target by blast

lemma append_candidate_review_event_effect:
  assumes "append_candidate_review_event sha q clock audit eid aid db = Inr (ev, db')"
    and seq: "sequence_ok rr_sequence (review_events db)"
  shows "review_effect sha db db'"
proof -
  from assms(1) obtain v evidence t where prep: "prepare_candidate_event q = Inr (v, evidence, t)"
    by (auto simp: append_candidate_review_event_def bindE_Inr)
  note target = prepare_candidate_target [OF prep]
  show ?thesis
  proof (cases "find_event_by_key (cv_qualified_key v) db")
    case (Some existing)
    with assms(1) prep have "db' = db"
      by (auto simp: append_candidate_review_event_def bindE_Inr)
    then show ?thesis by (simp add: review_effect.idle)
  next
    case None
    from assms(1) prep None obtain state version event_id dg pj dj us db1 r
      where cur: "current_candidate_state sha (cv_qualified_target v) db = Inr (state, version, event_id)"
      and legal: "legal_candidate_transition state (cv_status v)"
      and ins: "insert_review_event \<lparr>rr_sequence = next_sequence rr_sequence (review_events db),
          rr_event_id = eid, rr_target_id = cv_qualified_target v,
          rr_idempotency_key = cv_qualified_key v, rr_content_digest = dg,
          rr_actor_id = cv_actor_id v, rr_status = cv_status v, rr_provenance_json = pj,
          rr_detail_json = dj, rr_occurred_at = us\<rparr> db = Inr db1"
      and aud: "control_audit aid audit (upsert_projection
          \<lparr>pr_target_id = cv_qualified_target v, pr_status = cv_status v, pr_version = version + 1,
           pr_last_event_id = eid, pr_actor_id = cv_actor_id v, pr_provenance_json = pj,
           pr_detail_json = dj, pr_occurred_at = us\<rparr> db1) = Inr db'"
      and row: "event_row_at (next_sequence rr_sequence (review_events db)) db' = Inr r"
      and ev: "review_event_from_row sha r = Inr ev"
      by (auto simp: append_candidate_review_event_def bindE_Inr Let_def conflict_unless_Inr)
    let ?r = "\<lparr>rr_sequence = next_sequence rr_sequence (review_events db),
          rr_event_id = eid, rr_target_id = cv_qualified_target v,
          rr_idempotency_key = cv_qualified_key v, rr_content_digest = dg,
          rr_actor_id = cv_actor_id v, rr_status = cv_status v, rr_provenance_json = pj,
          rr_detail_json = dj, rr_occurred_at = us\<rparr>"
    have events: "review_events db' = review_events db @ [?r]"
      using ins control_audit_reviews [OF aud] by (simp add: insert_review_event_Inr)
    have "r = ?r"
      using row find_last_sequence [OF seq, of ?r] by (simp add: event_row_at_Inr events)
    then have intact: "row_intact sha ?r"
      using ev review_event_from_row_intact by blast
    show ?thesis
      by (rule review_effect.guarded [where r = ?r and state = state and version = version and
            event_id = event_id and p = "\<lparr>pr_target_id = cv_qualified_target v,
             pr_status = cv_status v, pr_version = version + 1,
             pr_last_event_id = eid, pr_actor_id = cv_actor_id v, pr_provenance_json = pj,
             pr_detail_json = dj, pr_occurred_at = us\<rparr>"])
        (use target cur legal ins intact events control_audit_reviews [OF aud] in
          \<open>auto simp: insert_review_event_Inr event_appended_def row_of_projection_def\<close>)
  qed
qed

section \<open>The ledger as a transition system\<close>

inductive review_step :: "(string \<Rightarrow> string) \<Rightarrow> control_db \<Rightarrow> control_db \<Rightarrow> bool" for sha db db' where
  ordinary_step: "db' = snd (transaction (append_review_event sha target key actor status prov detail
    now audit eid aid) db) \<Longrightarrow> review_step sha db db'"
| candidate_step: "db' = snd (transaction (append_candidate_review_event sha q clock audit eid aid)
    db) \<Longrightarrow> review_step sha db db'"

fun legal_chain :: "string \<Rightarrow> string list \<Rightarrow> bool" where
  "legal_chain s [] = True"
| "legal_chain s (x # xs) = (legal_candidate_transition s x \<and> legal_chain x xs)"

definition last_status :: "string \<Rightarrow> string list \<Rightarrow> string" where
  "last_status s xs = (if xs = [] then s else last xs)"

text \<open>The projection of a target is the fold of its events.\<close>

definition projection_wf :: "control_db \<Rightarrow> string \<Rightarrow> bool" where
  "projection_wf db t =
     (case find_projection t db of
        None \<Rightarrow> target_events t db = []
      | Some p \<Rightarrow> target_events t db \<noteq> [] \<and> row_of_projection (last (target_events t db)) p \<and>
          pr_version p = length (target_events t db))"

definition review_wf :: "(string \<Rightarrow> string) \<Rightarrow> control_db \<Rightarrow> bool" where
  "review_wf sha db =
     (sequence_ok rr_sequence (review_events db) \<and>
      distinct (map rr_event_id (review_events db)) \<and>
      distinct (map rr_idempotency_key (review_events db)) \<and>
      (\<forall>r \<in> set (review_events db). row_intact sha r) \<and>
      (\<forall>t. projection_wf db t) \<and>
      (\<forall>t. is_candidate_review_target t \<longrightarrow>
         legal_chain ''unreviewed'' (map rr_status (target_events t db))))"

lemma legal_chain_append:
  "legal_chain s (xs @ [x]) \<longleftrightarrow> legal_chain s xs \<and> legal_candidate_transition (last_status s xs) x"
  by (induction s xs rule: legal_chain.induct) (auto simp: last_status_def)

lemma find_projection_upsert:
  "find_projection t (upsert_projection p db) =
     (if t = pr_target_id p then Some p else find_projection t db)"
proof -
  have upd: "find (\<lambda>r. pr_target_id r = t)
      (update_where (\<lambda>r. pr_target_id r = pr_target_id p) (\<lambda>_. p) ps) =
    (if t = pr_target_id p \<and> find (\<lambda>r. pr_target_id r = t) ps \<noteq> None then Some p
     else find (\<lambda>r. pr_target_id r = t) ps)" for ps
    by (induction ps) auto
  show ?thesis
    using upd by (auto simp: upsert_projection_def find_projection_def find_append
        split: option.splits)
qed

lemma find_projection_cong: "projections db' = projections db \<Longrightarrow> find_projection t db' = find_projection t db"
  by (simp add: find_projection_def)

lemma target_events_cong: "review_events db' = review_events db \<Longrightarrow> target_events t db' = target_events t db"
  by (simp add: target_events_def)

lemma event_appended_target:
  assumes "event_appended db r p db'"
  shows "target_events t db' = (if t = rr_target_id r then target_events t db @ [r] else target_events t db)"
    "find_projection t db' = (if t = rr_target_id r then Some p else find_projection t db)"
proof -
  show "target_events t db' = (if t = rr_target_id r then target_events t db @ [r] else target_events t db)"
    using assms by (simp add: event_appended_def target_events_def)
  have "find_projection t db' = find_projection t (upsert_projection p db)"
    using assms by (intro find_projection_cong) (simp add: event_appended_def)
  then show "find_projection t db' = (if t = rr_target_id r then Some p else find_projection t db)"
    using assms by (simp add: find_projection_upsert event_appended_def row_of_projection_def)
qed

lemma current_state_wf:
  assumes "projection_wf db t" and "current_candidate_state sha t db = Inr (state, version, event_id)"
  shows "version = length (target_events t db)"
    "state = last_status ''unreviewed'' (map rr_status (target_events t db))"
    "event_id = (if target_events t db = [] then None else Some (rr_event_id (last (target_events t db))))"
  using assms
  by (auto simp: current_candidate_state_def projection_wf_def bindE_Inr last_status_def last_map
      row_of_projection_def Let_def split: option.splits if_splits)

lemma event_appended_wf:
  assumes "event_appended db r p db'" and wf: "review_wf sha db" and "row_intact sha r"
    and version: "pr_version p = Suc (length (target_events (rr_target_id r) db))"
    and chain: "is_candidate_review_target (rr_target_id r) \<Longrightarrow>
      legal_candidate_transition
        (last_status ''unreviewed'' (map rr_status (target_events (rr_target_id r) db))) (rr_status r)"
  shows "review_wf sha db'"
proof -
  note target = event_appended_target [OF assms(1)]
  have "projection_wf db' t" for t
  proof -
    have "projection_wf db t" using wf by (simp add: review_wf_def)
    then show ?thesis
      using version assms(1) target [of t]
      by (cases "t = rr_target_id r")
        (simp_all add: projection_wf_def event_appended_def split: option.splits)
  qed
  moreover have "is_candidate_review_target t \<Longrightarrow>
      legal_chain ''unreviewed'' (map rr_status (target_events t db'))" for t
    using wf chain target(1) [of t] by (auto simp: review_wf_def legal_chain_append)
  moreover have "sequence_ok rr_sequence (review_events db')"
    "distinct (map rr_event_id (review_events db'))"
    "distinct (map rr_idempotency_key (review_events db'))"
    "\<forall>r \<in> set (review_events db'). row_intact sha r"
    using wf assms(1,3) by (auto simp: review_wf_def event_appended_def sequence_ok_append)
  ultimately show ?thesis by (simp add: review_wf_def)
qed

lemma review_effect_wf:
  assumes "review_effect sha db db'" and wf: "review_wf sha db"
  shows "review_wf sha db'"
  using assms(1)
proof cases
  case idle
  have same: "target_events t db' = target_events t db" "projection_wf db' t = projection_wf db t" for t
    using target_events_cong [OF idle(1)] find_projection_cong [OF idle(2)]
    by (simp_all add: projection_wf_def split: option.splits)
  show ?thesis using wf unfolding review_wf_def same idle(1) .
next
  case (ordinary r p)
  have "projection_wf db (rr_target_id r)" using wf by (simp add: review_wf_def)
  then have "pr_version p = Suc (length (target_events (rr_target_id r) db))"
    using ordinary(3) by (auto simp: projection_wf_def split: option.splits)
  with ordinary wf show ?thesis by (intro event_appended_wf [of db r p db']) simp_all
next
  case (guarded r p state version event_id)
  have "projection_wf db (rr_target_id r)" using wf by (simp add: review_wf_def)
  note state = current_state_wf [OF this guarded(3)]
  show ?thesis
    by (rule event_appended_wf [OF guarded(2) wf guarded(6)])
      (use guarded(4,5) state in simp_all)
qed

lemma review_step_effect:
  assumes "review_step sha db db'" and "review_wf sha db"
  shows "review_effect sha db db'"
  using assms
proof cases
  case (ordinary_step target key actor status prov detail now audit eid aid)
  then show ?thesis
    by (auto simp: transaction_def review_effect.idle dest: append_review_event_effect split: sum.splits)
next
  case (candidate_step q clock audit eid aid)
  with assms(2) show ?thesis
    by (auto simp: transaction_def review_effect.idle review_wf_def
        dest: append_candidate_review_event_effect split: sum.splits)
qed

lemma review_effect_log: "review_effect sha db db' \<Longrightarrow> prefix (review_events db) (review_events db')"
  by (induction rule: review_effect.induct) (auto simp: event_appended_def)

lemma review_wf_empty [simp]: "review_wf sha empty_db"
  by (simp add: review_wf_def empty_db_def projection_wf_def find_projection_def target_events_def)

interpretation review_table: invariant_system "\<lambda>db. db = empty_db" "review_step sha" "review_wf sha"
  for sha
  by unfold_locales (auto intro: review_effect_wf dest: review_step_effect)

definition wf_review_step :: "(string \<Rightarrow> string) \<Rightarrow> control_db \<Rightarrow> control_db \<Rightarrow> bool" where
  "wf_review_step sha db db' = (review_wf sha db \<and> review_step sha db db')"

interpretation review_log: append_only_log "wf_review_step sha" review_events for sha
  by unfold_locales (auto simp: wf_review_step_def dest!: review_step_effect intro: review_effect_log)

lemma review_steps_wf: "(review_step sha)\<^sup>*\<^sup>* db db' \<Longrightarrow> review_wf sha db \<Longrightarrow> review_wf sha db'"
  using review_table.steps_inv .

lemma review_steps_log:
  "(review_step sha)\<^sup>*\<^sup>* db db' \<Longrightarrow> review_wf sha db \<Longrightarrow> prefix (review_events db) (review_events db')"
proof (induction rule: rtranclp_induct)
  case (step y z)
  then have "prefix (review_events y) (review_events z)"
    using review_effect_log [OF review_step_effect] review_steps_wf by blast
  with step show ?case using prefix_order.trans by blast
qed simp

text \<open>The stored row of an accepted ordinary event.\<close>

lemma append_review_event_stored:
  assumes "append_review_event sha t k a s prov detail now audit eid aid db = Inr (ev, db')"
    and seq: "sequence_ok rr_sequence (review_events db)"
  shows "\<exists>r p d. find_event_by_key k db' = Some r \<and> review_event_from_row sha r = Inr ev \<and>
    json_object (canonical_json (JObj prov)) = Inr p \<and>
    json_object (canonical_json (JObj detail)) = Inr d \<and>
    rr_content_digest r = review_content_digest sha t a s p d"
proof (cases "find_event_by_key k db")
  case (Some r)
  with assms(1) show ?thesis
    by (auto simp: append_review_event_def bindE_Inr Let_def find_event_by_key_def
        dest!: control_audit_reviews split: if_splits)
next
  case None
  from assms(1) obtain p d where pd: "json_object (canonical_json (JObj prov)) = Inr p"
    "json_object (canonical_json (JObj detail)) = Inr d"
    and target: "\<not> is_candidate_review_target t"
    by (auto simp: append_review_event_def bindE_Inr Let_def split: if_splits)
  from assms(1) None pd target obtain us db1 q r
    where ins: "insert_review_event \<lparr>rr_sequence = next_sequence rr_sequence (review_events db),
        rr_event_id = eid, rr_target_id = t, rr_idempotency_key = k,
        rr_content_digest = review_content_digest sha t a s p d,
        rr_actor_id = a, rr_status = s, rr_provenance_json = canonical_json (JObj prov),
        rr_detail_json = canonical_json (JObj detail), rr_occurred_at = us\<rparr> db = Inr db1"
    and row: "event_row_at (next_sequence rr_sequence (review_events db))
        (upsert_projection q db1) = Inr r"
    and aud: "control_audit aid audit (upsert_projection q db1) = Inr db'"
    and ev: "review_event_from_row sha r = Inr ev"
    by (auto simp: append_review_event_def bindE_Inr Let_def split: if_splits)
  let ?r = "\<lparr>rr_sequence = next_sequence rr_sequence (review_events db),
        rr_event_id = eid, rr_target_id = t, rr_idempotency_key = k,
        rr_content_digest = review_content_digest sha t a s p d,
        rr_actor_id = a, rr_status = s, rr_provenance_json = canonical_json (JObj prov),
        rr_detail_json = canonical_json (JObj detail), rr_occurred_at = us\<rparr>"
  have events: "review_events db1 = review_events db @ [?r]" "review_events db' = review_events db1"
    using ins control_audit_reviews [OF aud] by (auto simp: insert_review_event_Inr)
  have "r = ?r"
    using row find_last_sequence [OF seq, of ?r] by (simp add: event_row_at_Inr events)
  moreover have "find_event_by_key k db' = Some ?r"
    using None by (simp add: find_event_by_key_def events find_append)
  ultimately show ?thesis using ev pd by auto
qed

section \<open>Properties\<close>

text \<open>C6: in every reachable state the projection of each target, candidate or not, is the fold of its
  append-only events (status, version, last event), and the events of a candidate target follow the legal
  transitions from \<open>unreviewed\<close>, so no candidate history has two decisions or a decision without a legal
  predecessor.\<close>

theorem candidate_history_is_legal:
  assumes "(review_step sha)\<^sup>*\<^sup>* empty_db db"
  shows "(is_candidate_review_target t \<longrightarrow>
      legal_chain ''unreviewed'' (map rr_status (target_events t db))) \<and>
    (case find_projection t db of
       None \<Rightarrow> target_events t db = []
     | Some p \<Rightarrow> target_events t db \<noteq> [] \<and> row_of_projection (last (target_events t db)) p \<and>
         pr_version p = length (target_events t db))"
  using review_table.reachable_inv [OF refl assms]
  by (simp add: review_wf_def projection_wf_def)

text \<open>C7: a decision on a candidate is final. Once the projection says approved, rejected or
  needs_changes, no call of either writer adds an event to that target or changes its
  projection.\<close>

theorem candidate_decision_is_final:
  assumes "(review_step sha)\<^sup>*\<^sup>* empty_db db" and "(review_step sha)\<^sup>*\<^sup>* db db'"
    and "is_candidate_review_target t" and "find_projection t db = Some p"
    and "pr_status p \<in> {''approved'', ''rejected'', ''needs_changes''}"
  shows "target_events t db' = target_events t db \<and> find_projection t db' = Some p"
  using assms(2)
proof (induction rule: rtranclp_induct)
  case (step y z)
  have wf: "review_wf sha y"
    using review_steps_wf [OF step(1)] review_table.reachable_inv [OF refl assms(1)] by simp
  from review_step_effect [OF step(2) wf] show ?case
  proof cases
    case idle
    with step.IH target_events_cong find_projection_cong show ?thesis by metis
  next
    case (ordinary r q)
    with step.IH assms(3) event_appended_target [OF ordinary(2), of t] show ?thesis by auto
  next
    case (guarded r q state version event_id)
    have "state = pr_status p" if "rr_target_id r = t"
      using guarded(3) step.IH that
      by (auto simp: current_candidate_state_def bindE_Inr Let_def split: if_splits)
    then have "rr_target_id r \<noteq> t"
      using guarded(4) assms(5) by (auto simp: legal_candidate_transition_def)
    with step.IH event_appended_target [OF guarded(2), of t] show ?thesis by auto
  qed
qed (use assms(4) in simp)

text \<open>The ordinary writer is idempotent. Whatever happens after an event is accepted, a retry
  with the same key and content returns that same event and writes nothing, and a call that reuses
  the key with any content either returns that event or fails; it never adds another.\<close>

theorem review_retry_is_idempotent:
  assumes "(review_step sha)\<^sup>*\<^sup>* empty_db db"
    and "append_review_event sha t k a s prov detail now audit eid aid db = Inr (ev, db1)"
    and "(review_step sha)\<^sup>*\<^sup>* db1 db2" and "to_micros now' = Inr us"
  shows "append_review_event sha t k a s prov detail now' None eid' aid' db2 = Inr (ev, db2) \<and>
    (case append_review_event sha t2 k a2 s2 prov2 detail2 now' audit2 eid' aid' db2 of
       Inl e \<Rightarrow> True | Inr (ev2, db3) \<Rightarrow> ev2 = ev \<and> review_events db3 = review_events db2)"
proof -
  have wf: "review_wf sha db" using review_table.reachable_inv [OF refl assms(1)] .
  then have wf1: "review_wf sha db1"
    using append_review_event_effect [OF assms(2)] review_effect_wf by blast
  obtain r p d where r: "find_event_by_key k db1 = Some r" "review_event_from_row sha r = Inr ev"
    and pd: "json_object (canonical_json (JObj prov)) = Inr p"
      "json_object (canonical_json (JObj detail)) = Inr d"
    and digest: "rr_content_digest r = review_content_digest sha t a s p d"
    using append_review_event_stored [OF assms(2)] wf by (auto simp: review_wf_def)
  have found: "find_event_by_key k db2 = Some r"
    using r(1) review_steps_log [OF assms(3) wf1]
    by (auto simp: find_event_by_key_def prefix_def find_append)
  have "append_review_event sha t k a s prov detail now' None eid' aid' db2 = Inr (ev, db2)"
    using assms(2,4) r pd digest found
    by (auto simp: append_review_event_def bindE_Inr Let_def split: if_splits)
  moreover have "case append_review_event sha t2 k a2 s2 prov2 detail2 now' audit2 eid' aid' db2 of
      Inl e \<Rightarrow> True | Inr (ev2, db3) \<Rightarrow> ev2 = ev \<and> review_events db3 = review_events db2"
    using r found
    by (auto simp: append_review_event_def bindE_Inr Let_def dest!: control_audit_reviews
        split: sum.splits if_splits)
  ultimately show ?thesis by simp
qed

end
