(* ===== verification/Retention_Ledger.thy ===== *)
theory Retention_Ledger
  imports Retention_Tables
begin

text \<open>
  What the retention ledger promises: its contract as an effect relation that every operation
  refines, the ledger as a transition system, and its invariant, which says that the rows are the
  fold of the immutable events and that no copy leaves the active state before its expiry or under
  a legal hold.
\<close>

section \<open>Lookups\<close>

lemma retention_frame [simp]:
  "find_target t (db\<lparr>retention_events := es\<rparr>) = find_target t db"
  "find_target t (db\<lparr>retention_audits := as\<rparr>) = find_target t db"
  "find_target t (db\<lparr>copies := cs\<rparr>) = find_target t db"
  "find_target t (update_copy a b g db) = find_target t db"
  "find_copy t c (db\<lparr>retention_events := es\<rparr>) = find_copy t c db"
  "find_copy t c (db\<lparr>retention_audits := as\<rparr>) = find_copy t c db"
  "find_copy t c (db\<lparr>targets := ts\<rparr>) = find_copy t c db"
  "find_copy t c (update_target a f db) = find_copy t c db"
  "retention_events (update_target a f db) = retention_events db"
  "retention_events (update_copy a b g db) = retention_events db"
  "copies (update_target a f db) = copies db" "targets (update_copy a b g db) = targets db"
  by (simp_all add: find_target_def find_copy_def update_target_def update_copy_def)

lemma find_target_cong: "targets db' = targets db \<Longrightarrow> find_target t db' = find_target t db"
  by (simp add: find_target_def)

lemma find_copy_cong: "copies db' = copies db \<Longrightarrow> find_copy t c db' = find_copy t c db"
  by (simp add: find_copy_def)

lemma find_target_update:
  assumes "\<And>r. tg_id (f r) = tg_id r"
  shows "find_target t (update_target a f db) =
    (if t = a then map_option f (find_target t db) else find_target t db)"
  using assms by (simp add: find_target_def update_target_def find_update_where_key)

lemma find_copy_update:
  assumes "\<And>k. cp_target (g k) = cp_target k" and "\<And>k. cp_id (g k) = cp_id k"
  shows "find_copy t c (update_copy a b g db) =
    (if (t, c) = (a, b) then map_option g (find_copy t c db) else find_copy t c db)"
  unfolding find_copy_def update_copy_def
  using find_update_where_key [of "\<lambda>k. (cp_target k, cp_id k)" g "(t, c)" "(a, b)" "copies db"] assms
  by simp

lemma find_target_Some: "find_target t db = Some r \<Longrightarrow> r \<in> set (targets db) \<and> tg_id r = t"
  unfolding find_target_def by (drule find_SomeD)

lemma find_copy_Some:
  "find_copy t c db = Some k \<Longrightarrow> k \<in> set (copies db) \<and> cp_target k = t \<and> cp_id k = c"
  unfolding find_copy_def by (drule find_SomeD) simp

lemma target_row_Inr [flow]: "target_row t db = Inr r \<longleftrightarrow> find_target t db = Some r"
  by (simp add: target_row_def split: option.splits)

lemma copy_row_Inr [flow]: "copy_row t c db = Inr k \<longleftrightarrow> find_copy t c db = Some k"
  by (simp add: copy_row_def split: option.splits)

lemma require_not_held_or_completed_Inr [flow]:
  "require_not_held_or_completed r = Inr u \<longleftrightarrow> \<not> tg_hold r \<and> tg_completed_at r = None"
  by (auto simp: require_not_held_or_completed_def)

section \<open>The contract\<close>

definition event_added :: "retention_db \<Rightarrow> retention_row \<Rightarrow> retention_db \<Rightarrow> bool" where
  "event_added db e db' =
     (retention_events db' = retention_events db @ [e] \<and>
      vr_sequence e = next_sequence vr_sequence (retention_events db) \<and>
      (\<forall>x \<in> set (retention_events db). vr_event_id x \<noteq> vr_event_id e \<and> vr_key x \<noteq> vr_key e))"

definition fresh_target :: "target_row \<Rightarrow> bool" where
  "fresh_target r = (\<not> tg_hold r \<and> tg_hold_reason r = None \<and> tg_completed_at r = None \<and>
     tg_created_at r < tg_expires_at r)"

definition deletion_row :: "int \<Rightarrow> string \<Rightarrow> copy_row \<Rightarrow> copy_row" where
  "deletion_row us receipt k =
     k\<lparr>cp_state := CopyDeleted, cp_deleted_at := Some us, cp_receipt := Some receipt\<rparr>"

definition staged_row :: "int \<Rightarrow> copy_row \<Rightarrow> copy_row" where
  "staged_row us k = k\<lparr>cp_state := TrashStaged, cp_staged_at := Some us\<rparr>"

definition all_deleted :: "string \<Rightarrow> retention_db \<Rightarrow> bool" where
  "all_deleted t db = (\<forall>k \<in> set (copies db). cp_target k = t \<longrightarrow> cp_state k = CopyDeleted)"

inductive retention_effect :: "retention_db \<Rightarrow> retention_db \<Rightarrow> bool" for db db' where
  idle: "targets db' = targets db \<Longrightarrow> copies db' = copies db \<Longrightarrow>
    retention_events db' = retention_events db \<Longrightarrow> retention_effect db db'"
| register: "event_added db e db' \<Longrightarrow> vr_type e = TargetRegistered \<Longrightarrow> vr_target e = tg_id r \<Longrightarrow>
    vr_copy e = None \<Longrightarrow> find_target (tg_id r) db = None \<Longrightarrow> fresh_target r \<Longrightarrow>
    targets db' = targets db @ [r] \<Longrightarrow> cs \<noteq> [] \<Longrightarrow>
    copies db' = copies db @ map (new_copy_row (tg_id r)) cs \<Longrightarrow> distinct (map rc_id cs) \<Longrightarrow>
    retention_effect db db'"
| hold: "event_added db e db' \<Longrightarrow> vr_type e = (if h then HoldPlaced else HoldReleased) \<Longrightarrow>
    vr_target e = t \<Longrightarrow> vr_copy e = None \<Longrightarrow> find_target t db = Some r \<Longrightarrow>
    tg_completed_at r = None \<Longrightarrow> tg_hold r \<noteq> h \<Longrightarrow> (why \<noteq> None \<longleftrightarrow> h) \<Longrightarrow>
    targets db' = targets (update_target t
      (\<lambda>r. r\<lparr>tg_hold := h, tg_hold_reason := why, tg_updated_at := us\<rparr>) db) \<Longrightarrow>
    copies db' = copies db \<Longrightarrow> retention_effect db db'"
| stage: "event_added db e db' \<Longrightarrow> vr_type e = CopyStaged \<Longrightarrow> vr_target e = t \<Longrightarrow>
    vr_copy e = Some c \<Longrightarrow> vr_occurred_at e = us \<Longrightarrow> find_target t db = Some r \<Longrightarrow>
    \<not> tg_hold r \<Longrightarrow> tg_completed_at r = None \<Longrightarrow> tg_expires_at r \<le> us \<Longrightarrow>
    find_copy t c db = Some k \<Longrightarrow> cp_state k = CopyActive \<Longrightarrow>
    targets db' = targets (update_target t (\<lambda>r. r\<lparr>tg_updated_at := us\<rparr>) db) \<Longrightarrow>
    copies db' = copies (update_copy t c (staged_row us) db) \<Longrightarrow> retention_effect db db'"
| attest: "event_added db e db' \<Longrightarrow> vr_type e = DeletionAttested \<Longrightarrow> vr_target e = t \<Longrightarrow>
    vr_copy e = Some c \<Longrightarrow> find_target t db = Some r \<Longrightarrow> \<not> tg_hold r \<Longrightarrow>
    tg_completed_at r = None \<Longrightarrow> find_copy t c db = Some k \<Longrightarrow> cp_state k = TrashStaged \<Longrightarrow>
    copies db' = copies (update_copy t c (deletion_row us receipt) db) \<Longrightarrow>
    targets db' = targets (update_target t (\<lambda>r. r\<lparr>tg_completed_at :=
      (case tg_completed_at r of None \<Rightarrow> (if all_deleted t db' then Some us else None)
       | Some x \<Rightarrow> Some x), tg_updated_at := us\<rparr>) db) \<Longrightarrow> retention_effect db db'"

section \<open>The operations refine it\<close>

lemma audited_state_frame:
  assumes "audited_state t aid audit db = Inr (s, db')"
  shows "targets db' = targets db" "copies db' = copies db"
    "retention_events db' = retention_events db"
  using assms by (auto simp: audited_state_def retention_audit_def bindE_Inr)

lemma audited_state_effect: "audited_state t aid audit db = Inr (s, db') \<Longrightarrow> retention_effect db db'"
  by (rule idle) (simp_all add: audited_state_frame)

lemma append_retention_event_Inr:
  "append_retention_event eid t c key digest actor ty detail us db = Inr db' \<longleftrightarrow>
     (\<exists>e. event_added db e db' \<and> db' = db\<lparr>retention_events := retention_events db @ [e]\<rparr> \<and>
       e = \<lparr>vr_sequence = next_sequence vr_sequence (retention_events db), vr_event_id = eid,
        vr_target = t, vr_copy = c, vr_key = key, vr_digest = digest, vr_actor = actor,
        vr_type = ty, vr_detail_json = canonical_json (JObj detail), vr_occurred_at = us\<rparr>)"
  by (auto simp: append_retention_event_def bindE_Inr insert_row_Inr event_added_def)

lemma insert_copies_fresh:
  "insert_copies t cs tbl = Inr tbl' \<Longrightarrow> c \<in> set cs \<Longrightarrow> x \<in> set tbl \<Longrightarrow>
   \<not> (cp_target x = t \<and> cp_id x = rc_id c)"
proof (induction cs arbitrary: tbl)
  case (Cons a cs)
  from Cons.prems(1) have ins: "insert_copies t cs (tbl @ [new_copy_row t a]) = Inr tbl'"
    and new: "\<forall>x \<in> set tbl. \<not> (cp_target x = t \<and> cp_id x = rc_id a)"
    by (auto simp: bindE_Inr insert_row_Inr new_copy_row_def)
  from Cons.IH [OF ins] Cons.prems(2,3) new show ?case by auto
qed simp

lemma insert_copies_Inr:
  "insert_copies t cs tbl = Inr tbl' \<Longrightarrow>
     tbl' = tbl @ map (new_copy_row t) cs \<and> distinct (map rc_id cs)"
proof (induction cs arbitrary: tbl)
  case (Cons c cs)
  from Cons.prems have ins: "insert_copies t cs (tbl @ [new_copy_row t c]) = Inr tbl'"
    by (auto simp: bindE_Inr insert_row_Inr)
  have "rc_id c \<notin> rc_id ` set cs"
  proof
    assume "rc_id c \<in> rc_id ` set cs"
    then obtain d where "d \<in> set cs" "rc_id d = rc_id c" by auto
    with insert_copies_fresh [OF ins, of d "new_copy_row t c"] show False
      by (simp add: new_copy_row_def)
  qed
  with Cons.IH [OF ins] show ?case by simp
qed simp

lemma canonicalize_copies_nonempty: "canonicalize_copies raws = Inr cs \<Longrightarrow> cs \<noteq> []"
proof -
  assume "canonicalize_copies raws = Inr cs"
  then obtain ds where "raws \<noteq> []" "canonicalize_loop [] raws = Inr ds" "cs = sort_key rc_id ds"
    by (auto simp: canonicalize_copies_def bindE_Inr require_Inr)
  then have "ds \<noteq> []" by (cases raws) (auto simp: bindE_Inr)
  with \<open>cs = sort_key rc_id ds\<close> show ?thesis by (metis length_0_conv length_sort)
qed

lemma register_target_effect:
  assumes "register_target sha t raws key actor now audit eid aid db = Inr (s, db')"
  shows "retention_effect db db'"
proof -
  from assms obtain cs created expires where cs: "canonicalize_copies raws = Inr cs"
    and created: "to_micros now = Inr created"
    and expires: "plus_us now (seconds (retention_days * 86400)) = Inr expires"
    by (auto simp: register_target_def bindE_Inr)
  let ?detail = "[(''copies'', JArr (map copy_json cs)), (''retention_days'', JInt retention_days)]"
  let ?digest = "content_digest sha t None actor TargetRegistered ?detail"
  show ?thesis
  proof (cases "idempotent_replay key ?digest db = Inr True")
    case True
    with assms cs created expires have "audited_state t aid audit db = Inr (s, db')"
      by (auto simp: register_target_def bindE_Inr Let_def)
    then show ?thesis by (rule audited_state_effect)
  next
    case False
    with assms cs created expires obtain us tgs cps db1
      where new: "find_target t db = None" and later: "created < us"
      and tgs: "tgs = targets db @ [\<lparr>tg_id = t, tg_created_by = actor, tg_created_at = created,
          tg_expires_at = us, tg_hold = False, tg_hold_reason = None, tg_completed_at = None,
          tg_updated_at = created\<rparr>]"
      and cps: "insert_copies t cs (copies db) = Inr cps"
      and ev: "append_retention_event eid t None key ?digest actor TargetRegistered ?detail created
         (db\<lparr>targets := tgs, copies := cps\<rparr>) = Inr db1"
      and res: "audited_state t aid audit db1 = Inr (s, db')"
      by (auto simp: register_target_def bindE_Inr Let_def require_Inr insert_row_Inr
          split: if_splits)
    from ev obtain e where e: "event_added (db\<lparr>targets := tgs, copies := cps\<rparr>) e db1"
      "db1 = db\<lparr>targets := tgs, copies := cps, retention_events := retention_events db @ [e]\<rparr>"
      "vr_type e = TargetRegistered" "vr_target e = t" "vr_copy e = None"
      by (auto simp: append_retention_event_Inr)
    have "event_added db e db'"
      using e audited_state_frame [OF res] by (simp add: event_added_def)
    then show ?thesis
      by (rule register [where cs = cs and r = "last tgs"])
        (use e new later tgs audited_state_frame [OF res] insert_copies_Inr [OF cps]
          canonicalize_copies_nonempty [OF cs] in \<open>simp_all add: fresh_target_def\<close>)
  qed
qed

lemma set_legal_hold_effect:
  assumes "set_legal_hold sha t h reason key actor now audit eid aid db = Inr (s, db')"
  shows "retention_effect db db'"
proof -
  let ?ty = "if h then HoldPlaced else HoldReleased"
  let ?det = "\<lambda>why. [(''hold'', JBool h), (''reason'', case why of None \<Rightarrow> JNull | Some x \<Rightarrow> JStr x)]"
  from assms obtain why us where why: "(if h then
        bindE (require_bounded_text (case reason of None \<Rightarrow> [] | Some x \<Rightarrow> x)) (\<lambda>_.
        Inr (map_option strip reason))
      else bindE (require (reason = None) ValueError) (\<lambda>_. Inr None)) = Inr why"
    and us: "to_micros now = Inr us"
    by (auto simp: set_legal_hold_def bindE_Inr Let_def)
  have present: "why \<noteq> None \<longleftrightarrow> h"
    using why by (auto simp: bindE_Inr require_bounded_text_def require_text_def require_Inr
        split: if_splits option.splits)
  let ?digest = "content_digest sha t None actor ?ty (?det why)"
  show ?thesis
  proof (cases "idempotent_replay key ?digest db = Inr True")
    case True
    with assms why us have "audited_state t aid audit db = Inr (s, db')"
      by (auto simp: set_legal_hold_def bindE_Inr Let_def simp del: if_split_asm)
    then show ?thesis by (rule audited_state_effect)
  next
    case False
    with assms why us obtain r db1
      where r: "find_target t db = Some r" "tg_completed_at r = None" "tg_hold r \<noteq> h"
      and ev: "append_retention_event eid t None key ?digest actor ?ty (?det why) us
         (update_target t (\<lambda>r. r\<lparr>tg_hold := h, tg_hold_reason := why, tg_updated_at := us\<rparr>) db) =
         Inr db1"
      and res: "audited_state t aid audit db1 = Inr (s, db')"
      by (auto simp: set_legal_hold_def bindE_Inr Let_def target_row_Inr split: if_split_asm)
    from ev obtain e where "event_added db e db'"
      "vr_type e = ?ty" "vr_target e = t" "vr_copy e = None" "copies db' = copies db"
      "targets db' = targets (update_target t
        (\<lambda>r. r\<lparr>tg_hold := h, tg_hold_reason := why, tg_updated_at := us\<rparr>) db)"
      using audited_state_frame [OF res]
      by (auto simp: append_retention_event_Inr event_added_def)
    with r present show ?thesis by (intro hold)
  qed
qed

lemma count_remaining:
  "(count_where (\<lambda>k. cp_target k = t \<and> cp_state k \<noteq> CopyDeleted) (copies db) = 0) = all_deleted t db"
  by (auto simp: count_where_def all_deleted_def filter_empty_conv)

lemma stage_trash_effect:
  assumes "stage_trash sha t c key actor now audit eid aid db = Inr (s, db')"
  shows "retention_effect db db'"
proof -
  let ?det = "[(''copy_id'', JStr c), (''provider_call'', JBool False)]"
  let ?digest = "content_digest sha t (Some c) actor CopyStaged ?det"
  from assms obtain us where us: "to_micros now = Inr us"
    by (auto simp: stage_trash_def bindE_Inr Let_def)
  show ?thesis
  proof (cases "idempotent_replay key ?digest db = Inr True")
    case True
    with assms us have "audited_state t aid audit db = Inr (s, db')"
      by (auto simp: stage_trash_def bindE_Inr Let_def)
    then show ?thesis by (rule audited_state_effect)
  next
    case False
    with assms us obtain r k db1
      where r: "find_target t db = Some r" "\<not> tg_hold r" "tg_completed_at r = None"
        "tg_expires_at r \<le> us"
      and k: "find_copy t c db = Some k" "cp_state k = CopyActive"
      and ev: "append_retention_event eid t (Some c) key ?digest actor CopyStaged ?det us
         (update_target t (\<lambda>r. r\<lparr>tg_updated_at := us\<rparr>) (update_copy t c (staged_row us) db)) =
         Inr db1"
      and res: "audited_state t aid audit db1 = Inr (s, db')"
      by (auto simp: stage_trash_def bindE_Inr Let_def target_row_Inr copy_row_Inr require_Inr
          require_not_held_or_completed_Inr not_less staged_row_def [abs_def] split: if_split_asm)
    from ev obtain e where "event_added db e db'" "vr_type e = CopyStaged" "vr_target e = t"
      "vr_copy e = Some c" "vr_occurred_at e = us"
      "targets db' = targets (update_target t (\<lambda>r. r\<lparr>tg_updated_at := us\<rparr>) db)"
      "copies db' = copies (update_copy t c (staged_row us) db)"
      using audited_state_frame [OF res]
      by (auto simp: append_retention_event_Inr event_added_def update_target_def)
    with r k show ?thesis by (intro stage)
  qed
qed

lemma attest_deleted_effect:
  assumes "attest_deleted sha t c receipt key actor now audit eid aid db = Inr (s, db')"
  shows "retention_effect db db'"
proof -
  let ?det = "[(''copy_id'', JStr c), (''deletion_receipt_sha256'', JStr receipt),
    (''provider_call'', JBool False)]"
  let ?digest = "content_digest sha t (Some c) actor DeletionAttested ?det"
  from assms obtain us where us: "to_micros now = Inr us"
    by (auto simp: attest_deleted_def bindE_Inr Let_def)
  let ?db1 = "update_copy t c (deletion_row us receipt) db"
  let ?f = "\<lambda>r. r\<lparr>tg_completed_at := (case tg_completed_at r of
      None \<Rightarrow> (if all_deleted t ?db1 then Some us else None) | Some x \<Rightarrow> Some x),
      tg_updated_at := us\<rparr>"
  show ?thesis
  proof (cases "idempotent_replay key ?digest db = Inr True")
    case True
    with assms us have "audited_state t aid audit db = Inr (s, db')"
      by (auto simp: attest_deleted_def bindE_Inr Let_def)
    then show ?thesis by (rule audited_state_effect)
  next
    case False
    with assms us obtain r k db2
      where r: "find_target t db = Some r" "\<not> tg_hold r" "tg_completed_at r = None"
      and k: "find_copy t c db = Some k" "cp_state k = TrashStaged"
      and ev: "append_retention_event eid t (Some c) key ?digest actor DeletionAttested ?det us
         (update_target t ?f ?db1) = Inr db2"
      and res: "audited_state t aid audit db2 = Inr (s, db')"
      unfolding attest_deleted_def deletion_row_def [symmetric] Let_def count_remaining
      by (auto simp: bindE_Inr target_row_Inr copy_row_Inr require_Inr
          require_not_held_or_completed_Inr split: if_split_asm)
    from ev obtain e where e: "event_added db e db'" "vr_type e = DeletionAttested"
      "vr_target e = t" "vr_copy e = Some c" and cps: "copies db' = copies ?db1"
      and tgs: "targets db' = targets (update_target t ?f db)"
      using audited_state_frame [OF res]
      by (auto simp: append_retention_event_Inr event_added_def update_target_def)
    have "all_deleted t ?db1 = all_deleted t db'" using cps by (simp add: all_deleted_def)
    note tgs' = tgs [unfolded this]
    show ?thesis by (rule attest [OF e r k cps tgs'])
  qed
qed

lemma get_target_idle:
  "get_target t audit aid db = Inr (s, db') \<Longrightarrow> retention_effect db db'"
  by (rule idle) (auto simp: get_target_def retention_audit_def bindE_Inr split: if_splits)

lemma list_overdue_idle:
  "list_overdue now audit aid db = Inr (ss, db') \<Longrightarrow> retention_effect db db'"
  "list_scoped_overdue p now audit aid db = Inr (ss, db') \<Longrightarrow> retention_effect db db'"
  by (rule idle; auto simp: list_overdue_def list_scoped_overdue_def retention_audit_def bindE_Inr
      Let_def)+

section \<open>The ledger as a transition system\<close>

inductive retention_step :: "(string \<Rightarrow> string) \<Rightarrow> retention_db \<Rightarrow> retention_db \<Rightarrow> bool" for sha db db' where
  register_step: "db' = snd (transaction (register_target sha t raws key actor now audit eid aid) db) \<Longrightarrow>
    retention_step sha db db'"
| hold_step: "db' = snd (transaction (set_legal_hold sha t h reason key actor now audit eid aid) db) \<Longrightarrow>
    retention_step sha db db'"
| stage_step: "db' = snd (transaction (stage_trash sha t c key actor now audit eid aid) db) \<Longrightarrow>
    retention_step sha db db'"
| attest_step: "db' = snd (transaction
    (attest_deleted sha t c receipt key actor now audit eid aid) db) \<Longrightarrow> retention_step sha db db'"
| get_step: "db' = snd (transaction (get_target t audit aid) db) \<Longrightarrow> retention_step sha db db'"
| list_step: "db' = snd (transaction (list_overdue now audit aid) db) \<Longrightarrow> retention_step sha db db'"
| scoped_step: "db' = snd (transaction (list_scoped_overdue p now audit aid) db) \<Longrightarrow>
    retention_step sha db db'"
| audit_step: "db' = snd (transaction (append_retention_audit_event aid a) db) \<Longrightarrow>
    retention_step sha db db'"

lemma append_retention_audit_event_idle:
  assumes "append_retention_audit_event aid a db = Inr (n, db')"
  shows "retention_effect db db'"
proof -
  from assms obtain m where "retention_audit aid (Some a) db = Inr (m, db')"
    by (force simp: append_retention_audit_event_def bindE_Inr split: option.splits)
  then show ?thesis by (intro idle) (auto simp: retention_audit_def bindE_Inr)
qed

lemma transaction_retention:
  assumes "\<And>r db'. body db = Inr (r, db') \<Longrightarrow> retention_effect db db'"
  shows "retention_effect db (snd (transaction body db))"
proof (cases "body db")
  case (Inl e)
  then show ?thesis by (simp add: transaction_def retention_effect.idle)
next
  case (Inr x)
  then show ?thesis using assms [of "fst x" "snd x"] by (simp add: transaction_def split_beta)
qed

lemma retention_step_effect:
  assumes "retention_step sha db db'"
  shows "retention_effect db db'"
  using assms
proof cases
  case register_step
  show ?thesis unfolding register_step by (rule transaction_retention) (erule register_target_effect)
next
  case hold_step
  show ?thesis unfolding hold_step by (rule transaction_retention) (erule set_legal_hold_effect)
next
  case stage_step
  show ?thesis unfolding stage_step by (rule transaction_retention) (erule stage_trash_effect)
next
  case attest_step
  show ?thesis unfolding attest_step by (rule transaction_retention) (erule attest_deleted_effect)
next
  case get_step
  show ?thesis unfolding get_step by (rule transaction_retention) (erule get_target_idle)
next
  case list_step
  show ?thesis unfolding list_step by (rule transaction_retention) (erule list_overdue_idle(1))
next
  case scoped_step
  show ?thesis unfolding scoped_step by (rule transaction_retention) (erule list_overdue_idle(2))
next
  case audit_step
  show ?thesis unfolding audit_step by (rule transaction_retention) (erule append_retention_audit_event_idle)
qed

section \<open>The invariant\<close>

text \<open>The history of a target, and what it says of the hold and of a copy.\<close>

definition history :: "string \<Rightarrow> retention_row list \<Rightarrow> retention_row list" where
  "history t es = filter (\<lambda>e. vr_target e = t) es"

definition hold_after :: "retention_row list \<Rightarrow> bool" where
  "hold_after es = foldl (\<lambda>h e. case vr_type e of HoldPlaced \<Rightarrow> True | HoldReleased \<Rightarrow> False | _ \<Rightarrow> h)
     False es"

definition copy_after :: "string \<Rightarrow> retention_row list \<Rightarrow> copy_state" where
  "copy_after c es = foldl (\<lambda>s e. if vr_copy e = Some c then
       (case vr_type e of CopyStaged \<Rightarrow> TrashStaged | DeletionAttested \<Rightarrow> CopyDeleted | _ \<Rightarrow> s)
     else s) CopyActive es"

definition target_wf :: "retention_db \<Rightarrow> target_row \<Rightarrow> bool" where
  "target_wf db r =
     (tg_hold r = hold_after (history (tg_id r) (retention_events db)) \<and>
      (tg_hold_reason r \<noteq> None \<longleftrightarrow> tg_hold r) \<and> tg_created_at r < tg_expires_at r \<and>
      (\<exists>k \<in> set (copies db). cp_target k = tg_id r) \<and>
      (tg_completed_at r \<noteq> None \<longleftrightarrow> all_deleted (tg_id r) db) \<and>
      (tg_completed_at r \<noteq> None \<longrightarrow> \<not> tg_hold r))"

definition copy_wf :: "retention_db \<Rightarrow> copy_row \<Rightarrow> bool" where
  "copy_wf db k =
     (cp_state k = copy_after (cp_id k) (history (cp_target k) (retention_events db)) \<and>
      (cp_staged_at k \<noteq> None \<longleftrightarrow> cp_state k \<noteq> CopyActive) \<and>
      (cp_deleted_at k \<noteq> None \<longleftrightarrow> cp_state k = CopyDeleted) \<and>
      (cp_receipt k \<noteq> None \<longleftrightarrow> cp_state k = CopyDeleted) \<and>
      (\<forall>r us. find_target (cp_target k) db = Some r \<longrightarrow> cp_staged_at k = Some us \<longrightarrow>
         tg_expires_at r \<le> us))"

definition retention_wf :: "retention_db \<Rightarrow> bool" where
  "retention_wf db =
     (sequence_ok vr_sequence (retention_events db) \<and>
      distinct (map vr_event_id (retention_events db)) \<and>
      distinct (map vr_key (retention_events db)) \<and> distinct (map tg_id (targets db)) \<and>
      distinct (map (\<lambda>k. (cp_target k, cp_id k)) (copies db)) \<and>
      vr_target ` set (retention_events db) \<subseteq> tg_id ` set (targets db) \<and>
      cp_target ` set (copies db) \<subseteq> tg_id ` set (targets db) \<and>
      (\<forall>r \<in> set (targets db). target_wf db r) \<and> (\<forall>k \<in> set (copies db). copy_wf db k))"

lemma history_simps [simp]:
  "history t [] = []"
  "history t (es @ [e]) = (if vr_target e = t then history t es @ [e] else history t es)"
  by (simp_all add: history_def)

lemma after_simps [simp]:
  "\<not> hold_after []" "copy_after c [] = CopyActive"
  "hold_after (es @ [e]) = (case vr_type e of HoldPlaced \<Rightarrow> True | HoldReleased \<Rightarrow> False
     | _ \<Rightarrow> hold_after es)"
  "copy_after c (es @ [e]) = (if vr_copy e = Some c then
     (case vr_type e of CopyStaged \<Rightarrow> TrashStaged | DeletionAttested \<Rightarrow> CopyDeleted
      | _ \<Rightarrow> copy_after c es) else copy_after c es)"
  by (simp_all add: hold_after_def copy_after_def split: retention_event_type.split)

lemma after_single [simp]:
  "hold_after [e] = (vr_type e = HoldPlaced)"
  "copy_after c [e] = (if vr_copy e = Some c then (case vr_type e of CopyStaged \<Rightarrow> TrashStaged
     | DeletionAttested \<Rightarrow> CopyDeleted | _ \<Rightarrow> CopyActive) else CopyActive)"
  by (simp_all add: hold_after_def copy_after_def split: retention_event_type.split)

lemma log_wf_added:
  assumes "retention_wf db" and "event_added db e db'"
  shows "sequence_ok vr_sequence (retention_events db')"
    "distinct (map vr_event_id (retention_events db'))"
    "distinct (map vr_key (retention_events db'))"
  using assms by (auto simp: retention_wf_def event_added_def sequence_ok_append)

text \<open>Rows that an event does not concern stay well-formed.\<close>

lemma target_wf_other:
  assumes "event_added db e db'" and "vr_target e \<noteq> tg_id r"
    and "\<And>k. cp_target k = tg_id r \<Longrightarrow> k \<in> set (copies db') \<longleftrightarrow> k \<in> set (copies db)"
    and "target_wf db r"
  shows "target_wf db' r"
proof -
  have "all_deleted (tg_id r) db' = all_deleted (tg_id r) db"
    "(\<exists>k \<in> set (copies db'). cp_target k = tg_id r) = (\<exists>k \<in> set (copies db). cp_target k = tg_id r)"
    using assms(3) by (auto simp: all_deleted_def)
  with assms(1,2,4) show ?thesis by (auto simp: target_wf_def event_added_def)
qed

lemma copy_wf_other:
  assumes "event_added db e db'" and "vr_target e \<noteq> cp_target k \<or> vr_copy e \<noteq> Some (cp_id k)"
    and "\<And>r'. find_target (cp_target k) db' = Some r' \<Longrightarrow>
      \<exists>r. find_target (cp_target k) db = Some r \<and> tg_expires_at r = tg_expires_at r'"
    and "copy_wf db k"
  shows "copy_wf db' k"
proof -
  have "copy_after (cp_id k) (history (cp_target k) (retention_events db')) =
      copy_after (cp_id k) (history (cp_target k) (retention_events db))"
    using assms(1,2) by (auto simp: event_added_def)
  with assms(3,4) show ?thesis unfolding copy_wf_def by metis
qed

text \<open>An update of one target and at most one of its copies, with its event.\<close>

lemma retention_wf_update:
  assumes wf: "retention_wf db" and e: "event_added db e db'" "vr_target e = t"
    and r: "find_target t db = Some r"
    and tgs: "targets db' = targets (update_target t f db)"
    and f: "\<And>r. tg_id (f r) = tg_id r" "\<And>r. tg_expires_at (f r) = tg_expires_at r"
    and cps: "copies db' = copies (update_copy t c g db)"
    and g: "\<And>k. cp_target (g k) = cp_target k" "\<And>k. cp_id (g k) = cp_id k"
    and only: "vr_copy e = None \<or> vr_copy e = Some c"
    and target: "target_wf db r \<Longrightarrow> target_wf db' (f r)"
    and copy: "\<And>k. find_copy t c db = Some k \<Longrightarrow> copy_wf db k \<Longrightarrow> copy_wf db' (g k)"
  shows "retention_wf db'"
proof -
  have dt: "distinct (map tg_id (targets db))"
    and dc: "distinct (map (\<lambda>k. (cp_target k, cp_id k)) (copies db))"
    using wf by (simp_all add: retention_wf_def)
  have rin: "r \<in> set (targets db)" "tg_id r = t" using find_target_Some [OF r] by auto
  have ts: "targets db' = update_where (\<lambda>r. tg_id r = t) f (targets db)"
    using tgs by (simp add: update_target_def)
  have cs: "copies db' = update_where (\<lambda>k. (cp_target k, cp_id k) = (t, c)) g (copies db)"
    using cps by (simp add: update_copy_def)
  have other: "k \<in> set (copies db') \<longleftrightarrow> k \<in> set (copies db)" if "cp_target k \<noteq> t" for k
    using that g(1) unfolding cs set_update_where by (auto split: if_splits)
  have targets: "target_wf db' x" if "x \<in> set (targets db')" for x
    using that unfolding ts
  proof (cases rule: update_whereE)
    case 1
    then have "target_wf db x" "tg_id x \<noteq> t" using wf by (auto simp: retention_wf_def)
    with e other show ?thesis by (intro target_wf_other [OF e(1)]) auto
  next
    case (2 y)
    then have "y = r" using key_inj [OF dt _ rin(1)] rin(2) by simp
    with 2 target wf rin show ?thesis by (simp add: retention_wf_def)
  qed
  have expires: "\<exists>r. find_target s db = Some r \<and> tg_expires_at r = tg_expires_at r'"
    if "find_target s db' = Some r'" for s r'
    using that f find_target_cong [OF tgs, of s] find_target_update [of f s t db]
    by (auto split: if_splits)
  have copies: "copy_wf db' x" if "x \<in> set (copies db')" for x
    using that unfolding cs
  proof (cases rule: update_whereE)
    case 1
    then have "copy_wf db x" using wf by (auto simp: retention_wf_def)
    with 1 e only expires show ?thesis by (intro copy_wf_other [OF e(1)]) auto
  next
    case (2 y)
    then have "find_copy t c db = Some y" "copy_wf db y"
      using find_key_unique [OF dc, of y] wf by (auto simp: find_copy_def retention_wf_def)
    with 2 copy show ?thesis by simp
  qed
  have ids: "tg_id ` set (targets db') = tg_id ` set (targets db)"
    unfolding ts by (rule keys_update_where) (rule f)
  have "cp_target ` set (copies db') = cp_target ` set (copies db)"
    unfolding cs by (rule keys_update_where) (rule g)
  moreover have "distinct (map tg_id (targets db'))"
    unfolding ts using dt f by (simp add: map_update_where)
  moreover have "distinct (map (\<lambda>k. (cp_target k, cp_id k)) (copies db'))"
    unfolding cs using dc g by (simp add: map_update_where)
  moreover have "vr_target ` set (retention_events db') \<subseteq> tg_id ` set (targets db)"
    using wf e(1) imageI [OF rin(1), of tg_id] rin(2) e(2)
    by (simp add: event_added_def retention_wf_def)
  ultimately show ?thesis
    using wf targets copies log_wf_added [OF wf e(1)] unfolding retention_wf_def ids
    by (elim conjE) (intro conjI ballI; simp)
qed

lemma all_deleted_cong:
  "copies db' = copies (update_copy t c g db) \<Longrightarrow> all_deleted t db' = all_deleted t (update_copy t c g db)"
  by (simp add: all_deleted_def)

lemma copies_update_present:
  assumes "\<And>k. cp_target (g k) = cp_target k" and "\<exists>k \<in> set (copies db). cp_target k = t"
  shows "\<exists>k \<in> set (copies (update_copy a b g db)). cp_target k = t"
proof -
  have "cp_target ` set (copies (update_copy a b g db)) = cp_target ` set (copies db)"
    by (simp add: update_copy_def keys_update_where assms(1))
  moreover have "t \<in> cp_target ` set (copies db)" using assms(2) by blast
  ultimately show ?thesis by (metis imageE)
qed

lemma update_copy_id [simp]: "copies (update_copy a b (\<lambda>k. k) db) = copies db"
  by (simp add: update_copy_def update_where_def)

lemma row_simps [simp]:
  "cp_target (staged_row us k) = cp_target k" "cp_id (staged_row us k) = cp_id k"
  "cp_state (staged_row us k) = TrashStaged" "cp_staged_at (staged_row us k) = Some us"
  "cp_deleted_at (staged_row us k) = cp_deleted_at k" "cp_receipt (staged_row us k) = cp_receipt k"
  "cp_target (deletion_row us x k) = cp_target k" "cp_id (deletion_row us x k) = cp_id k"
  "cp_state (deletion_row us x k) = CopyDeleted" "cp_staged_at (deletion_row us x k) = cp_staged_at k"
  "cp_deleted_at (deletion_row us x k) = Some us" "cp_receipt (deletion_row us x k) = Some x"
  by (simp_all add: staged_row_def deletion_row_def)

lemma retention_effect_wf:
  assumes "retention_effect db db'" and wf: "retention_wf db"
  shows "retention_wf db'"
  using assms(1)
proof cases
  case idle
  have "target_wf db' = target_wf db" "copy_wf db' = copy_wf db"
    using idle by (simp_all add: fun_eq_iff target_wf_def copy_wf_def all_deleted_def find_target_def)
  with idle wf show ?thesis by (simp add: retention_wf_def)
next
  case (hold e h t r why us)
  show ?thesis
  proof (rule retention_wf_update [OF wf hold(1,3,5,9), where c = undefined and g = "\<lambda>k. k"])
    fix k
    assume "copy_wf db k"
    with hold show "copy_wf db' k"
      by (intro copy_wf_other [OF hold(1)])
        (auto simp: find_target_cong [OF hold(9)] find_target_update split: if_splits)
  qed (use hold find_target_Some [OF hold(5)] in \<open>auto simp: target_wf_def all_deleted_def
        event_added_def\<close>)
next
  case (stage e t c us r k)
  have k: "k \<in> set (copies db)" "cp_target k = t" "cp_id k = c"
    using find_copy_Some [OF stage(10)] by auto
  show ?thesis
  proof (rule retention_wf_update [OF wf stage(1,3,6,12) _ _ stage(13)])
    assume "target_wf db r"
    moreover have "\<not> all_deleted t db'"
      using stage find_copy_update [of "staged_row us" t c t c db]
      by (auto simp: all_deleted_def find_copy_cong [OF stage(13)] dest!: find_copy_Some)
    ultimately show "target_wf db' (r\<lparr>tg_updated_at := us\<rparr>)"
      using stage find_target_Some [OF stage(6)] copies_update_present [of "staged_row us" db t t c]
      by (auto simp: target_wf_def event_added_def)
  qed (use stage k in \<open>auto simp: copy_wf_def event_added_def find_target_cong [OF stage(12)]
        find_target_update\<close>)
next
  case (attest e t c r k us receipt)
  show ?thesis
  proof (rule retention_wf_update [OF wf attest(1,3,5,11) _ _ attest(10)])
    assume "target_wf db r"
    then show "target_wf db' (r\<lparr>tg_completed_at := (case tg_completed_at r of
        None \<Rightarrow> (if all_deleted t db' then Some us else None) | Some x \<Rightarrow> Some x), tg_updated_at := us\<rparr>)"
      using attest find_target_Some [OF attest(5)] copies_update_present [of "deletion_row us receipt" db t t c]
      by (auto simp: target_wf_def event_added_def)
  next
    fix k'
    assume "find_copy t c db = Some k'" "copy_wf db k'"
    with attest find_copy_Some [OF attest(8)] show "copy_wf db' (deletion_row us receipt k')"
      by (simp add: copy_wf_def event_added_def find_target_cong [OF attest(11)] find_target_update)
  qed (use attest in simp_all)
next
  case (register e r cs)
  let ?t = "tg_id r"
  have new: "?t \<notin> tg_id ` set (targets db)"
    using register(5) by (auto simp: find_target_def find_None_iff)
  have sub: "vr_target ` set (retention_events db) \<subseteq> tg_id ` set (targets db)"
    "cp_target ` set (copies db) \<subseteq> tg_id ` set (targets db)"
    using wf by (simp_all add: retention_wf_def)
  have other: "cp_target k \<noteq> ?t" if "k \<in> set (copies db)" for k
    using subsetD [OF sub(2) imageI [OF that]] new by metis
  have "vr_target x \<noteq> ?t" if "x \<in> set (retention_events db)" for x
    using subsetD [OF sub(1) imageI [OF that]] new by metis
  then have none: "history ?t (retention_events db) = []" "\<And>k. k \<in> set (copies db) \<Longrightarrow> cp_target k \<noteq> ?t"
    using other by (simp_all add: history_def)
  have keep: "find_target s db' = (if s = ?t then Some r else find_target s db)" for s
    using register(5) by (auto simp: find_target_def register(7) find_append split: option.split)
  have old: "target_wf db' x" if "x \<in> set (targets db)" for x
    by (rule target_wf_other [OF register(1)])
      (use that new wf register in \<open>auto simp: retention_wf_def new_copy_row_def\<close>)
  have "target_wf db' r"
    using register none by (cases cs) (auto simp: target_wf_def event_added_def fresh_target_def
        all_deleted_def new_copy_row_def)
  moreover have "copy_wf db' k" if "k \<in> set (copies db)" for k
    by (rule copy_wf_other [OF register(1)])
      (use that other keep wf register in \<open>auto simp: retention_wf_def\<close>)
  moreover have "copy_wf db' (new_copy_row ?t c)" for c
    using register none by (simp add: copy_wf_def new_copy_row_def event_added_def)
  moreover have "distinct (map (\<lambda>k. (cp_target k, cp_id k)) (copies db'))"
    using wf register none(2)
    by (auto simp: retention_wf_def distinct_map inj_on_def new_copy_row_def)
  ultimately show ?thesis
    using wf register new old log_wf_added [OF wf register(1)]
    by (auto simp: retention_wf_def event_added_def new_copy_row_def)
qed

lemma retention_wf_empty [simp]: "retention_wf empty_retention"
  by (simp add: retention_wf_def empty_retention_def)

interpretation retention_table: invariant_system "\<lambda>db. db = empty_retention" "retention_step sha"
  retention_wf for sha
  by unfold_locales (auto dest: retention_step_effect intro: retention_effect_wf)

lemma retention_effect_log:
  "retention_effect db db' \<Longrightarrow> prefix (retention_events db) (retention_events db')"
  by (induction rule: retention_effect.induct) (auto simp: event_added_def)

interpretation retention_log: append_only_log "retention_step sha" retention_events for sha
  by unfold_locales (auto dest: retention_step_effect intro: retention_effect_log)

section \<open>What one step leaves alone\<close>

lemma copies_of_cong: "copies db' = copies db \<Longrightarrow> copies_of t db' = copies_of t db"
  by (simp add: copies_of_def)

lemma copies_of_update:
  assumes "a \<noteq> t" and "\<And>k. cp_target (g k) = cp_target k"
  shows "copies_of t (update_copy a b g db) = copies_of t db"
proof -
  have "filter (\<lambda>k. cp_target k = t) (update_where (\<lambda>k. (cp_target k, cp_id k) = (a, b)) g ks) =
      filter (\<lambda>k. cp_target k = t) ks" for ks
    using assms by (induction ks) auto
  then show ?thesis by (simp add: copies_of_def update_copy_def)
qed

text \<open>A step that adds no event of a target leaves the target and its copies as they are.\<close>

lemma retention_effect_other:
  assumes "retention_effect db db'"
    and "history t (retention_events db') = history t (retention_events db)"
  shows "find_target t db' = find_target t db \<and> copies_of t db' = copies_of t db"
  using assms(1)
proof cases
  case idle
  then show ?thesis by (simp add: find_target_def copies_of_def)
next
  case (register e r cs)
  then have "tg_id r \<noteq> t" using assms(2) by (auto simp: event_added_def)
  with register show ?thesis
    by (auto simp: find_target_def find_append copies_of_def new_copy_row_def split: option.splits)
next
  case (hold e h s r why us)
  then have "s \<noteq> t" using assms(2) by (auto simp: event_added_def)
  with hold find_target_update show ?thesis
    by (simp add: find_target_cong [OF hold(9)] copies_of_def)
next
  case (stage e s c us r k)
  then have "s \<noteq> t" using assms(2) by (auto simp: event_added_def)
  with stage show ?thesis
    by (simp add: find_target_cong [OF stage(12)] find_target_update copies_of_cong [OF stage(13)]
        copies_of_update)
next
  case (attest e s c r k us receipt)
  then have "s \<noteq> t" using assms(2) by (auto simp: event_added_def)
  with attest show ?thesis
    by (simp add: find_target_cong [OF attest(11)] find_target_update copies_of_cong [OF attest(10)]
        copies_of_update)
qed

text \<open>What a step may add to the history of a target: nothing to a completed one, to a held one
  only its release.\<close>

lemma retention_effect_history:
  assumes "retention_effect db db'" and r: "find_target t db = Some r"
    and "history t (retention_events db') \<noteq> history t (retention_events db)"
  shows "\<exists>e. retention_events db' = retention_events db @ [e] \<and> vr_target e = t \<and>
    tg_completed_at r = None \<and> (tg_hold r \<longrightarrow> vr_type e = HoldReleased)"
proof -
  have added: "vr_target e = t" "retention_events db' = retention_events db @ [e]"
    if "event_added db e db'" for e
    using that assms(3) by (auto simp: event_added_def split: if_splits)
  show ?thesis
    using assms(1)
  proof cases
    case idle
    with assms(3) show ?thesis by simp
  next
    case (register e r' cs)
    with added(1) [OF register(1)] r show ?thesis by simp
  next
    case (hold e h s r' why us)
    with added [OF hold(1)] r show ?thesis by auto
  next
    case (stage e s c us r' k)
    with added [OF stage(1)] r show ?thesis by auto
  next
    case (attest e s c r' k us receipt)
    with added [OF attest(1)] r show ?thesis by auto
  qed
qed

lemma completed_steps:
  assumes "(retention_step sha)\<^sup>*\<^sup>* db db'" and "find_target t db = Some r"
    and "tg_completed_at r \<noteq> None"
  shows "find_target t db' = Some r \<and> copies_of t db' = copies_of t db \<and>
    history t (retention_events db') = history t (retention_events db)"
  using assms(1)
proof (induction rule: rtranclp_induct)
  case (step y z)
  then have eff: "retention_effect y z" and r: "find_target t y = Some r"
    by (simp_all add: retention_step_effect)
  then have "history t (retention_events z) = history t (retention_events y)"
    using retention_effect_history [OF eff r] assms(3) by metis
  with step.IH retention_effect_other [OF eff this] show ?case by simp
qed (use assms(2) in simp)

lemma held_steps:
  assumes "(retention_step sha)\<^sup>*\<^sup>* db db'" and "find_target t db = Some r" and "tg_hold r"
    and "\<forall>e \<in> set (drop (length (retention_events db)) (retention_events db')).
      \<not> (vr_target e = t \<and> vr_type e = HoldReleased)"
  shows "find_target t db' = Some r \<and> copies_of t db' = copies_of t db"
  using assms(1,4)
proof (induction rule: rtranclp_induct)
  case (step y z)
  have eff: "retention_effect y z" by (rule retention_step_effect [OF step(2)])
  have "prefix (retention_events db) (retention_events y)"
    by (rule retention_log.steps_extend [OF step(1)])
  then obtain us where us: "retention_events y = retention_events db @ us" by (auto simp: prefix_def)
  have "prefix (retention_events y) (retention_events z)" by (rule retention_effect_log [OF eff])
  then obtain vs where vs: "retention_events z = retention_events db @ us @ vs"
    using us by (auto simp: prefix_def)
  then have IH: "find_target t y = Some r \<and> copies_of t y = copies_of t db"
    using step.IH step.prems us by auto
  then have "history t (retention_events z) = history t (retention_events y)"
    using retention_effect_history [OF eff, of t r] assms(3) step.prems us vs by fastforce
  with IH retention_effect_other [OF eff this] show ?case by simp
qed (use assms(2) in simp)

section \<open>Replays\<close>

lemma replay_stored:
  assumes "(retention_step sha)\<^sup>*\<^sup>* db1 db2" and "retention_wf db1"
    and "find (\<lambda>r. vr_key r = key) (retention_events db1) = Some e"
  shows "idempotent_replay key digest db2 =
    (if vr_digest e = digest then Inr True else Inl ControlConflictError)"
proof -
  from retention_log.steps_extend [OF assms(1)] obtain es
    where "retention_events db2 = retention_events db1 @ es" by (auto simp: prefix_def)
  with assms(3) show ?thesis by (simp add: idempotent_replay_def find_append)
qed

lemma attest_stored:
  assumes "attest_deleted sha t c receipt key actor now audit eid aid db = Inr (s, db')"
  shows "\<exists>e. find (\<lambda>r. vr_key r = key) (retention_events db') = Some e \<and>
    vr_digest e = content_digest sha t (Some c) actor DeletionAttested
      [(''copy_id'', JStr c), (''deletion_receipt_sha256'', JStr receipt),
       (''provider_call'', JBool False)] \<and>
    forE require_bounded_text [t, c, key, actor] = Inr () \<and> require_sha256 receipt = Inr ()"
proof -
  let ?digest = "content_digest sha t (Some c) actor DeletionAttested
      [(''copy_id'', JStr c), (''deletion_receipt_sha256'', JStr receipt),
       (''provider_call'', JBool False)]"
  from assms obtain b where ok: "forE require_bounded_text [t, c, key, actor] = Inr ()"
      "require_sha256 receipt = Inr ()" and b: "idempotent_replay key ?digest db = Inr b"
    by (auto simp: attest_deleted_def bindE_Inr Let_def)
  show ?thesis
  proof (cases "find (\<lambda>r. vr_key r = key) (retention_events db)")
    case (Some e)
    with b have "b" "vr_digest e = ?digest"
      by (auto simp: idempotent_replay_def split: if_splits)
    with assms ok b have "audited_state t aid audit db = Inr (s, db')"
      by (auto simp: attest_deleted_def bindE_Inr Let_def)
    with Some ok \<open>vr_digest e = ?digest\<close> show ?thesis
      using audited_state_frame by fastforce
  next
    case None
    with b have "\<not> b" by (simp add: idempotent_replay_def)
    with assms ok b obtain db1 db2 us
      where ev: "append_retention_event eid t (Some c) key ?digest actor DeletionAttested
        [(''copy_id'', JStr c), (''deletion_receipt_sha256'', JStr receipt),
         (''provider_call'', JBool False)] us db1 = Inr db2"
      and "retention_events db1 = retention_events db" "audited_state t aid audit db2 = Inr (s, db')"
      by (auto simp: attest_deleted_def bindE_Inr Let_def)
    with None ok show ?thesis
      using audited_state_frame(3) by (fastforce simp: append_retention_event_Inr find_append)
  qed
qed

end
