(* ===== verification/Tenant_Isolation.thy ===== *)
theory Tenant_Isolation
  imports Control_Service Review_Ledger Retention_Ledger
begin

text \<open>
  What a call of the control service can do: rules for the calls, what authorization leaves behind,
  and the rows of other tenants.
\<close>

section \<open>Rules for calls\<close>

named_theorems calls \<open>inversion of calls of the service\<close>

lemma result_simps [simp]: "result r st = (r, st)"
  by (simp add: result_def)

lemma bindS_result [simp]:
  "bindS (result (Inr x)) f st = f x st" "bindS (result (Inl e)) f st = (Inl e, st)"
  by (simp_all add: bindS_def)

lemma bindS_Inr [calls]:
  "bindS m f st = (Inr y, st') \<longleftrightarrow> (\<exists>x st1. m st = (Inr x, st1) \<and> f x st1 = (Inr y, st'))"
  by (auto simp: bindS_def split: prod.splits sum.splits)

lemma bindS_Inl [calls]:
  "bindS m f st = (Inl e, st') \<longleftrightarrow>
     m st = (Inl e, st') \<or> (\<exists>x st1. m st = (Inr x, st1) \<and> f x st1 = (Inl e, st'))"
  by (auto simp: bindS_def split: prod.splits sum.splits)

lemma in_control_Inr [calls]:
  "in_control body st = (Inr r, st') \<longleftrightarrow>
     (\<exists>db. body (sv_control st) = Inr (r, db) \<and> st' = st\<lparr>sv_control := db\<rparr>)"
  by (auto simp: in_control_def transaction_def split: sum.splits prod.splits)

lemma in_control_Inl [calls]:
  "in_control body st = (Inl e, st') \<longleftrightarrow> body (sv_control st) = Inl e \<and> st' = st"
  by (auto simp: in_control_def transaction_def split: sum.splits prod.splits)

lemma in_retention_Inr [calls]:
  "in_retention body st = (Inr r, st') \<longleftrightarrow>
     (\<exists>db db'. sv_retention st = Some db \<and> body db = Inr (r, db') \<and>
       st' = st\<lparr>sv_retention := Some db'\<rparr>)"
  by (auto simp: in_retention_def transaction_def split: sum.splits prod.splits option.splits)

lemma in_retention_Inl [calls]:
  "in_retention body st = (Inl e, st') \<longleftrightarrow> st' = st \<and>
     (case sv_retention st of None \<Rightarrow> e = ControlStoreError | Some db \<Rightarrow> body db = Inl e)"
  by (auto simp: in_retention_def transaction_def split: sum.splits prod.splits option.splits)

lemma read_control_eq [simp]: "read_control body st = (body (sv_control st), st)"
  by (simp add: read_control_def)

lemma require_retention_eq [simp]:
  "require_retention st = (if sv_retention st = None then (Inl ControlStoreError, st) else (Inr (), st))"
  by (simp add: require_retention_def)

section \<open>Authorization\<close>

lemma require_scope_Inr [flow]:
  "require_scope p = Inr s \<longleftrightarrow> principal_scope p = Some s \<and> valid_scope s"
  by (auto simp: require_scope_def flow split: option.splits)

lemma audit_context_for_Inr [flow]:
  "audit_context_for s p action target correlation key res t = Inr a \<longleftrightarrow>
     (\<exists>key' target'. (case key of None \<Rightarrow> key' = None
        | Some k \<Rightarrow> \<exists>q. qualify s ''audit_idempotency'' k = Inr q \<and> key' = Some q) \<and>
      qualify s ''audit_target'' target = Inr target' \<and>
      a = \<lparr>ac_correlation_id = correlation, ac_idempotency_key = key', ac_subject_id = subject p,
       ac_roles = role_values p, ac_action = action_value action, ac_target_id = target',
       ac_result = res, ac_occurred_at = t\<rparr>)"
  by (cases key) (auto simp: audit_context_for_def bindE_Inr)

lemma authorize_Inr [calls]:
  "authorize env p action target correlation key chk st = (Inr a, st') \<longleftrightarrow>
     st' = st \<and> allows p action \<and> (chk \<longrightarrow> reviewer_id_pattern (subject p)) \<and>
     (\<exists>s. require_scope p = Inr s \<and>
       audit_context_for s p action target correlation key ''accepted'' (ce_clock env) = Inr a)"
  by (auto simp: authorize_def calls flow validate_reviewer_subject_value_def require_def)

lemma authorize_retention_Inr [calls]:
  "authorize_retention env p action target correlation key st = (Inr a, st') \<longleftrightarrow>
     st' = st \<and> sv_retention st \<noteq> None \<and> allows p action \<and>
     (\<exists>s. require_scope p = Inr s \<and>
       audit_context_for s p action target correlation key ''accepted'' (ce_clock env) = Inr a)"
  by (auto simp: authorize_retention_def calls flow)

section \<open>The rows of a selection of keys\<close>

definition control_view :: "(string \<Rightarrow> bool) \<Rightarrow> control_db \<Rightarrow> control_db" where
  "control_view P db =
     \<lparr>jobs = filter (\<lambda>r. P (jr_job_id r)) (jobs db),
      lease_events = filter (\<lambda>e. P (le_job_id e)) (lease_events db),
      review_events = filter (\<lambda>e. P (rr_target_id e)) (review_events db),
      projections = filter (\<lambda>r. P (pr_target_id r)) (projections db),
      audit_events = filter (\<lambda>e. P (ar_target_id e)) (audit_events db)\<rparr>"

definition retention_view :: "(string \<Rightarrow> bool) \<Rightarrow> retention_db \<Rightarrow> retention_db" where
  "retention_view P db =
     \<lparr>targets = filter (\<lambda>r. P (tg_id r)) (targets db),
      copies = filter (\<lambda>r. P (cp_target r)) (copies db),
      retention_events = filter (\<lambda>e. P (vr_target e)) (retention_events db),
      retention_audits = filter (\<lambda>e. P (ar_target_id e)) (retention_audits db)\<rparr>"

lemma filter_update_where_other:
  assumes "\<And>r. Q r \<Longrightarrow> \<not> P r \<and> \<not> P (f r)"
  shows "filter P (update_where Q f t) = filter P t"
  using assms by (induction t) auto

lemma filter_upsert_other:
  assumes "\<not> P (pr_target_id p)"
  shows "filter (\<lambda>r. P (pr_target_id r)) (projections (upsert_projection p db)) =
    filter (\<lambda>r. P (pr_target_id r)) (projections db)"
  using assms by (auto simp: upsert_projection_def intro!: filter_update_where_other)

lemma control_audit_view:
  assumes "control_audit aid (Some a) db = Inr db'" and "\<not> P (ac_target_id a)"
  shows "control_view P db' = control_view P db"
  using assms
  by (auto simp: control_audit_Inr append_audit_Inr control_view_def audit_row_of_def)

lemma retention_audit_view:
  assumes "retention_audit aid (Some a) db = Inr (n, db')" and "\<not> P (ac_target_id a)"
  shows "retention_view P db' = retention_view P db"
  using assms by (auto simp: retention_audit_def bindE_Inr append_audit_Inr retention_view_def audit_row_of_def)

lemma audited_state_view:
  assumes "audited_state t aid (Some a) db = Inr (s, db')" and "\<not> P (ac_target_id a)"
  shows "retention_view P db' = retention_view P db"
  using assms by (auto simp: audited_state_def bindE_Inr dest: retention_audit_view [of _ _ _ _ _ P])

section \<open>Operations on one key leave the rows of other keys alone\<close>

lemma job_update_view:
  assumes "\<And>r. jr_job_id (f r) = jr_job_id r" and "\<not> P j" and "le_job_id e = j"
  shows "control_view P (update_job j f db\<lparr>lease_events := lease_events db @ [e]\<rparr>) = control_view P db"
  using assms by (auto simp: control_view_def update_job_def intro!: filter_update_where_other)

lemma append_lease_event_view:
  assumes "append_lease_event eid j ty owner token attempt now_us expires digest db1 = Inr db'"
    and "db1 = update_job j f db" and "\<And>r. jr_job_id (f r) = jr_job_id r" and "\<not> P j"
  shows "control_view P db' = control_view P db"
proof -
  have "db' = update_job j f db\<lparr>lease_events := lease_events db @
      [lease_event_of db1 eid j ty owner token attempt now_us expires digest]\<rparr>"
    using assms(1,2) by (auto simp: append_lease_event_Inr)
  then show ?thesis
    using job_update_view [OF assms(3), of P j "lease_event_of db1 eid j ty owner token attempt now_us expires digest" db]
      assms(4) by (simp add: lease_event_of_def)
qed

lemma register_job_view:
  assumes "register_job j d now (Some a) aid db = Inr (r, db')" and "\<not> P j" and "\<not> P (ac_target_id a)"
  shows "control_view P db' = control_view P db"
proof (cases "find_job j db")
  case (Some r')
  with assms show ?thesis
    by (auto simp: register_job_def bindE_Inr split: if_splits dest: control_audit_view [where P = P])
next
  case None
  with assms(1) have "\<exists>job. jr_job_id job = j \<and> control_audit aid (Some a) (db\<lparr>jobs := jobs db @ [job]\<rparr>) = Inr db'"
    by (auto simp: register_job_def bindE_Inr Let_def insert_row_Inr split: option.splits
        intro: exI [where x = "\<lparr>jr_job_id = j, jr_payload_digest = d, jr_state = Queued,
          jr_owner = None, jr_token = 0, jr_attempt = 0, jr_acquired_at = None, jr_expires_at = None,
          jr_heartbeat_at = None, jr_completion_key = None, jr_result_digest = None,
          jr_completed_at = None, jr_created_at = u, jr_updated_at = u\<rparr>" for u])
  with assms(2,3) control_audit_view [of aid a _ db' P] show ?thesis
    by (fastforce simp: control_view_def)
qed

lemma acquire_view:
  assumes "acquire limit j owner now ttl (Some a) eid aid db = Inr (l, db')" and "\<not> P j"
    and "\<not> P (ac_target_id a)"
  shows "control_view P db' = control_view P db"
proof -
  from assms(1) obtain r now_us where r: "job_row j db = Inr r" "to_micros now = Inr now_us"
    by (auto simp: acquire_def bindE_Inr)
  show ?thesis
  proof (cases "lease_active now_us r")
    case True
    with assms r show ?thesis
      by (auto simp: acquire_def bindE_Inr split: if_splits dest: control_audit_view [where P = P])
  next
    case False
    with assms(1) r show ?thesis
      by (auto simp: acquire_def bindE_Inr Let_def split: if_splits
          dest!: control_audit_view [of _ a _ _ P, OF _ assms(3)]
        append_lease_event_view [where P = P, OF _ refl _ assms(2)])
  qed
qed

lemma heartbeat_view:
  assumes "heartbeat l now ttl (Some a) eid aid db = Inr (l', db')" and "\<not> P (l_job_id l)"
    and "\<not> P (ac_target_id a)"
  shows "control_view P db' = control_view P db"
  using assms(1)
  by (auto simp: heartbeat_def bindE_Inr Let_def
      dest!: control_audit_view [of _ a _ _ P, OF _ assms(3)]
        append_lease_event_view [where P = P, OF _ refl _ assms(2)])

lemma complete_view:
  assumes "complete l key digest now (Some a) eid aid db = Inr (c, db')" and "\<not> P (l_job_id l)"
    and "\<not> P (ac_target_id a)"
  shows "control_view P db' = control_view P db"
  using assms(1)
  by (auto simp: complete_def bindE_Inr Let_def split: if_splits
      dest!: control_audit_view [of _ a _ _ P, OF _ assms(3)]
        append_lease_event_view [where P = P, OF _ refl _ assms(2)])

lemma append_audit_event_view:
  assumes "append_audit_event aid a db = Inr (e, db')" and "\<not> P (ac_target_id a)"
  shows "control_view P db' = control_view P db"
  using control_audit_view [where P = P, OF append_audit_event_Inr [OF assms(1)] assms(2)] .

lemma review_appended_view:
  assumes "insert_review_event r db = Inr db1" and "\<not> P (rr_target_id r)" and "\<not> P (pr_target_id q)"
  shows "control_view P (upsert_projection q db1) = control_view P db"
proof -
  have "db1 = db\<lparr>review_events := review_events db @ [r]\<rparr>" using assms(1) by (simp add: insert_review_event_Inr)
  then show ?thesis
    using assms(2,3) filter_upsert_other [of P q db1]
    by (simp add: control_view_def) (simp add: upsert_projection_def)
qed

lemma append_review_event_view:
  assumes "append_review_event sha t key actor status prov detail now (Some a) eid aid db = Inr (e, db')"
    and "\<not> P t" and "\<not> P (ac_target_id a)"
  shows "control_view P db' = control_view P db"
proof (cases "find_event_by_key key db")
  case (Some existing)
  with assms(1) show ?thesis
    by (auto simp: append_review_event_def bindE_Inr Let_def split: if_splits
        dest: control_audit_view [of _ a _ _ P, OF _ assms(3)])
next
  case None
  with assms(1) show ?thesis
    by (auto simp: append_review_event_def bindE_Inr Let_def split: if_splits
        dest!: control_audit_view [of _ a _ _ P, OF _ assms(3)] review_appended_view [where P = P]
        simp: assms(2))
qed

lemma append_candidate_review_event_view:
  assumes "append_candidate_review_event sha q clock (Some a) eid aid db = Inr (e, db')"
    and "\<And>v ev t. prepare_candidate_event q = Inr (v, ev, t) \<Longrightarrow> \<not> P (cv_qualified_target v)"
    and "\<not> P (ac_target_id a)"
  shows "control_view P db' = control_view P db"
proof -
  from assms(1) obtain v ev t where v: "prepare_candidate_event q = Inr (v, ev, t)"
    by (auto simp: append_candidate_review_event_def bindE_Inr)
  note P = assms(2) [OF v]
  show ?thesis
  proof (cases "find_event_by_key (cv_qualified_key v) db")
    case (Some existing)
    with assms(1) v show ?thesis by (auto simp: append_candidate_review_event_def bindE_Inr)
  next
    case None
    with assms(1) v show ?thesis
      by (auto simp: append_candidate_review_event_def bindE_Inr Let_def
          dest!: control_audit_view [of _ a _ _ P, OF _ assms(3)] review_appended_view [where P = P]
          simp: P)
  qed
qed

text \<open>The retention ledger.\<close>

lemma retention_event_view:
  assumes "append_retention_event eid t c key digest actor ty detail us db1 = Inr db2"
    and "audited_state t aid (Some a) db2 = Inr (s, db')" and "\<not> P t" and "\<not> P (ac_target_id a)"
  shows "retention_view P db' = retention_view P db1"
proof -
  have "retention_view P db2 = retention_view P db1"
    using assms(1,3) by (auto simp: append_retention_event_Inr retention_view_def)
  with audited_state_view [where P = P, OF assms(2,4)] show ?thesis by simp
qed

lemma insert_copies_view:
  "insert_copies t cs tbl = Inr tbl' \<Longrightarrow> \<not> P t \<Longrightarrow>
   filter (\<lambda>r. P (cp_target r)) tbl' = filter (\<lambda>r. P (cp_target r)) tbl"
  by (drule insert_copies_Inr) (auto simp: filter_empty_conv new_copy_row_def)

lemma update_view:
  assumes "\<not> P t"
  shows "(\<And>r. tg_id (f r) = tg_id r) \<Longrightarrow> retention_view P (update_target t f db) = retention_view P db"
    and "(\<And>k. cp_target (g k) = cp_target k) \<Longrightarrow> retention_view P (update_copy t c g db) = retention_view P db"
  using assms
  by (auto simp: retention_view_def update_target_def update_copy_def intro!: filter_update_where_other)

lemma register_target_view:
  assumes "register_target sha t raws key actor now (Some a) eid aid db = Inr (s, db')"
    and "\<not> P t" and "\<not> P (ac_target_id a)"
  shows "retention_view P db' = retention_view P db"
proof -
  from assms(1) obtain cs where cs: "canonicalize_copies raws = Inr cs"
    by (auto simp: register_target_def bindE_Inr)
  show ?thesis
  proof (cases "audited_state t aid (Some a) db = Inr (s, db')")
    case True
    from this assms(3) show ?thesis by (rule audited_state_view)
  next
    case False
    with assms(1) cs obtain r cps ev us db1 where
      ev: "append_retention_event eid t None key (content_digest sha t None actor TargetRegistered ev)
        actor TargetRegistered ev us (db\<lparr>targets := targets db @ [r], copies := cps\<rparr>) = Inr db1"
      and "tg_id r = t" "insert_copies t cs (copies db) = Inr cps" "audited_state t aid (Some a) db1 = Inr (s, db')"
      by (auto simp: register_target_def bindE_Inr Let_def insert_row_Inr split: if_splits)
    then show ?thesis
      using retention_event_view [where P = P, OF ev _ assms(2,3)] insert_copies_view [of t cs "copies db" cps P]
        assms(2) by (simp add: retention_view_def)
  qed
qed

lemma set_legal_hold_view:
  assumes "set_legal_hold sha t hold reason key actor now (Some a) eid aid db = Inr (s, db')"
    and "\<not> P t" and "\<not> P (ac_target_id a)"
  shows "retention_view P db' = retention_view P db"
proof (cases "audited_state t aid (Some a) db = Inr (s, db')")
  case True
  from this assms(3) show ?thesis by (rule audited_state_view)
next
  case False
  with assms(1) obtain why us ty det dg db1 where
    ev: "append_retention_event eid t None key dg actor ty det us
      (update_target t (\<lambda>r. r\<lparr>tg_hold := hold, tg_hold_reason := why, tg_updated_at := us\<rparr>) db) = Inr db1"
    and res: "audited_state t aid (Some a) db1 = Inr (s, db')"
    by (auto simp: set_legal_hold_def bindE_Inr Let_def split: if_split_asm)
  show ?thesis
    using retention_event_view [where P = P, OF ev res assms(2,3)]
      update_view(1) [where P = P, OF assms(2)] by simp
qed

lemma stage_trash_view:
  assumes "stage_trash sha t c key actor now (Some a) eid aid db = Inr (s, db')"
    and "\<not> P t" and "\<not> P (ac_target_id a)"
  shows "retention_view P db' = retention_view P db"
proof (cases "audited_state t aid (Some a) db = Inr (s, db')")
  case True
  from this assms(3) show ?thesis by (rule audited_state_view)
next
  case False
  with assms(1) obtain us ty det dg db1 where
    ev: "append_retention_event eid t (Some c) key dg actor ty det us
      (update_target t (\<lambda>r. r\<lparr>tg_updated_at := us\<rparr>)
        (update_copy t c (\<lambda>k. k\<lparr>cp_state := TrashStaged, cp_staged_at := Some us\<rparr>) db)) = Inr db1"
    and res: "audited_state t aid (Some a) db1 = Inr (s, db')"
    by (auto simp: stage_trash_def bindE_Inr Let_def split: if_split_asm)
  show ?thesis
    using retention_event_view [where P = P, OF ev res assms(2,3)]
      update_view [where P = P, OF assms(2)] by simp
qed

lemma attest_deleted_view:
  assumes "attest_deleted sha t c receipt key actor now (Some a) eid aid db = Inr (s, db')"
    and "\<not> P t" and "\<not> P (ac_target_id a)"
  shows "retention_view P db' = retention_view P db"
proof (cases "audited_state t aid (Some a) db = Inr (s, db')")
  case True
  from this assms(3) show ?thesis by (rule audited_state_view)
next
  case False
  with assms(1) obtain us ty det dg completed db1 where
    ev: "append_retention_event eid t (Some c) key dg actor ty det us
      (update_target t (\<lambda>r. r\<lparr>tg_completed_at :=
          (case tg_completed_at r of None \<Rightarrow> completed | Some x \<Rightarrow> Some x), tg_updated_at := us\<rparr>)
        (update_copy t c (\<lambda>k. k\<lparr>cp_state := CopyDeleted, cp_deleted_at := Some us,
             cp_receipt := Some receipt\<rparr>) db)) = Inr db1"
    and res: "audited_state t aid (Some a) db1 = Inr (s, db')"
    by (auto simp: attest_deleted_def bindE_Inr Let_def split: if_split_asm)
  show ?thesis
    using retention_event_view [where P = P, OF ev res assms(2,3)]
      update_view [where P = P, OF assms(2)] by simp
qed

lemma retention_reads_view:
  assumes "\<not> P (ac_target_id a)"
  shows "get_target t (Some a) aid db = Inr (v, db') \<Longrightarrow> retention_view P db' = retention_view P db"
    and "list_scoped_overdue p now (Some a) aid db = Inr (vs, db') \<Longrightarrow>
      retention_view P db' = retention_view P db"
    and "append_retention_audit_event aid a db = Inr (n, db') \<Longrightarrow>
      retention_view P db' = retention_view P db"
  using assms
  by (auto simp: get_target_def list_scoped_overdue_def append_retention_audit_event_def bindE_Inr
      dest: retention_audit_view [of _ a _ _ _ P] split: if_splits option.splits)

section \<open>What a call keeps\<close>

definition of_scope :: "scope \<Rightarrow> string \<Rightarrow> bool" where
  "of_scope s k = startswith k (key_version @ segment (tenant_id s) @ segment (workspace_id s))"

definition service_view :: "scope \<Rightarrow> service_state \<Rightarrow> service_state" where
  "service_view s st =
     \<lparr>sv_control = control_view (of_scope s) (sv_control st),
      sv_retention = map_option (retention_view (of_scope s)) (sv_retention st)\<rparr>"

lemma prefix_segment: "prefix (segment a) (segment b @ v) \<longleftrightarrow> a = b"
  using prefix_segment_append [of a "[]" b v] by simp

lemma of_scope_qualified: "qualify s kind x = Inr k \<Longrightarrow> of_scope s' k \<longleftrightarrow> s' = s"
  using scope.equality [of s s']
  by (auto simp: flow of_scope_def startswith_prefix prefix_segment_append prefix_segment)

lemma of_scope_prefix: "s' \<noteq> s \<Longrightarrow>
  \<not> of_scope s' (key_version @ segment (tenant_id s) @ segment (workspace_id s) @ x)"
  using scope.equality [of s s']
  by (auto simp: of_scope_def startswith_prefix prefix_segment_append prefix_segment)

definition keeps :: "scope \<Rightarrow> 'a call \<Rightarrow> bool" where
  "keeps s m = (\<forall>st. service_view s (snd (m st)) = service_view s st)"

lemma keeps_result [simp]: "keeps s (result r)"
  by (simp add: keeps_def)

lemma keeps_bind:
  assumes "keeps s m" and "\<And>x st st1. m st = (Inr x, st1) \<Longrightarrow> keeps s (f x)"
  shows "keeps s (bindS m f)"
proof -
  have "service_view s (snd (bindS m f st)) = service_view s st" for st
  proof (cases "m st")
    case (Pair r st1)
    then have v: "service_view s st1 = service_view s st" using assms(1) by (metis keeps_def snd_conv)
    show ?thesis
    proof (cases r)
      case (Inr x)
      with Pair assms(2) have "keeps s (f x)" by blast
      with Pair Inr v show ?thesis by (simp add: bindS_def keeps_def)
    qed (use Pair v in \<open>simp add: bindS_def\<close>)
  qed
  then show ?thesis by (simp add: keeps_def)
qed

lemma keeps_result_bind: "(\<And>x. r = Inr x \<Longrightarrow> keeps s (f x)) \<Longrightarrow> keeps s (bindS (result r) f)"
  by (rule keeps_bind) auto

lemma keeps_read_bind: "(\<And>x. keeps s (f x)) \<Longrightarrow> keeps s (bindS (read_control body) f)"
  by (rule keeps_bind) (auto simp: keeps_def)

lemma keeps_control:
  assumes "\<And>db r db'. body db = Inr (r, db') \<Longrightarrow>
    control_view (of_scope s) db' = control_view (of_scope s) db"
  shows "keeps s (in_control body)"
  using assms by (auto simp: keeps_def in_control_def transaction_def service_view_def
      split: sum.splits prod.splits)

lemma keeps_retention:
  assumes "\<And>db r db'. body db = Inr (r, db') \<Longrightarrow>
    retention_view (of_scope s) db' = retention_view (of_scope s) db"
  shows "keeps s (in_retention body)"
proof -
  have "service_view s (snd (in_retention body st)) = service_view s st" for st
  proof (cases "sv_retention st")
    case (Some db)
    show ?thesis
    proof (cases "body db")
      case (Inr x)
      then obtain r db' where "body db = Inr (r, db')" by (cases x) simp
      with assms [OF this] Some show ?thesis
        by (simp add: in_retention_def transaction_def service_view_def)
    qed (simp add: in_retention_def transaction_def service_view_def Some)
  qed (simp add: in_retention_def)
  then show ?thesis by (simp add: keeps_def)
qed

lemma keeps_control_bind:
  assumes "\<And>db r db'. body db = Inr (r, db') \<Longrightarrow>
    control_view (of_scope s) db' = control_view (of_scope s) db" and "\<And>x. keeps s (f x)"
  shows "keeps s (bindS (in_control body) f)"
  using assms keeps_control by (intro keeps_bind) blast+

lemma keeps_retention_bind:
  assumes "\<And>db r db'. body db = Inr (r, db') \<Longrightarrow>
    retention_view (of_scope s) db' = retention_view (of_scope s) db" and "\<And>x. keeps s (f x)"
  shows "keeps s (bindS (in_retention body) f)"
  using assms keeps_retention by (intro keeps_bind) blast+

lemma audit_target_scope:
  "audit_context_for s p action target correlation key res t = Inr a \<Longrightarrow> s' \<noteq> s \<Longrightarrow>
   \<not> of_scope s' (ac_target_id a)"
  using of_scope_qualified by (auto simp: flow)

lemma keeps_authorize:
  assumes "principal_scope p \<noteq> Some s'"
  shows "keeps s' (authorize env p action target correlation key chk)"
proof -
  have foreign: "s' \<noteq> s" if "require_scope p = Inr s" for s
    using assms that by (auto simp: flow)
  show ?thesis
    unfolding authorize_def
  proof (rule keeps_result_bind, goal_cases)
    case (1 s)
    note other = audit_target_scope [OF _ foreign [OF 1]]
    have "keeps s' (\<lambda>st. if sv_retention st \<noteq> None \<and> RetentionSteward \<in> roles p
         then bindS (in_retention (append_retention_audit_event (ce_audit_id env) a))
           (\<lambda>_. result (Inr ())) st
         else bindS (in_control (append_audit_event (ce_audit_id env) a))
           (\<lambda>_. result (Inr ())) st)"
      if "audit_context_for s p action target correlation key ''denied'' (ce_clock env) = Inr a" for a
    proof -
      have "keeps s' (bindS (in_retention (append_retention_audit_event (ce_audit_id env) a))
           (\<lambda>_. result (Inr ())))"
        by (rule keeps_retention_bind)
          (auto dest: retention_reads_view(3) [where P = "of_scope s'", OF other [OF that]])
      moreover have "keeps s' (bindS (in_control (append_audit_event (ce_audit_id env) a))
           (\<lambda>_. result (Inr ())))"
        by (rule keeps_control_bind)
          (auto dest: append_audit_event_view [where P = "of_scope s'", OF _ other [OF that]])
      ultimately show ?thesis by (simp add: keeps_def)
    qed
    then show ?case by (auto intro!: keeps_result_bind keeps_bind)
  qed
qed

lemma keeps_authorize_bind:
  assumes "principal_scope p \<noteq> Some s'"
    and "\<And>a. \<not> of_scope s' (ac_target_id a) \<Longrightarrow> keeps s' (f a)"
  shows "keeps s' (bindS (authorize env p action target correlation key chk) f)"
proof (rule keeps_bind [OF keeps_authorize [OF assms(1)]])
  fix a st st1 assume "authorize env p action target correlation key chk st = (Inr a, st1)"
  then obtain s where "require_scope p = Inr s"
    "audit_context_for s p action target correlation key ''accepted'' (ce_clock env) = Inr a"
    by (auto simp: calls)
  then show "keeps s' (f a)"
    using assms audit_target_scope by (auto simp: require_scope_Inr)
qed

lemma keeps_authorize_retention_bind:
  assumes "principal_scope p \<noteq> Some s'"
    and "\<And>a. \<not> of_scope s' (ac_target_id a) \<Longrightarrow> keeps s' (f a)"
  shows "keeps s' (bindS (authorize_retention env p action target correlation key) f)"
proof (rule keeps_bind)
  show "keeps s' (authorize_retention env p action target correlation key)"
    unfolding authorize_retention_def
  proof (rule keeps_bind)
    show "keeps s' require_retention" by (simp add: keeps_def)
    show "keeps s' (bindS (result (require_scope p)) (\<lambda>s.
     if require_action p action = Inr ()
     then result (audit_context_for s p action target correlation key ''accepted'' (ce_clock env))
     else
       bindS (result (audit_context_for s p action target correlation key ''denied'' (ce_clock env)))
         (\<lambda>audit.
       bindS (in_retention (append_retention_audit_event (ce_audit_id env) audit)) (\<lambda>_.
       result (Inl AuthorizationDeniedError)))))"
    proof (rule keeps_result_bind, goal_cases)
      case (1 s)
      then have "s' \<noteq> s" using assms(1) by (auto simp: require_scope_Inr)
      then have "retention_view (of_scope s') db' = retention_view (of_scope s') db"
        if "audit_context_for s p action target correlation key ''denied'' (ce_clock env) = Inr a"
          "append_retention_audit_event (ce_audit_id env) a db = Inr (n, db')" for a n db db'
        using retention_reads_view(3) [where P = "of_scope s'" and a = a,
            OF audit_target_scope [OF that(1)] that(2)] by blast
      then show ?case by (auto intro!: keeps_result_bind keeps_retention_bind)
    qed
  qed
  fix a st st1 assume "authorize_retention env p action target correlation key st = (Inr a, st1)"
  then obtain s where "require_scope p = Inr s"
    "audit_context_for s p action target correlation key ''accepted'' (ce_clock env) = Inr a"
    by (auto simp: calls)
  then show "keeps s' (f a)"
    using assms audit_target_scope by (auto simp: require_scope_Inr)
qed

section \<open>All operations\<close>

text \<open>One request of each operation of the service, its action, and the service's answer to it.\<close>

datatype service_request =
    RegisterJob string string string "string option"
  | Acquire string int string "string option"
  | Heartbeat lease int string "string option"
  | Complete lease string string string
  | AppendReview string string string "(string \<times> json) list" "(string \<times> json) list option" string
  | AuthorizeCandidate string string string string
  | AppendCandidate review_call
  | ListReviews string string int int
  | ReadReview string string
  | ListAudit string int int
  | ReadAudit string string
  | RegisterRetention string "(string \<times> string) list list" string string
  | ReadRetention string string
  | SetHold string bool "string option" string string
  | StageTrash string string string string
  | AttestDelete string string string string string
  | ListOverdue string

fun request_action :: "service_request \<Rightarrow> control_action" where
  "request_action (RegisterJob _ _ _ _) = JobRegister"
| "request_action (Acquire _ _ _ _) = JobAcquire"
| "request_action (Heartbeat _ _ _ _) = JobHeartbeat"
| "request_action (Complete _ _ _ _) = JobComplete"
| "request_action (AppendReview _ _ _ _ _ _) = ReviewAppend"
| "request_action (AuthorizeCandidate _ _ _ _) = ReviewAppend"
| "request_action (AppendCandidate _) = ReviewAppend"
| "request_action (ListReviews _ _ _ _) = ReviewRead"
| "request_action (ReadReview _ _) = ReviewRead"
| "request_action (ListAudit _ _ _) = AuditRead"
| "request_action (ReadAudit _ _) = AuditRead"
| "request_action (RegisterRetention _ _ _ _) = RetentionRegister"
| "request_action (ReadRetention _ _) = RetentionRead"
| "request_action (SetHold _ _ _ _ _) = RetentionHold"
| "request_action (StageTrash _ _ _ _) = RetentionStageTrash"
| "request_action (AttestDelete _ _ _ _ _) = RetentionAttestDelete"
| "request_action (ListOverdue _) = RetentionRead"

definition answered :: "'a call \<Rightarrow> unit call" where
  "answered m = bindS m (\<lambda>_. result (Inr ()))"

text \<open>\<open>self\<close> is the identity of the service and \<open>limit\<close> the lease limit of its store.\<close>

fun serve ::
  "nat \<Rightarrow> nat \<Rightarrow> (string \<Rightarrow> string) \<Rightarrow> call_env \<Rightarrow> principal \<Rightarrow> service_request \<Rightarrow> unit call" where
  "serve self limit sha env p (RegisterJob j d c k) = answered (service_register_job env p j d c k)"
| "serve self limit sha env p (Acquire j ttl c k) = answered (service_acquire limit env p j ttl c k)"
| "serve self limit sha env p (Heartbeat l ttl c k) = answered (service_heartbeat env p l ttl c k)"
| "serve self limit sha env p (Complete l k d c) = answered (service_complete env p l k d c)"
| "serve self limit sha env p (AppendReview t k s prov det c) =
     answered (service_append_review sha env p t k s prov det c)"
| "serve self limit sha env p (AuthorizeCandidate pub t c k) =
     answered (authorize_candidate_review self env p pub t c k)"
| "serve self limit sha env p (AppendCandidate q) = answered (append_candidate_review self sha env p q)"
| "serve self limit sha env p (ListReviews t c n l) = answered (service_list_reviews sha env p t c n l)"
| "serve self limit sha env p (ReadReview t c) = answered (service_read_review sha env p t c)"
| "serve self limit sha env p (ListAudit c n l) = answered (service_list_audit_events env p c n l)"
| "serve self limit sha env p (ReadAudit e c) = answered (service_read_audit_event env p e c)"
| "serve self limit sha env p (RegisterRetention t cs c k) =
     answered (register_retention sha env p t cs c k)"
| "serve self limit sha env p (ReadRetention t c) = answered (read_retention env p t c)"
| "serve self limit sha env p (SetHold t h r c k) = answered (set_retention_hold sha env p t h r c k)"
| "serve self limit sha env p (StageTrash t i c k) = answered (stage_retention_trash sha env p t i c k)"
| "serve self limit sha env p (AttestDelete t i d c k) =
     answered (attest_retention_delete sha env p t i d c k)"
| "serve self limit sha env p (ListOverdue c) = answered (list_overdue_retention env p c)"

lemma keeps_answered [simp]: "keeps s m \<Longrightarrow> keeps s (answered m)"
  by (simp add: answered_def keeps_bind)

lemma foreign_key:
  "qualify s kind x = Inr k \<Longrightarrow> require_scope p = Inr s \<Longrightarrow> principal_scope p \<noteq> Some s' \<Longrightarrow>
   \<not> of_scope s' k"
  using of_scope_qualified by (auto simp: require_scope_Inr)

lemma foreign_lease:
  "qualified_lease s l = Inr l' \<Longrightarrow> require_scope p = Inr s \<Longrightarrow> principal_scope p \<noteq> Some s' \<Longrightarrow>
   \<not> of_scope s' (l_job_id l')"
  using foreign_key by (fastforce simp: qualified_lease_def bindE_Inr)

lemmas keeps_intros =
  keeps_result keeps_answered keeps_result_bind keeps_read_bind keeps_authorize_bind
  keeps_authorize_retention_bind

lemma register_job_keeps:
  "principal_scope p \<noteq> Some s' \<Longrightarrow> keeps s' (service_register_job env p j d c k)"
  unfolding service_register_job_def
  by (auto intro!: keeps_intros keeps_control_bind
      dest: foreign_key foreign_lease register_job_view [where P = "of_scope s'"])

lemma acquire_keeps:
  "principal_scope p \<noteq> Some s' \<Longrightarrow> keeps s' (service_acquire limit env p j ttl c k)"
  unfolding service_acquire_def
  by (auto intro!: keeps_intros keeps_control_bind
      dest: foreign_key foreign_lease acquire_view [where P = "of_scope s'"])

lemma heartbeat_keeps:
  "principal_scope p \<noteq> Some s' \<Longrightarrow> keeps s' (service_heartbeat env p l ttl c k)"
  unfolding service_heartbeat_def Let_def
  by (auto intro!: keeps_intros keeps_control_bind
      dest: foreign_key foreign_lease heartbeat_view [where P = "of_scope s'"])

lemma complete_keeps:
  "principal_scope p \<noteq> Some s' \<Longrightarrow> keeps s' (service_complete env p l key d c)"
  unfolding service_complete_def Let_def
  by (auto intro!: keeps_intros keeps_control_bind
      dest: foreign_key foreign_lease complete_view [where P = "of_scope s'"])

lemma append_review_keeps:
  "principal_scope p \<noteq> Some s' \<Longrightarrow> keeps s' (service_append_review sha env p t key st prov det c)"
  unfolding service_append_review_def
  by (auto intro!: keeps_intros keeps_control_bind
      dest: foreign_key foreign_lease append_review_event_view [where P = "of_scope s'"])

lemma scope_key_value:
  "scope_key (Some (ScopeValue s)) = Inr k \<Longrightarrow>
     k = key_version @ segment (tenant_id s) @ segment (workspace_id s)"
  by (auto simp: scope_key_def flow split: if_splits)

lemma candidate_request_scope:
  assumes "prepare_candidate_event (candidate_request_of s p q pub t content full src) = Inr (v, ev, time)"
    and "s' \<noteq> s"
  shows "\<not> of_scope s' (cv_qualified_target v)"
proof -
  have "scope_key (Some (ScopeValue s)) = Inr (cv_scope_key v)"
    using prepare_candidate_fields(2) [OF assms(1)]
    by (simp add: candidate_request_of_def first_given_def)
  moreover have "qualify_scope_key (cv_scope_key v) ''review_target'' (cv_review_target_id v) =
      Inr (cv_qualified_target v)"
    using prepare_candidate_fields(3) [OF assms(1)] .
  ultimately show ?thesis
    using of_scope_prefix [OF assms(2), of "segment ''review_target'' @ segment (cv_review_target_id v)"]
    by (auto dest!: scope_key_value simp: qualify_scope_key_def bindE_Inr)
qed

lemma append_candidate_keeps:
  assumes "principal_scope p \<noteq> Some s'"
  shows "keeps s' (append_candidate_review self sha env p q)"
proof -
  have capability: "\<not> of_scope s' (ac_target_id a)"
    if "validate_candidate_review_capability self cap p pub t c k = Inr a" for cap pub t c k a
  proof -
    from that obtain s where "require_scope p = Inr s" "qualify s ''audit_target'' t = Inr (ac_target_id a)"
      by (auto simp: validate_candidate_review_capability_def Let_def bindE_Inr conflict_unless_Inr)
    then show ?thesis using foreign_key [OF _ _ assms] by blast
  qed
  have foreign: "s' \<noteq> s" if "require_scope p = Inr s" for s
    using assms that by (auto simp: require_scope_Inr)
  have core: "keeps s' (bindS (in_control (append_candidate_review_event sha
      (candidate_request_of s p q pub t content full src) clock (Some a) eid aid)) (\<lambda>e. result (public_review_event s e)))"
    if "require_scope p = Inr s" "\<not> of_scope s' (ac_target_id a)" for s pub t content full src clock a eid aid
    using append_candidate_review_event_view [where P = "of_scope s'", OF _ candidate_request_scope [OF _ foreign [OF that(1)]] that(2)]
    by (intro keeps_control_bind keeps_result)
  show ?thesis
  proof (cases "rv_capability q")
    case None
    then show ?thesis
      unfolding append_candidate_review_def Let_def
      by (auto intro!: keeps_intros core simp: assms split: option.splits)
  next
    case (Some cap)
    then show ?thesis
      unfolding append_candidate_review_def Let_def
      by (auto intro!: keeps_intros keeps_bind core dest!: capability simp: assms bindS_Inr split: option.splits)
  qed
qed

lemma reads_keep:
  assumes "principal_scope p \<noteq> Some s'"
  shows "keeps s' (authorize_candidate_review self env p pub t c k)"
    and "keeps s' (read_candidate_review sha env p t1 t2 c)"
    and "keeps s' (service_list_reviews sha env p t c n l)"
    and "keeps s' (service_read_review sha env p t c)"
    and "keeps s' (service_list_audit_events env p c n l)"
    and "keeps s' (service_read_audit_event env p e c)"
proof -
  show "keeps s' (authorize_candidate_review self env p pub t c k)"
    unfolding authorize_candidate_review_def by (auto intro!: keeps_intros simp: assms)
  have read: "keeps s' (read_candidate_review sha env p t1 t2 c)" for t1 t2
    unfolding read_candidate_review_def
    by (auto intro!: keeps_intros simp: assms split: option.splits)
  show "keeps s' (read_candidate_review sha env p t1 t2 c)" by (rule read)
  show "keeps s' (service_list_reviews sha env p t c n l)"
    unfolding service_list_reviews_def by (auto intro!: keeps_intros simp: assms)
  show "keeps s' (service_read_review sha env p t c)"
    unfolding service_read_review_def by (auto intro!: keeps_intros read simp: assms)
  show "keeps s' (service_list_audit_events env p c n l)"
    unfolding service_list_audit_events_def by (auto intro!: keeps_intros simp: assms)
  show "keeps s' (service_read_audit_event env p e c)"
    unfolding service_read_audit_event_def by (auto intro!: keeps_intros simp: assms)
qed

lemma retention_keeps:
  assumes "principal_scope p \<noteq> Some s'"
  shows "keeps s' (register_retention sha env p t cs c k)"
    and "keeps s' (read_retention env p t c)"
    and "keeps s' (set_retention_hold sha env p t h r c k)"
    and "keeps s' (stage_retention_trash sha env p t i c k)"
    and "keeps s' (attest_retention_delete sha env p t i d c k)"
    and "keeps s' (list_overdue_retention env p c)"
proof -
  note views = register_target_view [where P = "of_scope s'"] set_legal_hold_view [where P = "of_scope s'"]
    stage_trash_view [where P = "of_scope s'"] attest_deleted_view [where P = "of_scope s'"]
    retention_reads_view [where P = "of_scope s'"]
  note key = foreign_key [OF _ _ assms]
  show "keeps s' (register_retention sha env p t cs c k)"
    unfolding register_retention_def
    by (auto intro!: keeps_intros keeps_retention_bind simp: assms dest: key views)
  show "keeps s' (read_retention env p t c)"
    unfolding read_retention_def
    by (auto intro!: keeps_intros keeps_retention_bind simp: assms dest: key views)
  show "keeps s' (set_retention_hold sha env p t h r c k)"
    unfolding set_retention_hold_def
    by (auto intro!: keeps_intros keeps_retention_bind simp: assms dest: key views)
  show "keeps s' (stage_retention_trash sha env p t i c k)"
    unfolding stage_retention_trash_def
    by (auto intro!: keeps_intros keeps_retention_bind simp: assms dest: key views)
  show "keeps s' (attest_retention_delete sha env p t i d c k)"
    unfolding attest_retention_delete_def
    by (auto intro!: keeps_intros keeps_retention_bind simp: assms dest: key views)
  show "keeps s' (list_overdue_retention env p c)"
    unfolding list_overdue_retention_def
    by (auto intro!: keeps_intros keeps_retention_bind simp: assms dest: key views)
qed

lemma serve_keeps:
  assumes "principal_scope p \<noteq> Some s'"
  shows "keeps s' (serve self limit sha env p q)"
  by (cases q) (simp_all add: assms register_job_keeps acquire_keeps heartbeat_keeps complete_keeps
      append_review_keeps append_candidate_keeps reads_keep retention_keeps)

text \<open>C35: No tenant can write into another. Whatever a principal asks of the service, and whatever the
  outcome, every job, lease event, review event, projection, retention target, copy, retention event and
  audit row of every other tenant and workspace stays exactly as it is, and in its place.\<close>

theorem tenants_are_isolated:
  assumes "principal_scope p \<noteq> Some s'" and "serve self limit sha env p q st = (r, st')"
  shows "service_view s' st' = service_view s' st"
  using serve_keeps [OF assms(1)] assms(2) unfolding keeps_def by (metis snd_conv)

end
