(* ===== verification/Candidate_Agreement.thy ===== *)
theory Candidate_Agreement
  imports Review_Ledger
begin

text \<open>
  The writer of candidate events and the validator that every candidate read runs agree: an event
  that the guarded writer accepts is one that the validator accepts, provided its stored key is at
  most 512 characters long and its time is in the range in which the conversion through floats is
  exact. Both provisos are needed, as the last two properties show.
\<close>

section \<open>Stored JSON\<close>

definition norm_dict :: "(string \<times> json) list \<Rightarrow> (string \<times> json) list" where
  "norm_dict d = sort_key fst (map (\<lambda>(k, v). (k, normalize v)) d)"

lemma normalize_JObj: "normalize (JObj d) = JObj (norm_dict d)"
  by (simp add: norm_dict_def)

lemma jget_norm_dict: "distinct (map fst d) \<Longrightarrow> jget (norm_dict d) k = map_option normalize (jget d k)"
  unfolding norm_dict_def by (rule jget_normalize)

lemma json_object_canonical:
  "distinct_keys (JObj d) \<Longrightarrow> json_object (canonical_json (JObj d)) = Inr (norm_dict d)"
  unfolding json_object_def canonical_json_def by (subst loads_dumps) (simp_all add: norm_dict_def)

lemma review_content_digest_norm:
  "review_content_digest sha t a s (norm_dict p) (norm_dict d) = review_content_digest sha t a s p d"
proof -
  have "normalize (JObj (norm_dict x)) = normalize (JObj x)" for x
    using normalize_idem [of "JObj x"] by (simp only: normalize_JObj)
  then show ?thesis
    unfolding review_content_digest_def canonical_json_def dumps_def
    by (simp only: normalize.simps(6) list.map prod.case normalize.simps(4))
qed

lemma py_eq_refl [simp]: "py_eq a a" "py_eq_opt x x"
  by (simp_all add: py_eq_def py_eq_opt_def)

lemma py_eq_JStr: "py_eq x (JStr s) \<longleftrightarrow> x = JStr s"
  by (cases x) (auto simp: py_eq_def)

lemma py_eq_JNull: "py_eq x JNull \<longleftrightarrow> x = JNull"
  by (cases x) (auto simp: py_eq_def)

lemma py_eq_JInt: "check_prior_version x = Inr () \<Longrightarrow> py_eq x (JInt i) \<longleftrightarrow> x = JInt i"
  by (cases x) (auto simp: py_eq_def check_prior_version_def)

section \<open>Keys, times and bounded values\<close>

lemma scope_key_valid: "scope_key x = Inr key \<Longrightarrow> valid_scope_key key"
  by (auto simp: scope_key_def flow split: option.splits scope_arg.splits if_splits)

lemma publication_key_skill:
  "parse_publication_key v = Some skill \<Longrightarrow> v = publication_prefix @ skill"
  by (auto simp: parse_publication_key_def Let_def startswith_prefix prefix_def publication_prefix_def
      split: if_splits)

lemma idempotency_prefix_nonblank: "nonblank (idempotency_prefix key @ x)"
  by (simp add: idempotency_prefix_def segment_def nonblank_append is_space_def code_def)

lemma candidate_key_stable:
  assumes "candidate_idempotency_key key plain qualified = Inr k" and "length k \<le> 512"
  shows "candidate_idempotency_key key (Some k) (Some k) = Inr k"
proof -
  let ?p = "idempotency_prefix key"
  from assms(1) obtain selected where
    given: "(if qualified = None \<or> qualified = Some [] then plain else qualified) = Some selected"
    and sel: "nonblank selected" "length selected \<le> 512"
    and k: "startswith selected ?p \<and> k = selected \<or>
      \<not> startswith selected ?p \<and> k = ?p @ segment selected"
    by (auto simp: candidate_idempotency_key_def Let_def split: if_splits option.splits)
  show ?thesis
  proof (cases "startswith selected ?p")
    case True
    then have "k = selected" using k by simp
    with True assms(1) given sel nonblank_not_Nil [OF sel(1)] show ?thesis
      by (simp add: candidate_idempotency_key_def Let_def split: if_splits)
  next
    case False
    then have k': "k = ?p @ segment selected" using k by simp
    have "find_from CHR '':'' 0 (segment selected) = Some (length (nat_str (length selected)))"
      using find_from_append [of "nat_str (length selected)" "[]" selected]
      by (simp add: segment_def)
    moreover have "0 < length selected" using sel(1) nonblank_not_Nil by blast
    moreover have "nonblank k" "k \<noteq> []"
      unfolding k' using idempotency_prefix_nonblank nonblank_not_Nil by blast+
    ultimately show ?thesis
      using sel assms(2) nat_str_digits [of "length selected"]
      unfolding k'
      by (simp add: candidate_idempotency_key_def Let_def startswith_def segment_def Suc_le_eq)
  qed
qed

lemma validate_server_time_ok:
  assumes "in_range w" and "to_micros (utc w) = Inr us" and "from_micros us = Inr (utc w)"
  shows "validate_server_time (iso_utc w) us = Inr ()"
proof -
  have "iso_utc w \<noteq> []" "last (iso_utc w) = CHR ''Z''"
    by (simp_all add: iso_utc_def Let_def split: prod.splits)
  moreover have "server_time_text (utc w) = Inr (iso_utc w)"
    using assms(1) by (simp add: server_time_text_def astimezone_utc_def)
  ultimately show ?thesis
    using assms by (simp add: validate_server_time_def read_iso_utc)
qed

lemma bounded_value_stable:
  assumes "bounded_review_value e = Inr v" and "distinct_keys e"
  shows "normalize v = v" "distinct_keys v" "bounded_review_value v = Inr v"
proof -
  have v: "v = JNull \<or> v = normalize e \<and> utf8_length (canonical_json v) \<le> max_review_evidence_bytes"
    using assms by (auto simp: bounded_review_value_def flow canonical_json_def loads_dumps
        split: if_splits)
  then show norm: "normalize v = v" by auto
  show dist: "distinct_keys v" using v assms(2) by (auto simp: distinct_keys_normalize)
  have "loads (canonical_json v) = Inr v"
    using loads_dumps [OF dist, of False] norm by (simp add: canonical_json_def)
  with v show "bounded_review_value v = Inr v"
    by (auto simp: bounded_review_value_def)
qed

section \<open>The stored payload\<close>

lemma jget_lifecycle_provenance:
  "jget (lifecycle_provenance v ps pv pe st) ''source'' = Some (JStr ''candidate_publication_review'')"
  "jget (lifecycle_provenance v ps pv pe st) ''artifact_id'' = Some (JStr (cv_publication_key v))"
  "jget (lifecycle_provenance v ps pv pe st) ''revision'' = Some (JStr (cv_schema_version v))"
  "jget (lifecycle_provenance v ps pv pe st) ''sha256'' = Some (JStr (cv_content_sha256 v))"
  "jget (lifecycle_provenance v ps pv pe st) ''scope'' = Some (JStr (cv_scope_key v))"
  "jget (lifecycle_provenance v ps pv pe st) ''publication_key'' = Some (JStr (cv_publication_key v))"
  "jget (lifecycle_provenance v ps pv pe st) ''review_target_id'' = Some (JStr (cv_review_target_id v))"
  "jget (lifecycle_provenance v ps pv pe st) ''schema_version'' = Some (JStr (cv_schema_version v))"
  "jget (lifecycle_provenance v ps pv pe st) ''candidate_id'' = Some (JStr (cv_skill_id v))"
  "jget (lifecycle_provenance v ps pv pe st) ''skill_id'' = Some (JStr (cv_skill_id v))"
  "jget (lifecycle_provenance v ps pv pe st) ''content_sha256'' = Some (JStr (cv_content_sha256 v))"
  "jget (lifecycle_provenance v ps pv pe st) ''full_sha256'' = Some (JStr (cv_full_sha256 v))"
  "jget (lifecycle_provenance v ps pv pe st) ''source_result_sha256'' = Some (JStr (cv_source_result_sha256 v))"
  "jget (lifecycle_provenance v ps pv pe st) ''destination_status'' = Some (JStr (cv_status v))"
  "jget (lifecycle_provenance v ps pv pe st) ''expected_prior_state'' = Some (ps)"
  "jget (lifecycle_provenance v ps pv pe st) ''expected_prior_version'' = Some (pv)"
  "jget (lifecycle_provenance v ps pv pe st) ''expected_prior_event_id'' = Some (pe)"
  "jget (lifecycle_provenance v ps pv pe st) ''reviewer_id'' = Some (JStr (cv_actor_id v))"
  "jget (lifecycle_provenance v ps pv pe st) ''server_reviewer_id'' = Some (JStr (cv_actor_id v))"
  "jget (lifecycle_provenance v ps pv pe st) ''server_utc_time'' = Some (JStr st)"
  "jget (lifecycle_provenance v ps pv pe st) ''qualified_idempotency_key'' = Some (JStr (cv_qualified_key v))"
  by (simp_all add: jget_def lifecycle_provenance_def lifecycle_fields_def)

lemma jget_lifecycle_detail:
  "jget (lifecycle_detail v reason evidence ps pv pe st) ''lifecycle_schema_version'' = Some (JStr candidate_lifecycle_version)"
  "jget (lifecycle_detail v reason evidence ps pv pe st) ''status'' = Some (JStr (cv_status v))"
  "jget (lifecycle_detail v reason evidence ps pv pe st) ''reason'' = Some (reason)"
  "jget (lifecycle_detail v reason evidence ps pv pe st) ''evidence'' = Some (evidence)"
  "jget (lifecycle_detail v reason evidence ps pv pe st) ''scope'' = Some (JStr (cv_scope_key v))"
  "jget (lifecycle_detail v reason evidence ps pv pe st) ''publication_key'' = Some (JStr (cv_publication_key v))"
  "jget (lifecycle_detail v reason evidence ps pv pe st) ''review_target_id'' = Some (JStr (cv_review_target_id v))"
  "jget (lifecycle_detail v reason evidence ps pv pe st) ''schema_version'' = Some (JStr (cv_schema_version v))"
  "jget (lifecycle_detail v reason evidence ps pv pe st) ''candidate_id'' = Some (JStr (cv_skill_id v))"
  "jget (lifecycle_detail v reason evidence ps pv pe st) ''skill_id'' = Some (JStr (cv_skill_id v))"
  "jget (lifecycle_detail v reason evidence ps pv pe st) ''content_sha256'' = Some (JStr (cv_content_sha256 v))"
  "jget (lifecycle_detail v reason evidence ps pv pe st) ''full_sha256'' = Some (JStr (cv_full_sha256 v))"
  "jget (lifecycle_detail v reason evidence ps pv pe st) ''source_result_sha256'' = Some (JStr (cv_source_result_sha256 v))"
  "jget (lifecycle_detail v reason evidence ps pv pe st) ''destination_status'' = Some (JStr (cv_status v))"
  "jget (lifecycle_detail v reason evidence ps pv pe st) ''expected_prior_state'' = Some (ps)"
  "jget (lifecycle_detail v reason evidence ps pv pe st) ''expected_prior_version'' = Some (pv)"
  "jget (lifecycle_detail v reason evidence ps pv pe st) ''expected_prior_event_id'' = Some (pe)"
  "jget (lifecycle_detail v reason evidence ps pv pe st) ''reviewer_id'' = Some (JStr (cv_actor_id v))"
  "jget (lifecycle_detail v reason evidence ps pv pe st) ''server_reviewer_id'' = Some (JStr (cv_actor_id v))"
  "jget (lifecycle_detail v reason evidence ps pv pe st) ''server_utc_time'' = Some (JStr st)"
  "jget (lifecycle_detail v reason evidence ps pv pe st) ''qualified_idempotency_key'' = Some (JStr (cv_qualified_key v))"
  by (simp_all add: jget_def lifecycle_detail_def lifecycle_fields_def)

lemma lifecycle_keys_distinct:
  "distinct (map fst (lifecycle_provenance v ps pv pe st))"
  "distinct (map fst (lifecycle_detail v reason evidence ps pv pe st))"
  by (simp_all add: lifecycle_provenance_def lifecycle_detail_def lifecycle_fields_def)

lemmas lifecycle_lookup =
  jget_norm_dict [OF lifecycle_keys_distinct(1)] jget_norm_dict [OF lifecycle_keys_distinct(2)]
  jget_lifecycle_provenance jget_lifecycle_detail

lemma lifecycle_event_valid:
  assumes target: "parse_candidate_target (cv_review_target_id v) = Some (skill, cv_content_sha256 v)"
    and publication: "parse_publication_key (cv_publication_key v) = Some skill"
    and skill: "cv_skill_id v = skill" and scope: "valid_scope_key (cv_scope_key v)"
    and qtarget: "qualify_scope_key (cv_scope_key v) ''review_target'' (cv_review_target_id v) =
      Inr (rr_target_id ev)"
    and schema: "cv_schema_version v = ''1.0''"
    and digests: "sha256_pattern (cv_content_sha256 v)" "sha256_pattern (cv_full_sha256 v)"
      "sha256_pattern (cv_source_result_sha256 v)"
    and actor: "reviewer_id_pattern (cv_actor_id v)"
    and key: "candidate_idempotency_key (cv_scope_key v) (Some (cv_qualified_key v))
      (Some (cv_qualified_key v)) = Inr (cv_qualified_key v)"
    and reason: "validate_reason (Some reason) ControlConflictError = Inr ()"
    and evidence: "normalize evidence = evidence" "bounded_review_value evidence = Inr evidence"
    and time: "validate_server_time st (rr_occurred_at ev) = Inr ()"
    and row: "rr_actor_id ev = cv_actor_id v" "rr_status ev = cv_status v"
      "rr_idempotency_key ev = cv_qualified_key v"
    and prior: "ps = JStr state" "pv = JInt (int version)"
      "pe = (case event_id of None \<Rightarrow> JNull | Some i \<Rightarrow> JStr i)"
  shows "validate_candidate_lifecycle_event ev
    (norm_dict (lifecycle_provenance v ps pv pe st))
    (norm_dict (lifecycle_detail v reason evidence ps pv pe st)) state version event_id = Inr ()"
proof -
  have pub: "cv_publication_key v = publication_prefix @ skill" "nonblank (cv_publication_key v)"
    using publication_key_skill [OF publication]
    by (simp_all add: publication_prefix_def nonblank_append is_space_def code_def)
  have reason': "normalize reason = reason"
    using reason by (cases reason) (simp_all add: validate_reason_def)
  have pe: "normalize pe = pe" "py_eq_opt (Some pe) (map_option JStr event_id)"
    by (simp_all add: prior(3) py_eq_opt_def split: option.splits)
  show ?thesis
    unfolding validate_candidate_lifecycle_event_def
    by (simp add: jhas_iff str_field_def str_or_conflict_def text_field_def required_bindings_def
        lifecycle_lookup validate_review_provenance_def require_sha256_def target publication skill
        scope qtarget schema digests actor key row pub(2) reason' pe evidence time prior(1,2)
        pub(1) [symmetric] unset_or_def reason is_space_def code_def)
qed

section \<open>Histories\<close>

lemma validate_history_append:
  "validate_history sha t i s e (xs @ [r]) =
     bindE (validate_history sha t i s e xs) (\<lambda>_.
     validate_history_event sha t (i + length xs) (last_status s (map rr_status xs))
       (if xs = [] then e else Some (rr_event_id (last xs))) r)"
proof (induction xs arbitrary: i s e)
  case (Cons x xs)
  then show ?case
    by (cases "validate_history_event sha t i s e x") (auto simp: last_status_def last_map)
qed (simp add: last_status_def bindE_def split: sum.splits)

lemma lifecycle_distinct_keys:
  assumes "distinct_keys evidence" "distinct_keys reason" "distinct_keys ps" "distinct_keys pv"
    "distinct_keys pe"
  shows "distinct_keys (JObj (lifecycle_provenance v ps pv pe st))"
    "distinct_keys (JObj (lifecycle_detail v reason evidence ps pv pe st))"
  using assms lifecycle_keys_distinct
  by (auto simp: lifecycle_provenance_def lifecycle_detail_def lifecycle_fields_def)

text \<open>The current state, validated, gives a valid history to extend.\<close>

lemma current_state_history:
  assumes "current_candidate_state sha t db = Inr (state, version, event_id)"
  shows "validate_history sha t 0 ''unreviewed'' None (target_events t db) = Inr ()"
proof (cases "find_projection t db")
  case None
  with assms have "target_events t db = []"
    by (auto simp: current_candidate_state_def Let_def split: if_splits)
  then show ?thesis by simp
next
  case (Some p)
  then have "pr_target_id p = t" by (auto simp: find_projection_def dest!: find_SomeD)
  with Some assms show ?thesis
    by (auto simp: current_candidate_state_def Let_def validate_candidate_projection_def bindE_Inr
        split: if_splits)
qed

text \<open>The payload of an event that is not in the older shape.\<close>

lemma payload_Inr:
  assumes "candidate_event_payload sha v reason evidence (Some ps) (Some pv) (Some pe) (utc w) =
      Inr (digest, pj, dj)" and "cv_legacy v = None" and "in_range w"
  shows "check_prior_version pv = Inr ()"
    "pj = canonical_json (JObj (lifecycle_provenance v ps pv pe (iso_utc w)))"
    "dj = canonical_json (JObj (lifecycle_detail v reason evidence ps pv pe (iso_utc w)))"
    "digest = review_content_digest sha (cv_qualified_target v) (cv_actor_id v) (cv_status v)
      (lifecycle_provenance v ps pv pe (iso_utc w))
      (lifecycle_detail v reason evidence ps pv pe (iso_utc w))"
  using assms
  by (auto simp: candidate_event_payload_def bindE_Inr unset_or_def Let_def server_time_text_def
      astimezone_utc_def)

text \<open>A projection whose history is valid and whose last event it copies is valid.\<close>

lemma projection_valid:
  assumes "validate_history sha (pr_target_id p) 0 ''unreviewed'' None (es @ [r]) = Inr ()"
    and "is_candidate_review_target (pr_target_id p)" and "row_of_projection r p"
    and "pr_version p = Suc (length es)" and "rr_status r \<in> set review_statuses"
    and "find (\<lambda>x. rr_event_id x = rr_event_id r) (review_events db) = Some r"
    and "row_intact sha r"
  shows "validate_candidate_projection sha db p (es @ [r]) = Inr ()"
  using assms
  by (auto simp: validate_candidate_projection_def validate_candidate_rows_def row_of_projection_def
      row_intact_def)

lemma find_new_event:
  "\<forall>x \<in> set es. rr_event_id x \<noteq> rr_event_id r \<Longrightarrow>
   find (\<lambda>x. rr_event_id x = rr_event_id r) (es @ [r]) = Some r"
  by (induction es) auto

lemma review_event_from_row_fields:
  "review_event_from_row sha r = Inr ev \<Longrightarrow>
   re_idempotency_key ev = rr_idempotency_key r \<and> re_target_id ev = rr_target_id r \<and>
   re_status ev = rr_status r \<and> re_actor_id ev = rr_actor_id r \<and> re_event_id ev = rr_event_id r"
  by (auto simp: review_event_from_row_def bindE_Inr)

text \<open>The JSON columns and the digest of a row, for a given lifecycle payload.\<close>

definition stored_as ::
  "(string \<Rightarrow> string) \<Rightarrow> (string \<times> json) list \<Rightarrow> (string \<times> json) list \<Rightarrow> review_row \<Rightarrow> bool" where
  "stored_as sha provenance detail r =
     (rr_provenance_json r = canonical_json (JObj provenance) \<and>
      rr_detail_json r = canonical_json (JObj detail) \<and>
      rr_content_digest r =
        review_content_digest sha (rr_target_id r) (rr_actor_id r) (rr_status r) provenance detail)"

lemma stored_as_loads:
  assumes "stored_as sha provenance detail r" "distinct_keys (JObj provenance)"
    "distinct_keys (JObj detail)"
  shows "json_object (rr_provenance_json r) = Inr (norm_dict provenance)"
    "json_object (rr_detail_json r) = Inr (norm_dict detail)"
    "rr_content_digest r = review_content_digest sha (rr_target_id r) (rr_actor_id r) (rr_status r)
      (norm_dict provenance) (norm_dict detail)"
  using assms by (simp_all add: stored_as_def json_object_canonical review_content_digest_norm)

definition prior_json :: "string \<Rightarrow> nat \<Rightarrow> string option \<Rightarrow> json \<Rightarrow> json \<Rightarrow> json \<Rightarrow> bool" where
  "prior_json state version event_id ps pv pe =
     (ps = JStr state \<and> pv = JInt (int version) \<and>
      pe = (case event_id of None \<Rightarrow> JNull | Some i \<Rightarrow> JStr i))"

lemma expected_prior_values:
  assumes "validate_expected_prior state version event_id ps pv pe = Inr ()"
    and "check_prior_version pv = Inr ()"
  shows "prior_json state version event_id ps pv pe"
  using assms py_eq_JInt
  by (auto simp: prior_json_def validate_expected_prior_def bindE_Inr require_Inr py_eq_JStr
      py_eq_JNull split: option.splits)

text \<open>One new candidate event at an exact time \<open>m\<close>: what was stored.\<close>

lemma append_candidate_fresh:
  assumes "append_candidate_review_event sha q clock audit eid aid db = Inr (ev, db')"
    and prep: "prepare_candidate_event q = Inr (v, evidence, t)"
    and fresh: "find_event_by_key (re_idempotency_key ev) db = None"
    and seq: "sequence_ok rr_sequence (review_events db)" and leg: "cv_legacy v = None"
    and time: "resolve_review_time t clock = Inr (utc m)" "to_micros (utc m) = Inr us" "in_range m"
  obtains state version event_id ps pv pe r p where
    "current_candidate_state sha (cv_qualified_target v) db = Inr (state, version, event_id)"
    "legal_candidate_transition state (cv_status v)"
    "event_appended db r p db'" "pr_version p = version + 1" "row_intact sha r"
    "review_event_from_row sha r = Inr ev"
    "rr_event_id r = eid" "rr_target_id r = cv_qualified_target v"
    "rr_idempotency_key r = cv_qualified_key v" "rr_actor_id r = cv_actor_id v"
    "rr_status r = cv_status v" "rr_occurred_at r = us"
    "prior_json state version event_id ps pv pe"
    "stored_as sha (lifecycle_provenance v ps pv pe (iso_utc m))
      (lifecycle_detail v (unset_or (cq_reason q) JNull) evidence ps pv pe (iso_utc m)) r"
proof -
  have new: "find_event_by_key (cv_qualified_key v) db = None"
  proof (cases "find_event_by_key (cv_qualified_key v) db")
    case (Some existing)
    with assms(1) prep have "review_event_from_row sha existing = Inr ev"
      by (auto simp: append_candidate_review_event_def bindE_Inr replay_candidate_event_def Let_def
          split: option.splits)
    moreover have "rr_idempotency_key existing = cv_qualified_key v"
      using Some by (auto simp: find_event_by_key_def dest!: find_SomeD)
    ultimately show ?thesis using fresh review_event_from_row_fields by metis
  qed
  from assms(1) prep new time obtain state version event_id ps pv pe dg pj dj db1 r
    where cur: "current_candidate_state sha (cv_qualified_target v) db = Inr (state, version, event_id)"
    and prior: "validate_expected_prior state version event_id ps pv pe = Inr ()"
    and legal: "legal_candidate_transition state (cv_status v)"
    and pay: "candidate_event_payload sha v (unset_or (cq_reason q) JNull) evidence (Some ps)
        (Some pv) (Some pe) (utc m) = Inr (dg, pj, dj)"
    and ins: "insert_review_event \<lparr>rr_sequence = next_sequence rr_sequence (review_events db),
        rr_event_id = eid, rr_target_id = cv_qualified_target v,
        rr_idempotency_key = cv_qualified_key v, rr_content_digest = dg,
        rr_actor_id = cv_actor_id v, rr_status = cv_status v, rr_provenance_json = pj,
        rr_detail_json = dj, rr_occurred_at = us\<rparr> db = Inr db1"
    and aud: "control_audit aid audit (upsert_projection
        \<lparr>pr_target_id = cv_qualified_target v, pr_status = cv_status v, pr_version = version + 1,
         pr_last_event_id = eid, pr_actor_id = cv_actor_id v, pr_provenance_json = pj,
         pr_detail_json = dj, pr_occurred_at = us\<rparr> db1) = Inr db'"
    and row: "event_row_at (next_sequence rr_sequence (review_events db)) db' = Inr r"
    and ev: "review_event_from_row sha r = Inr ev"
    by (auto simp: append_candidate_review_event_def bindE_Inr Let_def conflict_unless_Inr)
  let ?p = "\<lparr>pr_target_id = cv_qualified_target v, pr_status = cv_status v, pr_version = version + 1,
     pr_last_event_id = eid, pr_actor_id = cv_actor_id v, pr_provenance_json = pj,
     pr_detail_json = dj, pr_occurred_at = us\<rparr>"
  let ?r = "\<lparr>rr_sequence = next_sequence rr_sequence (review_events db),
    rr_event_id = eid, rr_target_id = cv_qualified_target v,
    rr_idempotency_key = cv_qualified_key v, rr_content_digest = dg,
    rr_actor_id = cv_actor_id v, rr_status = cv_status v, rr_provenance_json = pj,
    rr_detail_json = dj, rr_occurred_at = us\<rparr>"
  have events: "review_events db' = review_events db @ [?r]"
    using ins control_audit_reviews [OF aud] by (simp add: insert_review_event_Inr)
  have r: "r = ?r"
    using row find_last_sequence [OF seq, of ?r] by (simp add: event_row_at_Inr events)
  note payload = payload_Inr [OF pay leg time(3)]
  have appended: "event_appended db ?r ?p db'"
    using ins events control_audit_reviews [OF aud]
    by (auto simp: insert_review_event_Inr event_appended_def row_of_projection_def)
  have stored: "stored_as sha (lifecycle_provenance v ps pv pe (iso_utc m))
      (lifecycle_detail v (unset_or (cq_reason q) JNull) evidence ps pv pe (iso_utc m)) ?r"
    using payload by (simp add: stored_as_def)
  show thesis
    by (rule that [OF cur legal appended _ _ _ _ _ _ _ _ _ expected_prior_values [OF prior payload(1)]
          stored])
      (use ev r review_event_from_row_intact [OF ev] in simp_all)
qed

text \<open>The payload of a prepared event has distinct keys throughout.\<close>

lemma prepared_reason:
  assumes "prepare_candidate_event q = Inr (v, evidence, t)"
  shows "validate_reason (Some (unset_or (cq_reason q) JNull)) ControlConflictError = Inr ()"
    "distinct_keys (unset_or (cq_reason q) JNull)"
  using prepare_candidate_fields(11) [OF assms]
  by (auto simp: validate_reason_def unset_or_def require_Inr split: option.splits json.splits)

lemma prepared_evidence:
  assumes "prepare_candidate_event q = Inr (v, evidence, t)"
    and "distinct_keys (case cq_evidence q of None \<Rightarrow> JNull | Some e \<Rightarrow> e)"
  shows "normalize evidence = evidence" "distinct_keys evidence"
    "bounded_review_value evidence = Inr evidence"
proof -
  have "bounded_review_value (case cq_evidence q of None \<Rightarrow> JNull | Some e \<Rightarrow> e) = Inr evidence"
    using prepare_candidate_fields(12) [OF assms(1)]
    by (cases "cq_evidence q") (simp_all add: bounded_review_value_def)
  from bounded_value_stable [OF this assms(2)] show "normalize evidence = evidence"
    "distinct_keys evidence" "bounded_review_value evidence = Inr evidence" .
qed

lemma stored_payload_distinct:
  assumes "prepare_candidate_event q = Inr (v, evidence, t)"
    and "prior_json state version event_id ps pv pe"
    and "distinct_keys (case cq_evidence q of None \<Rightarrow> JNull | Some e \<Rightarrow> e)"
  shows "distinct_keys (JObj (lifecycle_provenance v ps pv pe st))"
    "distinct_keys (JObj (lifecycle_detail v (unset_or (cq_reason q) JNull) evidence ps pv pe st))"
proof -
  have "distinct_keys ps" "distinct_keys pv" "distinct_keys pe"
    using assms(2) by (simp_all add: prior_json_def split: option.splits)
  then show "distinct_keys (JObj (lifecycle_provenance v ps pv pe st))"
    "distinct_keys (JObj (lifecycle_detail v (unset_or (cq_reason q) JNull) evidence ps pv pe st))"
    using lifecycle_distinct_keys prepared_evidence(2) [OF assms(1,3)]
      prepared_reason(2) [OF assms(1)] by blast+
qed

text \<open>Such an event passes the turn of the validation loop that reads it.\<close>

lemma new_event_valid:
  assumes prep: "prepare_candidate_event q = Inr (v, evidence, t)"
    and stored: "stored_as sha (lifecycle_provenance v ps pv pe (iso_utc m))
      (lifecycle_detail v (unset_or (cq_reason q) JNull) evidence ps pv pe (iso_utc m)) r"
    and prior: "prior_json state version event_id ps pv pe"
    and row: "rr_target_id r = cv_qualified_target v" "rr_idempotency_key r = cv_qualified_key v"
      "rr_actor_id r = cv_actor_id v" "rr_status r = cv_status v" "rr_occurred_at r = us"
    and uuid: "uuid_pattern (rr_event_id r)" and short: "length (rr_idempotency_key r) \<le> 512"
    and legal: "legal_candidate_transition state (cv_status v)"
    and keys: "distinct_keys (case cq_evidence q of None \<Rightarrow> JNull | Some e \<Rightarrow> e)"
    and time: "in_range m" "to_micros (utc m) = Inr us" "from_micros us = Inr (utc m)"
  shows "validate_history_event sha (cv_qualified_target v) version state event_id r = Inr ()"
proof -
  note f = prepare_candidate_fields [OF prep]
  define reason where "reason = unset_or (cq_reason q) JNull"
  let ?prov = "lifecycle_provenance v ps pv pe (iso_utc m)"
  let ?det = "lifecycle_detail v reason evidence ps pv pe (iso_utc m)"
  note evid = prepared_evidence [OF prep keys]
  note reason = prepared_reason [OF prep, folded reason_def]
  note loads = stored_as_loads [OF stored stored_payload_distinct [OF prep prior keys],
      folded reason_def]
  obtain skill where skill: "parse_candidate_target (cv_review_target_id v) =
      Some (skill, cv_content_sha256 v)" "parse_publication_key (cv_publication_key v) = Some skill"
      "cv_skill_id v = skill"
    using f(1) by blast
  have qt: "qualify_scope_key (cv_scope_key v) ''review_target'' (cv_review_target_id v) =
      Inr (rr_target_id r)"
    using f(3) row(1) by simp
  have key: "candidate_idempotency_key (cv_scope_key v) (Some (cv_qualified_key v))
      (Some (cv_qualified_key v)) = Inr (cv_qualified_key v)"
    using candidate_key_stable [OF f(4)] short row(2) by simp
  have vt: "validate_server_time (iso_utc m) (rr_occurred_at r) = Inr ()"
    using validate_server_time_ok [OF time] row(5) by simp
  have lifecycle: "validate_candidate_lifecycle_event r (norm_dict ?prov) (norm_dict ?det) state
      version event_id = Inr ()"
    by (rule lifecycle_event_valid [OF skill scope_key_valid [OF f(2)] qt f(5-8,10) key reason(1)
          evid(1,3) vt row(3,4,2)])
      (use prior in \<open>simp_all add: prior_json_def\<close>)
  have "list_ex (\<lambda>k. jhas (norm_dict ?det) k \<or> jhas (norm_dict ?prov) k) lifecycle_markers"
    by (simp add: lifecycle_markers_def jhas_iff lifecycle_lookup)
  with lifecycle loads row(1,4) uuid legal show ?thesis
    by (simp add: validate_history_event_def)
qed

section \<open>What a valid read implies\<close>

lemma case_pair_InrE:
  "(case x of None \<Rightarrow> Inl e | Some (a, b) \<Rightarrow> f a b) = Inr y \<Longrightarrow>
   (\<And>a b. x = Some (a, b) \<Longrightarrow> f a b = Inr y \<Longrightarrow> P) \<Longrightarrow> P"
  by (cases x) auto

lemma lifecycle_valid_key:
  assumes "validate_candidate_lifecycle_event r p d state version event_id = Inr ()"
    and "jget d ''qualified_idempotency_key'' = Some (JStr k)"
  shows "\<exists>key. candidate_idempotency_key key (Some (rr_idempotency_key r)) (Some k) =
    Inr (rr_idempotency_key r)"
  using assms(1) unfolding validate_candidate_lifecycle_event_def assms(2) option.case json.case
  by (elim bindE_InrE case_pair_InrE) (simp only: conflict_unless_Inr, blast)

lemma lifecycle_valid_time:
  assumes "validate_candidate_lifecycle_event r p d state version event_id = Inr ()"
    and "jget d ''server_utc_time'' = Some (JStr st)"
  shows "validate_server_time st (rr_occurred_at r) = Inr ()"
  using assms(1) unfolding validate_candidate_lifecycle_event_def
  by (elim bindE_InrE case_pair_InrE) (simp add: str_or_conflict_def str_field_def assms(2))

text \<open>A read that succeeds has validated every event of the target.\<close>

lemma validate_history_member:
  "validate_history sha t i s e rs = Inr () \<Longrightarrow> r \<in> set rs \<Longrightarrow>
   \<exists>k state event_id. validate_history_event sha t k state event_id r = Inr ()"
  by (induction rs arbitrary: i s e) (auto simp: bindE_Inr)

lemma read_validates:
  assumes "returns (get_candidate_review_projection sha t db)" and "r \<in> set (target_events t db)"
    and stored: "json_object (rr_provenance_json r) = Inr pr" "json_object (rr_detail_json r) = Inr d"
    and marker: "jhas d ''publication_key''"
  shows "\<exists>k state event_id. validate_candidate_lifecycle_event r pr d state k event_id = Inr ()"
proof -
  obtain p where "find_projection t db = Some p"
    and "validate_candidate_projection sha db p (target_events t db) = Inr ()"
    using assms(1,2)
    by (cases "find_projection t db") (auto simp: get_candidate_review_projection_def returns_iff bindE_Inr split: if_splits)
  then obtain k state event_id where "validate_history_event sha (pr_target_id p) k state event_id r = Inr ()"
    using assms(2) validate_history_member by (fastforce simp: validate_candidate_projection_def bindE_Inr)
  moreover have "list_ex (\<lambda>k. jhas d k \<or> jhas pr k) lifecycle_markers"
    using marker by (simp add: lifecycle_markers_def)
  ultimately show ?thesis
    using stored by (auto simp: validate_history_event_def bindE_Inr)
qed

text \<open>An accepted event stays in the history of its target.\<close>

lemma accepted_event_stays:
  assumes "(review_step sha)\<^sup>*\<^sup>* empty_db db"
    and "append_candidate_review_event sha q clock audit eid aid db = Inr (ev, db')"
    and "(review_step sha)\<^sup>*\<^sup>* db' db2" and "r \<in> set (target_events t db')"
  shows "r \<in> set (target_events t db2)"
proof -
  have "review_step sha db db'"
    by (rule candidate_step [of _ _ q clock audit eid aid]) (simp add: assms(2) transaction_def)
  with assms(1) have "review_wf sha db'"
    using review_table.reachable_inv [OF refl] by (meson rtranclp.rtrancl_into_rtrancl)
  then have "set (review_events db') \<subseteq> set (review_events db2)"
    using review_steps_log [OF assms(3)] set_mono_prefix by blast
  with assms(4) show ?thesis by (auto simp: target_events_def)
qed

text \<open>Progress: a prepared event that continues the current state is stored.\<close>

lemma prepared_provenance:
  assumes "prepare_candidate_event q = Inr (v, evidence, t)"
  shows "validate_review_provenance (lifecycle_provenance v ps pv pe st) = Inr ()"
proof -
  note f = prepare_candidate_fields [OF assms]
  obtain skill where "parse_publication_key (cv_publication_key v) = Some skill" using f(1) by blast
  then have "nonblank (cv_publication_key v)"
    using publication_key_skill [of "cv_publication_key v" skill]
    by (simp add: publication_prefix_def is_space_def code_def)
  then show ?thesis
    using f(5,6) by (simp add: validate_review_provenance_def text_field_def
        jget_lifecycle_provenance require_sha256_def is_space_def code_def)
qed

lemma candidate_event_accepted:
  assumes prep: "prepare_candidate_event q = Inr (v, evidence, t)"
    and new: "find_event_by_key (cv_qualified_key v) db = None"
    and fresh: "\<forall>x \<in> set (review_events db). eid \<noteq> rr_event_id x"
    and cur: "current_candidate_state sha (cv_qualified_target v) db = Inr (state, version, event_id)"
    and given: "cq_prior_state q = None" "cq_prior_version q = None" "cq_prior_event q = None"
    and legal: "legal_candidate_transition state (cv_status v)"
    and time: "resolve_review_time t clock = Inr (utc m)" "to_micros (utc m) = Inr us" "in_range m"
      "from_micros us = Inr n"
    and vals: "prior_json state version event_id ps pv pe" "check_prior_state ps = Inr ()"
      "check_prior_version pv = Inr ()" "check_prior_event pe = Inr ()"
    and leg: "cq_legacy_provenance q = None"
    and keys: "distinct_keys (case cq_evidence q of None \<Rightarrow> JNull | Some e \<Rightarrow> e)"
    and seq: "sequence_ok rr_sequence (review_events db)"
  shows "\<exists>ev db' p. append_candidate_review_event sha q clock None eid aid db = Inr (ev, db') \<and>
    re_idempotency_key ev = cv_qualified_key v \<and> re_target_id ev = cv_qualified_target v \<and>
    find_projection (cv_qualified_target v) db' = Some p \<and> pr_status p = cv_status v"
proof -
  note f = prepare_candidate_fields [OF prep]
  let ?prov = "lifecycle_provenance v ps pv pe (iso_utc m)"
  let ?det = "lifecycle_detail v (unset_or (cq_reason q) JNull) evidence ps pv pe (iso_utc m)"
  let ?r = "\<lparr>rr_sequence = next_sequence rr_sequence (review_events db), rr_event_id = eid,
    rr_target_id = cv_qualified_target v, rr_idempotency_key = cv_qualified_key v,
    rr_content_digest = review_content_digest sha (cv_qualified_target v) (cv_actor_id v)
      (cv_status v) ?prov ?det,
    rr_actor_id = cv_actor_id v, rr_status = cv_status v,
    rr_provenance_json = canonical_json (JObj ?prov),
    rr_detail_json = canonical_json (JObj ?det), rr_occurred_at = us\<rparr>"
  let ?p = "\<lparr>pr_target_id = cv_qualified_target v, pr_status = cv_status v, pr_version = version + 1,
    pr_last_event_id = eid, pr_actor_id = cv_actor_id v,
    pr_provenance_json = canonical_json (JObj ?prov),
    pr_detail_json = canonical_json (JObj ?det), pr_occurred_at = us\<rparr>"
  have ps: "ps = JStr state" "pv = JInt (int version)"
      "pe = (case event_id of None \<Rightarrow> JNull | Some i \<Rightarrow> JStr i)"
    using vals(1) by (simp_all add: prior_json_def)
  have expected: "validate_expected_prior state version event_id ps pv pe = Inr ()"
    unfolding ps by (simp add: validate_expected_prior_def)
  have payload: "candidate_event_payload sha v (unset_or (cq_reason q) JNull) evidence (Some ps)
      (Some pv) (Some pe) (utc m) =
    Inr (rr_content_digest ?r, canonical_json (JObj ?prov), canonical_json (JObj ?det))"
    using f(14) [OF leg] vals(2-4) time(3) prepared_provenance [OF prep]
    by (simp add: candidate_event_payload_def unset_or_def Let_def server_time_text_def
        astimezone_utc_def)
  have insert: "insert_review_event ?r db = Inr (db\<lparr>review_events := review_events db @ [?r]\<rparr>)"
    using new fresh by (auto simp: insert_review_event_Inr find_event_by_key_def find_None_iff)
  have "stored_as sha ?prov ?det ?r" by (simp add: stored_as_def)
  note loads = stored_as_loads [OF this stored_payload_distinct [OF prep vals(1) keys]]
  obtain ev where ev: "review_event_from_row sha ?r = Inr ev"
    using loads time(4) by (simp add: review_event_from_row_def)
  have row: "event_row_at (next_sequence rr_sequence (review_events db))
      (upsert_projection ?p (db\<lparr>review_events := review_events db @ [?r]\<rparr>)) = Inr ?r"
    using find_last_sequence [OF seq, of ?r] by (simp add: event_row_at_Inr)
  have "append_candidate_review_event sha q clock None eid aid db =
      Inr (ev, upsert_projection ?p (db\<lparr>review_events := review_events db @ [?r]\<rparr>))"
    using prep new cur given legal time(1,2) payload insert row ev expected ps
    by (simp add: append_candidate_review_event_def unset_or_def Let_def)
  with review_event_from_row_fields [OF ev] show ?thesis by (simp add: find_projection_upsert)
qed

text \<open>What an accepted new event stores, at any time.\<close>

lemma accepted_event_stored:
  assumes "(review_step sha)\<^sup>*\<^sup>* empty_db db"
    and acc: "append_candidate_review_event sha q clock audit eid aid db = Inr (ev, db')"
    and fresh: "find_event_by_key (re_idempotency_key ev) db = None"
    and legacy: "cq_legacy_provenance q = None"
    and keys: "distinct_keys (case cq_evidence q of None \<Rightarrow> JNull | Some e \<Rightarrow> e)"
    and time: "resolve_review_time (first_given (cq_occurred_at q) (cq_now q)) clock = Inr (utc m)"
      "to_micros (utc m) = Inr us" "in_range m"
  shows "\<exists>r p pr d. find_projection (re_target_id ev) db' = Some p \<and>
    pr_target_id p = re_target_id ev \<and>
    target_events (re_target_id ev) db' = target_events (re_target_id ev) db @ [r] \<and>
    json_object (rr_provenance_json r) = Inr pr \<and> json_object (rr_detail_json r) = Inr d \<and>
    jhas d ''publication_key'' \<and>
    jget d ''qualified_idempotency_key'' = Some (JStr (re_idempotency_key ev)) \<and>
    jget d ''server_utc_time'' = Some (JStr (iso_utc m)) \<and>
    rr_idempotency_key r = re_idempotency_key ev \<and> rr_occurred_at r = us"
proof -
  have wf: "review_wf sha db" using review_table.reachable_inv [OF refl assms(1)] .
  from acc obtain v evidence t where prep: "prepare_candidate_event q = Inr (v, evidence, t)"
    by (auto simp: append_candidate_review_event_def bindE_Inr)
  note f = prepare_candidate_fields [OF prep]
  have seq: "sequence_ok rr_sequence (review_events db)" using wf by (simp add: review_wf_def)
  obtain state version event_id ps pv pe r p
    where app: "event_appended db r p db'" and ev: "review_event_from_row sha r = Inr ev"
    and row: "rr_target_id r = cv_qualified_target v" "rr_idempotency_key r = cv_qualified_key v"
      "rr_occurred_at r = us"
    and prior: "prior_json state version event_id ps pv pe"
    and stored: "stored_as sha (lifecycle_provenance v ps pv pe (iso_utc m))
      (lifecycle_detail v (unset_or (cq_reason q) JNull) evidence ps pv pe (iso_utc m)) r"
    by (rule append_candidate_fresh [OF acc prep fresh seq f(14) [OF legacy] time(1) [folded f(13)]
          time(2,3)])
  note dist = stored_payload_distinct [OF prep prior keys]
  note loads = stored_as_loads [OF stored dist]
  show ?thesis
    using event_appended_target [OF app, of "rr_target_id r"] app row loads
      review_event_from_row_fields [OF ev]
    by (auto simp: event_appended_def row_of_projection_def jhas_iff str_field_def lifecycle_lookup)
qed

section \<open>Properties\<close>

text \<open>C8: the writer and the validator of candidate events agree on lifecycle events. In any reachable
  state, let the guarded writer accept a request without legacy provenance, under a key that is not
  stored yet and a generated event id that is a UUID, with evidence whose objects repeat no key. Then the
  validated read of its target succeeds and returns that event's status, actor and id and the number
  of events of the target, if the stored idempotency key has at most 512 characters and the event
  time is in UTC and lies where the float conversion is exact (2005-09 to 2038-01).\<close>

theorem accepted_candidate_event_is_readable:
  assumes "(review_step sha)\<^sup>*\<^sup>* empty_db db"
    and acc: "append_candidate_review_event sha q clock audit eid aid db = Inr (ev, db')"
    and fresh: "find_event_by_key (re_idempotency_key ev) db = None"
    and legacy: "cq_legacy_provenance q = None" and uuid: "uuid_pattern eid"
    and keys: "distinct_keys (case cq_evidence q of None \<Rightarrow> JNull | Some e \<Rightarrow> e)"
    and short: "length (re_idempotency_key ev) \<le> 512"
    and time: "(case first_given (cq_occurred_at q) (cq_now q) of None \<Rightarrow> clock | Some d \<Rightarrow> d) = utc m"
    and era: "2 ^ 50 < m" "m < 2 ^ 31 * 1000000"
  shows "\<exists>p. get_candidate_review_projection sha (re_target_id ev) db' = Inr (Some p) \<and>
    rp_status p = re_status ev \<and> rp_actor_id p = re_actor_id ev \<and> rp_last_event_id p = eid \<and>
    rp_version p = length (target_events (re_target_id ev) db')"
proof -
  have wf: "review_wf sha db" using review_table.reachable_inv [OF refl assms(1)] .
  have range: "in_range m" using era by (simp add: in_range_def min_wall_def max_wall_def)
  have us: "to_micros (utc m) = Inr m" "from_micros m = Inr (utc m)"
    using era by (simp_all add: to_micros_exact_era from_micros_exact_era)
  from acc obtain v evidence t where prep: "prepare_candidate_event q = Inr (v, evidence, t)"
    by (auto simp: append_candidate_review_event_def bindE_Inr)
  note f = prepare_candidate_fields [OF prep]
  have clock: "resolve_review_time t clock = Inr (utc m)"
    using time us f(13) by (simp add: resolve_review_time_def)
  have seq: "sequence_ok rr_sequence (review_events db)" using wf by (simp add: review_wf_def)
  obtain state version event_id ps pv pe r p
    where cur: "current_candidate_state sha (cv_qualified_target v) db = Inr (state, version, event_id)"
    and legal: "legal_candidate_transition state (cv_status v)"
    and app: "event_appended db r p db'" and pver: "pr_version p = version + 1"
    and intact: "row_intact sha r" and ev: "review_event_from_row sha r = Inr ev"
    and row: "rr_event_id r = eid" "rr_target_id r = cv_qualified_target v"
      "rr_idempotency_key r = cv_qualified_key v" "rr_actor_id r = cv_actor_id v"
      "rr_status r = cv_status v" "rr_occurred_at r = m"
    and prior: "prior_json state version event_id ps pv pe"
    and stored: "stored_as sha (lifecycle_provenance v ps pv pe (iso_utc m))
      (lifecycle_detail v (unset_or (cq_reason q) JNull) evidence ps pv pe (iso_utc m)) r"
    by (rule append_candidate_fresh [OF acc prep fresh seq f(14) [OF legacy] clock us(1) range])
  have valid_r: "validate_history_event sha (cv_qualified_target v) version state event_id r = Inr ()"
    by (rule new_event_valid [OF prep stored prior row(2-6) _ _ legal keys range us])
      (use uuid row short review_event_from_row_fields [OF ev] in simp_all)
  let ?es = "target_events (cv_qualified_target v) db"
  have pwf: "projection_wf db (cv_qualified_target v)" using wf by (simp add: review_wf_def)
  note state = current_state_wf [OF pwf cur]
  have hist: "validate_history sha (cv_qualified_target v) 0 ''unreviewed'' None (?es @ [r]) = Inr ()"
    using current_state_history [OF cur] state valid_r by (simp add: validate_history_append)
  have pt: "pr_target_id p = cv_qualified_target v" "row_of_projection r p"
    using app row(2) by (auto simp: event_appended_def row_of_projection_def)
  have target: "is_candidate_review_target (cv_qualified_target v)"
    by (rule prepare_candidate_target [OF prep])
  have found: "find (\<lambda>x. rr_event_id x = rr_event_id r) (review_events db') = Some r"
    using app find_new_event by (auto simp: event_appended_def)
  have valid: "validate_candidate_projection sha db' p (?es @ [r]) = Inr ()"
    by (rule projection_valid [OF _ _ pt(2) _ _ found intact])
      (use hist pt(1) pver state(1) f(9) target row(5) in simp_all)
  obtain pp dd where loaded: "json_object (rr_provenance_json r) = Inr pp"
      "json_object (rr_detail_json r) = Inr dd"
    using intact by (auto simp: row_intact_def)
  show ?thesis
    using valid event_appended_target [OF app, of "cv_qualified_target v"] row state(1) target
      review_event_from_row_fields [OF ev] loaded us pt(2) pver
    by (simp add: get_candidate_review_projection_def review_projection_from_row_def
        row_of_projection_def)
qed

text \<open>The bound on the key is needed. In any reachable state, let the guarded writer accept a new
  lifecycle event (no legacy provenance, evidence whose objects repeat no key, a storable UTC time) under a
  stored key of more than 512 characters: the raw key has at most 512, the scope prefix is added to
  it. Then the target cannot be read back: the validated read of it fails in the state after the
  call and in every state reached from there.\<close>

theorem long_candidate_key_is_unreadable:
  assumes "(review_step sha)\<^sup>*\<^sup>* empty_db db"
    and acc: "append_candidate_review_event sha q clock audit eid aid db = Inr (ev, db')"
    and fresh: "find_event_by_key (re_idempotency_key ev) db = None"
    and legacy: "cq_legacy_provenance q = None"
    and keys: "distinct_keys (case cq_evidence q of None \<Rightarrow> JNull | Some e \<Rightarrow> e)"
    and long: "512 < length (re_idempotency_key ev)"
    and time: "resolve_review_time (first_given (cq_occurred_at q) (cq_now q)) clock = Inr (utc m)"
      "to_micros (utc m) = Inr us" "in_range m"
    and later: "(review_step sha)\<^sup>*\<^sup>* db' db2"
  shows "\<not> returns (get_candidate_review_projection sha (re_target_id ev) db2)"
proof
  assume ok: "returns (get_candidate_review_projection sha (re_target_id ev) db2)"
  obtain r pr d where new: "r \<in> set (target_events (re_target_id ev) db')"
    and read: "json_object (rr_provenance_json r) = Inr pr" "json_object (rr_detail_json r) = Inr d"
    and fields: "jhas d ''publication_key''"
      "jget d ''qualified_idempotency_key'' = Some (JStr (re_idempotency_key ev))"
      "rr_idempotency_key r = re_idempotency_key ev"
    using accepted_event_stored [OF assms(1-5) time] by fastforce
  note read = accepted_event_stays [OF assms(1) acc later new] read
  obtain key where "candidate_idempotency_key key (Some (rr_idempotency_key r))
      (Some (re_idempotency_key ev)) = Inr (rr_idempotency_key r)"
    using read_validates [OF ok read fields(1)] lifecycle_valid_key fields(2) by blast
  with long fields(3) show False
    by (auto simp: candidate_idempotency_key_def split: if_splits)
qed

text \<open>Exactness of the conversion is needed as well. In any reachable state, let the guarded writer
  accept a new lifecycle event (no legacy provenance, evidence whose objects repeat no key) whose UTC time comes
  back from the microsecond column as another one. Then the stored time and the time text disagree, and the
  validated read of the target fails in the state after the call and in every state reached
  from there.\<close>

theorem inexact_candidate_time_is_unreadable:
  assumes "(review_step sha)\<^sup>*\<^sup>* empty_db db"
    and acc: "append_candidate_review_event sha q clock audit eid aid db = Inr (ev, db')"
    and fresh: "find_event_by_key (re_idempotency_key ev) db = None"
    and legacy: "cq_legacy_provenance q = None"
    and keys: "distinct_keys (case cq_evidence q of None \<Rightarrow> JNull | Some e \<Rightarrow> e)"
    and time: "resolve_review_time (first_given (cq_occurred_at q) (cq_now q)) clock = Inr (utc m)"
      "to_micros (utc m) = Inr us" "in_range m"
    and lost: "from_micros us = Inr (utc n)" "in_range n" "n \<noteq> m"
    and later: "(review_step sha)\<^sup>*\<^sup>* db' db2"
  shows "\<not> returns (get_candidate_review_projection sha (re_target_id ev) db2)"
proof
  assume ok: "returns (get_candidate_review_projection sha (re_target_id ev) db2)"
  obtain r pr d where new: "r \<in> set (target_events (re_target_id ev) db')"
    and read: "json_object (rr_provenance_json r) = Inr pr" "json_object (rr_detail_json r) = Inr d"
    and fields: "jhas d ''publication_key''" "jget d ''server_utc_time'' = Some (JStr (iso_utc m))"
      "rr_occurred_at r = us"
    using accepted_event_stored [OF assms(1-5) time] by fastforce
  note read = accepted_event_stays [OF assms(1) acc later new] read
  have "validate_server_time (iso_utc m) us = Inr ()"
    using read_validates [OF ok read fields(1)] lifecycle_valid_time fields(2,3) by blast
  then have "iso_utc m = iso_utc n"
    using lost by (auto simp: validate_server_time_def bindE_Inr conflict_unless_Inr
        server_time_text_def astimezone_utc_def)
  with lost time(3) iso_utc_inject show False by simp
qed

end
