(* ===== verification/Candidate_Samples.thy ===== *)
theory Candidate_Samples
  imports Candidate_Agreement
begin

text \<open>
  Concrete requests at which the properties of the review ledger and of candidate events apply.
\<close>

definition sample_skill :: string where
  "sample_skill = ''00000000-0000-4000-8000-000000000001''"

definition sample_target :: string where
  "sample_target = candidate_prefix @ sample_skill @ '':sha256:'' @ sample_digest"

definition sample_request :: "string \<Rightarrow> candidate_request" where
  "sample_request key = \<lparr>cq_scope = Some (ScopeValue \<lparr>tenant_id = ''tenant_a'', workspace_id = ''workspace_a''\<rparr>),
     cq_server_scope = None, cq_publication_key = publication_prefix @ sample_skill,
     cq_review_target_id = Some sample_target, cq_target_id = None,
     cq_idempotency_key = Some key, cq_qualified_key = None, cq_actor_id = ''reviewer_one'',
     cq_status = Some ''approved'', cq_destination_status = None, cq_schema_version = ''1.0'',
     cq_candidate_id = None, cq_skill_id = None, cq_content_sha256 = sample_digest,
     cq_full_sha256 = sample_digest, cq_source_result_sha256 = sample_digest,
     cq_reason = None, cq_evidence = None, cq_prior_state = None, cq_prior_version = None,
     cq_prior_event = None, cq_occurred_at = None, cq_now = None,
     cq_legacy_provenance = None, cq_legacy_detail = None\<rparr>"

lemma to_micros_lossy_1: "to_micros (utc 2179350359847130) = Inr 2179350359847129"
proof -
  let ?q = "2179350359847130 / 1000000 :: rat"
  have "round_half_even (?q * 2097152) = 4570428965854128"
    by (rule round_half_even_near) simp
  then have x: "timestamp (utc 2179350359847130) = 4570428965854128 / 2097152"
    using f64_binade [of 31 ?q] by (simp add: timestamp_def)
  have "round_half_even (4570428965854128 / 2097152 * 1000000 * 4) = 8717401439388519"
    by (rule round_half_even_near) simp
  then have "f64 (4570428965854128 / 2097152 * 1000000) = 8717401439388519 / 4"
    using f64_binade [of 50 "4570428965854128 / 2097152 * 1000000"] by simp
  then show ?thesis
    by (simp add: to_micros_utc in_range_def min_wall_def max_wall_def x trunc_def floor_eq_iff)
qed

lemma to_micros_lossy_2: "to_micros (utc 2179350359847129) = Inr 2179350359847128"
proof -
  let ?q = "2179350359847129 / 1000000 :: rat"
  have "round_half_even (?q * 2097152) = 4570428965854126"
    by (rule round_half_even_near) simp
  then have x: "timestamp (utc 2179350359847129) = 4570428965854126 / 2097152"
    using f64_binade [of 31 ?q] by (simp add: timestamp_def)
  have "round_half_even (4570428965854126 / 2097152 * 1000000 * 4) = 8717401439388515"
    by (rule round_half_even_near) simp
  then have "f64 (4570428965854126 / 2097152 * 1000000) = 8717401439388515 / 4"
    using f64_binade [of 50 "4570428965854126 / 2097152 * 1000000"] by simp
  then show ?thesis
    by (simp add: to_micros_utc in_range_def min_wall_def max_wall_def x trunc_def floor_eq_iff)
qed


definition sample_prepared :: "candidate_event \<times> json \<times> datetime option \<Rightarrow> bool \<Rightarrow> bool" where
  "sample_prepared p long = (case p of (v, e, t) \<Rightarrow> e = JNull \<and> t = None \<and>
     cv_status v = ''approved'' \<and> (512 < length (cv_qualified_key v)) = long \<and>
     is_candidate_review_target (cv_qualified_target v))"

lemma sample_prepares:
  "\<exists>v. prepare_candidate_event (sample_request ''key'') = Inr (v, JNull, None) \<and> sample_prepared (v, JNull, None) False"
  "\<exists>v. prepare_candidate_event (sample_request (replicate 500 CHR ''k'')) = Inr (v, JNull, None) \<and> sample_prepared (v, JNull, None) True"
proof -
  have "case prepare_candidate_event (sample_request ''key'') of Inr p \<Rightarrow> sample_prepared p False | _ \<Rightarrow> False"
    by code_simp
  then show "\<exists>v. prepare_candidate_event (sample_request ''key'') = Inr (v, JNull, None) \<and> sample_prepared (v, JNull, None) False"
    by (auto simp: sample_prepared_def split: sum.splits)
  have "case prepare_candidate_event (sample_request (replicate 500 CHR ''k'')) of Inr p \<Rightarrow> sample_prepared p True | _ \<Rightarrow> False"
    by code_simp
  then show "\<exists>v. prepare_candidate_event (sample_request (replicate 500 CHR ''k'')) = Inr (v, JNull, None) \<and> sample_prepared (v, JNull, None) True"
    by (auto simp: sample_prepared_def split: sum.splits)
qed

text \<open>A first event of the sample target on an empty database, at time \<open>m\<close>.\<close>

lemma sample_accepted:
  assumes "prepare_candidate_event (sample_request key) = Inr (v, JNull, None)"
    and "sample_prepared (v, JNull, None) long"
    and "resolve_review_time None clock = Inr (utc m)" "to_micros (utc m) = Inr us" "in_range m"
      "from_micros us = Inr n"
  shows "\<exists>ev db' p. append_candidate_review_event sha (sample_request key) clock None sample_skill aid
      empty_db = Inr (ev, db') \<and> (512 < length (re_idempotency_key ev)) = long \<and>
    is_candidate_review_target (re_target_id ev) \<and>
    find_projection (re_target_id ev) db' = Some p \<and> pr_status p = ''approved'' \<and>
    (review_step sha)\<^sup>*\<^sup>* empty_db db'"
proof -
  obtain ev db' p where acc: "append_candidate_review_event sha (sample_request key) clock None
      sample_skill aid empty_db = Inr (ev, db')"
    and ev: "re_idempotency_key ev = cv_qualified_key v" "re_target_id ev = cv_qualified_target v"
      "find_projection (cv_qualified_target v) db' = Some p" "pr_status p = cv_status v"
    using candidate_event_accepted [OF assms(1), where db = empty_db and eid = sample_skill and
        sha = sha and state = "''unreviewed''" and version = 0 and event_id = None and clock = clock
        and m = m and us = us and n = n and aid = aid and ps = "JStr ''unreviewed''" and
        pv = "JInt 0" and pe = JNull] assms(2-6)
    by (fastforce simp: sample_request_def sample_prepared_def empty_db_def
      find_event_by_key_def current_candidate_state_def find_projection_def target_events_def
      legal_candidate_transition_def prior_json_def check_prior_state_def check_prior_version_def
      check_prior_event_def candidate_states_def sequence_ok_def)
  have "review_step sha empty_db db'"
    by (rule candidate_step [where q = "sample_request key" and clock = clock and eid = sample_skill
          and aid = aid and audit = None]) (simp add: acc transaction_def)
  with acc ev assms(2) show ?thesis by (auto simp: sample_prepared_def)
qed


lemma sample_era:
  "resolve_review_time None (utc 1700000000000000) = Inr (utc 1700000000000000)"
  "to_micros (utc 1700000000000000) = Inr 1700000000000000" "in_range 1700000000000000"
  "from_micros 1700000000000000 = Inr (utc 1700000000000000)"
  by (simp_all add: resolve_review_time_def to_micros_exact_era from_micros_exact_era in_range_def
      min_wall_def max_wall_def)

lemma sample_first_event:
  obtains ev db' p where
    "append_candidate_review_event sha (sample_request ''key'') (utc 1700000000000000) None
      sample_skill aid empty_db = Inr (ev, db')"
    "length (re_idempotency_key ev) \<le> 512" "is_candidate_review_target (re_target_id ev)"
    "find_projection (re_target_id ev) db' = Some p" "pr_status p = ''approved''"
    "(review_step sha)\<^sup>*\<^sup>* empty_db db'"
proof -
  obtain v where v: "prepare_candidate_event (sample_request ''key'') = Inr (v, JNull, None)"
    "sample_prepared (v, JNull, None) False"
    using sample_prepares(1) by (elim exE conjE)
  from sample_accepted [OF v sample_era, of sha aid] show ?thesis
    by (elim exE conjE) (rule that, simp_all)
qed

lemma sample_request_simps [simp]:
  "cq_legacy_provenance (sample_request key) = None" "cq_evidence (sample_request key) = None"
  "cq_occurred_at (sample_request key) = None" "cq_now (sample_request key) = None"
  by (simp_all add: sample_request_def)

definition sample_provenance :: "(string \<times> json) list" where
  "sample_provenance = [(''source'', JStr ''s''), (''artifact_id'', JStr ''a''),
     (''revision'', JStr ''r''), (''sha256'', JStr sample_digest)]"

lemma sample_ordinary_event:
  "\<exists>ev db'. append_review_event sha ''t'' ''k'' ''actor'' ''pending'' sample_provenance []
    (utc 1700000000000000) None ''e'' ''a'' empty_db = Inr (ev, db')"
proof -
  have fields: "nonblank ''t''" "nonblank ''k''" "nonblank ''actor''" "\<not> is_candidate_review_target ''t''"
    "text_field sample_provenance ''source''" "text_field sample_provenance ''artifact_id''"
    "text_field sample_provenance ''revision''"
    "jget sample_provenance ''sha256'' = Some (JStr sample_digest)" "sha256_pattern sample_digest"
    by code_simp+
  have json: "json_object (canonical_json (JObj sample_provenance)) = Inr (norm_dict sample_provenance)"
    "json_object (canonical_json (JObj [])) = Inr (norm_dict [])"
    by (rule json_object_canonical; simp add: sample_provenance_def)+
  show ?thesis
    using json sample_era
    by (simp add: append_review_event_def require_text_def is_space_def code_def fields Let_def find_event_by_key_def
        empty_db_def insert_review_event_def insert_row_def next_sequence_def upsert_projection_def
        event_row_at_def control_audit_def append_audit_def review_event_from_row_def
        review_statuses_def find_projection_def)
qed

end
