(* ===== verification/Service_Properties.thy ===== *)
theory Service_Properties
  imports Tenant_Isolation Candidate_Samples
begin

text \<open>
  Evidence, denial, capabilities and disclosure: the properties of the control service beside the
  isolation of tenants.
\<close>

section \<open>Evidence of every change\<close>

text \<open>A row that names the caller and the action; how a row can have been added.\<close>

definition row_names :: "principal \<Rightarrow> control_action \<Rightarrow> string \<Rightarrow> audit_row \<Rightarrow> bool" where
  "row_names p act res r =
     (ar_subject_id r = subject p \<and> ar_action r = action_value act \<and> ar_result r = res)"

definition control_row :: "audit_row \<Rightarrow> service_state \<Rightarrow> service_state \<Rightarrow> bool" where
  "control_row r st st' =
     (sv_retention st' = sv_retention st \<and>
      audit_events (sv_control st') = audit_events (sv_control st) @ [r])"

definition retention_row :: "audit_row \<Rightarrow> service_state \<Rightarrow> service_state \<Rightarrow> bool" where
  "retention_row r st st' =
     (sv_control st' = sv_control st \<and>
      (\<exists>db db'. sv_retention st = Some db \<and> sv_retention st' = Some db' \<and>
        retention_audits db' = retention_audits db @ [r]))"

definition without_audits :: "service_state \<Rightarrow> service_state" where
  "without_audits st =
     \<lparr>sv_control = (sv_control st)\<lparr>audit_events := []\<rparr>,
      sv_retention = map_option (\<lambda>db. db\<lparr>retention_audits := []\<rparr>) (sv_retention st)\<rparr>"

definition evidenced :: "principal \<Rightarrow> control_action \<Rightarrow> 'a call \<Rightarrow> bool" where
  "evidenced p act m = (\<forall>st r st'. m st = (r, st') \<longrightarrow> st' = st \<or>
     (\<exists>row. (control_row row st st' \<or> retention_row row st st') \<and>
       (row_names p act ''accepted'' row \<or>
        row_names p act ''denied'' row \<and> r = Inl AuthorizationDeniedError \<and>
          without_audits st' = without_audits st)))"

lemma evidenced_result [simp]: "evidenced p act (result r)"
  by (simp add: evidenced_def)

lemma bindS_pure:
  assumes "\<And>x st r st1. m st = (Inr x, st1) \<Longrightarrow> snd (f x st1) = st1" and "bindS m f st = (r, st')"
  shows "snd (m st) = st'"
  using assms by (auto simp: bindS_def split: prod.splits sum.splits) (metis snd_conv)+

lemma evidenced_state:
  assumes "\<And>st. snd (m st) = st" and "\<And>x st st1. m st = (Inr x, st1) \<Longrightarrow> evidenced p act (f x)"
  shows "evidenced p act (bindS m f)"
  unfolding evidenced_def
proof (intro allI impI)
  fix st r st' assume m: "bindS m f st = (r, st')"
  obtain y st1 where y: "m st = (y, st1)" by (cases "m st")
  with assms(1) [of st] have "st1 = st" by simp
  show "st' = st \<or> (\<exists>row. (control_row row st st' \<or> retention_row row st st') \<and>
       (row_names p act ''accepted'' row \<or>
        row_names p act ''denied'' row \<and> r = Inl AuthorizationDeniedError \<and>
          without_audits st' = without_audits st))"
  proof (cases y)
    case (Inl e)
    with m y \<open>st1 = st\<close> show ?thesis by (simp add: bindS_def)
  next
    case (Inr x)
    with m y \<open>st1 = st\<close> have "f x st = (r, st')" by (simp add: bindS_def)
    moreover have "evidenced p act (f x)" using assms(2) y Inr by blast
    ultimately show ?thesis unfolding evidenced_def by blast
  qed
qed

lemma evidenced_result_bind: "(\<And>x. r = Inr x \<Longrightarrow> evidenced p act (f x)) \<Longrightarrow> evidenced p act (bindS (result r) f)"
  by (rule evidenced_state) auto

lemma evidenced_read_bind: "(\<And>x. evidenced p act (f x)) \<Longrightarrow> evidenced p act (bindS (read_control body) f)"
  by (rule evidenced_state) auto

definition audit_accepts :: "principal \<Rightarrow> control_action \<Rightarrow> audit_context \<Rightarrow> bool" where
  "audit_accepts p act a =
     (ac_subject_id a = subject p \<and> ac_action a = action_value act \<and> ac_result a = ''accepted'')"

lemma row_names_of: "audit_accepts p act a \<Longrightarrow> row_names p act ''accepted'' (audit_row_of n u a us)"
  by (simp add: row_names_def audit_accepts_def audit_row_of_def)

lemma evidenced_control_bind:
  assumes "\<And>db r db'. body db = Inr (r, db') \<Longrightarrow>
      db' = db \<or> (\<exists>n u us. audit_events db' = audit_events db @ [audit_row_of n u a us])"
    and "audit_accepts p act a" and "\<And>x st. snd (f x st) = st"
  shows "evidenced p act (bindS (in_control body) f)"
  unfolding evidenced_def
proof (intro allI impI)
  fix st r st' assume m: "bindS (in_control body) f st = (r, st')"
  show "st' = st \<or> (\<exists>row. (control_row row st st' \<or> retention_row row st st') \<and>
       (row_names p act ''accepted'' row \<or>
        row_names p act ''denied'' row \<and> r = Inl AuthorizationDeniedError \<and>
          without_audits st' = without_audits st))"
  proof (cases "body (sv_control st)")
    case (Inl e)
    with m show ?thesis by (simp add: bindS_def in_control_def transaction_def)
  next
    case (Inr x)
    then obtain v db where x: "body (sv_control st) = Inr (v, db)" by (cases x) auto
    with m have "f v (st\<lparr>sv_control := db\<rparr>) = (r, st')"
      by (simp add: bindS_def in_control_def transaction_def)
    with assms(3) [of v "st\<lparr>sv_control := db\<rparr>"] have st': "st' = st\<lparr>sv_control := db\<rparr>" by simp
    from assms(1) [OF x] show ?thesis
    proof
      assume "db = sv_control st"
      with st' show ?thesis by simp
    next
      assume "\<exists>n u us. audit_events db = audit_events (sv_control st) @ [audit_row_of n u a us]"
      then obtain n u us where "audit_events db = audit_events (sv_control st) @ [audit_row_of n u a us]"
        by blast
      with st' have "control_row (audit_row_of n u a us) st st'" by (simp add: control_row_def)
      then show ?thesis using row_names_of [OF assms(2)] by blast
    qed
  qed
qed

lemma evidenced_retention_bind:
  assumes "\<And>db r db'. body db = Inr (r, db') \<Longrightarrow>
      db' = db \<or> (\<exists>n u us. retention_audits db' = retention_audits db @ [audit_row_of n u a us])"
    and "audit_accepts p act a" and "\<And>x st. snd (f x st) = st"
  shows "evidenced p act (bindS (in_retention body) f)"
  unfolding evidenced_def
proof (intro allI impI)
  fix st r st' assume m: "bindS (in_retention body) f st = (r, st')"
  show "st' = st \<or> (\<exists>row. (control_row row st st' \<or> retention_row row st st') \<and>
       (row_names p act ''accepted'' row \<or>
        row_names p act ''denied'' row \<and> r = Inl AuthorizationDeniedError \<and>
          without_audits st' = without_audits st))"
  proof (cases "\<exists>db v db'. sv_retention st = Some db \<and> body db = Inr (v, db')")
    case False
    with m have "st' = st"
      by (auto simp: bindS_def in_retention_def transaction_def split: option.splits sum.splits prod.splits)
    then show ?thesis ..
  next
    case True
    then obtain db0 v db where x: "sv_retention st = Some db0" "body db0 = Inr (v, db)" by blast
    with m have "f v (st\<lparr>sv_retention := Some db\<rparr>) = (r, st')"
      by (simp add: bindS_def in_retention_def transaction_def)
    with assms(3) [of v "st\<lparr>sv_retention := Some db\<rparr>"] have st': "st' = st\<lparr>sv_retention := Some db\<rparr>" by simp
    from assms(1) [OF x(2)] show ?thesis
    proof
      assume "db = db0"
      with st' x show ?thesis by simp
    next
      assume "\<exists>n u us. retention_audits db = retention_audits db0 @ [audit_row_of n u a us]"
      then obtain n u us where "retention_audits db = retention_audits db0 @ [audit_row_of n u a us]"
        by blast
      with st' x have "retention_row (audit_row_of n u a us) st st'" by (simp add: retention_row_def)
      then show ?thesis using row_names_of [OF assms(2)] by blast
    qed
  qed
qed

lemma audit_context_fields:
  "audit_context_for s p action target correlation key res t = Inr a \<Longrightarrow>
     ac_subject_id a = subject p \<and> ac_action a = action_value action \<and> ac_result a = res"
  by (auto simp: flow)

text \<open>A denial is evidenced too: the authorization itself writes the row.\<close>

lemma row_names_denied:
  "audit_context_for s p action target correlation key ''denied'' t = Inr a \<Longrightarrow>
   row_names p action ''denied'' (audit_row_of n u a us)"
  by (auto simp: row_names_def audit_row_of_def dest: audit_context_fields)

lemma append_audit_event_rows:
  assumes "append_audit_event u a db = Inr (e, db')"
  shows "\<exists>n us. db' = db\<lparr>audit_events := audit_events db @ [audit_row_of n u a us]\<rparr>"
  using append_audit_event_Inr [OF assms] by (auto simp: control_audit_Inr append_audit_Inr)

lemma append_retention_audit_event_rows:
  assumes "append_retention_audit_event u a db = Inr (e, db')"
  shows "\<exists>n us. db' = db\<lparr>retention_audits := retention_audits db @ [audit_row_of n u a us]\<rparr>"
  using assms
  by (auto simp: append_retention_audit_event_def retention_audit_def append_audit_Inr bindE_Inr
      split: option.splits) blast

definition denial_recorded :: "principal \<Rightarrow> control_action \<Rightarrow> service_state \<Rightarrow> service_state \<Rightarrow> bool" where
  "denial_recorded p act st st' =
     (\<exists>row. row_names p act ''denied'' row \<and> (control_row row st st' \<or> retention_row row st st') \<and>
       without_audits st' = without_audits st)"

lemma control_denial:
  assumes "append_audit_event u a (sv_control st) = Inr (e, db)"
    and "audit_context_for s p action target correlation key ''denied'' t = Inr a"
  shows "denial_recorded p action st (st\<lparr>sv_control := db\<rparr>)"
proof -
  obtain n us where db: "db = (sv_control st)\<lparr>audit_events := audit_events (sv_control st) @ [audit_row_of n u a us]\<rparr>"
    using append_audit_event_rows [OF assms(1)] by blast
  show ?thesis
    unfolding denial_recorded_def
    by (rule exI [where x = "audit_row_of n u a us"])
      (simp add: row_names_denied [OF assms(2)] control_row_def without_audits_def db)
qed

lemma retention_denial:
  assumes "append_retention_audit_event u a db = Inr (e, db')" and "sv_retention st = Some db"
    and "audit_context_for s p action target correlation key ''denied'' t = Inr a"
  shows "denial_recorded p action st (st\<lparr>sv_retention := Some db'\<rparr>)"
proof -
  obtain n us where db: "db' = db\<lparr>retention_audits := retention_audits db @ [audit_row_of n u a us]\<rparr>"
    using append_retention_audit_event_rows [OF assms(1)] by blast
  show ?thesis
    unfolding denial_recorded_def
    by (rule exI [where x = "audit_row_of n u a us"])
      (simp add: row_names_denied [OF assms(3)] retention_row_def without_audits_def db assms(2))
qed

lemma authorize_Inl:
  assumes "authorize env p action target correlation key chk st = (Inl e, st')"
  shows "st' = st \<or> e = AuthorizationDeniedError \<and> denial_recorded p action st st'"
  using assms unfolding authorize_def
  by (auto simp: calls split: if_split_asm intro: control_denial retention_denial)

lemma authorize_retention_Inl:
  assumes "authorize_retention env p action target correlation key st = (Inl e, st')"
  shows "st' = st \<or> e = AuthorizationDeniedError \<and> denial_recorded p action st st'"
  using assms unfolding authorize_retention_def
  by (auto simp: calls split: if_split_asm intro: retention_denial)

lemma evidenced_authorize_bind:
  assumes "\<And>a. audit_accepts p act a \<Longrightarrow> evidenced p act (f a)"
  shows "evidenced p act (bindS (authorize env p act target correlation key chk) f)"
  unfolding evidenced_def
proof (intro allI impI)
  fix st r st' assume m: "bindS (authorize env p act target correlation key chk) f st = (r, st')"
  obtain y st1 where y: "authorize env p act target correlation key chk st = (y, st1)" by fastforce
  show "st' = st \<or> (\<exists>row. (control_row row st st' \<or> retention_row row st st') \<and>
       (row_names p act ''accepted'' row \<or>
        row_names p act ''denied'' row \<and> r = Inl AuthorizationDeniedError \<and>
          without_audits st' = without_audits st))"
  proof (cases y)
    case (Inl e)
    with m y authorize_Inl [of env p act target correlation key chk st e st1] show ?thesis
      by (auto simp: bindS_def denial_recorded_def)
  next
    case (Inr a)
    with y have "st1 = st" "audit_accepts p act a"
      by (auto simp: authorize_Inr audit_accepts_def dest: audit_context_fields)
    with m y Inr assms show ?thesis unfolding evidenced_def by (auto simp: bindS_def)
  qed
qed

lemma evidenced_authorize_retention_bind:
  assumes "\<And>a. audit_accepts p act a \<Longrightarrow> evidenced p act (f a)"
  shows "evidenced p act (bindS (authorize_retention env p act target correlation key) f)"
  unfolding evidenced_def
proof (intro allI impI)
  fix st r st' assume m: "bindS (authorize_retention env p act target correlation key) f st = (r, st')"
  obtain y st1 where y: "authorize_retention env p act target correlation key st = (y, st1)" by fastforce
  show "st' = st \<or> (\<exists>row. (control_row row st st' \<or> retention_row row st st') \<and>
       (row_names p act ''accepted'' row \<or>
        row_names p act ''denied'' row \<and> r = Inl AuthorizationDeniedError \<and>
          without_audits st' = without_audits st))"
  proof (cases y)
    case (Inl e)
    with m y authorize_retention_Inl [of env p act target correlation key st e st1] show ?thesis
      by (auto simp: bindS_def denial_recorded_def)
  next
    case (Inr a)
    with y have "st1 = st" "audit_accepts p act a"
      by (auto simp: authorize_retention_Inr audit_accepts_def dest: audit_context_fields)
    with m y Inr assms show ?thesis unfolding evidenced_def by (auto simp: bindS_def)
  qed
qed

section \<open>The audit row of each operation\<close>

definition control_audited :: "audit_context \<Rightarrow> control_db \<Rightarrow> control_db \<Rightarrow> bool" where
  "control_audited a db db' =
     (\<exists>n u us. audit_events db' = audit_events db @ [audit_row_of n u a us])"

definition retention_audited :: "audit_context \<Rightarrow> retention_db \<Rightarrow> retention_db \<Rightarrow> bool" where
  "retention_audited a db db' =
     (\<exists>n u us. retention_audits db' = retention_audits db @ [audit_row_of n u a us])"

lemma control_audit_rows:
  "control_audit aid (Some a) db1 = Inr db' \<Longrightarrow> audit_events db1 = audit_events db \<Longrightarrow>
   control_audited a db db'"
  by (auto simp: control_audit_Inr append_audit_Inr control_audited_def) blast

lemma append_lease_event_audits:
  "append_lease_event eid j ty owner token attempt now_us expires digest db1 = Inr db' \<Longrightarrow>
   audit_events db' = audit_events db1"
  by (auto simp: append_lease_event_Inr)

lemma register_job_audited:
  "register_job j d now (Some a) aid db = Inr (r, db') \<Longrightarrow> control_audited a db db'"
  by (auto simp: register_job_def bindE_Inr Let_def insert_row_Inr intro: control_audit_rows
      split: option.splits if_split_asm)

lemma acquire_audited:
  "acquire limit j owner now ttl (Some a) eid aid db = Inr (l, db') \<Longrightarrow> control_audited a db db'"
  by (auto simp: acquire_def bindE_Inr Let_def update_job_def intro: control_audit_rows
      dest!: append_lease_event_audits split: option.splits if_split_asm)

lemma heartbeat_audited:
  "heartbeat l now ttl (Some a) eid aid db = Inr (l', db') \<Longrightarrow> control_audited a db db'"
  by (auto simp: heartbeat_def bindE_Inr Let_def update_job_def intro: control_audit_rows
      dest!: append_lease_event_audits split: option.splits if_split_asm)

lemma complete_audited:
  "complete l key digest now (Some a) eid aid db = Inr (c, db') \<Longrightarrow> control_audited a db db'"
  by (auto simp: complete_def bindE_Inr Let_def update_job_def intro: control_audit_rows
      dest!: append_lease_event_audits split: option.splits if_split_asm)

lemma insert_review_audits: "insert_review_event r db = Inr db1 \<Longrightarrow> audit_events db1 = audit_events db"
  by (auto simp: insert_review_event_Inr)

lemma upsert_audits [simp]: "audit_events (upsert_projection q db) = audit_events db"
  by (simp add: upsert_projection_def)

lemma append_review_event_audited:
  assumes "append_review_event sha t key actor status prov detail now (Some a) eid aid db = Inr (e, db')"
  shows "control_audited a db db'"
proof (cases "find_event_by_key key db")
  case (Some existing)
  with assms show ?thesis
    by (auto simp: append_review_event_def bindE_Inr Let_def intro: control_audit_rows split: if_split_asm)
next
  case None
  with assms show ?thesis
    by (auto simp: append_review_event_def bindE_Inr Let_def dest!: insert_review_audits
        elim!: control_audit_rows split: if_split_asm)
qed

lemma append_candidate_review_event_audited:
  assumes "append_candidate_review_event sha q clock (Some a) eid aid db = Inr (e, db')"
  shows "db' = db \<or> control_audited a db db'"
proof -
  from assms obtain v ev t where v: "prepare_candidate_event q = Inr (v, ev, t)"
    by (auto simp: append_candidate_review_event_def bindE_Inr)
  show ?thesis
  proof (cases "find_event_by_key (cv_qualified_key v) db")
    case (Some existing)
    with assms v show ?thesis by (auto simp: append_candidate_review_event_def bindE_Inr)
  next
    case None
    with assms v have "control_audited a db db'"
      by (auto simp: append_candidate_review_event_def bindE_Inr Let_def dest!: insert_review_audits
          elim!: control_audit_rows)
    then show ?thesis ..
  qed
qed

lemma audited_state_rows:
  "audited_state t aid (Some a) db1 = Inr (s, db') \<Longrightarrow> retention_audits db1 = retention_audits db \<Longrightarrow>
   retention_audited a db db'"
  by (auto simp: audited_state_def bindE_Inr retention_audit_def append_audit_Inr retention_audited_def)
    blast

lemma retention_audit_rows:
  "retention_audit aid (Some a) db = Inr (n, db') \<Longrightarrow> retention_audited a db db'"
  by (auto simp: bindE_Inr retention_audit_def append_audit_Inr retention_audited_def) blast

lemma append_retention_event_audits:
  "append_retention_event eid t c key digest actor ty detail us db1 = Inr db2 \<Longrightarrow>
   retention_audits db2 = retention_audits db1"
  by (auto simp: append_retention_event_Inr)

lemma register_target_audited:
  "register_target sha t raws key actor now (Some a) eid aid db = Inr (s, db') \<Longrightarrow>
   retention_audited a db db'"
  by (auto simp: register_target_def bindE_Inr Let_def dest!: append_retention_event_audits
      intro: audited_state_rows split: option.splits if_split_asm)

lemma set_legal_hold_audited:
  "set_legal_hold sha t hold reason key actor now (Some a) eid aid db = Inr (s, db') \<Longrightarrow>
   retention_audited a db db'"
  by (auto simp: set_legal_hold_def bindE_Inr Let_def update_target_def
      dest!: append_retention_event_audits
      intro: audited_state_rows split: option.splits if_split_asm)

lemma stage_trash_audited:
  "stage_trash sha t c key actor now (Some a) eid aid db = Inr (s, db') \<Longrightarrow>
   retention_audited a db db'"
  by (auto simp: stage_trash_def bindE_Inr Let_def update_target_def update_copy_def
      dest!: append_retention_event_audits
      intro: audited_state_rows split: option.splits if_split_asm)

lemma attest_deleted_audited:
  "attest_deleted sha t c receipt key actor now (Some a) eid aid db = Inr (s, db') \<Longrightarrow>
   retention_audited a db db'"
  by (auto simp: attest_deleted_def bindE_Inr Let_def update_target_def update_copy_def
      dest!: append_retention_event_audits
      intro: audited_state_rows split: option.splits if_split_asm)

lemma retention_reads_audited:
  "get_target t (Some a) aid db = Inr (v, db') \<Longrightarrow> retention_audited a db db'"
  "list_scoped_overdue p now (Some a) aid db = Inr (vs, db') \<Longrightarrow> retention_audited a db db'"
  by (auto simp: get_target_def list_scoped_overdue_def bindE_Inr intro: retention_audit_rows
      split: option.splits if_split_asm)

section \<open>Every request\<close>

lemma evidenced_answered [simp]: "evidenced p act m \<Longrightarrow> evidenced p act (answered m)"
  unfolding evidenced_def answered_def bindS_def
  by (auto split: prod.splits sum.splits)

lemma evidenced_control:
  assumes "\<And>db r db'. body db = Inr (r, db') \<Longrightarrow> control_audited a db db'"
    and "audit_accepts p act a" and "\<And>x st. snd (f x st) = st"
  shows "evidenced p act (bindS (in_control body) f)"
  using assms by (intro evidenced_control_bind) (auto simp: control_audited_def)

lemma evidenced_retention:
  assumes "\<And>db r db'. body db = Inr (r, db') \<Longrightarrow> retention_audited a db db'"
    and "audit_accepts p act a" and "\<And>x st. snd (f x st) = st"
  shows "evidenced p act (bindS (in_retention body) f)"
  using assms by (intro evidenced_retention_bind) (auto simp: retention_audited_def)

lemmas evidenced_intros =
  evidenced_result evidenced_answered evidenced_result_bind evidenced_read_bind
  evidenced_authorize_bind evidenced_authorize_retention_bind

lemma jobs_evidenced:
  "evidenced p JobRegister (service_register_job env p j d c k)"
  "evidenced p JobAcquire (service_acquire limit env p j ttl c k)"
  "evidenced p JobHeartbeat (service_heartbeat env p l ttl c k)"
  "evidenced p JobComplete (service_complete env p l key d c')"
  unfolding service_register_job_def service_acquire_def service_heartbeat_def service_complete_def Let_def
  by (auto intro!: evidenced_intros evidenced_control
      dest: register_job_audited acquire_audited heartbeat_audited complete_audited)

lemma append_review_evidenced:
  "evidenced p ReviewAppend (service_append_review sha env p t key st prov det c)"
  unfolding service_append_review_def
  by (auto intro!: evidenced_intros evidenced_control dest: append_review_event_audited)

lemma reads_evidenced:
  "evidenced p ReviewAppend (authorize_candidate_review self env p pub t c k)"
  "evidenced p ReviewRead (service_list_reviews sha env p t c n l)"
  "evidenced p ReviewRead (service_read_review sha env p t c)"
  "evidenced p AuditRead (service_list_audit_events env p c n l)"
  "evidenced p AuditRead (service_read_audit_event env p e c)"
  unfolding authorize_candidate_review_def service_list_reviews_def service_read_review_def
    read_candidate_review_def service_list_audit_events_def service_read_audit_event_def
  by (auto intro!: evidenced_intros split: option.splits)

lemma retention_evidenced:
  "evidenced p RetentionRegister (register_retention sha env p t cs c k)"
  "evidenced p RetentionRead (read_retention env p t c)"
  "evidenced p RetentionHold (set_retention_hold sha env p t h r c k)"
  "evidenced p RetentionStageTrash (stage_retention_trash sha env p t i c k)"
  "evidenced p RetentionAttestDelete (attest_retention_delete sha env p t i d c k)"
  "evidenced p RetentionRead (list_overdue_retention env p c)"
  unfolding register_retention_def read_retention_def set_retention_hold_def stage_retention_trash_def
    attest_retention_delete_def list_overdue_retention_def
  by (auto intro!: evidenced_intros evidenced_retention
      dest: register_target_audited set_legal_hold_audited stage_trash_audited attest_deleted_audited
        retention_reads_audited)

lemma append_candidate_evidenced:
  "evidenced p ReviewAppend (append_candidate_review self sha env p q)"
proof -
  have core: "evidenced p ReviewAppend (bindS (in_control (append_candidate_review_event sha
      cq clock (Some a) eid aid)) (\<lambda>e. result (public_review_event s e)))"
    if "audit_accepts p ReviewAppend a" for cq clock a eid aid s
    using append_candidate_review_event_audited
    by (intro evidenced_control_bind [OF _ that]) (auto simp: control_audited_def)
  have capability: "audit_accepts p ReviewAppend a"
    if "validate_candidate_review_capability self cap p pub t c k = Inr a" for cap pub t c k a
    using that
    by (auto simp: validate_candidate_review_capability_def Let_def bindE_Inr conflict_unless_Inr
        audit_accepts_def)
  show ?thesis
  proof (cases "rv_capability q")
    case None
    then show ?thesis
      unfolding append_candidate_review_def Let_def
      by (auto intro!: evidenced_intros core split: option.splits)
  next
    case (Some cap)
    then show ?thesis
      unfolding append_candidate_review_def Let_def
      by (auto intro!: evidenced_result evidenced_result_bind evidenced_state core
          dest!: capability simp: bindS_Inr split: option.splits simp: bindS_def split: prod.splits sum.splits)
  qed
qed

lemma serve_evidenced: "evidenced p (request_action q) (serve self limit sha env p q)"
  by (cases q) (simp_all add: jobs_evidenced append_review_evidenced reads_evidenced
      retention_evidenced append_candidate_evidenced)

text \<open>C36: Whatever a principal asks of the service, a call that changed anything has added exactly one
  audit row that names the principal and the action of the request, at the end of the table of one database,
  with the other database unchanged. Either the row says accepted; or it says denied, the call raised
  AuthorizationDeniedError, and nothing but the row was written.\<close>

theorem every_change_leaves_one_audit_row:
  assumes "serve self limit sha env p q st = (r, st')" and "st' \<noteq> st"
  shows "\<exists>row. (control_row row st st' \<or> retention_row row st st') \<and>
    (row_names p (request_action q) ''accepted'' row \<or>
     row_names p (request_action q) ''denied'' row \<and> r = Inl AuthorizationDeniedError \<and>
       without_audits st' = without_audits st)"
  using serve_evidenced [of p q self limit sha env] assms unfolding evidenced_def by blast

section \<open>Denial\<close>

definition refused :: "principal \<Rightarrow> control_action \<Rightarrow> 'a call \<Rightarrow> bool" where
  "refused p act m = (\<forall>st r st'. m st = (r, st') \<longrightarrow>
     (\<exists>e. r = Inl e) \<and> (st' = st \<or> r = Inl AuthorizationDeniedError \<and> denial_recorded p act st st'))"

lemma refused_result_Inl [simp]: "refused p act (result (Inl e))"
  by (simp add: refused_def)

lemma refused_result_bind:
  assumes "\<And>x. r = Inr x \<Longrightarrow> refused p act (f x)"
  shows "refused p act (bindS (result r) f)"
  using assms by (cases r) (auto simp: refused_def)

lemma refused_bind:
  assumes "refused p act m"
  shows "refused p act (bindS m f)"
  unfolding refused_def
proof (intro allI impI)
  fix st r st' assume m: "bindS m f st = (r, st')"
  obtain y st1 where y: "m st = (y, st1)" by fastforce
  then obtain e where e: "y = Inl e" using assms unfolding refused_def by blast
  with m y have "r = Inl e" "st' = st1" by (simp_all add: bindS_def)
  then show "(\<exists>e. r = Inl e) \<and> (st' = st \<or> r = Inl AuthorizationDeniedError \<and> denial_recorded p act st st')"
    using assms y e unfolding refused_def by auto
qed

lemma refused_authorize:
  assumes "\<not> allows p act"
  shows "refused p act (authorize env p act target correlation key chk)"
    and "refused p act (authorize_retention env p act target correlation key)"
proof -
  show "refused p act (authorize env p act target correlation key chk)"
    unfolding refused_def
  proof (intro allI impI)
    fix st r st' assume m: "authorize env p act target correlation key chk st = (r, st')"
    with assms obtain e where e: "r = Inl e" by (cases r) (auto simp: authorize_Inr)
    with m authorize_Inl [of env p act target correlation key chk st e st']
    show "(\<exists>e. r = Inl e) \<and> (st' = st \<or> r = Inl AuthorizationDeniedError \<and> denial_recorded p act st st')"
      by auto
  qed
  show "refused p act (authorize_retention env p act target correlation key)"
    unfolding refused_def
  proof (intro allI impI)
    fix st r st' assume m: "authorize_retention env p act target correlation key st = (r, st')"
    with assms obtain e where e: "r = Inl e" by (cases r) (auto simp: authorize_retention_Inr)
    with m authorize_retention_Inl [of env p act target correlation key st e st']
    show "(\<exists>e. r = Inl e) \<and> (st' = st \<or> r = Inl AuthorizationDeniedError \<and> denial_recorded p act st st')"
      by auto
  qed
qed

lemma refused_answered [simp]: "refused p act m \<Longrightarrow> refused p act (answered m)"
  by (simp add: answered_def refused_bind)

lemmas refused_intros = refused_result_Inl refused_answered refused_result_bind
  refused_bind [OF refused_authorize(1)] refused_bind [OF refused_authorize(2)]

definition without_capability :: "service_request \<Rightarrow> bool" where
  "without_capability q = (case q of AppendCandidate c \<Rightarrow> rv_capability c = None | _ \<Rightarrow> True)"

lemma serve_refused:
  assumes "\<not> allows p (request_action q)" and "without_capability q"
  shows "refused p (request_action q) (serve self limit sha env p q)"
  using assms
  by (cases q) (auto simp: without_capability_def service_register_job_def service_acquire_def
      service_heartbeat_def service_complete_def service_append_review_def authorize_candidate_review_def
      append_candidate_review_def service_list_reviews_def service_read_review_def
      read_candidate_review_def service_list_audit_events_def service_read_audit_event_def
      register_retention_def read_retention_def set_retention_hold_def stage_retention_trash_def
      attest_retention_delete_def list_overdue_retention_def Let_def
      intro!: refused_intros split: option.splits)

text \<open>C37: A principal whose roles do not allow the action of its request, and who presents no capability
  of an earlier authorization, is never served: the call raises, and it has written nothing, or one audit
  row that records the denial together with AuthorizationDeniedError.\<close>

theorem unauthorized_requests_are_refused:
  assumes "\<not> allows p (request_action q)" and "without_capability q"
    and "serve self limit sha env p q st = (r, st')"
  shows "(\<exists>e. r = Inl e) \<and>
    (st' = st \<or> r = Inl AuthorizationDeniedError \<and> denial_recorded p (request_action q) st st')"
  using serve_refused [OF assms(1,2), of self limit sha env] assms(3) unfolding refused_def by blast

section \<open>Capabilities\<close>

lemma issued_capability:
  assumes "authorize_candidate_review self env p pub target correlation key st = (Inr cap, st')"
  obtains s audit where "require_scope p = Inr s" and "allows p ReviewAppend"
    and "reviewer_id_pattern (subject p)"
    and "audit_context_for s p ReviewAppend target correlation (Some key) ''accepted'' (ce_clock env) = Inr audit"
    and "validate_candidate_review_identity pub target = Inr ()"
    and "cap = issue_capability
       \<lparr>cb_principal = p, cb_scope = s, cb_publication_key = pub,
        cb_review_target_id = target, cb_correlation_id = correlation, cb_idempotency_key = key,
        cb_audit = audit, cb_service = self\<rparr>"
  using assms by (auto simp: authorize_candidate_review_def bindS_Inr authorize_Inr)

text \<open>A capability issued by \<open>authorize_candidate_review\<close> is bound to everything that was authorized:
  a service accepts it exactly if it is the issuing service and the principal, the publication key, the review
  target, the correlation id and the idempotency key are the authorized ones, and then it yields the audit
  context of the authorization.\<close>

theorem capability_is_bound_to_its_authorization:
  assumes "authorize_candidate_review self env p pub target correlation key st = (Inr cap, st')"
    and "tz (ce_clock env) = UTC"
  shows "validate_candidate_review_capability self' cap p' pub' target' correlation' key' = Inr a \<longleftrightarrow>
    self' = self \<and> p' = p \<and> pub' = pub \<and> target' = target \<and> correlation' = correlation \<and>
    key' = key \<and> a = cb_audit (cap_binding cap)"
  using assms(1)
proof (rule issued_capability)
  fix s audit
  assume s: "require_scope p = Inr s" "reviewer_id_pattern (subject p)"
    and audit: "audit_context_for s p ReviewAppend target correlation (Some key) ''accepted'' (ce_clock env) = Inr audit"
    and identity: "validate_candidate_review_identity pub target = Inr ()"
    and cap: "cap = issue_capability
       \<lparr>cb_principal = p, cb_scope = s, cb_publication_key = pub,
        cb_review_target_id = target, cb_correlation_id = correlation, cb_idempotency_key = key,
        cb_audit = audit, cb_service = self\<rparr>"
  from audit obtain k t where "qualify s ''audit_idempotency'' key = Inr k"
    "qualify s ''audit_target'' target = Inr t"
    "audit = \<lparr>ac_correlation_id = correlation, ac_idempotency_key = Some k, ac_subject_id = subject p,
       ac_roles = role_values p, ac_action = action_value ReviewAppend, ac_target_id = t,
       ac_result = ''accepted'', ac_occurred_at = ce_clock env\<rparr>"
    by (auto simp: audit_context_for_Inr)
  with s identity show ?thesis
    by (auto simp: validate_candidate_review_capability_def cap issue_capability_def Let_def bindE_Inr
        conflict_unless_Inr validate_reviewer_subject_value_def require_def assms(2))
qed

section \<open>Disclosure\<close>

text \<open>The values inside a value, and what may not be seen of them.\<close>

inductive part_of :: "json \<Rightarrow> json \<Rightarrow> bool" where
  part_self: "part_of v v"
| part_field: "part_of v (JObj d)" if "(k, u) \<in> set d" and "part_of v u"
| part_item: "part_of v (JArr xs)" if "u \<in> set xs" and "part_of v u"

inductive_cases part_objE: "part_of v (JObj d)"
inductive_cases part_arrE: "part_of v (JArr xs)"

inductive_simps part_atoms [simp]:
  "part_of v JNull" "part_of v (JBool b)" "part_of v (JInt i)" "part_of v (JStr x)"

fun shown :: "bool \<Rightarrow> json \<Rightarrow> bool" where
  "shown lifecycle (JObj d) = (\<forall>k \<in> set (map fst d). public_key lifecycle k)"
| "shown lifecycle (JStr v) = (\<not> startswith v key_version \<and> \<not> (lifecycle \<and> external_locator v))"
| "shown lifecycle _ = True"

definition publishable :: "bool \<Rightarrow> json \<Rightarrow> bool" where
  "publishable lifecycle v = (\<forall>u. part_of u v \<longrightarrow> shown lifecycle u)"

lemma clean_publishable: "part_of u (clean lifecycle v) \<Longrightarrow> shown lifecycle u"
proof (induction lifecycle v arbitrary: u rule: clean.induct)
  case (1 lifecycle d)
  show ?case
  proof (rule part_objE [OF 1(2) [unfolded clean.simps]])
    fix k w
    assume "(k, w) \<in> set (filter (\<lambda>x. public_key lifecycle (fst x)) (map (\<lambda>(k, v). (k, clean lifecycle v)) d))"
      and part: "part_of u w"
    then obtain v where "(k, v) \<in> set d" "w = clean lifecycle v" by auto
    with part 1(1) show ?thesis by blast
  qed auto
next
  case (2 lifecycle xs)
  show ?case
  proof (rule part_arrE [OF 2(2) [unfolded clean.simps]])
    fix w assume "w \<in> set (map (clean lifecycle) xs)" and "part_of u w"
    with 2(1) show ?thesis by auto
  qed auto
qed (auto split: if_splits)

lemma publishable_parts:
  "publishable lifecycle (JObj d) \<longleftrightarrow>
     (\<forall>(k, v) \<in> set d. public_key lifecycle k \<and> publishable lifecycle v)"
  "publishable lifecycle (JArr xs) \<longleftrightarrow> (\<forall>v \<in> set xs. publishable lifecycle v)"
  by (fastforce simp: publishable_def intro: part_of.intros elim!: part_objE part_arrE)+

lemma clean_of_publishable: "publishable lifecycle v \<Longrightarrow> clean lifecycle v = v"
proof (induction lifecycle v rule: clean.induct)
  case (1 lifecycle d)
  have "map (\<lambda>(k, v). (k, clean lifecycle v)) d = d"
    using 1 by (intro map_idI) (auto simp: publishable_parts)
  moreover have "filter (\<lambda>x. public_key lifecycle (fst x)) d = d"
    using 1(2) by (auto simp: publishable_parts intro!: filter_True)
  ultimately show ?case by simp
next
  case (2 lifecycle xs)
  then show ?case by (auto simp: publishable_parts intro!: map_idI)
qed (auto simp: publishable_def)

definition lifecycle_value :: "(string \<times> json) list \<Rightarrow> bool" where
  "lifecycle_value d = (jhas d ''lifecycle_schema_version'' \<or> jhas d ''publication_key'')"

lemma public_candidate_json_eq:
  "JObj (public_candidate_json d) = clean (lifecycle_value d) (JObj d)"
  by (simp add: public_candidate_json_def lifecycle_value_def)

text \<open>The provenance and detail of a candidate event are published without secrets: at no depth is
  there an internal field or a string that starts like a scope-qualified key, nor, for a lifecycle event, a
  credential field or the address of an external object. And a value that has nothing of the kind is published
  unchanged.\<close>

theorem public_candidate_json_discloses_nothing:
  "publishable (lifecycle_value d) (JObj (public_candidate_json d)) \<and>
   (public_candidate_json d = d \<longleftrightarrow> publishable (lifecycle_value d) (JObj d))"
proof (intro conjI iffI)
  show p: "publishable (lifecycle_value d) (JObj (public_candidate_json d))"
    unfolding public_candidate_json_eq publishable_def using clean_publishable by blast
  show "publishable (lifecycle_value d) (JObj d)" if "public_candidate_json d = d"
    using p that by simp
  show "public_candidate_json d = d" if "publishable (lifecycle_value d) (JObj d)"
  proof -
    have "JObj (public_candidate_json d) = JObj d"
      using that unfolding public_candidate_json_eq by (rule clean_of_publishable)
    then show ?thesis by (simp only: json.inject)
  qed
qed

end
