(* ===== verification/Skill_Approval.thy ===== *)
theory Skill_Approval
  imports Skill_Identity Tenant_Isolation Service_Properties
begin

text \<open>
  The approval of candidate skills (\<open>candidate_skill_approval.py\<close>): the effective state is projected
  from the review ledger, and an approval is one guarded review event. Each operation makes several
  calls of the control service; the \<open>k\<close>-th call has its own clock and fresh identifiers
  (\<open>fst (world k)\<close>), and \<open>snd (world k)\<close> is what other users make of the databases before it. The
  advisory lock of the database file is the argument \<open>lock\<close>: \<open>Inr ()\<close> when it is taken, and otherwise the
  error of \<open>_sqlite_approval_lock\<close>.
\<close>

type_synonym world = "nat \<Rightarrow> call_env \<times> (service_state \<Rightarrow> service_state)"

definition nth_call :: "world \<Rightarrow> nat \<Rightarrow> (call_env \<Rightarrow> 'a call) \<Rightarrow> 'a call" where
  "nth_call world k f st = f (fst (world k)) (snd (world k) st)"

definition require_request_text :: "string \<Rightarrow> exn + unit" where
  "require_request_text v = require (nonblank v \<and> length v \<le> 128) ValueError"

section \<open>The effective state\<close>

record approval_state =
  as_schema_version :: string
  as_skill_id :: string
  as_content_sha256 :: string
  as_target_id :: string
  as_approval_status :: string
  as_human_approval_evidence :: "(string \<times> string) list option"

definition approval_state_of ::
  "skill_identity \<Rightarrow> string \<Rightarrow> (string \<times> string) list option \<Rightarrow> approval_state" where
  "approval_state_of i status evidence =
     \<lparr>as_schema_version = si_schema_version i, as_skill_id = si_skill_id i,
      as_content_sha256 = si_content_sha256 i, as_target_id = si_target_id i,
      as_approval_status = status, as_human_approval_evidence = evidence\<rparr>"

definition unreviewed_state :: "skill_identity \<Rightarrow> approval_state" where
  "unreviewed_state i = approval_state_of i ''unreviewed'' None"

text \<open>Two dicts are compared as values.\<close>

definition same_dict :: "(string \<times> json) list \<Rightarrow> (string \<times> json) list \<Rightarrow> bool" where
  "same_dict a b = Candidate_Reviews.py_eq (JObj a) (JObj b)"

text \<open>\<open>isoformat()\<close> leaves a fraction of zero out.\<close>

definition decided_at :: "datetime \<Rightarrow> string" where
  "decided_at d =
     (let s = iso_utc (instant d) in if instant d mod 1000000 = 0 then take 19 s @ ''Z'' else s)"

definition require_authoritative_event ::
  "skill_identity \<Rightarrow> review_projection \<Rightarrow> review_event \<Rightarrow> exn + unit" where
  "require_authoritative_event i p e =
     bindE (conflict_unless (uuid_pattern (re_event_id e))) (\<lambda>_.
     bindE (conflict_unless (reviewer_id_pattern (re_actor_id e))) (\<lambda>_.
     conflict_unless
       (re_sequence e = 1 \<and> re_target_id e = si_target_id i \<and>
        re_idempotency_key e = si_idempotency_key i \<and> re_status e = ''approved'' \<and>
        same_dict (re_provenance e) (si_provenance i) \<and> same_dict (re_detail e) (si_detail i) \<and>
        rp_target_id p = si_target_id i \<and> rp_status p = ''approved'' \<and> rp_version p = 1 \<and>
        rp_last_event_id p = re_event_id e \<and> rp_actor_id p = re_actor_id e \<and>
        same_dict (rp_provenance p) (re_provenance e) \<and> same_dict (rp_detail p) (re_detail e) \<and>
        instant (rp_occurred_at p) = instant (re_occurred_at e))))"

definition state_of_events ::
  "skill_identity \<Rightarrow> review_projection \<Rightarrow> review_event list \<Rightarrow> exn + approval_state" where
  "state_of_events i p events =
     bindE (conflict_unless (events \<noteq> [] \<and> length events = rp_version p)) (\<lambda>_.
     let e = last events in
     if jhas (re_detail e) ''lifecycle_schema_version''
     then
       bindE (conflict_unless
         (re_target_id e = si_target_id i \<and> re_status e = rp_status p \<and>
          re_event_id e = rp_last_event_id p \<and> re_actor_id e = rp_actor_id p \<and>
          same_dict (re_provenance e) (rp_provenance p) \<and> same_dict (re_detail e) (rp_detail p) \<and>
          instant (re_occurred_at e) = instant (rp_occurred_at p) \<and>
          re_status e \<in> {''pending'', ''approved'', ''rejected'', ''needs_changes''})) (\<lambda>_.
       Inr (approval_state_of i (re_status e) None))
     else
       bindE (conflict_unless (length events = 1)) (\<lambda>_.
       bindE (require_authoritative_event i p e) (\<lambda>_.
       case jget (re_detail e) ''approval_basis'' of
         Some (JStr basis) \<Rightarrow>
           Inr (approval_state_of i ''approved'' (Some
             [(''reviewer_id'', re_actor_id e), (''decision_event_id'', re_event_id e),
              (''decided_at'', decided_at (re_occurred_at e)), (''approval_basis'', basis)]))
       | _ \<Rightarrow> Inl KeyError)))"

definition state_from_projection ::
  "(string \<Rightarrow> string) \<Rightarrow> world \<Rightarrow> nat \<Rightarrow> principal \<Rightarrow> skill_identity \<Rightarrow> review_projection \<Rightarrow> string \<Rightarrow>
   approval_state call" where
  "state_from_projection sha world k p i projection correlation =
     bindS (nth_call world k (\<lambda>env. service_list_reviews sha env p (si_target_id i) correlation 0 100))
       (\<lambda>events. result (state_of_events i projection events))"

definition read_candidate_skill_approval_state ::
  "(string \<Rightarrow> string) \<Rightarrow> world \<Rightarrow> principal \<Rightarrow> (string \<times> json) list \<Rightarrow> string \<Rightarrow> approval_state call" where
  "read_candidate_skill_approval_state sha world p candidate correlation =
     bindS (result (candidate_identity sha candidate)) (\<lambda>i.
     bindS (result (require_request_text correlation)) (\<lambda>_.
     bindS (nth_call world 0 (\<lambda>env. service_read_review sha env p (si_target_id i) correlation)) (\<lambda>r.
     case r of
       None \<Rightarrow> result (Inr (unreviewed_state i))
     | Some projection \<Rightarrow> state_from_projection sha world 1 p i projection correlation)))"

section \<open>Transitions\<close>

text \<open>The keyword arguments of \<open>transition_candidate_skill_review\<close>; \<open>None\<close> is \<open>None\<close> or unset.\<close>

record skill_transition =
  st_status :: string
  st_idempotency_key :: string
  st_correlation_id :: string
  st_publication :: "(string \<times> string option) list"
  st_publication_key :: "string option"
  st_review_target_id :: "string option"
  st_content_sha256 :: "string option"
  st_full_sha256 :: "string option"
  st_source_result_sha256 :: "string option"
  st_reason :: "json option"
  st_evidence :: "json option"
  st_prior_state :: "json option"
  st_prior_version :: "json option"
  st_prior_event :: "json option"
  st_occurred_at :: "datetime option"
  st_now :: "datetime option"
  st_legacy :: bool

definition publication_field :: "(string \<times> string option) list \<Rightarrow> string \<Rightarrow> string option" where
  "publication_field publication name =
     (case map_of publication name of Some (Some v) \<Rightarrow> Some v | _ \<Rightarrow> None)"

definition coalesce :: "string option \<Rightarrow> string option \<Rightarrow> string \<Rightarrow> exn + string" where
  "coalesce v supplied fallback =
     (if both_differ v supplied then Inl ControlConflictError
      else case v of Some x \<Rightarrow> Inr x | None \<Rightarrow> (case supplied of Some y \<Rightarrow> Inr y | None \<Rightarrow> Inr fallback))"

definition transition_candidate_skill_review ::
  "(string \<Rightarrow> string) \<Rightarrow> nat \<Rightarrow> call_env \<Rightarrow> principal \<Rightarrow> (string \<times> json) list \<Rightarrow> skill_transition \<Rightarrow>
   review_event call" where
  "transition_candidate_skill_review sha self env p candidate t =
     bindS (result (candidate_identity sha candidate)) (\<lambda>i.
     bindS (result (require_request_text (st_correlation_id t))) (\<lambda>_.
     let given = publication_field (st_publication t) in
     bindS (result (coalesce (st_publication_key t) (given ''publication_key'') (si_publication_key i)))
       (\<lambda>publication.
     bindS (result (coalesce (st_review_target_id t) (given ''review_target_id'') (si_target_id i)))
       (\<lambda>target.
     bindS (result (coalesce (st_content_sha256 t) (given ''content_sha256'') (si_content_sha256 i)))
       (\<lambda>content.
     bindS (result (coalesce (st_full_sha256 t) (given ''full_sha256'') (si_full_sha256 i))) (\<lambda>full.
     bindS (result (coalesce (st_source_result_sha256 t) (given ''source_result_sha256'')
       (si_source_result_sha256 i))) (\<lambda>source.
     bindS (result (conflict_unless (target = si_target_id i))) (\<lambda>_.
     bindS (result (require (st_legacy t \<longrightarrow> st_status t = ''approved'') ValueError)) (\<lambda>_.
     append_candidate_review self sha env p
       \<lparr>rv_publication_key = Some publication, rv_publication = [], rv_review_target_id = Some target,
        rv_target_id = None, rv_idempotency_key = st_idempotency_key t, rv_status = Some (st_status t),
        rv_destination_status = None, rv_schema_version = ''1.0'', rv_candidate_id = None,
        rv_skill_id = Some (si_skill_id i), rv_content_sha256 = Some content,
        rv_full_sha256 = Some full, rv_source_result_sha256 = Some source, rv_reason = st_reason t,
        rv_evidence = st_evidence t, rv_prior_state = st_prior_state t,
        rv_prior_version = st_prior_version t, rv_prior_event = st_prior_event t,
        rv_occurred_at = st_occurred_at t, rv_now = st_now t,
        rv_correlation_id = st_correlation_id t, rv_capability = None,
        rv_legacy_provenance = (if st_legacy t then Some (si_provenance i) else None),
        rv_legacy_detail = (if st_legacy t then Some (si_detail i) else None)\<rparr>)))))))))"

definition approval_transition :: "skill_identity \<Rightarrow> string \<Rightarrow> skill_transition" where
  "approval_transition i correlation =
     \<lparr>st_status = ''approved'', st_idempotency_key = si_idempotency_key i,
      st_correlation_id = correlation, st_publication = [], st_publication_key = None,
      st_review_target_id = None, st_content_sha256 = None, st_full_sha256 = None,
      st_source_result_sha256 = None, st_reason = None, st_evidence = None, st_prior_state = None,
      st_prior_version = None, st_prior_event = None, st_occurred_at = None, st_now = None,
      st_legacy = True\<rparr>"

section \<open>Approval\<close>

definition approve_candidate_skill ::
  "(string \<Rightarrow> string) \<Rightarrow> nat \<Rightarrow> world \<Rightarrow> exn + unit \<Rightarrow> principal \<Rightarrow> (string \<times> json) list \<Rightarrow> string \<Rightarrow>
   string \<Rightarrow> approval_state call" where
  "approve_candidate_skill sha self world lock p candidate key correlation =
     bindS (result (candidate_identity sha candidate)) (\<lambda>i.
     bindS (result (require_request_text correlation)) (\<lambda>_.
     bindS (result (conflict_unless (key = si_idempotency_key i))) (\<lambda>_.
     bindS (result lock) (\<lambda>_.
     bindS (nth_call world 0 (\<lambda>env. service_read_review sha env p (si_target_id i) correlation))
       (\<lambda>current.
     case current of
       Some c \<Rightarrow>
         bindS (result (conflict_unless (rp_actor_id c = subject p))) (\<lambda>_.
         state_from_projection sha world 1 p i c correlation)
     | None \<Rightarrow>
         bindS (result (require (Reviewer \<in> roles p \<and> reviewer_id_pattern (subject p))
           AuthorizationDeniedError)) (\<lambda>_.
         bindS (nth_call world 1 (\<lambda>env.
           transition_candidate_skill_review sha self env p candidate
             (approval_transition i correlation))) (\<lambda>_.
         bindS (nth_call world 2 (\<lambda>env.
           service_read_review sha env p (si_target_id i) correlation)) (\<lambda>r.
         case r of
           None \<Rightarrow> result (Inl ControlConflictError)
         | Some projection \<Rightarrow>
             state_from_projection sha world 3 p i projection correlation))))))))"

end
