(* ===== verification/Publication_Store.thy ===== *)
theory Publication_Store
  imports Publication_Evidence Control_Reviews
begin

text \<open>
  \<open>SQLiteCandidatePublicationStore\<close> of \<open>candidate_publication_store.py\<close>: the table of candidate
  publications with its checks and triggers, and the operations on it. \<open>reserve\<close> leases one
  evidence envelope under a fencing epoch, \<open>finalize\<close> fixes its bytes once, and readers verify a
  row against its evidence before they return it. The argument \<open>now\<close> is the microsecond count that
  \<open>now\<close> or the clock yields.
\<close>

section \<open>The table\<close>

datatype publication_state = Reserved | Finalized

record publication =
  pb_tenant_id :: string
  pb_workspace_id :: string
  pb_publication_key :: string
  pb_schema_version :: string
  pb_job_id :: string
  pb_session_id :: string
  pb_source_result_sha256 :: string
  pb_derivation_evidence_jcs :: string
  pb_derivation_evidence_sha256 :: string
  pb_review_target_id :: string
  pb_content_sha256 :: string
  pb_full_sha256 :: string
  pb_byte_length :: int
  pb_state :: publication_state
  pb_reservation_owner_id :: string
  pb_reservation_epoch :: int
  pb_reservation_expires_at_us :: "int option"
  pb_canonical_bytes :: "string option"
  pb_reserved_at_us :: int
  pb_updated_at_us :: int
  pb_finalized_at_us :: "int option"
  pb_writer_epoch :: int

definition max_signed_64 :: int where
  "max_signed_64 = 2 ^ 63 - 1"

definition min_signed_64 :: int where
  "min_signed_64 = - (2 ^ 63)"

definition is_i64 :: "int \<Rightarrow> bool" where
  "is_i64 v = (min_signed_64 \<le> v \<and> v \<le> max_signed_64)"

text \<open>The \<open>CHECK\<close> constraints of the table.\<close>

definition publication_check :: "publication \<Rightarrow> bool" where
  "publication_check r \<longleftrightarrow>
     pb_schema_version r = ''1.0'' \<and> pb_publication_key r \<noteq> [] \<and>
     length (pb_job_id r) = 36 \<and> length (pb_session_id r) = 36 \<and>
     length (pb_source_result_sha256 r) = 64 \<and> length (pb_derivation_evidence_sha256 r) = 64 \<and>
     pb_review_target_id r \<noteq> [] \<and> length (pb_content_sha256 r) = 64 \<and>
     length (pb_full_sha256 r) = 64 \<and> 1 \<le> pb_byte_length r \<and> pb_byte_length r \<le> 262144 \<and>
     1 \<le> pb_reservation_epoch r \<and> pb_reservation_epoch r \<le> max_signed_64 \<and>
     pb_writer_epoch r = 1 \<and> is_i64 (pb_reserved_at_us r) \<and> is_i64 (pb_updated_at_us r) \<and>
     (case pb_finalized_at_us r of None \<Rightarrow> True | Some t \<Rightarrow> is_i64 t) \<and>
     (case pb_state r of
        Reserved \<Rightarrow>
          pb_canonical_bytes r = None \<and> pb_finalized_at_us r = None \<and>
          (case pb_reservation_expires_at_us r of
             None \<Rightarrow> False
           | Some e \<Rightarrow> is_i64 e \<and> pb_reserved_at_us r \<le> pb_updated_at_us r \<and> pb_updated_at_us r < e)
      | Finalized \<Rightarrow>
          (case pb_canonical_bytes r of None \<Rightarrow> False | Some b \<Rightarrow> int (length b) = pb_byte_length r) \<and>
          pb_reservation_expires_at_us r = None \<and>
          (case pb_finalized_at_us r of
             None \<Rightarrow> False
           | Some t \<Rightarrow> pb_reserved_at_us r \<le> pb_updated_at_us r \<and> pb_updated_at_us r \<le> t))"

text \<open>The primary key and the unique job of a scope.\<close>

definition same_publication :: "publication \<Rightarrow> publication \<Rightarrow> bool" where
  "same_publication a b \<longleftrightarrow>
     pb_tenant_id a = pb_tenant_id b \<and> pb_workspace_id a = pb_workspace_id b \<and>
     (pb_publication_key a = pb_publication_key b \<or> pb_job_id a = pb_job_id b)"

definition insert_publication :: "publication \<Rightarrow> publication list \<Rightarrow> exn + publication list" where
  "insert_publication r db =
     (if publication_check r then insert_row same_publication r db else Inl IntegrityError)"

text \<open>The triggers before an update: finalized rows, identity columns and bytes are immutable.\<close>

definition same_identity :: "publication \<Rightarrow> publication \<Rightarrow> bool" where
  "same_identity old new \<longleftrightarrow>
     pb_tenant_id old = pb_tenant_id new \<and> pb_workspace_id old = pb_workspace_id new \<and>
     pb_publication_key old = pb_publication_key new \<and>
     pb_schema_version old = pb_schema_version new \<and> pb_job_id old = pb_job_id new \<and>
     pb_session_id old = pb_session_id new \<and>
     pb_source_result_sha256 old = pb_source_result_sha256 new \<and>
     pb_derivation_evidence_jcs old = pb_derivation_evidence_jcs new \<and>
     pb_derivation_evidence_sha256 old = pb_derivation_evidence_sha256 new \<and>
     pb_review_target_id old = pb_review_target_id new \<and>
     pb_content_sha256 old = pb_content_sha256 new \<and> pb_full_sha256 old = pb_full_sha256 new \<and>
     pb_byte_length old = pb_byte_length new \<and> pb_writer_epoch old = pb_writer_epoch new"

definition update_trigger :: "publication \<Rightarrow> publication \<Rightarrow> bool" where
  "update_trigger old new \<longleftrightarrow>
     pb_state old \<noteq> Finalized \<and> same_identity old new \<and>
     (case (pb_canonical_bytes old, pb_canonical_bytes new) of
        (Some a, Some b) \<Rightarrow> a = b | _ \<Rightarrow> True)"

definition update_publications ::
  "(publication \<Rightarrow> bool) \<Rightarrow> (publication \<Rightarrow> publication) \<Rightarrow> publication list \<Rightarrow> exn + publication list" where
  "update_publications P f db =
     (if \<forall>r \<in> set db. P r \<longrightarrow> update_trigger r (f r) \<and> publication_check (f r)
      then Inr (update_where P f db) else Inl IntegrityError)"

definition has_key :: "scope \<Rightarrow> string \<Rightarrow> publication \<Rightarrow> bool" where
  "has_key scope key r =
     (pb_tenant_id r = tenant_id scope \<and> pb_workspace_id r = workspace_id scope \<and>
      pb_publication_key r = key)"

definition select_publication :: "scope \<Rightarrow> string \<Rightarrow> publication list \<Rightarrow> publication option" where
  "select_publication scope key db = find (has_key scope key) db"

section \<open>Arguments\<close>

definition publication_key_pattern :: "string \<Rightarrow> bool" where
  "publication_key_pattern s =
     (startswith s ''candidate-publication:1.0:'' \<and>
      uuid_pattern (drop (length ''candidate-publication:1.0:'') s))"

definition owner_pattern :: "string \<Rightarrow> bool" where
  "owner_pattern = ident_pattern (\<lambda>c. is_lower c \<or> is_digit c)
     (\<lambda>c. is_lower c \<or> is_digit c \<or> c \<in> {CHR ''.'', CHR ''_'', CHR '':'', CHR ''-''}) 2 127"

definition checked_scope :: "scope \<Rightarrow> exn + unit" where
  "checked_scope scope = except (\<lambda>e. e \<in> {TypeError, ValueError}) invalid (validate_scope scope)"

definition require_owner :: "string option \<Rightarrow> exn + string" where
  "require_owner o' =
     (case o' of Some s \<Rightarrow> if owner_pattern s then Inr s else Inl invalid | None \<Rightarrow> Inl invalid)"

definition max_lease_seconds :: int where
  "max_lease_seconds = 30 * 60"

definition require_lease_seconds :: "int option \<Rightarrow> exn + int" where
  "require_lease_seconds l =
     (case l of
        Some s \<Rightarrow> if 1 \<le> s \<and> s \<le> max_lease_seconds then Inr s else Inl invalid
      | None \<Rightarrow> Inl invalid)"

definition require_positive_epoch :: "int option \<Rightarrow> exn + int" where
  "require_positive_epoch e =
     (case e of
        Some i \<Rightarrow> if 1 \<le> i \<and> i \<le> max_signed_64 then Inr i else Inl invalid | None \<Rightarrow> Inl invalid)"

definition require_publication_key :: "string \<Rightarrow> exn + unit" where
  "require_publication_key key = require (publication_key_pattern key) invalid"

definition resolve_now :: "int \<Rightarrow> exn + int" where
  "resolve_now now = (if is_i64 now then Inr now else Inl invalid)"

definition lease_expiry :: "int \<Rightarrow> int \<Rightarrow> exn + int" where
  "lease_expiry now_us lease_seconds =
     (if \<not> is_i64 now_us then Inl invalid
      else let expiry = now_us + lease_seconds * 1000000 in
        if expiry > max_signed_64 then Inl CandidatePublicationUnavailableError else Inr expiry)"

text \<open>\<open>a if a is not None else b\<close>, the aliases of the arguments.\<close>

definition or_alias :: "'a option \<Rightarrow> 'a option \<Rightarrow> 'a option" where
  "or_alias a b = (case a of Some x \<Rightarrow> Some x | None \<Rightarrow> b)"

section \<open>Records and verification\<close>

text \<open>\<open>CandidatePublicationRecord\<close>: the columns and the derived publication identity.\<close>

record publication_record = publication +
  pr_publication_identity :: string

definition record_from_row :: "bool \<Rightarrow> publication \<Rightarrow> publication_record" where
  "record_from_row include_bytes r =
     publication.extend
       (if include_bytes then r else r\<lparr>pb_canonical_bytes := None\<rparr>)
       (publication_record.fields
         (publication_identity (pb_job_id r) (pb_source_result_sha256 r) (pb_full_sha256 r)))"

definition corrupt :: "bool \<Rightarrow> exn + unit" where
  "corrupt ok = require ok CandidatePublicationCorruptionError"

definition verified_stored_evidence ::
  "(string \<Rightarrow> string) \<Rightarrow> coercions \<Rightarrow> publication \<Rightarrow> exn + prepared" where
  "verified_stored_evidence sha c r =
     bindE (case utf8_decode (pb_derivation_evidence_jcs r) of
         None \<Rightarrow> Inl CandidatePublicationCorruptionError | Some t \<Rightarrow> Inr t) (\<lambda>t.
     bindE (except (\<lambda>_. True) CandidatePublicationCorruptionError (loads t)) (\<lambda>v.
     bindE (except (\<lambda>_. True) CandidatePublicationCorruptionError (prepare_publication sha c v)) (\<lambda>p.
     bindE (corrupt (pp_evidence_bytes p = pb_derivation_evidence_jcs r)) (\<lambda>_.
     bindE (corrupt (pb_publication_key r = pp_publication_key p \<and> pb_job_id r = pp_job_id p \<and>
         pb_session_id r = pp_session_id p \<and>
         pb_source_result_sha256 r = pp_source_result_sha256 p \<and>
         pb_review_target_id r = pp_review_target_id p \<and>
         pb_content_sha256 r = pp_content_sha256 p \<and> pb_full_sha256 r = pp_full_sha256 p \<and>
         pb_byte_length r = int (length (pp_candidate_bytes p)))) (\<lambda>_.
     bindE (corrupt (sha (pb_derivation_evidence_jcs r) = pb_derivation_evidence_sha256 r)) (\<lambda>_.
     Inr p))))))"

definition verified_record_from_row ::
  "(string \<Rightarrow> string) \<Rightarrow> coercions \<Rightarrow> publication \<Rightarrow> exn + publication_record" where
  "verified_record_from_row sha c r =
     except (\<lambda>e. \<not> publication_error e) CandidatePublicationCorruptionError
      (let rec = record_from_row True r in
       bindE (corrupt (pb_state rec = Finalized)) (\<lambda>_.
       bindE (case pb_canonical_bytes rec of
           None \<Rightarrow> Inl CandidatePublicationCorruptionError | Some b \<Rightarrow> Inr b) (\<lambda>b.
       bindE (corrupt (int (length b) = pb_byte_length rec)) (\<lambda>_.
       bindE (corrupt (sha b = pb_full_sha256 rec)) (\<lambda>_.
       bindE (verified_stored_evidence sha c r) (\<lambda>p.
       bindE (corrupt (pp_candidate_bytes p = b)) (\<lambda>_.
       bindE (corrupt (pp_publication_key p = pb_publication_key rec \<and>
           pp_job_id p = pb_job_id rec \<and> pp_session_id p = pb_session_id rec \<and>
           pp_source_result_sha256 p = pb_source_result_sha256 rec \<and>
           pp_review_target_id p = pb_review_target_id rec \<and>
           pp_content_sha256 p = pb_content_sha256 rec \<and>
           pp_full_sha256 p = pb_full_sha256 rec \<and>
           pp_publication_identity p = pr_publication_identity rec)) (\<lambda>_.
       bindE (corrupt (sha (pb_derivation_evidence_jcs rec) = pb_derivation_evidence_sha256 rec)) (\<lambda>_.
       Inr rec)))))))))"

definition assert_same_immutable_identity ::
  "(string \<Rightarrow> string) \<Rightarrow> publication \<Rightarrow> scope \<Rightarrow> prepared \<Rightarrow> exn + unit" where
  "assert_same_immutable_identity sha r scope p =
     require (pb_tenant_id r = tenant_id scope \<and> pb_workspace_id r = workspace_id scope \<and>
       pb_publication_key r = pp_publication_key p \<and> pb_schema_version r = ''1.0'' \<and>
       pb_job_id r = pp_job_id p \<and> pb_session_id r = pp_session_id p \<and>
       pb_source_result_sha256 r = pp_source_result_sha256 p \<and>
       pb_derivation_evidence_jcs r = pp_evidence_bytes p \<and>
       pb_derivation_evidence_sha256 r = sha (pp_evidence_bytes p) \<and>
       pb_review_target_id r = pp_review_target_id p \<and>
       pb_content_sha256 r = pp_content_sha256 p \<and> pb_full_sha256 r = pp_full_sha256 p \<and>
       pb_byte_length r = int (length (pp_candidate_bytes p))) CandidatePublicationConflictError"

definition assert_live_reservation :: "publication \<Rightarrow> string \<Rightarrow> int \<Rightarrow> int \<Rightarrow> exn + unit" where
  "assert_live_reservation r owner epoch now_us =
     bindE (require (pb_state r = Reserved) CandidatePublicationConflictError) (\<lambda>_.
     bindE (require (pb_reservation_owner_id r = owner \<and> pb_reservation_epoch r = epoch)
       CandidatePublicationStaleReservationError) (\<lambda>_.
     require (case pb_reservation_expires_at_us r of None \<Rightarrow> False | Some e \<Rightarrow> now_us < e)
       CandidatePublicationStaleReservationError))"

section \<open>Reserving\<close>

text \<open>\<open>_parts_to_evidence\<close> with \<open>CandidateDerivationEvidence.as_mapping\<close>.\<close>

definition parts_to_evidence :: "(string \<times> json) list \<Rightarrow> exn + json" where
  "parts_to_evidence parts =
     (if \<forall>k \<in> {''job'', ''result'', ''result_manifest'', ''timeline_binding'', ''drawing_ref'',
          ''occurrences''}. jhas parts k
      then Inr (JObj
        ([(''envelope_version'', JStr ''1.0''), (''job'', get_null parts ''job''),
          (''result'', get_null parts ''result''),
          (''result_manifest'', get_null parts ''result_manifest''),
          (''timeline_binding'', get_null parts ''timeline_binding''),
          (''drawing_ref'', get_null parts ''drawing_ref''),
          (''occurrences'', get_null parts ''occurrences''),
          (''rejected_alternative_count'',
            case jget parts ''rejected_alternative_count'' of None \<Rightarrow> JInt 0 | Some v \<Rightarrow> v)] @
         (if get_null parts ''qualifying_run_length'' = JNull then []
          else [(''qualifying_run_length'', get_null parts ''qualifying_run_length'')])))
      else Inl invalid)"

record reserve_args =
  ra_derivation_evidence :: "json option"
  ra_evidence :: "json option"
  ra_parts :: "(string \<times> json) list"
  ra_reservation_owner_id :: "string option"
  ra_owner_id :: "string option"
  ra_lease_duration_seconds :: "int option"
  ra_lease_seconds :: "int option"

definition reserve_evidence :: "reserve_args \<Rightarrow> exn + json" where
  "reserve_evidence a =
     (case or_alias (ra_derivation_evidence a) (ra_evidence a) of
        Some e \<Rightarrow> Inr e
      | None \<Rightarrow> if ra_parts a = [] then Inl invalid else parts_to_evidence (ra_parts a))"

definition reserved_row ::
  "(string \<Rightarrow> string) \<Rightarrow> scope \<Rightarrow> prepared \<Rightarrow> string \<Rightarrow> int \<Rightarrow> int \<Rightarrow> publication" where
  "reserved_row sha scope p owner expires now_us =
     \<lparr>pb_tenant_id = tenant_id scope, pb_workspace_id = workspace_id scope,
      pb_publication_key = pp_publication_key p, pb_schema_version = ''1.0'',
      pb_job_id = pp_job_id p, pb_session_id = pp_session_id p,
      pb_source_result_sha256 = pp_source_result_sha256 p,
      pb_derivation_evidence_jcs = pp_evidence_bytes p,
      pb_derivation_evidence_sha256 = sha (pp_evidence_bytes p),
      pb_review_target_id = pp_review_target_id p, pb_content_sha256 = pp_content_sha256 p,
      pb_full_sha256 = pp_full_sha256 p, pb_byte_length = int (length (pp_candidate_bytes p)),
      pb_state = Reserved, pb_reservation_owner_id = owner, pb_reservation_epoch = 1,
      pb_reservation_expires_at_us = Some expires, pb_canonical_bytes = None,
      pb_reserved_at_us = now_us, pb_updated_at_us = now_us, pb_finalized_at_us = None,
      pb_writer_epoch = 1\<rparr>"

text \<open>The body of the transaction when the row exists: replay, keep, refuse or reacquire.\<close>

definition reserve_existing ::
  "(string \<Rightarrow> string) \<Rightarrow> coercions \<Rightarrow> scope \<Rightarrow> prepared \<Rightarrow> string \<Rightarrow> int \<Rightarrow> int \<Rightarrow> publication \<Rightarrow>
   publication list \<Rightarrow> exn + publication_record \<times> publication list" where
  "reserve_existing sha c scope p owner lease now_us row db =
     bindE (if pb_state row = Finalized
         then bindE (verified_record_from_row sha c row) (\<lambda>_. Inr ())
         else bindE (verified_stored_evidence sha c row) (\<lambda>_. Inr ())) (\<lambda>_.
     bindE (assert_same_immutable_identity sha row scope p) (\<lambda>_.
     if pb_state row = Finalized
     then bindE (verified_record_from_row sha c row) (\<lambda>rec. Inr (rec, db))
     else case pb_reservation_expires_at_us row of
       None \<Rightarrow> Inl TypeError
     | Some e \<Rightarrow>
         if now_us < e then
           if pb_reservation_owner_id row \<noteq> owner then Inl CandidatePublicationUnavailableError
           else Inr (record_from_row False row, db)
         else
           let previous_epoch = pb_reservation_epoch row in
           if previous_epoch \<ge> max_signed_64 then Inl CandidatePublicationUnavailableError
           else
             bindE (lease_expiry now_us lease) (\<lambda>expires.
             bindE (update_publications
                 (\<lambda>r. has_key scope (pp_publication_key p) r \<and> pb_state r = Reserved \<and>
                    pb_reservation_epoch r = previous_epoch)
                 (\<lambda>r. r\<lparr>pb_reservation_owner_id := owner,
                    pb_reservation_epoch := previous_epoch + 1,
                    pb_reservation_expires_at_us := Some expires, pb_updated_at_us := now_us\<rparr>)
                 db) (\<lambda>db'.
             case select_publication scope (pp_publication_key p) db' of
               None \<Rightarrow> Inl CandidatePublicationUnavailableError
             | Some updated \<Rightarrow> Inr (record_from_row False updated, db')))))"

definition reserve_new ::
  "(string \<Rightarrow> string) \<Rightarrow> scope \<Rightarrow> prepared \<Rightarrow> string \<Rightarrow> int \<Rightarrow> int \<Rightarrow> publication list \<Rightarrow>
   exn + publication_record \<times> publication list" where
  "reserve_new sha scope p owner lease now_us db =
     (if list_ex (\<lambda>r. pb_tenant_id r = tenant_id scope \<and> pb_workspace_id r = workspace_id scope \<and>
          pb_job_id r = pp_job_id p) db
      then Inl CandidatePublicationConflictError
      else
        bindE (lease_expiry now_us lease) (\<lambda>expires.
        bindE (insert_publication (reserved_row sha scope p owner expires now_us) db) (\<lambda>db'.
        case select_publication scope (pp_publication_key p) db' of
          None \<Rightarrow> Inl CandidatePublicationUnavailableError
        | Some inserted \<Rightarrow> Inr (record_from_row False inserted, db'))))"

definition reserve_body ::
  "(string \<Rightarrow> string) \<Rightarrow> coercions \<Rightarrow> scope \<Rightarrow> reserve_args \<Rightarrow> int \<Rightarrow> publication list \<Rightarrow>
   exn + publication_record \<times> publication list" where
  "reserve_body sha c scope a now db =
     bindE (checked_scope scope) (\<lambda>_.
     bindE (reserve_evidence a) (\<lambda>evidence.
     bindE (require_owner (or_alias (ra_reservation_owner_id a) (ra_owner_id a))) (\<lambda>owner.
     bindE (require_lease_seconds (or_alias (ra_lease_duration_seconds a) (ra_lease_seconds a))) (\<lambda>lease.
     bindE (resolve_now now) (\<lambda>now_us.
     bindE (prepare_publication sha c evidence) (\<lambda>p.
     case select_publication scope (pp_publication_key p) db of
       Some row \<Rightarrow> reserve_existing sha c scope p owner lease now_us row db
     | None \<Rightarrow> reserve_new sha scope p owner lease now_us db))))))"

definition reserve ::
  "(string \<Rightarrow> string) \<Rightarrow> coercions \<Rightarrow> scope \<Rightarrow> reserve_args \<Rightarrow> int \<Rightarrow> publication list \<Rightarrow>
   (exn + publication_record) \<times> publication list" where
  "reserve sha c scope a now = transaction (reserve_body sha c scope a now)"

section \<open>Finalizing\<close>

record finalize_args =
  fa_publication_key :: string
  fa_reservation_owner_id :: "string option"
  fa_owner_id :: "string option"
  fa_reservation_epoch :: "int option"
  fa_fencing_epoch :: "int option"
  fa_canonical_bytes :: "string option"
  fa_candidate_bytes :: "string option"

record finalize_request =
  fr_key :: string
  fr_owner :: string
  fr_epoch :: int
  fr_bytes :: string
  fr_now :: int

definition finalize_request_of :: "scope \<Rightarrow> finalize_args \<Rightarrow> int \<Rightarrow> exn + finalize_request" where
  "finalize_request_of scope a now =
     bindE (checked_scope scope) (\<lambda>_.
     bindE (require_publication_key (fa_publication_key a)) (\<lambda>_.
     bindE (require_owner (or_alias (fa_reservation_owner_id a) (fa_owner_id a))) (\<lambda>owner.
     bindE (require_positive_epoch (or_alias (fa_reservation_epoch a) (fa_fencing_epoch a))) (\<lambda>epoch.
     bindE (case or_alias (fa_canonical_bytes a) (fa_candidate_bytes a) of
         None \<Rightarrow> Inl invalid | Some b \<Rightarrow> Inr b) (\<lambda>b.
     bindE (require_byte_cap b) (\<lambda>_.
     bindE (resolve_now now) (\<lambda>now_us.
     Inr \<lparr>fr_key = fa_publication_key a, fr_owner = owner, fr_epoch = epoch, fr_bytes = b,
       fr_now = now_us\<rparr>)))))))"

definition verify_supplied_bytes ::
  "(string \<Rightarrow> string) \<Rightarrow> coercions \<Rightarrow> publication \<Rightarrow> string \<Rightarrow> exn + unit" where
  "verify_supplied_bytes sha c row b =
     bindE (verified_stored_evidence sha c row) (\<lambda>p.
     let expected = record_from_row True row in
     bindE (require (pb_state expected = Reserved) CandidatePublicationConflictError) (\<lambda>_.
     bindE (require (sha b = pb_full_sha256 expected) CandidatePublicationConflictError) (\<lambda>_.
     bindE (require (int (length b) = pb_byte_length expected) CandidatePublicationConflictError) (\<lambda>_.
     require (pp_candidate_bytes p = b \<and> pp_publication_key p = pb_publication_key expected \<and>
       pp_job_id p = pb_job_id expected \<and> pp_session_id p = pb_session_id expected \<and>
       pp_source_result_sha256 p = pb_source_result_sha256 expected \<and>
       pp_review_target_id p = pb_review_target_id expected \<and>
       pp_content_sha256 p = pb_content_sha256 expected \<and>
       pp_full_sha256 p = pb_full_sha256 expected) CandidatePublicationConflictError))))"

text \<open>
  What both reads of \<open>finalize\<close> do with the row: \<open>Some\<close> the verified record when it is already
  final with the same bytes, \<open>None\<close> when the reservation is live and the bytes are the derived ones.
\<close>

definition finalize_check ::
  "(string \<Rightarrow> string) \<Rightarrow> coercions \<Rightarrow> scope \<Rightarrow> finalize_request \<Rightarrow> publication list \<Rightarrow>
   exn + publication_record option" where
  "finalize_check sha c scope q db =
     (case select_publication scope (fr_key q) db of
        None \<Rightarrow> Inl CandidatePublicationNotFoundError
      | Some row \<Rightarrow>
          if pb_state row = Finalized then
            bindE (verified_record_from_row sha c row) (\<lambda>verified.
            if pb_canonical_bytes verified \<noteq> Some (fr_bytes q)
            then Inl CandidatePublicationConflictError else Inr (Some verified))
          else
            bindE (assert_live_reservation row (fr_owner q) (fr_epoch q) (fr_now q)) (\<lambda>_.
            bindE (verify_supplied_bytes sha c row (fr_bytes q)) (\<lambda>_. Inr None)))"

definition finalized_row :: "finalize_request \<Rightarrow> publication \<Rightarrow> publication" where
  "finalized_row q r =
     r\<lparr>pb_state := Finalized, pb_canonical_bytes := Some (fr_bytes q),
       pb_reservation_expires_at_us := None, pb_finalized_at_us := Some (fr_now q),
       pb_updated_at_us := fr_now q\<rparr>"

definition finalize_write ::
  "(string \<Rightarrow> string) \<Rightarrow> coercions \<Rightarrow> scope \<Rightarrow> finalize_request \<Rightarrow> publication list \<Rightarrow>
   exn + publication_record \<times> publication list" where
  "finalize_write sha c scope q db =
     bindE (finalize_check sha c scope q db) (\<lambda>checked.
     case checked of
       Some verified \<Rightarrow> Inr (verified, db)
     | None \<Rightarrow>
         bindE (require (case select_publication scope (fr_key q) db of
             None \<Rightarrow> False | Some row \<Rightarrow> pb_updated_at_us row \<le> fr_now q)
           CandidatePublicationUnavailableError) (\<lambda>_.
         bindE (update_publications
             (\<lambda>r. has_key scope (fr_key q) r \<and> pb_state r = Reserved \<and>
                pb_reservation_owner_id r = fr_owner q \<and> pb_reservation_epoch r = fr_epoch q)
             (finalized_row q) db) (\<lambda>db'.
         case select_publication scope (fr_key q) db' of
           None \<Rightarrow> Inl CandidatePublicationUnavailableError
         | Some updated \<Rightarrow>
             bindE (verified_record_from_row sha c updated) (\<lambda>rec. Inr (rec, db')))))"

text \<open>
  \<open>finalize\<close> reads the row once outside a transaction and again inside one; another process may
  act in between, so the two reads have databases of their own. The first read writes nothing.
\<close>

definition finalize ::
  "(string \<Rightarrow> string) \<Rightarrow> coercions \<Rightarrow> scope \<Rightarrow> finalize_args \<Rightarrow> int \<Rightarrow> publication list \<Rightarrow>
   publication list \<Rightarrow> (exn + publication_record) \<times> publication list" where
  "finalize sha c scope a now seen db =
     (case finalize_request_of scope a now of
        Inl e \<Rightarrow> (Inl e, db)
      | Inr q \<Rightarrow>
          (case finalize_check sha c scope q seen of
             Inl e \<Rightarrow> (Inl e, db)
           | Inr (Some verified) \<Rightarrow> (Inr verified, db)
           | Inr None \<Rightarrow> transaction (finalize_write sha c scope q) db))"

section \<open>Reading\<close>

definition get_finalized ::
  "(string \<Rightarrow> string) \<Rightarrow> coercions \<Rightarrow> scope \<Rightarrow> string \<Rightarrow> publication list \<Rightarrow> exn + publication_record" where
  "get_finalized sha c scope key db =
     bindE (checked_scope scope) (\<lambda>_.
     bindE (require_publication_key key) (\<lambda>_.
     case select_publication scope key db of
       None \<Rightarrow> Inl CandidatePublicationNotFoundError
     | Some row \<Rightarrow>
         if pb_state row \<noteq> Finalized then Inl CandidatePublicationNotFoundError
         else verified_record_from_row sha c row))"

definition read_finalized_bytes ::
  "(string \<Rightarrow> string) \<Rightarrow> coercions \<Rightarrow> scope \<Rightarrow> string \<Rightarrow> publication list \<Rightarrow> exn + string" where
  "read_finalized_bytes sha c scope key db =
     bindE (get_finalized sha c scope key db) (\<lambda>rec.
     case pb_canonical_bytes rec of
       None \<Rightarrow> Inl CandidatePublicationCorruptionError | Some b \<Rightarrow> Inr b)"

end
