(* ===== verification/Publication_Discovery.thy ===== *)
theory Publication_Discovery
  imports Publication_Store
begin

text \<open>
  Discovery over the publication store: the cursor and its text, the read-only look at the review
  database, and the paged scan of \<open>list_finalized_unreviewed\<close>. A page holds at most
  \<open>DISCOVERY_SCAN_BATCH\<close> rows and the scan goes on until it has \<open>limit\<close> records or the rows end, so
  it is a partial function; that it always returns is a theorem.
\<close>

section \<open>Cursors\<close>

record cursor =
  cu_finalized_at_us :: int
  cu_publication_key :: string

text \<open>The constructor with its \<open>__post_init__\<close>, on the values a row or a JSON array holds.\<close>

definition make_cursor :: "json \<Rightarrow> json \<Rightarrow> exn + cursor" where
  "make_cursor t k =
     (case t of
        JInt i \<Rightarrow>
          if \<not> is_i64 i then Inl invalid
          else (case k of
            JStr s \<Rightarrow>
              if publication_key_pattern s
              then Inr \<lparr>cu_finalized_at_us = i, cu_publication_key = s\<rparr> else Inl invalid
          | _ \<Rightarrow> Inl invalid)
      | _ \<Rightarrow> Inl invalid)"

definition encode_cursor :: "cursor \<Rightarrow> string" where
  "encode_cursor cu =
     print False (JArr [JInt (cu_finalized_at_us cu), JStr (cu_publication_key cu)])"

definition decode_cursor :: "string \<Rightarrow> exn + cursor" where
  "decode_cursor t =
     bindE (except (\<lambda>e. e \<in> {TypeError, ValueError}) invalid (loads t)) (\<lambda>v.
     case v of JArr [a, b] \<Rightarrow> make_cursor a b | _ \<Rightarrow> Inl invalid)"

datatype cursor_argument =
    No_Cursor | A_Cursor cursor | Text_Cursor string | Pair_Cursor json json
  | Mapping_Cursor "(string \<times> json) list"

definition coerce_cursor :: "cursor_argument \<Rightarrow> exn + cursor option" where
  "coerce_cursor a =
     (case a of
        No_Cursor \<Rightarrow> Inr None
      | A_Cursor cu \<Rightarrow> Inr (Some cu)
      | Text_Cursor t \<Rightarrow> bindE (decode_cursor t) (\<lambda>cu. Inr (Some cu))
      | Pair_Cursor x y \<Rightarrow> bindE (make_cursor x y) (\<lambda>cu. Inr (Some cu))
      | Mapping_Cursor d \<Rightarrow>
          (case (jget d ''finalized_at_us'', jget d ''publication_key'') of
             (Some x, Some y) \<Rightarrow> bindE (make_cursor x y) (\<lambda>cu. Inr (Some cu))
           | _ \<Rightarrow> Inl KeyError))"

section \<open>The review database\<close>

text \<open>
  No control database was configured; or it is missing, unreadable or without its review tables;
  or it can be queried.
\<close>

datatype review_authority = No_Control | Unusable_Control | Control control_db

text \<open>A projection that says \<open>unreviewed\<close> is never valid: every branch returns \<open>False\<close>.\<close>

definition valid_unreviewed_projection :: "control_db \<Rightarrow> projection_row \<Rightarrow> string \<Rightarrow> bool" where
  "valid_unreviewed_projection control p target =
     (if pr_target_id p \<noteq> target \<or> pr_status p \<noteq> ''unreviewed'' then False
      else if pr_version p = 0 then False
      else if target_events target control \<noteq> [] then False
      else False)"

definition review_is_effectively_unreviewed ::
  "scope \<Rightarrow> review_authority \<Rightarrow> publication_record \<Rightarrow> bool" where
  "review_is_effectively_unreviewed scope authority rec =
     (case authority of
        No_Control \<Rightarrow> True
      | Unusable_Control \<Rightarrow> False
      | Control control \<Rightarrow>
          (case qualify scope ''review_target'' (pb_review_target_id rec) of
             Inl _ \<Rightarrow> False
           | Inr target \<Rightarrow>
               (case find_projection target control of
                  None \<Rightarrow> target_events target control = []
                | Some p \<Rightarrow> valid_unreviewed_projection control p target)))"

section \<open>The scan\<close>

text \<open>\<open>CandidatePublicationMetadata\<close>: the record without evidence and candidate bytes.\<close>

record publication_metadata =
  pm_tenant_id :: string
  pm_workspace_id :: string
  pm_publication_key :: string
  pm_schema_version :: string
  pm_job_id :: string
  pm_session_id :: string
  pm_source_result_sha256 :: string
  pm_derivation_evidence_sha256 :: string
  pm_review_target_id :: string
  pm_content_sha256 :: string
  pm_full_sha256 :: string
  pm_publication_identity :: string
  pm_byte_length :: int
  pm_state :: publication_state
  pm_reserved_at_us :: int
  pm_updated_at_us :: int
  pm_finalized_at_us :: "int option"
  pm_writer_epoch :: int

definition without_bytes :: "publication_record \<Rightarrow> publication_metadata" where
  "without_bytes r =
     \<lparr>pm_tenant_id = pb_tenant_id r, pm_workspace_id = pb_workspace_id r,
      pm_publication_key = pb_publication_key r, pm_schema_version = pb_schema_version r,
      pm_job_id = pb_job_id r, pm_session_id = pb_session_id r,
      pm_source_result_sha256 = pb_source_result_sha256 r,
      pm_derivation_evidence_sha256 = pb_derivation_evidence_sha256 r,
      pm_review_target_id = pb_review_target_id r, pm_content_sha256 = pb_content_sha256 r,
      pm_full_sha256 = pb_full_sha256 r, pm_publication_identity = pr_publication_identity r,
      pm_byte_length = pb_byte_length r, pm_state = pb_state r,
      pm_reserved_at_us = pb_reserved_at_us r, pm_updated_at_us = pb_updated_at_us r,
      pm_finalized_at_us = pb_finalized_at_us r, pm_writer_epoch = pb_writer_epoch r\<rparr>"

definition discovery_scan_batch :: nat where
  "discovery_scan_batch = 100"

definition after_cursor :: "cursor option \<Rightarrow> publication \<Rightarrow> bool" where
  "after_cursor cu r =
     (case cu of
        None \<Rightarrow> True
      | Some cu \<Rightarrow>
          (case pb_finalized_at_us r of
             None \<Rightarrow> False
           | Some t \<Rightarrow> cu_finalized_at_us cu < t \<or>
               t = cu_finalized_at_us cu \<and> cu_publication_key cu < pb_publication_key r))"

text \<open>A null column sorts first.\<close>

definition finalized_order :: "publication \<Rightarrow> int" where
  "finalized_order r = (case pb_finalized_at_us r of None \<Rightarrow> min_signed_64 - 1 | Some t \<Rightarrow> t)"

definition finalized_after :: "scope \<Rightarrow> cursor option \<Rightarrow> publication list \<Rightarrow> publication list" where
  "finalized_after scope cu db =
     sort_key finalized_order (sort_key pb_publication_key
       (filter (\<lambda>r. pb_tenant_id r = tenant_id scope \<and> pb_workspace_id r = workspace_id scope \<and>
          pb_state r = Finalized \<and> after_cursor cu r) db))"

definition row_cursor :: "publication \<Rightarrow> exn + cursor" where
  "row_cursor r =
     make_cursor (case pb_finalized_at_us r of None \<Rightarrow> JNull | Some t \<Rightarrow> JInt t)
       (JStr (pb_publication_key r))"

definition discover_row ::
  "(string \<Rightarrow> string) \<Rightarrow> coercions \<Rightarrow> scope \<Rightarrow> review_authority \<Rightarrow> publication \<Rightarrow>
   exn + publication_metadata option" where
  "discover_row sha c scope authority row =
     bindE (verified_record_from_row sha c row) (\<lambda>verified.
     if review_is_effectively_unreviewed scope authority verified
     then Inr (Some (without_bytes verified)) else Inr None)"

text \<open>The loop over the rows of one page; a publication error excludes the row.\<close>

fun scan_rows ::
  "(string \<Rightarrow> string) \<Rightarrow> coercions \<Rightarrow> scope \<Rightarrow> review_authority \<Rightarrow> nat \<Rightarrow> publication list \<Rightarrow>
   cursor option \<Rightarrow> publication_metadata list \<Rightarrow> exn + cursor option \<times> publication_metadata list" where
  "scan_rows sha c scope authority limit [] cu records = Inr (cu, records)"
| "scan_rows sha c scope authority limit (row # rows) cu records =
     bindE (row_cursor row) (\<lambda>cu'.
     case discover_row sha c scope authority row of
       Inl e \<Rightarrow>
         if publication_error e then scan_rows sha c scope authority limit rows (Some cu') records
         else Inl e
     | Inr None \<Rightarrow> scan_rows sha c scope authority limit rows (Some cu') records
     | Inr (Some m) \<Rightarrow>
         if length (records @ [m]) = limit then Inr (Some cu', records @ [m])
         else scan_rows sha c scope authority limit rows (Some cu') (records @ [m]))"

partial_function (option) scan ::
  "(string \<Rightarrow> string) \<Rightarrow> coercions \<Rightarrow> scope \<Rightarrow> review_authority \<Rightarrow> nat \<Rightarrow> publication list \<Rightarrow>
   cursor option \<Rightarrow> publication_metadata list \<Rightarrow> (exn + publication_metadata list) option" where
  "scan sha c scope authority limit db cu records =
     (if \<not> length records < limit then Some (Inr records)
      else
        let rows = take discovery_scan_batch (finalized_after scope cu db) in
        if rows = [] then Some (Inr records)
        else case scan_rows sha c scope authority limit rows cu records of
          Inl e \<Rightarrow> Some (Inl e)
        | Inr (cu', records') \<Rightarrow>
            if length rows < discovery_scan_batch \<or> length records' = limit
            then Some (Inr records')
            else scan sha c scope authority limit db cu' records')"

definition require_limit :: "int \<Rightarrow> exn + unit" where
  "require_limit l = require (1 \<le> l \<and> l \<le> 100) invalid"

definition list_finalized_unreviewed ::
  "(string \<Rightarrow> string) \<Rightarrow> coercions \<Rightarrow> scope \<Rightarrow> review_authority \<Rightarrow> int \<Rightarrow> cursor_argument \<Rightarrow>
   publication list \<Rightarrow> (exn + publication_metadata list) option" where
  "list_finalized_unreviewed sha c scope authority limit cu db =
     (case bindE (checked_scope scope) (\<lambda>_. bindE (require_limit limit) (\<lambda>_. coerce_cursor cu)) of
        Inl e \<Rightarrow> Some (Inl e)
      | Inr start \<Rightarrow> scan sha c scope authority (nat limit) db start [])"

end
