(* ===== verification/Publication_Lemmas.thy ===== *)
theory Publication_Lemmas
  imports Publication_Discovery
begin

text \<open>
  The publication store as a system: which rows an operation writes, the invariant of the table,
  and that finalized rows stay. The properties of the component rest on these lemmas.
\<close>

section \<open>Inversion of the operations\<close>

lemma not_Finalized [simp]: "s \<noteq> Finalized \<longleftrightarrow> s = Reserved"
  by (cases s) simp_all

lemma has_key_unique:
  "\<not> same_publication a b \<Longrightarrow> has_key s k a \<Longrightarrow> \<not> has_key s k b"
  by (auto simp: same_publication_def has_key_def)

lemma select_publication_Some:
  "select_publication s k db = Some r \<Longrightarrow> r \<in> set db \<and> has_key s k r"
  unfolding select_publication_def by (rule find_SomeD)

lemma select_publication_None: "select_publication s k db = None \<Longrightarrow> r \<in> set db \<Longrightarrow> \<not> has_key s k r"
  unfolding select_publication_def by (rule find_NoneD)

lemma update_publications_Inr [flow]:
  "update_publications P f db = Inr db' \<longleftrightarrow>
     db' = update_where P f db \<and>
     (\<forall>r \<in> set db. P r \<longrightarrow> update_trigger r (f r) \<and> publication_check (f r))"
  by (auto simp: update_publications_def)

lemma insert_publication_Inr [flow]:
  "insert_publication r db = Inr db' \<longleftrightarrow>
     db' = db @ [r] \<and> publication_check r \<and> (\<forall>x \<in> set db. \<not> same_publication r x)"
  by (auto simp: insert_publication_def flow)

text \<open>
  What one operation may do to the table: nothing, append a fresh reservation, give a reservation
  that has run out to a new owner under the next epoch, or finalize a live reservation.
\<close>

inductive table_change ::
  "(string \<Rightarrow> string) \<Rightarrow> coercions \<Rightarrow> publication list \<Rightarrow> publication list \<Rightarrow> bool"
  for sha c where
  unchanged: "table_change sha c db db"
| appended: "prepare_publication sha c ev = Inr p \<Longrightarrow> owner_pattern owner \<Longrightarrow>
    r = reserved_row sha s p owner expires now \<Longrightarrow> publication_check r \<Longrightarrow> valid_scope s \<Longrightarrow>
    (\<forall>x \<in> set db. \<not> same_publication r x) \<Longrightarrow> table_change sha c db (db @ [r])"
| reacquired: "r \<in> set db \<Longrightarrow> has_key s k r \<Longrightarrow> pb_state r = Reserved \<Longrightarrow>
    pb_reservation_expires_at_us r = Some e \<Longrightarrow> e \<le> now \<Longrightarrow> epoch = pb_reservation_epoch r \<Longrightarrow>
    (\<forall>x \<in> set db. has_key s k x \<and> pb_state x = Reserved \<and> pb_reservation_epoch x = epoch \<longrightarrow>
       publication_check (x\<lparr>pb_reservation_owner_id := owner, pb_reservation_epoch := epoch + 1,
         pb_reservation_expires_at_us := Some e', pb_updated_at_us := now\<rparr>)) \<Longrightarrow>
    table_change sha c db
      (update_where (\<lambda>x. has_key s k x \<and> pb_state x = Reserved \<and> pb_reservation_epoch x = epoch)
        (\<lambda>x. x\<lparr>pb_reservation_owner_id := owner, pb_reservation_epoch := epoch + 1,
           pb_reservation_expires_at_us := Some e', pb_updated_at_us := now\<rparr>) db)"
| finalized: "r \<in> set db \<Longrightarrow> has_key s (fr_key q) r \<Longrightarrow>
    assert_live_reservation r (fr_owner q) (fr_epoch q) (fr_now q) = Inr () \<Longrightarrow>
    verify_supplied_bytes sha c r (fr_bytes q) = Inr () \<Longrightarrow>
    (\<forall>x \<in> set db. has_key s (fr_key q) x \<and> pb_state x = Reserved \<and>
       pb_reservation_owner_id x = fr_owner q \<and> pb_reservation_epoch x = fr_epoch q \<longrightarrow>
       publication_check (finalized_row q x)) \<Longrightarrow>
    table_change sha c db
      (update_where (\<lambda>x. has_key s (fr_key q) x \<and> pb_state x = Reserved \<and>
         pb_reservation_owner_id x = fr_owner q \<and> pb_reservation_epoch x = fr_epoch q)
        (finalized_row q) db)"

lemma reserve_existing_change:
  assumes "reserve_existing sha c s p owner lease now row db = Inr (rec, db')"
    and "select_publication s (pp_publication_key p) db = Some row"
  shows "table_change sha c db db'"
proof (cases "db' = db")
  case False
  from assms(1) False obtain e expires where
    row: "pb_state row = Reserved" "pb_reservation_expires_at_us row = Some e" "e \<le> now" and
    u: "update_publications
          (\<lambda>r. has_key s (pp_publication_key p) r \<and> pb_state r = Reserved \<and>
             pb_reservation_epoch r = pb_reservation_epoch row)
          (\<lambda>r. r\<lparr>pb_reservation_owner_id := owner,
             pb_reservation_epoch := pb_reservation_epoch row + 1,
             pb_reservation_expires_at_us := Some expires, pb_updated_at_us := now\<rparr>) db = Inr db'"
    unfolding reserve_existing_def
    by (auto simp: flow Let_def simp del: update_publications_Inr split: if_splits option.splits)
  from select_publication_Some [OF assms(2)] u row show ?thesis
    unfolding update_publications_Inr by (blast intro: reacquired)
qed (simp add: unchanged)

lemma reserve_new_change:
  assumes "reserve_new sha s p owner lease now db = Inr (rec, db')"
    and "prepare_publication sha c ev = Inr p" and "owner_pattern owner" and "valid_scope s"
  shows "table_change sha c db db'"
  using assms(1) unfolding reserve_new_def
  by (auto simp: flow split: if_splits option.splits intro!: appended [OF assms(2,3) refl _ assms(4)])

lemma require_owner_Inr [flow]: "require_owner x = Inr s \<longleftrightarrow> x = Some s \<and> owner_pattern s"
  by (auto simp: require_owner_def split: option.splits)

lemma checked_scope_Inr [flow]: "checked_scope s = Inr u \<longleftrightarrow> valid_scope s"
  by (auto simp: checked_scope_def flow)

lemma reserve_body_change: "reserve_body sha c s a now db = Inr (rec, db') \<Longrightarrow> table_change sha c db db'"
  unfolding reserve_body_def
  by (elim bindE_InrE)
    (auto simp: flow split: option.splits intro: reserve_existing_change reserve_new_change)

lemma finalize_check_None:
  "finalize_check sha c s q db = Inr None \<Longrightarrow> \<exists>row. select_publication s (fr_key q) db = Some row \<and>
     pb_state row = Reserved \<and>
     assert_live_reservation row (fr_owner q) (fr_epoch q) (fr_now q) = Inr () \<and>
     verify_supplied_bytes sha c row (fr_bytes q) = Inr ()"
  by (cases "select_publication s (fr_key q) db")
    (auto simp: finalize_check_def flow assert_live_reservation_def split: if_splits)

lemma finalize_write_change:
  assumes "finalize_write sha c s q db = Inr (rec, db')"
  shows "table_change sha c db db'"
proof (cases "finalize_check sha c s q db")
  case (Inr checked)
  show ?thesis
  proof (cases checked)
    case None
    with Inr finalize_check_None obtain row where row:
      "select_publication s (fr_key q) db = Some row"
      "assert_live_reservation row (fr_owner q) (fr_epoch q) (fr_now q) = Inr ()"
      "verify_supplied_bytes sha c row (fr_bytes q) = Inr ()" by blast
    from assms Inr None have "update_publications
        (\<lambda>x. has_key s (fr_key q) x \<and> pb_state x = Reserved \<and>
           pb_reservation_owner_id x = fr_owner q \<and> pb_reservation_epoch x = fr_epoch q)
        (finalized_row q) db = Inr db'"
      by (auto simp: finalize_write_def flow split: option.splits)
    with select_publication_Some [OF row(1)] row show ?thesis
      unfolding update_publications_Inr by (blast intro: finalized)
  qed (use assms Inr in \<open>simp add: finalize_write_def unchanged\<close>)
qed (use assms in \<open>simp add: finalize_write_def\<close>)

lemma reserve_change: "table_change sha c db (snd (reserve sha c s a now db))"
  unfolding reserve_def transaction_def
  by (auto split: sum.splits intro: unchanged reserve_body_change)

lemma finalize_change: "table_change sha c db (snd (finalize sha c s a now seen db))"
  unfolding finalize_def transaction_def
  by (auto split: sum.splits option.splits intro: unchanged finalize_write_change)

section \<open>The invariant\<close>

definition carries :: "(string \<Rightarrow> string) \<Rightarrow> prepared \<Rightarrow> publication \<Rightarrow> bool" where
  "carries sha p r \<longleftrightarrow>
     pb_publication_key r = pp_publication_key p \<and> pb_job_id r = pp_job_id p \<and>
     pb_session_id r = pp_session_id p \<and>
     pb_source_result_sha256 r = pp_source_result_sha256 p \<and>
     pb_derivation_evidence_jcs r = pp_evidence_bytes p \<and>
     pb_derivation_evidence_sha256 r = sha (pp_evidence_bytes p) \<and>
     pb_review_target_id r = pp_review_target_id p \<and>
     pb_content_sha256 r = pp_content_sha256 p \<and> pb_full_sha256 r = pp_full_sha256 p \<and>
     pb_byte_length r = int (length (pp_candidate_bytes p)) \<and>
     (pb_state r = Finalized \<longrightarrow> pb_canonical_bytes r = Some (pp_candidate_bytes p))"

definition backed :: "(string \<Rightarrow> string) \<Rightarrow> coercions \<Rightarrow> publication \<Rightarrow> bool" where
  "backed sha c r \<longleftrightarrow> (\<exists>ev p. prepare_publication sha c ev = Inr p \<and> carries sha p r)"

definition publications_ok :: "(string \<Rightarrow> string) \<Rightarrow> coercions \<Rightarrow> publication list \<Rightarrow> bool" where
  "publications_ok sha c db \<longleftrightarrow>
     (\<forall>r \<in> set db. publication_check r \<and> backed sha c r) \<and>
     sorted_wrt (\<lambda>a b. \<not> same_publication a b) db"

lemma same_publication_sym: "same_publication a b = same_publication b a"
  by (auto simp: same_publication_def)

lemma same_publication_cong:
  "same_identity a a' \<Longrightarrow> same_identity b b' \<Longrightarrow> same_publication a b = same_publication a' b'"
  by (simp add: same_publication_def same_identity_def)

lemma same_identity_refl [simp]: "same_identity r r"
  by (simp add: same_identity_def)

lemma sorted_wrt_update_where:
  assumes "\<And>r. same_identity r (f r)" and "sorted_wrt (\<lambda>a b. \<not> same_publication a b) db"
  shows "sorted_wrt (\<lambda>a b. \<not> same_publication a b) (update_where P f db)"
  using assms(2) unfolding update_where_def sorted_wrt_map
  by (elim sorted_wrt_mono_rel [rotated])
    (auto simp: assms(1) same_publication_cong [OF assms(1) assms(1), symmetric]
      same_publication_cong [OF same_identity_refl assms(1), symmetric]
      same_publication_cong [OF assms(1) same_identity_refl, symmetric])

lemma publications_distinct:
  "sorted_wrt (\<lambda>a b. \<not> same_publication a b) db \<Longrightarrow> a \<in> set db \<Longrightarrow> b \<in> set db \<Longrightarrow> a \<noteq> b \<Longrightarrow>
   \<not> same_publication a b"
  by (induction db) (auto simp: same_publication_sym)

lemma has_key_eq:
  "sorted_wrt (\<lambda>a b. \<not> same_publication a b) db \<Longrightarrow> a \<in> set db \<Longrightarrow> b \<in> set db \<Longrightarrow>
   has_key s k a \<Longrightarrow> has_key s k b \<Longrightarrow> a = b"
  using publications_distinct has_key_unique by blast

lemma key_index_unique:
  assumes "sorted_wrt (\<lambda>a b. \<not> same_publication a b) db" and "i < length db" and "j < length db"
    and "has_key s k (db ! i)" and "has_key s k (db ! j)"
  shows "j = i"
proof (rule ccontr)
  assume "j \<noteq> i"
  then have "\<not> same_publication (db ! i) (db ! j) \<or> \<not> same_publication (db ! j) (db ! i)"
    using sorted_wrt_nth_less [OF assms(1)] assms(2,3) by (meson linorder_neqE_nat)
  then show False using assms(4,5) has_key_unique by blast
qed

lemma verified_stored_evidence_carries:
  "verified_stored_evidence sha c r = Inr p \<Longrightarrow> pb_state r = Reserved \<Longrightarrow>
   (\<exists>ev. prepare_publication sha c ev = Inr p) \<and> carries sha p r"
  unfolding verified_stored_evidence_def
  by (elim bindE_InrE) (auto simp: flow carries_def corrupt_def)

lemma carries_reserved [simp]:
  "pb_state r = Reserved \<Longrightarrow>
   carries sha p (r\<lparr>pb_reservation_owner_id := owner, pb_reservation_epoch := epoch,
     pb_reservation_expires_at_us := e, pb_updated_at_us := now\<rparr>) = carries sha p r"
  by (simp add: carries_def)

lemma verify_supplied_bytes_backed:
  assumes "verify_supplied_bytes sha c r (fr_bytes q) = Inr ()"
  shows "backed sha c (finalized_row q r)"
proof -
  from assms obtain p where p: "verified_stored_evidence sha c r = Inr p" "pp_candidate_bytes p = fr_bytes q"
    "pb_state r = Reserved"
    by (auto simp: verify_supplied_bytes_def flow Let_def record_from_row_def publication.defs publication_record.defs)
  then have "carries sha p (finalized_row q r)" and "\<exists>ev. prepare_publication sha c ev = Inr p"
    using verified_stored_evidence_carries [OF p(1,3)] by (auto simp: carries_def finalized_row_def)
  then show ?thesis unfolding backed_def by blast
qed

lemma table_change_ok:
  assumes "table_change sha c db db'" and "publications_ok sha c db"
  shows "publications_ok sha c db'"
  using assms
proof (induction rule: table_change.induct)
  case (appended ev p owner r s expires now db)
  have "backed sha c r"
    using appended by (auto simp: backed_def carries_def reserved_row_def)
  with appended show ?case
    by (auto simp: publications_ok_def sorted_wrt_append same_publication_sym)
next
  case (reacquired r db s k e now epoch e' owner)
  let ?P = "\<lambda>x. has_key s k x \<and> pb_state x = Reserved \<and> pb_reservation_epoch x = epoch"
  let ?f = "\<lambda>x. x\<lparr>pb_reservation_owner_id := owner, pb_reservation_epoch := epoch + 1,
           pb_reservation_expires_at_us := Some e', pb_updated_at_us := now\<rparr>"
  have "sorted_wrt (\<lambda>a b. \<not> same_publication a b) (update_where ?P ?f db)"
    using reacquired by (intro sorted_wrt_update_where) (auto simp: publications_ok_def same_identity_def)
  moreover have "publication_check x \<and> backed sha c x" if "x \<in> set (update_where ?P ?f db)" for x
    using that
  proof (cases rule: update_whereE)
    case (2 y)
    then show ?thesis using reacquired by (auto simp: publications_ok_def backed_def)
  qed (use reacquired in \<open>auto simp: publications_ok_def\<close>)
  ultimately show ?case by (simp add: publications_ok_def)
next
  case (finalized r db s q)
  let ?P = "\<lambda>x. has_key s (fr_key q) x \<and> pb_state x = Reserved \<and>
         pb_reservation_owner_id x = fr_owner q \<and> pb_reservation_epoch x = fr_epoch q"
  have sorted: "sorted_wrt (\<lambda>a b. \<not> same_publication a b) db"
    using finalized by (simp add: publications_ok_def)
  then have "sorted_wrt (\<lambda>a b. \<not> same_publication a b) (update_where ?P (finalized_row q) db)"
    by (intro sorted_wrt_update_where) (auto simp: finalized_row_def same_identity_def)
  moreover have "publication_check x \<and> backed sha c x" if "x \<in> set (update_where ?P (finalized_row q) db)" for x
    using that
  proof (cases rule: update_whereE)
    case (2 y)
    then have "y = r" using has_key_eq [OF sorted] finalized by blast
    then show ?thesis using 2 finalized verify_supplied_bytes_backed by auto
  qed (use finalized in \<open>auto simp: publications_ok_def\<close>)
  ultimately show ?case by (simp add: publications_ok_def)
qed simp

section \<open>Steps\<close>

text \<open>A step is a call of one of the two writers, whatever its arguments and its outcome.\<close>

inductive store_step ::
  "(string \<Rightarrow> string) \<Rightarrow> coercions \<Rightarrow> publication list \<Rightarrow> publication list \<Rightarrow> bool"
  for sha c where
  reserve: "store_step sha c db (snd (reserve sha c s a now db))"
| finalize: "store_step sha c db (snd (finalize sha c s fa now seen db))"

lemma store_step_change: "store_step sha c db db' \<Longrightarrow> table_change sha c db db'"
  by (induction rule: store_step.induct) (rule reserve_change finalize_change)+

interpretation publication_store:
  invariant_system "\<lambda>db. db = []" "store_step sha c" "publications_ok sha c" for sha c
proof unfold_locales
  show "publications_ok sha c t" if "publications_ok sha c s" "store_step sha c s t" for s t
    using that store_step_change table_change_ok by blast
qed (simp add: publications_ok_def)

section \<open>What a step does to a row\<close>

text \<open>
  A row stays where it is and keeps its identity; a reservation is reacquired under the next
  epoch once it has run out, or finalized by its owner under its epoch; a finalized row stays.
\<close>

definition row_step :: "publication \<Rightarrow> publication \<Rightarrow> bool" where
  "row_step r r' \<longleftrightarrow> r' = r \<or>
     pb_state r = Reserved \<and> same_identity r r' \<and>
     (pb_state r' = Reserved \<and> pb_reservation_epoch r' = pb_reservation_epoch r + 1 \<and>
        (\<exists>e. pb_reservation_expires_at_us r = Some e \<and> e \<le> pb_updated_at_us r') \<or>
      pb_state r' = Finalized \<and> pb_reservation_epoch r' = pb_reservation_epoch r \<and>
        pb_reservation_owner_id r' = pb_reservation_owner_id r)"

lemma nth_update_where: "i < length db \<Longrightarrow> update_where P f db ! i = (if P (db ! i) then f (db ! i) else db ! i)"
  by (simp add: update_where_def)

lemma update_where_row_step:
  assumes "\<And>x. x \<in> set db \<Longrightarrow> P x \<Longrightarrow> row_step x (f x)"
  shows "\<forall>i < length db. row_step (db ! i) (update_where P f db ! i)"
proof (intro allI impI)
  fix i
  assume "i < length db"
  then have i: "update_where P f db ! i = (if P (db ! i) then f (db ! i) else db ! i)"
    by (rule nth_update_where)
  from \<open>i < length db\<close> have "db ! i \<in> set db" by (rule nth_mem)
  with assms show "row_step (db ! i) (update_where P f db ! i)"
    unfolding i by (cases "P (db ! i)") (auto intro: row_step_def [THEN iffD2])
qed

lemma table_change_rows:
  assumes "table_change sha c db db'" and "publications_ok sha c db"
  shows "length db \<le> length db' \<and> (\<forall>i < length db. row_step (db ! i) (db' ! i))"
  using assms
proof (induction rule: table_change.induct)
  case (reacquired r db s k e now epoch e' owner)
  have "row_step x (x\<lparr>pb_reservation_owner_id := owner, pb_reservation_epoch := epoch + 1,
      pb_reservation_expires_at_us := Some e', pb_updated_at_us := now\<rparr>)"
    if "x \<in> set db" "has_key s k x" for x
  proof -
    have "x = r" using reacquired that has_key_eq unfolding publications_ok_def by blast
    with reacquired show ?thesis by (simp add: row_step_def same_identity_def)
  qed
  then show ?case by (intro conjI update_where_row_step) simp_all
next
  case (finalized r db s q)
  show ?case
    by (intro conjI update_where_row_step)
      (auto simp: row_step_def same_identity_def finalized_row_def)
qed (auto simp: row_step_def nth_append)

abbreviation reachable :: "(string \<Rightarrow> string) \<Rightarrow> coercions \<Rightarrow> publication list \<Rightarrow> bool" where
  "reachable sha c db \<equiv> (store_step sha c)\<^sup>*\<^sup>* [] db"

lemma reachable_ok: "reachable sha c db \<Longrightarrow> publications_ok sha c db"
  using publication_store.reachable_inv by blast

text \<open>The composition of row steps.\<close>

definition row_history :: "publication \<Rightarrow> publication \<Rightarrow> bool" where
  "row_history r r' \<longleftrightarrow> same_identity r r' \<and> (pb_state r = Finalized \<longrightarrow> r' = r) \<and>
     pb_reservation_epoch r \<le> pb_reservation_epoch r' \<and>
     (pb_reservation_owner_id r' \<noteq> pb_reservation_owner_id r \<longrightarrow>
        pb_reservation_epoch r < pb_reservation_epoch r')"

lemma same_identity_trans: "same_identity a b \<Longrightarrow> same_identity b d \<Longrightarrow> same_identity a d"
  by (simp add: same_identity_def)

lemma row_history_step: "row_history r r' \<Longrightarrow> row_step r' r'' \<Longrightarrow> row_history r r''"
  using same_identity_trans [of r r' r''] unfolding row_history_def row_step_def
  by (elim disjE conjE) (auto intro: order.strict_trans1)

lemma steps_rows:
  assumes "publications_ok sha c db" and "(store_step sha c)\<^sup>*\<^sup>* db db'"
  shows "length db \<le> length db' \<and> (\<forall>i < length db. row_history (db ! i) (db' ! i))"
  using assms(2)
proof (induction rule: rtranclp_induct)
  case base
  show ?case by (simp add: row_history_def)
next
  case (step y z)
  have "publications_ok sha c y" using step(1) assms(1) publication_store.steps_inv by blast
  from table_change_rows [OF store_step_change [OF step(2)] this] step.IH show ?case
    by (auto intro: row_history_step)
qed

lemma finalized_row_stays:
  assumes "publications_ok sha c db" and "(store_step sha c)\<^sup>*\<^sup>* db db'"
    and "select_publication s k db = Some r" and "pb_state r = Finalized"
  shows "select_publication s k db' = Some r"
proof -
  obtain i where i: "i < length db" "db ! i = r"
    using select_publication_Some [OF assms(3)] by (auto simp: in_set_conv_nth)
  then have r: "r \<in> set db'"
    using steps_rows [OF assms(1,2)] assms(4) unfolding row_history_def
    by (metis nth_mem order.strict_trans2)
  have ok: "publications_ok sha c db'" using assms publication_store.steps_inv by blast
  show ?thesis
  proof (cases "select_publication s k db'")
    case None
    then show ?thesis using select_publication_None r select_publication_Some [OF assms(3)] by blast
  next
    case (Some x)
    then show ?thesis
      using has_key_eq [of db' x r s k] ok r select_publication_Some [OF assms(3)]
        select_publication_Some [OF Some] by (auto simp: publications_ok_def)
  qed
qed

section \<open>A successful finalization\<close>

lemma verified_record_Inr:
  "verified_record_from_row sha c r = Inr rec \<Longrightarrow> rec = record_from_row True r \<and> pb_state r = Finalized \<and>
     (\<exists>b. pb_canonical_bytes r = Some b \<and> sha b = pb_full_sha256 r)"
  by (auto simp: verified_record_from_row_def Let_def flow corrupt_def record_from_row_def
      publication.defs publication_record.defs split: option.splits)

lemma record_from_row_simps [simp]:
  "pb_canonical_bytes (record_from_row True r) = pb_canonical_bytes r"
  "pb_full_sha256 (record_from_row i r) = pb_full_sha256 r"
  "pb_publication_key (record_from_row i r) = pb_publication_key r"
  "pb_state (record_from_row i r) = pb_state r"
  "pb_reservation_owner_id (record_from_row i r) = pb_reservation_owner_id r"
  "pb_reservation_epoch (record_from_row i r) = pb_reservation_epoch r"
  "pb_reservation_expires_at_us (record_from_row i r) = pb_reservation_expires_at_us r"
  "pb_updated_at_us (record_from_row i r) = pb_updated_at_us r"
  by (simp_all add: record_from_row_def publication.defs publication_record.defs)

lemma select_update_where:
  assumes "\<And>r. same_identity r (f r)"
  shows "select_publication s k (update_where P f db) =
     map_option (\<lambda>r. if P r then f r else r) (select_publication s k db)"
proof -
  have "has_key s k (f r) = has_key s k r" for r
    using assms [of r] by (simp add: has_key_def same_identity_def)
  then show ?thesis by (induction db) (auto simp: select_publication_def)
qed

lemma finalize_write_Inr:
  assumes "finalize_write sha c s q db = Inr (rec, db')"
  shows "\<exists>row. select_publication s (fr_key q) db' = Some row \<and> pb_canonical_bytes row = Some (fr_bytes q) \<and>
    verified_record_from_row sha c row = Inr rec"
proof -
  from assms obtain checked where k: "finalize_check sha c s q db = Inr checked"
    by (auto simp: finalize_write_def flow)
  show ?thesis
  proof (cases checked)
    case (Some v)
    with assms k show ?thesis
      by (auto simp: finalize_write_def finalize_check_def flow split: option.splits if_splits
          dest: verified_record_Inr)
  next
    case None
    with assms k obtain row where row: "select_publication s (fr_key q) db' = Some row"
      "verified_record_from_row sha c row = Inr rec" and
      u: "db' = update_where (\<lambda>x. has_key s (fr_key q) x \<and> pb_state x = Reserved \<and>
           pb_reservation_owner_id x = fr_owner q \<and> pb_reservation_epoch x = fr_epoch q) (finalized_row q) db"
      by (auto simp: finalize_write_def flow split: option.splits)
    obtain old where old: "select_publication s (fr_key q) db = Some old" "pb_state old = Reserved"
      "assert_live_reservation old (fr_owner q) (fr_epoch q) (fr_now q) = Inr ()"
      using finalize_check_None k None by blast
    have "row = finalized_row q old"
      using row(1) old select_publication_Some [OF old(1)] unfolding u
      by (auto simp: select_update_where finalized_row_def same_identity_def
          assert_live_reservation_def flow)
    with row show ?thesis by (simp add: finalized_row_def)
  qed
qed

lemma finalize_request_valid:
  "finalize_request_of s a now = Inr q \<Longrightarrow> checked_scope s = Inr () \<and> require_publication_key (fr_key q) = Inr ()"
  unfolding finalize_request_of_def by (elim bindE_InrE) auto

lemma finalize_Inr:
  assumes "finalize_request_of s a now = Inr q" and "finalize sha c s a now db db = (Inr rec, db')"
  shows "\<exists>row. select_publication s (fr_key q) db' = Some row \<and> pb_canonical_bytes row = Some (fr_bytes q) \<and>
    verified_record_from_row sha c row = Inr rec"
proof (cases "finalize_check sha c s q db")
  case (Inr checked)
  then have "finalize_write sha c s q db = Inr (rec, db')"
    using assms by (cases checked) (auto simp: finalize_def finalize_write_def transaction_Inr)
  then show ?thesis by (rule finalize_write_Inr)
qed (use assms in \<open>simp add: finalize_def\<close>)

text \<open>A finalization that writes changes the one row under the key of the request.\<close>

lemma update_where_one:
  assumes "i < length db" and "\<And>j. j < length db \<Longrightarrow> P (db ! j) \<longleftrightarrow> j = i"
  shows "update_where P f db = db[i := f (db ! i)]"
  using assms by (intro nth_equalityI) (auto simp: nth_update_where nth_list_update)

lemma finalize_write_row:
  assumes ok: "publications_ok sha c db" and w: "finalize_write sha c s q db = Inr (rec, db')" and "db' \<noteq> db"
  shows "\<exists>i e p. i < length db \<and> has_key s (fr_key q) (db ! i) \<and> pb_state (db ! i) = Reserved \<and>
    pb_reservation_owner_id (db ! i) = fr_owner q \<and> pb_reservation_epoch (db ! i) = fr_epoch q \<and>
    pb_reservation_expires_at_us (db ! i) = Some e \<and> fr_now q < e \<and>
    verified_stored_evidence sha c (db ! i) = Inr p \<and> fr_bytes q = pp_candidate_bytes p \<and>
    sha (fr_bytes q) = pb_full_sha256 (db ! i) \<and>
    db' = db[i := finalized_row q (db ! i)] \<and> rec = record_from_row True (finalized_row q (db ! i))"
proof -
  let ?P = "\<lambda>x. has_key s (fr_key q) x \<and> pb_state x = Reserved \<and>
    pb_reservation_owner_id x = fr_owner q \<and> pb_reservation_epoch x = fr_epoch q"
  have "finalize_check sha c s q db = Inr None"
    using w assms(3) by (auto simp: finalize_write_def flow split: option.splits)
  then obtain old where old: "select_publication s (fr_key q) db = Some old" "pb_state old = Reserved"
    "assert_live_reservation old (fr_owner q) (fr_epoch q) (fr_now q) = Inr ()"
    "verify_supplied_bytes sha c old (fr_bytes q) = Inr ()" using finalize_check_None by blast
  obtain i where i: "i < length db" "db ! i = old"
    using select_publication_Some [OF old(1)] by (auto simp: in_set_conv_nth)
  have key: "has_key s (fr_key q) old" using select_publication_Some [OF old(1)] by simp
  have live: "pb_reservation_owner_id old = fr_owner q" "pb_reservation_epoch old = fr_epoch q"
    "\<exists>e. pb_reservation_expires_at_us old = Some e \<and> fr_now q < e"
    using old(3) by (auto simp: assert_live_reservation_def flow split: option.splits)
  have bytes: "\<exists>p. verified_stored_evidence sha c old = Inr p \<and> fr_bytes q = pp_candidate_bytes p"
    "sha (fr_bytes q) = pb_full_sha256 old"
    using old(4) by (auto simp: verify_supplied_bytes_def flow Let_def)
  have only: "j = i" if "j < length db" "has_key s (fr_key q) (db ! j)" for j
    using key_index_unique [OF _ i(1) that(1)] ok i key that(2) unfolding publications_ok_def by metis
  obtain row where row: "select_publication s (fr_key q) db' = Some row"
    "verified_record_from_row sha c row = Inr rec" "db' = update_where ?P (finalized_row q) db"
    using w \<open>finalize_check sha c s q db = Inr None\<close>
    by (auto simp: finalize_write_def flow split: option.splits)
  have db': "db' = db[i := finalized_row q (db ! i)]"
    unfolding row(3)
  proof (rule update_where_one [OF i(1)])
    show "?P (db ! j) \<longleftrightarrow> j = i" if "j < length db" for j
      using only [OF that] by (cases "j = i") (auto simp: i(2) key old(2) live)
  qed
  have "row = finalized_row q old"
    using row(1) old(1,2) key live unfolding row(3)
    by (auto simp: select_update_where finalized_row_def same_identity_def)
  then have "rec = record_from_row True (finalized_row q old)"
    using verified_record_Inr [OF row(2)] by simp
  with i key old(2) live bytes db' show ?thesis by blast
qed

end
