(* ===== verification/Publication_Scan.thy ===== *)
theory Publication_Scan
  imports Publication_Lemmas
begin

text \<open>
  The paged scan of the publication store against its reference: one pass over all finalized rows
  of the scope after the cursor, in the order of time and key, cut at the limit.
\<close>

definition discovered ::
  "(string \<Rightarrow> string) \<Rightarrow> coercions \<Rightarrow> scope \<Rightarrow> review_authority \<Rightarrow> publication \<Rightarrow>
   publication_metadata option" where
  "discovered sha c scope authority r =
     (case discover_row sha c scope authority r of Inr x \<Rightarrow> x | Inl _ \<Rightarrow> None)"

definition unpaged_discovery ::
  "(string \<Rightarrow> string) \<Rightarrow> coercions \<Rightarrow> scope \<Rightarrow> review_authority \<Rightarrow> nat \<Rightarrow> cursor option \<Rightarrow>
   publication list \<Rightarrow> publication_metadata list" where
  "unpaged_discovery sha c scope authority limit start db =
     take limit (List.map_filter (discovered sha c scope authority) (finalized_after scope start db))"

section \<open>Rows in order\<close>

definition row_less :: "publication \<Rightarrow> publication \<Rightarrow> bool" where
  "row_less a b \<longleftrightarrow> finalized_order a < finalized_order b \<or>
     finalized_order a = finalized_order b \<and> pb_publication_key a < pb_publication_key b"

lemma sorted_wrt_lex:
  assumes "sorted (map f xs)" and "\<And>k. sorted (map g (filter (\<lambda>y. f y = k) xs))"
  shows "sorted_wrt (\<lambda>a b. f a < f b \<or> f a = f b \<and> g a \<le> g b) xs"
  using assms
proof (induction xs)
  case (Cons a xs)
  have "f a < f b \<or> f a = f b \<and> g a \<le> g b" if "b \<in> set xs" for b
    using Cons.prems(1) Cons.prems(2) [of "f a"] that by (cases "f a = f b") auto
  moreover have "sorted (map g (filter (\<lambda>y. f y = k) xs))" for k
    using Cons.prems(2) [of k] by (cases "f a = k") auto
  ultimately show ?case using Cons by simp
qed simp

lemma sorted_wrt_sort_twice:
  "sorted_wrt (\<lambda>a b. f a < f b \<or> f a = f b \<and> g a \<le> g b) (sort_key f (sort_key g xs))"
proof (rule sorted_wrt_lex)
  show "sorted (map g (filter (\<lambda>y. f y = k) (sort_key f (sort_key g xs))))" for k
    by (simp add: sort_key_stable filter_sort)
qed simp

lemma sorted_wrt_both:
  "sorted_wrt P xs \<Longrightarrow> sorted_wrt Q xs \<Longrightarrow> (\<And>a b. P a b \<Longrightarrow> Q a b \<Longrightarrow> R a b) \<Longrightarrow> sorted_wrt R xs"
  by (induction xs) auto

lemma distinct_map_sorted_wrt: "distinct (map f xs) \<Longrightarrow> sorted_wrt (\<lambda>a b. f a \<noteq> f b) xs"
  by (induction xs) auto

definition in_scope :: "scope \<Rightarrow> publication \<Rightarrow> bool" where
  "in_scope s r = (pb_tenant_id r = tenant_id s \<and> pb_workspace_id r = workspace_id s)"

lemma set_finalized_after:
  "r \<in> set (finalized_after s cu db) \<longleftrightarrow>
     r \<in> set db \<and> in_scope s r \<and> pb_state r = Finalized \<and> after_cursor cu r"
  by (auto simp: finalized_after_def in_scope_def)

lemma keys_distinct:
  assumes "publications_ok sha c db"
  shows "distinct (map pb_publication_key (finalized_after s cu db))"
proof -
  have "distinct (map pb_publication_key (filter (\<lambda>r. in_scope s r \<and> P r) db))" for P
    using assms unfolding publications_ok_def
    by (elim conjE, induction db) (auto simp: same_publication_def in_scope_def image_iff)
  from this [of "\<lambda>r. pb_state r = Finalized \<and> after_cursor cu r"]
  show ?thesis by (simp add: finalized_after_def in_scope_def distinct_map)
qed

lemma finalized_after_ordered:
  assumes "publications_ok sha c db"
  shows "sorted_wrt row_less (finalized_after s cu db)"
proof -
  have "sorted_wrt (\<lambda>a b. finalized_order a < finalized_order b \<or>
      finalized_order a = finalized_order b \<and> pb_publication_key a \<le> pb_publication_key b)
      (finalized_after s cu db)"
    unfolding finalized_after_def by (rule sorted_wrt_sort_twice)
  moreover have "sorted_wrt (\<lambda>a b. pb_publication_key a \<noteq> pb_publication_key b) (finalized_after s cu db)"
    using keys_distinct [OF assms] by (rule distinct_map_sorted_wrt)
  ultimately show ?thesis
    by (rule sorted_wrt_both) (auto simp: row_less_def)
qed

section \<open>Pages\<close>

definition cursor_at :: "publication \<Rightarrow> cursor" where
  "cursor_at r = \<lparr>cu_finalized_at_us = finalized_order r, cu_publication_key = pb_publication_key r\<rparr>"

lemma canonical_uuid_Inr: "canonical_uuid v = Inr u \<Longrightarrow> uuid_pattern u \<and> v = Some (JStr u)"
  by (auto simp: canonical_uuid_def split: option.splits json.splits if_splits)

lemma publication_key_ok: "candidate_publication_key j = Inr k \<Longrightarrow> publication_key_pattern k"
  by (auto simp: candidate_publication_key_def flow publication_key_pattern_def startswith_def
      dest!: canonical_uuid_Inr)

lemma prepare_key: "prepare_publication sha c ev = Inr p \<Longrightarrow> publication_key_pattern (pp_publication_key p)"
  unfolding prepare_publication_def Let_def
  by (elim bindE_InrE) (auto simp: publication_key_ok)

lemma row_cursor_ok:
  assumes "publications_ok sha c db" and "r \<in> set db" and "pb_state r = Finalized"
  shows "row_cursor r = Inr (cursor_at r)" "pb_finalized_at_us r = Some (finalized_order r)"
proof -
  have r: "publication_check r" "backed sha c r" using assms by (auto simp: publications_ok_def)
  then obtain t where t: "pb_finalized_at_us r = Some t" "is_i64 t"
    using assms(3) by (auto simp: publication_check_def split: option.splits)
  moreover have "publication_key_pattern (pb_publication_key r)"
    using r(2) by (auto simp: backed_def carries_def prepare_key)
  ultimately show "row_cursor r = Inr (cursor_at r)" "pb_finalized_at_us r = Some (finalized_order r)"
    by (simp_all add: row_cursor_def make_cursor_def cursor_at_def finalized_order_def)
qed

lemma discover_row_Inl: "discover_row sha c s a r = Inl e \<Longrightarrow> publication_error e"
  by (auto simp: discover_row_def flow verified_record_from_row_def publication_error_def split: if_splits)

text \<open>One page: the records found so far, cut at the limit, and the cursor of the last row.\<close>

lemma scan_rows_page:
  assumes "\<And>r. r \<in> set rows \<Longrightarrow> row_cursor r = Inr (cursor_at r)" and "length records < limit"
  shows "\<exists>cu'. scan_rows sha c s a limit rows cu records =
      Inr (cu', take limit (records @ List.map_filter (discovered sha c s a) rows)) \<and>
    (length (records @ List.map_filter (discovered sha c s a) rows) < limit \<longrightarrow>
      cu' = (if rows = [] then cu else Some (cursor_at (last rows))))"
  using assms
proof (induction rows arbitrary: cu records)
  case (Cons r rows)
  have cu: "row_cursor r = Inr (cursor_at r)" using Cons.prems(1) by simp
  show ?case
  proof (cases "discovered sha c s a r")
    case None
    from Cons.IH [of records "Some (cursor_at r)"] Cons.prems obtain cu' where
      "scan_rows sha c s a limit rows (Some (cursor_at r)) records =
        Inr (cu', take limit (records @ List.map_filter (discovered sha c s a) rows))"
      "length (records @ List.map_filter (discovered sha c s a) rows) < limit \<longrightarrow>
        cu' = (if rows = [] then Some (cursor_at r) else Some (cursor_at (last rows)))" by auto
    moreover have "scan_rows sha c s a limit (r # rows) cu records =
        scan_rows sha c s a limit rows (Some (cursor_at r)) records"
      using cu None by (cases "discover_row sha c s a r") (auto simp: discovered_def dest: discover_row_Inl)
    ultimately show ?thesis using None by (simp add: map_filter_simps del: scan_rows.simps)
  next
    case (Some m)
    then have d: "discover_row sha c s a r = Inr (Some m)"
      by (auto simp: discovered_def split: sum.splits)
    show ?thesis
    proof (cases "length (records @ [m]) = limit")
      case True
      with cu d Some show ?thesis by (auto simp: map_filter_simps)
    next
      case False
      with Cons.prems(2) have "length (records @ [m]) < limit" by simp
      from Cons.IH [OF _ this, of "Some (cursor_at r)"] Cons.prems(1) cu d Some False show ?thesis
        by (auto simp: map_filter_simps)
    qed
  qed
qed (simp add: map_filter_simps)

text \<open>The rows after the cursor of a row are the rows behind it in the order.\<close>

lemma after_cursor_at:
  "pb_finalized_at_us r = Some (finalized_order r) \<Longrightarrow>
   after_cursor (Some (cursor_at x)) r \<longleftrightarrow> row_less x r"
  by (auto simp: after_cursor_def cursor_at_def row_less_def)

lemma finalized_after_filter:
  "finalized_after s cu db = filter (after_cursor cu) (finalized_after s None db)"
  by (simp add: finalized_after_def filter_sort after_cursor_def conj_ac)

lemma filter_split:
  "(\<And>r. r \<in> set xs \<Longrightarrow> \<not> P r) \<Longrightarrow> (\<And>r. r \<in> set ys \<Longrightarrow> P r) \<Longrightarrow> \<not> P x \<Longrightarrow> filter P (xs @ x # ys) = ys"
  by (simp add: filter_empty_conv filter_id_conv)

lemma finalized_after_drop:
  assumes ok: "publications_ok sha c db" and n: "n < length (finalized_after s cu db)"
  shows "finalized_after s (Some (cursor_at (finalized_after s cu db ! n))) db =
    drop (Suc n) (finalized_after s cu db)"
proof -
  let ?L = "finalized_after s cu db" and ?x = "finalized_after s cu db ! n"
  have fin: "pb_finalized_at_us r = Some (finalized_order r)" if "r \<in> set db" "pb_state r = Finalized" for r
    using row_cursor_ok(2) [OF ok that] .
  have x: "?x \<in> set ?L" using n by simp
  have trans: "row_less ?x r \<Longrightarrow> after_cursor cu r" if "r \<in> set (finalized_after s None db)" for r
    using x fin that
    by (cases cu) (auto simp: set_finalized_after after_cursor_def row_less_def)
  have "finalized_after s (Some (cursor_at ?x)) db = filter (row_less ?x) (finalized_after s None db)"
    by (subst finalized_after_filter, rule filter_cong)
      (auto simp: set_finalized_after after_cursor_at fin)
  also have "\<dots> = filter (row_less ?x) ?L"
    by (subst (2) finalized_after_filter) (auto simp: trans intro: filter_cong)
  also have "\<dots> = drop (Suc n) ?L"
  proof -
    have split: "?L = take n ?L @ ?x # drop (Suc n) ?L" using n by (rule id_take_nth_drop)
    have sorted: "sorted_wrt row_less (take n ?L @ ?x # drop (Suc n) ?L)"
      using finalized_after_ordered [OF ok, of s cu] split by simp
    have before: "\<not> row_less ?x r" if "r \<in> set (take n ?L)" for r
      using sorted that unfolding sorted_wrt_append row_less_def by fastforce
    have behind: "row_less ?x r" if "r \<in> set (drop (Suc n) ?L)" for r
      using sorted that unfolding sorted_wrt_append by simp
    have "\<not> row_less ?x ?x" by (simp add: row_less_def)
    from filter_split [of "take n ?L" "row_less ?x", OF before behind this]
    have "filter (row_less ?x) (take n ?L @ ?x # drop (Suc n) ?L) = drop (Suc n) ?L" .
    with split show ?thesis by metis
  qed
  finally show ?thesis .
qed

section \<open>The whole scan\<close>

lemma map_filter_append: "List.map_filter f (xs @ ys) = List.map_filter f xs @ List.map_filter f ys"
  by (induction xs) (simp_all add: map_filter_simps split: option.split)

lemma scan_is_unpaged:
  assumes ok: "publications_ok sha c db" and "length records < limit"
  shows "scan sha c s a limit db cu records =
    Some (Inr (take limit (records @ List.map_filter (discovered sha c s a) (finalized_after s cu db))))"
  using assms(2)
proof (induction "length (finalized_after s cu db)" arbitrary: cu records rule: less_induct)
  case less
  let ?b = discovery_scan_batch
  let ?L = "finalized_after s cu db" and ?rows = "take discovery_scan_batch (finalized_after s cu db)"
  let ?D = "List.map_filter (discovered sha c s a)"
  have cursors: "row_cursor r = Inr (cursor_at r)" if "r \<in> set ?rows" for r
    using in_set_takeD [OF that] set_finalized_after [of r s cu db]
    by (intro row_cursor_ok(1) [OF ok]) simp_all
  obtain cu' where page: "scan_rows sha c s a limit ?rows cu records =
      Inr (cu', take limit (records @ ?D ?rows))"
    and cu': "length (records @ ?D ?rows) < limit \<longrightarrow>
      cu' = (if ?rows = [] then cu else Some (cursor_at (last ?rows)))"
    using scan_rows_page [OF cursors less.prems] by blast
  have D: "?D ?L = ?D ?rows @ ?D (drop ?b ?L)"
    using map_filter_append [of "discovered sha c s a" ?rows "drop ?b ?L"] by simp
  have le: "length ?rows \<le> ?b" by simp
  consider "?rows = []" | "?rows \<noteq> []" "length ?rows < discovery_scan_batch"
    | "?rows \<noteq> []" "length ?rows = discovery_scan_batch" "limit \<le> length (records @ ?D ?rows)"
    | "?rows \<noteq> []" "length ?rows = discovery_scan_batch" "length (records @ ?D ?rows) < limit"
    using le by (metis le_neq_implies_less not_le)
  then show ?case
  proof cases
    case 1
    then have "?L = []" by (simp add: discovery_scan_batch_def)
    with less.prems show ?thesis by (subst scan.simps) (simp add: map_filter_simps)
  next
    case 2
    then have "?rows = ?L" by simp
    with 2 page less.prems show ?thesis by (subst scan.simps) (simp add: Let_def)
  next
    case 3
    have "length (take limit (records @ ?D ?rows)) = limit" using 3(3) by simp
    then have "scan sha c s a limit db cu records = Some (Inr (take limit (records @ ?D ?rows)))"
      using 3(1) page less.prems by (subst scan.simps) (simp add: Let_def)
    with 3(3) show ?thesis unfolding D by simp
  next
    case 4
    from 4(1,2) have n: "?b - 1 < length ?L" "Suc (?b - 1) = ?b" "last ?rows = ?L ! (?b - 1)"
      by (auto simp: discovery_scan_batch_def last_conv_nth)
    have cu'_at: "cu' = Some (cursor_at (?L ! (?b - 1)))" using cu' 4(1,3) n(3) by simp
    have rest: "finalized_after s cu' db = drop ?b ?L"
      using finalized_after_drop [OF ok n(1)] unfolding cu'_at n(2) .
    have recs: "take limit (records @ ?D ?rows) = records @ ?D ?rows" using 4(3) by simp
    have "scan sha c s a limit db cu records = scan sha c s a limit db cu' (records @ ?D ?rows)"
      using 4 page less.prems unfolding recs by (subst scan.simps) (simp add: Let_def)
    also have "\<dots> = Some (Inr (take limit ((records @ ?D ?rows) @ ?D (drop ?b ?L))))"
      using less.hyps [of cu' "records @ ?D ?rows"] 4(3) n(1,2) unfolding rest by simp
    finally show ?thesis unfolding D by simp
  qed
qed

end
