(* ===== verification/Publication_Derivation.thy ===== *)
theory Publication_Derivation
  imports Publication_Scan
begin

text \<open>
  What the derivation of a candidate guarantees: every action of a published candidate is one
  recorded CAD command, the digest of the result manifest is the one the worker computes, and the
  review target is one the review ledger accepts.
\<close>

section \<open>The run\<close>

text \<open>One timeline event and one operation segment behind an occurrence.\<close>

definition grounded :: "result_v2 \<Rightarrow> string \<Rightarrow> timeline_item \<Rightarrow> occurrence \<Rightarrow> bool" where
  "grounded r drawing i oc \<longleftrightarrow>
     ti_event_type i = Cad_Command \<and> oc_event_id oc = ti_source_event_id i \<and>
     (\<exists>s \<in> set (rv_operation_segments r). os_source_event_ids s = [oc_event_id oc] \<and>
        os_command_names s = [oc_command_name oc] \<and> os_sequence s = oc_segment_sequence oc \<and>
        os_drawing_ref s = drawing)"

lemma segments_by_event_Inr:
  "segments_by_event ss m = Inr m' \<Longrightarrow> map_of m' u = Some s \<Longrightarrow>
   map_of m u = Some s \<or> s \<in> set ss \<and> os_source_event_ids s = [u] \<and> length (os_command_names s) = 1"
  by (induction ss m rule: segments_by_event.induct)
    (auto simp: length_Suc_conv split: if_splits)

lemma cad_units_Inr:
  "cad_units m is = Inr us \<Longrightarrow> map fst us = is \<and>
   (\<forall>u \<in> set us. ti_event_type (fst u) = Cad_Command \<and> map_of m (ti_source_event_id (fst u)) = Some (snd u))"
proof (induction "is" arbitrary: us)
  case (Cons i "is")
  then obtain s vs where "ti_event_type i = Cad_Command" "map_of m (ti_source_event_id i) = Some s"
    "cad_units m is = Inr vs" "us = (i, s) # vs"
    by (auto simp: flow split: if_splits option.splits)
  with Cons.IH show ?case by auto
qed simp

lemma single_Inr:
  "(case xs of [x] \<Rightarrow> f x | _ \<Rightarrow> Inl e) = Inr y \<longleftrightarrow> (\<exists>x. xs = [x] \<and> f x = Inr y)"
  by (cases xs; cases "tl xs") auto

lemma one_value: "length (remdups xs) = 1 \<Longrightarrow> \<exists>v. \<forall>x \<in> set xs. x = v"
  by (metis length_Suc_conv One_nat_def length_0_conv set_remdups empty_iff insert_iff list.set)

lemma qualifying_runs_one_drawing:
  "(\<forall>u \<in> set (current @ us). os_drawing_ref (snd u) = d) \<Longrightarrow>
   qualifying_runs runs current us = (if 2 \<le> length (current @ us) then runs @ [current @ us] else runs)"
  by (induction runs current us rule: qualifying_runs.induct) auto

lemma derive_occurrences_grounded:
  assumes "derive_occurrences r = Inr (occ, drawing, n)"
  shows "n = length occ \<and> 2 \<le> n \<and> n \<le> 64 \<and> list_all2 (grounded r drawing) (rv_timeline r) occ"
proof -
  from assms obtain m units where m: "segments_by_event (rv_operation_segments r) [] = Inr m"
    and units: "cad_units m (rv_timeline r) = Inr units"
    and one: "length (remdups (map (os_drawing_ref \<circ> snd) units)) = 1"
    and run: "\<exists>run. qualifying_runs [] [] units = [run] \<and> 2 \<le> length run \<and> length run \<le> 64 \<and>
      drawing = os_drawing_ref (snd (hd run)) \<and> occ = map occurrence_of run \<and> n = length run"
    by (auto simp: derive_occurrences_def flow single_Inr Let_def)
  obtain d where d: "\<forall>u \<in> set units. os_drawing_ref (snd u) = d"
    using one_value [OF one] by auto
  then have all: "qualifying_runs [] [] units = (if 2 \<le> length units then [units] else [])"
    using qualifying_runs_one_drawing [of "[]" units d "[]"] by simp
  with run have r: "2 \<le> length units" "length units \<le> 64" "drawing = d" "occ = map occurrence_of units"
    "n = length units"
    using d by (auto split: if_splits) (metis hd_in_set length_0_conv not_numeral_le_zero)
  have "grounded r d (fst u) (occurrence_of u)" if "u \<in> set units" for u
  proof -
    have "ti_event_type (fst u) = Cad_Command" "map_of m (ti_source_event_id (fst u)) = Some (snd u)"
      using cad_units_Inr [OF units] that by auto
    with segments_by_event_Inr [OF m this(2)] d that show ?thesis
      by (auto simp: grounded_def occurrence_of_def length_Suc_conv)
  qed
  moreover have "rv_timeline r = map fst units" using cad_units_Inr [OF units] by simp
  ultimately show ?thesis
    using r by (simp add: list_all2_map1 list_all2_map2 list_all2_same)
qed

section \<open>The prepared publication\<close>

lemma prepare_Inr:
  assumes "prepare_publication sha c ev = Inr p"
  obtains env ad where "normalize_envelope ev = Inr env" "admit_evidence sha c env = Inr ad"
    "pp_candidate p = build_candidate ad" "pp_job_id p = ad_job_id ad"
    "pp_session_id p = ad_session_id ad" "pp_source_result_sha256 p = ad_source ad"
    "canonical_json_bytes (JObj (pp_candidate p)) = Inr (pp_candidate_bytes p)"
    "canonical_json_bytes (JObj (content_projection (pp_candidate p))) = Inr (pp_content_bytes p)"
    "pp_content_sha256 p = sha (pp_content_bytes p)" "pp_full_sha256 p = sha (pp_candidate_bytes p)"
    "pp_review_target_id p = ''candidate-skill:1.0:'' @ pp_job_id p @ '':sha256:'' @ pp_content_sha256 p"
    "canonical_json_bytes (JObj (jset env ''qualifying_run_length'' (JInt (int (length (ad_occurrences ad)))))) =
       Inr (pp_evidence_bytes p)"
    "candidate_publication_key (pp_job_id p) = Inr (pp_publication_key p)"
  using assms unfolding prepare_publication_def Let_def
  by (elim bindE_InrE) auto

lemma admit_Inr:
  assumes "admit_evidence sha c env = Inr ad"
  obtains job0 job result m binding artifact drawing n where
    "job_v2_validate c (get_null env ''job'') = Inr job0" "copy_job c job0 = Inr job"
    "result_v2_validate c (get_null env ''result'') = Inr result"
    "rv_session_id result = jv_session_id job" "get_null env ''result_manifest'' = JObj m"
    "verify_result_manifest sha c job m = Inr (ad_source ad)"
    "select_timeline_binding m (get_null env ''timeline_binding'') = Inr binding"
    "admit_timeline_artifact (fst binding) = Inr (ad_artifact ad)"
    "derive_occurrences result = Inr (ad_occurrences ad, ad_drawing_ref ad, n)"
    "ad_job_id ad = jv_job_id job" "ad_session_id ad = jv_session_id job"
  using assms unfolding admit_evidence_def except_Inr
  by (elim bindE_InrE) (auto simp: flow split: json.splits prod.splits)

section \<open>One digest on both sides\<close>

lemma jcs_error: "jcs q l e v = Inr t \<Longrightarrow> jcs q l e' v = Inr t"
proof (induction v arbitrary: t)
  case (JArr xs)
  have "mapE (jcs q l e) ys = Inr ps \<Longrightarrow> set ys \<subseteq> set xs \<Longrightarrow> mapE (jcs q l e') ys = Inr ps" for ys ps
    using JArr.IH by (induction ys arbitrary: ps) (auto simp: flow)
  with JArr.prems show ?case by (auto simp: flow split: if_splits)
next
  case (JObj d)
  have "mapE (\<lambda>(k, v). bindE (jcs q l e v) (\<lambda>t. Inr (q k @ '':'' @ t))) ys = Inr ps \<Longrightarrow> set ys \<subseteq> set d \<Longrightarrow>
      mapE (\<lambda>(k, v). bindE (jcs q l e' v) (\<lambda>t. Inr (q k @ '':'' @ t))) ys = Inr ps" for ys ps
    using JObj.IH by (induction ys arbitrary: ps) (force simp: flow)+
  with JObj.prems show ?case by (auto simp: flow)
qed auto

lemma jcs_order:
  assumes "distinct (map fst d)" and "distinct (map fst d')" and "set d = set d'"
  shows "jcs q l e (JObj d) = jcs q l e (JObj d')"
proof -
  have "sort_key fst d = sort_key fst d'"
  proof (rule map_sorted_distinct_set_unique [where f = fst])
    show "inj_on fst (set (sort_key fst d) \<union> set (sort_key fst d'))"
      using assms by (simp add: distinct_map)
  qed (use assms in \<open>simp_all add: distinct_map\<close>)
  then show ?thesis by simp
qed

lemma worker_payload_Inr:
  assumes "bound_job_identity sha c job = Inr (adm, digest)" and "reads_canonical c" and "job_v2_ok job"
  shows "adm = job \<and> api_payload_digest sha c job = Inr digest"
proof -
  have copy: "copy_job c job = Inr job" using assms(2,3) by (rule copy_job_ok)
  then have adm: "adm = job"
    using assms(1) by (auto simp: bound_job_identity_def admit_package_input_def flow Let_def split: if_splits)
  then have "worker_payload_digest sha c job = Inr digest"
    using assms(1) by (auto simp: bound_job_identity_def flow)
  then show ?thesis
    using adm by (simp add: api_payload_digest_def worker_payload_digest_def api_payload_preimage_def
        worker_payload_preimage_def admissions_agree)
qed

lemma api_accepts_worker_manifest:
  assumes "reads_canonical c" and "job_v2_ok job" and "build_manifest sha c job bs = Inr m"
    and "canonical_preimage m = Inr pre"
  shows "verify_result_manifest sha c job m = Inr (sha pre)"
proof -
  obtain adm digest outs where b: "bound_job_identity sha c job = Inr (adm, digest)"
    "snapshot_outputs bs = Inr outs" "m = manifest_json adm digest outs"
    using assms(3) by (rule build_manifest_Inr)
  note job = worker_payload_Inr [OF b(1) assms(1,2)]
  have outs: "outs \<noteq> []" using snapshot_outputs_Inr [OF b(2)] by auto
  obtain t where t: "jcs quote_string True ValueError (JObj m) = Inr t" "pre = result_domain_prefix @ utf8 t"
    using assms(4) by (auto simp: canonical_preimage_def serialize_result_jcs_def flow Let_def split: if_splits)
  let ?o = "[(''schema_version'', JStr ''1.0''), (''job_id'', JStr (jv_job_id job)),
      (''session_id'', JStr (jv_session_id job)), (''payload_digest'', JStr digest),
      (''payload_digest_scheme'', JStr payload_digest_scheme), (''outputs'', JArr outs)]"
  have "jcs (quote False) True invalid (JObj m) = Inr t"
    using jcs_error [OF t(1)] by (simp only: quote_string_is_quote)
  moreover have "jcs (quote False) True invalid (JObj m) = restricted_jcs (JObj ?o)"
    unfolding b(3) restricted_jcs_def manifest_json_def by (rule jcs_order) (auto simp: job)
  ultimately have jcs: "restricted_jcs (JObj ?o) = Inr t" by simp
  have uuid: "uuid_pattern (jv_job_id job)" "uuid_pattern (jv_session_id job)"
    using assms(2) by (simp_all add: job_v2_ok_def)
  have get: "jget m ''schema_version'' = Some (JStr ''1.0'')" "jget m ''job_id'' = Some (JStr (jv_job_id job))"
    "jget m ''session_id'' = Some (JStr (jv_session_id job))" "jget m ''payload_digest'' = Some (JStr digest)"
    "jget m ''payload_digest_scheme'' = Some (JStr payload_digest_scheme)"
    "jget m ''outputs'' = Some (JArr outs)" "jget m ''result_manifest_jcs'' = None"
    "jget m ''source_result_sha256'' = None" "jget m ''result_sha256'' = None"
    unfolding b(3) manifest_json_def jget_def by (simp_all add: job)
  have keys: "\<forall>k \<in> fst ` set m. k \<in> set manifest_fields"
    unfolding b(3) manifest_json_def manifest_fields_def by simp
  show ?thesis
    unfolding verify_result_manifest_def
    by (simp add: get keys uuid job outs jcs canonical_uuid_def Let_def t(2) require_def)
qed

end
