(* ===== verification/Publication_Replay.thy ===== *)
theory Publication_Replay
  imports Publication_Derivation
begin

text \<open>
  Preparing evidence twice: the canonical bytes that a reservation stores, read back and prepared
  again, give the same publication. So a row that a writer stored always verifies, and a
  reservation can always be finalized by its owner. Validation does not see the order of keys.
\<close>

section \<open>Normal forms\<close>

lemma bindE_cong: "m = m' \<Longrightarrow> (\<And>x. f x = g x) \<Longrightarrow> bindE m f = bindE m' g"
  by (cases m') simp_all

abbreviation normal_fields :: "(string \<times> json) list \<Rightarrow> (string \<times> json) list" where
  "normal_fields d \<equiv> sort_key fst (map (\<lambda>(k, v). (k, normalize v)) d)"

lemma sort_map_snd: "sort_key fst (map (\<lambda>(k, v). (k, f v)) d) = map (\<lambda>(k, v). (k, f v)) (sort_key fst d)"
  by (induction d) (auto simp: insort_map_snd)

lemma normal_fields_keys [simp]: "fst ` set (normal_fields d) = fst ` set d"
  by (force simp: image_iff)

lemma jget_normal: "distinct_keys (JObj d) \<Longrightarrow> jget (normal_fields d) k = map_option normalize (jget d k)"
  by (rule jget_normalize) simp

lemma jget_distinct_keys: "distinct_keys (JObj d) \<Longrightarrow> jget d k = Some v \<Longrightarrow> distinct_keys v"
  by (auto simp: jget_def dest!: map_of_SomeD)

lemma get_null_normal: "distinct_keys (JObj d) \<Longrightarrow> get_null (normal_fields d) k = normalize (get_null d k)"
  by (simp add: get_null_def jget_normal split: option.split)

lemma get_null_distinct_keys: "distinct_keys (JObj d) \<Longrightarrow> distinct_keys (get_null d k)"
  by (auto simp: get_null_def jget_distinct_keys split: option.split)

lemma normalize_eq_scalar [simp]:
  "normalize v = JStr s \<longleftrightarrow> v = JStr s" "normalize v = JInt i \<longleftrightarrow> v = JInt i"
  "normalize v = JNull \<longleftrightarrow> v = JNull"
  by (cases v; simp)+

text \<open>What pydantic reads for a UUID, an int or a float is never an array or an object.\<close>

definition scalar_coercions :: "coercions \<Rightarrow> bool" where
  "scalar_coercions c \<longleftrightarrow>
     (\<forall>j. (\<exists>xs. j = JArr xs) \<or> (\<exists>d. j = JObj d) \<longrightarrow>
        as_uuid c j = None \<and> as_int c j = None \<and> as_seconds c j = None)"

lemma scalar_coercions_normal:
  "scalar_coercions c \<Longrightarrow> as_uuid c (normalize v) = as_uuid c v"
  "scalar_coercions c \<Longrightarrow> as_int c (normalize v) = as_int c v"
  "scalar_coercions c \<Longrightarrow> as_seconds c (normalize v) = as_seconds c v"
  by (cases v; simp add: scalar_coercions_def)+

section \<open>Validation of a normal form\<close>

named_theorems normal \<open>readers that do not see the order of keys\<close>

lemma readers_normal [normal]:
  "bounded_str lo hi (normalize v) = bounded_str lo hi v"
  "sha256_str (normalize v) = sha256_str v"
  "json_integer a b (normalize v) = json_integer a b v"
  "enum_str value es (normalize v) = enum_str value es v"
  "any_str (normalize v) = any_str v"
  "nonempty_str (normalize v) = nonempty_str v"
  by (cases v; simp add: bounded_str_def sha256_str_def json_integer_def enum_str_def any_str_def
      nonempty_str_def)+

lemma field_of_normal:
  assumes "distinct_keys (JObj d)" and "\<And>v. distinct_keys v \<Longrightarrow> f (normalize v) = f v"
  shows "field_of (normal_fields d) k f = field_of d k f"
  using assms jget_distinct_keys [OF assms(1)]
  by (cases "jget d k") (simp_all add: field_of_def jget_normal)

lemma mapE_map: "mapE f (map g xs) = mapE (\<lambda>x. f (g x)) xs"
  by (induction xs) simp_all

lemma list_of_normal:
  assumes "distinct_keys v" and "\<And>x. distinct_keys x \<Longrightarrow> f (normalize x) = f x"
  shows "list_of f (normalize v) = list_of f v"
  using assms by (cases v) (auto simp: list_of_def mapE_map intro: mapE_cong)

lemma model_fields_normal:
  assumes "distinct_keys j" and "\<And>d. distinct_keys (JObj d) \<Longrightarrow> f (normal_fields d) = f d"
  shows "bindE (model_fields names (normalize j)) f = bindE (model_fields names j) f"
proof (cases j)
  case (JObj d)
  with assms have "f (normal_fields d) = f d" by simp
  then show ?thesis unfolding JObj normalize.simps model_fields_def json.case normal_fields_keys by simp
qed (simp_all add: model_fields_def)

lemma artifact_ref_validate_normal [normal]:
  "distinct_keys j \<Longrightarrow> artifact_ref_validate (normalize j) = artifact_ref_validate j"
  unfolding artifact_ref_validate_def
  by (rule model_fields_normal) (simp_all add: field_of_normal normal del: distinct_keys.simps)

lemma job_v2_validate_normal:
  assumes "scalar_coercions c"
  shows "distinct_keys j \<Longrightarrow> job_v2_validate c (normalize j) = job_v2_validate c j"
  unfolding job_v2_validate_def
  by (rule model_fields_normal)
    (simp_all add: field_of_normal normal scalar_coercions_normal [OF assms] del: distinct_keys.simps)

lemma timeline_item_validate_normal:
  assumes "scalar_coercions c"
  shows "distinct_keys j \<Longrightarrow> timeline_item_validate c (normalize j) = timeline_item_validate c j"
  unfolding timeline_item_validate_def
  by (rule model_fields_normal)
    (simp_all add: field_of_normal normal scalar_coercions_normal [OF assms] del: distinct_keys.simps)

lemma bounded_seconds_normal:
  "scalar_coercions c \<Longrightarrow> bounded_seconds c (normalize v) = bounded_seconds c v"
  by (simp add: bounded_seconds_def scalar_coercions_normal)

lemma natural_normal: "scalar_coercions c \<Longrightarrow> natural c (normalize v) = natural c v"
  by (simp add: natural_def scalar_coercions_normal)

lemma operation_segment_validate_normal:
  assumes "scalar_coercions c"
  shows "distinct_keys j \<Longrightarrow> operation_segment_validate c (normalize j) = operation_segment_validate c j"
  unfolding operation_segment_validate_def
  by (rule model_fields_normal)
    (simp_all add: field_of_normal list_of_normal normal scalar_coercions_normal [OF assms]
      bounded_seconds_normal [OF assms] del: distinct_keys.simps)

lemma result_v2_validate_normal:
  assumes "scalar_coercions c"
  shows "distinct_keys j \<Longrightarrow> result_v2_validate c (normalize j) = result_v2_validate c j"
  unfolding result_v2_validate_def
proof (rule model_fields_normal, goal_cases)
  case (2 d)
  note d = this(2)
  have schema: "jget (normal_fields d) ''schema_version'' \<in> {None, Some (JStr ''2.0'')} \<longleftrightarrow>
      jget d ''schema_version'' \<in> {None, Some (JStr ''2.0'')}"
    using d by (auto simp: jget_normal)
  have uuid: "field_of (normal_fields d) k (\<lambda>v. demand (as_uuid c v)) = field_of d k (\<lambda>v. demand (as_uuid c v))" for k
    by (rule field_of_normal [OF d]) (simp add: scalar_coercions_normal [OF assms])
  have count: "field_of (normal_fields d) k (natural c) = field_of d k (natural c)" for k
    by (rule field_of_normal [OF d]) (simp add: natural_normal [OF assms])
  have strs: "field_of (normal_fields d) k (list_of (bounded_str lo hi)) = field_of d k (list_of (bounded_str lo hi))" for k lo hi
    by (rule field_of_normal [OF d]) (simp add: list_of_normal normal)
  have items: "field_of (normal_fields d) k (list_of (timeline_item_validate c)) =
      field_of d k (list_of (timeline_item_validate c))" for k
    by (rule field_of_normal [OF d]) (simp add: list_of_normal timeline_item_validate_normal [OF assms])
  have segs: "field_of (normal_fields d) k (\<lambda>v. bindE (list_of (operation_segment_validate c) v) (length_between lo hi)) =
      field_of d k (\<lambda>v. bindE (list_of (operation_segment_validate c) v) (length_between lo hi))" for k lo hi
    by (rule field_of_normal [OF d]) (simp add: list_of_normal operation_segment_validate_normal [OF assms])
  show ?case
    by (simp only: schema uuid count strs items segs)
qed simp

section \<open>Admission of a normal form\<close>

lemma jcs_normal: "jcs q l e (normalize v) = jcs q l e v"
proof (induction q l e v rule: jcs.induct)
  case (3 q l e d)
  let ?f = "\<lambda>(k, v). bindE (jcs q l e v) (\<lambda>t. Inr (q k @ '':'' @ t))"
  have "mapE ?f (map (\<lambda>(k, v). (k, normalize v)) (sort_key fst d)) = mapE ?f (sort_key fst d)"
    unfolding mapE_map by (rule mapE_cong) (use 3 in auto)
  moreover have "sort_key fst (normal_fields d) = normal_fields d"
    by (rule sort_key_id_if_sorted) simp
  ultimately show ?case by (simp add: sort_map_snd)
next
  case (4 q l e xs)
  have "mapE (\<lambda>x. jcs q l e (normalize x)) xs = mapE (jcs q l e) xs" if l
    using 4 that by (intro mapE_cong) auto
  then show ?case by (simp add: mapE_map)
qed simp_all

lemma canonical_uuid_normal [normal]: "canonical_uuid (map_option normalize x) = canonical_uuid x"
proof (cases x)
  case (Some v)
  then show ?thesis by (cases v) (simp_all add: canonical_uuid_def)
qed (simp add: canonical_uuid_def)

lemma map_option_scalar [simp]:
  "map_option normalize x = Some (JStr s) \<longleftrightarrow> x = Some (JStr s)"
  "map_option normalize x = Some (JInt i) \<longleftrightarrow> x = Some (JInt i)"
  by auto

lemma outputs_jcs:
  "restricted_jcs (JObj (d @ [(k, JArr (map normalize outs))])) = restricted_jcs (JObj (d @ [(k, JArr outs)]))"
proof -
  have "normalize \<circ> normalize = normalize" by (simp add: fun_eq_iff)
  then have "normalize (JObj (d @ [(k, JArr (map normalize outs))])) = normalize (JObj (d @ [(k, JArr outs)]))"
    by simp
  then show ?thesis unfolding restricted_jcs_def by (metis jcs_normal)
qed

lemma verify_result_manifest_normal:
  assumes "distinct_keys (JObj m)"
  shows "verify_result_manifest sha c job (normal_fields m) = verify_result_manifest sha c job m"
proof -
  note get = jget_normal [OF assms]
  have keys: "(\<forall>k \<in> fst ` set (normal_fields m). k \<in> set manifest_fields) = (\<forall>k \<in> fst ` set m. k \<in> set manifest_fields)"
    by (simp only: normal_fields_keys)
  have member: "(map_option normalize x \<in> {None, Some (JStr s)}) = (x \<in> {None, Some (JStr s)})" for x s
    by auto
  have outputs: "bindE (case map_option normalize x of
        Some (JArr outs) \<Rightarrow> if outs = [] then Inl ValueError else Inr outs | _ \<Rightarrow> Inl ValueError) f =
      bindE (case x of
        Some (JArr outs) \<Rightarrow> if outs = [] then Inl ValueError else Inr outs | _ \<Rightarrow> Inl ValueError) g"
    if "\<And>outs. x = Some (JArr outs) \<Longrightarrow> f (map normalize outs) = g outs" for x :: "json option" and f g :: "json list \<Rightarrow> exn + string"
    using that by (auto split: option.split json.split)
  have jcs_case: "(case map_option normalize x of
        None \<Rightarrow> Inr () | Some JNull \<Rightarrow> Inr ()
      | Some (JStr s) \<Rightarrow> require (utf8 s = t) ValueError | Some _ \<Rightarrow> Inl TypeError) =
      (case x of
        None \<Rightarrow> Inr () | Some JNull \<Rightarrow> Inr ()
      | Some (JStr s) \<Rightarrow> require (utf8 s = t) ValueError | Some _ \<Rightarrow> (Inl TypeError :: exn + unit))" for x t
    by (auto split: option.split json.split)
  have obj: "restricted_jcs (JObj [a, b, d, e, f, (k, JArr (map normalize outs))]) =
      restricted_jcs (JObj [a, b, d, e, f, (k, JArr outs)])" for a b d e f k outs
    using outputs_jcs [of "[a, b, d, e, f]" k outs] by simp
  show ?thesis
    unfolding verify_result_manifest_def keys get canonical_uuid_normal map_option_scalar member jcs_case
    by (intro arg_cong [where f = "except _ _"] bindE_cong refl outputs) (simp add: obj)
qed

lemma py_eq_normal [simp]: "py_eq (normalize a) b = py_eq a b" "py_eq a (normalize b) = py_eq a b"
  by (simp_all add: py_eq_def)

lemma artifact_of_normal: "distinct_keys (JObj d) \<Longrightarrow> artifact_of (normal_fields d) = normalize (artifact_of d)"
  by (simp add: artifact_of_def jget_normal get_null_normal split: option.split)

lemma timeline_candidates_normal:
  "\<forall>x \<in> set outs. distinct_keys x \<Longrightarrow>
   timeline_candidates (map normalize outs) =
     bindE (timeline_candidates outs) (\<lambda>cs. Inr (map (\<lambda>(a, n). (normalize a, normalize n)) cs))"
proof (induction outs)
  case (Cons out outs)
  show ?case
  proof (cases out)
    case (JObj d)
    then have d: "distinct_keys (JObj d)" using Cons.prems by simp
    then have a: "distinct_keys (artifact_of d)"
      by (auto simp: artifact_of_def jget_distinct_keys get_null_distinct_keys split: option.split)
    show ?thesis
    proof (cases "artifact_of d")
      case ad: (JObj x)
      have "jget (normal_fields x) k = map_option normalize (jget x k)" for k
        using a ad by (simp add: jget_normal)
      with Cons d ad JObj show ?thesis
        by (cases "timeline_candidates outs") (simp_all add: artifact_of_normal get_null_normal)
    qed (use Cons d JObj in \<open>cases "timeline_candidates outs"; simp add: artifact_of_normal\<close>)+
  qed simp_all
qed simp

lemma select_timeline_binding_normal:
  assumes "distinct_keys (JObj m)" and "distinct_keys supplied"
  shows "select_timeline_binding (normal_fields m) (normalize supplied) =
    bindE (select_timeline_binding m supplied) (\<lambda>(a, n). Inr (normalize a, normalize n))"
proof (cases supplied)
  case (JObj d)
  let ?outs = "\<lambda>m. case jget m ''outputs'' of Some (JArr outs) \<Rightarrow> outs | _ \<Rightarrow> []"
  have outs: "?outs (normal_fields m) = map normalize (?outs m)"
    using assms(1) by (auto simp: jget_normal split: option.split json.split)
  have "\<forall>x \<in> set (?outs m). distinct_keys x"
    using jget_distinct_keys [OF assms(1), of "''outputs''"]
    by (cases "jget m ''outputs''") (auto split: json.split)
  note tc = timeline_candidates_normal [OF this]
  have d: "artifact_of (normal_fields d) = normalize (artifact_of d)"
    "get_null (normal_fields d) k = normalize (get_null d k)" for k
    using assms(2) JObj by (simp_all add: artifact_of_normal get_null_normal)
  show ?thesis
    unfolding JObj normalize.simps select_timeline_binding_def json.case outs tc d
    by (cases "timeline_candidates (?outs m)") (auto simp: split: list.split prod.split)
qed (simp_all add: select_timeline_binding_def)

lemma admit_timeline_artifact_normal:
  "distinct_keys a \<Longrightarrow> admit_timeline_artifact (normalize a) = admit_timeline_artifact a"
  by (simp add: admit_timeline_artifact_def artifact_ref_validate_normal)

lemma normalize_occurrence_normal:
  assumes "distinct_keys j"
  shows "normalize_occurrence (normalize j) = normalize_occurrence j"
proof (cases j)
  case (JObj d)
  with assms have get: "jget (normal_fields d) k = map_option normalize (jget d k)" for k
    by (simp add: jget_normal)
  have s: "(case map_option normalize x of Some (JStr n) \<Rightarrow> if n = [] then Inl invalid else Inr n | _ \<Rightarrow> Inl invalid) =
      (case x of Some (JStr n) \<Rightarrow> if n = [] then Inl invalid else Inr n | _ \<Rightarrow> (Inl invalid :: exn + string))" for x
    by (auto split: option.split json.split)
  have i: "(case map_option normalize x of Some (JInt i) \<Rightarrow> Inr i | _ \<Rightarrow> Inl invalid) =
      (case x of Some (JInt i) \<Rightarrow> Inr i | _ \<Rightarrow> (Inl invalid :: exn + int))" for x
    by (auto split: option.split json.split)
  show ?thesis
    unfolding JObj normalize.simps normalize_occurrence_def json.case normal_fields_keys get
      canonical_uuid_normal s i ..
qed (simp_all add: normalize_occurrence_def)

lemma normalize_occurrences_normal:
  "distinct_keys j \<Longrightarrow> normalize_occurrences (normalize j) = normalize_occurrences j"
  by (cases j) (auto simp: normalize_occurrences_def mapE_map normalize_occurrence_normal intro!: mapE_cong)

lemma jset_keys_distinct: "distinct (map fst d) \<Longrightarrow> distinct (map fst (jset d k v))"
  by (induction d k v rule: jset.induct) (auto simp: image_iff, use keys_jset in force)

lemma set_jset: "x \<in> set (jset d k v) \<Longrightarrow> x = (k, v) \<or> x \<in> set d"
  by (induction d k v rule: jset.induct) (auto split: if_splits)

lemma distinct_keys_jset: "distinct_keys (JObj d) \<Longrightarrow> distinct_keys v \<Longrightarrow> distinct_keys (JObj (jset d k v))"
  by (auto simp: jset_keys_distinct dest: set_jset)

lemma timeline_candidates_keys:
  "timeline_candidates outs = Inr cs \<Longrightarrow> \<forall>x \<in> set outs. distinct_keys x \<Longrightarrow> (a, n) \<in> set cs \<Longrightarrow> distinct_keys a"
proof (induction outs arbitrary: cs)
  case (Cons out outs)
  obtain d where out: "out = JObj d" using Cons.prems(1) by (cases out) auto
  obtain rest where rest: "timeline_candidates outs = Inr rest"
    using Cons.prems(1) out by (cases "timeline_candidates outs") auto
  note d = out rest
  have "distinct_keys (artifact_of d)"
    using Cons.prems(2) d(1)
    by (auto simp: artifact_of_def jget_distinct_keys get_null_distinct_keys simp del: distinct_keys.simps
        split: option.split)
  then show ?case
    using Cons.IH [OF d(2)] Cons.prems d by (auto simp del: distinct_keys.simps split: json.splits if_splits)
qed simp

lemma single_pair_Inr:
  "(case xs of [(a, n)] \<Rightarrow> f a n | _ \<Rightarrow> Inl e) = Inr y \<longleftrightarrow> (\<exists>a n. xs = [(a, n)] \<and> f a n = Inr y)"
  by (cases xs; cases "tl xs") auto

lemma select_timeline_binding_keys:
  assumes "distinct_keys (JObj m)" and "select_timeline_binding m supplied = Inr (a, n)"
  shows "distinct_keys a"
proof -
  let ?outs = "case jget m ''outputs'' of Some (JArr outs) \<Rightarrow> outs | _ \<Rightarrow> []"
  have keys: "\<forall>x \<in> set ?outs. distinct_keys x"
    using jget_distinct_keys [OF assms(1), of "''outputs''"]
    by (cases "jget m ''outputs''") (auto split: json.split)
  obtain d where d: "supplied = JObj d"
    using assms(2) by (cases supplied) (auto simp: select_timeline_binding_def)
  obtain cs where cs: "timeline_candidates ?outs = Inr cs"
    using assms(2) by (cases "timeline_candidates ?outs") (simp_all add: d select_timeline_binding_def)
  then have "cs = [(a, n)]"
    using assms(2) unfolding d select_timeline_binding_def json.case cs bindE_simps single_pair_Inr
    by (auto split: if_splits)
  then have "(a, n) \<in> set cs" by simp
  with cs keys show ?thesis by (rule timeline_candidates_keys)
qed

text \<open>
  Evidence and its stored form: the normal form of the envelope, with the run length filled in.
\<close>

lemma except_cong: "r = r' \<Longrightarrow> except c e r = except c e r'"
  by simp

lemma admit_evidence_normal:
  assumes c: "scalar_coercions c" and d: "distinct_keys (JObj env)" and ok: "admit_evidence sha c env = Inr ad"
    and env': "env' = jset env ''qualifying_run_length'' (JInt (int (length (ad_occurrences ad))))"
  shows "admit_evidence sha c (normal_fields env') = Inr ad"
proof -
  have d': "distinct_keys (JObj env')"
    unfolding env' by (rule distinct_keys_jset [OF d]) simp
  have get': "get_null env' k = get_null env k" if "k \<noteq> ''qualifying_run_length''" for k
    using that by (simp add: env' get_null_def jget_jset)
  have get: "get_null (normal_fields env') k = normalize (get_null env k)" if "k \<noteq> ''qualifying_run_length''" for k
    using get_null_normal [OF d'] get' [OF that] by simp
  have run: "get_null (normal_fields env') ''qualifying_run_length'' = JInt (int (length (ad_occurrences ad)))"
    using get_null_normal [OF d', of "''qualifying_run_length''"] by (simp add: env' get_null_def jget_jset)
  note sub = get_null_distinct_keys [OF d]
  from ok obtain job0 job result m source_h binding artifact namespace drawing derived n supplied where
    s: "job_v2_validate c (get_null env ''job'') = Inr job0" "copy_job c job0 = Inr job"
      "result_v2_validate c (get_null env ''result'') = Inr result"
      "rv_session_id result = jv_session_id job" "get_null env ''result_manifest'' = JObj m"
      "verify_result_manifest sha c job m = Inr source_h"
      "select_timeline_binding m (get_null env ''timeline_binding'') = Inr binding"
      "admit_timeline_artifact (fst binding) = Inr artifact" "nonempty_str (snd binding) = Inr namespace"
      "nonempty_str (get_null env ''drawing_ref'') = Inr drawing"
      "derive_occurrences result = Inr (derived, drawing, n)"
      "normalize_occurrences (get_null env ''occurrences'') = Inr derived"
      "ad = \<lparr>ad_job_id = jv_job_id job, ad_session_id = jv_session_id job, ad_source = source_h,
         ad_artifact = artifact, ad_namespace = namespace, ad_drawing_ref = drawing, ad_occurrences = derived\<rparr>"
    unfolding admit_evidence_def except_Inr
    by (elim bindE_InrE) (auto simp: flow split: json.splits prod.splits)
  have m: "distinct_keys (JObj m)" using sub [of "''result_manifest''"] s(5) by simp
  obtain a ns where b: "binding = (a, ns)" by (cases binding)
  have "select_timeline_binding (normal_fields m) (normalize (get_null env ''timeline_binding'')) =
      Inr (normalize a, normalize ns)"
    using select_timeline_binding_normal [OF m sub] s(7) b by simp
  moreover have "admit_timeline_artifact (normalize a) = Inr artifact"
    using s(8) b admit_timeline_artifact_normal select_timeline_binding_keys [OF m s(7) [unfolded b]] by simp
  moreover have "n = length derived" using derive_occurrences_grounded [OF s(11)] by simp
  ultimately show ?thesis
    unfolding admit_evidence_def
    using s b m by (simp add: get run sub job_v2_validate_normal [OF c] result_v2_validate_normal [OF c]
        verify_result_manifest_normal normalize_occurrences_normal normal del: distinct_keys.simps)
qed

section \<open>Preparing the stored bytes\<close>

lemma canonical_json_bytes_ok:
  "distinct_keys v \<Longrightarrow> canonical_json_bytes v = Inr (utf8 (canonical_json v))"
  by (simp add: canonical_json_bytes_def canonical_json_def loads_dumps py_eq_def Let_def)

lemma jset_same: "jget d k = Some v \<Longrightarrow> jset d k v = d"
  by (induction d k v rule: jset.induct) (auto simp: jget_def split: if_splits)

lemma normalize_envelope_keys:
  "normalize_envelope ev = Inr env \<Longrightarrow> distinct_keys ev \<Longrightarrow> distinct_keys (JObj env)"
proof -
  assume ok: "normalize_envelope ev = Inr env" and d: "distinct_keys ev"
  obtain d0 where ev: "ev = JObj d0" using ok by (cases ev) (auto simp: normalize_envelope_def)
  then have env: "env = rename_manifest d0"
    using ok by (auto simp: normalize_envelope_def Let_def flow)
  have pop: "distinct_keys (JObj (jpop d0 k))" for k
    using d ev by (auto simp: jpop_def distinct_map_filter)
  show ?thesis
    using d pop jget_distinct_keys [of d0] unfolding env rename_manifest_def ev
    by (auto split: option.split simp del: distinct_keys.simps intro: distinct_keys_jset)
qed

lemma stored_envelope:
  assumes ok: "normalize_envelope ev = Inr env" and d: "distinct_keys ev"
    and env': "env' = jset env ''qualifying_run_length'' (JInt n)"
  shows "normalize_envelope (JObj (normal_fields env')) = Inr (normal_fields env')"
proof -
  have e: "distinct_keys (JObj env)" using normalize_envelope_keys [OF ok d] .
  have d': "distinct_keys (JObj env')" unfolding env' by (rule distinct_keys_jset [OF e]) simp
  have get: "jget (normal_fields env') k = map_option normalize (jget env' k)" for k
    using d' by (rule jget_normal)
  obtain d0 where ev: "ev = JObj d0" using ok by (cases ev) (auto simp: normalize_envelope_def)
  have facts: "\<forall>k \<in> fst ` set d0. k \<in> set envelope_fields" "env = rename_manifest d0"
    "\<forall>k \<in> set required_envelope_fields. jhas env k" "jget env ''envelope_version'' = Some (JStr ''1.0'')"
    "jget env ''rejected_alternative_count'' = Some (JInt 0)"
    using ok unfolding ev by (auto simp: normalize_envelope_def Let_def flow)
  have manifest: "jget env ''result_manifest'' \<noteq> None"
    using facts(3) by (auto simp: required_envelope_fields_def jhas_iff)
  have sub: "fst ` set env \<subseteq> insert ''result_manifest'' (fst ` set d0)"
    unfolding facts(2) rename_manifest_def jpop_def by (auto simp: keys_jset split: option.split)
  have known: "insert ''result_manifest'' (fst ` set d0) \<subseteq> set envelope_fields"
    "''qualifying_run_length'' \<in> set envelope_fields"
    using facts(1) by (auto simp: envelope_fields_def)
  have "insert ''qualifying_run_length'' (fst ` set env) \<subseteq> set envelope_fields"
    using known(2) order.trans [OF sub known(1)] by (rule insert_subsetI)
  then have keys: "\<forall>k \<in> fst ` set (normal_fields env'). k \<in> set envelope_fields"
    unfolding normal_fields_keys env' keys_jset by (simp only: subset_iff Ball_def)
  have vals: "jget (normal_fields env') ''result_manifest'' \<noteq> None"
    "jget (normal_fields env') ''envelope_version'' = Some (JStr ''1.0'')"
    "jget (normal_fields env') ''rejected_alternative_count'' = Some (JInt 0)"
    "jget (normal_fields env') ''qualifying_run_length'' = Some (JInt n)"
    unfolding get using manifest by (simp_all add: env' jget_jset facts(4,5))
  have rename: "rename_manifest (normal_fields env') = normal_fields env'"
    using vals(1) by (auto simp: rename_manifest_def split: option.split)
  have required: "\<forall>k \<in> set required_envelope_fields. jhas (normal_fields env') k"
    unfolding jhas_iff get using facts(3) by (auto simp: jhas_iff env' jget_jset)
  show ?thesis
    unfolding normalize_envelope_def json.case rename Let_def
    using keys required vals(2-4) by (simp add: require_def is_json_int_def del: normal_fields_keys)
qed

lemma prepare_replays:
  assumes c: "scalar_coercions c" and d: "distinct_keys ev" and p: "prepare_publication sha c ev = Inr p"
  shows "\<exists>t v. utf8_decode (pp_evidence_bytes p) = Some t \<and> loads t = Inr v \<and> prepare_publication sha c v = Inr p"
proof -
  obtain env ad where e: "normalize_envelope ev = Inr env" "admit_evidence sha c env = Inr ad" and
    bytes: "canonical_json_bytes (JObj (jset env ''qualifying_run_length'' (JInt (int (length (ad_occurrences ad)))))) =
       Inr (pp_evidence_bytes p)"
    using p by (rule prepare_Inr)
  define env' where "env' = jset env ''qualifying_run_length'' (JInt (int (length (ad_occurrences ad))))"
  have ek: "distinct_keys (JObj env)" using normalize_envelope_keys [OF e(1) d] .
  have d': "distinct_keys (JObj env')" unfolding env'_def by (rule distinct_keys_jset [OF ek]) simp
  let ?v = "JObj (normal_fields env')"
  have v: "normalize (JObj env') = ?v" by simp
  have stored: "pp_evidence_bytes p = utf8 (canonical_json (JObj env'))"
    using bytes canonical_json_bytes_ok [OF d'] by (simp add: env'_def del: distinct_keys.simps)
  have loads: "loads (canonical_json (JObj env')) = Inr ?v"
    using loads_dumps [OF d', of False] unfolding canonical_json_def v .
  have "jget (normal_fields env') ''qualifying_run_length'' = Some (JInt (int (length (ad_occurrences ad))))"
    using jget_normal [OF d', of "''qualifying_run_length''"] by (simp add: env'_def jget_jset)
  then have same: "jset (normal_fields env') ''qualifying_run_length'' (JInt (int (length (ad_occurrences ad)))) =
      normal_fields env'" by (rule jset_same)
  have same_text: "canonical_json ?v = canonical_json (JObj env')"
    by (metis canonical_json_def dumps_def normalize_idem v)
  have "distinct_keys ?v" using distinct_keys_normalize [OF d'] unfolding v .
  then have cb: "canonical_json_bytes ?v = canonical_json_bytes (JObj env')"
    using canonical_json_bytes_ok [OF d'] canonical_json_bytes_ok [of ?v] same_text by metis
  have "prepare_publication sha c ?v = prepare_publication sha c ev"
    unfolding prepare_publication_def stored_envelope [OF e(1) d env'_def] e bindE_simps
      admit_evidence_normal [OF c ek e(2) env'_def] same cb Let_def
    by (simp only: env'_def)
  with p stored loads show ?thesis by (metis utf8_decode_utf8)
qed

section \<open>A reservation can be finalized\<close>

lemma prepared_identity:
  "prepare_publication sha c ev = Inr p \<Longrightarrow> pp_full_sha256 p = sha (pp_candidate_bytes p) \<and>
     pp_publication_identity p =
       publication_identity (pp_job_id p) (pp_source_result_sha256 p) (pp_full_sha256 p) \<and>
     require_byte_cap (pp_candidate_bytes p) = Inr ()"
  unfolding prepare_publication_def Let_def by (elim bindE_InrE) auto

lemma carried_evidence_verifies:
  assumes "scalar_coercions c" and "distinct_keys ev" and "prepare_publication sha c ev = Inr p"
    and "carries sha p r"
  shows "verified_stored_evidence sha c r = Inr p"
proof -
  obtain t v where "utf8_decode (pp_evidence_bytes p) = Some t" "loads t = Inr v" "prepare_publication sha c v = Inr p"
    using prepare_replays [OF assms(1-3)] by blast
  with assms(4) show ?thesis
    by (simp add: verified_stored_evidence_def carries_def corrupt_def require_def)
qed

lemma carries_finalized_row:
  "carries sha p r \<Longrightarrow> fr_bytes q = pp_candidate_bytes p \<Longrightarrow> carries sha p (finalized_row q r)"
  by (simp add: carries_def finalized_row_def)

lemma finalized_row_verifies:
  assumes "scalar_coercions c" and "distinct_keys ev" and "prepare_publication sha c ev = Inr p"
    and "carries sha p r" and "fr_bytes q = pp_candidate_bytes p"
  shows "verified_record_from_row sha c (finalized_row q r) = Inr (record_from_row True (finalized_row q r))"
proof -
  have carried: "carries sha p (finalized_row q r)" using assms(4,5) by (rule carries_finalized_row)
  note verified = carried_evidence_verifies [OF assms(1-3) carried]
  show ?thesis
    using verified carried prepared_identity [OF assms(3)] assms(5)
    by (simp add: verified_record_from_row_def Let_def corrupt_def require_def carries_def
        record_from_row_def publication.defs publication_record.defs finalized_row_def)
qed

lemma live_row_finalizes:
  assumes ok: "publications_ok sha c db" and row: "select_publication s (fr_key q) db = Some r"
    and c: "scalar_coercions c" and ev: "distinct_keys ev" "prepare_publication sha c ev = Inr p" "carries sha p r"
    and q: "fr_bytes q = pp_candidate_bytes p" "fr_owner q = pb_reservation_owner_id r"
      "fr_epoch q = pb_reservation_epoch r" "pb_updated_at_us r \<le> fr_now q" "is_i64 (fr_now q)"
    and live: "pb_state r = Reserved" "pb_reservation_expires_at_us r = Some e" "fr_now q < e"
  shows "\<exists>db'. finalize_check sha c s q db = Inr None \<and>
    finalize_write sha c s q db = Inr (record_from_row True (finalized_row q r), db')"
proof -
  let ?P = "\<lambda>x. has_key s (fr_key q) x \<and> pb_state x = Reserved \<and>
    pb_reservation_owner_id x = fr_owner q \<and> pb_reservation_epoch x = fr_epoch q"
  have verified: "verified_stored_evidence sha c r = Inr p" using carried_evidence_verifies [OF c ev] .
  have "verify_supplied_bytes sha c r (fr_bytes q) = Inr ()"
    using verified ev(3) q(1) live(1) prepared_identity [OF ev(2)]
    by (simp add: verify_supplied_bytes_def Let_def require_def carries_def record_from_row_def
        publication.defs publication_record.defs)
  moreover have "assert_live_reservation r (fr_owner q) (fr_epoch q) (fr_now q) = Inr ()"
    using q live by (simp add: assert_live_reservation_def require_def)
  ultimately have check: "finalize_check sha c s q db = Inr None"
    using row live(1) by (simp add: finalize_check_def)
  have r: "r \<in> set db" "has_key s (fr_key q) r" using select_publication_Some [OF row] by simp_all
  have "publication_check r" using ok r(1) by (simp add: publications_ok_def)
  then have good: "publication_check (finalized_row q r)"
    using live q ev(3) by (auto simp: publication_check_def finalized_row_def carries_def)
  have trigger: "update_trigger r (finalized_row q r)"
    using \<open>publication_check r\<close> live(1)
    by (auto simp: update_trigger_def finalized_row_def same_identity_def publication_check_def)
  have only: "x = r" if "x \<in> set db" "?P x" for x
    using has_key_eq [OF _ that(1) r(1)] that(2) r(2) ok unfolding publications_ok_def by blast
  have "update_publications ?P (finalized_row q) db = Inr (update_where ?P (finalized_row q) db)"
    using only good trigger unfolding update_publications_def by (metis (mono_tags, lifting))
  moreover have "select_publication s (fr_key q) (update_where ?P (finalized_row q) db) = Some (finalized_row q r)"
    using row r(2) q live(1)
    by (subst select_update_where) (auto simp: finalized_row_def same_identity_def)
  ultimately show ?thesis
    using check row q(4) finalized_row_verifies [OF c ev q(1)]
    by (simp add: finalize_write_def require_def)
qed

text \<open>What a successful reservation leaves under the key of its evidence.\<close>

lemma reserve_existing_live:
  assumes "reserve_existing sha c s p owner lease now row db = Inr (rec, db')"
    and "select_publication s (pp_publication_key p) db = Some row"
    and "pb_state rec = Reserved"
  shows "\<exists>r. select_publication s (pp_publication_key p) db' = Some r \<and> rec = record_from_row False r \<and>
    carries sha p r \<and> pb_reservation_owner_id r = owner"
proof -
  have same: "assert_same_immutable_identity sha row s p = Inr ()"
    using assms(1) by (auto simp: reserve_existing_def flow)
  have state: "pb_state row = Reserved"
  proof (rule ccontr)
    assume "pb_state row \<noteq> Reserved"
    then have "pb_state row = Finalized" by (cases "pb_state row") simp_all
    then show False
      using assms(1,3) by (auto simp: reserve_existing_def flow dest: verified_record_Inr)
  qed
  have carried: "carries sha p row"
    using same state by (simp add: assert_same_immutable_identity_def flow carries_def)
  from assms(1) state consider "rec = record_from_row False row" "db' = db" "pb_reservation_owner_id row = owner"
    | expires where "db' = update_where (\<lambda>r. has_key s (pp_publication_key p) r \<and> pb_state r = Reserved \<and>
             pb_reservation_epoch r = pb_reservation_epoch row)
          (\<lambda>r. r\<lparr>pb_reservation_owner_id := owner,
             pb_reservation_epoch := pb_reservation_epoch row + 1,
             pb_reservation_expires_at_us := Some expires, pb_updated_at_us := now\<rparr>) db"
      "\<exists>r. select_publication s (pp_publication_key p) db' = Some r \<and> rec = record_from_row False r"
    unfolding reserve_existing_def
    by (auto simp: flow Let_def split: if_splits option.splits)
  then show ?thesis
  proof cases
    case 1
    with assms(2) carried show ?thesis by blast
  next
    case 2
    have "\<exists>e t n. select_publication s (pp_publication_key p) db' = Some (row\<lparr>pb_reservation_owner_id := owner,
        pb_reservation_epoch := n, pb_reservation_expires_at_us := e, pb_updated_at_us := t\<rparr>)"
      using assms(2) state select_publication_Some [OF assms(2)] unfolding 2(1)
      by (subst select_update_where) (auto simp: same_identity_def)
    with 2(2) carried state show ?thesis by auto
  qed
qed

lemma reserve_live:
  assumes "reserve sha c s a now db = (Inr rec, db')" and "pb_state rec = Reserved"
    and "reserve_evidence a = Inr ev" and "prepare_publication sha c ev = Inr p"
  shows "valid_scope s \<and> (\<exists>r. select_publication s (pp_publication_key p) db' = Some r \<and>
    rec = record_from_row False r \<and> carries sha p r \<and> owner_pattern (pb_reservation_owner_id r))"
proof -
  obtain owner lease now_us where ok: "valid_scope s" "owner_pattern owner" and
    b: "(case select_publication s (pp_publication_key p) db of
       Some row \<Rightarrow> reserve_existing sha c s p owner lease now_us row db
     | None \<Rightarrow> reserve_new sha s p owner lease now_us db) = Inr (rec, db')"
    using assms(1,3,4) by (auto simp: reserve_def reserve_body_def flow)
  show ?thesis
  proof (cases "select_publication s (pp_publication_key p) db")
    case None
    then have "reserve_new sha s p owner lease now_us db = Inr (rec, db')" using b by simp
    then obtain expires r where n: "db' = db @ [reserved_row sha s p owner expires now_us]"
      "select_publication s (pp_publication_key p) db' = Some r" "rec = record_from_row False r"
      by (auto simp: reserve_new_def flow split: if_splits option.splits)
    have "r = reserved_row sha s p owner expires now_us"
      using n(1,2) None by (auto simp: select_publication_def find_append split: if_splits)
    then have "carries sha p r" "pb_reservation_owner_id r = owner"
      by (simp_all add: reserved_row_def carries_def)
    with n ok show ?thesis by blast
  next
    case (Some row)
    then have "reserve_existing sha c s p owner lease now_us row db = Inr (rec, db')" using b by simp
    from reserve_existing_live [OF this Some assms(2)] ok show ?thesis by blast
  qed
qed

end
