(* ===== verification/Json_Weight.thy ===== *)
theory Json_Weight
  imports Canonical_Bytes "HOL-Library.Multiset"
begin

text \<open>A bound on the canonical bytes of a JSON value that is read off the value itself.\<close>

primrec string_weight :: "string \<Rightarrow> int" where
  "string_weight [] = 2"
| "string_weight (c # s) = 6 + string_weight s"

fun json_weight :: "json \<Rightarrow> int" where
  "json_weight JNull = 4"
| "json_weight (JBool b) = 5"
| "json_weight (JInt i) = int (length (utf8 (int_str i)))"
| "json_weight (JStr s) = string_weight s"
| "json_weight (JArr xs) = 2 + sum_list (map (\<lambda>x. 1 + json_weight x) xs)"
| "json_weight (JObj d) = 2 + sum_list (map (\<lambda>x. 2 + string_weight (fst x) + json_weight (snd x)) d)"

lemma string_weight: "string_weight s = int (6 * length s + 2)"
  by (induction s) simp_all

lemma utf8_ascii: "code c < 128 \<Longrightarrow> utf8_char c = [c]"
  by (simp add: utf8_char_def)

lemma utf8_punctuation [simp]:
  "utf8_char CHR '','' = '',''" "utf8_char CHR ''['' = ''[''" "utf8_char CHR '']'' = '']''"
  "utf8_char CHR ''{'' = ''{''" "utf8_char CHR ''}'' = ''}''" "utf8_char CHR '':'' = '':''"
  by code_simp+

lemma length_utf8_keywords:
  "length (utf8 ''null'') = 4" "length (utf8 ''true'') = 4" "length (utf8 ''false'') = 5"
  by code_simp+

lemma length_utf8_char: "length (utf8_char c) \<le> 2"
  by (simp add: utf8_char_def)

lemma length_utf8: "length (utf8 s) \<le> 2 * length s"
proof (induction s)
  case (Cons c s)
  then show ?case using length_utf8_char [of c] by simp
qed simp

lemma length_utf8_escape: "length (utf8 (escape_char False c)) \<le> 6"
proof -
  have "length (utf8 (u_escape n)) \<le> 6" if "n < 32" for n
  proof -
    have "hex_char k = digit_char k \<and> k < 10 \<or> hex_char k = char_of (87 + k) \<and> k < 16" if "k < 16" for k
      using that by (simp add: hex_char_def)
    then have "code (hex_char k) < 128" if "k < 16" for k
      using that by fastforce
    moreover have "n div 16 < 16" "n mod 16 < 16" using that by (simp_all add: div_less_iff_less_mult)
    ultimately show ?thesis by (simp add: u_escape_def utf8_ascii)
  qed
  then show ?thesis
    using length_utf8_char [of c] by (simp add: escape_char_def Let_def utf8_ascii)
qed

lemma length_utf8_quote: "length (utf8 (quote False s)) \<le> 6 * length s + 2"
proof -
  have "length (utf8 (concat (map (escape_char False) s))) \<le> 6 * length s"
  proof (induction s)
    case (Cons c s)
    then show ?case using length_utf8_escape [of c] by simp
  qed simp
  then show ?thesis by (simp add: quote_def utf8_ascii)
qed

lemma length_utf8_commas: "length (utf8 (commas ps)) \<le> sum_list (map (\<lambda>p. 1 + length (utf8 p)) ps)"
  by (induction ps rule: commas.induct) simp_all

lemma sum_list_bound:
  "(\<And>x. x \<in> set xs \<Longrightarrow> int (f x) \<le> g x) \<Longrightarrow> int (sum_list (map f xs)) \<le> sum_list (map g xs)"
  by (induction xs) fastforce+

lemma length_utf8_print: "int (length (utf8 (print False v))) \<le> json_weight v"
proof (induction v)
  case (JArr xs)
  have "int (length (utf8 (commas (map (print False) xs)))) \<le>
      int (sum_list (map (\<lambda>x. 1 + length (utf8 (print False x))) xs))"
    using length_utf8_commas [of "map (print False) xs"] by (simp add: comp_def)
  also have "\<dots> \<le> sum_list (map (\<lambda>x. 1 + json_weight x) xs)"
    using JArr by (intro sum_list_bound) simp
  finally show ?case by simp
next
  case (JObj d)
  let ?p = "\<lambda>x. quote False (fst x) @ CHR '':'' # print False (snd x)"
  have "int (length (utf8 (commas (map ?p d)))) \<le> int (sum_list (map (\<lambda>x. 1 + length (utf8 (?p x))) d))"
    using length_utf8_commas [of "map ?p d"] by (simp add: comp_def)
  also have "\<dots> \<le> sum_list (map (\<lambda>x. 2 + string_weight (fst x) + json_weight (snd x)) d)"
  proof (rule sum_list_bound)
    fix x
    assume "x \<in> set d"
    then have "int (length (utf8 (print False (snd x)))) \<le> json_weight (snd x)"
      using JObj [of x "snd x"] by (metis snds.intros prod.collapse)
    then show "int (1 + length (utf8 (?p x))) \<le> 2 + string_weight (fst x) + json_weight (snd x)"
      using length_utf8_quote [of "fst x"] by (simp add: string_weight)
  qed
  finally show ?case by simp
next
  case (JStr s)
  show ?case using length_utf8_quote [of s] by (simp add: string_weight)
qed (auto simp: length_utf8_keywords simp del: utf8_simps)

lemma sum_list_sort: "sum_list (map (f :: _ \<Rightarrow> int) (sort_key g xs)) = sum_list (map f xs)"
proof -
  have "mset (map f (sort_key g xs)) = mset (map f xs)" by simp
  then show ?thesis by (metis sum_mset_sum_list)
qed

lemma json_weight_normalize [simp]: "json_weight (normalize v) = json_weight v"
proof (induction v rule: normalize.induct)
  case (5 xs)
  then show ?case by (simp add: comp_def cong: map_cong)
next
  case (6 d)
  have "map (\<lambda>x. 2 + string_weight (fst x) + json_weight (snd x)) (map (\<lambda>(k, v). (k, normalize v)) d) =
      map (\<lambda>x. 2 + string_weight (fst x) + json_weight (snd x)) d"
    using 6 by (auto simp: comp_def)
  then show ?case by (simp only: normalize.simps json_weight.simps sum_list_sort)
qed simp_all

lemma canonical_weight: "int (length (utf8 (canonical_json v))) \<le> json_weight v"
  using length_utf8_print [of "normalize v"] by (simp add: canonical_json_def dumps_def)

lemma canonical_nonempty: "1 \<le> length (utf8 (canonical_json v))"
proof -
  obtain ch s where "canonical_json v = ch # s"
    using print_head [of False "normalize v"] by (auto simp: canonical_json_def dumps_def)
  then show ?thesis by (simp add: utf8_char_def)
qed

text \<open>The values the canonicalizer accepts.\<close>

fun jcs_value :: "bool \<Rightarrow> json \<Rightarrow> bool" where
  "jcs_value arrays (JStr s) = True"
| "jcs_value arrays (JInt i) = True"
| "jcs_value arrays (JObj d) = (\<forall>x \<in> set d. jcs_value arrays (snd x))"
| "jcs_value arrays (JArr xs) = (arrays \<and> (\<forall>x \<in> set xs. jcs_value arrays x))"
| "jcs_value arrays v = False"

lemma jcs_value_returns: "jcs_value arrays v \<Longrightarrow> \<exists>t. jcs q arrays e v = Inr t"
proof (induction q arrays e v rule: jcs.induct)
  case (3 q l e d)
  have "set ds \<subseteq> set d \<Longrightarrow> \<exists>ps. mapE (\<lambda>(k, v). bindE (jcs q l e v) (\<lambda>t. Inr (q k @ '':'' @ t))) ds = Inr ps" for ds
  proof (induction ds)
    case (Cons x ds)
    then have "x \<in> set d" "jcs_value l (snd x)" using 3 by auto
    with 3(1) [of x "fst x" "snd x"] Cons show ?case by (cases x) auto
  qed simp
  from this [of "sort_key fst d"] show ?case by auto
next
  case (4 q l e xs)
  have "set ys \<subseteq> set xs \<Longrightarrow> \<exists>ps. mapE (jcs q l e) ys = Inr ps" for ys
    using 4 by (induction ys) fastforce+
  from this [of xs] 4 show ?case by auto
qed simp_all

end
