(* ===== verification/Skill_Published.thy ===== *)
theory Skill_Published
  imports Skill_Identity Publication_Replay Json_Weight
begin

text \<open>
  The candidate that a publication derives is a candidate skill: it satisfies the contract, and its
  identity is the one under which the publication was stored, so it can be reviewed.
\<close>

section \<open>What admission guarantees\<close>

lemma mapE_each: "mapE f xs = Inr ys \<Longrightarrow> y \<in> set ys \<Longrightarrow> \<exists>x \<in> set xs. f x = Inr y"
  by (induction xs arbitrary: ys) (auto simp: flow)

lemma mapE_demand: "mapE (\<lambda>u. demand (f u)) xs = Inr ys \<Longrightarrow> \<forall>u \<in> set ys. \<exists>j. f j = Some u"
  by (auto simp: demand_def split: option.splits dest!: mapE_each)

lemma segment_validated:
  "operation_segment_validate c j = Inr s \<Longrightarrow>
     (\<forall>n \<in> set (os_command_names s). 1 \<le> length n \<and> length n \<le> 128) \<and>
     1 \<le> length (os_drawing_ref s) \<and> length (os_drawing_ref s) \<le> 255 \<and>
     (\<forall>u \<in> set (os_source_event_ids s). \<exists>j. as_uuid c j = Some u)"
  unfolding operation_segment_validate_def Let_def validate_unique_values_def
  by (elim bindE_InrE) (auto simp: flow list_of_def length_between_def list_all_iff
      split: json.splits if_splits dest!: mapE_demand)

lemma result_segments_validated:
  assumes "result_v2_validate c j = Inr r" and "s \<in> set (rv_operation_segments r)"
  shows "\<exists>j. operation_segment_validate c j = Inr s"
proof -
  have "\<exists>xs. mapE (operation_segment_validate c) xs = Inr (rv_operation_segments r)"
    using assms(1) unfolding result_v2_validate_def Let_def
    by (elim bindE_InrE) (auto simp: flow list_of_def length_between_def split: json.splits if_splits)
  with assms(2) show ?thesis by (blast dest: mapE_each)
qed

definition occurrence_ok :: "occurrence \<Rightarrow> bool" where
  "occurrence_ok x \<longleftrightarrow> uuid_pattern (oc_event_id x) \<and> 1 \<le> length (oc_command_name x) \<and>
     length (oc_command_name x) \<le> 128"

lemma admitted_ok:
  assumes "admit_evidence sha c env = Inr ad" and "reads_canonical c" and "\<And>x. sha256_pattern (sha x)"
  shows "uuid_pattern (ad_job_id ad) \<and> uuid_pattern (ad_session_id ad) \<and> sha256_pattern (ad_source ad) \<and>
    1 \<le> length (ad_drawing_ref ad) \<and> length (ad_drawing_ref ad) \<le> 255 \<and>
    2 \<le> length (ad_occurrences ad) \<and> length (ad_occurrences ad) \<le> 64 \<and>
    list_all occurrence_ok (ad_occurrences ad) \<and>
    (\<exists>a. ad_artifact ad = artifact_ref_dump a \<and> artifact_ref_ok a)"
proof -
  obtain job0 job result m and binding :: "json \<times> json" and n where
    j: "job_v2_validate c (get_null env ''job'') = Inr job0" "copy_job c job0 = Inr job"
    and r: "result_v2_validate c (get_null env ''result'') = Inr result"
    and m: "verify_result_manifest sha c job m = Inr (ad_source ad)"
    and a: "admit_timeline_artifact (fst binding) = Inr (ad_artifact ad)"
    and d: "derive_occurrences result = Inr (ad_occurrences ad, ad_drawing_ref ad, n)"
    and ids: "ad_job_id ad = jv_job_id job" "ad_session_id ad = jv_session_id job"
    using assms(1) by (rule admit_Inr) blast
  have job: "job_v2_ok job"
    using job_v2_validate_ok [OF assms(2) j(1)] copy_job_ok [OF assms(2)] j(2) by (metis sum.inject(2))
  have source: "\<exists>x. ad_source ad = sha x"
    using m unfolding verify_result_manifest_def except_Inr Let_def
    by (elim bindE_InrE) (auto simp: flow intro: sym)
  have artifact: "\<exists>x. ad_artifact ad = artifact_ref_dump x \<and> artifact_ref_ok x"
    using a by (auto simp: admit_timeline_artifact_def except_Inr flow split: if_splits)
      (metis artifact_ref_validate_ok)
  have g: "n = length (ad_occurrences ad)" "2 \<le> n" "n \<le> 64"
    "list_all2 (grounded result (ad_drawing_ref ad)) (rv_timeline result) (ad_occurrences ad)"
    using derive_occurrences_grounded [OF d] by simp_all
  have each: "occurrence_ok x \<and> 1 \<le> length (ad_drawing_ref ad) \<and> length (ad_drawing_ref ad) \<le> 255"
    if x: "x \<in> set (ad_occurrences ad)" for x
  proof -
    obtain i where "grounded result (ad_drawing_ref ad) i x"
      using g(4) x by (auto simp: list_all2_conv_all_nth in_set_conv_nth)
    then obtain s where s: "s \<in> set (rv_operation_segments result)" "os_source_event_ids s = [oc_event_id x]"
      "os_command_names s = [oc_command_name x]" "os_drawing_ref s = ad_drawing_ref ad"
      by (auto simp: grounded_def)
    then show ?thesis
      using result_segments_validated [OF r s(1)] segment_validated [of c _ s] assms(2)
      by (fastforce simp: occurrence_ok_def reads_canonical_def)
  qed
  then have "list_all occurrence_ok (ad_occurrences ad)" by (simp add: list_all_iff)
  moreover have "1 \<le> length (ad_drawing_ref ad) \<and> length (ad_drawing_ref ad) \<le> 255"
    using each [of "hd (ad_occurrences ad)"] g(1,2) by (cases "ad_occurrences ad") auto
  ultimately show ?thesis
    using job source artifact g(1-3) ids assms(3) by (auto simp: job_v2_ok_def)
qed

section \<open>Lengths of texts\<close>

lemma length_escape_char: "length (escape_char False ch) \<le> 6"
  by (simp add: escape_char_def Let_def u_escape_def)

lemma length_quote: "length (quote False s) \<le> 6 * length s + 2"
proof -
  have "length (concat (map (escape_char False) s)) \<le> 6 * length s"
  proof (induction s)
    case (Cons ch s)
    then show ?case using length_escape_char [of ch] by simp
  qed simp
  then show ?thesis by (simp add: quote_def)
qed

lemma hex_digits_hex: "list_all is_hex s \<Longrightarrow> b \<or> s \<noteq> [] \<Longrightarrow> hex_digits_text b s"
  by (induction b s rule: hex_digits_text.induct) auto

lemma hex_strip: "list_all is_hex h \<Longrightarrow> strip h = h"
proof -
  assume hex: "list_all is_hex h"
  have "is_hex ch \<Longrightarrow> \<not> is_space ch" for ch
    by (auto simp: is_hex_def is_digit_def is_space_def Let_def)
  then have "ch \<in> set h \<Longrightarrow> \<not> is_space ch" for ch using hex by (simp add: list_all_iff)
  then have "dropWhile is_space h = h" "dropWhile is_space (rev h) = rev h"
    unfolding dropWhile_eq_self_iff by (auto simp: hd_rev)
  then show ?thesis by (simp add: strip_def)
qed

lemma hex_text: "list_all is_hex h \<Longrightarrow> h \<noteq> [] \<Longrightarrow> hex_int_text h"
proof -
  assume hex: "list_all is_hex h" and "h \<noteq> []"
  have "\<not> is_hex CHR ''+''" "\<not> is_hex CHR ''x''" "\<not> is_hex CHR ''X''" by code_simp+
  then have "\<not> startswith h ''+''" "\<not> startswith h ''0x''" "\<not> startswith h ''0X''"
    using hex by (cases h; cases "tl h"; auto simp: startswith_def)+
  then show ?thesis
    using hex_digits_hex [OF hex, of False] \<open>h \<noteq> []\<close> by (simp add: hex_int_text_def hex_strip [OF hex] Let_def)
qed

lemma uuid_pattern_format:
  assumes "uuid_pattern s"
  shows "uuid_format (JStr s)"
proof -
  let ?h = "filter (\<lambda>ch. ch \<noteq> CHR ''-'') s"
  have len: "length s = 36" and each: "i < 36 \<Longrightarrow> i \<in> {8, 13, 18, 23} \<and> s ! i = CHR ''-'' \<or> i \<notin> {8, 13, 18, 23} \<and> is_hex (s ! i)" for i
    using assms by (auto simp: uuid_pattern_def list_all_length split: if_splits)
  have hex: "list_all is_hex ?h"
    using each len by (auto simp: list_all_iff in_set_conv_nth)
  have "length (filter (\<lambda>ch. ch = CHR ''-'') s) = card {i. i < length s \<and> s ! i = CHR ''-''}"
    by (rule length_filter_conv_card)
  also have "{i. i < length s \<and> s ! i = CHR ''-''} = {8, 13, 18, 23}"
  proof -
    have "\<not> is_hex CHR ''-''" by code_simp
    with each have "i < 36 \<Longrightarrow> s ! i = CHR ''-'' \<longleftrightarrow> i \<in> {8, 13, 18, 23}" for i by metis
    then show ?thesis using len by auto
  qed
  finally have "length ?h = 32"
    using sum_length_filter_compl [of "\<lambda>ch. ch = CHR ''-''" s] len by simp
  then have "hex_int_text ?h" using hex_text [OF hex] by force
  with \<open>length ?h = 32\<close> len each [of 8] each [of 13] each [of 18] each [of 23] show ?thesis
    by (simp add: uuid_format_def)
qed

section \<open>The candidate satisfies the contract\<close>

text \<open>What the candidate is built from; \<open>fits\<close> is the room that the summary leaves for the namespace.\<close>

definition admitted_well :: "admitted \<Rightarrow> bool" where
  "admitted_well ad \<longleftrightarrow> uuid_pattern (ad_job_id ad) \<and> uuid_pattern (ad_session_id ad) \<and>
     sha256_pattern (ad_source ad) \<and> 1 \<le> length (ad_drawing_ref ad) \<and> length (ad_drawing_ref ad) \<le> 255 \<and>
     2 \<le> length (ad_occurrences ad) \<and> length (ad_occurrences ad) \<le> 64 \<and>
     list_all occurrence_ok (ad_occurrences ad) \<and>
     (\<exists>a. ad_artifact ad = artifact_ref_dump a \<and> artifact_ref_ok a)"

definition fits :: "admitted \<Rightarrow> bool" where
  "fits ad \<longleftrightarrow> length (quote False (ad_namespace ad)) \<le> 1889"

lemma artifact_reference_dump:
  assumes "artifact_ref_ok a"
  shows "artifact_reference_ok (artifact_ref_dump a) \<and> json_within 2 (artifact_ref_dump a) \<and>
    json_count (artifact_ref_dump a) = 8"
proof -
  have "provider_value (ar_provider a) \<in> {''s3'', ''google_drive''}" by (cases "ar_provider a") simp_all
  moreover have "role_value (ar_role a) \<in> {''raw_package'', ''timeline'', ''crop'', ''manifest''}"
    by (cases "ar_role a") simp_all
  moreover have "length (provider_value (ar_provider a)) \<le> 20" "length (role_value (ar_role a)) \<le> 20"
    by (cases "ar_provider a", simp_all) (cases "ar_role a", simp_all)
  ultimately show ?thesis
    using assms by (simp add: artifact_reference_ok_def artifact_ref_dump_def exact_object_def jhas_def field_ok_def
        jget_def is_enum_def text_contract_def is_sha256_def number_range_def artifact_ref_ok_def
        max_string_characters_def max_container_items_def max_key_characters_def max_integer_magnitude_def
        sha256_pattern_def)
qed

lemma action_json_ok:
  assumes "occurrence_ok x" and "1 \<le> i" and "i \<le> 64"
  shows "action_ok (action_json i x) \<and> json_within 2 (action_json i x) \<and> json_count (action_json i x) = 4"
proof -
  have "length (quote False (oc_command_name x)) \<le> 770" "length (oc_event_id x) = 36"
    using length_quote [of "oc_command_name x"] assms(1) by (auto simp: occurrence_ok_def uuid_pattern_def)
  then show ?thesis
    using assms by (simp add: action_ok_def action_json_def exact_object_def jhas_def field_ok_def jget_def
        number_range_def text_contract_def unique_text_array_def array_of_def max_string_characters_def
        max_container_items_def max_key_characters_def max_integer_magnitude_def)
qed

definition actions_of :: "admitted \<Rightarrow> json list" where
  "actions_of ad = map (\<lambda>(i, x). action_json (Suc i) x) (zip [0..<length (ad_occurrences ad)] (ad_occurrences ad))"

lemma actions_of_ok:
  assumes "admitted_well ad"
  shows "length (actions_of ad) = length (ad_occurrences ad)"
    "list_all (\<lambda>a. action_ok a \<and> json_within 2 a \<and> json_count a = 4) (actions_of ad)"
proof -
  show "length (actions_of ad) = length (ad_occurrences ad)" by (simp add: actions_of_def)
  have "action_ok (action_json (Suc i) x) \<and> json_within 2 (action_json (Suc i) x) \<and> json_count (action_json (Suc i) x) = 4"
    if "i < length (ad_occurrences ad)" "x \<in> set (ad_occurrences ad)" for i x
    using assms that by (intro action_json_ok) (auto simp: admitted_well_def list_all_iff)
  then show "list_all (\<lambda>a. action_ok a \<and> json_within 2 a \<and> json_count a = 4) (actions_of ad)"
    by (simp add: actions_of_def list_all_length)
qed

lemma actions_coherent_from:
  "actions_coherent names (int (Suc k)) (map (\<lambda>(i, x). action_json (Suc i) x) (zip [k..<k + length xs] xs))"
proof (induction xs arbitrary: k)
  case (Cons x xs)
  have "[k..<k + length (x # xs)] = k # [Suc k..<Suc k + length xs]" by (simp add: upt_rec)
  then show ?case
    using Cons.IH [of "Suc k"] by (simp add: entry_def action_json_def jget_def items_of_def add.commute)
qed simp

lemma sum_count: "list_all (\<lambda>a. f a = (k :: nat)) xs \<Longrightarrow> sum_list (map f xs) = k * length xs"
  by (induction xs) simp_all

lemma short_texts:
  assumes "admitted_well ad"
  shows "length (ad_source ad) = 64" "length (quote False (ad_drawing_ref ad)) \<le> 1532"
    "length (nat_str (length (ad_occurrences ad))) \<le> 2"
proof -
  show "length (ad_source ad) = 64" using assms by (simp add: admitted_well_def sha256_pattern_def)
  show "length (quote False (ad_drawing_ref ad)) \<le> 1532"
    using length_quote [of "ad_drawing_ref ad"] assms by (simp add: admitted_well_def)
  show "length (nat_str (length (ad_occurrences ad))) \<le> 2"
    using length_nat_str [of "length (ad_occurrences ad)" 1] assms by (simp add: admitted_well_def)
qed

lemmas contract_defs =
  exact_object_def jhas_def field_ok_def jget_def number_range_def text_contract_def unique_text_array_def
  array_of_def is_enum_def is_bool_def

lemma parts_ok:
  assumes "admitted_well ad"
  shows "trigger_ok (JObj
      [(''condition'', JStr (''Observed CAD command run on drawing_ref='' @ quote False (ad_drawing_ref ad))),
       (''signals'', JArr [JStr (''source_result_sha256='' @ ad_source ad)])])"
    "drawing_state_ok (JObj
      [(''description'', JStr (''drawing_ref='' @ quote False (ad_drawing_ref ad))),
       (''required_conditions'', JArr [JStr ''All command occurrences use the same drawing_ref.'']),
       (''excluded_conditions'', JArr [])])"
    "expected_result_ok (JObj
      [(''description'', JStr ''The qualifying command run is represented in source order.''),
       (''observable_outcomes'', JArr [JStr (''source_result_sha256='' @ ad_source ad)])])"
  using short_texts [OF assms]
  by (simp_all add: trigger_ok_def drawing_state_ok_def expected_result_ok_def contract_defs)

lemma example_ok:
  assumes "admitted_well ad"
  shows "supporting_example_ok (JObj
      [(''session_id'', JStr (ad_session_id ad)),
       (''summary'', JStr (''source_result_sha256='' @ ad_source ad @ '';timeline_store_namespace='' @
          quote False (ad_namespace ad))),
       (''artifact_references'', JArr [ad_artifact ad])]) \<longleftrightarrow> fits ad"
proof -
  have "artifact_reference_ok (ad_artifact ad)" "uuid_format (JStr (ad_session_id ad))"
    using assms artifact_reference_dump uuid_pattern_format by (auto simp: admitted_well_def)
  then show ?thesis
    using short_texts [OF assms] by (auto simp: supporting_example_ok_def contract_defs fits_def)
qed

lemma contract_skeleton:
  assumes "uuid_pattern j" and "text_contract 1 160 name" and "text_contract 1 2000 description" and "trigger_ok t"
    and "unique_text_array 1 64 2000 pre" and "input_ok inp" and "drawing_state_ok st"
    and "1 \<le> length acts" and "length acts \<le> 256" and "list_all action_ok acts"
    and "unique_text_array 1 128 2000 con" and "expected_result_ok res" and "validation_check_ok chk"
  shows "skill_contract
      [(''schema_version'', JStr ''1.0''), (''skill_id'', JStr j), (''name'', name),
       (''description'', description), (''trigger'', t), (''preconditions'', pre), (''inputs'', JArr [inp]),
       (''relevant_drawing_state'', st), (''ordered_actions'', JArr acts), (''parameters'', JArr []),
       (''constraints'', con), (''expected_result'', res), (''validation_checks'', JArr [chk]),
       (''known_exceptions'', JArr []), (''supporting_examples'', JArr [ex]), (''confidence'', JInt 0),
       (''provenance'', JStr ''observed''), (''approval_status'', JStr ''unreviewed''),
       (''human_approval_evidence'', JNull)] \<longleftrightarrow> supporting_example_ok ex"
  using assms
  by (simp add: skill_contract_def skill_fields_def exact_object_def jhas_def field_ok_def jget_def array_of_def
      number_range_def is_enum_def provenance_values_def canonical_uuid_text_def)

lemma candidate_contract:
  assumes "admitted_well ad"
  shows "skill_contract (build_candidate ad) \<longleftrightarrow> fits ad"
proof -
  note ok = assms [unfolded admitted_well_def] and short = short_texts [OF assms] and acts = actions_of_ok [OF assms]
  show ?thesis
    unfolding build_candidate_def Let_def actions_of_def [symmetric] example_ok [OF assms, symmetric]
  proof (rule contract_skeleton)
    show "list_all action_ok (actions_of ad)" using acts(2) by (simp add: list_all_iff)
  qed (use ok short acts parts_ok [OF assms] in
    \<open>simp_all add: text_contract_def unique_text_array_def array_of_def input_ok_def validation_check_ok_def
       exact_object_def jhas_def field_ok_def jget_def is_enum_def is_bool_def\<close>)
qed

lemma candidate_coherent: "internally_coherent (build_candidate ad)"
proof -
  have "actions_coherent names 1 (actions_of ad)" for names
    using actions_coherent_from [of names 0 "ad_occurrences ad"] by (simp add: actions_of_def)
  then show ?thesis
    by (simp add: internally_coherent_def build_candidate_def actions_of_def [symmetric] items_of_def entry_def jget_def Let_def)
qed

lemma json_within_mono: "json_within n v \<Longrightarrow> n \<le> m \<Longrightarrow> json_within m v"
proof (induction n v arbitrary: m rule: json_within.induct)
  case (3 n xs)
  then show ?case by (auto simp: list_all_iff intro: diff_le_mono)
next
  case (4 n d)
  then show ?case by (fastforce simp: list_all_iff intro: diff_le_mono)
qed simp_all

lemma candidate_within:
  assumes "admitted_well ad" and "fits ad"
  shows "bounded_json_value 0 0 (JObj (build_candidate ad)) = Inr (json_count (JObj (build_candidate ad)))"
proof -
  note ok = assms(1) [unfolded admitted_well_def] and acts = actions_of_ok [OF assms(1)]
  obtain a where "ad_artifact ad = artifact_ref_dump a" "artifact_ref_ok a" using ok by blast
  then have artifact: "json_within 8 (ad_artifact ad)" "json_count (ad_artifact ad) = 8"
    using artifact_reference_dump [of a] json_within_mono by auto
  have actions: "list_all (json_within 10) (actions_of ad)" "sum_list (map json_count (actions_of ad)) \<le> 256"
    using acts ok sum_count [of json_count 4 "actions_of ad"] json_within_mono by (auto simp: list_all_iff)
  have texts: "length (ad_job_id ad) = 36" "length (ad_session_id ad) = 36"
    using ok by (simp_all add: uuid_pattern_def)
  have "json_within (max_depth - 0) (JObj (build_candidate ad))"
    using short_texts [OF assms(1)] artifact(1) actions(1) texts acts(1) ok assms(2)
    by (simp add: build_candidate_def actions_of_def [symmetric] max_depth_def max_container_items_def
        max_key_characters_def max_string_characters_def max_integer_magnitude_def fits_def Let_def)
  moreover have "0 + json_count (JObj (build_candidate ad)) \<le> max_total_values"
    using artifact(2) actions(2)
    by (simp add: build_candidate_def actions_of_def [symmetric] max_total_values_def Let_def)
  ultimately have "bounded_json_value 0 0 (JObj (build_candidate ad)) = Inr (0 + json_count (JObj (build_candidate ad)))"
    by (intro bounded_json_value_within(1)) simp_all
  then show ?thesis by (simp only: add_0)
qed

section \<open>The identity\<close>

lemma bounded_json_value_errors:
  "bounded_json_value depth n v = Inl e \<Longrightarrow> e = ValueError"
  "bounded_items depth n xs = Inl e \<Longrightarrow> e = ValueError"
  "bounded_entries depth n d = Inl e \<Longrightarrow> e = ValueError"
proof (induction depth n v and depth n xs and depth n d
    rule: bounded_json_value_bounded_items_bounded_entries.induct)
  case (1 depth n v)
  then show ?case by (cases v) (auto split: if_splits)
next
  case (3 depth n x xs)
  then show ?case by (cases "bounded_json_value (depth + 1) n x") auto
next
  case (5 depth n k x d)
  then show ?case by (cases "bounded_json_value (depth + 1) n x") (auto split: if_splits)
qed auto

lemma bindE_Inl_error:
  "bindE m f = Inl e \<Longrightarrow> (\<And>e. m = Inl e \<Longrightarrow> e = v) \<Longrightarrow> (\<And>x e. m = Inr x \<Longrightarrow> f x = Inl e \<Longrightarrow> e = v) \<Longrightarrow> e = v"
  by (cases m) auto

lemma candidate_identity_errors: "candidate_identity sha d = Inl e \<Longrightarrow> e = ValueError"
  unfolding candidate_identity_def Let_def
  by (erule bindE_Inl_error | auto simp: require_def skill_text_def dest: bounded_json_value_errors
      split: if_splits option.splits json.splits)+

lemma length_utf8_commas_eq: "ps \<noteq> [] \<Longrightarrow> length (utf8 (commas ps)) + 1 = sum_list (map (\<lambda>p. 1 + length (utf8 p)) ps)"
  by (induction ps rule: commas.induct) simp_all

lemma sum_list_sort_nat: "sum_list (map (f :: _ \<Rightarrow> nat) (sort_key g xs)) = sum_list (map f xs)"
proof -
  have "mset (map f (sort_key g xs)) = mset (map f xs)" by simp
  then show ?thesis by (metis sum_mset_sum_list)
qed

lemma skill_json_bytes_filter: "length (skill_json_bytes (filter P d)) \<le> length (skill_json_bytes d)"
proof -
  let ?n = "\<lambda>d. sort_key fst (map (\<lambda>(k, v). (k, normalize v)) d)"
  let ?p = "\<lambda>x. quote False (fst x) @ CHR '':'' # print False (snd x)"
  let ?f = "\<lambda>x. 1 + length (utf8 (?p x))"
  have mset: "sum_list (map ?f (?n d)) = sum_list (map (\<lambda>(k, v). ?f (k, normalize v)) d)" for d
    unfolding sum_list_sort_nat by (simp add: comp_def case_prod_unfold)
  have "sum_list (map (\<lambda>(k, v). ?f (k, normalize v)) (filter P d)) \<le> sum_list (map (\<lambda>(k, v). ?f (k, normalize v)) d)"
    by (induction d) auto
  then have "sum_list (map ?f (?n (filter P d))) \<le> sum_list (map ?f (?n d))" by (simp only: mset)
  note sums = this
  have len: "length (utf8 (commas (map ?p (?n e)))) + (if e = [] then 0 else 1) = sum_list (map ?f (?n e))" for e
  proof -
    have "?n e = [] \<longleftrightarrow> e = []" by (metis length_0_conv length_map length_sort)
    then show ?thesis
      using length_utf8_commas_eq [of "map ?p (?n e)"] by (cases "e = []") (simp_all add: comp_def)
  qed
  have "length (utf8 (commas (map ?p (?n (filter P d))))) \<le> length (utf8 (commas (map ?p (?n d))))"
  proof (cases "filter P d = []")
    case False
    then have "d \<noteq> []" by auto
    with False sums len [of "filter P d"] len [of d] show ?thesis by (simp only: if_False)
  qed simp
  then show ?thesis by (simp add: skill_json_bytes_def dumps_def)
qed

lemma published_identity:
  assumes "prepare_publication sha c ev = Inr p" and "normalize_envelope ev = Inr env"
    and "admit_evidence sha c env = Inr ad" and "reads_canonical c" and "\<And>x. sha256_pattern (sha x)"
  shows "pp_candidate p = build_candidate ad \<and> admitted_well ad \<and>
    (fits ad \<longrightarrow> (\<exists>i. candidate_identity sha (pp_candidate p) = Inr i \<and> si_skill_id i = pp_job_id p \<and>
      si_publication_key i = pp_publication_key p \<and> si_target_id i = pp_review_target_id p \<and>
      si_content_sha256 i = pp_content_sha256 p \<and> si_full_sha256 i = pp_full_sha256 p))"
proof -
  have cap: "length (pp_candidate_bytes p) \<le> max_canonical_bytes"
    using assms(1) unfolding prepare_publication_def Let_def
    by (elim bindE_InrE) (auto simp: require_byte_cap_def flow)
  obtain env' ad' where e: "normalize_envelope ev = Inr env'" "admit_evidence sha c env' = Inr ad'"
    and p: "pp_candidate p = build_candidate ad'" "pp_job_id p = ad_job_id ad'"
    "canonical_json_bytes (JObj (pp_candidate p)) = Inr (pp_candidate_bytes p)"
    "canonical_json_bytes (JObj (content_projection (pp_candidate p))) = Inr (pp_content_bytes p)"
    "pp_content_sha256 p = sha (pp_content_bytes p)" "pp_full_sha256 p = sha (pp_candidate_bytes p)"
    "pp_review_target_id p = ''candidate-skill:1.0:'' @ pp_job_id p @ '':sha256:'' @ pp_content_sha256 p"
    "candidate_publication_key (pp_job_id p) = Inr (pp_publication_key p)"
    using assms(1) by (rule prepare_Inr)
  have ad: "ad' = ad" using e assms(2,3) by simp
  have well: "admitted_well ad"
    unfolding admitted_well_def by (rule admitted_ok [OF assms(3-5)])
  have bytes: "skill_json_bytes (build_candidate ad) = pp_candidate_bytes p"
    "skill_json_bytes (skill_content (build_candidate ad)) = pp_content_bytes p"
    using p(1,3,4) unfolding ad
    by (auto simp: canonical_json_bytes_def canonical_json_def skill_json_bytes_def skill_content_def
        approval_envelope_def content_projection_def flow Let_def split: if_splits)
  have content: "length (pp_content_bytes p) \<le> max_canonical_bytes"
    using skill_json_bytes_filter [of "\<lambda>x. fst x \<notin> set approval_envelope" "build_candidate ad"] cap bytes
    by (simp add: skill_content_def)
  have skill: "skill_text (build_candidate ad) ''schema_version'' = Inr ''1.0''"
    "skill_text (build_candidate ad) ''skill_id'' = Inr (ad_job_id ad)"
    by (simp_all add: skill_text_def build_candidate_def jget_def Let_def)
  have "pp_publication_key p = ''candidate-publication:1.0:'' @ pp_job_id p"
    using p(8) by (auto simp: candidate_publication_key_def canonical_uuid_def flow split: if_splits)
  then have "\<exists>i. candidate_identity sha (pp_candidate p) = Inr i \<and> si_skill_id i = pp_job_id p \<and>
      si_publication_key i = pp_publication_key p \<and> si_target_id i = pp_review_target_id p \<and>
      si_content_sha256 i = pp_content_sha256 p \<and> si_full_sha256 i = pp_full_sha256 p" if "fits ad"
    using that candidate_within [OF well that] candidate_contract [OF well] candidate_coherent [of ad]
      cap content bytes skill well p(1,2,5-7)
    by (simp add: candidate_identity_def ad fits_def require_def max_skill_bytes_def max_canonical_bytes_def
        admitted_well_def Let_def)
  then show ?thesis using p(1) well by (simp add: ad)
qed

text \<open>C20: What is published can be reviewed. For a digest function of the shape of SHA-256 and pydantic's reading of canonical
  values, the candidate that a publication derives passes the checks of the approval side (bounds,
  contract, coherence) exactly when the namespace of its timeline store, quoted, has at most 1889 characters; its identity then is the one that was published: the same
  publication key, review target and digests. With a longer namespace the publication succeeds all
  the same, and the approval functions refuse the candidate with \<open>ValueError\<close>.\<close>

theorem published_candidate_is_reviewable:
  assumes "prepare_publication sha c ev = Inr p" and "normalize_envelope ev = Inr env"
    and "admit_evidence sha c env = Inr ad" and "reads_canonical c" and "\<And>x. sha256_pattern (sha x)"
  shows "if length (quote False (ad_namespace ad)) \<le> 1889
    then \<exists>i. candidate_identity sha (pp_candidate p) = Inr i \<and> si_skill_id i = pp_job_id p \<and>
      si_publication_key i = pp_publication_key p \<and> si_target_id i = pp_review_target_id p \<and>
      si_content_sha256 i = pp_content_sha256 p \<and> si_full_sha256 i = pp_full_sha256 p
    else candidate_identity sha (pp_candidate p) = Inl ValueError"
proof (cases "fits ad")
  case True
  with published_identity [OF assms] show ?thesis by (auto simp: fits_def)
next
  case False
  have p: "pp_candidate p = build_candidate ad" and well: "admitted_well ad"
    using published_identity [OF assms] by simp_all
  have "\<not> skill_contract (build_candidate ad)" using False candidate_contract [OF well] by simp
  then have "candidate_identity sha (build_candidate ad) \<noteq> Inr i" for i
    by (auto simp: candidate_identity_def flow)
  then have "candidate_identity sha (build_candidate ad) = Inl ValueError"
    using candidate_identity_errors by (metis sum.exhaust)
  with False p show ?thesis by (simp add: fits_def)
qed

end
