(* ===== verification/Skill_Ledger.thy ===== *)
theory Skill_Ledger
  imports Candidate_Agreement Tenant_Isolation
begin

text \<open>What an accepted call of the guarded writer appends: one row, for the given target, by the
  given principal, with the given status.\<close>

lemma candidate_event_rows:
  assumes "append_candidate_review_event sha q clock audit eid aid db = Inr (ev, db')"
  shows "review_events db' = review_events db \<or>
    (\<exists>row v evidence t. prepare_candidate_event q = Inr (v, evidence, t) \<and>
      review_events db' = review_events db @ [row] \<and> rr_actor_id row = cv_actor_id v \<and>
      rr_status row = cv_status v \<and> rr_target_id row = cv_qualified_target v)"
proof -
  from assms(1) obtain v evidence t where prep: "prepare_candidate_event q = Inr (v, evidence, t)"
    by (auto simp: append_candidate_review_event_def bindE_Inr)
  show ?thesis
  proof (cases "find_event_by_key (cv_qualified_key v) db")
    case (Some existing)
    with assms prep show ?thesis by (auto simp: append_candidate_review_event_def bindE_Inr)
  next
    case None
    with assms prep show ?thesis
      by (auto simp: append_candidate_review_event_def bindE_Inr Let_def insert_review_event_Inr
          dest!: control_audit_reviews)
  qed
qed

lemma prepare_candidate_given:
  assumes "prepare_candidate_event q = Inr (v, evidence, t)"
    and "cq_review_target_id q = Some target" and "cq_status q = Some status"
  shows "cv_review_target_id v = target \<and> cv_actor_id v = cq_actor_id q \<and> cv_status v = status"
proof -
  have given: "first_given (Some x) y = Some x" for x :: string and y by (simp add: first_given_def)
  obtain skill content where parsed: "parse_candidate_target target = Some (skill, content)"
    using assms by (cases "parse_candidate_target target")
      (auto simp: prepare_candidate_event_def bindE_Inr given)
  from assms(1) show ?thesis
    unfolding prepare_candidate_event_def assms(2,3) given parsed option.case prod.case Let_def
    apply (elim bindE_InrE)
    subgoal premises prems using prems by - (drule Inr_inject, auto)
    done
qed

lemma candidate_target_of_scope:
  assumes "prepare_candidate_event (candidate_request_of s p q pub t content full src) = Inr (v, evidence, time)"
    and "rv_status q = Some status"
  shows "cv_actor_id v = subject p \<and> cv_status v = status \<and>
    (\<forall>target. qualify s ''review_target'' t = Inr target \<longrightarrow> cv_qualified_target v = target)"
proof -
  have given: "cv_review_target_id v = t \<and> cv_actor_id v = subject p \<and> cv_status v = status"
    using prepare_candidate_given [OF assms(1)] assms(2) by (simp add: candidate_request_of_def)
  moreover have "qualify_scope_key (cv_scope_key v) ''review_target'' (cv_review_target_id v) =
      Inr (cv_qualified_target v)" "scope_key (Some (ScopeValue s)) = Inr (cv_scope_key v)"
    using prepare_candidate_fields(2,3) [OF assms(1)] by (simp_all add: candidate_request_of_def first_given_def)
  ultimately show ?thesis
    by (auto dest!: scope_key_value simp: qualify_scope_key_def qualify_def kind_prefix_def scope_prefix_def bindE_Inr)
qed

text \<open>The legacy payload of a request plays no part in what else is prepared.\<close>

lemma prepare_candidate_legacy:
  assumes "prepare_candidate_event (q\<lparr>cq_legacy_provenance := None, cq_legacy_detail := None\<rparr>) = Inr (v, evidence, t)"
    and "bounded_review_mapping p = Inr p'" and "bounded_review_mapping d = Inr d'"
    and "validate_review_provenance p' = Inr ()"
    and "cq_legacy_provenance q = Some p" and "cq_legacy_detail q = Some d"
  shows "prepare_candidate_event q = Inr (v\<lparr>cv_legacy := Some (p', d')\<rparr>, evidence, t)"
proof -
  let ?q = "q\<lparr>cq_legacy_provenance := None, cq_legacy_detail := None\<rparr>"
  obtain target where target: "first_given (cq_review_target_id q) (cq_target_id q) = Some target"
    using assms(1) by (cases "first_given (cq_review_target_id q) (cq_target_id q)")
      (auto simp: prepare_candidate_event_def bindE_Inr)
  obtain skill content where parsed: "parse_candidate_target target = Some (skill, content)"
    using assms(1) target by (cases "parse_candidate_target target")
      (auto simp: prepare_candidate_event_def bindE_Inr)
  obtain status where status: "first_given (cq_status q) (cq_destination_status q) = Some status"
    using assms(1) target parsed by (cases "first_given (cq_status q) (cq_destination_status q)")
      (auto simp: prepare_candidate_event_def bindE_Inr Let_def)
  obtain sc sv pk rt tg ik qk ac st ds sch ci sk co fu so re ev pst pv pe oc nw where
    q: "q = \<lparr>cq_scope = sc, cq_server_scope = sv, cq_publication_key = pk, cq_review_target_id = rt,
      cq_target_id = tg, cq_idempotency_key = ik, cq_qualified_key = qk, cq_actor_id = ac, cq_status = st,
      cq_destination_status = ds, cq_schema_version = sch, cq_candidate_id = ci, cq_skill_id = sk,
      cq_content_sha256 = co, cq_full_sha256 = fu, cq_source_result_sha256 = so, cq_reason = re,
      cq_evidence = ev, cq_prior_state = pst, cq_prior_version = pv, cq_prior_event = pe,
      cq_occurred_at = oc, cq_now = nw, cq_legacy_provenance = Some p, cq_legacy_detail = Some d\<rparr>"
    using assms(5,6) by (cases q) auto
  note facts = target [unfolded q candidate_request.simps] status [unfolded q candidate_request.simps]
  show ?thesis
    using assms(1)
    unfolding prepare_candidate_event_def q candidate_request.simps candidate_request.update_convs facts parsed
      option.case prod.case Let_def
    apply (elim bindE_InrE)
    subgoal premises prems using prems by (simp add: assms(2-4) bindE_Inr, elim conjE, hypsubst, simp)
    done
qed

text \<open>The first event of a target in an empty ledger, with a legacy payload.\<close>

lemma first_legacy_event:
  assumes prep: "prepare_candidate_event q = Inr (v, evidence, None)"
    and given: "cq_prior_state q = None" "cq_prior_version q = None" "cq_prior_event q = None"
    and payload: "cv_legacy v = Some (p, d)" "validate_review_provenance p = Inr ()"
      "distinct_keys (JObj p)" "distinct_keys (JObj d)"
    and status: "cv_status v = ''approved''"
    and none: "review_events db = []" "projections db = []"
    and time: "resolve_review_time None clock = Inr at_time" "to_micros at_time = Inr us" "from_micros us = Inr n"
    and audit: "\<And>db1. audit_events db1 = audit_events db \<Longrightarrow>
      control_audit aid audit db1 = Inr (db1\<lparr>audit_events := rows\<rparr>)"
  shows "\<exists>ev db'. append_candidate_review_event sha q clock audit eid aid db = Inr (ev, db') \<and>
    length (review_events db') = 1"
proof -
  let ?r = "\<lparr>rr_sequence = next_sequence rr_sequence (review_events db), rr_event_id = eid,
    rr_target_id = cv_qualified_target v, rr_idempotency_key = cv_qualified_key v,
    rr_content_digest = review_content_digest sha (cv_qualified_target v) (cv_actor_id v) (cv_status v) p d,
    rr_actor_id = cv_actor_id v, rr_status = cv_status v,
    rr_provenance_json = canonical_json (JObj p), rr_detail_json = canonical_json (JObj d), rr_occurred_at = us\<rparr>"
  let ?p = "\<lparr>pr_target_id = cv_qualified_target v, pr_status = cv_status v, pr_version = 1,
    pr_last_event_id = eid, pr_actor_id = cv_actor_id v, pr_provenance_json = canonical_json (JObj p),
    pr_detail_json = canonical_json (JObj d), pr_occurred_at = us\<rparr>"
  let ?db = "upsert_projection ?p (db\<lparr>review_events := [?r]\<rparr>)"
  have find: "find_event_by_key (cv_qualified_key v) db = None"
    using none by (simp add: find_event_by_key_def)
  have state: "current_candidate_state sha (cv_qualified_target v) db = Inr (''unreviewed'', 0, None)"
    using none by (simp add: current_candidate_state_def find_projection_def target_events_def)
  have expected: "validate_expected_prior ''unreviewed'' 0 None (JStr ''unreviewed'') (JInt 0) JNull = Inr ()"
    by (simp add: validate_expected_prior_def)
  have content: "candidate_event_payload sha v reason evidence ps pv pe at_time =
    Inr (rr_content_digest ?r, canonical_json (JObj p), canonical_json (JObj d))" for reason ps pv pe
    using payload(1,2) by (simp add: candidate_event_payload_def)
  have insert: "insert_review_event ?r db = Inr (db\<lparr>review_events := [?r]\<rparr>)"
    using none by (simp add: insert_review_event_Inr)
  have "stored_as sha p d ?r" by (simp add: stored_as_def)
  note loads = stored_as_loads [OF this payload(3,4)]
  obtain ev where ev: "review_event_from_row sha ?r = Inr ev"
    using loads time(3) by (simp add: review_event_from_row_def)
  have audited: "control_audit aid audit ?db = Inr (?db\<lparr>audit_events := rows\<rparr>)"
    by (rule audit) (simp add: upsert_projection_def)
  have events: "review_events (?db\<lparr>audit_events := rows\<rparr>) = [?r]"
    by (simp add: upsert_projection_def)
  then have row: "event_row_at (next_sequence rr_sequence (review_events db)) (?db\<lparr>audit_events := rows\<rparr>) = Inr ?r"
    by (simp add: event_row_at_Inr)
  have "append_candidate_review_event sha q clock audit eid aid db = Inr (ev, ?db\<lparr>audit_events := rows\<rparr>)"
    using prep find state given status time(1,2) content insert audited row ev expected
    by (simp add: append_candidate_review_event_def unset_or_def Let_def legal_candidate_transition_def)
  with events show ?thesis by simp
qed

end
