(* ===== verification/Skill_Properties.thy ===== *)
theory Skill_Properties
  imports Skill_Approval Skill_Published Skill_Ledger
begin

text \<open>What the approval functions report and write, in terms of the review ledger.\<close>

section \<open>Reading the ledger\<close>

text \<open>The events of a candidate in the ledger, under the scope of the principal.\<close>

definition ledger_events ::
  "(string \<Rightarrow> string) \<Rightarrow> principal \<Rightarrow> (string \<times> json) list \<Rightarrow> service_state \<Rightarrow> review_row list" where
  "ledger_events sha p candidate st =
     (case bindE (require_scope p) (\<lambda>s. bindE (candidate_identity sha candidate) (\<lambda>i.
          qualify s ''review_target'' (si_target_id i))) of
        Inl _ \<Rightarrow> []
      | Inr t \<Rightarrow> target_events t (sv_control st))"

lemma validate_history_legal:
  "validate_history sha t i s e rs = Inr () \<Longrightarrow> legal_chain s (map rr_status rs)"
  by (induction rs arbitrary: i s e) (auto simp: validate_history_event_def flow Let_def split: if_splits)

lemma legal_chain_short: "legal_chain s xs \<Longrightarrow> length xs \<le> 2"
proof (induction s xs rule: legal_chain.induct)
  case (2 s x xs)
  then show ?case
    by (cases xs; cases "tl xs") (auto simp: legal_candidate_transition_def split: if_splits)
qed simp

lemma number_rows_map:
  assumes "\<And>i e. f (g i e) = f e"
  shows "map f (number_rows g es) = map f es"
proof -
  have "map f (number_rows g es) = map (f \<circ> snd) (zip [0..<length es] es)"
    using assms by (simp add: number_rows_def comp_def case_prod_unfold)
  then show ?thesis by (simp flip: map_map)
qed

lemma list_candidate_events:
  assumes "list_candidate_review_events sha t 0 100 db = Inr es"
  shows "map re_status es = map rr_status (target_events t db) \<and>
    map re_actor_id es = map rr_actor_id (target_events t db) \<and>
    map re_event_id es = map rr_event_id (target_events t db)"
proof (cases "find_projection t db")
  case None
  with assms show ?thesis by (auto simp: list_candidate_review_events_def flow Let_def split: if_splits)
next
  case (Some q)
  then obtain evs where v: "validate_candidate_projection sha db q (target_events t db) = Inr ()"
    and evs: "mapE (review_event_from_row sha) (target_events t db) = Inr evs"
    and es: "es = filter (\<lambda>e. 0 < int (re_sequence e) \<and> int (re_sequence e) \<le> 100)
      (number_rows (\<lambda>i e. e\<lparr>re_sequence := i\<rparr>) evs)"
    using assms by (auto simp: list_candidate_review_events_def flow Let_def)
  have len: "length evs = length (target_events t db)"
    using evs by (auto simp: mapE_Inr_iff dest: list_all2_lengthD)
  have "legal_chain ''unreviewed'' (map rr_status (target_events t db))"
    using v validate_history_legal by (auto simp: validate_candidate_projection_def flow)
  then have "length evs \<le> 2" using legal_chain_short [of _ "map rr_status (target_events t db)"] len by simp
  then have "es = number_rows (\<lambda>i e. e\<lparr>re_sequence := i\<rparr>) evs"
    unfolding es by (auto simp: number_rows_def filter_id_conv dest!: set_zip_leftD)
  then have "map f es = map f evs" if "\<And>i e. f (e\<lparr>re_sequence := i\<rparr>) = f e" for f :: "review_event \<Rightarrow> string"
    using number_rows_map that by metis
  moreover have "map re_status evs = map rr_status (target_events t db) \<and>
    map re_actor_id evs = map rr_actor_id (target_events t db) \<and>
    map re_event_id evs = map rr_event_id (target_events t db)"
    using evs unfolding mapE_Inr_iff
    by (induction rule: list_all2_induct) (auto dest: review_event_from_row_fields)
  ultimately show ?thesis by simp
qed

lemma public_events:
  assumes "mapE (public_review_event s) evs = Inr es"
  shows "map re_status es = map re_status evs \<and> map re_actor_id es = map re_actor_id evs \<and>
    map re_event_id es = map re_event_id evs"
  using assms unfolding mapE_Inr_iff
  by (induction rule: list_all2_induct) (auto simp: public_review_event_def flow Let_def)

lemma listed:
  assumes "service_list_reviews sha env p t correlation 0 100 st = (Inr es, st')"
    and "is_candidate_review_target t" and "require_scope p = Inr s" and "qualify s ''review_target'' t = Inr q"
  shows "st' = st \<and> map re_status es = map rr_status (target_events q (sv_control st)) \<and>
    map re_actor_id es = map rr_actor_id (target_events q (sv_control st)) \<and>
    map re_event_id es = map rr_event_id (target_events q (sv_control st))"
  using assms list_candidate_events public_events
  by (auto simp: service_list_reviews_def calls)

lemma read_none:
  assumes "service_read_review sha env p t correlation st = (Inr None, st')"
    and "is_candidate_review_target t" and "require_scope p = Inr s" and "qualify s ''review_target'' t = Inr q"
  shows "st' = st \<and> target_events q (sv_control st) = []"
  using assms
  by (auto simp: service_read_review_def read_candidate_review_def get_candidate_review_projection_def
      first_given_def calls flow split: option.splits if_splits)

lemma read_scope:
  assumes "service_read_review sha env p t correlation st = (Inr r, st')"
    and "is_candidate_review_target t"
  shows "\<exists>s q. require_scope p = Inr s \<and> qualify s ''review_target'' t = Inr q \<and> st' = st"
  using assms
  by (auto simp: service_read_review_def read_candidate_review_def first_given_def calls flow
      split: option.splits if_splits)

lemma parse_target:
  assumes "uuid_pattern skill" and "sha256_pattern digest"
  shows "parse_candidate_target (candidate_prefix @ skill @ '':sha256:'' @ digest) = Some (skill, digest)"
proof -
  have len: "length candidate_prefix = 20" by (simp add: candidate_prefix_def)
  have "length skill = 36" "length digest = 64"
    using assms by (simp_all add: uuid_pattern_def sha256_pattern_def)
  with assms len show ?thesis
    by (simp add: parse_candidate_target_def slice_def startswith_def Let_def)
qed

lemma candidate_identity_Inr:
  assumes "candidate_identity sha d = Inr i"
  shows "uuid_pattern (si_skill_id i) \<and> si_schema_version i = ''1.0'' \<and>
    si_content_sha256 i = sha (skill_json_bytes (skill_content d)) \<and>
    si_target_id i = candidate_prefix @ si_skill_id i @ '':sha256:'' @ si_content_sha256 i"
  using assms unfolding candidate_identity_def Let_def
  by (elim bindE_InrE) (auto simp: flow candidate_prefix_def)

lemma identity_target:
  assumes "candidate_identity sha d = Inr i" and "\<And>x. sha256_pattern (sha x)"
  shows "is_candidate_review_target (si_target_id i)"
  using candidate_identity_Inr [OF assms(1)] parse_target assms(2) by (simp add: is_candidate_review_target_def)

section \<open>What is reported\<close>

definition reported :: "review_row list \<Rightarrow> approval_state \<Rightarrow> bool" where
  "reported rows s \<longleftrightarrow>
     as_approval_status s = last_status ''unreviewed'' (map rr_status rows) \<and>
     (case as_human_approval_evidence s of
        None \<Rightarrow> True
      | Some e \<Rightarrow> as_approval_status s = ''approved'' \<and>
          map (\<lambda>r. Some (rr_actor_id r)) rows = [map_of e ''reviewer_id''] \<and>
          map (\<lambda>r. Some (rr_event_id r)) rows = [map_of e ''decision_event_id''])"

lemma state_of_events_reported:
  assumes "state_of_events i p es = Inr s" and "map re_status es = map rr_status rows"
    and "map re_actor_id es = map rr_actor_id rows" and "map re_event_id es = map rr_event_id rows"
  shows "reported rows s"
proof -
  have es: "es \<noteq> []" using assms(1) by (simp add: state_of_events_def flow)
  then have rows: "rows \<noteq> []" using assms(2) by auto
  have last: "rr_status (last rows) = re_status (last es)"
    using assms(2) es rows by (metis last_map)
  show ?thesis
  proof (cases "jhas (re_detail (last es)) ''lifecycle_schema_version''")
    case True
    with assms(1) last rows show ?thesis
      by (auto simp: state_of_events_def flow Let_def reported_def approval_state_of_def last_status_def last_map)
  next
    case False
    with assms(1) obtain e basis where e: "es = [e]" "re_status e = ''approved''"
      "s = approval_state_of i ''approved'' (Some
        [(''reviewer_id'', re_actor_id e), (''decision_event_id'', re_event_id e),
         (''decided_at'', decided_at (re_occurred_at e)), (''approval_basis'', basis)])"
      by (auto simp: state_of_events_def flow Let_def require_authoritative_event_def length_Suc_conv
          split: option.splits json.splits)
    with assms(2-4) obtain r where "rows = [r]" "rr_status r = ''approved''" "rr_actor_id r = re_actor_id e"
      "rr_event_id r = re_event_id e"
      by (cases rows) auto
    with e show ?thesis by (auto simp: reported_def approval_state_of_def last_status_def)
  qed
qed

lemma state_from_projection_reported:
  assumes "state_from_projection sha world k p i projection correlation st = (Inr s, st')"
    and "candidate_identity sha d = Inr i" and "\<And>x. sha256_pattern (sha x)"
  shows "reported (ledger_events sha p d st') s"
proof -
  obtain es where es: "service_list_reviews sha (fst (world k)) p (si_target_id i) correlation 0 100
      (snd (world k) st) = (Inr es, st')" and s: "state_of_events i projection es = Inr s"
    using assms(1) by (auto simp: state_from_projection_def nth_call_def calls)
  note target = identity_target [OF assms(2,3)]
  obtain sc q where q: "require_scope p = Inr sc" "qualify sc ''review_target'' (si_target_id i) = Inr q"
    using es by (auto simp: service_list_reviews_def calls)
  have "ledger_events sha p d st' = target_events q (sv_control st')"
    using q assms(2) by (simp add: ledger_events_def)
  with listed [OF es target q] state_of_events_reported [OF s] show ?thesis by simp
qed

text \<open>C9: The effective state is the ledger. For a digest function of the shape of SHA-256, and whatever other users
  do between its calls: when the approval state of a candidate is read, the reported status is the status of the
  last review event of exactly this content under the scope of the principal, or unreviewed if there is
  none; approval evidence is reported for an approval only, and names the reviewer and the event of the single
  event there is.\<close>

theorem effective_state_is_the_ledger:
  assumes "\<And>x. sha256_pattern (sha x)"
  shows "case read_candidate_skill_approval_state sha world p d correlation st of
      (Inl _, _) \<Rightarrow> True
    | (Inr s, st') \<Rightarrow> reported (ledger_events sha p d st') s"
proof -
  have "reported (ledger_events sha p d st') s"
    if run: "read_candidate_skill_approval_state sha world p d correlation st = (Inr s, st')" for s st'
  proof -
    obtain i r st1 where i: "candidate_identity sha d = Inr i"
      and r: "service_read_review sha (fst (world 0)) p (si_target_id i) correlation (snd (world 0) st) = (Inr r, st1)"
      and s: "(case r of None \<Rightarrow> result (Inr (unreviewed_state i))
         | Some projection \<Rightarrow> state_from_projection sha world 1 p i projection correlation) st1 = (Inr s, st')"
      using run by (auto simp: read_candidate_skill_approval_state_def nth_call_def calls simp del: One_nat_def)
    note target = identity_target [OF i assms]
    show ?thesis
    proof (cases r)
      case None
      obtain sc q where q: "require_scope p = Inr sc" "qualify sc ''review_target'' (si_target_id i) = Inr q"
        using read_scope [OF r target] by blast
      have "target_events q (sv_control st') = []" and "s = unreviewed_state i"
        using read_none [OF r [unfolded None] target q] s None by auto
      then show ?thesis
        using q i by (simp add: ledger_events_def reported_def unreviewed_state_def approval_state_of_def last_status_def)
    next
      case (Some projection)
      with s have "state_from_projection sha world 1 p i projection correlation st1 = (Inr s, st')" by simp
      from state_from_projection_reported [OF this i assms] show ?thesis .
    qed
  qed
  then show ?thesis by (auto split: prod.splits sum.splits)
qed

section \<open>What a producer can claim\<close>

lemma skill_content_jset: "k \<in> set approval_envelope \<Longrightarrow> skill_content (jset d k v) = skill_content d"
  by (induction d) (auto simp: skill_content_def)

lemma skill_text_jset: "k' \<noteq> k \<Longrightarrow> skill_text (jset d k v) k' = skill_text d k'"
  by (simp add: skill_text_def jget_jset)

lemma identity_without_claims:
  assumes "candidate_identity sha d = Inr i" and "candidate_identity sha d' = Inr i'"
    and "skill_content d' = skill_content d" and "skill_text d' ''skill_id'' = skill_text d ''skill_id''"
  shows "i' = i\<lparr>si_full_sha256 := si_full_sha256 i'\<rparr>"
  using assms unfolding candidate_identity_def Let_def
  by (elim bindE_InrE) (auto simp: flow)

lemma full_sha_unread [simp]:
  "approval_state_of (i\<lparr>si_full_sha256 := f\<rparr>) = approval_state_of i"
  "unreviewed_state (i\<lparr>si_full_sha256 := f\<rparr>) = unreviewed_state i"
  "require_authoritative_event (i\<lparr>si_full_sha256 := f\<rparr>) = require_authoritative_event i"
  "state_of_events (i\<lparr>si_full_sha256 := f\<rparr>) = state_of_events i"
  "state_from_projection sha world k p (i\<lparr>si_full_sha256 := f\<rparr>) = state_from_projection sha world k p i"
proof -
  show of: "approval_state_of (i\<lparr>si_full_sha256 := f\<rparr>) = approval_state_of i"
    by (intro ext) (simp add: approval_state_of_def)
  show "unreviewed_state (i\<lparr>si_full_sha256 := f\<rparr>) = unreviewed_state i"
    by (simp add: unreviewed_state_def of)
  show event: "require_authoritative_event (i\<lparr>si_full_sha256 := f\<rparr>) = require_authoritative_event i"
    by (intro ext) (simp add: require_authoritative_event_def)
  show events: "state_of_events (i\<lparr>si_full_sha256 := f\<rparr>) = state_of_events i"
    by (intro ext) (simp add: state_of_events_def [abs_def] of event Let_def cong: option.case_cong json.case_cong)
  show "state_from_projection sha world k p (i\<lparr>si_full_sha256 := f\<rparr>) = state_from_projection sha world k p i"
    by (intro ext) (simp add: state_from_projection_def events)
qed

text \<open>C11: A producer cannot approve its own candidate. Whatever approval status and evidence a candidate
  is given, it is either refused or read with the approval state of the same candidate without the
  claim; its target, keys and content digest stay the same.\<close>

theorem claims_do_not_approve:
  assumes "candidate_identity sha d = Inr i"
    and "d' = jset (jset d ''approval_status'' (JStr status)) ''human_approval_evidence'' evidence"
  shows "candidate_identity sha d' \<in> {Inl ValueError, Inr (i\<lparr>si_full_sha256 := sha (skill_json_bytes d')\<rparr>)} \<and>
    read_candidate_skill_approval_state sha world p d' correlation st \<in>
      {(Inl ValueError, st), read_candidate_skill_approval_state sha world p d correlation st}"
proof (cases "candidate_identity sha d'")
  case (Inl e)
  then show ?thesis
    using candidate_identity_errors by (auto simp: read_candidate_skill_approval_state_def)
next
  case (Inr i')
  have "skill_content d' = skill_content d" "skill_text d' ''skill_id'' = skill_text d ''skill_id''"
    by (simp_all add: assms(2) skill_content_jset skill_text_jset approval_envelope_def)
  from identity_without_claims [OF assms(1) Inr this] have i': "i' = i\<lparr>si_full_sha256 := si_full_sha256 i'\<rparr>" .
  moreover have "si_full_sha256 i' = sha (skill_json_bytes d')"
    using Inr unfolding candidate_identity_def Let_def by (elim bindE_InrE) auto
  ultimately have "i' = i\<lparr>si_full_sha256 := sha (skill_json_bytes d')\<rparr>" by simp
  then show ?thesis
    using Inr assms(1) by (simp add: read_candidate_skill_approval_state_def)
qed

section \<open>What is written\<close>

definition quiet :: "'a call \<Rightarrow> bool" where
  "quiet m \<longleftrightarrow> (\<forall>st. review_events (sv_control (snd (m st))) = review_events (sv_control st))"

lemma quiet_result [simp]: "quiet (result r)"
  by (simp add: quiet_def)

lemma quiet_read [simp]: "quiet (read_control f)"
  by (simp add: quiet_def)

lemma quiet_bind: "quiet m \<Longrightarrow> (\<And>x. quiet (f x)) \<Longrightarrow> quiet (bindS m f)"
  by (auto simp: quiet_def bindS_def split: prod.splits sum.splits) (metis snd_conv)+

lemma control_state_same: "a\<lparr>audit_events := x\<rparr> = b\<lparr>audit_events := y\<rparr> \<Longrightarrow> review_events a = review_events b"
  by (cases a; cases b) simp

lemma quiet_authorize [simp]: "quiet (authorize env p action target correlation key chk)"
  unfolding quiet_def
proof
  fix st
  obtain r st' where run: "authorize env p action target correlation key chk st = (r, st')"
    by (cases "authorize env p action target correlation key chk st")
  have "without_audits st' = without_audits st"
  proof (cases r)
    case (Inr a)
    with run show ?thesis by (auto simp: calls)
  next
    case (Inl e)
    with run authorize_Inl show ?thesis by (fastforce simp: denial_recorded_def)
  qed
  with run show "review_events (sv_control (snd (authorize env p action target correlation key chk st))) =
      review_events (sv_control st)"
    by (auto simp: without_audits_def dest: control_state_same)
qed

lemma quiet_call: "(\<And>env. quiet (f env)) \<Longrightarrow> quiet (nth_call (\<lambda>k. (envs k, id)) k f)"
  by (simp add: quiet_def nth_call_def)

lemma quiet_reads [simp]:
  "quiet (service_read_review sha env p t correlation)"
  "quiet (service_list_reviews sha env p t correlation n l)"
  by (auto simp: service_read_review_def read_candidate_review_def service_list_reviews_def
      intro!: quiet_bind split: option.splits)

lemma quiet_state [simp]: "quiet (state_from_projection sha (\<lambda>k. (envs k, id)) k p i projection correlation)"
  unfolding state_from_projection_def by (intro quiet_bind quiet_call) simp_all

text \<open>A call that appends at most one event: for the target, by the principal, with the status.\<close>

definition one_written :: "principal \<Rightarrow> string \<Rightarrow> string \<Rightarrow> review_row list \<Rightarrow> review_row list \<Rightarrow> bool" where
  "one_written p target status rows rows' \<longleftrightarrow> rows' = rows \<or>
     (\<exists>row s. rows' = rows @ [row] \<and> rr_actor_id row = subject p \<and> rr_status row = status \<and>
        require_scope p = Inr s \<and> (\<forall>q. qualify s ''review_target'' target = Inr q \<longrightarrow> rr_target_id row = q))"

definition writes_one :: "principal \<Rightarrow> string \<Rightarrow> string \<Rightarrow> 'a call \<Rightarrow> bool" where
  "writes_one p target status m \<longleftrightarrow>
     (\<forall>st. one_written p target status (review_events (sv_control st)) (review_events (sv_control (snd (m st)))))"

lemma quiet_writes: "quiet m \<Longrightarrow> writes_one p target status m"
  by (simp add: quiet_def writes_one_def one_written_def)

lemma writes_one_after:
  assumes "quiet m" and "\<And>x st st'. m st = (Inr x, st') \<Longrightarrow> writes_one p target status (f x)"
  shows "writes_one p target status (bindS m f)"
  unfolding writes_one_def
proof
  fix st
  obtain r st1 where m: "m st = (r, st1)" by (cases "m st")
  with assms(1) have same: "review_events (sv_control st1) = review_events (sv_control st)"
    by (metis quiet_def snd_conv)
  show "one_written p target status (review_events (sv_control st)) (review_events (sv_control (snd (bindS m f st))))"
  proof (cases r)
    case (Inl e)
    with m same show ?thesis by (simp add: bindS_def one_written_def)
  next
    case (Inr x)
    with m assms(2) have "writes_one p target status (f x)" by simp
    then have "one_written p target status (review_events (sv_control st1)) (review_events (sv_control (snd (f x st1))))"
      by (simp add: writes_one_def)
    with m Inr same show ?thesis by (simp add: bindS_def)
  qed
qed

lemma quiet_tail:
  assumes "\<And>x. quiet (f x)"
  shows "review_events (sv_control (snd (bindS m f st))) = review_events (sv_control (snd (m st)))"
proof -
  obtain r st1 where m: "m st = (r, st1)" by (cases "m st")
  show ?thesis
  proof (cases r)
    case (Inl e)
    with m show ?thesis by (simp add: bindS_def)
  next
    case (Inr x)
    with m assms [of x] show ?thesis by (simp add: bindS_def quiet_def)
  qed
qed

lemma writes_one_before:
  "writes_one p target status m \<Longrightarrow> (\<And>x. quiet (f x)) \<Longrightarrow> writes_one p target status (bindS m f)"
  by (simp add: writes_one_def quiet_tail)

lemma writes_one_result:
  "(\<And>x. r = Inr x \<Longrightarrow> writes_one p target status (f x)) \<Longrightarrow> writes_one p target status (bindS (result r) f)"
  by (rule writes_one_after) (simp_all add: calls)

lemma candidate_append_writes:
  assumes "require_scope p = Inr s" and "rv_status q = Some status"
  shows "writes_one p t status (in_control (append_candidate_review_event sha
    (candidate_request_of s p q pub t content full src) clock audit eid aid))"
  unfolding writes_one_def
proof
  fix st
  let ?q = "candidate_request_of s p q pub t content full src"
  let ?body = "append_candidate_review_event sha ?q clock audit eid aid"
  show "one_written p t status (review_events (sv_control st)) (review_events (sv_control (snd (in_control ?body st))))"
  proof (cases "?body (sv_control st)")
    case (Inl e)
    then show ?thesis by (simp add: in_control_def transaction_def one_written_def)
  next
    case (Inr r)
    obtain ev db' where r: "r = (ev, db')" by (cases r)
    have fin: "review_events (sv_control (snd (in_control ?body st))) = review_events db'"
      using Inr r by (simp add: in_control_def transaction_def)
    from candidate_event_rows [OF Inr [unfolded r]] show ?thesis
    proof (elim disjE exE conjE)
      fix row v evidence time
      assume v: "prepare_candidate_event ?q = Inr (v, evidence, time)"
        and row: "review_events db' = review_events (sv_control st) @ [row]" "rr_actor_id row = cv_actor_id v"
          "rr_status row = cv_status v" "rr_target_id row = cv_qualified_target v"
      show ?thesis
        unfolding one_written_def fin
        using candidate_target_of_scope [OF v assms(2)] assms(1) row
        by (intro disjI2 exI [of _ row] exI [of _ s]) simp
    qed (simp add: fin one_written_def)
  qed
qed

lemma append_writes:
  assumes "rv_status q = Some status" and "rv_review_target_id q = Some t" and "rv_target_id q = None"
    and "rv_capability q = None"
  shows "writes_one p t status (append_candidate_review self sha env p q)"
proof -
  have given: "first_given (Some t) (None :: string option) = Some t" by (simp add: first_given_def)
  have coalesce: "x = Some t" if "coalesce_field (Some t) g name = Inr x" for g name x
    using that by (simp add: coalesce_field_def first_given_def split: if_splits)
  have error: "writes_one p t status (result (Inl ValueError) :: review_event call)"
    by (rule quiet_writes) simp
  have core: "writes_one p t status
      (bindS (result (require_scope p)) (\<lambda>s.
       bindS (result (conflict_unless (is_candidate_review_target t))) (\<lambda>_.
       bindS (authorize env p ReviewAppend t (rv_correlation_id q) (Some (rv_idempotency_key q)) False) (\<lambda>audit.
       bindS (in_control (append_candidate_review_event sha
         (candidate_request_of s p q pub t content full source) (ce_now env) (Some audit)
         (ce_event_id env) (ce_audit_id env))) (\<lambda>e.
       result (public_review_event s e))))))" for pub content full source
    by (intro writes_one_result writes_one_after [OF quiet_authorize] writes_one_before
        candidate_append_writes assms(1) quiet_result)
  show ?thesis
    unfolding append_candidate_review_def Let_def assms(2-4) given option.case
    by (intro writes_one_result) (auto dest!: coalesce intro!: error core split: option.split)
qed

lemma transition_writes:
  assumes "candidate_identity sha d = Inr i"
  shows "writes_one p (si_target_id i) ''approved''
    (transition_candidate_skill_review sha self env p d (approval_transition i correlation))"
proof -
  have same: "coalesce None None x = Inr y \<longleftrightarrow> y = x" for x y
    by (auto simp: coalesce_def both_differ_def)
  show ?thesis
    unfolding transition_candidate_skill_review_def Let_def approval_transition_def publication_field_def
      skill_transition.simps list.map map_of.simps option.case
    by (intro writes_one_result) (auto simp: same assms intro!: append_writes)
qed

lemma result_Inl: "bindS (result (Inl e)) f st = (Inl e, st)"
  by (simp add: bindS_def result_def)

lemma result_Inr: "bindS (result (Inr x)) f = f x"
  by (simp add: bindS_def result_def fun_eq_iff)

lemma writes_call: "(\<And>env. writes_one p t status (f env)) \<Longrightarrow> writes_one p t status (nth_call (\<lambda>k. (envs k, id)) k f)"
  by (simp add: writes_one_def nth_call_def)

text \<open>What follows the reviewer check of an approval.\<close>

lemma approval_writes:
  assumes "candidate_identity sha d = Inr i"
  shows "writes_one p (si_target_id i) ''approved''
    (bindS (nth_call (\<lambda>k. (envs k, id)) k (\<lambda>env.
       transition_candidate_skill_review sha self env p d (approval_transition i correlation))) (\<lambda>_.
     bindS (nth_call (\<lambda>k. (envs k, id)) k' (\<lambda>env. service_read_review sha env p (si_target_id i) correlation)) (\<lambda>r.
     case r of None \<Rightarrow> result (Inl ControlConflictError)
     | Some projection \<Rightarrow> state_from_projection sha (\<lambda>k. (envs k, id)) k2 p i projection correlation)))"
  by (intro writes_one_before writes_call transition_writes assms quiet_bind quiet_call)
    (simp_all split: option.split)

text \<open>C10: Only a reviewer approves, and only once. For a digest function of the shape of SHA-256 and without interference between its calls, an approval either
  leaves the review ledger as it was, or the lock was taken, the caller gave the idempotency key of the
  candidate and is a reviewer with a reviewer identifier, the candidate had no event under the caller's scope, and
  now it has exactly one: an approval by the caller.\<close>

theorem approvals_need_a_reviewer:
  assumes "\<And>x. sha256_pattern (sha x)"
    and "approve_candidate_skill sha self (\<lambda>k. (envs k, id)) lock p d key correlation st = (r, st')"
  shows "review_events (sv_control st') = review_events (sv_control st) \<or>
    (\<exists>i row. candidate_identity sha d = Inr i \<and> key = si_idempotency_key i \<and> lock = Inr () \<and>
      Reviewer \<in> roles p \<and> reviewer_id_pattern (subject p) \<and>
      review_events (sv_control st') = review_events (sv_control st) @ [row] \<and>
      rr_actor_id row = subject p \<and> rr_status row = ''approved'' \<and>
      ledger_events sha p d st = [] \<and> ledger_events sha p d st' = [row])"
proof (cases "candidate_identity sha d")
  case (Inl e)
  with assms(2) show ?thesis by (auto simp: approve_candidate_skill_def bindS_def result_def)
next
  case i: (Inr i)
  let ?w = "\<lambda>k. (envs k, id)"
  let ?read = "service_read_review sha (envs 0) p (si_target_id i) correlation"
  obtain r0 st0 where read: "?read st = (r0, st0)" by (cases "?read st")
  have quiet0: "review_events (sv_control st0) = review_events (sv_control st)"
    using quiet_reads(1) read by (metis quiet_def snd_conv)
  let ?same = "review_events (sv_control st') = review_events (sv_control st)"
  let ?written = "one_written p (si_target_id i) ''approved'' (review_events (sv_control st0)) (review_events (sv_control st'))"
  have call: "nth_call ?w 0 (\<lambda>env. service_read_review sha env p (si_target_id i) correlation) = ?read"
    by (simp add: nth_call_def fun_eq_iff)
  note run = assms(2) [unfolded approve_candidate_skill_def i result_Inr call]
  consider "?same" | "key = si_idempotency_key i" "lock = Inr ()" "Reviewer \<in> roles p"
    "reviewer_id_pattern (subject p)" "r0 = Inr None" "?written"
  proof (cases "require_request_text correlation = Inr () \<and> key = si_idempotency_key i \<and> lock = Inr ()")
    case False
    with run have ?same
      by (cases "require_request_text correlation"; cases lock) (auto simp: conflict_unless_def require_def result_Inl result_Inr split: if_splits)
    then show ?thesis using that(1) by blast
  next
    case True
    then have request: "require_request_text correlation = Inr ()" and key: "conflict_unless (key = si_idempotency_key i) = Inr ()"
      and lock: "lock = Inr ()"
      by (simp_all add: conflict_unless_def require_def)
    note run = run [unfolded request key lock result_Inr]
    show ?thesis
    proof (cases r0)
      case (Inl e)
      with run read quiet0 have ?same by (simp add: bindS_def)
      then show ?thesis using that(1) by blast
    next
      case (Inr current)
      show ?thesis
      proof (cases current)
        case (Some c)
        have "quiet (bindS (result (conflict_unless (rp_actor_id c = subject p)))
            (\<lambda>_. state_from_projection sha ?w 1 p i c correlation))"
          by (intro quiet_bind) simp_all
        then have "review_events (sv_control (snd (bindS (result (conflict_unless (rp_actor_id c = subject p)))
            (\<lambda>_. state_from_projection sha ?w 1 p i c correlation) st0))) = review_events (sv_control st0)"
          by (simp only: quiet_def)
        moreover have "snd (bindS (result (conflict_unless (rp_actor_id c = subject p)))
            (\<lambda>_. state_from_projection sha ?w 1 p i c correlation) st0) = st'"
          using run read Inr Some unfolding bindS_def [of ?read] by simp
        ultimately have ?same using quiet0 by simp
        then show ?thesis using that(1) by blast
      next
        case None
        show ?thesis
        proof (cases "Reviewer \<in> roles p \<and> reviewer_id_pattern (subject p)")
          case False
          with run read Inr None quiet0 have ?same
            unfolding bindS_def [of ?read] by (simp add: require_def result_Inl)
          then show ?thesis using that(1) by blast
        next
          case rev: True
          with approval_writes [OF i, of p envs 1 self correlation 2 3] run read Inr None have ?written
            unfolding bindS_def [of ?read] by (simp add: require_def result_Inr writes_one_def) (metis snd_conv)
          then show ?thesis using that(2) True rev Inr None by blast
        qed
      qed
    qed
  qed
  then show ?thesis
  proof cases
    case 2
    note target = identity_target [OF i assms(1)]
    obtain s q where q: "require_scope p = Inr s" "qualify s ''review_target'' (si_target_id i) = Inr q"
      using read_scope [OF read [unfolded 2(5)] target] by blast
    have none: "st0 = st" "target_events q (sv_control st) = []"
      using read_none [OF read [unfolded 2(5)] target q] by simp_all
    have ledger: "ledger_events sha p d x = target_events q (sv_control x)" for x
      using q i by (simp add: ledger_events_def)
    from 2(6) show ?thesis
      unfolding one_written_def none(1)
      using 2(1-4) i q none(2) by (auto simp: ledger target_events_def)
  qed simp
qed

end
