(* ===== verification/Publication_Samples.thy ===== *)
theory Publication_Samples
  imports Publication_Replay Json_Weight
begin

text \<open>
  A synthetic job with a result of two CAD commands and its manifest, under a constant digest, on
  which the properties of the publication store are exercised.
\<close>

definition plain_coercions :: coercions where
  "plain_coercions =
     \<lparr>as_uuid = (\<lambda>j. case j of JStr s \<Rightarrow> if uuid_pattern s then Some s else None | _ \<Rightarrow> None),
      as_int = (\<lambda>j. case j of JInt i \<Rightarrow> Some i | _ \<Rightarrow> None),
      as_seconds = (\<lambda>j. case j of JInt i \<Rightarrow> Some (Some (i * 1000000)) | _ \<Rightarrow> None)\<rparr>"

definition demo_hash :: string where
  "demo_hash = replicate 64 CHR ''a''"

definition const_sha :: "string \<Rightarrow> string" where
  "const_sha x = demo_hash"

definition uuid_of :: "char \<Rightarrow> string" where
  "uuid_of ch = replicate 8 ch @ ''-'' @ replicate 4 ch @ ''-'' @ replicate 4 ch @ ''-'' @
     replicate 4 ch @ ''-'' @ replicate 12 ch"

definition demo_job :: job_v2 where
  "demo_job =
     \<lparr>jv_schema_version = ''2.0'', jv_job_id = uuid_of CHR ''1'', jv_session_id = uuid_of CHR ''2'',
      jv_input_artifact =
        \<lparr>ar_provider = S3, ar_file_id = ''f'', ar_revision = ''r'', ar_sha256 = demo_hash,
         ar_size_bytes = 10, ar_mime_type = ''application/zip'', ar_role = Raw_Package\<rparr>\<rparr>"

definition demo_output :: output_binding where
  "demo_output =
     \<lparr>ob_store_namespace = ''google-drive://d/p'', ob_artifact_ref =
        \<lparr>ar_provider = Google_Drive, ar_file_id = ''t'', ar_revision = ''1'', ar_sha256 = demo_hash,
         ar_size_bytes = 5, ar_mime_type = ''application/json'', ar_role = Timeline\<rparr>\<rparr>"

definition demo_event :: "char \<Rightarrow> int \<Rightarrow> json" where
  "demo_event ch t = JObj
     [(''offset_seconds'', JInt t), (''event_type'', JStr ''cad_command''), (''summary'', JStr ''s''),
      (''source_event_id'', JStr (uuid_of ch))]"

definition demo_segment :: "int \<Rightarrow> char \<Rightarrow> int \<Rightarrow> string \<Rightarrow> json" where
  "demo_segment n ch t name = JObj
     [(''sequence'', JInt n), (''start_offset_seconds'', JInt t), (''end_offset_seconds'', JInt t),
      (''command_names'', JArr [JStr name]), (''drawing_ref'', JStr ''d.dwg''),
      (''summary'', JStr ''s''), (''source_event_ids'', JArr [JStr (uuid_of ch)])]"

definition demo_result :: json where
  "demo_result = JObj
     [(''session_id'', JStr (uuid_of CHR ''2'')), (''event_count'', JInt 2),
      (''meaningful_event_count'', JInt 2),
      (''timeline'', JArr [demo_event CHR ''3'' 0, demo_event CHR ''4'' 1]),
      (''operation_segments'', JArr
         [demo_segment 1 CHR ''3'' 0 ''LINE'', demo_segment 2 CHR ''4'' 1 ''ARC'']),
      (''keyframes'', JArr []), (''warnings'', JArr [])]"

definition demo_binding :: json where
  "demo_binding = JObj
     [(''store_namespace'', JStr (ob_store_namespace demo_output)),
      (''artifact_ref'', artifact_ref_dump (ob_artifact_ref demo_output))]"

definition demo_manifest :: json where
  "demo_manifest = JObj (manifest_json demo_job demo_hash [demo_binding])"

definition demo_occurrence :: "char \<Rightarrow> string \<Rightarrow> int \<Rightarrow> json" where
  "demo_occurrence ch name n = JObj
     [(''event_id'', JStr (uuid_of ch)), (''command_name'', JStr name), (''segment_sequence'', JInt n)]"

definition demo_evidence :: json where
  "demo_evidence = JObj
     [(''envelope_version'', JStr ''1.0''), (''job'', job_v2_dump demo_job),
      (''result'', demo_result), (''result_manifest'', demo_manifest),
      (''timeline_binding'', demo_binding), (''drawing_ref'', JStr ''d.dwg''),
      (''occurrences'', JArr [demo_occurrence CHR ''3'' ''LINE'' 1, demo_occurrence CHR ''4'' ''ARC'' 2]),
      (''rejected_alternative_count'', JInt 0)]"


lemma plain_coercions_laws: "reads_canonical plain_coercions" "scalar_coercions plain_coercions"
  by (auto simp: reads_canonical_def scalar_coercions_def plain_coercions_def split: json.splits if_splits)

lemma demo_job_ok: "job_v2_ok demo_job"
  by code_simp

lemma demo_digest: "sha256_pattern (const_sha x)"
  unfolding const_sha_def by code_simp

definition demo_result_v2 :: result_v2 where
  "demo_result_v2 =
     \<lparr>rv_session_id = uuid_of CHR ''2'', rv_event_count = 2, rv_meaningful_event_count = 2,
      rv_timeline =
        [\<lparr>ti_offset = Some 0, ti_event_type = Cad_Command, ti_summary = ''s'',
          ti_source_event_id = uuid_of CHR ''3''\<rparr>,
         \<lparr>ti_offset = Some 1000000, ti_event_type = Cad_Command, ti_summary = ''s'',
          ti_source_event_id = uuid_of CHR ''4''\<rparr>],
      rv_operation_segments =
        [\<lparr>os_sequence = 1, os_start = 0, os_end = 0, os_command_names = [''LINE''],
          os_drawing_ref = ''d.dwg'', os_summary = ''s'', os_source_event_ids = [uuid_of CHR ''3'']\<rparr>,
         \<lparr>os_sequence = 2, os_start = 1000000, os_end = 1000000, os_command_names = [''ARC''],
          os_drawing_ref = ''d.dwg'', os_summary = ''s'', os_source_event_ids = [uuid_of CHR ''4'']\<rparr>],
      rv_keyframes = [], rv_warnings = []\<rparr>"

lemma demo_result_validates: "result_v2_validate plain_coercions demo_result = Inr demo_result_v2"
  by code_simp

lemma demo_snapshot: "snapshot_outputs [demo_output] = Inr [demo_binding]"
  by code_simp

definition demo_occurrences :: "occurrence list" where
  "demo_occurrences =
     [\<lparr>oc_event_id = uuid_of CHR ''3'', oc_command_name = ''LINE'', oc_segment_sequence = 1\<rparr>,
      \<lparr>oc_event_id = uuid_of CHR ''4'', oc_command_name = ''ARC'', oc_segment_sequence = 2\<rparr>]"

lemma demo_run: "derive_occurrences demo_result_v2 = Inr (demo_occurrences, ''d.dwg'', 2)"
  by code_simp

lemma demo_supplied:
  "normalize_occurrences (JArr [demo_occurrence CHR ''3'' ''LINE'' 1, demo_occurrence CHR ''4'' ''ARC'' 2]) =
     Inr demo_occurrences"
  by code_simp

lemma demo_timeline:
  "select_timeline_binding (manifest_json demo_job demo_hash [demo_binding]) demo_binding =
     Inr (artifact_ref_dump (ob_artifact_ref demo_output), JStr ''google-drive://d/p'')"
  by code_simp

lemma demo_timeline_artifact:
  "admit_timeline_artifact (artifact_ref_dump (ob_artifact_ref demo_output)) =
     Inr (artifact_ref_dump (ob_artifact_ref demo_output))"
  by code_simp

section \<open>The manifest of the sample\<close>

lemma demo_payload: "worker_payload_digest const_sha plain_coercions demo_job = Inr demo_hash"
proof -
  have "jcs_value False (normalized_semantic_object demo_job)"
    by (simp add: normalized_semantic_object_def Let_def)
  then obtain t where "serialize_payload_jcs (normalized_semantic_object demo_job) = Inr t"
    unfolding serialize_payload_jcs_def using jcs_value_returns by blast
  then show ?thesis
    using copy_job_ok [OF plain_coercions_laws(1) demo_job_ok]
    by (simp add: worker_payload_digest_def worker_payload_preimage_def admit_package_input_def
        demo_job_def max_package_bytes_def const_sha_def)
qed

lemma demo_bound: "bound_job_identity const_sha plain_coercions demo_job = Inr (demo_job, demo_hash)"
  using copy_job_ok [OF plain_coercions_laws(1) demo_job_ok] demo_payload
  by (simp add: bound_job_identity_def admit_package_input_def demo_job_def max_package_bytes_def)

lemma demo_build:
  "build_manifest const_sha plain_coercions demo_job [demo_output] =
     Inr (manifest_json demo_job demo_hash [demo_binding])"
  by (simp add: build_manifest_def demo_bound demo_snapshot)

lemma demo_preimage: "\<exists>pre. canonical_preimage (manifest_json demo_job demo_hash [demo_binding]) = Inr pre"
proof -
  let ?m = "JObj (manifest_json demo_job demo_hash [demo_binding])"
  have "jcs_value True ?m"
    by (simp add: manifest_json_def demo_binding_def artifact_ref_dump_def)
  then obtain t where t: "jcs quote_string True ValueError ?m = Inr t"
    using jcs_value_returns by blast
  then have "t = canonical_json ?m"
    unfolding quote_string_is_quote canonical_json_def dumps_def by (rule jcs_print)
  moreover have "json_weight ?m \<le> 10000" by code_simp
  ultimately have "length (utf8 t) \<le> 10000"
    using canonical_weight [of ?m] by simp
  moreover have "length result_domain_prefix \<le> 100" by code_simp
  ultimately show ?thesis
    using t by (simp add: canonical_preimage_def serialize_result_jcs_def Let_def)
qed

lemma demo_verified:
  "verify_result_manifest const_sha plain_coercions demo_job
     (manifest_json demo_job demo_hash [demo_binding]) = Inr demo_hash"
  using api_accepts_worker_manifest [OF plain_coercions_laws(1) demo_job_ok demo_build] demo_preimage
  by (auto simp: const_sha_def)

section \<open>Its admission\<close>

definition demo_admitted :: admitted where
  "demo_admitted =
     \<lparr>ad_job_id = uuid_of CHR ''1'', ad_session_id = uuid_of CHR ''2'', ad_source = demo_hash,
      ad_artifact = artifact_ref_dump (ob_artifact_ref demo_output),
      ad_namespace = ''google-drive://d/p'', ad_drawing_ref = ''d.dwg'',
      ad_occurrences = demo_occurrences\<rparr>"

definition demo_envelope :: "(string \<times> json) list" where
  "demo_envelope =
     [(''envelope_version'', JStr ''1.0''), (''job'', job_v2_dump demo_job),
      (''result'', demo_result), (''result_manifest'', demo_manifest),
      (''timeline_binding'', demo_binding), (''drawing_ref'', JStr ''d.dwg''),
      (''occurrences'', JArr [demo_occurrence CHR ''3'' ''LINE'' 1, demo_occurrence CHR ''4'' ''ARC'' 2]),
      (''rejected_alternative_count'', JInt 0)]"

lemma demo_normalizes: "normalize_envelope demo_evidence = Inr demo_envelope"
  by (simp add: normalize_envelope_def demo_evidence_def demo_envelope_def envelope_fields_def
      required_envelope_fields_def rename_manifest_def jget_def jhas_def require_def Let_def)

lemma demo_fields:
  "get_null demo_envelope ''job'' = job_v2_dump demo_job"
  "get_null demo_envelope ''result'' = demo_result"
  "get_null demo_envelope ''result_manifest'' = demo_manifest"
  "get_null demo_envelope ''timeline_binding'' = demo_binding"
  "get_null demo_envelope ''drawing_ref'' = JStr ''d.dwg''"
  "get_null demo_envelope ''occurrences'' =
     JArr [demo_occurrence CHR ''3'' ''LINE'' 1, demo_occurrence CHR ''4'' ''ARC'' 2]"
  "get_null demo_envelope ''qualifying_run_length'' = JNull"
  by (simp_all add: get_null_def demo_envelope_def jget_def)

lemma demo_is_admitted: "admit_evidence const_sha plain_coercions demo_envelope = Inr demo_admitted"
  using copy_job_ok [OF plain_coercions_laws(1) demo_job_ok]
    job_v2_dump_validate [OF plain_coercions_laws(1) demo_job_ok]
  by (simp add: admit_evidence_def demo_fields demo_result_validates demo_verified
      demo_manifest_def demo_timeline demo_timeline_artifact demo_run demo_supplied
      nonempty_str_def demo_admitted_def require_def)
    (simp add: demo_job_def demo_result_v2_def)

section \<open>Its preparation\<close>

definition demo_stored :: "(string \<times> json) list" where
  "demo_stored = jset demo_envelope ''qualifying_run_length'' (JInt 2)"

definition demo_candidate :: "(string \<times> json) list" where
  "demo_candidate = build_candidate demo_admitted"

lemma demo_canonical:
  assumes "distinct_keys v" and "json_weight v \<le> int max_canonical_bytes"
  shows "canonical_json_bytes v = Inr (utf8 (canonical_json v)) \<and>
    require_byte_cap (utf8 (canonical_json v)) = Inr ()"
  using canonical_json_bytes_ok [OF assms(1)] canonical_weight [of v] canonical_nonempty [of v] assms(2)
  by (simp add: require_byte_cap_def require_def)

lemma demo_distinct:
  "distinct_keys (JObj demo_stored)" "distinct_keys (JObj demo_candidate)"
  "distinct_keys (JObj (content_projection demo_candidate))" "distinct_keys demo_evidence"
  by code_simp+

lemma demo_weights:
  "json_weight (JObj demo_stored) \<le> int max_canonical_bytes"
  "json_weight (JObj demo_candidate) \<le> int max_canonical_bytes"
proof -
  have "json_weight (JObj demo_stored) \<le> 20000" "json_weight (JObj demo_candidate) \<le> 20000"
    by code_simp+
  then show "json_weight (JObj demo_stored) \<le> int max_canonical_bytes"
    "json_weight (JObj demo_candidate) \<le> int max_canonical_bytes"
    by (simp_all add: max_canonical_bytes_def)
qed

definition demo_bytes :: string where
  "demo_bytes = utf8 (canonical_json (JObj demo_candidate))"

definition demo_prepared :: prepared where
  "demo_prepared =
     \<lparr>pp_evidence_bytes = utf8 (canonical_json (JObj demo_stored)), pp_candidate = demo_candidate,
      pp_candidate_bytes = demo_bytes,
      pp_content_bytes = utf8 (canonical_json (JObj (content_projection demo_candidate))),
      pp_job_id = uuid_of CHR ''1'', pp_session_id = uuid_of CHR ''2'',
      pp_source_result_sha256 = demo_hash,
      pp_publication_key = ''candidate-publication:1.0:'' @ uuid_of CHR ''1'',
      pp_publication_identity = publication_identity (uuid_of CHR ''1'') demo_hash demo_hash,
      pp_review_target_id = ''candidate-skill:1.0:'' @ uuid_of CHR ''1'' @ '':sha256:'' @ demo_hash,
      pp_content_sha256 = demo_hash, pp_full_sha256 = demo_hash\<rparr>"

lemma demo_key:
  "candidate_publication_key (uuid_of CHR ''1'') = Inr (''candidate-publication:1.0:'' @ uuid_of CHR ''1'')"
  by code_simp

lemma demo_is_prepared: "prepare_publication const_sha plain_coercions demo_evidence = Inr demo_prepared"
proof -
  have n: "length (ad_occurrences demo_admitted) = 2"
    by (simp add: demo_admitted_def demo_occurrences_def)
  have ids: "ad_job_id demo_admitted = uuid_of CHR ''1''" "ad_session_id demo_admitted = uuid_of CHR ''2''"
    "ad_source demo_admitted = demo_hash" by (simp_all add: demo_admitted_def)
  have skill: "jget demo_candidate ''skill_id'' = Some (JStr (uuid_of CHR ''1''))"
    by (simp add: demo_candidate_def build_candidate_def jget_def ids Let_def)
  show ?thesis
    using demo_canonical [OF demo_distinct(1) demo_weights(1)]
      demo_canonical [OF demo_distinct(2) demo_weights(2)] canonical_json_bytes_ok [OF demo_distinct(3)]
    by (simp add: prepare_publication_def demo_normalizes demo_is_admitted n Let_def ids skill demo_key
        demo_stored_def [symmetric] demo_candidate_def [symmetric] demo_bytes_def [symmetric]
        demo_prepared_def const_sha_def require_def)
qed

section \<open>A reservation and its finalization\<close>

definition demo_scope :: scope where
  "demo_scope = \<lparr>tenant_id = ''tenant'', workspace_id = ''workspace''\<rparr>"

definition demo_reserve :: reserve_args where
  "demo_reserve =
     \<lparr>ra_derivation_evidence = Some demo_evidence, ra_evidence = None, ra_parts = [],
      ra_reservation_owner_id = Some ''owner-1'', ra_owner_id = None,
      ra_lease_duration_seconds = Some 10, ra_lease_seconds = None\<rparr>"

definition demo_row :: publication where
  "demo_row = reserved_row const_sha demo_scope demo_prepared ''owner-1'' 10000000 0"

lemma demo_row_check: "publication_check demo_row"
proof -
  have "length demo_bytes \<le> 262144" "1 \<le> length demo_bytes"
    using canonical_weight [of "JObj demo_candidate"] canonical_nonempty [of "JObj demo_candidate"] demo_weights(2)
    by (simp_all add: demo_bytes_def max_canonical_bytes_def)
  then show ?thesis
    by (simp add: demo_row_def reserved_row_def publication_check_def demo_prepared_def const_sha_def
        demo_hash_def uuid_of_def is_i64_def max_signed_64_def min_signed_64_def)
qed

lemma demo_reserved:
  "reserve const_sha plain_coercions demo_scope demo_reserve 0 [] =
     (Inr (record_from_row False demo_row), [demo_row])"
proof -
  have scope: "checked_scope demo_scope = Inr ()" by code_simp
  have owner: "require_owner (Some ''owner-1'') = Inr ''owner-1''" by code_simp
  have lease: "require_lease_seconds (Some 10) = Inr 10" "resolve_now 0 = Inr 0"
    "lease_expiry 0 10 = Inr 10000000" by code_simp+
  show ?thesis
    using demo_row_check
    by (simp add: reserve_def transaction_def reserve_body_def scope reserve_evidence_def or_alias_def
        demo_reserve_def owner lease demo_is_prepared select_publication_def reserve_new_def
        insert_publication_def insert_row_def demo_row_def [symmetric])
      (simp add: demo_row_def reserved_row_def has_key_def)
qed

end
