(* ===== verification/Service_Witnesses.thy ===== *)
theory Service_Witnesses
  imports Service_Properties
begin

text \<open>A worker, a stranger and a reviewer at the service, and the properties at their calls.\<close>

definition scope_a :: scope where
  "scope_a = \<lparr>tenant_id = ''tenant_a'', workspace_id = ''workspace_a''\<rparr>"

definition scope_b :: scope where
  "scope_b = \<lparr>tenant_id = ''tenant_b'', workspace_id = ''workspace_a''\<rparr>"

definition worker_a :: principal where
  "worker_a = \<lparr>subject = ''worker'', roles = {DeterministicWorker}, principal_scope = Some scope_a\<rparr>"

definition reviewer_a :: principal where
  "reviewer_a = \<lparr>subject = ''reviewer_one'', roles = {Reviewer}, principal_scope = Some scope_a\<rparr>"

definition env_a :: call_env where
  "env_a = \<lparr>ce_clock = utc 1700000000000000, ce_now = utc 1700000000000000, ce_audit_id = ''a1'',
     ce_event_id = sample_skill\<rparr>"

definition empty_service :: service_state where
  "empty_service = \<lparr>sv_control = empty_db, sv_retention = None\<rparr>"

lemma scope_facts [simp]:
  "require_scope worker_a = Inr scope_a" "require_scope reviewer_a = Inr scope_a"
proof -
  have "validate_scope scope_a = Inr ()" by code_simp
  then show "require_scope worker_a = Inr scope_a" "require_scope reviewer_a = Inr scope_a"
    by (simp_all add: require_scope_def worker_a_def reviewer_a_def except_def)
qed

lemma role_facts [simp]:
  "allows worker_a JobRegister" "\<not> allows reviewer_a JobRegister" "allows reviewer_a ReviewAppend"
  "subject worker_a = ''worker''" "subject reviewer_a = ''reviewer_one''"
  "role_values worker_a = [''deterministic_worker'']" "role_values reviewer_a = [''reviewer'']"
  by (simp_all add: allows_def worker_a_def reviewer_a_def role_values_def)

definition good_key :: "exn + string \<Rightarrow> bool" where
  "good_key x = (case x of Inl _ \<Rightarrow> False | Inr k \<Rightarrow> require_text k = Inr () \<and> require_bounded_text k = Inr ())"

lemma good_keys:
  "good_key (qualify scope_a ''job'' ''job'')" "good_key (qualify scope_a ''audit_target'' ''job'')"
  "good_key (qualify scope_a ''audit_target'' sample_target)"
  "good_key (qualify scope_a ''audit_idempotency'' ''key'')"
  by code_simp+

lemma good_keyE:
  assumes "good_key x"
  obtains k where "x = Inr k" and "require_text k = Inr ()" and "require_bounded_text k = Inr ()"
  using assms by (auto simp: good_key_def split: sum.splits)

definition register_a :: service_request where
  "register_a = RegisterJob ''job'' sample_digest ''c1'' None"

lemma registered:
  obtains r db where "serve 0 3 sha env_a worker_a register_a empty_service = (r, empty_service\<lparr>sv_control := db\<rparr>)"
    and "length (jobs db) = 1" and "length (audit_events db) = 1"
proof -
  obtain j where j: "qualify scope_a ''job'' ''job'' = Inr j" "require_text j = Inr ()"
    using good_keys(1) by (rule good_keyE)
  obtain t where t: "qualify scope_a ''audit_target'' ''job'' = Inr t" "require_bounded_text t = Inr ()"
    using good_keys(2) by (rule good_keyE)
  let ?a = "\<lparr>ac_correlation_id = ''c1'', ac_idempotency_key = None, ac_subject_id = ''worker'',
       ac_roles = [''deterministic_worker''], ac_action = ''job.register'', ac_target_id = t,
       ac_result = ''accepted'', ac_occurred_at = utc 1700000000000000\<rparr>"
  have a: "authorize env_a worker_a JobRegister ''job'' ''c1'' None False empty_service = (Inr ?a, empty_service)"
    using t by (simp add: authorize_Inr audit_context_for_Inr env_a_def)
  have "validate_audit_context ?a = Inr ()"
    using t(2) by (simp add: validate_audit_context_def require_bounded_text_def require_text_def
        optionally_def is_space_def code_def control_audit_actions_def control_audit_roles_def
        sorted_unique_def)
  then obtain r db where db: "register_job j sample_digest (ce_now env_a) (Some ?a) (ce_audit_id env_a) empty_db = Inr (r, db)"
    "length (jobs db) = 1" "length (audit_events db) = 1"
    using j by (simp add: register_job_def find_job_def empty_db_def env_a_def
      insert_row_def control_audit_def append_audit_def job_from_row_def Let_def)
  then have "serve 0 3 sha env_a worker_a register_a empty_service =
      (case public_job scope_a r of Inl e \<Rightarrow> Inl e | Inr _ \<Rightarrow> Inr (), empty_service\<lparr>sv_control := db\<rparr>)"
    using a j by (simp add: register_a_def service_register_job_def answered_def bindS_def in_control_def
        transaction_def empty_service_def split: sum.splits)
  with db that show thesis by blast
qed

text \<open>The row of one tenant is there, and nothing of the other.\<close>

theorem tenants_are_isolated_witness:
  "\<exists>r st'. serve 0 3 (\<lambda>_. []) env_a worker_a register_a empty_service = (r, st') \<and> st' \<noteq> empty_service \<and>
     service_view scope_b st' = service_view scope_b empty_service"
proof -
  obtain r db where s: "serve 0 3 (\<lambda>_. []) env_a worker_a register_a empty_service = (r, empty_service\<lparr>sv_control := db\<rparr>)"
    "length (jobs db) = 1" by (rule registered)
  moreover have "principal_scope worker_a \<noteq> Some scope_b"
    by (simp add: worker_a_def scope_a_def scope_b_def)
  ultimately show ?thesis
    using tenants_are_isolated [OF _ s(1), of scope_b] by (fastforce simp: empty_service_def empty_db_def)
qed

theorem every_change_leaves_one_audit_row_witness:
  "\<exists>r st' row. serve 0 3 (\<lambda>_. []) env_a worker_a register_a empty_service = (r, st') \<and>
     (control_row row empty_service st' \<or> retention_row row empty_service st')"
proof -
  obtain r db where s: "serve 0 3 (\<lambda>_. []) env_a worker_a register_a empty_service = (r, empty_service\<lparr>sv_control := db\<rparr>)"
    "length (jobs db) = 1" by (rule registered)
  then have "empty_service\<lparr>sv_control := db\<rparr> \<noteq> empty_service"
    by (auto simp: empty_service_def empty_db_def)
  from every_change_leaves_one_audit_row [OF s(1) this] s(1) show ?thesis by blast
qed

text \<open>A reviewer asks to register a job: the denial is on record.\<close>

theorem unauthorized_requests_are_refused_witness:
  "\<exists>e st'. serve 0 3 (\<lambda>_. []) env_a reviewer_a register_a empty_service = (Inl e, st')"
proof -
  obtain r st' where s: "serve 0 3 (\<lambda>_. []) env_a reviewer_a register_a empty_service = (r, st')"
    by fastforce
  have "request_action register_a = JobRegister" "without_capability register_a"
    by (simp_all add: register_a_def without_capability_def)
  with unauthorized_requests_are_refused [OF _ _ s] s show ?thesis by auto
qed

lemma capability_issued:
  obtains cap where "authorize_candidate_review 7 env_a reviewer_a (publication_prefix @ sample_skill) sample_target
     ''c1'' ''key'' empty_service = (Inr cap, empty_service)"
proof -
  obtain k where k: "qualify scope_a ''audit_idempotency'' ''key'' = Inr k"
    using good_keys(4) by (rule good_keyE)
  obtain t where t: "qualify scope_a ''audit_target'' sample_target = Inr t"
    using good_keys(3) by (rule good_keyE)
  have "reviewer_id_pattern ''reviewer_one''"
    "validate_candidate_review_identity (publication_prefix @ sample_skill) sample_target = Inr ()"
    by code_simp+
  moreover obtain a where "authorize env_a reviewer_a ReviewAppend sample_target ''c1'' (Some ''key'') True
      empty_service = (Inr a, empty_service)"
    using k t calculation by (simp add: authorize_Inr audit_context_for_Inr)
  ultimately show thesis
    using that by (simp add: authorize_candidate_review_def bindS_def require_def is_space_def code_def)
qed

theorem capability_is_bound_to_its_authorization_witness:
  "\<exists>cap. authorize_candidate_review 7 env_a reviewer_a (publication_prefix @ sample_skill) sample_target
     ''c1'' ''key'' empty_service = (Inr cap, empty_service) \<and>
   validate_candidate_review_capability 7 cap reviewer_a (publication_prefix @ sample_skill) sample_target
     ''c1'' ''key'' = Inr (cb_audit (cap_binding cap)) \<and>
   \<not> returns (validate_candidate_review_capability 8 cap reviewer_a (publication_prefix @ sample_skill)
     sample_target ''c1'' ''key'')"
proof -
  obtain cap where cap: "authorize_candidate_review 7 env_a reviewer_a (publication_prefix @ sample_skill) sample_target
     ''c1'' ''key'' empty_service = (Inr cap, empty_service)" by (rule capability_issued)
  have "tz (ce_clock env_a) = UTC" by (simp add: env_a_def)
  note bound = capability_is_bound_to_its_authorization [OF cap this]
  with cap show ?thesis by (auto simp: returns_def split: sum.splits)
qed

end
