(* ===== verification/Skill_Witnesses.thy ===== *)
theory Skill_Witnesses
  imports Skill_Properties Publication_Samples Service_Witnesses
begin

text \<open>The published candidate of the sample is read and approved by a reviewer.\<close>

section \<open>The identity of the sample\<close>

definition demo_skill :: skill_identity where
  "demo_skill = (case candidate_identity const_sha demo_candidate of Inr i \<Rightarrow> i)"

lemma demo_fits: "fits demo_admitted"
  unfolding fits_def demo_admitted_def by code_simp

lemma demo_skill_identity:
  "candidate_identity const_sha demo_candidate = Inr demo_skill"
  "si_skill_id demo_skill = uuid_of CHR ''1''" "si_content_sha256 demo_skill = demo_hash"
  "si_full_sha256 demo_skill = demo_hash"
proof -
  obtain i where i: "candidate_identity const_sha demo_candidate = Inr i" "si_skill_id i = uuid_of CHR ''1''"
    "si_content_sha256 i = demo_hash" "si_full_sha256 i = demo_hash"
    using published_identity [OF demo_is_prepared demo_normalizes demo_is_admitted plain_coercions_laws(1) demo_digest]
      demo_fits by (auto simp: demo_prepared_def)
  then show "candidate_identity const_sha demo_candidate = Inr demo_skill"
    "si_skill_id demo_skill = uuid_of CHR ''1''" "si_content_sha256 demo_skill = demo_hash"
    "si_full_sha256 demo_skill = demo_hash"
    by (simp_all add: demo_skill_def)
qed

lemma identity_fields:
  assumes "candidate_identity sha d = Inr i"
  shows "i = \<lparr>si_schema_version = ''1.0'', si_skill_id = si_skill_id i,
    si_content_sha256 = si_content_sha256 i, si_full_sha256 = si_full_sha256 i,
    si_source_result_sha256 = si_content_sha256 i,
    si_publication_key = ''candidate-publication:1.0:'' @ si_skill_id i,
    si_target_id = ''candidate-skill:1.0:'' @ si_skill_id i @ '':sha256:'' @ si_content_sha256 i,
    si_idempotency_key = ''candidate-skill-approval:1.0:'' @ si_skill_id i,
    si_provenance =
      [(''source'', JStr ''candidate_skill_canonical_sha256''), (''artifact_id'', JStr (si_skill_id i)),
       (''revision'', JStr ''1.0''), (''sha256'', JStr (si_content_sha256 i))],
    si_detail =
      [(''kind'', JStr ''candidate_skill_approval''), (''decision'', JStr ''approve''),
       (''schema_version'', JStr ''1.0''), (''skill_id'', JStr (si_skill_id i)),
       (''content_sha256'', JStr (si_content_sha256 i)),
       (''approval_basis'', JStr (approval_basis ''1.0'' (si_skill_id i) (si_content_sha256 i)))]\<rparr>"
  using assms unfolding candidate_identity_def Let_def
  by (elim bindE_InrE) (auto simp: flow)

lemmas demo_skill_fields = identity_fields [OF demo_skill_identity(1), unfolded demo_skill_identity(2-4)]

section \<open>An approval\<close>

definition demo_key :: string where
  "demo_key = ''candidate-skill-approval:1.0:'' @ uuid_of CHR ''1''"

definition demo_target :: string where
  "demo_target = ''candidate-skill:1.0:'' @ uuid_of CHR ''1'' @ '':sha256:'' @ demo_hash"

definition demo_provenance :: "(string \<times> json) list" where
  "demo_provenance =
     [(''source'', JStr ''candidate_skill_canonical_sha256''), (''artifact_id'', JStr (uuid_of CHR ''1'')),
      (''revision'', JStr ''1.0''), (''sha256'', JStr demo_hash)]"

definition demo_detail :: "(string \<times> json) list" where
  "demo_detail =
     [(''kind'', JStr ''candidate_skill_approval''), (''decision'', JStr ''approve''),
      (''schema_version'', JStr ''1.0''), (''skill_id'', JStr (uuid_of CHR ''1'')),
      (''content_sha256'', JStr demo_hash),
      (''approval_basis'', JStr (approval_basis ''1.0'' (uuid_of CHR ''1'') demo_hash))]"

text \<open>The call of the control service, and the request that it makes of the guarded writer.\<close>

definition approval_call :: review_call where
  "approval_call =
     \<lparr>rv_publication_key = Some (''candidate-publication:1.0:'' @ uuid_of CHR ''1''), rv_publication = [],
        rv_review_target_id = Some demo_target,
        rv_target_id = None, rv_idempotency_key = demo_key,
        rv_status = Some ''approved'', rv_destination_status = None, rv_schema_version = ''1.0'',
        rv_candidate_id = None, rv_skill_id = Some (uuid_of CHR ''1''), rv_content_sha256 = Some demo_hash,
        rv_full_sha256 = Some demo_hash, rv_source_result_sha256 = Some demo_hash, rv_reason = None, rv_evidence = None,
        rv_prior_state = None, rv_prior_version = None, rv_prior_event = None, rv_occurred_at = None,
        rv_now = None, rv_correlation_id = ''c1'', rv_capability = None,
        rv_legacy_provenance = Some demo_provenance, rv_legacy_detail = Some demo_detail\<rparr>"

definition approval_request :: candidate_request where
  "approval_request = candidate_request_of scope_a reviewer_a approval_call
     (''candidate-publication:1.0:'' @ uuid_of CHR ''1'') demo_target demo_hash demo_hash demo_hash"

lemma transition_is_call:
  "transition_candidate_skill_review const_sha self env p demo_candidate (approval_transition demo_skill ''c1'') =
    append_candidate_review self const_sha env p approval_call"
proof -
  have same: "coalesce None None x = Inr x" for x by (simp add: coalesce_def both_differ_def)
  have "require_request_text ''c1'' = Inr ()" by code_simp
  then show ?thesis
    unfolding transition_candidate_skill_review_def Let_def approval_transition_def publication_field_def
      demo_skill_identity(1)
    by (subst (1 2 3 4 5 6 7 8 9 10) demo_skill_fields)
      (simp add: result_Inr same conflict_unless_def require_def approval_call_def demo_target_def demo_key_def
        demo_provenance_def demo_detail_def)
qed

definition approval_prepared :: "candidate_event \<times> json \<times> datetime option \<Rightarrow> bool" where
  "approval_prepared p = (case p of (v, e, t) \<Rightarrow> e = JNull \<and> t = None \<and> cv_status v = ''approved'')"

lemma approval_prepares:
  "\<exists>v. prepare_candidate_event (approval_request\<lparr>cq_legacy_provenance := None, cq_legacy_detail := None\<rparr>) =
     Inr (v, JNull, None) \<and> cv_status v = ''approved''"
proof -
  have "case prepare_candidate_event (approval_request\<lparr>cq_legacy_provenance := None, cq_legacy_detail := None\<rparr>) of
      Inr p \<Rightarrow> approval_prepared p | _ \<Rightarrow> False"
    by code_simp
  then show ?thesis by (auto simp: approval_prepared_def split: sum.splits)
qed

lemma bounded_mapping:
  assumes "distinct_keys (JObj d)" and "utf8_length (canonical_json (JObj d)) \<le> 1000"
  shows "bounded_review_mapping d = Inr (norm_dict d)"
proof -
  have "loads (canonical_json (JObj d)) = Inr (JObj (norm_dict d))"
    unfolding canonical_json_def by (subst loads_dumps [OF assms(1)]) (simp only: normalize_JObj)
  moreover have "canonical_json (JObj (norm_dict d)) = canonical_json (JObj d)"
    unfolding canonical_json_def dumps_def normalize_JObj [symmetric] normalize_idem ..
  ultimately show ?thesis
    using assms(2) by (simp add: bounded_review_mapping_def bounded_review_value_def max_review_evidence_bytes_def)
qed

lemma demo_payload_ok:
  "distinct_keys (JObj demo_provenance)" "distinct_keys (JObj demo_detail)"
  "utf8_length (canonical_json (JObj demo_provenance)) \<le> 1000"
  "utf8_length (canonical_json (JObj demo_detail)) \<le> 1000"
  "validate_review_provenance (norm_dict demo_provenance) = Inr ()"
  "distinct_keys (JObj (norm_dict demo_provenance))" "distinct_keys (JObj (norm_dict demo_detail))"
  by code_simp+

lemma approval_is_prepared:
  "\<exists>v. prepare_candidate_event approval_request = Inr (v, JNull, None) \<and> cv_status v = ''approved'' \<and>
     cv_legacy v = Some (norm_dict demo_provenance, norm_dict demo_detail)"
proof -
  obtain v where v: "prepare_candidate_event (approval_request\<lparr>cq_legacy_provenance := None, cq_legacy_detail := None\<rparr>) =
     Inr (v, JNull, None)" "cv_status v = ''approved''"
    using approval_prepares by blast
  have "cq_legacy_provenance approval_request = Some demo_provenance"
    "cq_legacy_detail approval_request = Some demo_detail"
    by (simp_all add: approval_request_def candidate_request_of_def approval_call_def)
  from prepare_candidate_legacy [OF v(1) bounded_mapping [OF demo_payload_ok(1,3)]
      bounded_mapping [OF demo_payload_ok(2,4)] demo_payload_ok(5) this] v(2)
  show ?thesis by simp
qed

lemma demo_keys:
  "good_key (qualify scope_a ''audit_target'' demo_target)"
  "good_key (qualify scope_a ''audit_idempotency'' demo_key)"
  "good_key (qualify scope_a ''review_target'' demo_target)"
  "is_candidate_review_target demo_target" "reviewer_id_pattern ''reviewer_one''"
  by code_simp+

lemma approval_audit:
  obtains a rows where "authorize env_a reviewer_a ReviewAppend demo_target ''c1'' (Some demo_key) False empty_service =
      (Inr a, empty_service)"
    and "\<And>db. audit_events db = [] \<Longrightarrow> control_audit ''a1'' (Some a) db = Inr (db\<lparr>audit_events := rows\<rparr>)"
proof -
  obtain t where t: "qualify scope_a ''audit_target'' demo_target = Inr t" "require_bounded_text t = Inr ()"
    using demo_keys(1) by (rule good_keyE)
  obtain k where k: "qualify scope_a ''audit_idempotency'' demo_key = Inr k" "require_bounded_text k = Inr ()"
    using demo_keys(2) by (rule good_keyE)
  let ?a = "\<lparr>ac_correlation_id = ''c1'', ac_idempotency_key = Some k, ac_subject_id = ''reviewer_one'',
       ac_roles = [''reviewer''], ac_action = ''review.append'', ac_target_id = t,
       ac_result = ''accepted'', ac_occurred_at = utc 1700000000000000\<rparr>"
  have a: "authorize env_a reviewer_a ReviewAppend demo_target ''c1'' (Some demo_key) False empty_service =
      (Inr ?a, empty_service)"
    using t k by (simp add: authorize_Inr audit_context_for_Inr env_a_def)
  have "validate_audit_context ?a = Inr ()"
    using t(2) k(2) by (simp add: validate_audit_context_def require_bounded_text_def require_text_def
        optionally_def is_space_def code_def control_audit_actions_def control_audit_roles_def
        sorted_unique_def)
  then have "control_audit ''a1'' (Some ?a) db = Inr (db\<lparr>audit_events :=
      [audit_row_of (next_sequence ar_sequence ([] :: audit_row list)) ''a1'' ?a 1700000000000000]\<rparr>)" if "audit_events db = []" for db
    using that by (simp add: control_audit_def append_audit_def insert_row_def Let_def)
  with a show thesis by (rule that)
qed

lemma approval_appends:
  "\<exists>db r. append_candidate_review self const_sha env_a reviewer_a approval_call empty_service =
     (r, empty_service\<lparr>sv_control := db\<rparr>) \<and> length (review_events db) = 1"
proof -
  obtain a rows where a: "authorize env_a reviewer_a ReviewAppend demo_target ''c1'' (Some demo_key) False empty_service =
      (Inr a, empty_service)"
    and audit: "\<And>db. audit_events db = [] \<Longrightarrow> control_audit ''a1'' (Some a) db = Inr (db\<lparr>audit_events := rows\<rparr>)"
    using approval_audit by blast
  obtain v where v: "prepare_candidate_event approval_request = Inr (v, JNull, None)" "cv_status v = ''approved''"
     "cv_legacy v = Some (norm_dict demo_provenance, norm_dict demo_detail)"
    using approval_is_prepared by blast
  have prior: "cq_prior_state approval_request = None" "cq_prior_version approval_request = None"
    "cq_prior_event approval_request = None"
    by (simp_all add: approval_request_def candidate_request_of_def approval_call_def)
  have empty: "review_events empty_db = []" "projections empty_db = []" "audit_events empty_db = []"
    by (simp_all add: empty_db_def)
  obtain ev db where "append_candidate_review_event const_sha approval_request (utc 1700000000000000) (Some a)
      sample_skill ''a1'' empty_db = Inr (ev, db)" "length (review_events db) = 1"
    using first_legacy_event [OF v(1) prior v(3) demo_payload_ok(5-7) v(2) empty(1,2) sample_era(1,2,4)]
      audit empty(3) by metis
  with a demo_keys(4) show ?thesis
    by (auto simp: append_candidate_review_def approval_call_def coalesce_field_def first_given_def both_differ_def
      publication_fields_def bindS_def result_def conflict_unless_def require_def in_control_def transaction_def
      empty_service_def env_a_def approval_request_def)
qed

lemma demo_qualified:
  "case qualify scope_a ''review_target'' demo_target of Inl _ \<Rightarrow> False | Inr q \<Rightarrow> is_candidate_review_target q"
  by code_simp

lemma demo_read:
  "service_read_review const_sha env_a reviewer_a demo_target ''c1'' empty_service = (Inr None, empty_service)"
proof -
  obtain t where t: "qualify scope_a ''audit_target'' demo_target = Inr t"
    using demo_keys(1) by (rule good_keyE)
  obtain q where q: "qualify scope_a ''review_target'' demo_target = Inr q" "require_text q = Inr ()"
    using demo_keys(3) by (rule good_keyE)
  have "allows reviewer_a ReviewRead" by (simp add: allows_def reviewer_a_def)
  then have "authorize env_a reviewer_a ReviewRead demo_target ''c1'' None False empty_service =
      (Inr \<lparr>ac_correlation_id = ''c1'', ac_idempotency_key = None, ac_subject_id = ''reviewer_one'',
        ac_roles = [''reviewer''], ac_action = ''review.read'', ac_target_id = t,
        ac_result = ''accepted'', ac_occurred_at = utc 1700000000000000\<rparr>, empty_service)"
    using t by (simp add: authorize_Inr audit_context_for_Inr env_a_def)
  moreover have "is_candidate_review_target q"
    using q(1) demo_qualified by simp
  ultimately show ?thesis
    using q(1) demo_keys(4)
    by (simp add: service_read_review_def read_candidate_review_def bindS_def result_def first_given_def both_differ_def
      conflict_unless_def require_def read_control_def get_candidate_review_projection_def empty_service_def
      find_projection_def target_events_def empty_db_def)
qed

abbreviation demo_world :: world where
  "demo_world \<equiv> \<lambda>k. (env_a, id)"

lemma demo_target_id: "si_target_id demo_skill = demo_target" "si_idempotency_key demo_skill = demo_key"
  by (subst demo_skill_fields, simp add: demo_target_def demo_key_def)+

lemma demo_correlation: "require_request_text ''c1'' = Inr ()"
  by code_simp

lemma demo_call: "nth_call demo_world k f = f env_a"
  by (simp add: nth_call_def fun_eq_iff)

lemma demo_state:
  "read_candidate_skill_approval_state const_sha demo_world reviewer_a demo_candidate ''c1'' empty_service =
     (Inr (unreviewed_state demo_skill), empty_service)"
  using demo_read
  by (simp add: read_candidate_skill_approval_state_def demo_skill_identity(1) result_Inr demo_correlation demo_target_id
    demo_call bindS_def [of "service_read_review _ _ _ _ _"] result_def)

lemma demo_approval:
  "\<exists>r st'. approve_candidate_skill const_sha 1 demo_world (Inr ()) reviewer_a demo_candidate demo_key ''c1''
     empty_service = (r, st') \<and> length (review_events (sv_control st')) = 1"
proof -
  obtain db r where append: "append_candidate_review 1 const_sha env_a reviewer_a approval_call empty_service =
      (r, empty_service\<lparr>sv_control := db\<rparr>)" "length (review_events db) = 1"
    using approval_appends by blast
  let ?after = "\<lambda>_. bindS (service_read_review const_sha env_a reviewer_a demo_target ''c1'')
      (\<lambda>r. case r of None \<Rightarrow> result (Inl ControlConflictError)
        | Some projection \<Rightarrow> state_from_projection const_sha demo_world 3 reviewer_a demo_skill projection ''c1'')"
  have "quiet (?after x)" for x :: review_event
    by (intro quiet_bind) (simp_all split: option.split)
  note after = quiet_tail [of ?after "append_candidate_review 1 const_sha env_a reviewer_a approval_call" empty_service, OF this]
  have reviewer: "Reviewer \<in> roles reviewer_a" by (simp add: reviewer_a_def)
  have "approve_candidate_skill const_sha 1 demo_world (Inr ()) reviewer_a demo_candidate demo_key ''c1'' empty_service =
      bindS (append_candidate_review 1 const_sha env_a reviewer_a approval_call) ?after empty_service"
    using demo_read reviewer demo_keys(5)
    by (simp add: approve_candidate_skill_def demo_skill_identity(1) result_Inr demo_correlation demo_target_id
      conflict_unless_def require_def demo_call bindS_def [of "service_read_review _ _ _ _ _" _ empty_service] transition_is_call)
  then show ?thesis
    using after append by (simp add: prod_eq_iff)
qed

section \<open>The properties at the sample\<close>

theorem published_candidate_is_reviewable_witness:
  "\<exists>i. candidate_identity const_sha demo_candidate = Inr i \<and>
     si_target_id i = pp_review_target_id demo_prepared \<and> si_publication_key i = pp_publication_key demo_prepared"
  using published_candidate_is_reviewable [OF demo_is_prepared demo_normalizes demo_is_admitted plain_coercions_laws(1)
      demo_digest] demo_fits
  by (auto simp: fits_def demo_prepared_def)

theorem claims_do_not_approve_witness:
  "\<exists>r. read_candidate_skill_approval_state const_sha demo_world reviewer_a
      (jset (jset demo_candidate ''approval_status'' (JStr ''approved'')) ''human_approval_evidence'' JNull) ''c1'' empty_service =
      (r, empty_service) \<and> (r = Inl ValueError \<or> r = Inr (unreviewed_state demo_skill))"
proof -
  from demo_state claims_do_not_approve [OF demo_skill_identity(1) refl, where status = "''approved''" and evidence = JNull
      and world = demo_world and p = reviewer_a and correlation = "''c1''" and st = empty_service]
  show ?thesis by auto
qed

theorem effective_state_is_the_ledger_witness:
  "\<exists>s st'. read_candidate_skill_approval_state const_sha demo_world reviewer_a demo_candidate ''c1'' empty_service =
      (Inr s, st') \<and> as_approval_status s = ''unreviewed'' \<and>
      reported (ledger_events const_sha reviewer_a demo_candidate st') s"
proof -
  from demo_state effective_state_is_the_ledger [where sha = const_sha and world = demo_world and p = reviewer_a and d = demo_candidate
      and correlation = "''c1''" and st = empty_service, OF demo_digest]
  show ?thesis by (simp add: unreviewed_state_def approval_state_of_def)
qed

theorem approvals_need_a_reviewer_witness:
  "\<exists>r st' row. approve_candidate_skill const_sha 1 demo_world (Inr ()) reviewer_a demo_candidate demo_key ''c1''
     empty_service = (r, st') \<and> review_events (sv_control st') = [row] \<and> rr_status row = ''approved'' \<and>
     rr_actor_id row = ''reviewer_one'' \<and> ledger_events const_sha reviewer_a demo_candidate st' = [row]"
proof -
  obtain r st' where run: "approve_candidate_skill const_sha 1 demo_world (Inr ()) reviewer_a demo_candidate demo_key ''c1''
     empty_service = (r, st')" "length (review_events (sv_control st')) = 1"
    using demo_approval by blast
  have "review_events (sv_control empty_service) = []"
    by (simp add: empty_service_def empty_db_def)
  with approvals_need_a_reviewer [OF demo_digest run(1)] run show ?thesis by auto
qed

end
