(* ===== verification/Worker_Pipeline.thy ===== *)
theory Worker_Pipeline
  imports Processing_Contracts Timestamps
begin

text \<open>
  The deterministic worker (\<open>pipeline.py\<close>, \<open>processing_v2.py\<close> and the package reader of
  \<open>handler.py\<close>): a package of CAD events becomes a timeline and operation segments. An offset is its
  number of microseconds; the float the code computes from it is monotone in it and exact below
  2^53, so the comparisons with the bound of 604800 seconds agree.
\<close>

section \<open>Events\<close>

datatype event_source = Agent | Autocad | Reviewer_Source | System_Source

record cad_event =
  ce_event_id :: string
  ce_occurred_at :: datetime
  ce_event_type :: event_type
  ce_source :: event_source
  ce_command_name :: "string option"
  ce_drawing_ref :: "string option"
  ce_details :: "(string \<times> json) list"

record result_v1 =
  rw_session_id :: string
  rw_event_count :: int
  rw_meaningful_event_count :: int
  rw_timeline :: "timeline_item list"
  rw_keyframes :: "string list"
  rw_warnings :: "string list"

definition low_value_event_types :: "event_type list" where
  "low_value_event_types = [Foreground_Changed]"

text \<open>\<open>s.replace("_", " ").capitalize()\<close>.\<close>

definition to_upper :: "char \<Rightarrow> char" where
  "to_upper ch = (if is_lower ch then char_of (code ch - 32) else ch)"

definition to_lower :: "char \<Rightarrow> char" where
  "to_lower ch = (if is_upper ch then char_of (code ch + 32) else ch)"

definition capitalize :: "string \<Rightarrow> string" where
  "capitalize s = (case s of [] \<Rightarrow> [] | ch # cs \<Rightarrow> to_upper ch # map to_lower cs)"

definition spaced :: "string \<Rightarrow> string" where
  "spaced s = map (\<lambda>ch. if ch = CHR ''_'' then CHR '' '' else ch) s"

definition event_labels :: "event_type \<Rightarrow> string option" where
  "event_labels t =
     map_of [(Session_Started, ''Approved CAD session started''), (Session_Paused, ''Capture paused''),
       (Session_Resumed, ''Capture resumed''), (Session_Ended, ''Approved CAD session ended''),
       (Drawing_Opened, ''Drawing opened''), (Drawing_Saved, ''Drawing saved''),
       (Drawing_Closed, ''Drawing closed''), (Idle_Started, ''Idle interval started''),
       (Idle_Ended, ''Idle interval ended'')] t"

text \<open>\<open>if not name\<close> holds of \<open>None\<close> and of the empty string.\<close>

definition text_of :: "string option \<Rightarrow> string" where
  "text_of x = (case x of None \<Rightarrow> [] | Some s \<Rightarrow> s)"

definition summary :: "cad_event \<Rightarrow> string" where
  "summary e =
     (if ce_event_type e = Cad_Command \<and> text_of (ce_command_name e) \<noteq> []
      then ''AutoCAD command: '' @ text_of (ce_command_name e)
      else case event_labels (ce_event_type e) of
        Some label \<Rightarrow> label
      | None \<Rightarrow> capitalize (spaced (event_value (ce_event_type e))))"

section \<open>The timeline\<close>

text \<open>
  \<open>sorted(events, key=occurred_at)\<close>: stable; Python refuses to compare a naive with an aware
  datetime, and a sort of both kinds has to compare two of them.
\<close>

definition aware :: "cad_event \<Rightarrow> bool" where
  "aware e = (tz (ce_occurred_at e) \<noteq> Naive)"

definition happened :: "cad_event \<Rightarrow> int" where
  "happened e = instant (ce_occurred_at e)"

definition comparable :: "cad_event list \<Rightarrow> bool" where
  "comparable es = (list_all aware es \<or> list_all (\<lambda>e. \<not> aware e) es)"

definition ordered_events :: "cad_event list \<Rightarrow> exn + cad_event list" where
  "ordered_events es = (if comparable es then Inr (sort_key happened es) else Inl TypeError)"

definition timeline_item_of :: "int \<Rightarrow> cad_event \<Rightarrow> timeline_item" where
  "timeline_item_of start e =
     \<lparr>ti_offset = Some (max 0 (happened e - start)), ti_event_type = ce_event_type e,
      ti_summary = summary e, ti_source_event_id = ce_event_id e\<rparr>"

fun timeline_loop :: "int \<Rightarrow> (event_type \<times> string option) option \<Rightarrow> cad_event list \<Rightarrow> timeline_item list" where
  "timeline_loop start previous [] = []"
| "timeline_loop start previous (e # es) =
     (let signature = Some (ce_event_type e, ce_command_name e) in
      if ce_event_type e \<in> set low_value_event_types \<and> signature = previous
      then timeline_loop start previous es
      else timeline_item_of start e # timeline_loop start signature es)"

definition build_timeline :: "cad_event list \<Rightarrow> exn + timeline_item list" where
  "build_timeline events =
     bindE (ordered_events events) (\<lambda>ordered.
     case ordered of
       [] \<Rightarrow> Inr []
     | e # _ \<Rightarrow> Inr (timeline_loop (happened e) None ordered))"

definition process_events :: "string \<Rightarrow> cad_event list \<Rightarrow> exn + result_v1" where
  "process_events session_id events =
     bindE (build_timeline events) (\<lambda>timeline.
     Inr \<lparr>rw_session_id = session_id, rw_event_count = int (length events),
       rw_meaningful_event_count = int (length timeline), rw_timeline = timeline,
       rw_keyframes = [],
       rw_warnings =
         (if events = [] then [''No CAD events were present; review the capture integration.''] else []) @
         (if list_ex (\<lambda>e. ce_event_type e = Session_Ended) events then []
          else [''Session end event is missing; package may be incomplete.''])\<rparr>)"

section \<open>Operation segments\<close>

definition max_operation_segments :: nat where
  "max_operation_segments = 1000"

text \<open>The constructors of the worker's models, with the constraints they declare.\<close>

definition make_operation_segment :: "operation_segment \<Rightarrow> exn + operation_segment" where
  "make_operation_segment s =
     bindE (require (1 \<le> os_sequence s \<and> os_sequence s \<le> int max_operation_segments \<and>
         0 \<le> os_start s \<and> os_start s \<le> max_offset_us \<and> 0 \<le> os_end s \<and> os_end s \<le> max_offset_us \<and>
         1 \<le> length (os_command_names s) \<and> length (os_command_names s) \<le> 64 \<and>
         1 \<le> length (os_drawing_ref s) \<and> length (os_drawing_ref s) \<le> 255 \<and>
         1 \<le> length (os_summary s) \<and> length (os_summary s) \<le> 512 \<and>
         1 \<le> length (os_source_event_ids s) \<and> length (os_source_event_ids s) \<le> 256) ValueError) (\<lambda>_.
     bindE (validate_unique_values s) (\<lambda>_.
     if os_start s > os_end s then Inl ValueError else Inr s))"

definition make_result_v2 :: "result_v2 \<Rightarrow> exn + result_v2" where
  "make_result_v2 r =
     bindE (require (0 \<le> rv_event_count r \<and> 0 \<le> rv_meaningful_event_count r \<and>
         length (rv_operation_segments r) \<le> max_operation_segments \<and>
         list_all (\<lambda>k. 1 \<le> length k \<and> length k \<le> 1024) (rv_keyframes r) \<and>
         list_all (\<lambda>w. 1 \<le> length w \<and> length w \<le> 2000) (rv_warnings r)) ValueError) (\<lambda>_.
     bindE (validate_operation_segments r) (\<lambda>_. Inr r))"

text \<open>The loop over the timeline; it carries the segments and the number of commands without metadata.\<close>

fun segment_loop ::
  "(string \<times> cad_event) list \<Rightarrow> operation_segment list \<Rightarrow> nat \<Rightarrow> timeline_item list \<Rightarrow>
   exn + operation_segment list \<times> nat" where
  "segment_loop by_id segments missing [] = Inr (segments, missing)"
| "segment_loop by_id segments missing (item # items) =
     (case map_of by_id (ti_source_event_id item) of
        None \<Rightarrow> Inl KeyError
      | Some source \<Rightarrow>
          if ce_event_type source \<noteq> Cad_Command then segment_loop by_id segments missing items
          else if \<not> nonblank (text_of (ce_command_name source)) \<or> \<not> nonblank (text_of (ce_drawing_ref source))
          then segment_loop by_id segments (missing + 1) items
          else if length segments \<ge> max_operation_segments then Inl ValueError
          else case ti_offset item of
            None \<Rightarrow> Inl ValueError
          | Some offset \<Rightarrow>
              if \<not> (0 \<le> offset \<and> offset \<le> max_offset_us) then Inl ValueError
              else
                bindE (make_operation_segment
                  \<lparr>os_sequence = int (length segments + 1), os_start = offset, os_end = offset,
                   os_command_names = [text_of (ce_command_name source)],
                   os_drawing_ref = text_of (ce_drawing_ref source), os_summary = ti_summary item,
                   os_source_event_ids = [ti_source_event_id item]\<rparr>) (\<lambda>s.
                segment_loop by_id (segments @ [s]) missing items))"

definition process_events_v2 :: "string \<Rightarrow> cad_event list \<Rightarrow> exn + result_v2" where
  "process_events_v2 session_id events =
     bindE (require (distinct (map ce_event_id events)) ValueError) (\<lambda>_.
     bindE (process_events session_id events) (\<lambda>base.
     bindE (segment_loop (rev (map (\<lambda>e. (ce_event_id e, e)) events)) [] 0 (rw_timeline base))
       (\<lambda>(segments, missing).
     make_result_v2
       \<lparr>rv_session_id = rw_session_id base, rv_event_count = rw_event_count base,
        rv_meaningful_event_count = rw_meaningful_event_count base, rv_timeline = rw_timeline base,
        rv_operation_segments = segments, rv_keyframes = rw_keyframes base,
        rv_warnings = rw_warnings base @
          (if missing = 0 then []
           else [nat_str missing @
             '' CAD command timeline event(s) lacked nonblank command_name '' @
             ''or drawing_ref; no operation segment was inferred.''])\<rparr>)))"

end
