(* ===== verification/Worker_Packages.thy ===== *)
theory Worker_Packages
  imports Worker_Pipeline Result_Manifest
begin

text \<open>
  The reader of an uploaded package (\<open>handler.py\<close>): the members of the archive are bounded and their
  paths checked, the metadata has to name the session, and each line of \<open>events.jsonl\<close> is one
  \<open>CadEvent\<close>. The archive is its list of members; what \<open>zipfile\<close> decompresses is their content.
\<close>

section \<open>Members\<close>

record zip_member =
  zm_filename :: string
  zm_file_size :: nat
  zm_content :: string

definition max_member_bytes :: nat where "max_member_bytes = 104857600"
definition max_total_bytes :: nat where "max_total_bytes = 536870912"
definition max_members :: nat where "max_members = 10000"
definition max_event_line_bytes :: nat where "max_event_line_bytes = 262144"
definition max_event_lines :: nat where "max_event_lines = 100000"
definition max_metadata_bytes :: nat where "max_metadata_bytes = 1048576"

definition slashed :: "string \<Rightarrow> string" where
  "slashed s = map (\<lambda>ch. if ch = CHR 0x5C then CHR ''/'' else ch) s"

text \<open>\<open>pattern in s\<close>.\<close>

fun occurs_in :: "string \<Rightarrow> string \<Rightarrow> bool" where
  "occurs_in p [] = (p = [])"
| "occurs_in p (ch # s) = (startswith (ch # s) p \<or> occurs_in p s)"

definition unsafe_path :: "string \<Rightarrow> bool" where
  "unsafe_path path \<longleftrightarrow> startswith path ''/'' \<or> startswith path ''../'' \<or> path = ''..'' \<or>
     occurs_in ''/../'' path"

fun member_loop :: "(string \<rightharpoonup> zip_member) \<Rightarrow> zip_member list \<Rightarrow> exn + (string \<rightharpoonup> zip_member)" where
  "member_loop m [] = Inr m"
| "member_loop m (z # zs) =
     (let path = slashed (zm_filename z) in
      if unsafe_path path then Inl UnsafePackageError
      else if zm_file_size z > max_member_bytes then Inl UnsafePackageError
      else member_loop (m(path \<mapsto> z)) zs)"

definition validated_members :: "zip_member list \<Rightarrow> exn + (string \<rightharpoonup> zip_member)" where
  "validated_members zs =
     (if length zs > max_members then Inl UnsafePackageError
      else if sum_list (map zm_file_size zs) > max_total_bytes then Inl UnsafePackageError
      else member_loop Map.empty zs)"

section \<open>Metadata\<close>

text \<open>\<open>UUID(str(value))\<close> and what pydantic accepts as a datetime are parameters.\<close>

record event_coercions = coercions +
  as_uuid_text :: "json \<Rightarrow> string option"
  as_datetime :: "json \<Rightarrow> datetime option"

definition decoded_json :: "string \<Rightarrow> exn + json" where
  "decoded_json b =
     (case utf8_decode b of None \<Rightarrow> Inl UnsafePackageError
      | Some t \<Rightarrow> except (\<lambda>_. True) UnsafePackageError (loads t))"

definition validate_metadata_binding ::
  "event_coercions \<Rightarrow> zip_member option \<Rightarrow> string \<Rightarrow> exn + unit" where
  "validate_metadata_binding c member session_id =
     (case member of
        None \<Rightarrow> Inl UnsafePackageError
      | Some z \<Rightarrow>
          let raw = take (max_metadata_bytes + 1) (zm_content z) in
          if length raw > max_metadata_bytes then Inl UnsafePackageError
          else bindE (decoded_json raw) (\<lambda>j.
            case j of
              JObj d \<Rightarrow>
                (case jget d ''session_id'' of
                   None \<Rightarrow> Inl UnsafePackageError
                 | Some v \<Rightarrow>
                     (case as_uuid_text c v of
                        None \<Rightarrow> Inl UnsafePackageError
                      | Some u \<Rightarrow>
                          if jget d ''schema_version'' \<noteq> Some (JStr ''1.0'') then Inl UnsafePackageError
                          else if u \<noteq> session_id then Inl UnsafePackageError
                          else Inr ()))
            | _ \<Rightarrow> Inl UnsafePackageError))"

section \<open>Events\<close>

fun source_value :: "event_source \<Rightarrow> string" where
  "source_value Agent = ''agent''"
| "source_value Autocad = ''autocad''"
| "source_value Reviewer_Source = ''reviewer''"
| "source_value System_Source = ''system''"

text \<open>A field \<open>str | None\<close> with default \<open>None\<close> and a maximal length.\<close>

definition optional_str :: "nat \<Rightarrow> json option \<Rightarrow> exn + string option" where
  "optional_str hi v =
     (case v of
        None \<Rightarrow> Inr None
      | Some JNull \<Rightarrow> Inr None
      | Some (JStr s) \<Rightarrow> if length s \<le> hi then Inr (Some s) else Inl ValueError
      | Some _ \<Rightarrow> Inl ValueError)"

definition is_scalar :: "json \<Rightarrow> bool" where
  "is_scalar v = (case v of JArr _ \<Rightarrow> False | JObj _ \<Rightarrow> False | _ \<Rightarrow> True)"

definition scalar_dict :: "json option \<Rightarrow> exn + (string \<times> json) list" where
  "scalar_dict v =
     (case v of
        None \<Rightarrow> Inr []
      | Some (JObj d) \<Rightarrow> if list_all (is_scalar \<circ> snd) d then Inr d else Inl ValueError
      | Some _ \<Rightarrow> Inl ValueError)"

definition cad_event_validate :: "event_coercions \<Rightarrow> json \<Rightarrow> exn + cad_event" where
  "cad_event_validate c j =
     bindE (model_fields [''event_id'', ''occurred_at'', ''event_type'', ''source'', ''command_name'',
         ''drawing_ref'', ''details''] j) (\<lambda>d.
     bindE (field_of d ''event_id'' (\<lambda>v. demand (as_uuid c v))) (\<lambda>u.
     bindE (field_of d ''occurred_at'' (\<lambda>v. demand (as_datetime c v))) (\<lambda>t.
     bindE (field_of d ''event_type'' (enum_str event_value event_types)) (\<lambda>e.
     bindE (field_of d ''source'' (enum_str source_value [Agent, Autocad, Reviewer_Source, System_Source])) (\<lambda>s.
     bindE (optional_str 128 (jget d ''command_name'')) (\<lambda>n.
     bindE (optional_str 255 (jget d ''drawing_ref'')) (\<lambda>r.
     bindE (scalar_dict (jget d ''details'')) (\<lambda>det.
     Inr \<lparr>ce_event_id = u, ce_occurred_at = t, ce_event_type = e, ce_source = s,
       ce_command_name = n, ce_drawing_ref = r, ce_details = det\<rparr>))))))))"

text \<open>\<open>readline(limit)\<close>: the bytes up to and with the next newline, at most \<open>limit\<close> of them.\<close>

definition newline :: char where
  "newline = CHR 0x0A"

definition readline :: "nat \<Rightarrow> string \<Rightarrow> string" where
  "readline limit s = take limit (take (Suc (length (takeWhile (\<lambda>ch. ch \<noteq> newline) s))) s)"

definition is_ascii_space :: "char \<Rightarrow> bool" where
  "is_ascii_space ch = (9 \<le> code ch \<and> code ch \<le> 13 \<or> code ch = 32)"

definition event_line :: "event_coercions \<Rightarrow> string \<Rightarrow> exn + cad_event" where
  "event_line c raw =
     bindE (decoded_json raw) (\<lambda>j.
     except (\<lambda>_. True) UnsafePackageError (cad_event_validate c j))"

text \<open>The loop over the line numbers 1 to \<open>MAX_EVENT_LINES + 1\<close>.\<close>

function event_lines :: "event_coercions \<Rightarrow> nat \<Rightarrow> string \<Rightarrow> exn + cad_event list" where
  "event_lines c line_number s =
     (if line_number > max_event_lines + 1 then Inr []
      else
        let raw = readline (max_event_line_bytes + 1) s; rest = drop (length raw) s in
        if raw = [] then Inr []
        else if length raw > max_event_line_bytes then Inl UnsafePackageError
        else if line_number > max_event_lines then Inl UnsafePackageError
        else if list_all is_ascii_space raw then event_lines c (line_number + 1) rest
        else bindE (event_line c raw) (\<lambda>e.
          bindE (event_lines c (line_number + 1) rest) (\<lambda>es. Inr (e # es))))"
  by pat_completeness auto
termination
proof (relation "measure (\<lambda>(c, n, s). length s)", goal_cases)
  case (2 c n s raw rest)
  then show ?case by (cases s) (simp_all add: readline_def)
next
  case (3 c n s raw rest e)
  then show ?case by (cases s) (simp_all add: readline_def)
qed simp

declare event_lines.simps [simp del]

definition package_events :: "event_coercions \<Rightarrow> string \<Rightarrow> zip_member list \<Rightarrow> exn + cad_event list" where
  "package_events c session_id zs =
     bindE (validated_members zs) (\<lambda>members.
     bindE (validate_metadata_binding c (members ''metadata.json'') session_id) (\<lambda>_.
     case members ''events.jsonl'' of
       None \<Rightarrow> Inr []
     | Some z \<Rightarrow> event_lines c 1 (zm_content z)))"

definition process_package :: "event_coercions \<Rightarrow> string \<Rightarrow> zip_member list \<Rightarrow> exn + result_v1" where
  "process_package c session_id zs = bindE (package_events c session_id zs) (process_events session_id)"

definition process_package_v2 :: "event_coercions \<Rightarrow> string \<Rightarrow> zip_member list \<Rightarrow> exn + result_v2" where
  "process_package_v2 c session_id zs =
     bindE (package_events c session_id zs) (process_events_v2 session_id)"

end
