(* ===== verification/Worker_Results.thy ===== *)
theory Worker_Results
  imports Worker_Pipeline Publication_Derivation
begin

text \<open>
  What the worker computes: the timeline is a subsequence of the events in order of time, and its
  segments are the commands with a name and a drawing, numbered in this order. From it follows when
  a result exists, that the API's validators accept it, and that a recorded run derives a candidate.
\<close>

section \<open>The timeline as a subsequence\<close>

fun kept :: "(event_type \<times> string option) option \<Rightarrow> cad_event list \<Rightarrow> cad_event list" where
  "kept previous [] = []"
| "kept previous (e # es) =
     (if ce_event_type e \<in> set low_value_event_types \<and> Some (ce_event_type e, ce_command_name e) = previous
      then kept previous es
      else e # kept (Some (ce_event_type e, ce_command_name e)) es)"

lemma timeline_loop_kept: "timeline_loop start previous es = map (timeline_item_of start) (kept previous es)"
  by (induction es arbitrary: previous) (auto simp: Let_def)

lemma set_kept: "set (kept previous es) \<subseteq> set es"
  by (induction es arbitrary: previous) auto

lemma sorted_kept: "sorted (map f es) \<Longrightarrow> sorted (map f (kept previous es))"
  by (induction es arbitrary: previous) (use set_kept in fastforce)+

lemma distinct_kept: "distinct (map f es) \<Longrightarrow> distinct (map f (kept previous es))"
  by (induction es arbitrary: previous) (use set_kept in fastforce)+

definition recorded :: "cad_event list \<Rightarrow> cad_event list" where
  "recorded events = kept None (sort_key happened events)"

definition first_time :: "cad_event list \<Rightarrow> int" where
  "first_time events = happened (hd (sort_key happened events))"

lemma recorded_Nil [simp]: "recorded [] = []"
  by (simp add: recorded_def)

lemma set_recorded: "set (recorded events) \<subseteq> set events"
  using set_kept [of None "sort_key happened events"] by (simp add: recorded_def)

lemma sorted_recorded: "sorted (map happened (recorded events))"
  unfolding recorded_def by (rule sorted_kept) simp

lemma distinct_recorded:
  assumes "distinct (map ce_event_id events)"
  shows "distinct (map ce_event_id (recorded events))"
  unfolding recorded_def by (rule distinct_kept) (use assms in \<open>simp add: distinct_map\<close>)

lemma build_timeline_recorded:
  "build_timeline events =
     (if comparable events then Inr (map (timeline_item_of (first_time events)) (recorded events))
      else Inl TypeError)"
  by (auto simp: build_timeline_def ordered_events_def recorded_def first_time_def timeline_loop_kept
      split: list.split)

lemma first_time_le:
  assumes "e \<in> set events"
  shows "first_time events \<le> happened e"
proof -
  have "sorted (map happened (sort_key happened events))" "e \<in> set (sort_key happened events)"
    using assms by simp_all
  then show ?thesis
    unfolding first_time_def by (cases "sort_key happened events") auto
qed

section \<open>The segments\<close>

definition qualifies :: "cad_event \<Rightarrow> bool" where
  "qualifies e \<longleftrightarrow> ce_event_type e = Cad_Command \<and> nonblank (text_of (ce_command_name e)) \<and>
     nonblank (text_of (ce_drawing_ref e))"

definition offset_of :: "int \<Rightarrow> cad_event \<Rightarrow> int" where
  "offset_of start e = max 0 (happened e - start)"

lemma timeline_item_of_simps [simp]:
  "ti_source_event_id (timeline_item_of start e) = ce_event_id e"
  "ti_offset (timeline_item_of start e) = Some (offset_of start e)"
  "ti_summary (timeline_item_of start e) = summary e"
  "ti_event_type (timeline_item_of start e) = ce_event_type e"
  by (simp_all add: timeline_item_of_def offset_of_def)

definition segment_of :: "int \<Rightarrow> nat \<Rightarrow> cad_event \<Rightarrow> operation_segment" where
  "segment_of start n e =
     \<lparr>os_sequence = int n, os_start = offset_of start e, os_end = offset_of start e,
      os_command_names = [text_of (ce_command_name e)], os_drawing_ref = text_of (ce_drawing_ref e),
      os_summary = summary e, os_source_event_ids = [ce_event_id e]\<rparr>"

fun segments_from :: "int \<Rightarrow> nat \<Rightarrow> cad_event list \<Rightarrow> operation_segment list" where
  "segments_from start n [] = []"
| "segments_from start n (e # es) = segment_of start n e # segments_from start (Suc n) es"

lemma length_segments_from [simp]: "length (segments_from start n es) = length es"
  by (induction start n es rule: segments_from.induct) simp_all

text \<open>What the reader of a package admits.\<close>

definition cad_event_ok :: "cad_event \<Rightarrow> bool" where
  "cad_event_ok e \<longleftrightarrow> uuid_pattern (ce_event_id e) \<and>
     (\<forall>s. ce_command_name e = Some s \<longrightarrow> length s \<le> 128) \<and>
     (\<forall>s. ce_drawing_ref e = Some s \<longrightarrow> length s \<le> 255)"

definition label_of :: "event_type \<Rightarrow> string" where
  "label_of t = (case event_labels t of Some label \<Rightarrow> label | None \<Rightarrow> capitalize (spaced (event_value t)))"

lemma label_length: "1 \<le> length (label_of t) \<and> length (label_of t) \<le> 100"
proof -
  have "\<forall>t \<in> set event_types. 1 \<le> length (label_of t) \<and> length (label_of t) \<le> 100"
    by code_simp
  moreover have "t \<in> set event_types" by (cases t) (simp_all add: event_types_def)
  ultimately show ?thesis by blast
qed

lemma summary_length: "cad_event_ok e \<Longrightarrow> 1 \<le> length (summary e) \<and> length (summary e) \<le> 200"
proof -
  assume "cad_event_ok e"
  then have "length (text_of (ce_command_name e)) \<le> 128"
    by (auto simp: text_of_def cad_event_ok_def split: option.split)
  then show ?thesis
    using label_length [of "ce_event_type e"] by (simp add: summary_def label_of_def [symmetric] Suc_le_eq)
qed

lemma make_segment_of:
  assumes "cad_event_ok e" and "qualifies e" and "offset_of start e \<le> max_offset_us" and "1 \<le> n" and "n \<le> max_operation_segments"
  shows "make_operation_segment (segment_of start n e) = Inr (segment_of start n e)"
proof -
  have "nonblank (text_of (ce_command_name e))" "nonblank (text_of (ce_drawing_ref e))"
    using assms(2) by (simp_all add: qualifies_def)
  then have "text_of (ce_command_name e) \<noteq> []" "text_of (ce_drawing_ref e) \<noteq> []"
    using nonblank_not_Nil by blast+
  moreover have "length (text_of (ce_command_name e)) \<le> 128" "length (text_of (ce_drawing_ref e)) \<le> 255"
    using assms(1) by (auto simp: text_of_def cad_event_ok_def split: option.split)
  moreover have "0 \<le> offset_of start e" by (simp add: offset_of_def)
  ultimately show ?thesis
    using assms summary_length [OF assms(1)]
    by (simp add: make_operation_segment_def segment_of_def require_def validate_unique_values_def Suc_le_eq)
qed

lemma segment_loop_segments:
  assumes "\<forall>e \<in> set es. map_of by_id (ce_event_id e) = Some e" and "\<forall>e \<in> set es. cad_event_ok e"
    and "length segments \<le> max_operation_segments"
  shows "segment_loop by_id segments missing (map (timeline_item_of start) es) =
     (if length segments + length (filter qualifies es) \<le> max_operation_segments \<and>
         (\<forall>e \<in> set es. qualifies e \<longrightarrow> offset_of start e \<le> max_offset_us)
      then Inr (segments @ segments_from start (Suc (length segments)) (filter qualifies es),
        missing + length (filter (\<lambda>e. ce_event_type e = Cad_Command \<and> \<not> qualifies e) es))
      else Inl ValueError)"
  using assms
proof (induction es arbitrary: segments missing)
  case (Cons e es)
  have e: "map_of by_id (ce_event_id e) = Some e" "cad_event_ok e" using Cons.prems by simp_all
  have nonneg: "0 \<le> offset_of start e" by (simp add: offset_of_def)
  show ?case
  proof (cases "qualifies e")
    case False
    then have "segment_loop by_id segments missing (map (timeline_item_of start) (e # es)) =
        segment_loop by_id segments (missing + (if ce_event_type e = Cad_Command then 1 else 0))
          (map (timeline_item_of start) es)"
      using e by (simp add: qualifies_def del: nonblank_iff)
    with Cons.IH [of segments "missing + (if ce_event_type e = Cad_Command then 1 else 0)"] Cons.prems False
    show ?thesis by simp
  next
    case True
    then have q: "ce_event_type e = Cad_Command" "nonblank (text_of (ce_command_name e))"
      "nonblank (text_of (ce_drawing_ref e))" by (simp_all add: qualifies_def)
    show ?thesis
    proof (cases "length segments < max_operation_segments \<and> offset_of start e \<le> max_offset_us")
      case bounds: True
      then have "make_operation_segment (segment_of start (Suc (length segments)) e) =
          Inr (segment_of start (Suc (length segments)) e)"
        by (intro make_segment_of [OF e(2) True]) simp_all
      then have "segment_loop by_id segments missing (map (timeline_item_of start) (e # es)) =
          segment_loop by_id (segments @ [segment_of start (Suc (length segments)) e]) missing
            (map (timeline_item_of start) es)"
        using bounds q e nonneg by (simp add: segment_of_def)
      with Cons True bounds q show ?thesis by (auto simp: Suc_le_eq)
    next
      case False
      with q e nonneg True show ?thesis by auto
    qed
  qed
qed simp

section \<open>When a result exists\<close>

lemma timeline_events_map:
  assumes "distinct (map ce_event_id es)" and "\<forall>e \<in> set es. ce_event_id e \<notin> fst ` set m"
  shows "timeline_events (map (timeline_item_of start) es) m =
    Inr (rev (map (\<lambda>e. (ce_event_id e, offset_of start e)) es) @ m)"
  using assms
proof (induction es arbitrary: m)
  case (Cons e es)
  have "timeline_events (map (timeline_item_of start) es) ((ce_event_id e, offset_of start e) # m) =
      Inr (rev (map (\<lambda>e. (ce_event_id e, offset_of start e)) es) @ (ce_event_id e, offset_of start e) # m)"
    using Cons.prems by (intro Cons.IH) (auto simp: image_iff)
  then show ?case using Cons.prems by simp
qed simp

lemma map_of_rev_events:
  assumes "distinct (map ce_event_id es)" and "e \<in> set es"
  shows "map_of (rev (map (\<lambda>e. (ce_event_id e, f e)) es)) (ce_event_id e) = Some (f e)"
proof (rule map_of_is_SomeI)
  show "distinct (map fst (rev (map (\<lambda>e. (ce_event_id e, f e)) es)))"
    using assms(1) by (simp add: rev_map [symmetric] comp_def)
  show "(ce_event_id e, f e) \<in> set (rev (map (\<lambda>e. (ce_event_id e, f e)) es))"
    using assms(2) by simp
qed

lemma check_segments_from:
  assumes "sorted (map (offset_of start) qs)" and "\<forall>e \<in> set qs. previous_end \<le> offset_of start e"
    and "distinct (map ce_event_id qs)" and "\<forall>e \<in> set qs. ce_event_id e \<notin> set used"
    and "\<forall>e \<in> set qs. map_of m (ce_event_id e) = Some (offset_of start e)"
  shows "check_segments m (int n) previous_end used (segments_from start n qs) = Inr ()"
  using assms
proof (induction qs arbitrary: n previous_end used)
  case (Cons e qs)
  have "check_segments m (int (Suc n)) (offset_of start e) (ce_event_id e # used) (segments_from start (Suc n) qs) = Inr ()"
    using Cons.prems by (intro Cons.IH) (auto simp: image_iff)
  then show ?case using Cons.prems by (simp add: segment_of_def add.commute)
qed simp

lemma sorted_offsets: "sorted (map happened es) \<Longrightarrow> sorted (map (offset_of start) es)"
  by (induction es) (auto simp: offset_of_def)

definition result_of :: "string \<Rightarrow> cad_event list \<Rightarrow> result_v2" where
  "result_of session_id events =
     (let es = recorded events; start = first_time events; n = length (filter (\<lambda>e.
        ce_event_type e = Cad_Command \<and> \<not> qualifies e) es) in
      \<lparr>rv_session_id = session_id, rv_event_count = int (length events),
       rv_meaningful_event_count = int (length es), rv_timeline = map (timeline_item_of start) es,
       rv_operation_segments = segments_from start 1 (filter qualifies es), rv_keyframes = [],
       rv_warnings =
         (if events = [] then [''No CAD events were present; review the capture integration.''] else []) @
         (if list_ex (\<lambda>e. ce_event_type e = Session_Ended) events then []
          else [''Session end event is missing; package may be incomplete.'']) @
         (if n = 0 then []
          else [nat_str n @ '' CAD command timeline event(s) lacked nonblank command_name '' @
            ''or drawing_ref; no operation segment was inferred.''])\<rparr>)"

lemma segments_of_recorded_valid:
  assumes "distinct (map ce_event_id events)"
  shows "validate_operation_segments (result_of session_id events) = Inr ()"
proof -
  let ?es = "recorded events" and ?start = "first_time events"
  have d: "distinct (map ce_event_id ?es)" by (rule distinct_recorded [OF assms])
  have "check_segments (rev (map (\<lambda>e. (ce_event_id e, offset_of ?start e)) ?es)) (int 1) (- 1000000) []
      (segments_from ?start 1 (filter qualifies ?es)) = Inr ()"
  proof (rule check_segments_from)
    show "sorted (map (offset_of ?start) (filter qualifies ?es))"
      by (intro sorted_offsets sorted_filter sorted_recorded)
    show "distinct (map ce_event_id (filter qualifies ?es))" using d by (rule distinct_map_filter)
  qed (auto simp: offset_of_def map_of_rev_events [OF d])
  then show ?thesis
    using timeline_events_map [OF d, of "[]" ?start]
    by (simp add: validate_operation_segments_def result_of_def Let_def)
qed

definition publishable :: "cad_event list \<Rightarrow> bool" where
  "publishable events \<longleftrightarrow> length (filter qualifies (recorded events)) \<le> max_operation_segments \<and>
     (\<forall>e \<in> set (recorded events). qualifies e \<longrightarrow> offset_of (first_time events) e \<le> max_offset_us)"

lemma length_recorded: "length (recorded events) \<le> length events"
proof -
  have "length (kept previous es) \<le> length es" for previous es
    by (induction es arbitrary: previous) (simp_all add: le_SucI)
  from this [of None "sort_key happened events"] show ?thesis by (simp add: recorded_def)
qed

lemma digits_of_count:
  assumes "length events \<le> 100000"
  shows "length (nat_str (length (filter P (recorded events)))) \<le> 6"
proof -
  have "length (filter P (recorded events)) < 10 ^ Suc 5"
    by (rule le_less_trans [OF le_trans [OF le_trans [OF length_filter_le length_recorded] assms]]) simp
  then show ?thesis using length_nat_str [of _ 5] by simp
qed

lemma process_events_v2_result:
  assumes "\<forall>e \<in> set events. cad_event_ok e" and "length events \<le> 100000"
    and "distinct (map ce_event_id events)" and "comparable events"
  shows "process_events_v2 session_id events =
    (if publishable events then Inr (result_of session_id events) else Inl ValueError)"
proof -
  let ?es = "recorded events" and ?start = "first_time events"
  let ?n = "length (filter (\<lambda>e. ce_event_type e = Cad_Command \<and> \<not> qualifies e) ?es)"
  have by_id: "\<forall>e \<in> set ?es. map_of (rev (map (\<lambda>e. (ce_event_id e, e)) events)) (ce_event_id e) = Some e"
    using map_of_rev_events [OF assms(3), where f = id] set_recorded by auto
  have ok: "\<forall>e \<in> set ?es. cad_event_ok e" using assms(1) set_recorded by blast
  have "length (nat_str ?n) \<le> 6" by (rule digits_of_count [OF assms(2)])
  then have fields: "0 \<le> rv_event_count r \<and> 0 \<le> rv_meaningful_event_count r \<and>
      length (rv_operation_segments r) \<le> max_operation_segments \<and>
      list_all (\<lambda>k. 1 \<le> length k \<and> length k \<le> 1024) (rv_keyframes r) \<and>
      list_all (\<lambda>w. 1 \<le> length w \<and> length w \<le> 2000) (rv_warnings r)"
    if "publishable events" "r = result_of session_id events" for r
    using that(1) unfolding that(2) by (simp add: result_of_def publishable_def Let_def)
  have "make_result_v2 (result_of session_id events) = Inr (result_of session_id events)"
    if "publishable events"
    using fields [OF that refl] segments_of_recorded_valid [OF assms(3)]
    by (simp add: make_result_v2_def require_def)
  moreover have "process_events_v2 session_id events =
      (if publishable events then make_result_v2 (result_of session_id events) else Inl ValueError)"
  proof -
    have loop: "segment_loop (rev (map (\<lambda>e. (ce_event_id e, e)) events)) [] 0
        (map (timeline_item_of ?start) ?es) =
      (if publishable events then Inr (segments_from ?start 1 (filter qualifies ?es), ?n) else Inl ValueError)"
      using segment_loop_segments [OF by_id ok, of "[]" 0 ?start] by (simp add: publishable_def)
    show ?thesis
      using assms(3,4)
      by (simp only: process_events_v2_def process_events_def build_timeline_recorded require_def
          if_True bindE_simps result_v1.simps loop) (simp add: result_of_def Let_def)
  qed
  ultimately show ?thesis by simp
qed

end
