(* ===== verification/Worker_Derivation.thy ===== *)
theory Worker_Derivation
  imports Worker_Results
begin

text \<open>
  The worker's result meets the API: its JSON reads back through the API's validators, and it
  derives a candidate exactly when the session was one run of commands on one drawing.
\<close>

section \<open>The result at the API\<close>

text \<open>\<open>model_dump(mode="json")\<close>; \<open>num\<close> writes a float, given in microseconds.\<close>

definition timeline_item_dump :: "(int option \<Rightarrow> json) \<Rightarrow> timeline_item \<Rightarrow> json" where
  "timeline_item_dump num i = JObj
     [(''offset_seconds'', num (ti_offset i)), (''event_type'', JStr (event_value (ti_event_type i))),
      (''summary'', JStr (ti_summary i)), (''source_event_id'', JStr (ti_source_event_id i))]"

definition operation_segment_dump :: "(int option \<Rightarrow> json) \<Rightarrow> operation_segment \<Rightarrow> json" where
  "operation_segment_dump num s = JObj
     [(''sequence'', JInt (os_sequence s)), (''start_offset_seconds'', num (Some (os_start s))),
      (''end_offset_seconds'', num (Some (os_end s))),
      (''command_names'', JArr (map JStr (os_command_names s))),
      (''drawing_ref'', JStr (os_drawing_ref s)), (''summary'', JStr (os_summary s)),
      (''source_event_ids'', JArr (map JStr (os_source_event_ids s)))]"

definition result_v2_dump :: "(int option \<Rightarrow> json) \<Rightarrow> result_v2 \<Rightarrow> json" where
  "result_v2_dump num r = JObj
     [(''schema_version'', JStr ''2.0''), (''session_id'', JStr (rv_session_id r)),
      (''event_count'', JInt (rv_event_count r)),
      (''meaningful_event_count'', JInt (rv_meaningful_event_count r)),
      (''timeline'', JArr (map (timeline_item_dump num) (rv_timeline r))),
      (''operation_segments'', JArr (map (operation_segment_dump num) (rv_operation_segments r))),
      (''keyframes'', JArr (map JStr (rv_keyframes r))),
      (''warnings'', JArr (map JStr (rv_warnings r)))]"

text \<open>What is relied on: the API reads UUIDs, integers and the floats that the worker writes.\<close>

definition reads_numbers :: "coercions \<Rightarrow> (int option \<Rightarrow> json) \<Rightarrow> bool" where
  "reads_numbers c num \<longleftrightarrow> reads_canonical c \<and> (\<forall>i. as_int c (JInt i) = Some i) \<and>
     (\<forall>us \<ge> 0. as_seconds c (num (Some us)) = Some (Some us))"

lemma enum_event [simp]: "enum_str event_value event_types (JStr (event_value t)) = Inr t"
  by (cases t) (simp_all add: enum_str_def event_types_def)

lemma mapE_dumps: "(\<And>x. x \<in> set xs \<Longrightarrow> f (g x) = Inr x) \<Longrightarrow> mapE f (map g xs) = Inr xs"
  by (induction xs) simp_all

lemma timeline_item_reads:
  assumes "reads_numbers c num" and "cad_event_ok e"
  shows "timeline_item_validate c (timeline_item_dump num (timeline_item_of start e)) = Inr (timeline_item_of start e)"
proof -
  have "0 \<le> offset_of start e" by (simp add: offset_of_def)
  then show ?thesis
    using assms summary_length [OF assms(2)]
    by (simp add: timeline_item_validate_def timeline_item_dump_def model_fields_def field_of_def
        jget_def reads_numbers_def reads_canonical_def cad_event_ok_def bounded_str_def)
qed

lemma operation_segment_reads:
  assumes "reads_numbers c num" and "cad_event_ok e" and "qualifies e" and "offset_of start e \<le> max_offset_us"
    and "1 \<le> n" and "n \<le> max_operation_segments"
  shows "operation_segment_validate c (operation_segment_dump num (segment_of start n e)) = Inr (segment_of start n e)"
proof -
  have made: "make_operation_segment (segment_of start n e) = Inr (segment_of start n e)"
    by (rule make_segment_of [OF assms(2-6)])
  have "0 \<le> offset_of start e" by (simp add: offset_of_def)
  with made assms show ?thesis
    by (simp add: operation_segment_validate_def operation_segment_dump_def segment_of_def
        make_operation_segment_def model_fields_def field_of_def jget_def bounded_str_def bounded_seconds_def
        list_of_def length_between_def any_str_def max_operation_segments_def reads_numbers_def
        reads_canonical_def cad_event_ok_def require_def flow Let_def split: if_splits)
qed

lemma segments_from_in: "s \<in> set (segments_from start n es) \<Longrightarrow>
    \<exists>k e. s = segment_of start k e \<and> e \<in> set es \<and> n \<le> k \<and> k < n + length es"
  by (induction start n es rule: segments_from.induct) fastforce+

lemma result_dump_reads:
  assumes "mapE (timeline_item_validate c) (map (timeline_item_dump num) (rv_timeline r)) = Inr (rv_timeline r)"
    and "mapE (operation_segment_validate c) (map (operation_segment_dump num) (rv_operation_segments r)) =
      Inr (rv_operation_segments r)"
    and "mapE (bounded_str 1 2000) (map JStr (rv_warnings r)) = Inr (rv_warnings r)"
    and "validate_operation_segments r = Inr ()" and "reads_numbers c num"
    and "length (rv_operation_segments r) \<le> 1000" and "0 \<le> rv_event_count r"
    and "0 \<le> rv_meaningful_event_count r" and "uuid_pattern (rv_session_id r)" and "rv_keyframes r = []"
  shows "result_v2_validate c (result_v2_dump num r) = Inr r"
  using assms
  by (cases r) (simp add: result_v2_validate_def result_v2_dump_def model_fields_def field_of_def jget_def
      natural_def list_of_def length_between_def reads_numbers_def reads_canonical_def require_def Let_def)

lemma result_reads:
  assumes "\<forall>e \<in> set events. cad_event_ok e" and "length events \<le> 100000"
    and "distinct (map ce_event_id events)" and "publishable events"
    and "reads_numbers c num" and "uuid_pattern session_id"
  shows "result_v2_validate c (result_v2_dump num (result_of session_id events)) = Inr (result_of session_id events)"
proof -
  let ?r = "result_of session_id events"
  have ok: "\<forall>e \<in> set (recorded events). cad_event_ok e" using assms(1) set_recorded by blast
  have timeline: "mapE (timeline_item_validate c) (map (timeline_item_dump num) (rv_timeline ?r)) = Inr (rv_timeline ?r)"
    by (rule mapE_dumps) (use ok timeline_item_reads [OF assms(5)] in \<open>auto simp: result_of_def Let_def\<close>)
  have segments: "mapE (operation_segment_validate c) (map (operation_segment_dump num) (rv_operation_segments ?r)) =
      Inr (rv_operation_segments ?r)"
  proof (rule mapE_dumps)
    fix s
    assume "s \<in> set (rv_operation_segments ?r)"
    then obtain k e where s: "s = segment_of (first_time events) k e" "e \<in> set (recorded events)" "qualifies e"
      "1 \<le> k" "k < 1 + length (filter qualifies (recorded events))"
      using segments_from_in [of s "first_time events" 1 "filter qualifies (recorded events)"]
      by (auto simp: result_of_def Let_def)
    then show "operation_segment_validate c (operation_segment_dump num s) = Inr s"
      using assms(4) ok by (auto simp: publishable_def intro!: operation_segment_reads [OF assms(5)])
  qed
  have bounds: "length (rv_operation_segments ?r) \<le> 1000 \<and> 0 \<le> rv_event_count ?r \<and> 0 \<le> rv_meaningful_event_count ?r \<and>
      rv_session_id ?r = session_id \<and> rv_keyframes ?r = []"
    using assms(4) by (simp add: result_of_def publishable_def max_operation_segments_def Let_def)
  have warnings: "mapE (bounded_str 1 2000) (map JStr (rv_warnings ?r)) = Inr (rv_warnings ?r)"
  proof (rule mapE_dumps)
    fix w
    assume "w \<in> set (rv_warnings ?r)"
    moreover have "length (nat_str (length (filter P (recorded events)))) \<le> 1890" for P
      using digits_of_count [OF assms(2)] by (rule order.trans) simp
    ultimately show "bounded_str 1 2000 (JStr w) = Inr w"
      by (auto simp: result_of_def bounded_str_def Let_def split: if_splits)
  qed
  show ?thesis
    using bounds assms(6) by (intro result_dump_reads timeline segments warnings
        segments_of_recorded_valid [OF assms(3)] assms(5)) simp_all
qed

section \<open>The candidate of a recorded run\<close>

definition one_run :: "cad_event list \<Rightarrow> string \<Rightarrow> bool" where
  "one_run events drawing \<longleftrightarrow>
     (\<forall>e \<in> set events. qualifies e \<and> text_of (ce_drawing_ref e) = drawing) \<and>
     2 \<le> length events \<and> length events \<le> 64"

fun occurrences_from :: "nat \<Rightarrow> cad_event list \<Rightarrow> occurrence list" where
  "occurrences_from n [] = []"
| "occurrences_from n (e # es) =
     \<lparr>oc_event_id = ce_event_id e, oc_command_name = text_of (ce_command_name e),
      oc_segment_sequence = int n\<rparr> # occurrences_from (Suc n) es"

lemma kept_commands: "\<forall>e \<in> set es. ce_event_type e = Cad_Command \<Longrightarrow> kept previous es = es"
  by (induction es arbitrary: previous) (auto simp: low_value_event_types_def)

lemma type_kept: "e \<in> set es \<Longrightarrow>
    (\<exists>k \<in> set (kept previous es). ce_event_type k = ce_event_type e) \<or> (\<exists>n. previous = Some (ce_event_type e, n))"
  by (induction es arbitrary: previous) fastforce+

lemma segments_by_event_from:
  assumes "distinct (map ce_event_id es)" and "\<forall>e \<in> set es. ce_event_id e \<notin> fst ` set m"
  shows "segments_by_event (segments_from start n es) m =
    Inr (rev (zip (map ce_event_id es) (segments_from start n es)) @ m)"
  using assms
proof (induction es arbitrary: n m)
  case (Cons e es)
  have "segments_by_event (segments_from start (Suc n) es) ((ce_event_id e, segment_of start n e) # m) =
      Inr (rev (zip (map ce_event_id es) (segments_from start (Suc n) es)) @ (ce_event_id e, segment_of start n e) # m)"
    using Cons.prems by (intro Cons.IH) (auto simp: image_iff)
  then show ?case using Cons.prems by (simp add: segment_of_def)
qed simp

lemma cad_units_from:
  assumes "\<forall>e \<in> set es. ce_event_type e = Cad_Command"
    and "\<forall>(i, s) \<in> set (zip (map ce_event_id es) (segments_from start n es)). map_of m i = Some s"
  shows "cad_units m (map (timeline_item_of start) es) =
    Inr (zip (map (timeline_item_of start) es) (segments_from start n es))"
  using assms by (induction es arbitrary: n) auto

lemma occurrences_of_units:
  "map occurrence_of (zip (map (timeline_item_of start) es) (segments_from start n es)) = occurrences_from n es"
  by (induction es arbitrary: n) (simp_all add: occurrence_of_def segment_of_def)

lemma run_derives:
  assumes "distinct (map ce_event_id events)" and "one_run events d"
  shows "derive_occurrences (result_of session_id events) =
    Inr (occurrences_from 1 (sort_key happened events), d, length events)"
proof -
  let ?es = "sort_key happened events" and ?start = "first_time events"
  let ?segs = "segments_from ?start 1 ?es"
  let ?units = "zip (map (timeline_item_of ?start) ?es) ?segs"
  have all: "\<forall>e \<in> set ?es. qualifies e \<and> text_of (ce_drawing_ref e) = d \<and> ce_event_type e = Cad_Command"
    using assms(2) unfolding one_run_def qualifies_def by auto
  then have rec: "recorded events = ?es" "filter qualifies ?es = ?es"
    by (simp_all add: recorded_def kept_commands)
  have dist: "distinct (map ce_event_id ?es)" using assms(1) by (simp add: distinct_map)
  have m: "segments_by_event ?segs [] = Inr (rev (zip (map ce_event_id ?es) ?segs))"
    using segments_by_event_from [OF dist, of "[]"] by simp
  have "map_of (rev (zip (map ce_event_id ?es) ?segs)) i = Some s"
    if "(i, s) \<in> set (zip (map ce_event_id ?es) ?segs)" for i s
    using that dist by (intro map_of_is_SomeI) (simp_all add: rev_map [symmetric] del: map_map)
  then have units: "cad_units (rev (zip (map ce_event_id ?es) ?segs)) (map (timeline_item_of ?start) ?es) = Inr ?units"
    using all by (intro cad_units_from) auto
  have drawing: "\<forall>u \<in> set ?units. os_drawing_ref (snd u) = d"
  proof
    fix u
    assume "u \<in> set ?units"
    then have "snd u \<in> set ?segs" by (metis prod.collapse set_zip_rightD)
    then show "os_drawing_ref (snd u) = d"
      using segments_from_in all by (fastforce simp: segment_of_def)
  qed
  have n: "length ?units = length events" by simp
  then have two: "2 \<le> length ?units" "length ?units \<le> 64" using assms(2) by (simp_all add: one_run_def)
  have runs: "qualifying_runs [] [] ?units = [?units]"
    using qualifying_runs_one_drawing [of "[]" ?units d "[]"] drawing two by simp
  have "hd ?units \<in> set ?units" using two by (intro hd_in_set) (metis list.size(3) not_numeral_le_zero)
  then have "set (map (os_drawing_ref \<circ> snd) ?units) = {d}"
    using drawing by (auto simp del: set_zip)
  then have one: "length (remdups (map (os_drawing_ref \<circ> snd) ?units)) = 1"
    by (simp add: length_remdups_card_conv)
  have head: "os_drawing_ref (snd (hd ?units)) = d"
    using drawing two by (metis hd_in_set length_0_conv not_numeral_le_zero)
  have "rv_timeline (result_of session_id events) = map (timeline_item_of ?start) ?es"
    "rv_operation_segments (result_of session_id events) = ?segs"
    by (simp_all add: result_of_def rec Let_def)
  then show ?thesis
    using m units runs one head two drawing n occurrences_of_units [of ?start ?es 1]
    by (simp add: derive_occurrences_def require_def Let_def list_all_iff)
qed

lemma derived_run:
  assumes "distinct (map ce_event_id events)"
    and derived: "derive_occurrences (result_of session_id events) = Inr (occ, d, n)"
  shows "one_run events d"
proof -
  let ?es = "sort_key happened events" and ?start = "first_time events"
  let ?r = "result_of session_id events"
  have g: "n = length occ" "2 \<le> n" "n \<le> 64" "list_all2 (grounded ?r d) (rv_timeline ?r) occ"
    using derive_occurrences_grounded [OF derived] by simp_all
  have timeline: "rv_timeline ?r = map (timeline_item_of ?start) (recorded events)"
    by (simp add: result_of_def Let_def)
  have item: "\<exists>x. grounded ?r d (timeline_item_of ?start e) x" if "e \<in> set (recorded events)" for e
    using g(4) that unfolding timeline by (auto simp: list_all2_map1 list_all2_conv_all_nth in_set_conv_nth)
  then have commands: "ce_event_type e = Cad_Command" if "e \<in> set (recorded events)" for e
    using that by (force simp: grounded_def)
  have "ce_event_type e = Cad_Command" if "e \<in> set events" for e
    using type_kept [of e ?es None] that commands by (auto simp: recorded_def)
  then have rec: "recorded events = ?es" by (simp add: recorded_def kept_commands)
  have "qualifies e \<and> text_of (ce_drawing_ref e) = d" if e: "e \<in> set events" for e
  proof -
    obtain s where s: "s \<in> set (rv_operation_segments ?r)" "os_source_event_ids s = [ce_event_id e]" "os_drawing_ref s = d"
      using item [of e] e rec by (force simp: grounded_def)
    then obtain k e' where e': "s = segment_of ?start k e'" "e' \<in> set ?es" "qualifies e'"
      using segments_from_in [of s ?start 1 "filter qualifies ?es"] rec by (auto simp: result_of_def Let_def)
    then have "e' = e"
      using s(2) e assms(1) by (auto simp: segment_of_def distinct_map inj_on_def)
    with e' s(3) show ?thesis by (simp add: segment_of_def)
  qed
  moreover have "length events = n"
    using list_all2_lengthD [OF g(4)] g(1) by (simp add: timeline rec)
  ultimately show ?thesis using g(2,3) by (simp add: one_run_def)
qed

end
