(* ===== verification/Worker_Properties.thy ===== *)
theory Worker_Properties
  imports Worker_Packages Worker_Derivation
begin

text \<open>The properties of the deterministic worker, from the uploaded package to the API.\<close>

section \<open>The reader\<close>

lemma event_line_ok:
  assumes "reads_canonical (coercions.truncate c)" and "event_line c raw = Inr e"
  shows "cad_event_ok e"
proof -
  obtain j where "cad_event_validate c j = Inr e"
    using assms(2) by (auto simp: event_line_def flow)
  moreover have "\<forall>j u. as_uuid c j = Some u \<longrightarrow> uuid_pattern u"
    using assms(1) by (simp add: reads_canonical_def coercions.truncate_def)
  moreover have "optional_str hi v = Inr (Some s) \<Longrightarrow> length s \<le> hi" for hi v s
    by (auto simp: optional_str_def split: option.splits json.splits if_splits)
  ultimately show ?thesis
    unfolding cad_event_validate_def cad_event_ok_def
    by (elim bindE_InrE) (auto simp: flow)
qed

lemma event_lines_ok:
  assumes "reads_canonical (coercions.truncate c)"
    and "event_lines c n s = Inr es"
  shows "(\<forall>e \<in> set es. cad_event_ok e) \<and> (es \<noteq> [] \<longrightarrow> length es + n \<le> max_event_lines + 1)"
  using assms
proof (induction c n s arbitrary: es rule: event_lines.induct)
  case (1 c n s)
  define raw where "raw = readline (max_event_line_bytes + 1) s"
  define rest where "rest = drop (length raw) s"
  have step: "event_lines c n s =
     (if n > max_event_lines + 1 then Inr [] else if raw = [] then Inr []
      else if length raw > max_event_line_bytes then Inl UnsafePackageError
      else if n > max_event_lines then Inl UnsafePackageError
      else if list_all is_ascii_space raw then event_lines c (n + 1) rest
      else bindE (event_line c raw) (\<lambda>e. bindE (event_lines c (n + 1) rest) (\<lambda>es. Inr (e # es))))"
    unfolding rest_def raw_def by (subst event_lines.simps) (simp only: Let_def)
  note IH = 1(1,2) [OF _ raw_def rest_def]
  consider "n > max_event_lines + 1 \<or> raw = []"
    | "\<not> n > max_event_lines + 1" "raw \<noteq> []" "\<not> length raw > max_event_line_bytes" "\<not> n > max_event_lines"
    using 1(4) unfolding step by (auto split: if_splits)
  then show ?case
  proof cases
    case none: 1
    then have "es = []" using \<open>event_lines c n s = Inr es\<close> unfolding step by (auto split: if_splits)
    then show ?thesis by simp
  next
    case ok: 2
    show ?thesis
    proof (cases "list_all is_ascii_space raw")
      case True
      then have "event_lines c (n + 1) rest = Inr es"
        using \<open>event_lines c n s = Inr es\<close> ok unfolding step by simp
      from IH(1) [OF ok True 1(3) this] show ?thesis by auto
    next
      case False
      then obtain e es' where e: "event_line c raw = Inr e" "event_lines c (n + 1) rest = Inr es'" "es = e # es'"
        using \<open>event_lines c n s = Inr es\<close> ok unfolding step by (auto simp: flow)
      from IH(2) [OF ok False 1(3) e(2)] e(3) ok(4) event_line_ok [OF 1(3) e(1)] show ?thesis
        by (cases es') auto
    qed
  qed
qed

lemma package_events_ok:
  assumes "reads_canonical (coercions.truncate c)" and "package_events c session_id zs = Inr es"
  shows "(\<forall>e \<in> set es. cad_event_ok e) \<and> length es \<le> 100000"
proof -
  have "es = [] \<or> (\<exists>s. event_lines c 1 s = Inr es)"
    using assms(2) unfolding package_events_def by (elim bindE_InrE) (auto split: option.splits)
  then show ?thesis
    using event_lines_ok [OF assms(1)] by (fastforce simp: max_event_lines_def)
qed

lemma process_events_v2_Inr:
  assumes "\<forall>e \<in> set events. cad_event_ok e" and "length events \<le> 100000" and "process_events_v2 session_id events = Inr r"
  shows "distinct (map ce_event_id events) \<and> comparable events \<and> publishable events \<and> r = result_of session_id events"
proof -
  have "distinct (map ce_event_id events)" "comparable events"
    using assms(3) by (auto simp: process_events_v2_def process_events_def build_timeline_def
        ordered_events_def flow split: if_splits)
  with process_events_v2_result [OF assms(1,2) this, of session_id] assms(3) show ?thesis
    by (simp split: if_splits)
qed

section \<open>The members\<close>

lemma split_on_not_Nil: "split_on ch s \<noteq> []"
  by (cases s) (auto split: list.split)

lemma split_on_step:
  "split_on ch s = q # qs \<Longrightarrow> qs \<noteq> [] \<Longrightarrow> \<exists>b. s = q @ ch # b \<and> qs = split_on ch b"
proof (induction s arbitrary: q)
  case (Cons x s)
  show ?case
  proof (cases "x = ch")
    case False
    then obtain p where "split_on ch s = p # qs" "q = x # p"
      using Cons.prems(1) split_on_not_Nil [of ch s] by (auto split: list.splits)
    with Cons.IH Cons.prems(2) show ?thesis by fastforce
  qed (use Cons.prems in auto)
qed simp

lemma split_on_component:
  "p \<in> set (butlast (split_on ch s)) \<Longrightarrow> \<exists>a b. s = a @ p @ ch # b \<and> (a = [] \<or> last a = ch)"
proof (induction "split_on ch s" arbitrary: s)
  case (Cons q qs)
  then have "qs \<noteq> []" by (metis butlast.simps(2) empty_iff list.set(1))
  then obtain b where b: "s = q @ ch # b" "qs = split_on ch b"
    using split_on_step Cons.hyps(2) by metis
  show ?case
  proof (cases "p = q")
    case True
    with b show ?thesis by blast
  next
    case False
    then have "p \<in> set (butlast (split_on ch b))"
      using Cons.prems b \<open>qs \<noteq> []\<close> by (metis Cons.hyps(2) butlast.simps(2) set_ConsD)
    from Cons.hyps(1) [OF b(2) this] obtain a b' where "b = a @ p @ ch # b'" "a = [] \<or> last a = ch"
      by blast
    with b show ?thesis by (intro exI [of _ "q @ ch # a"] exI [of _ b']) auto
  qed
qed (use split_on_not_Nil in metis)

lemma occurs_in_middle: "occurs_in p (a @ p @ b)"
proof (induction a)
  case Nil
  show ?case
  proof (cases "p @ b")
    case (Cons x xs)
    then have "startswith (x # xs) p" by (metis append_eq_conv_conj startswith_def)
    with Cons show ?thesis by simp
  qed simp
qed simp

lemma safe_path_components:
  assumes "\<not> unsafe_path s"
  shows "hd (s @ ''.'') \<noteq> CHR ''/'' \<and> ''..'' \<notin> set (butlast (split_on CHR ''/'' s))"
proof -
  have "hd (s @ ''.'') \<noteq> CHR ''/''"
    using assms by (cases s) (auto simp: unsafe_path_def startswith_def)
  moreover have False if up: "''..'' \<in> set (butlast (split_on CHR ''/'' s))"
  proof -
    obtain a b where s: "s = a @ ''..'' @ CHR ''/'' # b" "a = [] \<or> last a = CHR ''/''"
      using split_on_component [OF up] by blast
    show False
    proof (cases a rule: rev_cases)
      case Nil
      with s assms show ?thesis by (auto simp: unsafe_path_def startswith_def)
    next
      case (snoc a' x)
      with s have "s = a' @ ''/../'' @ b" by simp
      with assms show ?thesis using occurs_in_middle unfolding unsafe_path_def by blast
    qed
  qed
  ultimately show ?thesis by blast
qed


section \<open>Properties\<close>

text \<open>C22: What the worker publishes the API reads. Whatever package the worker turns into a version 2
  result, the JSON of the result passes the API's validators, which read the same result back: its
  segments are numbered, ordered and disjoint, and each rests on events of the timeline.\<close>

theorem worker_result_reads_at_the_api:
  assumes "reads_numbers (coercions.truncate c) num" and "uuid_pattern session_id"
    and "process_package_v2 c session_id zs = Inr r"
  shows "result_v2_validate (coercions.truncate c) (result_v2_dump num r) = Inr r \<and>
    validate_operation_segments r = Inr () \<and> rv_session_id r = session_id"
proof -
  have can: "reads_canonical (coercions.truncate c)" using assms(1) by (simp add: reads_numbers_def)
  obtain events where e: "package_events c session_id zs = Inr events" "process_events_v2 session_id events = Inr r"
    using assms(3) by (auto simp: process_package_v2_def flow)
  note ok = package_events_ok [OF can e(1)]
  note r = process_events_v2_Inr [OF conjunct1 [OF ok] conjunct2 [OF ok] e(2)]
  then show ?thesis
    using result_reads [of events _ num session_id] ok assms(1,2) segments_of_recorded_valid [of events session_id]
    by (auto simp: result_of_def Let_def)
qed

text \<open>C23: The timeline is the session. From a readable package the worker makes a version 2 result
  exactly when the identifiers of the events are distinct, their times are comparable, at most
  a thousand recorded events are commands with a name and a drawing, and none of these commands lies more than
  seven days after the first event; its timeline lists events of the package in the order of their times, each
  once, with their offsets from the first.\<close>

theorem worker_result_exists_exactly:
  assumes "reads_canonical (coercions.truncate c)" and "package_events c session_id zs = Inr events"
  shows "(returns (process_package_v2 c session_id zs) \<longleftrightarrow>
      distinct (map ce_event_id events) \<and> comparable events \<and> publishable events) \<and>
    (\<forall>r. process_package_v2 c session_id zs = Inr r \<longrightarrow>
      rv_timeline r = map (timeline_item_of (first_time events)) (recorded events) \<and>
      sorted (map happened (recorded events)) \<and> set (recorded events) \<subseteq> set events \<and>
      distinct (map ti_source_event_id (rv_timeline r)))"
proof -
  note ok = package_events_ok [OF assms]
  have all: "process_package_v2 c session_id zs = process_events_v2 session_id events"
    using assms(2) by (simp add: process_package_v2_def)
  have iff: "returns (process_events_v2 session_id events) \<longleftrightarrow>
      distinct (map ce_event_id events) \<and> comparable events \<and> publishable events"
    using process_events_v2_Inr [of events session_id] process_events_v2_result [of events session_id] ok
    by (auto simp: returns_iff)
  have "rv_timeline r = map (timeline_item_of (first_time events)) (recorded events) \<and>
      distinct (map ti_source_event_id (rv_timeline r))"
    if "process_events_v2 session_id events = Inr r" for r
    using process_events_v2_Inr [OF _ _ that] ok distinct_recorded [of events]
    by (auto simp: result_of_def Let_def comp_def)
  with iff sorted_recorded set_recorded show ?thesis unfolding all by blast
qed

text \<open>C24: A recorded run becomes a candidate. From the worker's result of a readable package the API
  derives a candidate exactly when the session consists of two to sixty-four commands with metadata
  on one drawing and of nothing else; the occurrences are then the commands in the order of their
  times.\<close>

theorem recorded_run_is_publishable:
  assumes "reads_canonical (coercions.truncate c)" and "package_events c session_id zs = Inr events"
    and "process_package_v2 c session_id zs = Inr r"
  shows "derive_occurrences r = Inr (occ, drawing, n) \<longleftrightarrow>
    one_run events drawing \<and> n = length events \<and> occ = occurrences_from 1 (sort_key happened events)"
proof -
  note ok = package_events_ok [OF assms(1,2)]
  have "process_events_v2 session_id events = Inr r"
    using assms(2,3) by (simp add: process_package_v2_def)
  note r = process_events_v2_Inr [OF conjunct1 [OF ok] conjunct2 [OF ok] this]
  then have run: "derive_occurrences r =
      Inr (occurrences_from 1 (sort_key happened events), drawing, length events)"
    if "one_run events drawing"
    using run_derives that by blast
  moreover have "one_run events drawing" if "derive_occurrences r = Inr (occ, drawing, n)"
    using derived_run r that by blast
  ultimately show ?thesis by auto
qed

lemma split_on_append: "split_on ch (a @ ch # b) = split_on ch a @ split_on ch b"
  by (induction a) (auto simp: split_on_not_Nil split: list.splits)

lemma split_on_single: "split_on ch s = [p] \<Longrightarrow> s = p"
  by (induction s arbitrary: p) (auto simp: split_on_not_Nil split: list.splits if_splits)

lemma occurs_in_split: "occurs_in p s \<Longrightarrow> \<exists>a b. s = a @ p @ b"
proof (induction s)
  case (Cons x s)
  show ?case
  proof (cases "startswith (x # s) p")
    case True
    then have "x # s = [] @ p @ drop (length p) (x # s)" by (metis append_Nil append_take_drop_id startswith_def)
    then show ?thesis by blast
  next
    case False
    with Cons obtain a b where "s = a @ p @ b" by auto
    then have "x # s = (x # a) @ p @ b" by simp
    then show ?thesis by blast
  qed
qed simp

text \<open>The components of a member's path, the paths that are accepted, and how deep below the target
  directory a path leads: \<open>None\<close> when it leads out of it on the way.\<close>

definition member_path :: "zip_member \<Rightarrow> string list" where
  "member_path z = split_on CHR ''/'' (slashed (zm_filename z))"

definition accepted_path :: "string list \<Rightarrow> bool" where
  "accepted_path cs \<longleftrightarrow>
     cs \<noteq> [''..''] \<and> ''..'' \<notin> set (butlast cs) \<and> (hd cs \<noteq> [] \<or> tl cs = [])"

fun path_depth :: "nat \<Rightarrow> string list \<Rightarrow> nat option" where
  "path_depth d [] = Some d"
| "path_depth d (c # cs) =
     (if c = ''..'' then (case d of 0 \<Rightarrow> None | Suc e \<Rightarrow> path_depth e cs)
      else if c = [] \<or> c = ''.'' then path_depth d cs
      else path_depth (Suc d) cs)"

lemma unsafe_path_components: "unsafe_path s \<longleftrightarrow> \<not> accepted_path (split_on CHR ''/'' s)"
proof
  assume "\<not> accepted_path (split_on CHR ''/'' s)"
  then show "unsafe_path s"
  proof (rule contrapos_np)
    assume safe: "\<not> unsafe_path s"
    then have "split_on CHR ''/'' s \<noteq> [''..'']"
      using split_on_single by (auto simp: unsafe_path_def)
    moreover have "hd (split_on CHR ''/'' s) \<noteq> [] \<or> tl (split_on CHR ''/'' s) = []"
      using safe_path_components [OF safe] by (cases s) (auto split: list.splits)
    ultimately show "accepted_path (split_on CHR ''/'' s)"
      using safe_path_components [OF safe] by (simp add: accepted_path_def)
  qed
next
  assume "unsafe_path s"
  then consider b where "s = ''/'' @ b" | b where "s = ''../'' @ b" | "s = ''..''" | a b where "s = a @ ''/../'' @ b"
    using occurs_in_split unfolding unsafe_path_def startswith_def by (metis append_take_drop_id)
  then show "\<not> accepted_path (split_on CHR ''/'' s)"
  proof cases
    case 4
    then have "split_on CHR ''/'' s = split_on CHR ''/'' a @ ''..'' # split_on CHR ''/'' b"
      using split_on_append [of "CHR ''/''" a "''../'' @ b"] split_on_append [of "CHR ''/''" "''..''" b] by simp
    then show ?thesis by (simp add: accepted_path_def butlast_append split_on_not_Nil)
  qed (auto simp: accepted_path_def split_on_not_Nil)
qed

lemma path_depth_down:
  "''..'' \<notin> set cs \<Longrightarrow> path_depth d cs = Some (d + length (filter (\<lambda>c. c \<noteq> [] \<and> c \<noteq> ''.'') cs))"
  by (induction cs arbitrary: d) auto

lemma path_depth_append:
  "path_depth d (xs @ ys) = Option.bind (path_depth d xs) (\<lambda>e. path_depth e ys)"
  by (induction d xs rule: path_depth.induct) (auto split: nat.splits)

lemma accepted_path_depth:
  assumes "accepted_path cs" and "cs \<noteq> []"
  shows "path_depth 0 (butlast cs) \<noteq> None"
    and "path_depth 0 cs = None \<longleftrightarrow> last cs = ''..'' \<and> set (butlast cs) \<subseteq> {[], ''.''}"
proof -
  have down: "path_depth 0 (butlast cs) = Some (length (filter (\<lambda>c. c \<noteq> [] \<and> c \<noteq> ''.'') (butlast cs)))"
    using assms(1) path_depth_down [of "butlast cs" 0] by (simp add: accepted_path_def)
  then show "path_depth 0 (butlast cs) \<noteq> None" by simp
  have "path_depth 0 cs = path_depth (length (filter (\<lambda>c. c \<noteq> [] \<and> c \<noteq> ''.'') (butlast cs))) [last cs]"
    using path_depth_append [of 0 "butlast cs" "[last cs]"] assms(2) down by simp
  moreover have "filter (\<lambda>c. c \<noteq> [] \<and> c \<noteq> ''.'') (butlast cs) = [] \<longleftrightarrow> set (butlast cs) \<subseteq> {[], ''.''}"
    by (auto simp: filter_empty_conv)
  ultimately show "path_depth 0 cs = None \<longleftrightarrow> last cs = ''..'' \<and> set (butlast cs) \<subseteq> {[], ''.''}"
    by (cases "filter (\<lambda>c. c \<noteq> [] \<and> c \<noteq> ''.'') (butlast cs)") simp_all
qed

lemma member_loop_exactly:
  "member_loop m zs =
     (if \<forall>z \<in> set zs. zm_file_size z \<le> max_member_bytes \<and> accepted_path (member_path z)
      then Inr (m(map (\<lambda>z. slashed (zm_filename z)) zs [\<mapsto>] zs)) else Inl UnsafePackageError)"
  by (induction m zs rule: member_loop.induct) (simp_all add: Let_def unsafe_path_components member_path_def not_less del: fun_upd_apply)

text \<open>C25: The package reader accepts an archive exactly when it has at most ten thousand members of
  together at most 512 MiB, and each member has at most 100 MiB and a relative path (with forward
  slashes) that is not \<open>..\<close> and has no \<open>..\<close> before its last component. It then looks members up under these
  paths, the last of several members with one path; every other archive is refused with the error of
  unsafe packages. The directory part of an accepted path never leads out of the
  target directory, and the whole path does so in one case only: its last component is \<open>..\<close> behind
  nothing but \<open>.\<close> and empty components.\<close>

theorem packages_are_accepted_exactly:
  "validated_members zs =
     (if length zs \<le> 10000 \<and> sum_list (map zm_file_size zs) \<le> 536870912 \<and>
         (\<forall>z \<in> set zs. zm_file_size z \<le> 104857600 \<and> accepted_path (member_path z))
      then Inr (Map.empty(map (\<lambda>z. slashed (zm_filename z)) zs [\<mapsto>] zs))
      else Inl UnsafePackageError) \<and>
   (accepted_path (member_path z) \<longrightarrow>
      path_depth 0 (butlast (member_path z)) \<noteq> None \<and>
      (path_depth 0 (member_path z) = None \<longleftrightarrow>
         last (member_path z) = ''..'' \<and> set (butlast (member_path z)) \<subseteq> {[], ''.''}))"
  using accepted_path_depth [of "member_path z"]
  by (simp add: validated_members_def member_loop_exactly max_members_def max_total_bytes_def
      max_member_bytes_def member_path_def split_on_not_Nil)

end
