(* ===== verification/Worker_Witnesses.thy ===== *)
theory Worker_Witnesses
  imports Worker_Properties Publication_Samples
begin

text \<open>The properties of the worker at a package of two commands that were captured out of order.\<close>

text \<open>A datetime is read from whole seconds since the epoch; floats are whole microseconds.\<close>

definition whole_numbers :: event_coercions where
  "whole_numbers =
     \<lparr>as_uuid = as_uuid plain_coercions, as_int = as_int plain_coercions,
      as_seconds = (\<lambda>j. case j of JInt i \<Rightarrow> Some (Some i) | _ \<Rightarrow> None),
      as_uuid_text = as_uuid plain_coercions,
      as_datetime = (\<lambda>j. case j of JInt i \<Rightarrow> Some (utc (i * 1000000)) | _ \<Rightarrow> None)\<rparr>"

definition microseconds :: "int option \<Rightarrow> json" where
  "microseconds t = (case t of Some us \<Rightarrow> JInt us | None \<Rightarrow> JNull)"

definition event_json :: "char \<Rightarrow> int \<Rightarrow> string \<Rightarrow> json" where
  "event_json ch secs command = JObj
     [(''event_id'', JStr (uuid_of ch)), (''occurred_at'', JInt secs),
      (''event_type'', JStr ''cad_command''), (''source'', JStr ''autocad''),
      (''command_name'', JStr command), (''drawing_ref'', JStr ''d.dwg'')]"

definition demo_lines :: string where
  "demo_lines = print False (event_json CHR ''1'' 7 ''LINE'') @ [newline, newline] @
     print False (event_json CHR ''3'' 5 ''ARC'')"

definition demo_package :: "zip_member list" where
  "demo_package =
     [\<lparr>zm_filename = ''metadata.json'', zm_file_size = 100,
       zm_content = print False (JObj [(''session_id'', JStr (uuid_of CHR ''2'')), (''schema_version'', JStr ''1.0'')])\<rparr>,
      \<lparr>zm_filename = ''events.jsonl'', zm_file_size = 400, zm_content = demo_lines\<rparr>]"

definition demo_event :: "char \<Rightarrow> int \<Rightarrow> string \<Rightarrow> cad_event" where
  "demo_event ch secs command =
     \<lparr>ce_event_id = uuid_of ch, ce_occurred_at = utc (secs * 1000000), ce_event_type = Cad_Command,
      ce_source = Autocad, ce_command_name = Some command, ce_drawing_ref = Some ''d.dwg'', ce_details = []\<rparr>"

definition demo_events :: "cad_event list" where
  "demo_events = [demo_event CHR ''1'' 7 ''LINE'', demo_event CHR ''3'' 5 ''ARC'']"

lemma whole_numbers_laws: "reads_numbers (coercions.truncate whole_numbers) microseconds"
  by (auto simp: reads_numbers_def reads_canonical_def whole_numbers_def coercions.truncate_def
      plain_coercions_def microseconds_def split: json.splits if_splits)

lemma demo_line_1: "event_line whole_numbers (print False (event_json CHR ''1'' 7 ''LINE'') @ [newline]) =
    Inr (demo_event CHR ''1'' 7 ''LINE'')"
  by code_simp

lemma demo_line_3: "event_line whole_numbers (print False (event_json CHR ''3'' 5 ''ARC'')) =
    Inr (demo_event CHR ''3'' 5 ''ARC'')"
  by code_simp

definition line_text :: "string \<Rightarrow> bool" where
  "line_text s \<longleftrightarrow> newline \<notin> set s \<and> s \<noteq> [] \<and> length s \<le> 300"

lemma demo_line_texts: "line_text (print False (event_json CHR ''1'' 7 ''LINE''))"
  "line_text (print False (event_json CHR ''3'' 5 ''ARC''))"
  by code_simp+

lemma readline_line:
  assumes "newline \<notin> set s" and "length s \<le> 300"
  shows "readline 262145 (s @ newline # t) = s @ [newline]" "readline 262145 s = s"
proof -
  have "takeWhile (\<lambda>ch. ch \<noteq> newline) (s @ newline # t) = s" "takeWhile (\<lambda>ch. ch \<noteq> newline) s = s"
    using assms(1) by (auto simp: takeWhile_append takeWhile_eq_all_conv)
  note this [simp]
  from assms(2) show "readline 262145 (s @ newline # t) = s @ [newline]" "readline 262145 s = s"
    by (simp_all add: readline_def)
qed

lemma event_lines_event:
  assumes "n \<le> 100000" and "readline 262145 s = raw" and "raw \<noteq> []" and "length raw \<le> 262144"
    and "event_line c raw = Inr e" and "\<not> list_all is_ascii_space raw"
  shows "event_lines c n s = bindE (event_lines c (n + 1) (drop (length raw) s)) (\<lambda>es. Inr (e # es))"
  using assms by (subst event_lines.simps)
    (simp add: max_event_lines_def max_event_line_bytes_def Let_def)

lemma event_lines_end: "n \<le> 100000 \<Longrightarrow> event_lines c n [] = Inr []"
  by (subst event_lines.simps) (simp add: readline_def max_event_lines_def)

lemma event_lines_blank: "n \<le> 100000 \<Longrightarrow> event_lines c n (newline # s) = event_lines c (n + 1) s"
proof -
  assume "n \<le> 100000"
  moreover have "readline 262145 (newline # s) = [newline]" using readline_line(1) [of "[]" s] by simp
  moreover have "is_ascii_space newline" by code_simp
  ultimately show ?thesis
    by (subst event_lines.simps) (simp add: max_event_lines_def max_event_line_bytes_def Let_def)
qed

lemma demo_not_blank: "\<not> list_all is_ascii_space (print False (event_json CHR ''1'' 7 ''LINE'') @ [newline])"
  "\<not> list_all is_ascii_space (print False (event_json CHR ''3'' 5 ''ARC''))"
  by code_simp+

lemma demo_event_lines: "event_lines whole_numbers 1 demo_lines = Inr demo_events"
proof -
  let ?a = "print False (event_json CHR ''1'' 7 ''LINE'')" and ?b = "print False (event_json CHR ''3'' 5 ''ARC'')"
  have lt: "newline \<notin> set ?a" "length ?a \<le> 300" "newline \<notin> set ?b" "length ?b \<le> 300" "?b \<noteq> []"
    using demo_line_texts by (simp_all add: line_text_def)
  have "event_lines whole_numbers 3 ?b = Inr [demo_event CHR ''3'' 5 ''ARC'']"
    using event_lines_event [OF _ readline_line(2) [OF lt(3,4)] lt(5) _ demo_line_3 demo_not_blank(2), of 3]
      lt(4) by (simp add: event_lines_end)
  moreover have "event_lines whole_numbers 2 (newline # ?b) = event_lines whole_numbers 3 ?b"
    by (simp add: event_lines_blank)
  ultimately show ?thesis
    using event_lines_event [OF _ readline_line(1) [OF lt(1,2), of "newline # ?b"] _ _ demo_line_1 demo_not_blank(1), of 1]
      lt(2) by (simp add: demo_lines_def demo_events_def numeral_2_eq_2)
qed

lemma demo_metadata: "validate_metadata_binding whole_numbers (Some (hd demo_package)) (uuid_of CHR ''2'') = Inr ()"
proof -
  let ?m = "print False (JObj [(''session_id'', JStr (uuid_of CHR ''2'')), (''schema_version'', JStr ''1.0'')])"
  have "decoded_json ?m = Inr (JObj [(''session_id'', JStr (uuid_of CHR ''2'')), (''schema_version'', JStr ''1.0'')])"
    "as_uuid plain_coercions (JStr (uuid_of CHR ''2'')) = Some (uuid_of CHR ''2'')" "length ?m \<le> 300"
    by code_simp+
  then show ?thesis
    by (simp add: validate_metadata_binding_def demo_package_def max_metadata_bytes_def jget_def
        whole_numbers_def)
qed

lemma demo_package_events: "package_events whole_numbers (uuid_of CHR ''2'') demo_package = Inr demo_events"
proof -
  have "\<not> unsafe_path (slashed ''metadata.json'')" "\<not> unsafe_path (slashed ''events.jsonl'')"
    "slashed ''metadata.json'' = ''metadata.json''" "slashed ''events.jsonl'' = ''events.jsonl''"
    by code_simp+
  then have "validated_members demo_package =
      Inr [''metadata.json'' \<mapsto> hd demo_package, ''events.jsonl'' \<mapsto> demo_package ! 1]"
    by (simp add: validated_members_def demo_package_def max_members_def max_total_bytes_def
        max_member_bytes_def Let_def)
  then show ?thesis
    using demo_metadata demo_event_lines
    by (simp add: package_events_def) (simp add: demo_package_def)
qed

lemma demo_ids: "uuid_pattern (uuid_of CHR ''1'')" "uuid_pattern (uuid_of CHR ''2'')" "uuid_pattern (uuid_of CHR ''3'')"
  by code_simp+

lemma whole_numbers_reads: "reads_canonical (coercions.truncate whole_numbers)"
  using whole_numbers_laws by (simp add: reads_numbers_def)

lemma demo_sorted: "sort_key happened demo_events = [demo_event CHR ''3'' 5 ''ARC'', demo_event CHR ''1'' 7 ''LINE'']"
  by (simp add: demo_events_def sort_key_def demo_event_def happened_def)

lemma demo_first_time: "first_time demo_events = 5000000"
  by (simp add: first_time_def demo_sorted) (simp add: demo_event_def happened_def)

lemma demo_recorded: "recorded demo_events = [demo_event CHR ''3'' 5 ''ARC'', demo_event CHR ''1'' 7 ''LINE'']"
  by (simp add: recorded_def demo_sorted kept_commands) (simp add: demo_event_def low_value_event_types_def)

lemma demo_worker_result: "process_package_v2 whole_numbers (uuid_of CHR ''2'') demo_package =
    Inr (result_of (uuid_of CHR ''2'') demo_events)"
proof -
  have "cad_event_ok e" if "e \<in> set demo_events" for e
    using that demo_ids by (auto simp: demo_events_def demo_event_def cad_event_ok_def)
  moreover have "distinct (map ce_event_id demo_events)" "comparable demo_events" "length demo_events \<le> 100000"
    by (simp_all add: demo_events_def demo_event_def comparable_def aware_def uuid_of_def)
  moreover have "length (recorded demo_events) \<le> 1000"
    using length_recorded [of demo_events] by (simp add: demo_events_def)
  then have "length (filter qualifies (recorded demo_events)) \<le> max_operation_segments"
    using length_filter_le le_trans unfolding max_operation_segments_def by blast
  moreover have "offset_of (first_time demo_events) e \<le> max_offset_us" if "e \<in> set (recorded demo_events)" for e
  proof -
    have "e \<in> set demo_events" using that set_recorded by blast
    then show ?thesis
      by (auto simp: offset_of_def max_offset_us_def demo_first_time) (auto simp: demo_events_def demo_event_def happened_def)
  qed
  ultimately show ?thesis
    using process_events_v2_result [of demo_events "uuid_of CHR ''2''"]
    by (simp add: process_package_v2_def demo_package_events publishable_def)
qed

section \<open>Witnesses\<close>

lemma worker_result_reads_at_the_api_witness:
  "result_v2_validate (coercions.truncate whole_numbers)
      (result_v2_dump microseconds (result_of (uuid_of CHR ''2'') demo_events)) =
    Inr (result_of (uuid_of CHR ''2'') demo_events)"
  using worker_result_reads_at_the_api [OF whole_numbers_laws demo_ids(2) demo_worker_result] by blast

lemma worker_result_exists_exactly_witness:
  "map ti_offset (rv_timeline (result_of (uuid_of CHR ''2'') demo_events)) = [Some 0, Some 2000000]"
  using worker_result_exists_exactly [OF whole_numbers_reads demo_package_events] demo_worker_result
  by (simp add: demo_recorded demo_first_time) (simp add: demo_event_def offset_of_def happened_def)

lemma recorded_run_is_publishable_witness:
  "derive_occurrences (result_of (uuid_of CHR ''2'') demo_events) =
     Inr ([\<lparr>oc_event_id = uuid_of CHR ''3'', oc_command_name = ''ARC'', oc_segment_sequence = 1\<rparr>,
       \<lparr>oc_event_id = uuid_of CHR ''1'', oc_command_name = ''LINE'', oc_segment_sequence = 2\<rparr>], ''d.dwg'', 2)"
proof -
  have "one_run demo_events ''d.dwg''"
    by (auto simp: one_run_def demo_events_def demo_event_def qualifies_def text_of_def) code_simp+
  then show ?thesis
    by (subst recorded_run_is_publishable [OF whole_numbers_reads demo_package_events demo_worker_result])
      (simp add: demo_sorted, simp add: demo_events_def demo_event_def text_of_def)
qed

theorem packages_are_accepted_exactly_witness:
  "validated_members [\<lparr>zm_filename = ''a/b'', zm_file_size = 1, zm_content = ''x''\<rparr>,
      \<lparr>zm_filename = ''./..'', zm_file_size = 0, zm_content = []\<rparr>] =
    Inr [''a/b'' \<mapsto> \<lparr>zm_filename = ''a/b'', zm_file_size = 1, zm_content = ''x''\<rparr>,
      ''./..'' \<mapsto> \<lparr>zm_filename = ''./..'', zm_file_size = 0, zm_content = []\<rparr>] \<and>
   path_depth 0 (member_path \<lparr>zm_filename = ''./..'', zm_file_size = 0, zm_content = []\<rparr>) = None \<and>
   validated_members [\<lparr>zm_filename = ''a/../b'', zm_file_size = 1, zm_content = ''x''\<rparr>] = Inl UnsafePackageError"
  using packages_are_accepted_exactly [where zs = "[\<lparr>zm_filename = ''a/b'', zm_file_size = 1, zm_content = ''x''\<rparr>,
        \<lparr>zm_filename = ''./..'', zm_file_size = 0, zm_content = []\<rparr>]"
      and z = "\<lparr>zm_filename = ''./..'', zm_file_size = 0, zm_content = []\<rparr>"]
    packages_are_accepted_exactly [where zs = "[\<lparr>zm_filename = ''a/../b'', zm_file_size = 1, zm_content = ''x''\<rparr>]"]
  by (simp add: member_path_def accepted_path_def slashed_def)

end
