(* ===== verification/Identity.thy ===== *)
theory Identity
  imports Control_Auth
begin

text \<open>
  \<open>identity.py\<close>: from verified identity evidence to a principal. The authenticator is supplied by
  the server; here it is the result it returns or raises. Every validator is translated with its
  checks in order, and \<open>authenticate_principal\<close> maps every failure to \<open>IdentityRejectedError\<close>.
\<close>

section \<open>Data\<close>

datatype assurance = SingleFactor | MultiFactor
datatype factor = Knowledge | Possession | Inherence
datatype auth_method = Password | Totp | SecurityKey | PlatformBiometric

fun method_factor :: "auth_method \<Rightarrow> factor" where
  "method_factor Password = Knowledge"
| "method_factor Totp = Possession"
| "method_factor SecurityKey = Possession"
| "method_factor PlatformBiometric = Inherence"

record authentication_context =
  ctx_assurance :: assurance
  ctx_methods :: "auth_method list"

record evidence =
  ev_subject :: string
  ev_groups :: "string list"
  ev_context :: authentication_context
  ev_scope :: scope

record group_binding =
  gb_group :: string
  gb_roles :: "control_role list"

record scope_binding =
  sb_subject :: string
  sb_scope :: scope

definition max_groups :: nat where "max_groups = 32"
definition max_bindings :: nat where "max_bindings = 64"
definition max_methods :: nat where "max_methods = 4"
definition max_scope_bindings :: nat where "max_scope_bindings = 128"

definition group_char :: "char \<Rightarrow> bool" where
  "group_char c =
     (is_lower c \<or> is_upper c \<or> is_digit c \<or> c \<in> {CHR ''.'', CHR ''_'', CHR '':'', CHR ''-''})"

definition group_pattern :: "string \<Rightarrow> bool" where
  "group_pattern s = ident_pattern (\<lambda>c. is_lower c \<or> is_upper c \<or> is_digit c) group_char 2 127 s"

section \<open>Validation\<close>

definition validate_authentication_context :: "authentication_context \<Rightarrow> exn + unit" where
  "validate_authentication_context c =
     bindE (require (ctx_assurance c = MultiFactor) ValueError) (\<lambda>_.
     bindE (require (2 \<le> length (ctx_methods c) \<and> length (ctx_methods c) \<le> max_methods)
       ValueError) (\<lambda>_.
     bindE (require (distinct (ctx_methods c)) ValueError) (\<lambda>_.
     let factors = method_factor ` set (ctx_methods c) in
     require (\<not> card factors < 2) ValueError)))"

definition validate_verified_evidence :: "evidence \<Rightarrow> exn + unit" where
  "validate_verified_evidence e =
     bindE (require (subject_pattern (ev_subject e)) ValueError) (\<lambda>_.
     bindE (require (1 \<le> length (ev_groups e) \<and> length (ev_groups e) \<le> max_groups) ValueError)
       (\<lambda>_.
     bindE (require (list_all group_pattern (ev_groups e)) ValueError) (\<lambda>_.
     bindE (require (distinct (ev_groups e)) ValueError) (\<lambda>_.
     bindE (validate_authentication_context (ev_context e)) (\<lambda>_.
     validate_scope (ev_scope e))))))"

definition validate_binding :: "group_binding \<Rightarrow> exn + unit" where
  "validate_binding b =
     bindE (require (group_pattern (gb_group b)) ValueError) (\<lambda>_.
     bindE (require (gb_roles b \<noteq> []) ValueError) (\<lambda>_.
     bindE (require (distinct (gb_roles b)) ValueError) (\<lambda>_.
     bindE (make_principal ''mapping-validation'' (set (gb_roles b)) None) (\<lambda>_. Inr ()))))"

definition validate_mapping :: "group_binding list \<Rightarrow> exn + unit" where
  "validate_mapping m =
     bindE (require (1 \<le> length m \<and> length m \<le> max_bindings) ValueError) (\<lambda>_.
     bindE (forE validate_binding m) (\<lambda>_.
     require (distinct (map gb_group m)) ValueError))"

definition validate_scope_binding :: "scope_binding \<Rightarrow> exn + unit" where
  "validate_scope_binding b =
     bindE (require (subject_pattern (sb_subject b)) ValueError) (\<lambda>_.
     validate_scope (sb_scope b))"

definition validate_scope_policy :: "scope_binding list \<Rightarrow> exn + unit" where
  "validate_scope_policy m =
     bindE (require (1 \<le> length m \<and> length m \<le> max_scope_bindings) ValueError) (\<lambda>_.
     bindE (forE validate_scope_binding m) (\<lambda>_.
     require (distinct (map sb_subject m)) ValueError))"

section \<open>Authentication\<close>

text \<open>A dict comprehension over a list: a later entry for a key overwrites.\<close>

definition dict_of :: "('k \<times> 'v) list \<Rightarrow> 'k \<Rightarrow> 'v option" where
  "dict_of xs = map_of (rev xs)"

fun resolve_roles ::
  "(string \<Rightarrow> control_role list option) \<Rightarrow> string list \<Rightarrow> control_role set \<Rightarrow> exn + control_role set"
where
  "resolve_roles by_group [] R = Inr R"
| "resolve_roles by_group (g # gs) R =
     (case by_group g of
        None \<Rightarrow> Inl ValueError
      | Some rs \<Rightarrow> resolve_roles by_group gs (R \<union> set rs))"

definition authenticate_principal ::
  "exn + evidence \<Rightarrow> group_binding list \<Rightarrow> scope_binding list \<Rightarrow> exn + principal" where
  "authenticate_principal authenticated mapping policy =
     except (\<lambda>_. True) IdentityRejectedError
      (bindE (validate_mapping mapping) (\<lambda>_.
       bindE (validate_scope_policy policy) (\<lambda>_.
       bindE authenticated (\<lambda>ev.
       bindE (validate_verified_evidence ev) (\<lambda>_.
       let roles_by_group = dict_of (map (\<lambda>b. (gb_group b, gb_roles b)) mapping) in
       bindE (resolve_roles roles_by_group (ev_groups ev) {}) (\<lambda>resolved.
       bindE (require (resolved \<noteq> {}) ValueError) (\<lambda>_.
       let scopes_by_subject = dict_of (map (\<lambda>b. (sb_subject b, sb_scope b)) policy) in
       case scopes_by_subject (ev_subject ev) of
         None \<Rightarrow> Inl ValueError
       | Some allowed_scope \<Rightarrow>
           if allowed_scope \<noteq> ev_scope ev then Inl ValueError
           else make_principal (ev_subject ev) resolved (Some allowed_scope))))))))"

section \<open>Lemmas\<close>

lemma dict_of_distinct:
  "distinct (map fst xs) \<Longrightarrow> dict_of xs k = Some v \<longleftrightarrow> (k, v) \<in> set xs"
  by (simp add: dict_of_def map_of_eq_Some_iff rev_map [symmetric])

lemma resolve_roles_Inr:
  "resolve_roles f gs R = Inr R' \<longleftrightarrow>
     (\<forall>g \<in> set gs. f g \<noteq> None) \<and> R' = R \<union> (\<Union>g \<in> set gs. set (the (f g)))"
  by (induction gs arbitrary: R) (auto split: option.splits)

lemma validate_context_Inr [flow]:
  "validate_authentication_context c = Inr u \<longleftrightarrow>
     ctx_assurance c = MultiFactor \<and> 2 \<le> length (ctx_methods c) \<and>
     length (ctx_methods c) \<le> max_methods \<and> distinct (ctx_methods c) \<and>
     2 \<le> card (method_factor ` set (ctx_methods c))"
  by (auto simp: validate_authentication_context_def flow Let_def)

lemma two_factors:
  assumes "2 \<le> card (method_factor ` set ms)"
  shows "\<exists>m \<in> set ms. \<exists>m' \<in> set ms. method_factor m \<noteq> method_factor m'"
proof (rule ccontr)
  assume "\<not> ?thesis"
  then have "\<exists>x. method_factor ` set ms \<subseteq> {x}" by blast
  then have "card (method_factor ` set ms) \<le> 1"
    using card_mono [of "{_}" "method_factor ` set ms"] by fastforce
  with assms show False by simp
qed

lemma validate_mapping_distinct:
  "validate_mapping m = Inr u \<Longrightarrow> distinct (map gb_group m) \<and> (\<forall>b \<in> set m. gb_roles b \<noteq> [])"
  by (auto simp: validate_mapping_def validate_binding_def flow forE_Inr)

lemma validate_policy_distinct:
  "validate_scope_policy m = Inr u \<Longrightarrow> distinct (map sb_subject m)"
  by (simp add: validate_scope_policy_def flow)

lemma validate_evidence_groups:
  "validate_verified_evidence ev = Inr u \<Longrightarrow> ev_groups ev \<noteq> []"
  by (auto simp: validate_verified_evidence_def flow)

text \<open>The roles that a mapping gives to a list of groups.\<close>

definition granted_roles :: "group_binding list \<Rightarrow> string list \<Rightarrow> control_role set" where
  "granted_roles m gs = {r. \<exists>b \<in> set m. gb_group b \<in> set gs \<and> r \<in> set (gb_roles b)}"

lemma by_group_Some:
  "distinct (map gb_group m) \<Longrightarrow>
   dict_of (map (\<lambda>b. (gb_group b, gb_roles b)) m) g = Some rs \<longleftrightarrow>
     (\<exists>b \<in> set m. gb_group b = g \<and> gb_roles b = rs)"
  by (subst dict_of_distinct) (auto simp: comp_def)

lemma by_subject_Some:
  "distinct (map sb_subject m) \<Longrightarrow>
   dict_of (map (\<lambda>b. (sb_subject b, sb_scope b)) m) s = Some x \<longleftrightarrow>
     (\<exists>b \<in> set m. sb_subject b = s \<and> sb_scope b = x)"
  by (subst dict_of_distinct) (auto simp: comp_def)

lemma resolve_roles_granted:
  assumes "distinct (map gb_group m)"
  shows "resolve_roles (dict_of (map (\<lambda>b. (gb_group b, gb_roles b)) m)) gs {} = Inr R \<longleftrightarrow>
    (\<forall>g \<in> set gs. \<exists>b \<in> set m. gb_group b = g) \<and> R = granted_roles m gs"
proof -
  let ?f = "dict_of (map (\<lambda>b. (gb_group b, gb_roles b)) m)"
  have some: "?f g = Some rs \<longleftrightarrow> (\<exists>b \<in> set m. gb_group b = g \<and> gb_roles b = rs)" for g rs
    using assms by (rule by_group_Some)
  have dom: "?f g \<noteq> None \<longleftrightarrow> (\<exists>b \<in> set m. gb_group b = g)" for g
    using some [of g] by (cases "?f g") auto
  have bound: "?f (gb_group b) = Some (gb_roles b)" if "b \<in> set m" for b
    using that some by blast
  have "(\<Union>g \<in> set gs. set (the (?f g))) = granted_roles m gs"
    if all: "\<forall>g \<in> set gs. \<exists>b \<in> set m. gb_group b = g"
  proof (intro set_eqI iffI)
    fix r assume "r \<in> (\<Union>g \<in> set gs. set (the (?f g)))"
    then obtain g where g: "g \<in> set gs" "r \<in> set (the (?f g))" by blast
    then obtain b where "b \<in> set m" "gb_group b = g" using all by blast
    with g bound show "r \<in> granted_roles m gs" by (auto simp: granted_roles_def)
  next
    fix r assume "r \<in> granted_roles m gs"
    then obtain b where "b \<in> set m" "gb_group b \<in> set gs" "r \<in> set (gb_roles b)"
      by (auto simp: granted_roles_def)
    then show "r \<in> (\<Union>g \<in> set gs. set (the (?f g)))"
      using bound [of b] by (intro UN_I [of "gb_group b"]) simp_all
  qed
  then show ?thesis
    unfolding resolve_roles_Inr by (auto simp only: dom Un_empty_left)
qed

lemma granted_nonempty:
  assumes "gs \<noteq> []" and "\<forall>g \<in> set gs. \<exists>b \<in> set m. gb_group b = g"
    and "\<forall>b \<in> set m. gb_roles b \<noteq> []"
  shows "granted_roles m gs \<noteq> {}"
proof -
  obtain b where "b \<in> set m" "gb_group b \<in> set gs"
    using assms(1,2) by (metis list.set_intros(1) neq_Nil_conv)
  with assms(3) show ?thesis
    by (auto simp: granted_roles_def neq_Nil_conv) (metis list.set_intros(1) neq_Nil_conv)
qed

section \<open>Properties\<close>

text \<open>Authentication accepts exactly when the mapping and the policy are valid, the
  authenticator returned valid multi-factor evidence, every group of the evidence is bound, the
  subject is allowlisted for exactly the scope of the evidence, and the granted roles keep the
  separation of duty; the principal then carries the subject, that scope and exactly the roles the
  bindings of its groups grant.\<close>

theorem authenticate_principal_accepts:
  "authenticate_principal authenticated m pol = Inr p \<longleftrightarrow>
     validate_mapping m = Inr () \<and> validate_scope_policy pol = Inr () \<and>
     (\<exists>ev. authenticated = Inr ev \<and> validate_verified_evidence ev = Inr () \<and>
        (\<forall>g \<in> set (ev_groups ev). \<exists>b \<in> set m. gb_group b = g) \<and>
        (\<exists>b \<in> set pol. sb_subject b = ev_subject ev \<and> sb_scope b = ev_scope ev) \<and>
        p = \<lparr>subject = ev_subject ev, roles = granted_roles m (ev_groups ev),
             principal_scope = Some (ev_scope ev)\<rparr> \<and>
        valid_principal p)"
  (is "?lhs \<longleftrightarrow> ?rhs")
proof
  assume ?lhs
  then obtain ev where ok: "validate_mapping m = Inr ()" "validate_scope_policy pol = Inr ()"
      "authenticated = Inr ev" "validate_verified_evidence ev = Inr ()"
    by (auto simp: authenticate_principal_def flow Let_def)
  with \<open>?lhs\<close> show ?rhs
    using resolve_roles_granted [of m "ev_groups ev"] by_subject_Some [of pol]
      validate_mapping_distinct [OF ok(1)] validate_policy_distinct [OF ok(2)]
    by (auto simp: authenticate_principal_def flow Let_def split: option.splits if_splits)
next
  assume ?rhs
  then obtain ev where ok: "validate_mapping m = Inr ()" "validate_scope_policy pol = Inr ()"
      "authenticated = Inr ev" "validate_verified_evidence ev = Inr ()"
    and rest: "\<forall>g \<in> set (ev_groups ev). \<exists>b \<in> set m. gb_group b = g"
      "\<exists>b \<in> set pol. sb_subject b = ev_subject ev \<and> sb_scope b = ev_scope ev"
      "p = \<lparr>subject = ev_subject ev, roles = granted_roles m (ev_groups ev),
             principal_scope = Some (ev_scope ev)\<rparr>" "valid_principal p"
    by blast
  have "dict_of (map (\<lambda>b. (sb_subject b, sb_scope b)) pol) (ev_subject ev) = Some (ev_scope ev)"
    using rest(2) validate_policy_distinct [OF ok(2)] by (simp add: by_subject_Some)
  then show ?lhs
    using ok rest resolve_roles_granted [of m "ev_groups ev"]
      validate_mapping_distinct [OF ok(1)]
      granted_nonempty [OF validate_evidence_groups [OF ok(4)] rest(1)]
    by (simp add: authenticate_principal_def Let_def flow)
qed

theorem authenticate_principal_accepts_witness:
  "authenticate_principal
     (Inr \<lparr>ev_subject = ''alice'', ev_groups = [''Ops''],
        ev_context = \<lparr>ctx_assurance = MultiFactor, ctx_methods = [Password, Totp]\<rparr>,
        ev_scope = \<lparr>tenant_id = ''acme'', workspace_id = ''main''\<rparr>\<rparr>)
     [\<lparr>gb_group = ''Ops'', gb_roles = [Reviewer]\<rparr>]
     [\<lparr>sb_subject = ''alice'', sb_scope = \<lparr>tenant_id = ''acme'', workspace_id = ''main''\<rparr>\<rparr>] =
   Inr \<lparr>subject = ''alice'', roles = {Reviewer},
     principal_scope = Some \<lparr>tenant_id = ''acme'', workspace_id = ''main''\<rparr>\<rparr>"
  unfolding authenticate_principal_accepts
  by (auto simp: validate_mapping_def validate_binding_def validate_scope_policy_def
      validate_scope_binding_def validate_verified_evidence_def validate_authentication_context_def
      valid_principal_def make_principal_def granted_roles_def subject_pattern_def group_pattern_def
      validate_scope_def scope_id_pattern_def ident_pattern_def subject_char_def group_char_def
      is_scope_char_def is_lower_def is_upper_def is_digit_def code_def exclusive_roles_def
      max_groups_def max_bindings_def max_methods_def max_scope_bindings_def Let_def)

text \<open>Whatever fails, an invalid mapping or policy, an exception of the authenticator, invalid
  evidence, an unknown group, a foreign scope, or a forbidden mix of roles, the caller sees
  \<open>IdentityRejectedError\<close> and no principal.\<close>

theorem authenticate_principal_fails_closed:
  "authenticate_principal authenticated m pol = Inl e \<Longrightarrow> e = IdentityRejectedError"
  by (auto simp: authenticate_principal_def except_def split: sum.splits)

theorem authenticate_principal_fails_closed_witness:
  "authenticate_principal (Inl KeyError) [] [] = Inl IdentityRejectedError"
proof -
  obtain e where e: "authenticate_principal (Inl KeyError) [] [] = Inl e"
    by (simp add: authenticate_principal_def validate_mapping_def)
  with authenticate_principal_fails_closed [OF e] show ?thesis by simp
qed

end
