(* ===== verification/Candidate_Witnesses.thy ===== *)
theory Candidate_Witnesses
  imports Candidate_Samples
begin

text \<open>
  The properties of \<open>Review_Ledger\<close> and \<open>Candidate_Agreement\<close> at the concrete requests of
  \<open>Candidate_Samples\<close>.
\<close>

section \<open>Witnesses\<close>

theorem candidate_history_is_legal_witness:
  "\<exists>db t p. find_projection t db = Some p \<and> pr_status p = ''approved'' \<and>
    legal_chain ''unreviewed'' (map rr_status (target_events t db)) \<and>
    pr_version p = length (target_events t db)"
proof -
  obtain ev db' p where "append_candidate_review_event (\<lambda>_. []) (sample_request ''key'')
      (utc 1700000000000000) None sample_skill ''a'' empty_db = Inr (ev, db')"
    "length (re_idempotency_key ev) \<le> 512"
    and ev: "is_candidate_review_target (re_target_id ev)"
    "find_projection (re_target_id ev) db' = Some p" "pr_status p = ''approved''"
    "(review_step (\<lambda>_. []))\<^sup>*\<^sup>* empty_db db'"
    by (rule sample_first_event [of "\<lambda>_. []" "''a''"])
  from candidate_history_is_legal [OF ev(4), where t = "re_target_id ev"] ev(1-3) show ?thesis
    by (intro exI [of _ db'] exI [of _ "re_target_id ev"] exI [of _ p]) simp
qed

theorem candidate_decision_is_final_witness:
  "\<exists>db t p. find_projection t db = Some p \<and> pr_status p = ''approved'' \<and>
    target_events t (snd (transaction (append_candidate_review_event (\<lambda>_. [])
      (sample_request ''other'') (utc 1700000000000001) None ''e2'' ''a2'') db)) = target_events t db"
proof -
  obtain ev db' p where "append_candidate_review_event (\<lambda>_. []) (sample_request ''key'')
      (utc 1700000000000000) None sample_skill ''a'' empty_db = Inr (ev, db')"
    "length (re_idempotency_key ev) \<le> 512"
    and ev: "is_candidate_review_target (re_target_id ev)"
    "find_projection (re_target_id ev) db' = Some p" "pr_status p = ''approved''"
    "(review_step (\<lambda>_. []))\<^sup>*\<^sup>* empty_db db'"
    by (rule sample_first_event [of "\<lambda>_. []" "''a''"])
  have "(review_step (\<lambda>_. []))\<^sup>*\<^sup>* db' (snd (transaction (append_candidate_review_event (\<lambda>_. [])
      (sample_request ''other'') (utc 1700000000000001) None ''e2'' ''a2'') db'))"
    by (rule r_into_rtranclp, rule candidate_step, rule refl)
  from candidate_decision_is_final [OF ev(4) this ev(1,2)] ev(2,3) show ?thesis
    by (intro exI [of _ db'] exI [of _ "re_target_id ev"] exI [of _ p]) simp
qed

theorem review_retry_is_idempotent_witness:
  "\<exists>ev db. append_review_event (\<lambda>_. []) ''t'' ''k'' ''actor'' ''pending'' sample_provenance []
    (utc 1700000000000000) None ''e2'' ''a2'' db = Inr (ev, db)"
proof -
  obtain ev db' where acc: "append_review_event (\<lambda>_. []) ''t'' ''k'' ''actor'' ''pending''
    sample_provenance [] (utc 1700000000000000) None ''e'' ''a'' empty_db = Inr (ev, db')"
    using sample_ordinary_event by blast
  from review_retry_is_idempotent [OF rtranclp.rtrancl_refl acc rtranclp.rtrancl_refl sample_era(2)]
  show ?thesis by blast
qed

theorem accepted_candidate_event_is_readable_witness:
  "\<exists>ev db' p. append_candidate_review_event (\<lambda>_. []) (sample_request ''key'')
      (utc 1700000000000000) None sample_skill ''a'' empty_db = Inr (ev, db') \<and>
    get_candidate_review_projection (\<lambda>_. []) (re_target_id ev) db' = Inr (Some p) \<and>
    rp_status p = re_status ev"
proof -
  obtain ev db' where acc: "append_candidate_review_event (\<lambda>_. []) (sample_request ''key'')
      (utc 1700000000000000) None sample_skill ''a'' empty_db = Inr (ev, db')"
    and short: "length (re_idempotency_key ev) \<le> 512"
    by (rule sample_first_event [of "\<lambda>_. []" "''a''"])
  have "uuid_pattern sample_skill" by code_simp
  with accepted_candidate_event_is_readable [OF rtranclp.rtrancl_refl acc, where m = 1700000000000000]
    acc short show ?thesis
    by (fastforce simp: find_event_by_key_def empty_db_def first_given_def)
qed

lemma other_request_step:
  "(review_step (\<lambda>_. []))\<^sup>*\<^sup>* db (snd (transaction (append_candidate_review_event (\<lambda>_. [])
      (sample_request ''other'') (utc 1700000000000001) None ''e2'' ''a2'') db))"
  by (rule r_into_rtranclp, rule candidate_step, rule refl)

theorem long_candidate_key_is_unreadable_witness:
  "\<exists>ev db'. append_candidate_review_event (\<lambda>_. []) (sample_request (replicate 500 CHR ''k''))
      (utc 1700000000000000) None sample_skill ''a'' empty_db = Inr (ev, db') \<and>
    \<not> returns (get_candidate_review_projection (\<lambda>_. []) (re_target_id ev)
      (snd (transaction (append_candidate_review_event (\<lambda>_. [])
      (sample_request ''other'') (utc 1700000000000001) None ''e2'' ''a2'') db')))"
proof -
  obtain ev db' where acc: "append_candidate_review_event (\<lambda>_. [])
      (sample_request (replicate 500 CHR ''k'')) (utc 1700000000000000) None sample_skill ''a''
      empty_db = Inr (ev, db')" and long: "512 < length (re_idempotency_key ev)"
    using sample_prepares(2) sample_accepted [OF _ _ sample_era, of "replicate 500 CHR ''k''"]
    by metis
  with long_candidate_key_is_unreadable [OF rtranclp.rtrancl_refl acc _ _ _ long _ sample_era(2,3)
      other_request_step [of db']] sample_era(1) show ?thesis
    by (simp add: find_event_by_key_def empty_db_def first_given_def)
qed

theorem inexact_candidate_time_is_unreadable_witness:
  "\<exists>ev db'. append_candidate_review_event (\<lambda>_. []) (sample_request ''key'')
      (utc 2179350359847130) None sample_skill ''a'' empty_db = Inr (ev, db') \<and>
    \<not> returns (get_candidate_review_projection (\<lambda>_. []) (re_target_id ev)
      (snd (transaction (append_candidate_review_event (\<lambda>_. [])
      (sample_request ''other'') (utc 1700000000000001) None ''e2'' ''a2'') db')))"
proof -
  have time: "resolve_review_time None (utc 2179350359847130) = Inr (utc 2179350359847129)"
    "to_micros (utc 2179350359847129) = Inr 2179350359847128" "in_range 2179350359847129"
    "from_micros 2179350359847128 = Inr (utc 2179350359847128)"
    by (simp_all add: resolve_review_time_def to_micros_lossy_1 to_micros_lossy_2
        from_micros_exact_era in_range_def min_wall_def max_wall_def)
  obtain ev db' where acc: "append_candidate_review_event (\<lambda>_. []) (sample_request ''key'')
      (utc 2179350359847130) None sample_skill ''a'' empty_db = Inr (ev, db')"
    using sample_prepares(1) sample_accepted [OF _ _ time, of "''key''"] by metis
  have "in_range 2179350359847128" by (simp add: in_range_def min_wall_def max_wall_def)
  with inexact_candidate_time_is_unreadable [OF rtranclp.rtrancl_refl acc _ _ _ _ time(2-4) _ _
      other_request_step [of db']] time(1) acc show ?thesis
    by (simp add: find_event_by_key_def empty_db_def first_given_def)
qed

end
