(* ===== verification/Retention_Properties.thy ===== *)
theory Retention_Properties
  imports Retention_Ledger
begin

text \<open>
  The properties of the retention ledger, with a run of one target (registered, staged at its
  expiry, attested) as the example they apply to.
\<close>

section \<open>A run\<close>

definition sample_copy :: "(string \<times> string) list" where
  "sample_copy = [(''copy_id'', ''c1''), (''provider'', ''s3''), (''file_id'', ''f1''),
     (''revision'', ''r1''), (''sha256'', sample_digest)]"

definition sample_retained :: "retention_db" where
  "sample_retained = snd (transaction (register_target (\<lambda>s. s) ''t1'' [sample_copy] ''k1'' ''alice''
     (utc 1700000000000000) None ''e1'' ''a1'') empty_retention)"

definition sample_staged :: "retention_db" where
  "sample_staged = snd (transaction (stage_trash (\<lambda>s. s) ''t1'' ''c1'' ''k2'' ''alice''
     (utc 1701209600000000) None ''e2'' ''a2'') sample_retained)"

definition sample_deleted :: "retention_db" where
  "sample_deleted = snd (transaction (attest_deleted (\<lambda>s. s) ''t1'' ''c1'' sample_digest ''k3'' ''alice''
     (utc 1701209600000001) None ''e3'' ''a3'') sample_staged)"

lemma sample_texts:
  "require_bounded_text ''t1'' = Inr ()" "require_bounded_text ''c1'' = Inr ()"
  "require_bounded_text ''k1'' = Inr ()" "require_bounded_text ''k2'' = Inr ()"
  "require_bounded_text ''k3'' = Inr ()" "require_bounded_text ''alice'' = Inr ()"
  "require_sha256 sample_digest = Inr ()"
  by code_simp+

lemma sample_canonical:
  "canonicalize_copies [sample_copy] = Inr [\<lparr>rc_id = ''c1'', rc_provider = ''s3'', rc_file = ''f1'',
     rc_revision = ''r1'', rc_sha256 = sample_digest\<rparr>]"
  by code_simp

lemma sample_clock:
  "to_micros (utc 1700000000000000) = Inr 1700000000000000"
  "to_micros (utc 1701209600000000) = Inr 1701209600000000"
  "to_micros (utc 1701209600000001) = Inr 1701209600000001"
  "from_micros 1700000000000000 = Inr (utc 1700000000000000)"
  "from_micros 1701209600000000 = Inr (utc 1701209600000000)"
  "from_micros 1701209600000001 = Inr (utc 1701209600000001)"
  "plus_us (utc 1700000000000000) (seconds (retention_days * 86400)) = Inr (utc 1701209600000000)"
  by (simp_all add: to_micros_exact_era from_micros_exact_era retention_days_def seconds_def
      in_range_def min_wall_def max_wall_def)

lemmas retention_eval =
  sample_texts sample_clock idempotent_replay_def find_target_def find_copy_def copies_of_def
  target_row_def copy_row_def audited_state_def retention_audit_def append_audit_def
  target_state_def optional_micros_def copy_state_from_row_def append_retention_event_def
  insert_row_def next_sequence_def update_target_def update_copy_def new_copy_row_def
  require_not_held_or_completed_def

definition sample_target_row :: "int option \<Rightarrow> int \<Rightarrow> target_row" where
  "sample_target_row completed updated =
     \<lparr>tg_id = ''t1'', tg_created_by = ''alice'', tg_created_at = 1700000000000000,
      tg_expires_at = 1701209600000000, tg_hold = False, tg_hold_reason = None,
      tg_completed_at = completed, tg_updated_at = updated\<rparr>"

definition sample_copy_row :: "copy_state \<Rightarrow> int option \<Rightarrow> int option \<Rightarrow> string option \<Rightarrow> copy_row" where
  "sample_copy_row s staged gone receipt =
     \<lparr>cp_target = ''t1'', cp_id = ''c1'', cp_provider = ''s3'', cp_file = ''f1'', cp_revision = ''r1'',
      cp_sha256 = sample_digest, cp_state = s, cp_staged_at = staged, cp_deleted_at = gone,
      cp_receipt = receipt\<rparr>"

lemma sample_retained_ok:
  "targets sample_retained = [sample_target_row None 1700000000000000]"
  "copies sample_retained = [sample_copy_row CopyActive None None None]"
  "map vr_key (retention_events sample_retained) = [''k1'']"
  "map vr_event_id (retention_events sample_retained) = [''e1'']"
  "map vr_sequence (retention_events sample_retained) = [1]"
  by (simp_all add: sample_retained_def register_target_def transaction_def Let_def empty_retention_def
      sample_canonical retention_eval sample_target_row_def sample_copy_row_def)

lemma sample_staged_ok:
  "targets sample_staged = [sample_target_row None 1701209600000000]"
  "copies sample_staged = [sample_copy_row TrashStaged (Some 1701209600000000) None None]"
  "map vr_key (retention_events sample_staged) = [''k1'', ''k2'']"
  "map vr_event_id (retention_events sample_staged) = [''e1'', ''e2'']"
  "map vr_sequence (retention_events sample_staged) = [1, 2]"
proof -
  obtain e where e: "retention_events sample_retained = [e]" "vr_key e = ''k1''"
    "vr_event_id e = ''e1''" "vr_sequence e = 1"
    using sample_retained_ok(3-5) by auto
  show "targets sample_staged = [sample_target_row None 1701209600000000]"
    "copies sample_staged = [sample_copy_row TrashStaged (Some 1701209600000000) None None]"
    "map vr_key (retention_events sample_staged) = [''k1'', ''k2'']"
    "map vr_event_id (retention_events sample_staged) = [''e1'', ''e2'']"
    "map vr_sequence (retention_events sample_staged) = [1, 2]"
    by (simp_all add: sample_staged_def stage_trash_def transaction_def Let_def
      retention_eval sample_retained_ok e sample_target_row_def sample_copy_row_def)
qed

lemma sample_attested:
  "\<exists>s. attest_deleted (\<lambda>s. s) ''t1'' ''c1'' sample_digest ''k3'' ''alice'' (utc 1701209600000001) None
     ''e3'' ''a3'' sample_staged = Inr (s, sample_deleted) \<and>
   targets sample_deleted = [sample_target_row (Some 1701209600000001) 1701209600000001] \<and>
   copies sample_deleted = [sample_copy_row CopyDeleted (Some 1701209600000000)
     (Some 1701209600000001) (Some sample_digest)]"
proof -
  obtain e f where e: "retention_events sample_staged = [e, f]" "vr_key e = ''k1''" "vr_key f = ''k2''"
    "vr_event_id e = ''e1''" "vr_event_id f = ''e2''" "vr_sequence f = 2"
    using sample_staged_ok(3-5) by auto
  show ?thesis
    by (simp add: sample_deleted_def attest_deleted_def transaction_def Let_def
      retention_eval sample_staged_ok e sample_target_row_def sample_copy_row_def)
qed

lemma sample_steps:
  "(retention_step (\<lambda>s. s))\<^sup>*\<^sup>* empty_retention sample_retained"
  "(retention_step (\<lambda>s. s))\<^sup>*\<^sup>* empty_retention sample_staged"
  "(retention_step (\<lambda>s. s))\<^sup>*\<^sup>* empty_retention sample_deleted"
proof -
  have a: "retention_step (\<lambda>s. s) empty_retention sample_retained"
    by (rule register_step, rule sample_retained_def)
  have b: "retention_step (\<lambda>s. s) sample_retained sample_staged"
    by (rule stage_step, rule sample_staged_def)
  have c: "retention_step (\<lambda>s. s) sample_staged sample_deleted"
    by (rule attest_step, rule sample_deleted_def)
  show "(retention_step (\<lambda>s. s))\<^sup>*\<^sup>* empty_retention sample_retained"
    by (rule r_into_rtranclp, rule a)
  then show "(retention_step (\<lambda>s. s))\<^sup>*\<^sup>* empty_retention sample_staged"
    by (rule rtranclp.rtrancl_into_rtrancl) (rule b)
  then show "(retention_step (\<lambda>s. s))\<^sup>*\<^sup>* empty_retention sample_deleted"
    by (rule rtranclp.rtrancl_into_rtrancl) (rule c)
qed

section \<open>Properties\<close>

text \<open>C26: the rows of the retention ledger are the fold of its immutable events. In every reachable
  state a target is under hold exactly when its last hold event placed one, a copy is in the state
  that its last event gave it, and a target is complete exactly when every copy of it is deleted,
  which is never under a hold.\<close>

theorem retention_rows_are_fold_of_events:
  assumes "(retention_step sha)\<^sup>*\<^sup>* empty_retention db" and "find_target t db = Some r"
  shows "tg_hold r = hold_after (history t (retention_events db)) \<and>
    list_all (\<lambda>k. cp_state k = copy_after (cp_id k) (history t (retention_events db))) (copies_of t db) \<and>
    copies_of t db \<noteq> [] \<and>
    (tg_completed_at r \<noteq> None \<longleftrightarrow> list_all (\<lambda>k. cp_state k = CopyDeleted) (copies_of t db)) \<and>
    \<not> (tg_hold r \<and> tg_completed_at r \<noteq> None)"
proof -
  have wf: "retention_wf db" by (rule retention_table.reachable_inv [OF refl assms(1)])
  have r: "r \<in> set (targets db)" "tg_id r = t" using find_target_Some [OF assms(2)] by auto
  then have t: "target_wf db r" and c: "\<forall>k \<in> set (copies_of t db). copy_wf db k \<and> cp_target k = t"
    using wf by (simp_all add: retention_wf_def copies_of_def)
  have "all_deleted t db = list_all (\<lambda>k. cp_state k = CopyDeleted) (copies_of t db)"
    "(\<exists>k \<in> set (copies db). cp_target k = t) = (copies_of t db \<noteq> [])"
    by (auto simp: all_deleted_def copies_of_def list_all_iff filter_empty_conv)
  moreover have "list_all (\<lambda>k. cp_state k = copy_after (cp_id k) (history t (retention_events db)))
      (copies_of t db)"
    using c by (simp add: list_all_iff copy_wf_def)
  ultimately show ?thesis using t unfolding target_wf_def r(2) by (elim conjE) (simp, blast)
qed

theorem retention_rows_are_fold_of_events_witness:
  "copy_after ''c1'' (history ''t1'' (retention_events sample_deleted)) = CopyDeleted"
proof -
  have "find_target ''t1'' sample_deleted =
      Some (sample_target_row (Some 1701209600000001) 1701209600000001)"
    using sample_attested by (auto simp: find_target_def sample_target_row_def)
  from retention_rows_are_fold_of_events [OF sample_steps(3) this] sample_attested show ?thesis
    by (auto simp: copies_of_def sample_copy_row_def)
qed

text \<open>C27: no copy leaves the active state early. In every reachable state, a copy that is staged
  or deleted was staged at a recorded time at or after the expiry of its target, and the evidence of
  a deletion (time and receipt) is there exactly for the deleted copies.\<close>

theorem no_copy_staged_before_expiry:
  assumes "(retention_step sha)\<^sup>*\<^sup>* empty_retention db"
    and "find_target t db = Some r" and "find_copy t c db = Some k"
  shows "(cp_state k = CopyActive \<and> cp_staged_at k = None \<or>
      (\<exists>us. cp_staged_at k = Some us \<and> tg_expires_at r \<le> us)) \<and>
    (cp_state k = CopyDeleted \<longleftrightarrow> cp_receipt k \<noteq> None) \<and>
    (cp_state k = CopyDeleted \<longleftrightarrow> cp_deleted_at k \<noteq> None)"
proof -
  have "retention_wf db" by (rule retention_table.reachable_inv [OF refl assms(1)])
  then have "copy_wf db k" "cp_target k = t"
    using find_copy_Some [OF assms(3)] by (auto simp: retention_wf_def)
  with assms(2) show ?thesis
    by (cases "cp_staged_at k") (auto simp: copy_wf_def)
qed

theorem no_copy_staged_before_expiry_witness:
  "\<exists>r k. find_target ''t1'' sample_deleted = Some r \<and> find_copy ''t1'' ''c1'' sample_deleted = Some k \<and>
     (\<exists>us. cp_staged_at k = Some us \<and> tg_expires_at r \<le> us)"
proof -
  have "find_target ''t1'' sample_deleted =
      Some (sample_target_row (Some 1701209600000001) 1701209600000001)"
    "find_copy ''t1'' ''c1'' sample_deleted = Some (sample_copy_row CopyDeleted
      (Some 1701209600000000) (Some 1701209600000001) (Some sample_digest))"
    using sample_attested
    by (auto simp: find_target_def find_copy_def sample_target_row_def sample_copy_row_def)
  with no_copy_staged_before_expiry [OF sample_steps(3) this] show ?thesis
    by (auto simp: sample_copy_row_def)
qed

text \<open>C28: a legal hold freezes its target. As long as no release of the hold is recorded, whatever
  calls are made, the target and every copy of it stay exactly as they were.\<close>

theorem legal_hold_freezes_target:
  assumes "(retention_step sha)\<^sup>*\<^sup>* db db'" and "find_target t db = Some r" and "tg_hold r"
    and "list_all (\<lambda>e. vr_target e \<noteq> t \<or> vr_type e \<noteq> HoldReleased)
      (drop (length (retention_events db)) (retention_events db'))"
  shows "find_target t db' = Some r \<and> copies_of t db' = copies_of t db"
  using held_steps [OF assms(1-3)] assms(4) by (auto simp: list_all_iff)

text \<open>A hold is placed on the registered target; then another target is registered, and after the
  expiry the copy of the first is to be staged.\<close>

definition sample_held :: "retention_db" where
  "sample_held = snd (transaction (set_legal_hold (\<lambda>s. s) ''t1'' True (Some ''case'') ''k4'' ''alice''
     (utc 1700000000000000) None ''e4'' ''a4'') sample_retained)"

definition sample_other :: "retention_db" where
  "sample_other = snd (transaction (register_target (\<lambda>s. s) ''t2'' [sample_copy] ''k5'' ''alice''
     (utc 1700000000000000) None ''e5'' ''a5'') sample_held)"

definition sample_refused :: "retention_db" where
  "sample_refused = snd (transaction (stage_trash (\<lambda>s. s) ''t1'' ''c1'' ''k2'' ''alice''
     (utc 1701209600000000) None ''e2'' ''a2'') sample_other)"

lemma sample_held_texts:
  "require_bounded_text ''t2'' = Inr ()" "require_bounded_text ''k4'' = Inr ()"
  "require_bounded_text ''k5'' = Inr ()" "require_bounded_text ''case'' = Inr ()" "strip ''case'' = ''case''"
  by code_simp+

definition sample_held_row :: target_row where
  "sample_held_row = (sample_target_row None 1700000000000000)\<lparr>tg_hold := True, tg_hold_reason := Some ''case''\<rparr>"

lemma sample_held_ok:
  "targets sample_held = [sample_held_row]"
  "copies sample_held = [sample_copy_row CopyActive None None None]"
  "map vr_key (retention_events sample_held) = [''k1'', ''k4'']"
  "map vr_event_id (retention_events sample_held) = [''e1'', ''e4'']"
  "map vr_sequence (retention_events sample_held) = [1, 2]"
proof -
  obtain e where e: "retention_events sample_retained = [e]" "vr_key e = ''k1''"
    "vr_event_id e = ''e1''" "vr_sequence e = 1"
    using sample_retained_ok(3-5) by auto
  show "targets sample_held = [sample_held_row]"
    "copies sample_held = [sample_copy_row CopyActive None None None]"
    "map vr_key (retention_events sample_held) = [''k1'', ''k4'']"
    "map vr_event_id (retention_events sample_held) = [''e1'', ''e4'']"
    "map vr_sequence (retention_events sample_held) = [1, 2]"
    by (simp_all add: sample_held_def set_legal_hold_def transaction_def Let_def sample_held_texts
      retention_eval sample_retained_ok e sample_target_row_def sample_copy_row_def sample_held_row_def)
qed

lemma sample_other_ok:
  "\<exists>e. retention_events sample_other = retention_events sample_held @ [e] \<and> vr_target e = ''t2'' \<and>
     vr_key e = ''k5'' \<and> find_target ''t1'' sample_other = Some sample_held_row"
proof -
  obtain e f where e: "retention_events sample_held = [e, f]" "vr_key e = ''k1''" "vr_key f = ''k4''"
    "vr_event_id e = ''e1''" "vr_event_id f = ''e4''" "vr_sequence f = 2"
    using sample_held_ok(3-5) by auto
  show ?thesis
    by (simp add: sample_other_def register_target_def transaction_def Let_def sample_canonical sample_held_texts
      retention_eval sample_held_ok e sample_held_row_def sample_target_row_def sample_copy_row_def)
qed

lemma sample_refused_ok: "sample_refused = sample_other"
proof -
  obtain e f where e: "retention_events sample_held = [e, f]" "vr_key e = ''k1''" "vr_key f = ''k4''"
    using sample_held_ok(3) by auto
  obtain g where g: "retention_events sample_other = [e, f, g]" "vr_key g = ''k5''"
    "find_target ''t1'' sample_other = Some sample_held_row"
    using sample_other_ok e(1) by auto
  have "find (\<lambda>r. vr_key r = ''k2'') (retention_events sample_other) = None"
    using e g by simp
  with g(3) show ?thesis
    by (simp add: sample_refused_def stage_trash_def transaction_def Let_def sample_texts sample_clock
      idempotent_replay_def target_row_def require_not_held_or_completed_def sample_held_row_def sample_target_row_def)
qed

theorem legal_hold_freezes_target_witness:
  "(retention_step (\<lambda>s. s))\<^sup>*\<^sup>* sample_held sample_refused \<and>
   length (retention_events sample_refused) = Suc (length (retention_events sample_held)) \<and>
   find_target ''t1'' sample_refused = Some sample_held_row \<and>
   copies_of ''t1'' sample_refused = [sample_copy_row CopyActive None None None] \<and>
   copies_of ''t1'' sample_staged = [sample_copy_row TrashStaged (Some 1701209600000000) None None]"
proof -
  have "retention_step (\<lambda>s. s) sample_held sample_other"
    by (rule register_step, rule sample_other_def)
  moreover have "retention_step (\<lambda>s. s) sample_other sample_refused"
    by (rule stage_step, rule sample_refused_def)
  ultimately have steps: "(retention_step (\<lambda>s. s))\<^sup>*\<^sup>* sample_held sample_refused" by simp
  have held: "find_target ''t1'' sample_held = Some sample_held_row" "tg_hold sample_held_row"
    by (simp_all add: find_target_def sample_held_ok sample_held_row_def sample_target_row_def)
  obtain e where e: "retention_events sample_refused = retention_events sample_held @ [e]" "vr_target e = ''t2''"
    using sample_other_ok unfolding sample_refused_ok by blast
  from legal_hold_freezes_target [OF steps held] e sample_held_ok(2) sample_staged_ok(2) steps show ?thesis
    by (simp add: copies_of_def sample_copy_row_def)
qed

text \<open>Completion is final. Once every copy is attested deleted and the target complete, no call
  changes the target, its copies or its history again.\<close>

theorem completed_retention_is_final:
  assumes "(retention_step sha)\<^sup>*\<^sup>* db db'" and "find_target t db = Some r"
    and "tg_completed_at r \<noteq> None"
  shows "find_target t db' = Some r \<and> copies_of t db' = copies_of t db \<and>
    history t (retention_events db') = history t (retention_events db)"
  by (rule completed_steps [OF assms])

theorem completed_retention_is_final_witness:
  "find_target ''t1'' (snd (transaction (set_legal_hold (\<lambda>s. s) ''t1'' True (Some ''case'') ''k9'' ''bob''
     (utc 1701209600000009) None ''e9'' ''a9'') sample_deleted)) = find_target ''t1'' sample_deleted"
proof -
  have r: "find_target ''t1'' sample_deleted =
      Some (sample_target_row (Some 1701209600000001) 1701209600000001)"
    using sample_attested by (auto simp: find_target_def sample_target_row_def)
  have "(retention_step (\<lambda>s. s))\<^sup>*\<^sup>* sample_deleted (snd (transaction (set_legal_hold (\<lambda>s. s) ''t1'' True
      (Some ''case'') ''k9'' ''bob'' (utc 1701209600000009) None ''e9'' ''a9'') sample_deleted))"
    by (rule r_into_rtranclp, rule hold_step, rule refl)
  from completed_retention_is_final [OF this r] r show ?thesis by (simp add: sample_target_row_def)
qed

text \<open>Attestation is idempotent. Whatever happens after it was accepted, a retry with the same
  key and content at any clock writes nothing and answers with the state of the target; the same key
  with content of another digest gets \<open>ControlConflictError\<close> and writes nothing.\<close>

theorem attestation_retry_is_idempotent:
  assumes "(retention_step sha)\<^sup>*\<^sup>* empty_retention db"
    and "attest_deleted sha t c receipt key actor now audit eid aid db = Inr (s, db1)"
    and "(retention_step sha)\<^sup>*\<^sup>* db1 db2" and "to_micros now' = Inr us"
  shows "attest_deleted sha t c receipt key actor now' None eid' aid' db2 =
      bindE (target_state t db2) (\<lambda>s. Inr (s, db2)) \<and>
    (require_sha256 receipt' = Inr () \<and>
     content_digest sha t (Some c) actor DeletionAttested [(''copy_id'', JStr c),
       (''deletion_receipt_sha256'', JStr receipt'), (''provider_call'', JBool False)] \<noteq>
     content_digest sha t (Some c) actor DeletionAttested [(''copy_id'', JStr c),
       (''deletion_receipt_sha256'', JStr receipt), (''provider_call'', JBool False)] \<longrightarrow>
     attest_deleted sha t c receipt' key actor now' audit' eid' aid' db2 = Inl ControlConflictError)"
proof -
  have "retention_wf db" by (rule retention_table.reachable_inv [OF refl assms(1)])
  then have wf: "retention_wf db1"
    by (rule retention_effect_wf [OF attest_deleted_effect [OF assms(2)]])
  obtain e where e: "find (\<lambda>r. vr_key r = key) (retention_events db1) = Some e"
    "vr_digest e = content_digest sha t (Some c) actor DeletionAttested
      [(''copy_id'', JStr c), (''deletion_receipt_sha256'', JStr receipt),
       (''provider_call'', JBool False)]"
    "forE require_bounded_text [t, c, key, actor] = Inr ()" "require_sha256 receipt = Inr ()"
    using attest_stored [OF assms(2)] by blast
  note replay = replay_stored [OF assms(3) wf e(1)]
  show ?thesis
    using e(2-4) assms(4)
    by (auto simp: attest_deleted_def Let_def replay audited_state_def retention_audit_def
        append_audit_def simp del: forE.simps)
qed

theorem attestation_retry_is_idempotent_witness:
  "\<exists>s. attest_deleted (\<lambda>s. s) ''t1'' ''c1'' sample_digest ''k3'' ''alice'' (utc 1701209600000000) None
     ''e9'' ''a9'' sample_deleted = Inr (s, sample_deleted)"
proof -
  obtain s where s: "attest_deleted (\<lambda>s. s) ''t1'' ''c1'' sample_digest ''k3'' ''alice''
    (utc 1701209600000001) None ''e3'' ''a3'' sample_staged = Inr (s, sample_deleted)"
    and t: "targets sample_deleted = [sample_target_row (Some 1701209600000001) 1701209600000001]"
      "copies sample_deleted = [sample_copy_row CopyDeleted (Some 1701209600000000)
        (Some 1701209600000001) (Some sample_digest)]"
    using sample_attested by blast
  have "returns (target_state ''t1'' sample_deleted)"
    by (simp add: retention_eval t sample_target_row_def sample_copy_row_def)
  with attestation_retry_is_idempotent [OF sample_steps(2) s rtranclp.rtrancl_refl sample_clock(2)]
  show ?thesis by (auto simp: returns_iff)
qed

lemma target_state_id: "target_state t db = Inr s \<Longrightarrow> ts_id s = t"
  by (auto simp: target_state_def bindE_Inr target_row_Inr dest!: find_target_Some)

lemma from_micros_error: "from_micros us = Inl e \<Longrightarrow> e = ValueError"
  by (auto simp: from_micros_def fromtimestamp_def Let_def split: if_splits)

lemma optional_micros_error: "optional_micros x = Inl e \<Longrightarrow> e = ValueError"
  by (auto simp: optional_micros_def bindE_Inl split: option.splits dest: from_micros_error)

lemma copy_state_error: "copy_state_from_row k = Inl e \<Longrightarrow> e = ValueError"
  by (auto simp: copy_state_from_row_def bindE_Inl dest: optional_micros_error)

lemma mapE_error: "mapE f xs = Inl e \<Longrightarrow> (\<And>x e. f x = Inl e \<Longrightarrow> P e) \<Longrightarrow> P e"
  by (induction xs) (auto simp: bindE_Inl)

lemma target_state_error:
  "find_target t db \<noteq> None \<Longrightarrow> target_state t db \<noteq> Inl ControlConflictError"
  by (auto simp: target_state_def bindE_Inl target_row_def split: option.splits
      dest!: from_micros_error optional_micros_error dest: mapE_error [where P = "\<lambda>e. e = ValueError"]
        copy_state_error)

text \<open>The overdue list and the guard of staging agree. A target with an active copy is listed by
  \<open>list_overdue\<close> at an instant exactly when staging that copy at that instant is not refused as a
  conflict, that is when it has expired, is not held and is not complete.\<close>

theorem overdue_list_agrees_with_staging:
  assumes "(retention_step sha)\<^sup>*\<^sup>* empty_retention db" and "to_micros now = Inr us"
    and "find_target t db = Some r" and "find_copy t c db = Some k" and "cp_state k = CopyActive"
    and "forE require_bounded_text [t, c, key, actor] = Inr ()"
    and "\<forall>e \<in> set (retention_events db). vr_key e \<noteq> key \<and> vr_event_id e \<noteq> eid"
    and "list_overdue now None aid db = Inr (ss, db')"
  shows "(t \<in> ts_id ` set ss \<longleftrightarrow> overdue us r) \<and>
    (stage_trash sha t c key actor now None eid aid db = Inl ControlConflictError \<longleftrightarrow> \<not> overdue us r)"
proof -
  have "retention_wf db" by (rule retention_table.reachable_inv [OF refl assms(1)])
  then have dist: "distinct (map tg_id (targets db))" by (simp add: retention_wf_def)
  have r: "r \<in> set (targets db)" "tg_id r = t" using find_target_Some [OF assms(3)] by auto
  let ?rows = "sort_key (\<lambda>r. (tg_expires_at r, tg_id r)) (filter (overdue us) (targets db))"
  from assms(2,8) have ss: "mapE (\<lambda>r. target_state (tg_id r) db) ?rows = Inr ss"
    by (auto simp: list_overdue_def bindE_Inr retention_audit_def append_audit_def Let_def)
  have "map ts_id ss = map tg_id ?rows"
    using ss unfolding mapE_Inr_iff
    by (induction rule: list_all2_induct) (auto dest: target_state_id)
  then have "set (map ts_id ss) = set (map tg_id ?rows)" by simp
  then have ids: "ts_id ` set ss = tg_id ` {x \<in> set (targets db). overdue us x}" by simp
  have listed: "t \<in> ts_id ` set ss \<longleftrightarrow> overdue us r"
  proof
    assume "t \<in> ts_id ` set ss"
    then obtain x where "x \<in> set (targets db)" "overdue us x" "tg_id x = t" unfolding ids by blast
    with key_inj [OF dist _ r(1), of x] r(2) show "overdue us r" by simp
  next
    assume "overdue us r"
    with r show "t \<in> ts_id ` set ss" unfolding ids by blast
  qed
  have replay: "idempotent_replay key d db = Inr False" for d
    using assms(7) by (auto simp: idempotent_replay_def split: option.splits dest!: find_SomeD)
  have new: "returns (append_retention_event eid t (Some c) key d actor CopyStaged det us db1)"
    if "retention_events db1 = retention_events db" for d det db1
    using assms(7) that
    by (auto simp: append_retention_event_def insert_row_def returns_iff list_ex_iff)
  show ?thesis
  proof (cases "overdue us r")
    case False
    then have "stage_trash sha t c key actor now None eid aid db = Inl ControlConflictError"
      using assms(2-6) replay
      by (auto simp: stage_trash_def Let_def target_row_def copy_row_def overdue_def
          require_not_held_or_completed_def require_def simp del: forE.simps)
    with False listed show ?thesis by simp
  next
    case True
    let ?db1 = "update_target t (\<lambda>r. r\<lparr>tg_updated_at := us\<rparr>)
      (update_copy t c (\<lambda>k. k\<lparr>cp_state := TrashStaged, cp_staged_at := Some us\<rparr>) db)"
    let ?det = "[(''copy_id'', JStr c), (''provider_call'', JBool False)]"
    obtain db2 where db2: "append_retention_event eid t (Some c) key
        (content_digest sha t (Some c) actor CopyStaged ?det) actor CopyStaged ?det us ?db1 = Inr db2"
      using new [of ?db1] by (auto simp: returns_iff)
    then have "find_target t db2 \<noteq> None"
      using assms(3) by (auto simp: append_retention_event_Inr find_target_update)
    moreover have "stage_trash sha t c key actor now None eid aid db = audited_state t aid None db2"
      using True assms(2-6) replay db2
      by (auto simp: stage_trash_def Let_def target_row_def copy_row_def overdue_def
          require_not_held_or_completed_def require_def simp del: forE.simps)
    ultimately show ?thesis
      using True listed target_state_error [of t db2]
      by (auto simp: audited_state_def retention_audit_def append_audit_def bindE_Inl)
  qed
qed

theorem overdue_list_agrees_with_staging_witness:
  "stage_trash (\<lambda>s. s) ''t1'' ''c1'' ''k2'' ''alice'' (utc 1701209600000000) None ''e2'' ''a2''
     sample_retained \<noteq> Inl ControlConflictError"
proof -
  have row: "find_target ''t1'' sample_retained = Some (sample_target_row None 1700000000000000)"
    "find_copy ''t1'' ''c1'' sample_retained = Some (sample_copy_row CopyActive None None None)"
    "cp_state (sample_copy_row CopyActive None None None) = CopyActive"
    by (simp_all add: find_target_def find_copy_def sample_retained_ok sample_target_row_def
        sample_copy_row_def)
  have fresh: "\<forall>e \<in> set (retention_events sample_retained). vr_key e \<noteq> ''k2'' \<and> vr_event_id e \<noteq> ''e2''"
    using sample_retained_ok(3,4) by auto
  have "\<exists>ss. list_overdue (utc 1701209600000000) None ''a2'' sample_retained = Inr (ss, sample_retained)"
    by (simp add: list_overdue_def retention_eval sample_retained_ok sample_target_row_def
        sample_copy_row_def overdue_def)
  then obtain ss where "list_overdue (utc 1701209600000000) None ''a2'' sample_retained =
      Inr (ss, sample_retained)" ..
  from overdue_list_agrees_with_staging [OF sample_steps(1) sample_clock(2) row _ fresh this,
      where actor = "''alice''"]
  show ?thesis by (simp add: sample_texts sample_target_row_def overdue_def)
qed

end
