(* ===== verification/Safety.thy ===== *)
theory Safety
  imports Audit_Log
begin

text \<open>
  The emergency stops of \<open>safety_switches.py\<close> and their authorization boundary in
  \<open>safety_control.py\<close>: every switch starts engaged, the ledger records engagement evidence, and no
  operation releases a switch. The evidence carries the subject of the principal that engaged it.
\<close>

section \<open>Domains, tables and records\<close>

datatype safety_domain =
  CaptureDomain | IngestDomain | ProcessingDomain | AnalysisDomain | RetentionDomain | PromotionDomain

fun domain_value :: "safety_domain \<Rightarrow> string" where
  "domain_value CaptureDomain = ''capture''"
| "domain_value IngestDomain = ''ingest''"
| "domain_value ProcessingDomain = ''deterministic_processing''"
| "domain_value AnalysisDomain = ''analysis''"
| "domain_value RetentionDomain = ''retention''"
| "domain_value PromotionDomain = ''dataset_promotion''"

definition all_domains :: "safety_domain list" where
  "all_domains = [CaptureDomain, IngestDomain, ProcessingDomain, AnalysisDomain, RetentionDomain,
     PromotionDomain]"

record safety_row =
  sr_sequence :: nat
  sr_event_id :: string
  sr_domain :: safety_domain
  sr_key :: string
  sr_digest :: string
  sr_actor :: string
  sr_correlation :: string
  sr_reason :: string
  sr_occurred_at :: int

record safety_db =
  switches :: "(safety_domain \<times> bool) list"
  safety_events :: "safety_row list"

record switch_state =
  sw_domain :: safety_domain
  sw_engaged :: bool

record safety_event =
  se_sequence :: nat
  se_event_id :: string
  se_domain :: safety_domain
  se_key :: string
  se_actor :: string
  se_correlation :: string
  se_reason :: string
  se_occurred_at :: datetime

section \<open>The ledger\<close>

definition max_safety_text :: nat where "max_safety_text = 256"

text \<open>\<open>_domain\<close>: a value of the enumeration or its text (the enumeration is a \<open>StrEnum\<close>).\<close>

definition parse_domain :: "string \<Rightarrow> exn + safety_domain" where
  "parse_domain v =
     (case find (\<lambda>d. domain_value d = v) all_domains of
        None \<Rightarrow> Inl ValueError | Some d \<Rightarrow> Inr d)"

definition bounded_text :: "string \<Rightarrow> exn + string" where
  "bounded_text v =
     (let normalized = strip v in
      if normalized = [] \<or> length normalized > max_safety_text then Inl ValueError
      else Inr normalized)"

text \<open>The constructor: \<open>insert or ignore\<close> of every domain, engaged.\<close>

definition initialize_switches :: "safety_db \<Rightarrow> safety_db" where
  "initialize_switches db =
     foldl (\<lambda>db d. if map_of (switches db) d = None
                   then db\<lparr>switches := switches db @ [(d, True)]\<rparr> else db) db all_domains"

definition safety_event_of :: "safety_row \<Rightarrow> exn + safety_event" where
  "safety_event_of r =
     bindE (from_micros (sr_occurred_at r)) (\<lambda>t.
     Inr \<lparr>se_sequence = sr_sequence r, se_event_id = sr_event_id r, se_domain = sr_domain r,
       se_key = sr_key r, se_actor = sr_actor r, se_correlation = sr_correlation r,
       se_reason = sr_reason r, se_occurred_at = t\<rparr>)"

definition read_switch_state :: "string \<Rightarrow> safety_db \<Rightarrow> exn + switch_state" where
  "read_switch_state v db =
     bindE (parse_domain v) (\<lambda>d.
     case map_of (switches db) d of
       None \<Rightarrow> Inl ControlStoreError
     | Some e \<Rightarrow> Inr \<lparr>sw_domain = d, sw_engaged = e\<rparr>)"

definition read_all :: "safety_db \<Rightarrow> exn + switch_state list" where
  "read_all db = mapE (\<lambda>d. read_switch_state (domain_value d) db) all_domains"

definition safety_digest ::
  "(string \<Rightarrow> string) \<Rightarrow> safety_domain \<Rightarrow> string \<Rightarrow> string \<Rightarrow> string \<Rightarrow> string" where
  "safety_digest sha d actor correlation reason =
     sha (dumps True (JObj
       [(''domain'', JStr (domain_value d)), (''actor_id'', JStr actor),
        (''correlation_id'', JStr correlation), (''reason'', JStr reason),
        (''operation'', JStr ''engage''), (''provider_call'', JBool False)]))"

definition engage_switch ::
  "(string \<Rightarrow> string) \<Rightarrow> string \<Rightarrow> string \<Rightarrow> string \<Rightarrow> string \<Rightarrow> string \<Rightarrow> datetime \<Rightarrow> string \<Rightarrow>
   safety_db \<Rightarrow> exn + safety_event \<times> safety_db" where
  "engage_switch sha v key actor correlation reason now eid db =
     bindE (parse_domain v) (\<lambda>d.
     bindE (bounded_text key) (\<lambda>key'.
     bindE (bounded_text actor) (\<lambda>actor'.
     bindE (bounded_text correlation) (\<lambda>correlation'.
     bindE (bounded_text reason) (\<lambda>reason'.
     let digest = safety_digest sha d actor' correlation' reason' in
     bindE (to_micros now) (\<lambda>us.
     case find (\<lambda>r. sr_key r = key') (safety_events db) of
       Some existing \<Rightarrow>
         if sr_digest existing \<noteq> digest then Inl ControlConflictError
         else bindE (safety_event_of existing) (\<lambda>e. Inr (e, db))
     | None \<Rightarrow>
         if map_of (switches db) d \<noteq> Some True then Inl ControlStoreError
         else
           bindE (insert_row (\<lambda>r r'. sr_event_id r = sr_event_id r' \<or> sr_key r = sr_key r')
             \<lparr>sr_sequence = next_sequence sr_sequence (safety_events db), sr_event_id = eid,
              sr_domain = d, sr_key = key', sr_digest = digest, sr_actor = actor',
              sr_correlation = correlation', sr_reason = reason', sr_occurred_at = us\<rparr>
             (safety_events db)) (\<lambda>es.
           case find (\<lambda>r. sr_event_id r = eid) es of
             None \<Rightarrow> Inl ControlStoreError
           | Some r \<Rightarrow> bindE (safety_event_of r) (\<lambda>e. Inr (e, db\<lparr>safety_events := es\<rparr>)))))))))"

definition list_safety_events :: "int \<Rightarrow> int \<Rightarrow> safety_db \<Rightarrow> exn + safety_event list" where
  "list_safety_events after limit db =
     (if after < 0 \<or> limit < 1 \<or> limit > 100 then Inl ValueError
      else mapE safety_event_of
        (take (nat limit) (filter (\<lambda>r. int (sr_sequence r) > after) (safety_events db))))"

section \<open>The service\<close>

definition read_switch :: "principal \<Rightarrow> string \<Rightarrow> safety_db \<Rightarrow> exn + switch_state" where
  "read_switch p v db = bindE (require_action p SafetyRead) (\<lambda>_. read_switch_state v db)"

definition read_all_switches :: "principal \<Rightarrow> safety_db \<Rightarrow> exn + switch_state list" where
  "read_all_switches p db = bindE (require_action p SafetyRead) (\<lambda>_. read_all db)"

definition list_events :: "principal \<Rightarrow> int \<Rightarrow> int \<Rightarrow> safety_db \<Rightarrow> exn + safety_event list" where
  "list_events p after limit db =
     bindE (require_action p SafetyRead) (\<lambda>_. list_safety_events after limit db)"

definition engage ::
  "(string \<Rightarrow> string) \<Rightarrow> principal \<Rightarrow> string \<Rightarrow> string \<Rightarrow> string \<Rightarrow> string \<Rightarrow> datetime \<Rightarrow> string \<Rightarrow>
   safety_db \<Rightarrow> exn + safety_event \<times> safety_db" where
  "engage sha p v key correlation reason now eid db =
     bindE (require_action p SafetyEngage) (\<lambda>_.
     engage_switch sha v key (subject p) correlation reason now eid db)"

section \<open>The ledger as a transition system\<close>

definition empty_safety :: safety_db where
  "empty_safety = \<lparr>switches = [], safety_events = []\<rparr>"

text \<open>A step opens the ledger again or engages a switch, through the service or directly.\<close>

inductive safety_step :: "(string \<Rightarrow> string) \<Rightarrow> safety_db \<Rightarrow> safety_db \<Rightarrow> bool" for sha db db' where
  open_step: "db' = initialize_switches db \<Longrightarrow> safety_step sha db db'"
| engage_step: "db' = snd (transaction
    (engage_switch sha v key actor correlation reason now eid) db) \<Longrightarrow> safety_step sha db db'"
| service_step: "db' = snd (transaction (engage sha p v key correlation reason now eid) db) \<Longrightarrow>
    safety_step sha db db'"

definition safety_wf :: "safety_db \<Rightarrow> bool" where
  "safety_wf db =
     ((\<forall>d \<in> set all_domains. map_of (switches db) d = Some True) \<and>
      sequence_ok sr_sequence (safety_events db) \<and>
      distinct (map sr_event_id (safety_events db)) \<and> distinct (map sr_key (safety_events db)))"

lemma in_all_domains [simp]: "d \<in> set all_domains"
  by (cases d) (simp_all add: all_domains_def)

lemma parse_domain_value [simp]: "parse_domain (domain_value d) = Inr d"
  by (cases d) (simp_all add: parse_domain_def all_domains_def)

lemma initialize_switches_engaged:
  "map_of (switches (initialize_switches empty_safety)) d = Some True"
  by (cases d) (simp_all add: initialize_switches_def all_domains_def empty_safety_def)

lemma initialize_switches_idle:
  assumes "\<forall>d. map_of (switches db) d \<noteq> None"
  shows "initialize_switches db = db"
proof -
  have "foldl (\<lambda>db d. if map_of (switches db) d = None
      then db\<lparr>switches := switches db @ [(d, True)]\<rparr> else db) db ds = db" for ds
    by (induction ds) (simp_all add: assms del: not_None_eq)
  then show ?thesis by (simp add: initialize_switches_def)
qed

lemma engage_switch_cases:
  assumes "engage_switch sha v key actor correlation reason now eid db = Inr (e, db')"
  obtains (replay) r where "db' = db" "find (\<lambda>r. sr_key r = strip key) (safety_events db) = Some r"
      "safety_event_of r = Inr e"
  | (new) r where "db' = db\<lparr>safety_events := safety_events db @ [r]\<rparr>"
      "sr_sequence r = next_sequence sr_sequence (safety_events db)"
      "\<forall>x \<in> set (safety_events db). sr_event_id x \<noteq> sr_event_id r \<and> sr_key x \<noteq> sr_key r"
      "find (\<lambda>r. sr_key r = strip key) (safety_events db') = Some r"
      "safety_event_of r = Inr e" "sr_actor r = strip actor" "domain_value (sr_domain r) = v"
proof (cases "find (\<lambda>r. sr_key r = strip key) (safety_events db)")
  case (Some r)
  with assms show ?thesis
    by (intro replay [of r]) (auto simp: engage_switch_def bindE_Inr bounded_text_def Let_def
        split: if_splits)
next
  case None
  from assms obtain d us where d: "parse_domain v = Inr d" and us: "to_micros now = Inr us"
    by (auto simp: engage_switch_def bindE_Inr Let_def)
  let ?r = "\<lparr>sr_sequence = next_sequence sr_sequence (safety_events db), sr_event_id = eid,
      sr_domain = d, sr_key = strip key,
      sr_digest = safety_digest sha d (strip actor) (strip correlation) (strip reason),
      sr_actor = strip actor, sr_correlation = strip correlation, sr_reason = strip reason,
      sr_occurred_at = us\<rparr>"
  from assms None d us have fresh: "\<forall>x \<in> set (safety_events db). sr_event_id x \<noteq> eid \<and> sr_key x \<noteq> strip key"
    and db': "db' = db\<lparr>safety_events := safety_events db @ [?r]\<rparr>"
    and found: "bindE (case find (\<lambda>r. sr_event_id r = eid) (safety_events db @ [?r]) of
        None \<Rightarrow> Inl ControlStoreError | Some r \<Rightarrow> safety_event_of r) Inr = Inr e"
    by (auto simp: engage_switch_def bindE_Inr bounded_text_def Let_def insert_row_Inr
        split: if_splits option.splits)
  have "find (\<lambda>r. sr_event_id r = eid) (safety_events db) = None"
    using fresh by (auto simp: find_None_iff)
  with found have e: "safety_event_of ?r = Inr e" by (simp add: find_append bindE_Inr)
  have "domain_value d = v"
    using d by (auto simp: parse_domain_def split: option.splits dest: find_SomeD)
  with db' fresh None e show ?thesis by (intro new [of ?r]) (simp_all add: find_append)
qed

lemma transaction_engage_wf:
  assumes "safety_wf db" and "\<And>e db'. body db = Inr (e, db') \<Longrightarrow> safety_wf db'"
  shows "safety_wf (snd (transaction body db))"
  by (rule transaction_preserves [where P = safety_wf]) (use assms in blast)+

lemma engage_switch_wf:
  assumes "engage_switch sha v key actor correlation reason now eid db = Inr (e, db')" and "safety_wf db"
  shows "safety_wf db'"
  using assms(1)
proof (cases rule: engage_switch_cases)
  case (new r)
  with assms(2) show ?thesis by (auto simp: safety_wf_def sequence_ok_append)
qed (use assms(2) in simp)

lemma safety_step_wf: "safety_wf db \<Longrightarrow> safety_step sha db db' \<Longrightarrow> safety_wf db'"
proof (erule safety_step.cases)
  assume "safety_wf db" "db' = initialize_switches db"
  then show "safety_wf db'"
    using initialize_switches_idle [of db] by (simp add: safety_wf_def)
next
  fix v key actor correlation reason now eid
  assume wf: "safety_wf db" and step: "db' = snd (transaction
    (engage_switch sha v key actor correlation reason now eid) db)"
  show "safety_wf db'"
    unfolding step using wf by (rule transaction_engage_wf) (rule engage_switch_wf [OF _ wf])
next
  fix p v key correlation reason now eid
  assume wf: "safety_wf db" and step: "db' = snd (transaction
    (engage sha p v key correlation reason now eid) db)"
  show "safety_wf db'"
    unfolding step using wf
    by (rule transaction_engage_wf) (auto simp: engage_def bindE_Inr intro: engage_switch_wf [OF _ wf])
qed

lemma initialize_wf [simp]: "safety_wf (initialize_switches empty_safety)"
proof -
  have "safety_events (initialize_switches empty_safety) = []"
    by (simp add: initialize_switches_def all_domains_def empty_safety_def)
  then show ?thesis by (simp add: safety_wf_def initialize_switches_engaged)
qed

interpretation safety_ledger: invariant_system "\<lambda>db. db = initialize_switches empty_safety"
  "safety_step sha" safety_wf for sha
  by unfold_locales (auto intro: safety_step_wf)

lemma safety_step_log:
  assumes "safety_step sha db db'"
  shows "prefix (safety_events db) (safety_events db')"
proof -
  have init: "safety_events (initialize_switches db) = safety_events db"
  proof -
    have "safety_events (foldl (\<lambda>db d. if map_of (switches db) d = None
        then db\<lparr>switches := switches db @ [(d, True)]\<rparr> else db) db ds) = safety_events db" for ds
      by (induction ds arbitrary: db) auto
    then show ?thesis by (simp add: initialize_switches_def)
  qed
  have engaged: "prefix (safety_events db) (safety_events db1)"
    if "engage_switch sha v key actor correlation reason now eid db = Inr (e, db1)"
    for v key actor correlation reason now eid e db1
    using that by (cases rule: engage_switch_cases) auto
  from assms show ?thesis
  proof cases
    case open_step
    with init show ?thesis by simp
  next
    case (engage_step v key actor correlation reason now eid)
    show ?thesis unfolding engage_step
      by (rule transaction_preserves [where P = "\<lambda>x. prefix (safety_events db) (safety_events x)"])
        (erule engaged, simp)
  next
    case (service_step p v key correlation reason now eid)
    show ?thesis unfolding service_step
      by (rule transaction_preserves [where P = "\<lambda>x. prefix (safety_events db) (safety_events x)"])
        (auto simp: engage_def bindE_Inr dest: engaged)
  qed
qed

interpretation safety_log: append_only_log "safety_step sha" safety_events for sha
  by unfold_locales (rule safety_step_log)

section \<open>Properties\<close>

text \<open>C29: the emergency stops are fail-safe. From the moment the ledger is opened, whatever calls are
  made and however they fail, every switch reads as engaged, and so does the list of all switches.\<close>

theorem switches_stay_engaged:
  assumes "(safety_step sha)\<^sup>*\<^sup>* (initialize_switches empty_safety) db"
  shows "read_switch_state (domain_value d) db = Inr \<lparr>sw_domain = d, sw_engaged = True\<rparr> \<and>
    read_all db = Inr (map (\<lambda>d. \<lparr>sw_domain = d, sw_engaged = True\<rparr>) all_domains)"
proof -
  have "safety_wf db" by (rule safety_ledger.reachable_inv [OF refl assms])
  then have one: "read_switch_state (domain_value d) db = Inr \<lparr>sw_domain = d, sw_engaged = True\<rparr>" for d
    by (simp add: read_switch_state_def safety_wf_def)
  have "mapE (\<lambda>d. read_switch_state (domain_value d) db) ds =
      Inr (map (\<lambda>d. \<lparr>sw_domain = d, sw_engaged = True\<rparr>) ds)" for ds
    by (induction ds) (simp_all add: one)
  with one show ?thesis by (simp add: read_all_def)
qed

theorem switches_stay_engaged_witness:
  "read_switch_state ''retention'' (initialize_switches empty_safety) =
     Inr \<lparr>sw_domain = RetentionDomain, sw_engaged = True\<rparr>"
  using switches_stay_engaged [OF rtranclp.rtrancl_refl, of RetentionDomain] by simp

text \<open>Evidence of an engagement names the authenticated caller and is never lost: an engagement
  through the service is refused unless the principal is a safety steward; otherwise its event, with
  the principal's subject (which has no surrounding space to strip) as the actor when the key is new,
  is in the log from then on, under its key.\<close>

theorem engagement_evidence_is_durable:
  assumes "engage sha p v key correlation reason now eid db = Inr (e, db1)"
    and "(safety_step sha)\<^sup>*\<^sup>* db1 db2"
  shows "SafetySteward \<in> roles p \<and>
    (\<exists>r. find (\<lambda>r. sr_key r = strip key) (safety_events db2) = Some r \<and> safety_event_of r = Inr e \<and>
      (find (\<lambda>r. sr_key r = strip key) (safety_events db) = None \<longrightarrow>
         sr_actor r = strip (subject p) \<and> domain_value (sr_domain r) = v))"
proof -
  from assms(1) have "allows p SafetyEngage"
    and eng: "engage_switch sha v key (subject p) correlation reason now eid db = Inr (e, db1)"
    by (auto simp: engage_def bindE_Inr require_action_def split: if_splits)
  then have "SafetySteward \<in> roles p"
    using role_of_action [of SafetyEngage _ SafetySteward] by (auto simp: allows_def)
  obtain es where es: "safety_events db2 = safety_events db1 @ es"
    using safety_log.steps_extend [OF assms(2)] by (auto simp: prefix_def)
  from eng have "\<exists>r. find (\<lambda>r. sr_key r = strip key) (safety_events db1) = Some r \<and> safety_event_of r = Inr e \<and>
      (find (\<lambda>r. sr_key r = strip key) (safety_events db) = None \<longrightarrow>
         sr_actor r = strip (subject p) \<and> domain_value (sr_domain r) = v)"
  proof (cases rule: engage_switch_cases)
    case (new r)
    then show ?thesis by blast
  qed auto
  with \<open>SafetySteward \<in> roles p\<close> show ?thesis by (auto simp: es find_append)
qed

theorem engagement_evidence_is_durable_witness:
  "\<exists>(db :: safety_db) r. find (\<lambda>r. sr_key r = ''k1'') (safety_events db) = Some r \<and> sr_actor r = ''steward'' \<and>
     domain_value (sr_domain r) = ''capture''"
proof -
  let ?p = "\<lparr>subject = ''steward'', roles = {SafetySteward}, principal_scope = None\<rparr>"
  have texts: "strip ''k1'' = ''k1''" "strip ''steward'' = ''steward''" "strip ''c1'' = ''c1''"
    "strip ''r1'' = ''r1''" "parse_domain ''capture'' = Inr CaptureDomain"
    by code_simp+
  have "safety_events (initialize_switches empty_safety) = []"
    by (simp add: initialize_switches_def all_domains_def empty_safety_def)
  then obtain e db where eng: "engage (\<lambda>s. s) ?p ''capture'' ''k1'' ''c1'' ''r1'' (utc 1700000000000000) ''e1''
      (initialize_switches empty_safety) = Inr (e, db)"
    by (simp add: engage_def require_action_def allows_def engage_switch_def texts bounded_text_def
        max_safety_text_def Let_def initialize_switches_engaged insert_row_def
        safety_event_of_def to_micros_exact_era from_micros_exact_era)
  from engagement_evidence_is_durable [OF eng rtranclp.rtrancl_refl]
    \<open>safety_events (initialize_switches empty_safety) = []\<close> show ?thesis
    by (auto simp: texts)
qed

end
