(* ===== verification/Session_Security.thy ===== *)
theory Session_Security
  imports Control_Auth Timestamps Json_Text
begin

text \<open>
  The session and request policy of \<open>session_security.py\<close>: CSRF material in canonical unpadded
  base64url, browser origins in canonical form, the security context of a session, and the check of
  one request. Bytes are characters; \<open>Headers.getlist\<close> of a request is a function from the name.
\<close>

section \<open>CSRF tokens\<close>

definition b64_alphabet :: string where
  "b64_alphabet = ''ABCDEFGHIJKLMNOPQRSTUVWXYZabcdefghijklmnopqrstuvwxyz0123456789-_''"

definition b64_value :: "char \<Rightarrow> nat option" where
  "b64_value c = map_option fst (find (\<lambda>(i, d). d = c) (zip [0..<64] b64_alphabet))"

definition b64_digit :: "nat \<Rightarrow> char" where
  "b64_digit n = b64_alphabet ! n"

definition byte :: "nat \<Rightarrow> char" where
  "byte n = char_of n"

text \<open>
  \<open>urlsafe_b64decode\<close> and \<open>urlsafe_b64encode\<close> without padding: four digits are three bytes; three
  digits at the end are two bytes, of which the decoder ignores the last two bits.
\<close>

fun b64_decode :: "nat list \<Rightarrow> string option" where
  "b64_decode [] = Some []"
| "b64_decode [a, b, c] = Some [byte (a * 4 + b div 16), byte (b mod 16 * 16 + c div 4)]"
| "b64_decode (a # b # c # d # ds) =
     map_option (\<lambda>bs. byte (a * 4 + b div 16) # byte (b mod 16 * 16 + c div 4) #
       byte (c mod 4 * 64 + d) # bs) (b64_decode ds)"
| "b64_decode _ = None"

fun b64_encode :: "string \<Rightarrow> string" where
  "b64_encode [] = []"
| "b64_encode [x] = [b64_digit (code x div 4), b64_digit (code x mod 4 * 16)]"
| "b64_encode [x, y] = [b64_digit (code x div 4), b64_digit (code x mod 4 * 16 + code y div 16),
     b64_digit (code y mod 16 * 4)]"
| "b64_encode (x # y # z # s) =
     b64_digit (code x div 4) # b64_digit (code x mod 4 * 16 + code y div 16) #
     b64_digit (code y mod 16 * 4 + code z div 64) # b64_digit (code z mod 64) # b64_encode s"

definition token_pattern :: "string \<Rightarrow> bool" where
  "token_pattern s = (length s = 43 \<and> list_all (\<lambda>c. b64_value c \<noteq> None) s)"

definition decode_csrf_token :: "string \<Rightarrow> exn + string" where
  "decode_csrf_token token =
     bindE (require (token_pattern token) ValueError) (\<lambda>_.
     case b64_decode (map (\<lambda>c. the (b64_value c)) token) of
       None \<Rightarrow> Inl ValueError
     | Some raw \<Rightarrow>
         bindE (require (length raw = 32) ValueError) (\<lambda>_.
         bindE (require (b64_encode raw = token) ValueError) (\<lambda>_. Inr raw)))"

definition csrf_token_digest :: "(string \<Rightarrow> string) \<Rightarrow> string \<Rightarrow> exn + string" where
  "csrf_token_digest sha token = bindE (decode_csrf_token token) (\<lambda>raw. Inr (sha raw))"

section \<open>Origins\<close>

definition max_origin_length :: nat where "max_origin_length = 255"

fun split_dots :: "string \<Rightarrow> string list" where
  "split_dots [] = [[]]"
| "split_dots (c # cs) =
     (if c = CHR ''.'' then [] # split_dots cs
      else (c # hd (split_dots cs)) # tl (split_dots cs))"

definition host_char :: "char \<Rightarrow> bool" where
  "host_char c = (is_lower c \<or> is_digit c)"

definition dns_label :: "string \<Rightarrow> bool" where
  "dns_label l = (l \<noteq> [] \<and> length l \<le> 63 \<and> host_char (hd l) \<and> host_char (last l) \<and>
     list_all (\<lambda>c. host_char c \<or> c = CHR ''-'') l)"

definition dns_name_pattern :: "string \<Rightarrow> bool" where
  "dns_name_pattern h = (2 \<le> length (split_dots h) \<and> list_all dns_label (split_dots h))"

text \<open>
  \<open>urlsplit(origin).netloc\<close> of an origin that starts with \<open>https://\<close> is the text up to the first
  \<open>/\<close>, \<open>?\<close> or \<open>#\<close>. An origin that does not start so (another case of the scheme, a tab inside,
  no slashes) fails the comparison at the end of \<open>_validate_origin\<close>, and so does one in which anything
  follows the netloc.
\<close>

definition netloc :: "string \<Rightarrow> string" where
  "netloc origin = takeWhile (\<lambda>c. c \<notin> {CHR ''/'', CHR ''?'', CHR ''#''}) (drop 8 origin)"

definition lower_char :: "char \<Rightarrow> char" where
  "lower_char c = (if is_upper c then char_of (code c + 32) else c)"

text \<open>\<open>hostname\<close> and \<open>port\<close> of a netloc without user information; the port may raise.\<close>

definition hostname :: "string \<Rightarrow> string" where
  "hostname n = map lower_char (takeWhile (\<lambda>c. c \<noteq> CHR '':'') n)"

definition port :: "string \<Rightarrow> exn + nat option" where
  "port n =
     (case dropWhile (\<lambda>c. c \<noteq> CHR '':'') n of
        [] \<Rightarrow> Inr None
      | [_] \<Rightarrow> Inr None
      | _ # p \<Rightarrow>
          if list_all is_digit p then
            (if dec_value p \<le> 65535 then Inr (Some (dec_value p)) else Inl ValueError)
          else Inl ValueError)"

definition validate_origin :: "string \<Rightarrow> exn + unit" where
  "validate_origin origin =
     bindE (require (1 \<le> length origin \<and> length origin \<le> max_origin_length \<and>
       origin = strip origin \<and> origin \<noteq> ''null'') ValueError) (\<lambda>_.
     bindE (require (startswith origin ''https://'') ValueError) (\<lambda>_.
     let n = netloc origin; host = hostname n in
     bindE (require (n \<noteq> [] \<and> CHR ''@'' \<notin> set n \<and> host \<noteq> []) ValueError) (\<lambda>_.
     bindE (require (dns_name_pattern host) ValueError) (\<lambda>_.
     bindE (require (hd n \<noteq> CHR ''['' \<and> last n \<noteq> CHR ''.'') ValueError) (\<lambda>_.
     bindE (port n) (\<lambda>p.
     bindE (require (p \<noteq> Some 443) ValueError) (\<lambda>_.
     let canonical = (case p of None \<Rightarrow> host | Some k \<Rightarrow> host @ CHR '':'' # nat_str k) in
     require (n = canonical \<and> origin = ''https://'' @ canonical) ValueError)))))))"

section \<open>The context of a session\<close>

definition max_absolute_lifetime :: int where "max_absolute_lifetime = seconds (8 * 3600)"
definition max_idle_lifetime :: int where "max_idle_lifetime = seconds (30 * 60)"
definition max_clock_skew :: int where "max_clock_skew = seconds 60"
definition max_generation :: int where "max_generation = 2 ^ 31 - 1"

datatype session_transport = BrowserCookie

record security_context =
  sc_principal :: principal
  sc_session_digest :: string
  sc_session_generation :: int
  sc_active_generation :: int
  sc_issued_at :: datetime
  sc_authenticated_at :: datetime
  sc_last_seen_at :: datetime
  sc_idle_expires_at :: datetime
  sc_absolute_expires_at :: datetime
  sc_revoked :: bool
  sc_transport :: session_transport
  sc_origin :: string
  sc_csrf_digest :: string

definition validate_session_principal :: "principal \<Rightarrow> exn + unit" where
  "validate_session_principal p =
     bindE (require (principal_scope p \<noteq> None) ValueError) (\<lambda>_.
     bindE (make_principal (subject p) (roles p) (principal_scope p)) (\<lambda>rebuilt.
     require (rebuilt = p) ValueError))"

definition validate_context :: "security_context \<Rightarrow> datetime option \<Rightarrow> exn + unit" where
  "validate_context c now =
     bindE (validate_session_principal (sc_principal c)) (\<lambda>_.
     bindE (forE (\<lambda>d. require (sha256_pattern d) ValueError) [sc_session_digest c, sc_csrf_digest c])
       (\<lambda>_.
     bindE (forE (\<lambda>g. require (1 \<le> g \<and> g \<le> max_generation) ValueError)
       [sc_session_generation c, sc_active_generation c]) (\<lambda>_.
     bindE (require (sc_session_generation c = sc_active_generation c) ValueError) (\<lambda>_.
     bindE (require (\<not> sc_revoked c) ValueError) (\<lambda>_.
     bindE (validate_origin (sc_origin c)) (\<lambda>_.
     bindE (mapE require_utc [sc_issued_at c, sc_authenticated_at c, sc_last_seen_at c,
       sc_idle_expires_at c, sc_absolute_expires_at c]) (\<lambda>_.
     bindE (require (wall (sc_issued_at c) \<le> wall (sc_authenticated_at c) \<and>
       wall (sc_authenticated_at c) \<le> wall (sc_last_seen_at c) \<and>
       wall (sc_last_seen_at c) < wall (sc_idle_expires_at c) \<and>
       wall (sc_idle_expires_at c) \<le> wall (sc_absolute_expires_at c)) ValueError) (\<lambda>_.
     bindE (require (\<not> wall (sc_absolute_expires_at c) - wall (sc_authenticated_at c) >
       max_absolute_lifetime) ValueError) (\<lambda>_.
     bindE (require (\<not> wall (sc_idle_expires_at c) - wall (sc_last_seen_at c) > max_idle_lifetime)
       ValueError) (\<lambda>_.
     case now of
       None \<Rightarrow> Inr ()
     | Some t \<Rightarrow>
         bindE (plus_us t max_clock_skew) (\<lambda>limit.
         bindE (require (\<not> wall (sc_issued_at c) > wall limit) ValueError) (\<lambda>_.
         bindE (require (\<not> (wall (sc_authenticated_at c) > wall t \<or>
           wall (sc_last_seen_at c) > wall t)) ValueError) (\<lambda>_.
         require (\<not> (wall t \<ge> wall (sc_idle_expires_at c) \<or>
           wall t \<ge> wall (sc_absolute_expires_at c))) ValueError)))))))))))))"

section \<open>The check of a request\<close>

definition safe_methods :: "string list" where
  "safe_methods = [''GET'', ''HEAD'', ''OPTIONS'']"

definition unsafe_methods :: "string list" where
  "unsafe_methods = [''POST'', ''PUT'', ''PATCH'', ''DELETE'']"

definition validate_unsafe_request ::
  "(string \<Rightarrow> string) \<Rightarrow> security_context \<Rightarrow> (string \<Rightarrow> string list) \<Rightarrow> exn + unit" where
  "validate_unsafe_request sha c getlist =
     (case (getlist ''origin'', getlist ''x-csrf-token'') of
        ([origin], [token]) \<Rightarrow>
          bindE (validate_origin origin) (\<lambda>_.
          bindE (require (origin = sc_origin c) ValueError) (\<lambda>_.
          bindE (csrf_token_digest sha token) (\<lambda>presented.
          require (presented = sc_csrf_digest c) ValueError)))
      | _ \<Rightarrow> Inl ValueError)"

text \<open>\<open>method.upper()\<close> of a method with only the letters of the seven methods is the method itself.\<close>

definition validate_session_security ::
  "(string \<Rightarrow> string) \<Rightarrow> security_context \<Rightarrow> principal \<Rightarrow> string \<Rightarrow> (string \<Rightarrow> string list) \<Rightarrow>
   datetime \<Rightarrow> exn + unit" where
  "validate_session_security sha c route_principal http_method getlist now =
     except (\<lambda>_. True) SessionSecurityRejectedError
       (bindE (require_utc now) (\<lambda>_.
        bindE (validate_context c (Some now)) (\<lambda>_.
        bindE (validate_session_principal route_principal) (\<lambda>_.
        bindE (require (sc_principal c = route_principal) ValueError) (\<lambda>_.
        bindE (require (http_method \<in> set safe_methods \<or> http_method \<in> set unsafe_methods)
          ValueError) (\<lambda>_.
        if http_method \<in> set unsafe_methods then validate_unsafe_request sha c getlist
        else Inr ()))))))"

section \<open>Base64url\<close>

lemma b64_value_digit: "n < 64 \<Longrightarrow> b64_value (b64_digit n) = Some n"
proof -
  assume "n < 64"
  have "list_all (\<lambda>n. b64_value (b64_digit n) = Some n) [0..<64]" by code_simp
  with \<open>n < 64\<close> show ?thesis by (simp add: list_all_iff)
qed

lemma byte_code [simp]: "byte (code c) = c"
  by (simp add: byte_def code_def)

lemma sextets:
  fixes x y z :: nat
  assumes "x < 256" "y < 256" "z < 256"
  shows "x div 4 < 64" "x mod 4 * 16 + y div 16 < 64" "y mod 16 * 4 + z div 64 < 64" "z mod 64 < 64"
    "x mod 4 * 16 < 64" "y mod 16 * 4 < 64"
    "x div 4 * 4 + (x mod 4 * 16 + y div 16) div 16 = x"
    "(x mod 4 * 16 + y div 16) mod 16 * 16 + (y mod 16 * 4 + z div 64) div 4 = y"
    "(x mod 4 * 16 + y div 16) mod 16 * 16 + (y mod 16 * 4) div 4 = y"
    "(y mod 16 * 4 + z div 64) mod 4 * 64 + z mod 64 = z"
proof -
  have m: "x mod 4 < 4" "y mod 16 < 16" "z mod 64 < 64" "y div 16 < 16" "z div 64 < 4" "x div 4 < 64"
    using assms by (simp_all add: div_less_iff_less_mult)
  show "x div 4 < 64" "z mod 64 < 64" using m by simp_all
  show "x mod 4 * 16 + y div 16 < 64" "y mod 16 * 4 + z div 64 < 64" "x mod 4 * 16 < 64"
    "y mod 16 * 4 < 64"
    using m by linarith+
  have q: "(x mod 4 * 16 + y div 16) div 16 = x mod 4"
    "(x mod 4 * 16 + y div 16) mod 16 = y div 16"
    "(y mod 16 * 4 + z div 64) div 4 = y mod 16" "(y mod 16 * 4) div 4 = y mod 16"
    "(y mod 16 * 4 + z div 64) mod 4 = z div 64"
    using m by simp_all
  show "x div 4 * 4 + (x mod 4 * 16 + y div 16) div 16 = x"
    "(x mod 4 * 16 + y div 16) mod 16 * 16 + (y mod 16 * 4 + z div 64) div 4 = y"
    "(x mod 4 * 16 + y div 16) mod 16 * 16 + (y mod 16 * 4) div 4 = y"
    "(y mod 16 * 4 + z div 64) mod 4 * 64 + z mod 64 = z"
    unfolding q by simp_all
qed

lemmas code_sextets = sextets [OF code_less code_less code_less]

lemma b64_round_trip:
  "length s mod 3 \<noteq> 1 \<Longrightarrow> b64_decode (map (\<lambda>c. the (b64_value c)) (b64_encode s)) = Some s"
proof (induction s rule: b64_encode.induct)
  case (3 x y)
  then show ?case using sextets [of "code x" "code y" 0] by (simp add: b64_value_digit)
next
  case (4 x y z s)
  then have "length s mod 3 \<noteq> 1" by (simp add: mod_Suc split: if_splits)
  with 4 show ?case
    using sextets [of "code x" "code y" "code z"] by (simp add: b64_value_digit)
qed simp_all

lemma b64_encode_alphabet: "list_all (\<lambda>c. b64_value c \<noteq> None) (b64_encode s)"
  by (induction s rule: b64_encode.induct)
    (simp_all add: b64_value_digit code_sextets)

lemma b64_encode_length:
  "length s mod 3 = 2 \<Longrightarrow> length (b64_encode s) * 3 = length s * 4 + 1"
  by (induction s rule: b64_encode.induct) (auto simp: mod_Suc split: if_splits)

lemma decode_csrf_token_iff:
  "decode_csrf_token t = Inr raw \<longleftrightarrow> length raw = 32 \<and> t = b64_encode raw"
proof
  assume "length raw = 32 \<and> t = b64_encode raw"
  moreover from this have "length t = 43" using b64_encode_length [of raw] by simp
  moreover from calculation have "b64_decode (map (\<lambda>c. the (b64_value c)) t) = Some raw"
    using b64_round_trip [of raw] by simp
  ultimately show "decode_csrf_token t = Inr raw"
    using b64_encode_alphabet [of raw] by (simp add: decode_csrf_token_def token_pattern_def)
qed (auto simp: decode_csrf_token_def bindE_Inr require_Inr split: option.splits)

section \<open>Origins\<close>

lemma split_dots_not_Nil [simp]: "split_dots s \<noteq> []"
  by (induction s) auto

lemma split_dots_chars: "c \<in> set h \<Longrightarrow> c = CHR ''.'' \<or> (\<exists>l \<in> set (split_dots h). c \<in> set l)"
proof (induction h)
  case (Cons a h)
  then show ?case by (cases "split_dots h") (auto split: if_splits)
qed simp

lemma split_dots_last:
  assumes "h \<noteq> []" and "last h \<noteq> CHR ''.''"
  shows "last (split_dots h) \<noteq> [] \<and> last (last (split_dots h)) = last h"
  using assms
proof (induction h)
  case (Cons a h)
  show ?case
  proof (cases h)
    case Nil
    with Cons.prems show ?thesis by simp
  next
    case (Cons b h')
    then obtain l ls where ls: "split_dots h = l # ls"
      using split_dots_not_Nil [of h] by (metis list.exhaust)
    with Cons.IH Cons.prems Cons show ?thesis by (cases ls) auto
  qed
qed simp

lemma split_dots_snoc_dot: "split_dots (h @ [CHR ''.'']) = split_dots h @ [[]]"
proof (induction h)
  case (Cons a h)
  then show ?case by (cases "split_dots h") auto
qed simp

lemma dns_name_last: "dns_name_pattern h \<Longrightarrow> h \<noteq> [] \<and> last h \<noteq> CHR ''.''"
proof
  assume h: "dns_name_pattern h"
  then show "h \<noteq> []" by (auto simp: dns_name_pattern_def)
  show "last h \<noteq> CHR ''.''"
  proof
    assume "last h = CHR ''.''"
    with \<open>h \<noteq> []\<close> have "h = butlast h @ [CHR ''.'']" by (metis append_butlast_last_id)
    then have "split_dots h = split_dots (butlast h) @ [[]]" by (metis split_dots_snoc_dot)
    with h show False by (simp add: dns_name_pattern_def dns_label_def)
  qed
qed

definition dns_char :: "char \<Rightarrow> bool" where
  "dns_char c = (host_char c \<or> c = CHR ''-'' \<or> c = CHR ''.'')"

lemma dns_name_chars: "dns_name_pattern h \<Longrightarrow> list_all dns_char h"
  unfolding list_all_iff dns_name_pattern_def dns_label_def dns_char_def
  using split_dots_chars by fastforce

lemma dns_char_simps:
  assumes "dns_char c"
  shows "c \<noteq> CHR ''/''" "c \<noteq> CHR ''?''" "c \<noteq> CHR ''#''" "c \<noteq> CHR '':''" "c \<noteq> CHR ''@''"
    "c \<noteq> CHR ''[''" "lower_char c = c" "\<not> is_space c"
  using assms by (auto simp: dns_char_def host_char_def is_lower_def is_digit_def lower_char_def
      is_upper_def is_space_def code_def)

lemma digit_char_simps:
  assumes "is_digit c"
  shows "c \<noteq> CHR ''/''" "c \<noteq> CHR ''?''" "c \<noteq> CHR ''#''" "c \<noteq> CHR ''@''" "c \<noteq> CHR ''[''"
    "\<not> is_space c" "c \<noteq> CHR ''.''"
  using assms by (auto simp: is_digit_def is_space_def code_def)

lemma strip_id:
  assumes "s \<noteq> []" and "\<not> is_space (hd s)" and "\<not> is_space (last s)"
  shows "strip s = s"
proof -
  have d: "dropWhile is_space u = u" if "u \<noteq> []" "\<not> is_space (hd u)" for u
    using that by (cases u) auto
  show ?thesis using d [of s] d [of "rev s"] assms by (simp add: strip_def hd_rev)
qed

lemma https_simps:
  "length ''https://'' = 8" "startswith (''https://'' @ n) ''https://''"
  "drop 8 (''https://'' @ n) = n"
  by (simp_all add: startswith_def)

lemma netloc_https:
  "list_all (\<lambda>c. c \<notin> {CHR ''/'', CHR ''?'', CHR ''#''}) n \<Longrightarrow> netloc (''https://'' @ n) = n"
  unfolding netloc_def https_simps(3) by (simp add: takeWhile_eq_all_conv list_all_iff)

text \<open>The canonical netloc of a host and an optional port, and how it is taken apart.\<close>

definition canonical_netloc :: "string \<Rightarrow> nat option \<Rightarrow> string" where
  "canonical_netloc h p = (case p of None \<Rightarrow> h | Some k \<Rightarrow> h @ CHR '':'' # nat_str k)"

lemma dns_no_colon:
  "list_all dns_char h \<Longrightarrow> takeWhile (\<lambda>c. c \<noteq> CHR '':'') h = h"
  "list_all dns_char h \<Longrightarrow> takeWhile (\<lambda>c. c \<noteq> CHR '':'') (h @ CHR '':'' # u) = h"
  "list_all dns_char h \<Longrightarrow> dropWhile (\<lambda>c. c \<noteq> CHR '':'') h = []"
  "list_all dns_char h \<Longrightarrow> dropWhile (\<lambda>c. c \<noteq> CHR '':'') (h @ CHR '':'' # u) = CHR '':'' # u"
  "list_all dns_char h \<Longrightarrow> map lower_char h = h"
  by (induction h) (simp_all add: dns_char_simps)

lemma canonical_parts:
  assumes "dns_name_pattern h"
  shows "hostname (canonical_netloc h p) = h"
    and "(case p of None \<Rightarrow> True | Some k \<Rightarrow> k \<le> 65535) \<Longrightarrow> port (canonical_netloc h p) = Inr p"
proof -
  note chars = dns_no_colon [OF dns_name_chars [OF assms]]
  show "hostname (canonical_netloc h p) = h"
    by (cases p) (simp_all add: canonical_netloc_def hostname_def chars)
  show "port (canonical_netloc h p) = Inr p" if "case p of None \<Rightarrow> True | Some k \<Rightarrow> k \<le> 65535"
  proof (cases p)
    case (Some k)
    then have "port (canonical_netloc h p) = (case CHR '':'' # nat_str k of
        [] \<Rightarrow> Inr None | [_] \<Rightarrow> Inr None | _ # p \<Rightarrow>
          if list_all is_digit p then
            (if dec_value p \<le> 65535 then Inr (Some (dec_value p)) else Inl ValueError)
          else Inl ValueError)"
      by (simp add: canonical_netloc_def port_def chars)
    also have "\<dots> = Inr (Some k)"
    proof -
      obtain x xs where x: "nat_str k = x # xs" by (metis nat_str_not_Nil list.exhaust)
      then have "dec_value (x # xs) = k" "list_all is_digit (x # xs)"
        using dec_value_nat_str [of k] nat_str_digits [of k] by simp_all
      with x that Some show ?thesis by simp
    qed
    finally show ?thesis using Some by simp
  qed (simp add: canonical_netloc_def port_def chars)
qed

lemma canonical_chars:
  assumes "dns_name_pattern h"
  shows "list_all (\<lambda>c. c \<notin> {CHR ''/'', CHR ''?'', CHR ''#'', CHR ''@'', CHR ''[''} \<and> \<not> is_space c)
      (canonical_netloc h p)"
    and "canonical_netloc h p \<noteq> []" and "last (canonical_netloc h p) \<noteq> CHR ''.''"
proof -
  let ?ok = "\<lambda>c. c \<notin> {CHR ''/'', CHR ''?'', CHR ''#'', CHR ''@'', CHR ''[''} \<and> \<not> is_space c"
  have h: "list_all ?ok h"
    using dns_name_chars [OF assms] by (rule list.pred_mono_strong) (simp add: dns_char_simps)
  have d: "list_all ?ok (nat_str k)" for k
    using nat_str_digits [of k] by (rule list.pred_mono_strong) (simp add: digit_char_simps)
  have "?ok CHR '':''" by (simp add: is_space_def code_def)
  with h d show "list_all ?ok (canonical_netloc h p)"
    by (cases p) (simp_all add: canonical_netloc_def)
  have nh: "h \<noteq> []" "last h \<noteq> CHR ''.''" using dns_name_last [OF assms] by simp_all
  then show "canonical_netloc h p \<noteq> []" by (cases p) (simp_all add: canonical_netloc_def)
  have "last (nat_str k) \<noteq> CHR ''.''" for k
    using nat_str_digits [of k] digit_char_simps [of "last (nat_str k)"]
    by (metis last_in_set list_all_iff nat_str_not_Nil)
  with nh show "last (canonical_netloc h p) \<noteq> CHR ''.''"
    by (cases p) (simp_all add: canonical_netloc_def)
qed

lemma canonical_origin_accepted:
  assumes h: "dns_name_pattern h" and k: "p \<noteq> Some 443" "case p of None \<Rightarrow> True | Some k \<Rightarrow> k \<le> 65535"
    and len: "length (''https://'' @ canonical_netloc h p) \<le> max_origin_length"
  shows "validate_origin (''https://'' @ canonical_netloc h p) = Inr ()"
proof -
  let ?n = "canonical_netloc h p"
  note c = canonical_chars [OF h, of p]
  have net: "netloc (''https://'' @ ?n) = ?n"
    by (rule netloc_https, rule list.pred_mono_strong [OF c(1)]) simp
  have "\<not> is_space (last ?n)" "hd ?n \<noteq> CHR ''[''" "CHR ''@'' \<notin> set ?n"
    using c(1,2) by (auto simp: list_all_iff)
  moreover from this have strip: "strip (''https://'' @ ?n) = ''https://'' @ ?n"
    by (intro strip_id) (use c(2) in \<open>simp_all add: is_space_def code_def\<close>)
  moreover have "h \<noteq> []" using dns_name_last [OF h] by simp
  moreover have fold: "(case p of None \<Rightarrow> hostname ?n
      | Some k \<Rightarrow> hostname ?n @ CHR '':'' # nat_str k) = ?n"
    using canonical_parts(1) [OF h, of p] by (simp add: canonical_netloc_def split: option.splits)
  moreover have "?n \<noteq> []" using c(2) by auto
  ultimately show ?thesis
    using h k(1) len c(2,3)
    by (simp add: validate_origin_def Let_def net canonical_parts(1) [OF h] startswith_def
        canonical_parts(2) [OF h k(2)] require_def fold del: append_Cons append_Nil)
qed

lemma port_range: "port n = Inr p \<Longrightarrow> case p of None \<Rightarrow> True | Some k \<Rightarrow> k \<le> 65535"
  by (auto simp: port_def split: list.splits if_splits)

text \<open>C34: An origin is accepted exactly when it is \<open>https://\<close> with a lower-case DNS name and, at most,
  a port in plain decimal that is not 443, of at most 255 characters: one spelling per origin.\<close>

theorem origin_is_canonical:
  "validate_origin origin = Inr () \<longleftrightarrow>
     length origin \<le> max_origin_length \<and>
     (\<exists>h p. origin = ''https://'' @ canonical_netloc h p \<and> dns_name_pattern h \<and> p \<noteq> Some 443 \<and>
       (case p of None \<Rightarrow> True | Some k \<Rightarrow> k \<le> 65535))"
proof
  assume v: "validate_origin origin = Inr ()"
  then obtain p where p: "port (netloc origin) = Inr p" "p \<noteq> Some 443"
    and o: "origin = ''https://'' @ canonical_netloc (hostname (netloc origin)) p"
    and h: "dns_name_pattern (hostname (netloc origin))" and l: "length origin \<le> max_origin_length"
    by (auto simp: validate_origin_def Let_def bindE_Inr require_Inr canonical_netloc_def
        simp del: append_Cons)
  then show "length origin \<le> max_origin_length \<and>
     (\<exists>h p. origin = ''https://'' @ canonical_netloc h p \<and> dns_name_pattern h \<and> p \<noteq> Some 443 \<and>
       (case p of None \<Rightarrow> True | Some k \<Rightarrow> k \<le> 65535))"
    using port_range [OF p(1)] by blast
qed (use canonical_origin_accepted in blast)

text \<open>The accepted CSRF tokens are exactly the base64url encodings of 32 bytes, and a token is
  decoded to the bytes it encodes: every 256-bit secret has one accepted spelling.\<close>

theorem csrf_token_round_trip:
  "decode_csrf_token t = Inr raw \<longleftrightarrow> length raw = 32 \<and> t = b64_encode raw"
  by (rule decode_csrf_token_iff)

section \<open>Which requests pass\<close>

definition bound_principal :: "principal \<Rightarrow> bool" where
  "bound_principal p = (valid_principal p \<and> principal_scope p \<noteq> None)"

lemma validate_session_principal_iff [flow]:
  "validate_session_principal p = Inr () \<longleftrightarrow> bound_principal p"
  unfolding validate_session_principal_def bound_principal_def flow
  by (cases p) auto

text \<open>A session that is in force at an instant: its evidence is in form and its lifetimes hold.\<close>

definition session_in_force :: "security_context \<Rightarrow> datetime \<Rightarrow> bool" where
  "session_in_force c now =
     (bound_principal (sc_principal c) \<and> validate_origin (sc_origin c) = Inr () \<and>
      sha256_pattern (sc_session_digest c) \<and> sha256_pattern (sc_csrf_digest c) \<and>
      1 \<le> sc_session_generation c \<and> sc_session_generation c \<le> max_generation \<and>
      sc_active_generation c = sc_session_generation c \<and> \<not> sc_revoked c \<and>
      (\<forall>d \<in> {sc_issued_at c, sc_authenticated_at c, sc_last_seen_at c, sc_idle_expires_at c,
        sc_absolute_expires_at c}. tz d = UTC) \<and>
      wall (sc_issued_at c) \<le> wall (sc_authenticated_at c) \<and>
      wall (sc_authenticated_at c) \<le> wall (sc_last_seen_at c) \<and>
      wall (sc_last_seen_at c) \<le> wall now \<and> wall now < wall (sc_idle_expires_at c) \<and>
      wall (sc_idle_expires_at c) \<le> wall (sc_absolute_expires_at c) \<and>
      wall (sc_absolute_expires_at c) \<le> wall (sc_authenticated_at c) + max_absolute_lifetime \<and>
      wall (sc_idle_expires_at c) \<le> wall (sc_last_seen_at c) + max_idle_lifetime)"

lemma require_utc_Inr [flow]: "require_utc d = Inr d' \<longleftrightarrow> tz d = UTC \<and> d' = d"
  by (auto simp: require_utc_def)

lemma validate_context_iff:
  assumes "in_range (wall now + max_clock_skew)"
  shows "validate_context c (Some now) = Inr () \<longleftrightarrow> session_in_force c now"
proof -
  have "0 \<le> max_clock_skew" by (simp add: max_clock_skew_def seconds_def)
  with assms show ?thesis
    by (auto simp: validate_context_def session_in_force_def flow plus_us_def)
qed

definition carries_token :: "(string \<Rightarrow> string) \<Rightarrow> security_context \<Rightarrow> (string \<Rightarrow> string list) \<Rightarrow> bool" where
  "carries_token sha c getlist =
     (getlist ''origin'' = [sc_origin c] \<and>
      (\<exists>raw. length raw = 32 \<and> getlist ''x-csrf-token'' = [b64_encode raw] \<and>
        sha raw = sc_csrf_digest c))"

lemma validate_unsafe_request_iff:
  assumes "validate_origin (sc_origin c) = Inr ()"
  shows "validate_unsafe_request sha c getlist = Inr () \<longleftrightarrow> carries_token sha c getlist"
  using assms
  by (auto simp: validate_unsafe_request_def carries_token_def csrf_token_digest_def flow
      decode_csrf_token_iff split: list.splits)

lemma safe_not_unsafe: "m \<in> set safe_methods \<Longrightarrow> m \<notin> set unsafe_methods"
  by (auto simp: safe_methods_def unsafe_methods_def)

text \<open>A request passes exactly when the session is in force at the evaluation time, the principal
  of the route is the principal of the session, the method is one of the seven, and a method that is
  not safe carries one origin, the one of the session, and one token, the encoding of the 32 bytes whose
  digest the session holds. Any other request is rejected with the one exception of the policy.\<close>

theorem request_security_gate:
  assumes "in_range (wall now + max_clock_skew)"
  shows "validate_session_security sha c rp m getlist now =
     (if tz now = UTC \<and> session_in_force c now \<and> rp = sc_principal c \<and>
         (m \<in> set safe_methods \<or> m \<in> set unsafe_methods \<and> carries_token sha c getlist)
      then Inr () else Inl SessionSecurityRejectedError)"
proof -
  note ok = validate_context_iff [OF assms, of c]
  have origin: "session_in_force c now \<Longrightarrow> validate_origin (sc_origin c) = Inr ()"
    and bound: "session_in_force c now \<Longrightarrow> bound_principal (sc_principal c)"
    by (simp_all add: session_in_force_def)
  have iff: "validate_session_security sha c rp m getlist now = Inr () \<longleftrightarrow>
     tz now = UTC \<and> session_in_force c now \<and> rp = sc_principal c \<and>
         (m \<in> set safe_methods \<or> m \<in> set unsafe_methods \<and> carries_token sha c getlist)"
    using validate_unsafe_request_iff [OF origin] bound safe_not_unsafe [of m]
    by (cases "m \<in> set unsafe_methods") (auto simp: validate_session_security_def flow ok)
  have "except (\<lambda>_. True) e r = Inr () \<or> except (\<lambda>_. True) e r = Inl e" for e and r :: "exn + unit"
    by (cases r) simp_all
  then have "validate_session_security sha c rp m getlist now \<in> {Inr (), Inl SessionSecurityRejectedError}"
    unfolding validate_session_security_def by blast
  with iff show ?thesis by auto
qed

definition sample_context :: security_context where
  "sample_context =
     \<lparr>sc_principal = \<lparr>subject = ''reviewer'', roles = {Reviewer},
        principal_scope = Some \<lparr>tenant_id = ''acme'', workspace_id = ''main''\<rparr>\<rparr>,
      sc_session_digest = replicate 64 CHR ''a'', sc_session_generation = 2,
      sc_active_generation = 2, sc_issued_at = utc 0, sc_authenticated_at = utc 5,
      sc_last_seen_at = utc 10, sc_idle_expires_at = utc 1000, sc_absolute_expires_at = utc 2000,
      sc_revoked = False, sc_transport = BrowserCookie, sc_origin = ''https://app.example.org'',
      sc_csrf_digest = replicate 64 CHR ''b''\<rparr>"

lemma sample_in_force: "session_in_force sample_context (utc 500)"
proof -
  have "dns_name_pattern ''app.example.org''"
    by (simp add: dns_name_pattern_def dns_label_def host_char_def is_lower_def is_digit_def code_def)
  then have "validate_origin (sc_origin sample_context) = Inr ()"
    using canonical_origin_accepted [of "''app.example.org''" None]
    by (simp add: canonical_netloc_def sample_context_def max_origin_length_def)
  moreover have "bound_principal (sc_principal sample_context)"
    by (simp add: sample_context_def bound_principal_def valid_principal_def subject_pattern_def
        ident_pattern_def subject_char_def is_lower_def code_def exclusive_roles_def
        validate_scope_def scope_id_pattern_def is_digit_def is_scope_char_def)
  moreover have "sha256_pattern (sc_session_digest sample_context)"
    "sha256_pattern (sc_csrf_digest sample_context)"
    by (simp_all add: sample_context_def sha256_pattern_def list_all_iff is_hex_def code_def)
  ultimately show ?thesis
    by (simp add: session_in_force_def sample_context_def max_generation_def
        max_absolute_lifetime_def max_idle_lifetime_def seconds_def)
qed

theorem request_security_gate_witness:
  "validate_session_security (\<lambda>_. replicate 64 CHR ''b'') sample_context (sc_principal sample_context)
     ''POST'' (\<lambda>n. if n = ''origin'' then [sc_origin sample_context]
       else [b64_encode (replicate 32 CHR 0x00)]) (utc 500) = Inr ()"
proof -
  have "in_range (wall (utc 500) + max_clock_skew)"
    by (simp add: in_range_def min_wall_def max_wall_def max_clock_skew_def seconds_def)
  from request_security_gate [OF this] show ?thesis
    by (simp add: carries_token_def unsafe_methods_def sample_in_force)
      (auto simp: sample_context_def intro!: exI [of _ "replicate 32 CHR 0x00"])
qed

end
