(* ===== verification/Browser_Sessions.thy ===== *)
theory Browser_Sessions
  imports Session_Security
begin

text \<open>
  The browser-session store of \<open>browser_session_store.py\<close>: digest-only session rows, the table of
  digests that were ever allocated, and the operations register, resolve, touch, rotate and revoke.
  The evaluation time of a call is an argument. \<open>session_columns\<close> is the row that an exact state is
  stored as; \<open>state_from_row\<close> reads only such rows.
\<close>

section \<open>States and tables\<close>

definition max_state_version :: int where "max_state_version = 2 ^ 63 - 1"

record browser_state =
  bs_principal :: principal
  bs_digest :: string
  bs_csrf :: string
  bs_origin :: string
  bs_generation :: int
  bs_issued_at :: datetime
  bs_authenticated_at :: datetime
  bs_last_seen_at :: datetime
  bs_idle_expires_at :: datetime
  bs_absolute_expires_at :: datetime
  bs_revoked_at :: "datetime option"
  bs_version :: int

record browser_row =
  br_digest :: string
  br_csrf :: string
  br_subject :: string
  br_roles_json :: string
  br_tenant :: string
  br_workspace :: string
  br_origin :: string
  br_generation :: int
  br_issued_at :: int
  br_authenticated_at :: int
  br_last_seen_at :: int
  br_idle_expires_at :: int
  br_absolute_expires_at :: int
  br_revoked_at :: "int option"
  br_version :: int

record allocation_row =
  al_digest :: string
  al_kind :: string
  al_allocated_at :: int

record browser_db =
  browser_sessions :: "browser_row list"
  allocations :: "allocation_row list"

definition empty_browser :: browser_db where
  "empty_browser = \<lparr>browser_sessions = [], allocations = []\<rparr>"

section \<open>Validation\<close>

definition require_digest :: "string \<Rightarrow> exn + string" where
  "require_digest v = (if sha256_pattern v then Inr v else Inl ValueError)"

definition require_generation :: "int \<Rightarrow> exn + int" where
  "require_generation v = (if 1 \<le> v \<and> v \<le> max_generation then Inr v else Inl ValueError)"

definition require_state_version :: "int \<Rightarrow> exn + int" where
  "require_state_version v = (if 1 \<le> v \<and> v < max_state_version then Inr v else Inl ValueError)"

definition checked_add :: "datetime \<Rightarrow> int \<Rightarrow> exn + datetime" where
  "checked_add d us =
     (case plus_us d us of Inl _ \<Rightarrow> Inl BrowserSessionStoreUnavailableError | Inr d' \<Rightarrow> Inr d')"

definition require_principal :: "principal \<Rightarrow> exn + principal" where
  "require_principal p =
     (if principal_scope p = None then Inl TypeError
      else bindE (make_principal (subject p) (roles p) (principal_scope p)) (\<lambda>rebuilt.
        if rebuilt \<noteq> p then Inl ValueError else Inr p))"

definition roles_json :: "principal \<Rightarrow> exn + string" where
  "roles_json p =
     (if roles p = {} then Inl ValueError
      else Inr (dumps True (JArr (map JStr (role_values p)))))"

definition parse_role :: "string \<Rightarrow> exn + control_role" where
  "parse_role v =
     (case find (\<lambda>r. role_value r = v)
        [CaptureUploader, DeterministicWorker, Reviewer, AuditReader, RetentionSteward, SafetySteward] of
        None \<Rightarrow> Inl ValueError | Some r \<Rightarrow> Inr r)"

definition exact_context :: "browser_state \<Rightarrow> bool \<Rightarrow> security_context" where
  "exact_context s revoked =
     \<lparr>sc_principal = bs_principal s, sc_session_digest = bs_digest s,
      sc_session_generation = bs_generation s, sc_active_generation = bs_generation s,
      sc_issued_at = bs_issued_at s, sc_authenticated_at = bs_authenticated_at s,
      sc_last_seen_at = bs_last_seen_at s, sc_idle_expires_at = bs_idle_expires_at s,
      sc_absolute_expires_at = bs_absolute_expires_at s, sc_revoked = revoked,
      sc_transport = BrowserCookie, sc_origin = bs_origin s, sc_csrf_digest = bs_csrf s\<rparr>"

definition as_security_context :: "browser_state \<Rightarrow> exn + security_context" where
  "as_security_context s =
     (let c = exact_context s (bs_revoked_at s \<noteq> None)
      in bindE (validate_context c None) (\<lambda>_. Inr c))"

definition require_current :: "browser_state \<Rightarrow> datetime \<Rightarrow> exn + unit" where
  "require_current s now =
     bindE (require (bs_revoked_at s = None) BrowserSessionRejectedError) (\<lambda>_.
     bindE (checked_add now max_clock_skew) (\<lambda>limit.
     bindE (require (\<not> wall (bs_issued_at s) > wall limit) BrowserSessionRejectedError) (\<lambda>_.
     bindE (require (\<not> (wall (bs_authenticated_at s) > wall now \<or> wall (bs_last_seen_at s) > wall now))
       BrowserSessionRejectedError) (\<lambda>_.
     require (\<not> (wall now \<ge> wall (bs_idle_expires_at s) \<or> wall now \<ge> wall (bs_absolute_expires_at s)))
       BrowserSessionRejectedError))))"

section \<open>Rows\<close>

definition is_text :: "json \<Rightarrow> bool" where
  "is_text v = (case v of JStr _ \<Rightarrow> True | _ \<Rightarrow> False)"

definition text_of :: "json \<Rightarrow> string" where
  "text_of v = (case v of JStr s \<Rightarrow> s | _ \<Rightarrow> [])"

definition read_roles :: "string \<Rightarrow> exn + control_role set" where
  "read_roles text_value =
     bindE (loads text_value) (\<lambda>v.
     case v of
       JArr vs \<Rightarrow>
         bindE (require (vs \<noteq> [] \<and> list_all is_text vs) ValueError)
           (\<lambda>_.
         let names = map text_of vs in
         bindE (require (names = sorted_list_of_set (set names)) ValueError) (\<lambda>_.
         bindE (require (text_value = dumps True (JArr (map JStr names))) ValueError) (\<lambda>_.
         bindE (mapE parse_role names) (\<lambda>rs. Inr (set rs)))))
     | _ \<Rightarrow> Inl ValueError)"

definition from_micros_option :: "int option \<Rightarrow> exn + datetime option" where
  "from_micros_option v =
     (case v of None \<Rightarrow> Inr None | Some us \<Rightarrow> bindE (from_micros_exact us) (\<lambda>d. Inr (Some d)))"

definition state_from_row :: "browser_row \<Rightarrow> exn + browser_state" where
  "state_from_row r =
     except (\<lambda>_. True) BrowserSessionStoreUnavailableError
       (bindE (read_roles (br_roles_json r)) (\<lambda>rs.
        bindE (make_scope (br_tenant r) (br_workspace r)) (\<lambda>sc.
        bindE (make_principal (br_subject r) rs (Some sc)) (\<lambda>p.
        bindE (require_digest (br_digest r)) (\<lambda>d.
        bindE (require_digest (br_csrf r)) (\<lambda>csrf.
        bindE (require_generation (br_generation r)) (\<lambda>g.
        bindE (from_micros_exact (br_issued_at r)) (\<lambda>issued.
        bindE (from_micros_exact (br_authenticated_at r)) (\<lambda>authenticated.
        bindE (from_micros_exact (br_last_seen_at r)) (\<lambda>last_seen.
        bindE (from_micros_exact (br_idle_expires_at r)) (\<lambda>idle.
        bindE (from_micros_exact (br_absolute_expires_at r)) (\<lambda>absolute.
        bindE (from_micros_option (br_revoked_at r)) (\<lambda>revoked.
        bindE (require_state_version (br_version r)) (\<lambda>v.
        let s = \<lparr>bs_principal = p, bs_digest = d, bs_csrf = csrf, bs_origin = br_origin r,
              bs_generation = g, bs_issued_at = issued, bs_authenticated_at = authenticated,
              bs_last_seen_at = last_seen, bs_idle_expires_at = idle,
              bs_absolute_expires_at = absolute, bs_revoked_at = revoked, bs_version = v\<rparr> in
        bindE (require (\<not> (g > v \<or> (case revoked of None \<Rightarrow> False | Some t \<Rightarrow> wall t < wall issued)))
          ValueError) (\<lambda>_.
        bindE (validate_context (exact_context s False) None) (\<lambda>_. Inr s))))))))))))))))"

definition select_session :: "browser_db \<Rightarrow> string \<Rightarrow> browser_row option" where
  "select_session db d = find (\<lambda>r. br_digest r = d) (browser_sessions db)"

definition claim_digest_pair :: "string \<Rightarrow> string \<Rightarrow> int \<Rightarrow> browser_db \<Rightarrow> exn + browser_db" where
  "claim_digest_pair d csrf us db =
     bindE (insert_row (\<lambda>a b. al_digest a = al_digest b)
       \<lparr>al_digest = d, al_kind = ''session_identifier'', al_allocated_at = us\<rparr> (allocations db)) (\<lambda>t.
     bindE (insert_row (\<lambda>a b. al_digest a = al_digest b)
       \<lparr>al_digest = csrf, al_kind = ''csrf'', al_allocated_at = us\<rparr> t) (\<lambda>t'.
     Inr (db\<lparr>allocations := t'\<rparr>)))"

definition same_session :: "browser_row \<Rightarrow> browser_row \<Rightarrow> bool" where
  "same_session a b = (br_digest a = br_digest b \<or> br_csrf a = br_csrf b)"

text \<open>
  \<open>update browser_sessions set .. where session_identifier_digest = ? and state_version = ? and
  revoked_at_us is null\<close>, the check of the row count and of the unique columns.
\<close>

definition update_active :: "string \<Rightarrow> int \<Rightarrow> (browser_row \<Rightarrow> browser_row) \<Rightarrow> browser_db \<Rightarrow> exn + browser_db" where
  "update_active d v f db =
     (let P = (\<lambda>r. br_digest r = d \<and> br_version r = v \<and> br_revoked_at r = None) in
      bindE (require (\<forall>r \<in> set (browser_sessions db). P r \<longrightarrow>
        (\<forall>x \<in> set (browser_sessions db). \<not> P x \<longrightarrow> \<not> same_session x (f r))) IntegrityError) (\<lambda>_.
      bindE (require (count_where P (browser_sessions db) = 1) BrowserSessionRejectedError) (\<lambda>_.
      Inr (db\<lparr>browser_sessions := update_where P f (browser_sessions db)\<rparr>))))"

definition reread :: "string \<Rightarrow> browser_db \<Rightarrow> exn + browser_state \<times> browser_db" where
  "reread d db =
     (case select_session db d of
        None \<Rightarrow> Inl BrowserSessionStoreUnavailableError
      | Some r \<Rightarrow> bindE (state_from_row r) (\<lambda>s. Inr (s, db)))"

section \<open>Operations\<close>

definition rejects :: "exn \<Rightarrow> bool" where
  "rejects e = (e \<in> {SessionSecurityRejectedError, TypeError, ValueError, IntegrityError})"

abbreviation rejected :: "exn + 'a \<Rightarrow> exn + 'a" where
  "rejected \<equiv> except rejects BrowserSessionRejectedError"

definition register_session ::
  "string \<Rightarrow> string \<Rightarrow> principal \<Rightarrow> string \<Rightarrow> datetime \<Rightarrow> datetime \<Rightarrow> datetime \<Rightarrow> datetime \<Rightarrow> datetime \<Rightarrow>
   datetime \<Rightarrow> browser_db \<Rightarrow> exn + browser_state \<times> browser_db" where
  "register_session d csrf p origin issued authenticated last_seen idle absolute now db = rejected
     (bindE (require_utc now) (\<lambda>now.
      bindE (require_principal p) (\<lambda>p.
      bindE (require_digest d) (\<lambda>d.
      bindE (require_digest csrf) (\<lambda>csrf.
      bindE (require_utc issued) (\<lambda>issued.
      bindE (require_utc authenticated) (\<lambda>authenticated.
      bindE (require_utc last_seen) (\<lambda>last_seen.
      bindE (require_utc idle) (\<lambda>idle.
      bindE (require_utc absolute) (\<lambda>absolute.
      let s = \<lparr>bs_principal = p, bs_digest = d, bs_csrf = csrf, bs_origin = origin,
            bs_generation = 1, bs_issued_at = issued, bs_authenticated_at = authenticated,
            bs_last_seen_at = last_seen, bs_idle_expires_at = idle,
            bs_absolute_expires_at = absolute, bs_revoked_at = None, bs_version = 1\<rparr> in
      bindE (as_security_context s) (\<lambda>_.
      bindE (require_current s now) (\<lambda>_.
      bindE (roles_json p) (\<lambda>rj.
      case principal_scope p of
        None \<Rightarrow> Inl AssertionError
      | Some sc \<Rightarrow>
          bindE (to_micros_exact now) (\<lambda>us.
          bindE (claim_digest_pair d csrf us db) (\<lambda>db.
          bindE (to_micros_exact issued) (\<lambda>issued_us.
          bindE (to_micros_exact authenticated) (\<lambda>authenticated_us.
          bindE (to_micros_exact last_seen) (\<lambda>last_seen_us.
          bindE (to_micros_exact idle) (\<lambda>idle_us.
          bindE (to_micros_exact absolute) (\<lambda>absolute_us.
          bindE (insert_row same_session
            \<lparr>br_digest = d, br_csrf = csrf, br_subject = subject p, br_roles_json = rj,
             br_tenant = tenant_id sc, br_workspace = workspace_id sc, br_origin = origin,
             br_generation = 1, br_issued_at = issued_us, br_authenticated_at = authenticated_us,
             br_last_seen_at = last_seen_us, br_idle_expires_at = idle_us,
             br_absolute_expires_at = absolute_us, br_revoked_at = None, br_version = 1\<rparr>
            (browser_sessions db)) (\<lambda>t.
          Inr (s, db\<lparr>browser_sessions := t\<rparr>))))))))))))))))))))))"

definition resolve_session :: "string \<Rightarrow> datetime \<Rightarrow> browser_db \<Rightarrow> exn + security_context" where
  "resolve_session d now db =
     bindE (rejected (bindE (require_digest d) (\<lambda>d. require_utc now))) (\<lambda>now.
     case select_session db d of
       None \<Rightarrow> Inl BrowserSessionRejectedError
     | Some r \<Rightarrow>
         bindE (state_from_row r) (\<lambda>s.
         rejected (bindE (require_current s now) (\<lambda>_. as_security_context s))))"

definition active_for_mutation :: "string \<Rightarrow> int \<Rightarrow> datetime \<Rightarrow> browser_db \<Rightarrow> exn + browser_state" where
  "active_for_mutation d v now db =
     (case select_session db d of
        None \<Rightarrow> Inl BrowserSessionRejectedError
      | Some r \<Rightarrow>
          bindE (state_from_row r) (\<lambda>s.
          bindE (require (bs_version s = v) BrowserSessionRejectedError) (\<lambda>_.
          bindE (rejected (require_current s now)) (\<lambda>_. Inr s))))"

definition touch_session ::
  "string \<Rightarrow> int \<Rightarrow> datetime \<Rightarrow> browser_db \<Rightarrow> exn + browser_state \<times> browser_db" where
  "touch_session d v now db =
     bindE (rejected (bindE (require_digest d) (\<lambda>_. bindE (require_state_version v) (\<lambda>_.
       require_utc now)))) (\<lambda>_.
     bindE (active_for_mutation d v now db) (\<lambda>s.
     bindE (require (\<not> wall now < wall (bs_last_seen_at s)) BrowserSessionRejectedError) (\<lambda>_.
     bindE (checked_add now max_idle_lifetime) (\<lambda>renewed.
     let idle = (if wall (bs_absolute_expires_at s) < wall renewed then bs_absolute_expires_at s
                 else renewed) in
     bindE (require (\<not> wall idle \<le> wall now) BrowserSessionRejectedError) (\<lambda>_.
     bindE (to_micros_exact now) (\<lambda>now_us.
     bindE (to_micros_exact idle) (\<lambda>idle_us.
     bindE (update_active d v
       (\<lambda>r. r\<lparr>br_last_seen_at := now_us, br_idle_expires_at := idle_us, br_version := v + 1\<rparr>) db)
       (reread d))))))))"

definition rotate_session ::
  "string \<Rightarrow> string \<Rightarrow> string \<Rightarrow> int \<Rightarrow> datetime \<Rightarrow> browser_db \<Rightarrow> exn + browser_state \<times> browser_db" where
  "rotate_session d new_d new_csrf v now db =
     bindE (rejected (bindE (require_digest d) (\<lambda>_. bindE (require_digest new_d) (\<lambda>_.
       bindE (require_digest new_csrf) (\<lambda>_. bindE (require_state_version v) (\<lambda>_.
       bindE (require_utc now) (\<lambda>_. require (d \<noteq> new_d) ValueError))))))) (\<lambda>_.
     except (\<lambda>e. e = IntegrityError) BrowserSessionRejectedError
       (bindE (active_for_mutation d v now db) (\<lambda>s.
        bindE (require (\<not> (new_csrf = bs_csrf s \<or> bs_generation s \<ge> max_generation))
          BrowserSessionRejectedError) (\<lambda>_.
        bindE (to_micros_exact now) (\<lambda>now_us.
        bindE (claim_digest_pair new_d new_csrf now_us db) (\<lambda>db.
        bindE (update_active d v
          (\<lambda>r. r\<lparr>br_digest := new_d, br_csrf := new_csrf, br_generation := bs_generation s + 1,
                br_version := v + 1\<rparr>) db)
          (reread new_d)))))))"

definition revoke_session ::
  "string \<Rightarrow> int \<Rightarrow> datetime \<Rightarrow> browser_db \<Rightarrow> exn + browser_state \<times> browser_db" where
  "revoke_session d v now db =
     bindE (rejected (bindE (require_digest d) (\<lambda>_. bindE (require_state_version v) (\<lambda>_.
       require_utc now)))) (\<lambda>_.
     case select_session db d of
       None \<Rightarrow> Inl BrowserSessionRejectedError
     | Some r \<Rightarrow>
         bindE (state_from_row r) (\<lambda>s.
         bindE (require (\<not> (bs_version s \<noteq> v \<or> bs_revoked_at s \<noteq> None \<or>
           wall now < wall (bs_last_seen_at s))) BrowserSessionRejectedError) (\<lambda>_.
         bindE (to_micros_exact now) (\<lambda>now_us.
         bindE (update_active d v (\<lambda>r. r\<lparr>br_revoked_at := Some now_us, br_version := v + 1\<rparr>) db)
           (reread d)))))"

section \<open>Requests\<close>

text \<open>\<open>cookie.split(';')\<close> and \<open>item.strip().partition('=')\<close>.\<close>

fun split_on :: "char \<Rightarrow> string \<Rightarrow> string list" where
  "split_on x [] = [[]]"
| "split_on x (c # cs) =
     (if c = x then [] # split_on x cs else (c # hd (split_on x cs)) # tl (split_on x cs))"

definition session_cookies :: "string \<Rightarrow> string list" where
  "session_cookies header =
     map (\<lambda>i. drop 17 i)
       (filter (\<lambda>i. startswith i ''workflow_session='') (map strip (split_on CHR '';'' header)))"

text \<open>The digest of the provider that the factory makes for a request.\<close>

definition presented_digest :: "(string \<Rightarrow> string) \<Rightarrow> (string \<Rightarrow> string list) \<Rightarrow> exn + string" where
  "presented_digest sha getlist =
     (case getlist ''cookie'' of
        [header] \<Rightarrow>
          (case session_cookies header of
             [material] \<Rightarrow>
               bindE (except (\<lambda>_. True) BrowserSessionRejectedError (decode_csrf_token material)) (\<lambda>raw.
               except (\<lambda>_. True) BrowserSessionRejectedError (require_digest (sha raw)))
           | _ \<Rightarrow> Inl BrowserSessionRejectedError)
      | _ \<Rightarrow> Inl BrowserSessionRejectedError)"

section \<open>Exact states\<close>

text \<open>The row a state is stored as, and the states that can be stored.\<close>

definition stored_roles :: "control_role set \<Rightarrow> string" where
  "stored_roles R = dumps True (JArr (map JStr (map role_value (sorted_list_of_set R))))"

definition session_columns :: "browser_state \<Rightarrow> browser_row" where
  "session_columns s =
     (let p = bs_principal s; sc = the (principal_scope p) in
      \<lparr>br_digest = bs_digest s, br_csrf = bs_csrf s, br_subject = subject p,
       br_roles_json = stored_roles (roles p), br_tenant = tenant_id sc,
       br_workspace = workspace_id sc, br_origin = bs_origin s,
       br_generation = bs_generation s, br_issued_at = wall (bs_issued_at s),
       br_authenticated_at = wall (bs_authenticated_at s), br_last_seen_at = wall (bs_last_seen_at s),
       br_idle_expires_at = wall (bs_idle_expires_at s),
       br_absolute_expires_at = wall (bs_absolute_expires_at s),
       br_revoked_at = map_option wall (bs_revoked_at s), br_version = bs_version s\<rparr>)"

definition storable :: "datetime \<Rightarrow> bool" where
  "storable d = (tz d = UTC \<and> in_range (wall d))"

definition lifetime_ok :: "browser_state \<Rightarrow> bool" where
  "lifetime_ok s =
     (wall (bs_issued_at s) \<le> wall (bs_authenticated_at s) \<and>
      wall (bs_authenticated_at s) \<le> wall (bs_last_seen_at s) \<and>
      wall (bs_last_seen_at s) < wall (bs_idle_expires_at s) \<and>
      wall (bs_idle_expires_at s) \<le> wall (bs_absolute_expires_at s) \<and>
      wall (bs_absolute_expires_at s) \<le> wall (bs_authenticated_at s) + max_absolute_lifetime \<and>
      wall (bs_idle_expires_at s) \<le> wall (bs_last_seen_at s) + max_idle_lifetime)"

definition state_ok :: "browser_state \<Rightarrow> bool" where
  "state_ok s =
     (bound_principal (bs_principal s) \<and> roles (bs_principal s) \<noteq> {} \<and>
      sha256_pattern (bs_digest s) \<and> sha256_pattern (bs_csrf s) \<and>
      validate_origin (bs_origin s) = Inr () \<and>
      1 \<le> bs_generation s \<and> bs_generation s \<le> max_generation \<and>
      bs_generation s \<le> bs_version s \<and> bs_version s < max_state_version \<and>
      storable (bs_issued_at s) \<and> storable (bs_authenticated_at s) \<and> storable (bs_last_seen_at s) \<and>
      storable (bs_idle_expires_at s) \<and> storable (bs_absolute_expires_at s) \<and> lifetime_ok s \<and>
      (case bs_revoked_at s of None \<Rightarrow> True
       | Some t \<Rightarrow> storable t \<and> wall (bs_issued_at s) \<le> wall t))"

lemma parse_role_Inr: "parse_role v = Inr r \<longleftrightarrow> v = role_value r"
  by (cases r) (auto simp: parse_role_def split: if_splits)

lemma mapE_parse_role: "mapE parse_role vs = Inr rs \<longleftrightarrow> vs = map role_value rs"
  by (induction vs arbitrary: rs) (auto simp: flow parse_role_Inr)

lemma sorted_role_values:
  "sorted_wrt (<) (map role_value (sorted_list_of_set R))"
  using strictly_sorted_role_values [of "\<lparr>subject = s, roles = R, principal_scope = None\<rparr>" for s]
  by (simp add: role_values_def)

lemma text_of_JStr [simp]: "text_of (JStr s) = s" "is_text (JStr s)"
  by (simp_all add: text_of_def is_text_def)

lemma read_rolesD:
  assumes "read_roles t = Inr R"
  shows "\<exists>vs. vs \<noteq> [] \<and> map text_of vs = sorted_list_of_set (set (map text_of vs)) \<and>
    t = dumps True (JArr (map JStr (map text_of vs))) \<and>
    bindE (mapE parse_role (map text_of vs)) (\<lambda>rs. Inr (set rs)) = Inr R"
proof -
  from assms obtain v where v: "loads t = Inr v" by (auto simp: read_roles_def bindE_Inr)
  show ?thesis
  proof (cases v)
    case (JArr vs)
    with v assms show ?thesis
      by (intro exI [of _ vs]) (simp add: read_roles_def Let_def bindE_require del: map_map set_map
          split: if_splits)
  qed (use v assms in \<open>simp_all add: read_roles_def\<close>)
qed

lemma read_roles_iff: "read_roles t = Inr R \<longleftrightarrow> R \<noteq> {} \<and> t = stored_roles R"
proof
  assume "read_roles t = Inr R"
  then obtain vs where "vs \<noteq> []" and names: "map text_of vs = sorted_list_of_set (set (map text_of vs))"
    and t: "t = dumps True (JArr (map JStr (map text_of vs)))"
    and parsed: "bindE (mapE parse_role (map text_of vs)) (\<lambda>rs. Inr (set rs)) = Inr R"
    using read_rolesD by meson
  from parsed obtain rs where rs: "map text_of vs = map role_value rs" "R = set rs"
    by (auto simp: flow mapE_parse_role)
  let ?names = "map text_of vs"
  have "sorted_wrt (<) ?names" by (subst names) simp
  moreover have "set (map role_value (sorted_list_of_set R)) = set ?names" unfolding rs by simp
  ultimately have "map role_value (sorted_list_of_set R) = ?names"
    using sorted_role_values strict_sorted_equal by blast
  with t rs \<open>vs \<noteq> []\<close> show "R \<noteq> {} \<and> t = stored_roles R" by (auto simp: stored_roles_def)
next
  assume R: "R \<noteq> {} \<and> t = stored_roles R"
  define n where "n = map role_value (sorted_list_of_set R)"
  have t: "t = dumps True (JArr (map JStr n))" using R by (simp add: stored_roles_def n_def)
  then have "loads t = Inr (JArr (map JStr n))" by (simp add: loads_dumps)
  moreover have "sorted_list_of_set (set n) = n"
    using sorted_role_values unfolding n_def
    by (intro strict_sorted_equal) (simp_all del: set_map)
  moreover have "map text_of (map JStr n) = n" by (simp add: map_idI)
  moreover have "mapE parse_role n = Inr (sorted_list_of_set R)" by (simp add: n_def mapE_parse_role)
  moreover have "n \<noteq> []" using R by (simp add: n_def)
  moreover have "list_all is_text (map JStr n)" by (simp add: list_all_iff)
  ultimately show "read_roles t = Inr R"
    by (simp add: read_roles_def Let_def t [symmetric] del: map_map)
qed

lemma validate_exact_context:
  "validate_context (exact_context s revoked) None = Inr () \<longleftrightarrow>
     bound_principal (bs_principal s) \<and> sha256_pattern (bs_digest s) \<and> sha256_pattern (bs_csrf s) \<and>
     1 \<le> bs_generation s \<and> bs_generation s \<le> max_generation \<and> \<not> revoked \<and>
     validate_origin (bs_origin s) = Inr () \<and>
     tz (bs_issued_at s) = UTC \<and> tz (bs_authenticated_at s) = UTC \<and> tz (bs_last_seen_at s) = UTC \<and>
     tz (bs_idle_expires_at s) = UTC \<and> tz (bs_absolute_expires_at s) = UTC \<and> lifetime_ok s"
  by (auto simp: validate_context_def exact_context_def lifetime_ok_def flow)

lemma from_micros_exact_Inr [flow]:
  "from_micros_exact v = Inr d \<longleftrightarrow> storable d \<and> v = wall d"
  using in_range_micros by (auto simp: from_micros_exact_def storable_def utc_wall)

lemma from_micros_option_Inr [flow]:
  "from_micros_option v = Inr d \<longleftrightarrow> v = map_option wall d \<and> (\<forall>t. d = Some t \<longrightarrow> storable t)"
  by (cases d) (auto simp: from_micros_option_def flow split: option.splits)

lemma require_checks [flow]:
  "require_digest v = Inr d \<longleftrightarrow> sha256_pattern v \<and> d = v"
  "require_generation g = Inr g' \<longleftrightarrow> 1 \<le> g \<and> g \<le> max_generation \<and> g' = g"
  "require_state_version n = Inr n' \<longleftrightarrow> 1 \<le> n \<and> n < max_state_version \<and> n' = n"
  by (auto simp: require_digest_def require_generation_def require_state_version_def)

lemma make_scope_Inr [flow]:
  "make_scope t w = Inr sc \<longleftrightarrow> sc = \<lparr>tenant_id = t, workspace_id = w\<rparr> \<and> validate_scope sc = Inr ()"
  by (auto simp: make_scope_def Let_def flow)

lemma bound_principal_scope:
  "bound_principal p \<Longrightarrow> \<exists>sc. principal_scope p = Some sc \<and> validate_scope sc = Inr ()"
  by (auto simp: bound_principal_def valid_principal_def returns_iff split: option.splits)

lemma browser_state_eta:
  "\<lparr>bs_principal = bs_principal s, bs_digest = bs_digest s, bs_csrf = bs_csrf s,
    bs_origin = bs_origin s, bs_generation = bs_generation s, bs_issued_at = bs_issued_at s,
    bs_authenticated_at = bs_authenticated_at s, bs_last_seen_at = bs_last_seen_at s,
    bs_idle_expires_at = bs_idle_expires_at s, bs_absolute_expires_at = bs_absolute_expires_at s,
    bs_revoked_at = bs_revoked_at s, bs_version = bs_version s\<rparr> = s"
  by (cases s) simp

lemma state_from_row_iff: "state_from_row r = Inr s \<longleftrightarrow> state_ok s \<and> r = session_columns s"
proof
  assume "state_from_row r = Inr s"
  then show "state_ok s \<and> r = session_columns s"
    unfolding state_from_row_def except_Inr Let_def
    by (elim bindE_InrE)
      (clarsimp simp: flow read_roles_iff validate_exact_context state_ok_def session_columns_def
        Let_def not_less not_le split: option.splits)
next
  assume s: "state_ok s \<and> r = session_columns s"
  then obtain sc where sc: "principal_scope (bs_principal s) = Some sc" "validate_scope sc = Inr ()"
    using bound_principal_scope by (auto simp: state_ok_def)
  have "make_principal (subject (bs_principal s)) (roles (bs_principal s)) (Some sc) = Inr (bs_principal s)"
    using s sc(1) by (auto simp: state_ok_def bound_principal_def make_principal_Inr)
  moreover have "from_micros_option (map_option wall (bs_revoked_at s)) = Inr (bs_revoked_at s)"
    using s by (auto simp: flow state_ok_def)
  moreover have "make_scope (tenant_id sc) (workspace_id sc) = Inr sc" using sc by (simp add: flow)
  moreover have "read_roles (stored_roles (roles (bs_principal s))) = Inr (roles (bs_principal s))"
    using s by (simp add: read_roles_iff state_ok_def)
  moreover have "from_micros_exact (wall d) = Inr d" if "storable d" for d
    using that by (simp add: flow)
  moreover have "validate_context (exact_context s False) None = Inr ()"
    using s by (simp add: validate_exact_context state_ok_def storable_def)
  moreover have "\<not> (case bs_revoked_at s of None \<Rightarrow> False | Some t \<Rightarrow> wall t < wall (bs_issued_at s))"
    "1 \<le> bs_version s"
    using s by (auto simp: state_ok_def split: option.splits)
  ultimately show "state_from_row r = Inr s"
    using s sc(1)
    by (simp add: state_from_row_def session_columns_def Let_def state_ok_def require_digest_def
        require_generation_def require_state_version_def not_less browser_state_eta)
qed

text \<open>Two states in exact form with the same columns are equal.\<close>

definition exact_form :: "browser_state \<Rightarrow> bool" where
  "exact_form s =
     (principal_scope (bs_principal s) \<noteq> None \<and> roles (bs_principal s) \<noteq> {} \<and>
      tz (bs_issued_at s) = UTC \<and> tz (bs_authenticated_at s) = UTC \<and> tz (bs_last_seen_at s) = UTC \<and>
      tz (bs_idle_expires_at s) = UTC \<and> tz (bs_absolute_expires_at s) = UTC \<and>
      (\<forall>t. bs_revoked_at s = Some t \<longrightarrow> tz t = UTC))"

lemma state_ok_exact_form: "state_ok s \<Longrightarrow> exact_form s"
  by (auto simp: state_ok_def exact_form_def storable_def bound_principal_def)

lemma stored_roles_inject: "R \<noteq> {} \<Longrightarrow> R' \<noteq> {} \<Longrightarrow> stored_roles R = stored_roles R' \<longleftrightarrow> R = R'"
  by (metis read_roles_iff sum.inject(2))

lemma utc_eqI: "tz a = UTC \<Longrightarrow> tz b = UTC \<Longrightarrow> wall a = wall b \<Longrightarrow> a = (b :: datetime)"
  by (metis utc_wall)

lemma principal_eqI:
  assumes "subject p = subject q" and "roles p = roles q" and "principal_scope p = principal_scope q"
  shows "p = (q :: principal)"
  using assms by (cases p; cases q) simp

lemma session_columns_eq:
  "session_columns s = session_columns t \<longleftrightarrow>
     bs_digest s = bs_digest t \<and> bs_csrf s = bs_csrf t \<and>
     subject (bs_principal s) = subject (bs_principal t) \<and>
     stored_roles (roles (bs_principal s)) = stored_roles (roles (bs_principal t)) \<and>
     the (principal_scope (bs_principal s)) = the (principal_scope (bs_principal t)) \<and>
     bs_origin s = bs_origin t \<and> bs_generation s = bs_generation t \<and>
     wall (bs_issued_at s) = wall (bs_issued_at t) \<and>
     wall (bs_authenticated_at s) = wall (bs_authenticated_at t) \<and>
     wall (bs_last_seen_at s) = wall (bs_last_seen_at t) \<and>
     wall (bs_idle_expires_at s) = wall (bs_idle_expires_at t) \<and>
     wall (bs_absolute_expires_at s) = wall (bs_absolute_expires_at t) \<and>
     map_option wall (bs_revoked_at s) = map_option wall (bs_revoked_at t) \<and>
     bs_version s = bs_version t"
proof -
  have "tenant_id a = tenant_id b \<and> workspace_id a = workspace_id b \<longleftrightarrow> a = b" for a b :: scope
    by (cases a; cases b) simp
  then show ?thesis unfolding session_columns_def Let_def browser_row.ext_inject by metis
qed

lemma utc_option_eqI:
  assumes "map_option wall a = map_option wall b"
    and "\<forall>t. a = Some t \<longrightarrow> tz t = UTC" and "\<forall>t. b = Some t \<longrightarrow> tz t = UTC"
  shows "a = (b :: datetime option)"
proof (cases a)
  case (Some x)
  with assms(1) obtain y where y: "b = Some y" "wall x = wall y" by (cases b) auto
  have "x = y" by (rule utc_eqI) (use assms(2,3) Some y in blast)+
  with Some y show ?thesis by simp
qed (use assms(1) in \<open>cases b; simp\<close>)

lemma session_columns_inject:
  assumes "exact_form s" and "exact_form t" and "session_columns s = session_columns t"
  shows "s = t"
proof -
  note d = assms(1,2) [unfolded exact_form_def] and e = assms(3) [unfolded session_columns_eq]
  have "principal_scope (bs_principal s) = principal_scope (bs_principal t)"
    by (rule option.expand) (use d e in blast)+
  moreover have "roles (bs_principal s) = roles (bs_principal t)"
    using d e stored_roles_inject by blast
  ultimately have "bs_principal s = bs_principal t" using e by (intro principal_eqI) blast+
  moreover have "bs_revoked_at s = bs_revoked_at t" using d e utc_option_eqI by blast
  moreover have "bs_issued_at s = bs_issued_at t" "bs_authenticated_at s = bs_authenticated_at t"
    "bs_last_seen_at s = bs_last_seen_at t" "bs_idle_expires_at s = bs_idle_expires_at t"
    "bs_absolute_expires_at s = bs_absolute_expires_at t"
    using d e utc_eqI by blast+
  ultimately show ?thesis using e by (cases s; cases t) simp
qed

lemma session_columns_simps [simp]:
  "br_digest (session_columns s) = bs_digest s" "br_csrf (session_columns s) = bs_csrf s"
  "br_version (session_columns s) = bs_version s"
  "br_revoked_at (session_columns s) = map_option wall (bs_revoked_at s)"
  by (simp_all add: session_columns_def Let_def)

section \<open>The invariant and the mutations\<close>

definition allocated :: "browser_db \<Rightarrow> string set" where
  "allocated db = al_digest ` set (allocations db)"

definition browser_wf :: "browser_db \<Rightarrow> bool" where
  "browser_wf db =
     (distinct (map br_digest (browser_sessions db)) \<and> distinct (map br_csrf (browser_sessions db)) \<and>
      distinct (map al_digest (allocations db)) \<and>
      (\<forall>r \<in> set (browser_sessions db). br_digest r \<in> allocated db \<and> br_csrf r \<in> allocated db \<and>
         (\<exists>s. state_ok s \<and> r = session_columns s)))"

text \<open>The database after the row with digest \<open>d\<close> is replaced by the columns of \<open>t\<close>.\<close>

definition put_session :: "string \<Rightarrow> browser_state \<Rightarrow> browser_db \<Rightarrow> browser_db" where
  "put_session d t db =
     db\<lparr>browser_sessions := update_where (\<lambda>r. br_digest r = d) (\<lambda>_. session_columns t)
        (browser_sessions db)\<rparr>"

lemma select_sessionD: "select_session db d = Some r \<Longrightarrow> r \<in> set (browser_sessions db) \<and> br_digest r = d"
  by (auto simp: select_session_def dest: find_SomeD)

lemma count_where_pos: "count_where P t = 1 \<Longrightarrow> \<exists>x \<in> set t. P x"
  by (auto simp: count_where_def dest: arg_cong [of _ _ "\<lambda>n. 0 < n"] simp: filter_empty_conv)

lemma update_active_put:
  assumes "distinct (map br_digest (browser_sessions db))"
    and sel: "select_session db d = Some r"
    and up: "update_active d v f db = Inr db1"
    and "f r = session_columns t"
    and fresh: "bs_digest t = d \<or> (\<forall>x \<in> set (browser_sessions db). br_digest x \<noteq> bs_digest t)"
  shows "br_revoked_at r = None \<and> db1 = put_session d t db \<and>
    select_session db1 (bs_digest t) = Some (session_columns t)"
proof -
  note r = select_sessionD [OF sel]
  have only: "x = r" if "x \<in> set (browser_sessions db)" "br_digest x = d" for x
    using key_inj [OF assms(1) that(1)] r that(2) by simp
  let ?P = "\<lambda>r. br_digest r = d \<and> br_version r = v \<and> br_revoked_at r = None"
  from up have one: "count_where ?P (browser_sessions db) = 1"
    and db1: "db1 = db\<lparr>browser_sessions := update_where ?P f (browser_sessions db)\<rparr>"
    by (auto simp: update_active_def Let_def flow)
  from count_where_pos [OF one] only have P: "?P r" by blast
  have "update_where ?P f (browser_sessions db) =
      update_where (\<lambda>r. br_digest r = d) (\<lambda>_. session_columns t) (browser_sessions db)"
    using only P assms(4) by (fastforce simp: update_where_def)
  with db1 have db1: "db1 = put_session d t db" by (simp add: put_session_def)
  have "find (\<lambda>r. br_digest r = bs_digest t)
      (update_where (\<lambda>r. br_digest r = d) (\<lambda>_. session_columns t) rs) = Some (session_columns t)"
    if "r \<in> set rs" "bs_digest t = d \<or> (\<forall>x \<in> set rs. br_digest x \<noteq> bs_digest t)" for rs
    using that r by (induction rs) auto
  with r fresh P db1 show ?thesis by (auto simp: select_session_def put_session_def)
qed

text \<open>The states that the mutations make of a state, and what one needs to be one of them.\<close>

definition touched :: "datetime \<Rightarrow> browser_state \<Rightarrow> browser_state" where
  "touched now s =
     s\<lparr>bs_last_seen_at := now,
       bs_idle_expires_at := utc (min (wall now + max_idle_lifetime) (wall (bs_absolute_expires_at s))),
       bs_version := bs_version s + 1\<rparr>"

definition rotated :: "string \<Rightarrow> string \<Rightarrow> browser_state \<Rightarrow> browser_state" where
  "rotated d csrf s =
     s\<lparr>bs_digest := d, bs_csrf := csrf, bs_generation := bs_generation s + 1,
       bs_version := bs_version s + 1\<rparr>"

definition revoked_state :: "datetime \<Rightarrow> browser_state \<Rightarrow> browser_state" where
  "revoked_state now s = s\<lparr>bs_revoked_at := Some now, bs_version := bs_version s + 1\<rparr>"

definition current :: "browser_state \<Rightarrow> datetime \<Rightarrow> bool" where
  "current s now =
     (bs_revoked_at s = None \<and> wall (bs_authenticated_at s) \<le> wall now \<and>
      wall (bs_last_seen_at s) \<le> wall now \<and> wall now < wall (bs_idle_expires_at s) \<and>
      wall now < wall (bs_absolute_expires_at s))"

lemma require_currentD: "require_current s now = Inr () \<Longrightarrow> current s now"
  by (auto simp: require_current_def current_def flow)

lemma active_for_mutationD:
  assumes "active_for_mutation d v now db = Inr s"
  shows "\<exists>r. select_session db d = Some r \<and> state_ok s \<and> r = session_columns s \<and>
    bs_version s = v \<and> current s now"
  using assms by (auto simp: active_for_mutation_def flow state_from_row_iff
      intro: require_currentD split: option.splits)

lemma reread_put:
  assumes "reread (bs_digest t) db1 = Inr (s', db')"
    and "select_session db1 (bs_digest t) = Some (session_columns t)" and "exact_form t"
  shows "s' = t \<and> db' = db1 \<and> state_ok t"
proof -
  from assms(1,2) have s': "state_ok s'" "session_columns t = session_columns s'" "db' = db1"
    by (auto simp: reread_def flow state_from_row_iff)
  then have "s' = t" using session_columns_inject assms(3) state_ok_exact_form by metis
  with s' show ?thesis by simp
qed

lemma touch_sessionD:
  assumes "touch_session d v now db = Inr (s', db')" and wf: "browser_wf db"
  shows "\<exists>s. select_session db d = Some (session_columns s) \<and> state_ok s \<and> bs_digest s = d \<and>
    bs_version s = v \<and> current s now \<and> s' = touched now s \<and> state_ok s' \<and>
    db' = put_session d s' db"
proof -
  from assms(1) obtain s renewed us idle_us db1 where
    u: "tz now = UTC" and a: "active_for_mutation d v now db = Inr s"
    and c: "checked_add now max_idle_lifetime = Inr renewed"
    and idle: "to_micros_exact (if wall (bs_absolute_expires_at s) < wall renewed
      then bs_absolute_expires_at s else renewed) = Inr idle_us"
    and us: "to_micros_exact now = Inr us"
    and up: "update_active d v
       (\<lambda>r. r\<lparr>br_last_seen_at := us, br_idle_expires_at := idle_us, br_version := v + 1\<rparr>) db = Inr db1"
    and re: "reread d db1 = Inr (s', db')"
    by (auto simp: touch_session_def Let_def bindE_Inr except_Inr require_Inr require_utc_Inr)
  from active_for_mutationD [OF a] have s: "select_session db d = Some (session_columns s)"
    "state_ok s" "bs_version s = v" "current s now" by auto
  then have d: "bs_digest s = d" by (auto dest: select_sessionD)
  have r: "renewed = utc (wall now + max_idle_lifetime)"
    using c u by (auto simp: checked_add_def plus_us_def utc_def split: if_splits)
  let ?t = "touched now s"
  have abs: "tz (bs_absolute_expires_at s) = UTC" using s(2) by (simp add: state_ok_def storable_def)
  have cols: "(session_columns s)\<lparr>br_last_seen_at := us, br_idle_expires_at := idle_us, br_version := v + 1\<rparr>
      = session_columns ?t"
    using us idle r s(3)
    by (auto simp: session_columns_def touched_def Let_def to_micros_exact_def flow min_def
        split: if_splits)
  have "bs_digest ?t = d" using d by (simp add: touched_def)
  with update_active_put [OF _ s(1) up cols] wf
  have put: "db1 = put_session d ?t db" "select_session db1 (bs_digest ?t) = Some (session_columns ?t)"
    by (auto simp: browser_wf_def)
  have "exact_form ?t" using state_ok_exact_form [OF s(2)] u by (simp add: exact_form_def touched_def)
  with reread_put [OF _ put(2)] re \<open>bs_digest ?t = d\<close> have "s' = ?t" "db' = db1" "state_ok ?t" by auto
  with s d put(1) show ?thesis by auto
qed

definition claimed :: "string \<Rightarrow> string \<Rightarrow> int \<Rightarrow> browser_db \<Rightarrow> browser_db" where
  "claimed d csrf us db =
     db\<lparr>allocations := allocations db @
       [\<lparr>al_digest = d, al_kind = ''session_identifier'', al_allocated_at = us\<rparr>,
        \<lparr>al_digest = csrf, al_kind = ''csrf'', al_allocated_at = us\<rparr>]\<rparr>"

lemma claim_digest_pair_Inr [flow]:
  "claim_digest_pair d csrf us db = Inr db' \<longleftrightarrow>
     d \<notin> allocated db \<and> csrf \<notin> allocated db \<and> d \<noteq> csrf \<and> db' = claimed d csrf us db"
  by (auto simp: claim_digest_pair_def flow allocated_def claimed_def)

lemma claimed_simps [simp]:
  "browser_sessions (claimed d csrf us db) = browser_sessions db"
  "allocated (claimed d csrf us db) = insert csrf (insert d (allocated db))"
  "select_session (claimed d csrf us db) x = select_session db x"
  by (auto simp: claimed_def allocated_def select_session_def)

lemma rotate_sessionD:
  assumes "rotate_session d new_d new_csrf v now db = Inr (s', db')" and wf: "browser_wf db"
  shows "\<exists>s. select_session db d = Some (session_columns s) \<and> state_ok s \<and> bs_digest s = d \<and>
    bs_version s = v \<and> current s now \<and> s' = rotated new_d new_csrf s \<and> state_ok s' \<and>
    new_d \<notin> allocated db \<and> new_csrf \<notin> allocated db \<and> new_d \<noteq> new_csrf \<and>
    db' = put_session d s' (claimed new_d new_csrf (wall now) db)"
proof -
  from assms(1) obtain s us db0 db1 where
    u: "tz now = UTC" and a: "active_for_mutation d v now db = Inr s"
    and us: "to_micros_exact now = Inr us"
    and c: "claim_digest_pair new_d new_csrf us db = Inr db0"
    and up: "update_active d v
       (\<lambda>r. r\<lparr>br_digest := new_d, br_csrf := new_csrf, br_generation := bs_generation s + 1,
             br_version := v + 1\<rparr>) db0 = Inr db1"
    and re: "reread new_d db1 = Inr (s', db')"
    by (auto simp: rotate_session_def bindE_Inr except_Inr require_Inr require_utc_Inr)
  from active_for_mutationD [OF a] have s: "select_session db d = Some (session_columns s)"
    "state_ok s" "bs_version s = v" "current s now" by auto
  then have d: "bs_digest s = d" by (auto dest: select_sessionD)
  from c have new: "new_d \<notin> allocated db" "new_csrf \<notin> allocated db" "new_d \<noteq> new_csrf"
    and db0: "db0 = claimed new_d new_csrf us db" by (auto simp: flow)
  have "us = wall now" using us by (auto simp: to_micros_exact_def flow split: if_splits)
  let ?t = "rotated new_d new_csrf s"
  have cols: "(session_columns s)\<lparr>br_digest := new_d, br_csrf := new_csrf,
      br_generation := bs_generation s + 1, br_version := v + 1\<rparr> = session_columns ?t"
    using s(3) by (simp add: session_columns_def rotated_def Let_def)
  have "bs_digest ?t = new_d" by (simp add: rotated_def)
  have "\<forall>x \<in> set (browser_sessions db0). br_digest x \<noteq> bs_digest ?t"
    using wf new db0 by (auto simp: browser_wf_def rotated_def)
  with update_active_put [OF _ _ up cols] wf s(1) db0
  have put: "db1 = put_session d ?t db0" "select_session db1 (bs_digest ?t) = Some (session_columns ?t)"
    by (auto simp: browser_wf_def)
  have "exact_form ?t" using state_ok_exact_form [OF s(2)] by (simp add: exact_form_def rotated_def)
  with reread_put [OF _ put(2)] re \<open>bs_digest ?t = new_d\<close>
  have "s' = ?t" "db' = db1" "state_ok ?t" by auto
  with s d put(1) new db0 \<open>us = wall now\<close> show ?thesis by auto
qed

lemma revoke_sessionD:
  assumes "revoke_session d v now db = Inr (s', db')" and wf: "browser_wf db"
  shows "\<exists>s. select_session db d = Some (session_columns s) \<and> state_ok s \<and> bs_digest s = d \<and>
    bs_version s = v \<and> bs_revoked_at s = None \<and> wall (bs_last_seen_at s) \<le> wall now \<and>
    s' = revoked_state now s \<and> state_ok s' \<and> db' = put_session d s' db"
proof -
  from assms(1) obtain r s us db1 where
    u: "tz now = UTC" and sel: "select_session db d = Some r" and r: "state_from_row r = Inr s"
    and us: "to_micros_exact now = Inr us"
    and v: "bs_version s = v" "bs_revoked_at s = None" "wall (bs_last_seen_at s) \<le> wall now"
    and up: "update_active d v (\<lambda>r. r\<lparr>br_revoked_at := Some us, br_version := v + 1\<rparr>) db = Inr db1"
    and re: "reread d db1 = Inr (s', db')"
    by (auto simp: revoke_session_def bindE_Inr except_Inr require_Inr require_utc_Inr not_less
        split: option.splits)
  from r sel have s: "select_session db d = Some (session_columns s)" "state_ok s"
    by (auto simp: state_from_row_iff)
  then have d: "bs_digest s = d" by (auto dest: select_sessionD)
  let ?t = "revoked_state now s"
  have cols: "(session_columns s)\<lparr>br_revoked_at := Some us, br_version := v + 1\<rparr> = session_columns ?t"
    using v us by (auto simp: session_columns_def revoked_state_def Let_def to_micros_exact_def flow
        split: if_splits)
  have "bs_digest ?t = d" using d by (simp add: revoked_state_def)
  with update_active_put [OF _ s(1) up cols] wf
  have put: "db1 = put_session d ?t db" "select_session db1 (bs_digest ?t) = Some (session_columns ?t)"
    by (auto simp: browser_wf_def)
  have "exact_form ?t"
    using state_ok_exact_form [OF s(2)] u by (simp add: exact_form_def revoked_state_def)
  with reread_put [OF _ put(2)] re \<open>bs_digest ?t = d\<close> have "s' = ?t" "db' = db1" "state_ok ?t" by auto
  with s d v put(1) show ?thesis by auto
qed

lemma require_principal_Inr [flow]: "require_principal p = Inr q \<longleftrightarrow> q = p \<and> bound_principal p"
  by (cases p) (auto simp: require_principal_def bound_principal_def flow)

lemma roles_json_Inr [flow]: "roles_json p = Inr rj \<longleftrightarrow> roles p \<noteq> {} \<and> rj = stored_roles (roles p)"
  by (auto simp: roles_json_def stored_roles_def role_values_def)

lemma to_micros_exact_Inr [flow]:
  "to_micros_exact d = Inr us \<longleftrightarrow> tz d = UTC \<and> micros_in_range (wall d) \<and> us = wall d"
  by (auto simp: to_micros_exact_def flow)

lemma as_security_context_Inr [flow]:
  "as_security_context s = Inr c \<longleftrightarrow>
     c = exact_context s (bs_revoked_at s \<noteq> None) \<and> validate_context c None = Inr ()"
  by (auto simp: as_security_context_def Let_def flow)

lemma session_columns_scope:
  assumes "principal_scope p = Some sc"
  shows "\<lparr>br_digest = d, br_csrf = csrf, br_subject = subject p, br_roles_json = stored_roles (roles p),
      br_tenant = tenant_id sc, br_workspace = workspace_id sc, br_origin = origin,
      br_generation = g, br_issued_at = wall issued, br_authenticated_at = wall authenticated,
      br_last_seen_at = wall last_seen, br_idle_expires_at = wall idle,
      br_absolute_expires_at = wall absolute, br_revoked_at = None, br_version = v\<rparr> =
    session_columns \<lparr>bs_principal = p, bs_digest = d, bs_csrf = csrf, bs_origin = origin,
      bs_generation = g, bs_issued_at = issued, bs_authenticated_at = authenticated,
      bs_last_seen_at = last_seen, bs_idle_expires_at = idle,
      bs_absolute_expires_at = absolute, bs_revoked_at = None, bs_version = v\<rparr>"
  using assms by (simp add: session_columns_def Let_def)

lemma register_sessionD:
  assumes "register_session d csrf p origin issued authenticated last_seen idle absolute now db =
      Inr (s, db')"
    and range: "\<forall>t \<in> {issued, authenticated, last_seen, idle, absolute}. in_range (wall t)"
  shows "state_ok s \<and> current s now \<and> bs_digest s = d \<and> bs_csrf s = csrf \<and> bs_principal s = p \<and>
    bs_version s = 1 \<and> bs_generation s = 1 \<and> bs_revoked_at s = None \<and>
    bs_absolute_expires_at s = absolute \<and> bs_authenticated_at s = authenticated \<and>
    d \<notin> allocated db \<and> csrf \<notin> allocated db \<and> d \<noteq> csrf \<and>
    (\<forall>r \<in> set (browser_sessions db). \<not> same_session (session_columns s) r) \<and>
    db' = claimed d csrf (wall now) db\<lparr>browser_sessions := browser_sessions db @ [session_columns s]\<rparr>"
proof -
  let ?s = "\<lparr>bs_principal = p, bs_digest = d, bs_csrf = csrf, bs_origin = origin,
            bs_generation = 1, bs_issued_at = issued, bs_authenticated_at = authenticated,
            bs_last_seen_at = last_seen, bs_idle_expires_at = idle,
            bs_absolute_expires_at = absolute, bs_revoked_at = None, bs_version = 1\<rparr>"
  have "validate_context (exact_context ?s False) None = Inr () \<and> require_current ?s now = Inr () \<and>
      bound_principal p \<and> roles p \<noteq> {} \<and> d \<notin> allocated db \<and> csrf \<notin> allocated db \<and> d \<noteq> csrf \<and>
      (\<forall>r \<in> set (browser_sessions db). \<not> same_session (session_columns ?s) r) \<and>
      db' = claimed d csrf (wall now) db\<lparr>browser_sessions := browser_sessions db @ [session_columns ?s]\<rparr> \<and>
      s = ?s"
    using assms(1) unfolding register_session_def Let_def except_Inr
    by (elim bindE_InrE) (clarsimp simp: flow session_columns_scope split: option.splits)
  with range require_currentD [of ?s now] show ?thesis
    unfolding validate_exact_context by (auto simp: state_ok_def storable_def max_state_version_def)
qed

section \<open>The store as a transition system\<close>

text \<open>One call of an operation that writes; the times of a registration are values of \<open>datetime\<close>.\<close>

inductive browser_step :: "browser_db \<Rightarrow> browser_db \<Rightarrow> bool" for db db' where
  register_step: "\<forall>t \<in> {issued, authenticated, last_seen, idle, absolute}. in_range (wall t) \<Longrightarrow>
    db' = snd (transaction
      (register_session d csrf p origin issued authenticated last_seen idle absolute now) db) \<Longrightarrow>
    browser_step db db'"
| touch_step: "db' = snd (transaction (touch_session d v now) db) \<Longrightarrow> browser_step db db'"
| rotate_step: "db' = snd (transaction (rotate_session d new_d new_csrf v now) db) \<Longrightarrow>
    browser_step db db'"
| revoke_step: "db' = snd (transaction (revoke_session d v now) db) \<Longrightarrow> browser_step db db'"

text \<open>
  The abstract effect of a call: nothing; a new session under two digests that were never used; or
  the next version of one session that is not revoked, which keeps its lineage (principal, origin,
  times of issue and authentication, absolute expiry) and either both its digests or gets two that
  were never used.
\<close>

definition lineage :: "browser_row \<Rightarrow> string \<times> string \<times> string \<times> string \<times> string \<times> int \<times> int \<times> int" where
  "lineage r = (br_subject r, br_roles_json r, br_tenant r, br_workspace r, br_origin r,
     br_issued_at r, br_authenticated_at r, br_absolute_expires_at r)"

definition unused_pair :: "browser_state \<Rightarrow> browser_db \<Rightarrow> bool" where
  "unused_pair s db =
     (bs_digest s \<notin> allocated db \<and> bs_csrf s \<notin> allocated db \<and> bs_digest s \<noteq> bs_csrf s)"

inductive session_effect :: "browser_db \<Rightarrow> browser_db \<Rightarrow> bool" for db db' where
  idle: "db' = db \<Longrightarrow> session_effect db db'"
| opened: "state_ok s \<Longrightarrow> bs_version s = 1 \<Longrightarrow> bs_revoked_at s = None \<Longrightarrow> unused_pair s db \<Longrightarrow>
    db' = claimed (bs_digest s) (bs_csrf s) us db
      \<lparr>browser_sessions := browser_sessions db @ [session_columns s]\<rparr> \<Longrightarrow> session_effect db db'"
| moved: "select_session db (bs_digest s) = Some (session_columns s) \<Longrightarrow> state_ok s \<Longrightarrow>
    bs_revoked_at s = None \<Longrightarrow> state_ok t \<Longrightarrow> bs_version t = bs_version s + 1 \<Longrightarrow>
    lineage (session_columns t) = lineage (session_columns s) \<Longrightarrow>
    bs_digest t = bs_digest s \<and> bs_csrf t = bs_csrf s \<and> db0 = db \<or>
      unused_pair t db \<and> db0 = claimed (bs_digest t) (bs_csrf t) us db \<Longrightarrow>
    db' = put_session (bs_digest s) t db0 \<Longrightarrow> session_effect db db'"

lemma lineage_kept:
  "lineage (session_columns (touched now s)) = lineage (session_columns s)"
  "lineage (session_columns (rotated d csrf s)) = lineage (session_columns s)"
  "lineage (session_columns (revoked_state now s)) = lineage (session_columns s)"
  by (simp_all add: lineage_def session_columns_def touched_def rotated_def revoked_state_def Let_def)

lemma moved_simps [simp]:
  "bs_digest (touched now s) = bs_digest s" "bs_csrf (touched now s) = bs_csrf s"
  "bs_version (touched now s) = bs_version s + 1" "bs_digest (rotated d csrf s) = d"
  "bs_csrf (rotated d csrf s) = csrf" "bs_version (rotated d csrf s) = bs_version s + 1"
  "bs_digest (revoked_state now s) = bs_digest s" "bs_csrf (revoked_state now s) = bs_csrf s"
  "bs_version (revoked_state now s) = bs_version s + 1"
  by (simp_all add: touched_def rotated_def revoked_state_def)

lemma session_transaction:
  assumes "\<And>r db'. body db = Inr (r, db') \<Longrightarrow> session_effect db db'"
  shows "session_effect db (snd (transaction body db))"
  by (rule transaction_preserves [where P = "session_effect db"]) (auto intro: assms idle)

lemma step_effect:
  assumes "browser_step db db'" and wf: "browser_wf db"
  shows "session_effect db db'"
  using assms(1)
proof cases
  case (register_step issued authenticated last_seen idle absolute d csrf p origin now)
  show ?thesis unfolding register_step(2)
  proof (rule session_transaction)
    fix s db1
    assume "register_session d csrf p origin issued authenticated last_seen idle absolute now db =
      Inr (s, db1)"
    from register_sessionD [OF this register_step(1)] show "session_effect db db1"
      by (intro opened [of s db _ "wall now"]) (auto simp: unused_pair_def)
  qed
next
  case (touch_step d v now)
  show ?thesis unfolding touch_step
  proof (rule session_transaction)
    fix s' db1
    assume "touch_session d v now db = Inr (s', db1)"
    from touch_sessionD [OF this wf] obtain s where "select_session db d = Some (session_columns s)"
      "state_ok s" "bs_digest s = d" "current s now" "s' = touched now s" "state_ok s'"
      "db1 = put_session d s' db" by blast
    then show "session_effect db db1"
      by (intro moved [of db s s' db]) (auto simp: current_def lineage_kept)
  qed
next
  case (rotate_step d new_d new_csrf v now)
  show ?thesis unfolding rotate_step
  proof (rule session_transaction)
    fix s' db1
    assume "rotate_session d new_d new_csrf v now db = Inr (s', db1)"
    from rotate_sessionD [OF this wf] obtain s where "select_session db d = Some (session_columns s)"
      "state_ok s" "bs_digest s = d" "current s now" "s' = rotated new_d new_csrf s" "state_ok s'"
      "unused_pair s' db" "db1 = put_session d s' (claimed new_d new_csrf (wall now) db)"
      by (auto simp: unused_pair_def)
    then show "session_effect db db1"
      by (intro moved [of db s s' "claimed new_d new_csrf (wall now) db"])
        (auto simp: current_def lineage_kept)
  qed
next
  case (revoke_step d v now)
  show ?thesis unfolding revoke_step
  proof (rule session_transaction)
    fix s' db1
    assume "revoke_session d v now db = Inr (s', db1)"
    from revoke_sessionD [OF this wf] obtain s where "select_session db d = Some (session_columns s)"
      "state_ok s" "bs_digest s = d" "bs_revoked_at s = None" "s' = revoked_state now s" "state_ok s'"
      "db1 = put_session d s' db" by blast
    then show "session_effect db db1"
      by (intro moved [of db s s' db]) (auto simp: lineage_kept)
  qed
qed

lemma put_session_simps [simp]:
  "allocations (put_session d t db) = allocations db" "allocated (put_session d t db) = allocated db"
  by (simp_all add: put_session_def allocated_def)

lemma in_put_session:
  "x \<in> set (browser_sessions (put_session d t db)) \<Longrightarrow>
     x = session_columns t \<or> x \<in> set (browser_sessions db) \<and> br_digest x \<noteq> d"
  by (auto simp: put_session_def set_update_where split: if_splits)

lemma distinct_update_key:
  assumes "distinct (map k rs)" and "distinct (map key rs)"
    and "\<And>x. x \<in> set rs \<Longrightarrow> key x \<noteq> d \<Longrightarrow> k x \<noteq> k r'"
  shows "distinct (map k (update_where (\<lambda>r. key r = d) (\<lambda>_. r') rs))"
  using assms
proof (induction rs)
  case (Cons a rs)
  have idle: "update_where (\<lambda>r. key r = d) (\<lambda>_. r') rs = rs" if "key a = d"
    using Cons.prems(2) that by (intro update_where_idle) (auto simp: image_iff)
  have step: "distinct (map k (update_where (\<lambda>r. key r = d) (\<lambda>_. r') rs))"
    by (rule Cons.IH) (use Cons.prems in auto)
  show ?case
  proof (cases "key a = d")
    case True
    have "key x \<noteq> d" if "x \<in> set rs" for x
      using Cons.prems(2) True that by (auto simp: image_iff)
    with Cons.prems idle [OF True] True show ?thesis by fastforce
  next
    case False
    then have "k a \<notin> k ` set (update_where (\<lambda>r. key r = d) (\<lambda>_. r') rs)"
      using Cons.prems by (fastforce simp: set_update_where)
    with False step show ?thesis by simp
  qed
qed simp

lemma effect_wf:
  assumes "session_effect db db'" and wf: "browser_wf db"
  shows "browser_wf db'"
  using assms(1)
proof cases
  case idle
  with wf show ?thesis by simp
next
  case (opened s us)
  have "bs_digest s \<notin> br_digest ` set (browser_sessions db)" "bs_csrf s \<notin> br_csrf ` set (browser_sessions db)"
    using opened wf by (fastforce simp: browser_wf_def unused_pair_def)+
  with opened wf show ?thesis
    by (auto simp: browser_wf_def unused_pair_def claimed_def allocated_def)
next
  case (moved s t db0 us)
  from select_sessionD [OF moved(1)] have s: "session_columns s \<in> set (browser_sessions db)" by simp
  have others: "br_csrf x \<noteq> bs_csrf s" if "x \<in> set (browser_sessions db)" "br_digest x \<noteq> bs_digest s" for x
    using key_inj [of br_csrf "browser_sessions db" x "session_columns s"] that s wf
    by (auto simp: browser_wf_def)
  have "br_digest (session_columns s) \<in> allocated db \<and> br_csrf (session_columns s) \<in> allocated db"
    using s wf unfolding browser_wf_def by blast
  then have same: "browser_sessions db0 = browser_sessions db" "allocated db \<subseteq> allocated db0"
    "bs_digest t \<in> allocated db0" "bs_csrf t \<in> allocated db0" "distinct (map al_digest (allocations db0))"
    using moved wf by (auto simp: browser_wf_def claimed_def allocated_def unused_pair_def)
  have new: "br_digest x \<noteq> bs_digest t \<and> br_csrf x \<noteq> bs_csrf t"
    if "x \<in> set (browser_sessions db)" "br_digest x \<noteq> bs_digest s" for x
    using moved(7) that others wf by (auto simp: browser_wf_def unused_pair_def)
  have d: "distinct (map br_digest (browser_sessions db))" "distinct (map br_csrf (browser_sessions db))"
    using wf by (auto simp: browser_wf_def)
  have "distinct (map br_digest (browser_sessions db'))" "distinct (map br_csrf (browser_sessions db'))"
    using distinct_update_key [of br_digest _ br_digest "bs_digest s" "session_columns t", OF d(1,1)]
      distinct_update_key [of br_csrf _ br_digest "bs_digest s" "session_columns t", OF d(2,1)] new
    by (simp_all add: moved(8) put_session_def same(1))
  moreover have "br_digest r \<in> allocated db' \<and> br_csrf r \<in> allocated db' \<and> (\<exists>s. state_ok s \<and> r = session_columns s)"
    if "r \<in> set (browser_sessions db')" for r
    using in_put_session [of r "bs_digest s" t db0] that moved(4,8) same wf
    by (auto simp: browser_wf_def)
  ultimately show ?thesis using same(5) moved(8) by (simp add: browser_wf_def)
qed

lemma step_wf: "browser_wf db \<Longrightarrow> browser_step db db' \<Longrightarrow> browser_wf db'"
  using step_effect effect_wf by blast

lemma empty_browser_wf: "browser_wf empty_browser"
  by (simp add: browser_wf_def empty_browser_def)

interpretation browser_store: invariant_system "\<lambda>db. db = empty_browser" browser_step browser_wf
  by unfold_locales (auto intro: step_wf empty_browser_wf)

text \<open>
  A fact about the rows of a digest that the next version of a row keeps: once the digest is
  allocated, no call makes the fact false, because an allocated digest never gets a row again.
\<close>

locale kept_by_digest =
  fixes Q :: "browser_row \<Rightarrow> bool"
  assumes kept: "state_ok s \<Longrightarrow> bs_revoked_at s = None \<Longrightarrow> Q (session_columns s) \<Longrightarrow>
      bs_version t = bs_version s + 1 \<Longrightarrow> Q (session_columns t)"
begin

definition bound_rows :: "string \<Rightarrow> browser_db \<Rightarrow> bool" where
  "bound_rows d db \<longleftrightarrow>
     d \<in> allocated db \<and> (\<forall>r \<in> set (browser_sessions db). br_digest r = d \<longrightarrow> Q r)"

lemma effect_keeps:
  assumes "session_effect db db'" and "bound_rows d db"
  shows "bound_rows d db'"
  using assms(1)
proof cases
  case idle
  with assms(2) show ?thesis by simp
next
  case (opened s us)
  with assms(2) show ?thesis by (auto simp: bound_rows_def unused_pair_def claimed_def allocated_def)
next
  case (moved s t db0 us)
  have "d \<in> allocated db0" "browser_sessions db0 = browser_sessions db"
    using moved(7) assms(2) by (auto simp: bound_rows_def)
  moreover have "Q (session_columns t)" if "bs_digest t = d"
  proof -
    have "bs_digest s = d" using moved(7) that assms(2) by (auto simp: bound_rows_def unused_pair_def)
    then have "Q (session_columns s)"
      using select_sessionD [OF moved(1)] assms(2) by (auto simp: bound_rows_def)
    with kept [OF moved(2,3) _ moved(5)] show ?thesis by simp
  qed
  moreover have "Q r" if "r \<in> set (browser_sessions db')" "br_digest r = d" for r
    using in_put_session [of r "bs_digest s" t db0] that calculation moved(8) assms(2)
    unfolding bound_rows_def by auto
  ultimately show ?thesis
    using moved(8) by (auto simp: bound_rows_def)
qed

lemma steps_keep:
  assumes "browser_step\<^sup>*\<^sup>* db db'" and "browser_wf db" and "bound_rows d db"
  shows "bound_rows d db'"
  using assms
proof (induction rule: rtranclp_induct)
  case (step y z)
  then show ?case using browser_store.steps_inv step_effect effect_keeps by metis
qed simp

end

interpretation retired: kept_by_digest "\<lambda>_. False"
  by unfold_locales simp

interpretation revoked_rows: kept_by_digest "\<lambda>r. br_revoked_at r \<noteq> None"
  by unfold_locales simp

interpretation fenced: kept_by_digest "\<lambda>r. v < br_version r" for v
  by unfold_locales simp

definition wf_step :: "browser_db \<Rightarrow> browser_db \<Rightarrow> bool" where
  "wf_step db db' = (browser_wf db \<and> browser_step db db')"

lemma wf_steps: "browser_step\<^sup>*\<^sup>* db db' \<Longrightarrow> browser_wf db \<Longrightarrow> wf_step\<^sup>*\<^sup>* db db'"
proof (induction rule: rtranclp_induct)
  case (step y z)
  then have "browser_wf y" using browser_store.steps_inv by blast
  with step show ?case by (auto simp: wf_step_def intro: rtranclp.rtrancl_into_rtrancl)
qed simp

interpretation lineages: append_only_log wf_step "\<lambda>db. map lineage (browser_sessions db)"
proof
  fix db db'
  assume "wf_step db db'"
  then have "session_effect db db'" by (auto simp: wf_step_def intro: step_effect)
  then show "prefix (map lineage (browser_sessions db)) (map lineage (browser_sessions db'))"
  proof cases
    case (moved s t db0 us)
    have only: "x = session_columns s" if "x \<in> set (browser_sessions db)" "br_digest x = bs_digest s" for x
      using key_inj [of br_digest "browser_sessions db" x "session_columns s"] that
        select_sessionD [OF moved(1)] \<open>wf_step db db'\<close>
      by (auto simp: wf_step_def browser_wf_def)
    have "browser_sessions db0 = browser_sessions db" using moved(7) by auto
    moreover have "map lineage (update_where (\<lambda>r. br_digest r = bs_digest s)
        (\<lambda>_. session_columns t) (browser_sessions db)) = map lineage (browser_sessions db)"
      using only moved(6) by (auto simp: update_where_def)
    ultimately show ?thesis using moved(8) by (simp add: put_session_def)
  qed auto
qed

section \<open>Calls that succeed\<close>

lemma checked_add_Inr [flow]:
  "checked_add d us = Inr d' \<longleftrightarrow> in_range (wall d + us) \<and> d' = d\<lparr>wall := wall d + us\<rparr>"
  by (auto simp: checked_add_def plus_us_def)

lemma require_current_iff:
  assumes "in_range (wall now + max_clock_skew)" and "lifetime_ok s"
  shows "require_current s now = (if current s now then Inr () else Inl BrowserSessionRejectedError)"
  using assms
  by (auto simp: require_current_def current_def checked_add_def plus_us_def lifetime_ok_def
      max_clock_skew_def seconds_def require_def bindE_def)

lemma select_columns:
  assumes "browser_wf db" and "session_columns s \<in> set (browser_sessions db)"
  shows "select_session db (bs_digest s) = Some (session_columns s)"
  using find_key_unique [of br_digest "browser_sessions db" "session_columns s"] assms
  by (auto simp: select_session_def browser_wf_def)

lemma count_where_one:
  assumes "distinct t" and "r \<in> set t" and "\<And>x. x \<in> set t \<Longrightarrow> P x \<longleftrightarrow> x = r"
  shows "count_where P t = 1"
  using assms
proof (induction t)
  case (Cons a t)
  show ?case
  proof (cases "a = r")
    case True
    then have "filter P t = []" using Cons.prems by (auto simp: filter_empty_conv)
    with True Cons.prems(3) [of a] show ?thesis by (simp add: count_where_def)
  next
    case False
    with Cons show ?thesis by simp
  qed
qed simp

lemma update_active_succeeds:
  assumes wf: "browser_wf db" and sel: "select_session db d = Some r"
    and r: "br_version r = v" "br_revoked_at r = None" and "f r = session_columns t"
    and new: "\<And>x. x \<in> set (browser_sessions db) \<Longrightarrow> br_digest x \<noteq> d \<Longrightarrow>
      br_digest x \<noteq> bs_digest t \<and> br_csrf x \<noteq> bs_csrf t"
  shows "update_active d v f db = Inr (put_session d t db)"
proof -
  note rd = select_sessionD [OF sel]
  have d: "distinct (map br_digest (browser_sessions db))" using wf by (simp add: browser_wf_def)
  let ?P = "\<lambda>r. br_digest r = d \<and> br_version r = v \<and> br_revoked_at r = None"
  have only: "x = r" if "x \<in> set (browser_sessions db)" "br_digest x = d" for x
    using key_inj [OF d that(1)] rd that(2) by simp
  have "distinct (browser_sessions db)" using d by (metis distinct_map)
  then have "count_where ?P (browser_sessions db) = 1"
    using rd only r by (intro count_where_one [of _ r]) auto
  moreover have "\<not> same_session x (f y)"
    if "y \<in> set (browser_sessions db)" "?P y" "x \<in> set (browser_sessions db)" "\<not> ?P x" for x y
  proof -
    have "y = r" "br_digest x \<noteq> d" using that only by metis+
    with new [OF that(3)] assms(5) show ?thesis by (simp add: same_session_def)
  qed
  moreover have "update_where ?P f (browser_sessions db) =
      update_where (\<lambda>r. br_digest r = d) (\<lambda>_. session_columns t) (browser_sessions db)"
  proof (unfold update_where_def, rule map_cong [OF refl])
    fix x assume "x \<in> set (browser_sessions db)"
    with only r assms(5) show "(if ?P x then f x else x) = (if br_digest x = d then session_columns t else x)"
      by (cases "br_digest x = d") auto
  qed
  ultimately show ?thesis
    unfolding update_active_def put_session_def Let_def
    by (subst require_def, subst if_P, blast, simp)
qed

lemma reread_succeeds:
  "select_session db (bs_digest t) = Some (session_columns t) \<Longrightarrow> state_ok t \<Longrightarrow>
   reread (bs_digest t) db = Inr (t, db)"
  using state_from_row_iff [of "session_columns t" t] by (simp add: reread_def)

lemma touched_ok:
  assumes "state_ok s" and "current s now" and "tz now = UTC" and "in_range (wall now + max_idle_lifetime)"
    and "bs_version s + 1 < max_state_version"
  shows "state_ok (touched now s)"
proof -
  have "0 < max_idle_lifetime" by (simp add: max_idle_lifetime_def seconds_def)
  moreover have "in_range (wall now)"
    using assms(1,2,4) \<open>0 < max_idle_lifetime\<close>
    by (auto simp: state_ok_def storable_def in_range_def current_def)
  moreover have "in_range (min (wall now + max_idle_lifetime) (wall (bs_absolute_expires_at s)))"
    using assms by (auto simp: state_ok_def storable_def min_def)
  ultimately show ?thesis
    using assms by (auto simp: state_ok_def touched_def lifetime_ok_def current_def storable_def)
qed

lemma select_put_same:
  assumes "select_session db (bs_digest s) = Some r" and "bs_digest t = bs_digest s"
  shows "select_session (put_session (bs_digest s) t db) (bs_digest s) = Some (session_columns t)"
proof -
  have "find (\<lambda>r. br_digest r = bs_digest s)
      (update_where (\<lambda>r. br_digest r = bs_digest s) (\<lambda>_. session_columns t) rs) = Some (session_columns t)"
    if "find (\<lambda>r. br_digest r = bs_digest s) rs \<noteq> None" for rs
    using that assms(2) by (induction rs) auto
  with assms(1) show ?thesis by (simp add: select_session_def put_session_def)
qed

lemma other_csrf:
  assumes "browser_wf db" and "session_columns s \<in> set (browser_sessions db)"
    and "x \<in> set (browser_sessions db)" and "br_digest x \<noteq> bs_digest s"
  shows "br_csrf x \<noteq> bs_csrf s"
  using key_inj [of br_csrf "browser_sessions db" x "session_columns s"] assms
  by (auto simp: browser_wf_def)

lemma touch_session_succeeds:
  assumes wf: "browser_wf db" and s: "session_columns s \<in> set (browser_sessions db)" "state_ok s"
    and cur: "current s now" and now: "tz now = UTC" "in_range (wall now + max_idle_lifetime)"
    and v: "bs_version s + 1 < max_state_version"
  shows "touch_session (bs_digest s) (bs_version s) now db =
     Inr (touched now s, put_session (bs_digest s) (touched now s) db)"
proof -
  note sel = select_columns [OF wf s(1)] and ok = touched_ok [OF s(2) cur now v]
  have "0 \<le> max_clock_skew" "max_clock_skew \<le> max_idle_lifetime" "0 < max_idle_lifetime"
    by (simp_all add: max_clock_skew_def max_idle_lifetime_def seconds_def)
  moreover have "in_range (wall now)" "in_range (wall (bs_absolute_expires_at s))"
    using ok s(2) by (simp_all add: state_ok_def storable_def touched_def)
  ultimately have "in_range (wall now + max_clock_skew)"
    using now(2) by (auto simp: in_range_def)
  then have req: "require_current s now = Inr ()"
    using cur s(2) by (subst require_current_iff) (auto simp: state_ok_def)
  have active: "active_for_mutation (bs_digest s) (bs_version s) now db = Inr s"
    using s(2) req state_from_row_iff [of "session_columns s" s] by (simp add: active_for_mutation_def sel)
  let ?idle = "min (wall now + max_idle_lifetime) (wall (bs_absolute_expires_at s))"
  have up: "update_active (bs_digest s) (bs_version s) (\<lambda>r. r\<lparr>br_last_seen_at := wall now,
       br_idle_expires_at := ?idle, br_version := bs_version s + 1\<rparr>) db =
     Inr (put_session (bs_digest s) (touched now s) db)"
  proof (rule update_active_succeeds [OF wf sel])
    show "br_revoked_at (session_columns s) = None" using cur by (simp add: current_def)
    show "(session_columns s)\<lparr>br_last_seen_at := wall now, br_idle_expires_at := ?idle,
        br_version := bs_version s + 1\<rparr> = session_columns (touched now s)"
      by (simp add: session_columns_def touched_def Let_def)
  qed (use other_csrf [OF wf s(1)] in auto)
  have re: "reread (bs_digest s) (put_session (bs_digest s) (touched now s) db) =
      Inr (touched now s, put_session (bs_digest s) (touched now s) db)"
    using reread_succeeds [of _ "touched now s"] select_put_same [OF sel, of "touched now s"] ok by simp
  have abs: "tz (bs_absolute_expires_at s) = UTC" using s(2) by (simp add: state_ok_def storable_def)
  have idle: "(if wall (bs_absolute_expires_at s) < wall now + max_idle_lifetime then bs_absolute_expires_at s
      else now\<lparr>wall := wall now + max_idle_lifetime\<rparr>) = utc ?idle"
    using now(1) abs utc_wall [of "bs_absolute_expires_at s"] by (auto simp: utc_def min_def)
  have "?idle > wall now" using cur \<open>0 < max_idle_lifetime\<close> by (auto simp: current_def)
  moreover have "in_range ?idle" using now(2) \<open>in_range (wall (bs_absolute_expires_at s))\<close> by (simp add: min_def)
  moreover have "checked_add now max_idle_lifetime = Inr (now\<lparr>wall := wall now + max_idle_lifetime\<rparr>)"
    using now(2) by (simp add: flow)
  moreover have "to_micros_exact now = Inr (wall now)"
    using now(1) \<open>in_range (wall now)\<close> in_range_micros by (simp add: flow)
  moreover have "require_digest (bs_digest s) = Inr (bs_digest s)" "require_utc now = Inr now"
    "require_state_version (bs_version s) = Inr (bs_version s)"
    using s(2) now(1) v by (auto simp: flow state_ok_def)
  moreover have "wall (bs_last_seen_at s) \<le> wall now" using cur by (simp add: current_def)
  ultimately show ?thesis
    by (simp add: touch_session_def active Let_def idle up re not_less not_le)
qed

lemma revoke_session_succeeds:
  assumes wf: "browser_wf db" and s: "session_columns s \<in> set (browser_sessions db)" "state_ok s"
    and live: "bs_revoked_at s = None" "wall (bs_last_seen_at s) \<le> wall now"
    and now: "tz now = UTC" "in_range (wall now)" and v: "bs_version s + 1 < max_state_version"
  shows "revoke_session (bs_digest s) (bs_version s) now db =
     Inr (revoked_state now s, put_session (bs_digest s) (revoked_state now s) db)"
proof -
  note sel = select_columns [OF wf s(1)]
  have ok: "state_ok (revoked_state now s)"
    using s(2) live now v by (auto simp: state_ok_def revoked_state_def lifetime_ok_def storable_def)
  have up: "update_active (bs_digest s) (bs_version s)
      (\<lambda>r. r\<lparr>br_revoked_at := Some (wall now), br_version := bs_version s + 1\<rparr>) db =
     Inr (put_session (bs_digest s) (revoked_state now s) db)"
  proof (rule update_active_succeeds [OF wf sel])
    show "(session_columns s)\<lparr>br_revoked_at := Some (wall now), br_version := bs_version s + 1\<rparr> =
        session_columns (revoked_state now s)"
      by (simp add: session_columns_def revoked_state_def Let_def)
  qed (use other_csrf [OF wf s(1)] live in auto)
  have "reread (bs_digest s) (put_session (bs_digest s) (revoked_state now s) db) =
      Inr (revoked_state now s, put_session (bs_digest s) (revoked_state now s) db)"
    using reread_succeeds [of _ "revoked_state now s"] select_put_same [OF sel, of "revoked_state now s"] ok
    by simp
  moreover have "to_micros_exact now = Inr (wall now)" using now in_range_micros by (simp add: flow)
  moreover have "require_digest (bs_digest s) = Inr (bs_digest s)" "require_utc now = Inr now"
    "require_state_version (bs_version s) = Inr (bs_version s)" "state_from_row (session_columns s) = Inr s"
    using s(2) now(1) v by (auto simp: flow state_ok_def state_from_row_iff)
  ultimately show ?thesis
    using live by (simp add: revoke_session_def sel up not_less)
qed

lemma rotate_session_succeeds:
  assumes wf: "browser_wf db" and s: "session_columns s \<in> set (browser_sessions db)" "state_ok s"
    and cur: "current s now" and now: "tz now = UTC" "in_range (wall now)" "in_range (wall now + max_clock_skew)"
    and v: "bs_version s + 1 < max_state_version" "bs_generation s < max_generation"
    and new: "sha256_pattern new_d" "sha256_pattern new_csrf" "new_d \<notin> allocated db"
      "new_csrf \<notin> allocated db" "new_d \<noteq> new_csrf"
  shows "rotate_session (bs_digest s) new_d new_csrf (bs_version s) now db =
     Inr (rotated new_d new_csrf s,
       put_session (bs_digest s) (rotated new_d new_csrf s) (claimed new_d new_csrf (wall now) db))"
proof -
  note sel = select_columns [OF wf s(1)]
  let ?t = "rotated new_d new_csrf s" and ?db = "claimed new_d new_csrf (wall now) db"
  have "bs_revoked_at s = None" using cur by (simp add: current_def)
  then have ok: "state_ok ?t" using s(2) v new
    by (simp add: state_ok_def rotated_def lifetime_ok_def)
  have known: "br_digest x \<in> allocated db" "br_csrf x \<in> allocated db"
    if "x \<in> set (browser_sessions db)" for x
    using wf that by (auto simp: browser_wf_def)
  have "browser_wf ?db"
    using wf new by (auto simp: browser_wf_def claimed_def allocated_def)
  moreover have "select_session ?db (bs_digest s) = Some (session_columns s)" using sel by simp
  ultimately have up: "update_active (bs_digest s) (bs_version s)
      (\<lambda>r. r\<lparr>br_digest := new_d, br_csrf := new_csrf, br_generation := bs_generation s + 1,
            br_version := bs_version s + 1\<rparr>) ?db = Inr (put_session (bs_digest s) ?t ?db)"
  proof (rule update_active_succeeds)
    show "(session_columns s)\<lparr>br_digest := new_d, br_csrf := new_csrf,
        br_generation := bs_generation s + 1, br_version := bs_version s + 1\<rparr> = session_columns ?t"
      by (simp add: session_columns_def rotated_def Let_def)
  qed (use known new cur in \<open>auto simp: current_def\<close>)
  have "find (\<lambda>r. br_digest r = new_d)
      (update_where (\<lambda>r. br_digest r = bs_digest s) (\<lambda>_. session_columns ?t) rs) = Some (session_columns ?t)"
    if "find (\<lambda>r. br_digest r = bs_digest s) rs \<noteq> None" "\<forall>x \<in> set rs. br_digest x \<noteq> new_d" for rs
    using that by (induction rs) auto
  moreover have "\<forall>x \<in> set (browser_sessions db). br_digest x \<noteq> new_d" using known new by blast
  ultimately have "select_session (put_session (bs_digest s) ?t ?db) new_d = Some (session_columns ?t)"
    using sel by (simp add: select_session_def put_session_def)
  then have "reread new_d (put_session (bs_digest s) ?t ?db) = Inr (?t, put_session (bs_digest s) ?t ?db)"
    using reread_succeeds [of _ ?t] ok by simp
  moreover have "require_current s now = Inr ()"
    using cur s(2) by (subst require_current_iff [OF now(3)]) (auto simp: state_ok_def)
  moreover have "to_micros_exact now = Inr (wall now)" using now in_range_micros by (simp add: flow)
  moreover have "require_digest (bs_digest s) = Inr (bs_digest s)" "require_digest new_d = Inr new_d"
    "require_digest new_csrf = Inr new_csrf" "require_utc now = Inr now"
    "require_state_version (bs_version s) = Inr (bs_version s)" "state_from_row (session_columns s) = Inr s"
    using s(2) now(1) v new by (auto simp: flow state_ok_def state_from_row_iff)
  moreover have "claim_digest_pair new_d new_csrf (wall now) db = Inr ?db" using new by (simp add: flow)
  moreover have "bs_digest s \<noteq> new_d" "bs_csrf s \<noteq> new_csrf" using known [OF s(1)] new by auto
  ultimately show ?thesis
    using v by (simp add: rotate_session_def active_for_mutation_def sel up)
qed

text \<open>What resolution returns in a well-formed store.\<close>

lemma resolve_session_iff:
  assumes wf: "browser_wf db" and now: "in_range (wall now + max_clock_skew)"
  shows "resolve_session d now db = Inr c \<longleftrightarrow>
     tz now = UTC \<and> (\<exists>s. session_columns s \<in> set (browser_sessions db) \<and> state_ok s \<and> bs_digest s = d \<and>
       current s now \<and> c = exact_context s False)"
    and "resolve_session d now db = Inl e \<Longrightarrow> e = BrowserSessionRejectedError"
proof -
  have ctx: "as_security_context s = Inr (exact_context s False)"
    if "state_ok s" "bs_revoked_at s = None" for s
    using that by (auto simp: flow validate_exact_context state_ok_def storable_def)
  have row: "resolve_session d now db = (if sha256_pattern d \<and> tz now = UTC then
      (case select_session db d of None \<Rightarrow> Inl BrowserSessionRejectedError
       | Some r \<Rightarrow> bindE (state_from_row r) (\<lambda>s. rejected (bindE (require_current s now)
           (\<lambda>_. as_security_context s)))) else Inl BrowserSessionRejectedError)"
    by (simp add: resolve_session_def require_digest_def require_utc_def rejects_def split: option.splits)
  show "resolve_session d now db = Inr c \<longleftrightarrow>
     tz now = UTC \<and> (\<exists>s. session_columns s \<in> set (browser_sessions db) \<and> state_ok s \<and> bs_digest s = d \<and>
       current s now \<and> c = exact_context s False)" (is "_ \<longleftrightarrow> ?right")
  proof
    assume "resolve_session d now db = Inr c"
    then obtain s where "tz now = UTC" "select_session db d = Some (session_columns s)" "state_ok s"
      "require_current s now = Inr ()" "as_security_context s = Inr c"
      by (auto simp: row flow state_from_row_iff split: option.splits if_splits)
    moreover from this have "current s now" by (simp add: require_currentD)
    moreover from this have "bs_revoked_at s = None" by (simp add: current_def)
    ultimately show ?right using select_sessionD [of db d] ctx by fastforce
  next
    assume ?right
    then obtain s where s: "tz now = UTC" "session_columns s \<in> set (browser_sessions db)" "state_ok s"
      "bs_digest s = d" "current s now" "c = exact_context s False" by blast
    then have "sha256_pattern d" "require_current s now = Inr ()" "bs_revoked_at s = None"
      using require_current_iff [OF now] by (auto simp: state_ok_def current_def)
    with s ctx select_columns [OF wf s(2)] show "resolve_session d now db = Inr c"
      using state_from_row_iff [of "session_columns s" s] by (simp add: row)
  qed
  show "e = BrowserSessionRejectedError" if "resolve_session d now db = Inl e"
  proof (cases "select_session db d")
    case (Some r)
    with wf obtain s where "state_ok s" "r = session_columns s"
      using select_sessionD [OF Some] unfolding browser_wf_def by blast
    then have "state_from_row r = Inr s" "lifetime_ok s" by (auto simp: state_from_row_iff state_ok_def)
    with that Some ctx [OF \<open>state_ok s\<close>] require_current_iff [OF now \<open>lifetime_ok s\<close>] show ?thesis
      by (auto simp: row rejects_def current_def split: if_splits)
  qed (use that in \<open>auto simp: row split: if_splits\<close>)
qed

text \<open>A mutation of the session with digest \<open>d\<close> at expected version \<open>v\<close> that succeeds.\<close>

definition mutates :: "string \<Rightarrow> int \<Rightarrow> browser_db \<Rightarrow> browser_state \<Rightarrow> browser_db \<Rightarrow> bool" where
  "mutates d v db s db' \<longleftrightarrow>
     (\<exists>now. touch_session d v now db = Inr (s, db') \<or> revoke_session d v now db = Inr (s, db') \<or>
       (\<exists>new_d new_csrf. rotate_session d new_d new_csrf v now db = Inr (s, db')))"

lemma mutatesD:
  assumes "mutates d v db s db'" and "browser_wf db"
  shows "d \<in> allocated db' \<and> bs_version s = v + 1 \<and>
    (\<exists>s0. select_session db d = Some (session_columns s0) \<and> bs_version s0 = v) \<and>
    (\<forall>r \<in> set (browser_sessions db'). br_digest r = d \<longrightarrow> r = session_columns s) \<and>
    browser_step db db'"
proof -
  have known: "d \<in> allocated db" if "select_session db d = Some r" for r
    using select_sessionD [OF that] assms(2) by (auto simp: browser_wf_def)
  have step: "browser_step db db'"
  proof -
    from assms(1) have "\<exists>body. transaction body db = (Inr s, db') \<and>
        (\<forall>x. x = snd (transaction body db) \<longrightarrow> browser_step db x)"
      unfolding mutates_def transaction_Inr
      using touch_step rotate_step revoke_step by metis
    then show ?thesis by (metis snd_conv)
  qed
  from assms(1) show ?thesis unfolding mutates_def
  proof (elim exE disjE)
    fix now assume "touch_session d v now db = Inr (s, db')"
    from touch_sessionD [OF this assms(2)] show ?thesis
      using known step in_put_session by fastforce
  next
    fix now assume "revoke_session d v now db = Inr (s, db')"
    from revoke_sessionD [OF this assms(2)] show ?thesis
      using known step in_put_session by fastforce
  next
    fix now new_d new_csrf assume "rotate_session d new_d new_csrf v now db = Inr (s, db')"
    from rotate_sessionD [OF this assms(2)] show ?thesis
      using known step in_put_session by fastforce
  qed
qed

text \<open>A valid new session under unused digests is registered.\<close>

lemma register_session_succeeds:
  assumes s: "state_ok s" and cur: "current s now" and new: "bs_version s = 1" "bs_generation s = 1"
    and now: "tz now = UTC" "in_range (wall now)" "in_range (wall now + max_clock_skew)"
    and unused: "unused_pair s db"
    and fresh: "\<forall>r \<in> set (browser_sessions db). \<not> same_session (session_columns s) r"
  shows "register_session (bs_digest s) (bs_csrf s) (bs_principal s) (bs_origin s) (bs_issued_at s)
      (bs_authenticated_at s) (bs_last_seen_at s) (bs_idle_expires_at s) (bs_absolute_expires_at s) now db =
    Inr (s, claimed (bs_digest s) (bs_csrf s) (wall now) db
      \<lparr>browser_sessions := browser_sessions db @ [session_columns s]\<rparr>)"
proof -
  have rev: "bs_revoked_at s = None" using cur by (simp add: current_def)
  obtain sc where sc: "principal_scope (bs_principal s) = Some sc"
    using bound_principal_scope s by (auto simp: state_ok_def)
  have eta: "\<lparr>bs_principal = bs_principal s, bs_digest = bs_digest s, bs_csrf = bs_csrf s,
    bs_origin = bs_origin s, bs_generation = 1, bs_issued_at = bs_issued_at s,
    bs_authenticated_at = bs_authenticated_at s, bs_last_seen_at = bs_last_seen_at s,
    bs_idle_expires_at = bs_idle_expires_at s, bs_absolute_expires_at = bs_absolute_expires_at s,
    bs_revoked_at = None, bs_version = 1\<rparr> = s"
    using browser_state_eta [of s] new rev by simp
  have times: "require_utc d = Inr d" "to_micros_exact d = Inr (wall d)" if "storable d" for d
    using that in_range_micros by (auto simp: storable_def flow)
  have "storable now" using now by (simp add: storable_def)
  have "require_current s now = Inr ()"
    using require_current_iff [OF now(3)] s cur by (simp add: state_ok_def)
  moreover have "as_security_context s = Inr (exact_context s False)"
    using s rev by (simp add: flow validate_exact_context state_ok_def storable_def)
  moreover have "require_principal (bs_principal s) = Inr (bs_principal s)"
    "roles_json (bs_principal s) = Inr (stored_roles (roles (bs_principal s)))"
    "require_digest (bs_digest s) = Inr (bs_digest s)" "require_digest (bs_csrf s) = Inr (bs_csrf s)"
    using s by (auto simp: flow state_ok_def)
  moreover have "claim_digest_pair (bs_digest s) (bs_csrf s) (wall now) db =
      Inr (claimed (bs_digest s) (bs_csrf s) (wall now) db)"
    using unused by (simp add: flow unused_pair_def)
  moreover have "insert_row same_session (session_columns s) (browser_sessions db) =
      Inr (browser_sessions db @ [session_columns s])"
    using fresh by (simp add: flow)
  moreover note session_columns_scope [OF sc, of "bs_digest s" "bs_csrf s" "bs_origin s" 1
      "bs_issued_at s" "bs_authenticated_at s" "bs_last_seen_at s" "bs_idle_expires_at s"
      "bs_absolute_expires_at s" 1, unfolded eta]
  ultimately show ?thesis
    using s times [OF \<open>storable now\<close>]
    by (simp add: register_session_def Let_def times eta sc state_ok_def)
qed

section \<open>Properties\<close>

text \<open>The rows of the store and the exact states are in bijection: a row is read as the state \<open>s\<close>
  exactly when \<open>s\<close> satisfies every condition on a stored session (a scoped principal with roles that may
  be combined, canonical digests and origin, ordered times within their caps, generation at most the
  version) and the row is the one \<open>s\<close> is written as, up to the text of its JSON list of roles.\<close>

theorem stored_session_round_trip:
  "state_from_row r = Inr s \<longleftrightarrow> state_ok s \<and> r = session_columns s"
  by (rule state_from_row_iff)

text \<open>C33: Every call implements its abstract effect: on a store reached from an empty one, a call leaves
  the tables as they are, or opens one session under two digests that were never used, or replaces one
  session that is not revoked by its next version, with the same lineage and either the same digests or
  two that were never used.\<close>

theorem calls_refine_session_effects:
  assumes "browser_step\<^sup>*\<^sup>* empty_browser db" and "browser_step db db'"
  shows "session_effect db db'"
  using assms(2) browser_store.reachable_inv [OF refl assms(1)] by (rule step_effect)

text \<open>Resolution is exact. On a reachable store a digest resolves to a context exactly when a stored
  session that is not revoked has this digest and the time of the call is inside both its lifetimes; any
  other call is rejected as such, never as an unreadable store.\<close>

theorem resolution_is_exact:
  assumes "browser_step\<^sup>*\<^sup>* empty_browser db" and "in_range (wall now + max_clock_skew)"
  shows "(resolve_session d now db = Inr c \<longleftrightarrow>
      tz now = UTC \<and> (\<exists>s. session_columns s \<in> set (browser_sessions db) \<and> state_ok s \<and>
        bs_digest s = d \<and> current s now \<and> c = exact_context s False)) \<and>
    resolve_session d now db \<in> range Inr \<union> {Inl BrowserSessionRejectedError}"
proof -
  note wf = browser_store.reachable_inv [OF refl assms(1)]
  have "resolve_session d now db \<in> range Inr \<union> {Inl BrowserSessionRejectedError}"
    by (cases "resolve_session d now db")
      (use resolve_session_iff(2) [OF wf assms(2)] in simp_all)
  with resolve_session_iff(1) [OF wf assms(2)] show ?thesis by simp
qed

text \<open>C31: Rotation retires the old digest for good: whatever is called afterwards, no session has it and
  it does not resolve at any time.\<close>

theorem rotated_digest_is_retired:
  assumes "browser_step\<^sup>*\<^sup>* empty_browser db"
    and rot: "rotate_session d new_d new_csrf v now db = Inr (s, db1)"
    and "browser_step\<^sup>*\<^sup>* db1 db2"
  shows "select_session db2 d = None \<and> \<not> returns (resolve_session d later db2)"
proof -
  note wf = browser_store.reachable_inv [OF refl assms(1)]
  note m = mutatesD [of d v db s db1, OF _ wf]
  have "mutates d v db s db1" using rot by (auto simp: mutates_def)
  moreover have "d \<noteq> new_d" "bs_digest s = new_d"
    using rotate_sessionD [OF rot wf] rot by (auto simp: rotate_session_def flow)
  ultimately have "retired.bound_rows d db1" using m by (fastforce simp: retired.bound_rows_def)
  moreover have "browser_wf db1" using m step_wf wf \<open>mutates d v db s db1\<close> by blast
  ultimately have "retired.bound_rows d db2" using retired.steps_keep [OF assms(3)] by blast
  then have "select_session db2 d = None"
    by (auto simp: retired.bound_rows_def select_session_def find_None_iff)
  then show ?thesis by (auto simp: resolve_session_def returns_iff flow)
qed

text \<open>Revocation is permanent: after a session is revoked, its digest never resolves again.\<close>

theorem revocation_is_permanent:
  assumes "browser_step\<^sup>*\<^sup>* empty_browser db"
    and rev: "revoke_session d v now db = Inr (s, db1)"
    and "browser_step\<^sup>*\<^sup>* db1 db2"
  shows "\<not> returns (resolve_session d later db2)"
proof
  note wf = browser_store.reachable_inv [OF refl assms(1)]
  have mut: "mutates d v db s db1" using rev by (auto simp: mutates_def)
  note m = mutatesD [OF mut wf]
  have "bs_revoked_at s \<noteq> None" using revoke_sessionD [OF rev wf] by (auto simp: revoked_state_def)
  then have "br_revoked_at (session_columns s) \<noteq> None" by simp
  with m have "revoked_rows.bound_rows d db1" unfolding revoked_rows.bound_rows_def by blast
  moreover have "browser_wf db1" using m step_wf wf by blast
  ultimately have bound: "revoked_rows.bound_rows d db2" using revoked_rows.steps_keep [OF assms(3)] by blast
  assume "returns (resolve_session d later db2)"
  then obtain r s' where "select_session db2 d = Some r" "state_from_row r = Inr s'"
    "require_current s' later = Inr ()"
    by (auto simp: resolve_session_def returns_iff flow split: option.splits)
  then show False
    using bound select_sessionD [of db2 d r] require_currentD [of s' later]
    unfolding revoked_rows.bound_rows_def state_from_row_iff current_def by fastforce
qed

text \<open>C30: Optimistic concurrency: of the touches, rotations and revocations that present the same digest
  and expected version, at most one succeeds, however the calls interleave.\<close>

theorem one_mutation_per_version:
  assumes "browser_step\<^sup>*\<^sup>* empty_browser db"
    and "mutates d v db s db1" and "browser_step\<^sup>*\<^sup>* db1 db2"
  shows "\<not> mutates d v db2 s' db3"
proof
  note wf = browser_store.reachable_inv [OF refl assms(1)]
  note m = mutatesD [OF assms(2) wf]
  have "fenced.bound_rows v d db1" using m by (auto simp: fenced.bound_rows_def)
  moreover have wf1: "browser_wf db1" using m step_wf wf by blast
  ultimately have bound: "fenced.bound_rows v d db2" using fenced.steps_keep [OF assms(3)] by blast
  assume "mutates d v db2 s' db3"
  from mutatesD [OF this browser_store.steps_inv [OF assms(3) wf1]]
  obtain s0 where "select_session db2 d = Some (session_columns s0)" "bs_version s0 = v" by blast
  then show False
    using bound select_sessionD by (fastforce simp: fenced.bound_rows_def)
qed

text \<open>C32: The authority of a session is bounded at registration. Let the times of a registration lie
  in the calendar. Through any later calls, touches, rotations and revocations among them, the session stored at its
  place keeps its principal and its origin, and its absolute expiry stays the instant that was
  registered; so every context that it resolves to names that principal, and it resolves only before
  the absolute expiry, at most eight hours after authentication.\<close>

theorem session_authority_is_bounded:
  assumes "browser_step\<^sup>*\<^sup>* empty_browser db"
    and reg: "register_session d csrf p origin issued authenticated last_seen idle absolute now db =
      Inr (s, db1)"
    and range: "\<forall>t \<in> {issued, authenticated, last_seen, idle, absolute}. in_range (wall t)"
    and "browser_step\<^sup>*\<^sup>* db1 db2"
  shows "\<exists>t. state_ok t \<and> browser_sessions db2 ! length (browser_sessions db) = session_columns t \<and>
    bs_principal t = p \<and> bs_origin t = bs_origin s \<and>
    wall (bs_absolute_expires_at t) = wall absolute \<and>
    (\<forall>later c. resolve_session (bs_digest t) later db2 = Inr c \<longrightarrow>
       sc_principal c = p \<and> wall later < wall absolute \<and>
       wall absolute \<le> wall authenticated + max_absolute_lifetime)"
proof -
  note wf = browser_store.reachable_inv [OF refl assms(1)]
  note r = register_sessionD [OF reg range]
  let ?n = "length (browser_sessions db)"
  have "db1 = snd (transaction
      (register_session d csrf p origin issued authenticated last_seen idle absolute now) db)"
    using reg by (simp add: transaction_def)
  then have "browser_step db db1" by (rule register_step [OF range])
  then have wf1: "browser_wf db1" using step_wf wf by blast
  have wf2: "browser_wf db2" using browser_store.steps_inv [OF assms(4) wf1] .
  have at: "?n < length (browser_sessions db1)" "browser_sessions db1 ! ?n = session_columns s" using r by auto
  have len: "?n < length (browser_sessions db2)"
    using lineages.length_grows [OF wf_steps [OF assms(4) wf1]] at by simp
  then have "browser_sessions db2 ! ?n \<in> set (browser_sessions db2)" by simp
  then obtain t where t: "state_ok t" "browser_sessions db2 ! ?n = session_columns t"
    using wf2 unfolding browser_wf_def by blast
  have "lineage (session_columns t) = lineage (session_columns s)"
    using lineages.entry_stays [OF wf_steps [OF assms(4) wf1], of ?n] at len t by simp
  then have same: "subject (bs_principal t) = subject p"
    "stored_roles (roles (bs_principal t)) = stored_roles (roles p)"
    "tenant_id (the (principal_scope (bs_principal t))) = tenant_id (the (principal_scope p))"
    "workspace_id (the (principal_scope (bs_principal t))) = workspace_id (the (principal_scope p))"
    "bs_origin t = bs_origin s" "wall (bs_absolute_expires_at t) = wall absolute"
    using r by (auto simp: lineage_def session_columns_def Let_def)
  have ok: "principal_scope p \<noteq> None" "roles p \<noteq> {}" "principal_scope (bs_principal t) \<noteq> None"
    "roles (bs_principal t) \<noteq> {}"
    using r t(1) by (auto simp: state_ok_def bound_principal_def)
  have scope_eq: "x = y" if "tenant_id x = tenant_id y" "workspace_id x = workspace_id y" for x y :: scope
    using that by (cases x; cases y) simp
  have "principal_scope (bs_principal t) = principal_scope p"
    by (rule option.expand) (use ok same(3,4) scope_eq in auto)
  then have p: "bs_principal t = p"
    using same(1,2) ok stored_roles_inject by (intro principal_eqI) auto
  have "sc_principal c = p \<and> wall later < wall absolute \<and>
      wall absolute \<le> wall authenticated + max_absolute_lifetime"
    if res: "resolve_session (bs_digest t) later db2 = Inr c" for later c
  proof -
    have "select_session db2 (bs_digest t) = Some (session_columns t)"
      using select_columns [OF wf2] t \<open>browser_sessions db2 ! ?n \<in> set _\<close> by simp
    then have "c = exact_context t (bs_revoked_at t \<noteq> None)" "require_current t later = Inr ()"
      using res state_from_row_iff [of "session_columns t" t] t(1)
      by (auto simp: resolve_session_def flow)
    moreover have "wall absolute \<le> wall authenticated + max_absolute_lifetime"
      using r by (auto simp: state_ok_def lifetime_ok_def)
    ultimately show ?thesis
      using require_currentD [of t later] same(6) p by (auto simp: exact_context_def current_def)
  qed
  with t p same(5,6) show ?thesis by blast
qed

text \<open>A session in force can be renewed: on a reachable store, a touch of a current session at its
  version returns the session seen now, idle for at most thirty minutes more and never past its absolute
  expiry, and stores exactly that.\<close>

theorem current_session_can_be_touched:
  assumes "browser_step\<^sup>*\<^sup>* empty_browser db"
    and "session_columns s \<in> set (browser_sessions db)" "state_ok s" "current s now"
    and "tz now = UTC" "in_range (wall now + max_idle_lifetime)" "bs_version s + 1 < max_state_version"
  shows "touch_session (bs_digest s) (bs_version s) now db =
     Inr (touched now s, put_session (bs_digest s) (touched now s) db)"
  using touch_session_succeeds [OF browser_store.reachable_inv [OF refl assms(1)] assms(2-7)] .

text \<open>A request is tied to a stored session only by one well-formed cookie: a digest is presented
  exactly when the request has one cookie header with one cookie of the name, whose value is the encoding
  of 32 bytes, and it is the digest of these bytes; every other request is rejected as such.\<close>

theorem presented_session_material:
  assumes "\<And>raw. sha256_pattern (sha raw)"
  shows "(presented_digest sha getlist = Inr x \<longleftrightarrow>
      (\<exists>header raw. getlist ''cookie'' = [header] \<and> session_cookies header = [b64_encode raw] \<and>
        length raw = 32 \<and> x = sha raw)) \<and>
    presented_digest sha getlist \<in> range Inr \<union> {Inl BrowserSessionRejectedError}"
proof
  show "presented_digest sha getlist = Inr x \<longleftrightarrow>
      (\<exists>header raw. getlist ''cookie'' = [header] \<and> session_cookies header = [b64_encode raw] \<and>
        length raw = 32 \<and> x = sha raw)"
    using assms by (auto simp: presented_digest_def flow decode_csrf_token_iff split: list.splits)
  have "except (\<lambda>_. True) BrowserSessionRejectedError m \<in> range Inr \<union> {Inl BrowserSessionRejectedError}"
    for m :: "exn + string"
    by (cases m) simp_all
  then show "presented_digest sha getlist \<in> range Inr \<union> {Inl BrowserSessionRejectedError}"
    unfolding presented_digest_def
    by (auto split: list.split simp: except_def bindE_def split: sum.splits)
qed

end
