(* ===== verification/Browser_Witnesses.thy ===== *)
theory Browser_Witnesses
  imports Browser_Sessions
begin

text \<open>One session registered in an empty store, and the properties of the store at it.\<close>

definition sample_state :: browser_state where
  "sample_state =
     \<lparr>bs_principal = sc_principal sample_context, bs_digest = replicate 64 CHR ''a'',
      bs_csrf = replicate 64 CHR ''b'', bs_origin = sc_origin sample_context, bs_generation = 1,
      bs_issued_at = utc 0, bs_authenticated_at = utc 5, bs_last_seen_at = utc 10,
      bs_idle_expires_at = utc 1000, bs_absolute_expires_at = utc 2000, bs_revoked_at = None,
      bs_version = 1\<rparr>"

definition sample_store :: browser_db where
  "sample_store = claimed (bs_digest sample_state) (bs_csrf sample_state) 500 empty_browser
     \<lparr>browser_sessions := [session_columns sample_state]\<rparr>"

lemma sample_range: "in_range n" if "0 \<le> n" "n \<le> 3600000000" for n
  using that by (simp add: in_range_def min_wall_def max_wall_def)

lemma digest_of_sample: "sha256_pattern (replicate 64 c)" if "is_hex c" for c
  using that by (simp add: sha256_pattern_def list_all_iff)

lemma is_hex_samples: "is_hex CHR ''a''" "is_hex CHR ''b''" "is_hex CHR ''c''" "is_hex CHR ''d''"
  by (simp_all add: is_hex_def code_def)

lemma sample_state_ok: "state_ok sample_state"
  using sample_in_force
  by (simp add: state_ok_def sample_state_def session_in_force_def digest_of_sample is_hex_samples
      storable_def sample_range lifetime_ok_def max_absolute_lifetime_def max_idle_lifetime_def
      seconds_def max_generation_def max_state_version_def)
    (simp add: sample_context_def)

lemma sample_current: "0 \<le> n \<Longrightarrow> 10 \<le> n \<Longrightarrow> n < 1000 \<Longrightarrow> current sample_state (utc n)"
  by (simp add: current_def sample_state_def)

lemma sample_registered:
  "register_session (bs_digest sample_state) (bs_csrf sample_state) (bs_principal sample_state)
     (bs_origin sample_state) (utc 0) (utc 5) (utc 10) (utc 1000) (utc 2000) (utc 500) empty_browser =
   Inr (sample_state, sample_store)"
proof -
  have "unused_pair sample_state empty_browser"
    by (simp add: unused_pair_def allocated_def empty_browser_def sample_state_def)
  then show ?thesis
    using register_session_succeeds [OF sample_state_ok sample_current [of 500], of empty_browser]
    by (simp add: sample_range max_clock_skew_def seconds_def sample_store_def)
      (simp add: sample_state_def empty_browser_def)
qed

lemma sample_step: "browser_step empty_browser sample_store"
proof (rule register_step)
  show "\<forall>t \<in> {utc 0, utc 5, utc 10, utc 1000, utc 2000}. in_range (wall t)"
    by (simp add: sample_range)
  show "sample_store = snd (transaction (register_session (bs_digest sample_state) (bs_csrf sample_state)
      (bs_principal sample_state) (bs_origin sample_state) (utc 0) (utc 5) (utc 10) (utc 1000) (utc 2000)
      (utc 500)) empty_browser)"
    using sample_registered by (simp add: transaction_def)
qed

lemmas sample_reached = r_into_rtranclp [of browser_step, OF sample_step]

lemma sample_wf: "browser_wf sample_store"
  using step_wf [OF empty_browser_wf sample_step] .

lemma sample_row: "session_columns sample_state \<in> set (browser_sessions sample_store)"
  by (simp add: sample_store_def)

lemma sample_versions:
  "bs_version sample_state + 1 < max_state_version" "bs_generation sample_state < max_generation"
  by (simp_all add: sample_state_def max_state_version_def max_generation_def)

lemma sample_touched:
  "touch_session (bs_digest sample_state) 1 (utc 600) sample_store =
     Inr (touched (utc 600) sample_state,
       put_session (bs_digest sample_state) (touched (utc 600) sample_state) sample_store)"
  using touch_session_succeeds [OF sample_wf sample_row sample_state_ok sample_current [of 600]]
    sample_versions
  by (simp add: sample_range max_idle_lifetime_def seconds_def) (simp add: sample_state_def)

lemma sample_revoked:
  "revoke_session (bs_digest sample_state) 1 (utc 600) sample_store =
     Inr (revoked_state (utc 600) sample_state,
       put_session (bs_digest sample_state) (revoked_state (utc 600) sample_state) sample_store)"
  using revoke_session_succeeds [OF sample_wf sample_row sample_state_ok, of "utc 600"] sample_versions
  by (simp add: sample_range) (simp add: sample_state_def)

lemma sample_rotated:
  "\<exists>s db. rotate_session (bs_digest sample_state) (replicate 64 CHR ''c'') (replicate 64 CHR ''d'') 1
     (utc 600) sample_store = Inr (s, db)"
proof -
  have "allocated sample_store = {bs_csrf sample_state, bs_digest sample_state}"
    by (auto simp: sample_store_def allocated_def claimed_def empty_browser_def)
  moreover have "bs_version sample_state = 1" by (simp add: sample_state_def)
  ultimately show ?thesis
    using rotate_session_succeeds [OF sample_wf sample_row sample_state_ok sample_current [of 600],
        of "replicate 64 CHR ''c''" "replicate 64 CHR ''d''"] sample_versions
    by (simp add: sample_range digest_of_sample is_hex_samples max_clock_skew_def seconds_def)
      (simp add: sample_state_def)
qed

theorem calls_refine_session_effects_witness: "session_effect empty_browser sample_store"
  by (rule calls_refine_session_effects [OF rtranclp.rtrancl_refl sample_step])

theorem resolution_is_exact_witness:
  "resolve_session (bs_digest sample_state) (utc 600) sample_store = Inr (exact_context sample_state False)"
proof -
  have "in_range (wall (utc 600) + max_clock_skew)"
    by (simp add: sample_range max_clock_skew_def seconds_def)
  from resolution_is_exact [OF sample_reached this, of "bs_digest sample_state" "exact_context sample_state False"]
  show ?thesis using sample_row sample_state_ok sample_current [of 600] by auto
qed

theorem rotated_digest_is_retired_witness:
  "\<exists>s db. rotate_session (bs_digest sample_state) (replicate 64 CHR ''c'') (replicate 64 CHR ''d'') 1
     (utc 600) sample_store = Inr (s, db) \<and> select_session db (bs_digest sample_state) = None"
proof -
  obtain s db where rot: "rotate_session (bs_digest sample_state) (replicate 64 CHR ''c'')
      (replicate 64 CHR ''d'') 1 (utc 600) sample_store = Inr (s, db)"
    using sample_rotated by blast
  from rotated_digest_is_retired [OF sample_reached rot rtranclp.rtrancl_refl] rot show ?thesis by blast
qed

theorem revocation_is_permanent_witness:
  "\<not> returns (resolve_session (bs_digest sample_state) (utc 700)
     (put_session (bs_digest sample_state) (revoked_state (utc 600) sample_state) sample_store))"
  by (rule revocation_is_permanent [OF sample_reached sample_revoked rtranclp.rtrancl_refl])

theorem one_mutation_per_version_witness:
  "\<nexists>s db. mutates (bs_digest sample_state) 1
     (put_session (bs_digest sample_state) (touched (utc 600) sample_state) sample_store) s db"
proof -
  have "mutates (bs_digest sample_state) 1 sample_store (touched (utc 600) sample_state)
      (put_session (bs_digest sample_state) (touched (utc 600) sample_state) sample_store)"
    using sample_touched by (auto simp: mutates_def)
  from one_mutation_per_version [OF sample_reached this rtranclp.rtrancl_refl] show ?thesis by blast
qed

theorem session_authority_is_bounded_witness:
  "\<exists>db t. touch_session (bs_digest sample_state) 1 (utc 600) sample_store = Inr (touched (utc 600) sample_state, db) \<and>
     browser_sessions db \<noteq> browser_sessions sample_store \<and> browser_sessions db ! 0 = session_columns t \<and>
     bs_principal t = sc_principal sample_context \<and> wall (bs_absolute_expires_at t) = 2000"
proof -
  let ?db = "put_session (bs_digest sample_state) (touched (utc 600) sample_state) sample_store"
  have range: "\<forall>t \<in> {utc 0, utc 5, utc 10, utc 1000, utc 2000}. in_range (wall t)"
    by (simp add: sample_range)
  have "browser_step sample_store ?db"
    by (rule touch_step [of _ "bs_digest sample_state" 1 "utc 600"]) (simp add: sample_touched transaction_def)
  from session_authority_is_bounded [OF rtranclp.rtrancl_refl sample_registered range
      r_into_rtranclp [of browser_step, OF this]]
  obtain t where "browser_sessions ?db ! 0 = session_columns t"
      "bs_principal t = sc_principal sample_context" "wall (bs_absolute_expires_at t) = 2000"
    by (auto simp: empty_browser_def sample_state_def)
  moreover have "browser_sessions ?db \<noteq> browser_sessions sample_store"
    by (simp add: put_session_def sample_store_def touched_def session_columns_def sample_state_def Let_def)
  ultimately show ?thesis using sample_touched by blast
qed

theorem current_session_can_be_touched_witness:
  "returns (touch_session (bs_digest sample_state) 1 (utc 600) sample_store)"
proof -
  have "in_range (wall (utc 600) + max_idle_lifetime)" "bs_version sample_state = 1"
    by (simp_all add: sample_range max_idle_lifetime_def seconds_def sample_state_def)
  then show ?thesis
    using current_session_can_be_touched [OF sample_reached sample_row sample_state_ok
        sample_current [of 600]] sample_versions by simp
qed

theorem presented_session_material_witness:
  "presented_digest (\<lambda>_. replicate 64 CHR ''a'') (\<lambda>_. []) = Inl BrowserSessionRejectedError"
  using presented_session_material [of "\<lambda>_. replicate 64 CHR ''a''" "\<lambda>_. []"]
  by (auto simp: digest_of_sample is_hex_samples)

end
