(* ===== verification/Legacy_Security.thy ===== *)
theory Legacy_Security
  imports Session_Security
begin

text \<open>
  The authorization of legacy session requests, \<open>legacy_session_security.py\<close>: a browser request
  needs a session in force and the single role of a reviewer, a workload request needs a fresh
  proof that is bound to the method, the path and the body, in the current generation.
\<close>

section \<open>The code\<close>

datatype legacy_audience = CaptureUpload | ProcessingCompletion

datatype legacy_transport = CaptureWorkload | WorkerWorkload

datatype replay_decision = ReplayAccept | ReplayReject

definition max_workload_lifetime :: int where
  "max_workload_lifetime = seconds 300"

record workload_context =
  wc_principal :: principal
  wc_audience :: legacy_audience
  wc_transport :: legacy_transport
  wc_method :: string
  wc_path :: string
  wc_body_sha256 :: string
  wc_proof_digest :: string
  wc_issued_at :: datetime
  wc_expires_at :: datetime
  wc_generation :: int
  wc_active_generation :: int
  wc_revoked :: bool
  wc_replay :: replay_decision

text \<open>\<open>_CANONICAL_PATH_PATTERN\<close>, matched against the whole path.\<close>

definition session_char :: "char \<Rightarrow> bool" where
  "session_char c = (is_hex c \<or> c = CHR ''-'')"

definition word_char :: "char \<Rightarrow> bool" where
  "word_char c = (is_lower c \<or> c = CHR ''-'')"

definition path_tail :: "string \<Rightarrow> bool" where
  "path_tail t =
     (case t of
        [] \<Rightarrow> True
      | c # t \<Rightarrow>
          c = CHR ''/'' \<and>
          (let s = takeWhile session_char t; rest = dropWhile session_char t in
           s \<noteq> [] \<and>
           (case rest of
              [] \<Rightarrow> True
            | c # w \<Rightarrow> c = CHR ''/'' \<and> w \<noteq> [] \<and> list_all word_char w)))"

definition canonical_path :: "string \<Rightarrow> bool" where
  "canonical_path p =
     (startswith p ''/v1/'' \<and>
      (let r = drop 4 p;
           r = (if startswith r ''internal/'' then drop 9 r else r) in
       startswith r ''sessions'' \<and> path_tail (drop 8 r)))"

text \<open>\<open>method.upper()\<close> changes neither \<open>GET\<close> nor \<open>POST\<close>, the only methods expected.\<close>

definition validate_canonical_request :: "string \<Rightarrow> string \<Rightarrow> string \<Rightarrow> exn + unit" where
  "validate_canonical_request http_method path expected =
     bindE (require (http_method = expected) ValueError) (\<lambda>_.
     require (canonical_path path) ValueError)"

definition validate_exact_principal :: "principal \<Rightarrow> exn + unit" where
  "validate_exact_principal p =
     bindE (require (principal_scope p \<noteq> None) TypeError) (\<lambda>_.
     bindE (make_principal (subject p) (roles p) (principal_scope p)) (\<lambda>rebuilt.
     require (rebuilt = p) ValueError))"

definition validate_workload_shape :: "workload_context \<Rightarrow> exn + unit" where
  "validate_workload_shape c =
     bindE (validate_exact_principal (wc_principal c)) (\<lambda>_.
     bindE (validate_canonical_request (wc_method c) (wc_path c) ''POST'') (\<lambda>_.
     bindE (forE (\<lambda>d. require (sha256_pattern d) ValueError) [wc_body_sha256 c, wc_proof_digest c])
       (\<lambda>_.
     bindE (require_utc (wc_issued_at c)) (\<lambda>_.
     bindE (require_utc (wc_expires_at c)) (\<lambda>_.
     bindE (require (wall (wc_issued_at c) < wall (wc_expires_at c)) ValueError) (\<lambda>_.
     bindE (require (\<not> wall (wc_expires_at c) - wall (wc_issued_at c) > max_workload_lifetime)
       ValueError) (\<lambda>_.
     forE (\<lambda>g. require (1 \<le> g \<and> g \<le> max_generation) ValueError)
       [wc_generation c, wc_active_generation c])))))))"

text \<open>\<open>LegacyWorkloadContext(..)\<close> with its \<open>__post_init__\<close>.\<close>

definition make_workload_context :: "workload_context \<Rightarrow> exn + workload_context" where
  "make_workload_context c = bindE (validate_workload_shape c) (\<lambda>_. Inr c)"

definition browser_actions :: "control_action list" where
  "browser_actions = [SessionList, SessionRead, SessionTimelineRead]"

text \<open>An authorized request is the principal it was authorized for. A principal that passed the
  exact check has a scope.\<close>

definition authorize_browser_request ::
  "(string \<Rightarrow> string) \<Rightarrow> security_context \<Rightarrow> principal \<Rightarrow> string \<Rightarrow> string \<Rightarrow> (string \<Rightarrow> string list) \<Rightarrow>
   control_action \<Rightarrow> datetime \<Rightarrow> exn + principal" where
  "authorize_browser_request sha c p http_method path getlist action now =
     except (\<lambda>_. True) LegacySessionSecurityRejectedError
       (bindE (require (action \<in> set browser_actions) ValueError) (\<lambda>_.
        bindE (validate_canonical_request http_method path ''GET'') (\<lambda>_.
        bindE (validate_session_security sha c p http_method getlist now) (\<lambda>_.
        bindE (validate_exact_principal p) (\<lambda>_.
        bindE (require_action p action) (\<lambda>_.
        bindE (require (roles p = {Reviewer}) ValueError) (\<lambda>_.
        Inr p)))))))"

text \<open>The window of a proof, with the clock skew added on both sides as the code does.\<close>

definition check_proof_window :: "workload_context \<Rightarrow> datetime \<Rightarrow> exn + unit" where
  "check_proof_window c now =
     bindE (plus_us now max_clock_skew) (\<lambda>limit.
     bindE (require (\<not> wall (wc_issued_at c) > wall limit) ValueError) (\<lambda>_.
     bindE (plus_us (wc_issued_at c) (- max_clock_skew)) (\<lambda>earliest.
     bindE (require (\<not> wall now < wall earliest) ValueError) (\<lambda>_.
     require (\<not> wall now \<ge> wall (wc_expires_at c)) ValueError))))"

definition role_of_transport :: "legacy_transport \<Rightarrow> control_role" where
  "role_of_transport t =
     (if t = CaptureWorkload then CaptureUploader else DeterministicWorker)"

text \<open>\<open>sha body\<close> is the digest of the bytes of the body.\<close>

definition authorize_workload_request ::
  "(string \<Rightarrow> string) \<Rightarrow> workload_context \<Rightarrow> string \<Rightarrow> string \<Rightarrow> string \<Rightarrow> control_action \<Rightarrow>
   legacy_audience \<Rightarrow> legacy_transport \<Rightarrow> datetime \<Rightarrow> exn + principal" where
  "authorize_workload_request sha c http_method path body action audience transport now =
     except (\<lambda>_. True) LegacySessionSecurityRejectedError
       (bindE (require_utc now) (\<lambda>_.
        bindE (validate_workload_shape c) (\<lambda>_.
        bindE (validate_canonical_request http_method path ''POST'') (\<lambda>_.
        bindE (require (wc_method c = http_method \<and> wc_path c = path) ValueError) (\<lambda>_.
        bindE (require (wc_body_sha256 c = sha body) ValueError) (\<lambda>_.
        bindE (require (wc_audience c = audience \<and> wc_transport c = transport) ValueError) (\<lambda>_.
        bindE (require (\<not> wc_revoked c \<and> wc_replay c = ReplayAccept) ValueError) (\<lambda>_.
        bindE (require (wc_generation c = wc_active_generation c) ValueError) (\<lambda>_.
        bindE (check_proof_window c now) (\<lambda>_.
        bindE (validate_exact_principal (wc_principal c)) (\<lambda>_.
        bindE (require_action (wc_principal c) action) (\<lambda>_.
        bindE (require (roles (wc_principal c) = {role_of_transport transport}) ValueError) (\<lambda>_.
        Inr (wc_principal c))))))))))))))"

section \<open>What the checks accept\<close>

definition scoped_principal :: "principal \<Rightarrow> bool" where
  "scoped_principal p = (principal_scope p \<noteq> None \<and> valid_principal p)"

lemma validate_exact_principal_Inr [flow]:
  "validate_exact_principal p = Inr u \<longleftrightarrow> scoped_principal p"
  by (cases p) (auto simp: validate_exact_principal_def scoped_principal_def flow)

lemma validate_canonical_request_Inr [flow]:
  "validate_canonical_request m path expected = Inr u \<longleftrightarrow> m = expected \<and> canonical_path path"
  by (auto simp: validate_canonical_request_def flow)

lemma require_utc_eq [flow]: "require_utc d = Inr d' \<longleftrightarrow> tz d = UTC \<and> d' = d"
  by (auto simp: require_utc_def)

lemma plus_us_Inr [flow]:
  "plus_us d us = Inr d' \<longleftrightarrow> in_range (wall d + us) \<and> d' = d\<lparr>wall := wall d + us\<rparr>"
  by (auto simp: plus_us_def)

text \<open>A context of the exact shape, and the times at which its proof is accepted.\<close>

definition workload_shape :: "workload_context \<Rightarrow> bool" where
  "workload_shape c =
     (scoped_principal (wc_principal c) \<and> wc_method c = ''POST'' \<and> canonical_path (wc_path c) \<and>
      sha256_pattern (wc_body_sha256 c) \<and> sha256_pattern (wc_proof_digest c) \<and>
      tz (wc_issued_at c) = UTC \<and> tz (wc_expires_at c) = UTC \<and>
      wall (wc_issued_at c) < wall (wc_expires_at c) \<and>
      wall (wc_expires_at c) \<le> wall (wc_issued_at c) + max_workload_lifetime \<and>
      1 \<le> wc_generation c \<and> wc_generation c \<le> max_generation \<and>
      1 \<le> wc_active_generation c \<and> wc_active_generation c \<le> max_generation)"

lemma validate_workload_shape_Inr [flow]: "validate_workload_shape c = Inr u \<longleftrightarrow> workload_shape c"
  by (auto simp: validate_workload_shape_def workload_shape_def flow forE_Inr)

text \<open>The two checks against the future are one: the skew moves from one side to the other. A time within
  a minute of either end of the calendar is refused because the addition raises.\<close>

definition proof_window :: "workload_context \<Rightarrow> int \<Rightarrow> bool" where
  "proof_window c now =
     (wall (wc_issued_at c) - max_clock_skew \<le> now \<and> now < wall (wc_expires_at c) \<and>
      in_range (now + max_clock_skew) \<and> in_range (wall (wc_issued_at c) - max_clock_skew))"

lemma check_proof_window_Inr [flow]:
  "check_proof_window c now = Inr u \<longleftrightarrow> proof_window c (wall now)"
  by (auto simp: check_proof_window_def proof_window_def flow)

text \<open>A workload request is authorized exactly when its proof has the exact shape, is bound to this
  method, path, body, audience and transport, is neither revoked nor replayed, is of the active generation
  and evaluated in its window of at most five minutes and one minute of skew, and the principal has the one
  role of the transport, which allows the action. Nothing else is ever raised than the rejection.\<close>

theorem workload_request_is_exact:
  "authorize_workload_request sha c m path body action audience transport now =
     (if tz now = UTC \<and> workload_shape c \<and> m = ''POST'' \<and> wc_path c = path \<and>
         wc_body_sha256 c = sha body \<and> wc_audience c = audience \<and> wc_transport c = transport \<and>
         \<not> wc_revoked c \<and> wc_replay c = ReplayAccept \<and> wc_generation c = wc_active_generation c \<and>
         proof_window c (wall now) \<and> roles (wc_principal c) = {role_of_transport transport} \<and>
         action \<in> role_actions (role_of_transport transport)
      then Inr (wc_principal c) else Inl LegacySessionSecurityRejectedError)"
  (is "?lhs = (if ?ok then _ else _)")
proof -
  have "?lhs = Inr p \<longleftrightarrow> ?ok \<and> p = wc_principal c" for p
    by (auto simp: authorize_workload_request_def flow allows_def workload_shape_def)
  moreover have "?lhs = Inl e \<Longrightarrow> e = LegacySessionSecurityRejectedError" for e
    by (auto simp: authorize_workload_request_def except_Inl)
  ultimately show ?thesis by (cases ?lhs) auto
qed

end
