(* ===== verification/Legacy_Sessions.thy ===== *)
theory Legacy_Sessions
  imports Legacy_Security Audit_Log "HOL-Library.Product_Lexorder"
begin

text \<open>
  The durable legacy sessions of \<open>legacy_session_store.py\<close>: sessions with their lifecycle events, and
  workload principals with the proofs claimed under them. The pydantic models of \<open>models.py\<close> appear as
  records; the JSON text of a processing result and its validation are the functions \<open>dump\<close> and
  \<open>load\<close> of a type of results.
\<close>

section \<open>Contracts\<close>

datatype processing_status = Registered | Uploaded | Processing | Processed | Failed

datatype review_status = NotReady | Pending | Approved | Rejected | NeedsChanges

fun processing_value :: "processing_status \<Rightarrow> string" where
  "processing_value Registered = ''registered''"
| "processing_value Uploaded = ''uploaded''"
| "processing_value Processing = ''processing''"
| "processing_value Processed = ''processed''"
| "processing_value Failed = ''failed''"

record session_create =
  sn_session_id :: string
  sn_machine_id :: string
  sn_project_id :: "string option"
  sn_started_at :: datetime
  sn_ended_at :: datetime
  sn_active_seconds :: int
  sn_process :: string
  sn_package_sha256 :: string
  sn_size_bytes :: int

text \<open>The field constraints of \<open>SessionCreate\<close>.\<close>

definition session_fields_ok :: "session_create \<Rightarrow> bool" where
  "session_fields_ok v =
     (8 \<le> length (sn_machine_id v) \<and> length (sn_machine_id v) \<le> 128 \<and>
      (case sn_project_id v of None \<Rightarrow> True | Some p \<Rightarrow> length p \<le> 128) \<and>
      0 \<le> sn_active_seconds v \<and> length (sn_process v) \<le> 128 \<and>
      sha256_pattern (sn_package_sha256 v) \<and> 0 < sn_size_bytes v)"

record 'r session_record =
  sr_create :: session_create
  sr_processing_status :: processing_status
  sr_review_status :: review_status
  sr_raw_object_key :: "string option"
  sr_processed_prefix :: "string option"
  sr_output :: "'r option"
  sr_completion_id :: "string option"
  sr_completed_at :: "datetime option"
  sr_raw_expires_at :: datetime
  sr_created_at :: datetime
  sr_updated_at :: datetime

text \<open>A completion: its session, its result (\<open>as_result\<close>), and the two identifying fields.\<close>

record 'r completion_request =
  pc_session_id :: string
  pc_result :: 'r
  pc_output_object_key :: string
  pc_idempotency_key :: string

section \<open>Tables\<close>

record session_row =
  lr_session_id :: string
  lr_tenant :: string
  lr_workspace :: string
  lr_owner :: string
  lr_contract :: string
  lr_machine_id :: string
  lr_project_id :: "string option"
  lr_started_at :: int
  lr_ended_at :: int
  lr_active_seconds :: int
  lr_process :: string
  lr_package_sha256 :: string
  lr_size_bytes :: int
  lr_status :: processing_status
  lr_review :: review_status
  lr_raw_key :: "string option"
  lr_prefix :: "string option"
  lr_output_json :: "string option"
  lr_completion_id :: "string option"
  lr_completed_at :: "int option"
  lr_raw_expires_at :: int
  lr_version :: nat
  lr_created_at :: int
  lr_updated_at :: int

record session_event_row =
  lv_sequence :: nat
  lv_event_id :: string
  lv_session_id :: string
  lv_tenant :: string
  lv_workspace :: string
  lv_owner :: string
  lv_type :: string
  lv_from :: "processing_status option"
  lv_to :: processing_status
  lv_version :: nat
  lv_actor :: string
  lv_role :: string
  lv_key :: "string option"
  lv_digest :: string
  lv_detail_json :: string
  lv_occurred_at :: int

record principal_row =
  lp_subject :: string
  lp_tenant :: string
  lp_workspace :: string
  lp_audience :: legacy_audience
  lp_role :: control_role
  lp_transport :: legacy_transport
  lp_generation :: int
  lp_revoked_at :: "int option"
  lp_version :: int
  lp_created_at :: int
  lp_updated_at :: int

record claim_row =
  lc_proof :: string
  lc_subject :: string
  lc_tenant :: string
  lc_workspace :: string
  lc_audience :: legacy_audience
  lc_role :: control_role
  lc_transport :: legacy_transport
  lc_generation :: int
  lc_method :: string
  lc_path :: string
  lc_body_sha256 :: string
  lc_issued_at :: int
  lc_expires_at :: int
  lc_claimed_at :: int
  lc_retain_until :: int

record legacy_db =
  lg_sessions :: "session_row list"
  lg_events :: "session_event_row list"
  lg_principals :: "principal_row list"
  lg_claims :: "claim_row list"

definition empty_legacy :: legacy_db where
  "empty_legacy = \<lparr>lg_sessions = [], lg_events = [], lg_principals = [], lg_claims = []\<rparr>"

definition record_contract_version :: string where
  "record_contract_version = ''1.0''"

section \<open>Values\<close>

definition max_list_limit :: int where
  "max_list_limit = 1000"

definition legacy_micros :: "datetime \<Rightarrow> exn + int" where
  "legacy_micros d =
     (if tz d = Naive then Inl ValueError
      else bindE (astimezone_utc d) (\<lambda>u.
        if micros_in_range (wall u) then Inr (wall u) else Inl ValueError))"

definition legacy_from_micros :: "int \<Rightarrow> exn + datetime" where
  "legacy_from_micros v =
     (if \<not> micros_in_range v then Inl RuntimeError else plus_us (utc 0) v)"

definition optional_from_micros :: "int option \<Rightarrow> exn + datetime option" where
  "optional_from_micros v =
     (case v of None \<Rightarrow> Inr None | Some u \<Rightarrow> bindE (legacy_from_micros u) (\<lambda>d. Inr (Some d)))"

text \<open>The driver binds integers of 64 bits and raises for others.\<close>

definition bind_integer :: "int \<Rightarrow> exn + unit" where
  "bind_integer v = require (micros_in_range v) OverflowError"

definition require_legacy_text :: "nat \<Rightarrow> string \<Rightarrow> exn + unit" where
  "require_legacy_text maximum s =
     bindE (require (nonblank s) ValueError) (\<lambda>_. require (\<not> length s > maximum) ValueError)"

definition require_legacy_sha256 :: "string \<Rightarrow> exn + unit" where
  "require_legacy_sha256 s = require (length s = 64 \<and> list_all is_hex s) ValueError"

definition require_legacy_generation :: "int \<Rightarrow> exn + unit" where
  "require_legacy_generation g = require (1 \<le> g \<and> g \<le> max_generation) ValueError"

definition require_optional_version :: "int option \<Rightarrow> exn + unit" where
  "require_optional_version v =
     (case v of None \<Rightarrow> Inr () | Some v \<Rightarrow> require (\<not> v < 1) ValueError)"

definition require_limit :: "int \<Rightarrow> exn + unit" where
  "require_limit v = require (1 \<le> v \<and> v \<le> max_list_limit) ValueError"

text \<open>\<open>request_digest or default\<close>: the empty string counts as absent.\<close>

definition given_or :: "string option \<Rightarrow> string \<Rightarrow> string" where
  "given_or v fallback = (case v of None \<Rightarrow> fallback | Some s \<Rightarrow> if s = [] then fallback else s)"

text \<open>\<open>key.rsplit("/", 1)[0] + "/"\<close>.\<close>

definition prefix_of_key :: "string \<Rightarrow> string" where
  "prefix_of_key key =
     (if CHR ''/'' \<in> set key then rev (tl (dropWhile (\<lambda>c. c \<noteq> CHR ''/'') (rev key))) else key) @ ''/''"

section \<open>Rows and records\<close>

definition row_create :: "session_row \<Rightarrow> datetime \<Rightarrow> datetime \<Rightarrow> session_create" where
  "row_create r started ended =
     \<lparr>sn_session_id = lr_session_id r, sn_machine_id = lr_machine_id r,
      sn_project_id = lr_project_id r, sn_started_at = started, sn_ended_at = ended,
      sn_active_seconds = lr_active_seconds r, sn_process = lr_process r,
      sn_package_sha256 = lr_package_sha256 r, sn_size_bytes = lr_size_bytes r\<rparr>"

text \<open>\<open>ValidationError\<close> of the final constructor is a \<open>ValueError\<close>; that of the stored output is
  turned into a \<open>RuntimeError\<close>.\<close>

definition session_from_row :: "(string \<Rightarrow> 'r option) \<Rightarrow> session_row \<Rightarrow> exn + 'r session_record" where
  "session_from_row load r =
     bindE (require (lr_contract r = record_contract_version) RuntimeError) (\<lambda>_.
     bindE (case lr_output_json r of
         None \<Rightarrow> Inr None
       | Some j \<Rightarrow> (case load j of None \<Rightarrow> Inl RuntimeError | Some v \<Rightarrow> Inr (Some v))) (\<lambda>output.
     bindE (legacy_from_micros (lr_started_at r)) (\<lambda>started.
     bindE (legacy_from_micros (lr_ended_at r)) (\<lambda>ended.
     bindE (optional_from_micros (lr_completed_at r)) (\<lambda>completed.
     bindE (legacy_from_micros (lr_raw_expires_at r)) (\<lambda>expires.
     bindE (legacy_from_micros (lr_created_at r)) (\<lambda>created.
     bindE (legacy_from_micros (lr_updated_at r)) (\<lambda>updated.
     let v = row_create r started ended in
     bindE (require (session_fields_ok v) ValueError) (\<lambda>_.
     Inr \<lparr>sr_create = v, sr_processing_status = lr_status r, sr_review_status = lr_review r,
       sr_raw_object_key = lr_raw_key r, sr_processed_prefix = lr_prefix r, sr_output = output,
       sr_completion_id = lr_completion_id r, sr_completed_at = completed,
       sr_raw_expires_at = expires, sr_created_at = created, sr_updated_at = updated\<rparr>)))))))))"

definition same_scope :: "scope \<Rightarrow> session_row \<Rightarrow> bool" where
  "same_scope s r = (lr_tenant r = tenant_id s \<and> lr_workspace r = workspace_id s)"

definition session_matches :: "string \<Rightarrow> scope \<Rightarrow> string option \<Rightarrow> session_row \<Rightarrow> bool" where
  "session_matches i s owner r =
     (lr_session_id r = i \<and> same_scope s r \<and> (case owner of None \<Rightarrow> True | Some w \<Rightarrow> lr_owner r = w))"

definition select_legacy :: "string \<Rightarrow> scope \<Rightarrow> string option \<Rightarrow> legacy_db \<Rightarrow> session_row option" where
  "select_legacy i s owner db = find (session_matches i s owner) (lg_sessions db)"

text \<open>The unique columns of the two session tables; a null is equal to nothing.\<close>

definition both_some :: "'a option \<Rightarrow> 'a option \<Rightarrow> bool" where
  "both_some a b = (a \<noteq> None \<and> a = b)"

definition same_session_row :: "session_row \<Rightarrow> session_row \<Rightarrow> bool" where
  "same_session_row r x =
     (lr_session_id r = lr_session_id x \<or> both_some (lr_raw_key r) (lr_raw_key x) \<or>
      both_some (lr_completion_id r) (lr_completion_id x))"

definition same_session_event :: "session_event_row \<Rightarrow> session_event_row \<Rightarrow> bool" where
  "same_session_event e x =
     (lv_event_id e = lv_event_id x \<or>
      lv_session_id e = lv_session_id x \<and> lv_version e = lv_version x \<or>
      lv_session_id e = lv_session_id x \<and> lv_type e = lv_type x \<and> both_some (lv_key e) (lv_key x))"

fun pairwise :: "('a \<Rightarrow> 'a \<Rightarrow> bool) \<Rightarrow> 'a list \<Rightarrow> bool" where
  "pairwise R [] = True"
| "pairwise R (x # xs) = (list_all (R x) xs \<and> pairwise R xs)"

text \<open>An update of session rows: the unique columns are checked on the result.\<close>

definition update_sessions ::
  "(session_row \<Rightarrow> bool) \<Rightarrow> (session_row \<Rightarrow> session_row) \<Rightarrow> legacy_db \<Rightarrow> exn + legacy_db" where
  "update_sessions P f db =
     (let t = update_where P f (lg_sessions db) in
      if pairwise (\<lambda>r x. \<not> same_session_row r x) t then
        (if count_where P (lg_sessions db) = 1 then Inr (db\<lparr>lg_sessions := t\<rparr>)
         else Inl SessionConflictError)
      else Inl SessionConflictError)"

definition append_session_event ::
  "string \<Rightarrow> string \<Rightarrow> scope \<Rightarrow> string \<Rightarrow> string \<Rightarrow> processing_status option \<Rightarrow> processing_status \<Rightarrow>
   nat \<Rightarrow> string \<Rightarrow> string \<Rightarrow> string option \<Rightarrow> string \<Rightarrow> json \<Rightarrow> int \<Rightarrow> legacy_db \<Rightarrow> exn + legacy_db" where
  "append_session_event eid i s owner ty from to version actor role key digest detail us db =
     bindE (require (list_ex (session_matches i s (Some owner)) (lg_sessions db)) IntegrityError) (\<lambda>_.
     bindE (insert_row same_session_event
       \<lparr>lv_sequence = next_sequence lv_sequence (lg_events db), lv_event_id = eid,
        lv_session_id = i, lv_tenant = tenant_id s, lv_workspace = workspace_id s, lv_owner = owner,
        lv_type = ty, lv_from = from, lv_to = to, lv_version = version, lv_actor = actor,
        lv_role = role, lv_key = key, lv_digest = digest, lv_detail_json = canonical_json detail,
        lv_occurred_at = us\<rparr> (lg_events db)) (\<lambda>t.
     Inr (db\<lparr>lg_events := t\<rparr>)))"

definition stored_session ::
  "(string \<Rightarrow> 'r option) \<Rightarrow> string \<Rightarrow> scope \<Rightarrow> string option \<Rightarrow> legacy_db \<Rightarrow> exn + 'r session_record" where
  "stored_session load i s owner db =
     (case select_legacy i s owner db of
        None \<Rightarrow> Inl AssertionError
      | Some r \<Rightarrow> session_from_row load r)"

section \<open>Sessions\<close>

definition new_session_row ::
  "session_create \<Rightarrow> scope \<Rightarrow> string \<Rightarrow> int \<Rightarrow> int \<Rightarrow> int \<Rightarrow> int \<Rightarrow> session_row" where
  "new_session_row v s owner started ended expires now =
     \<lparr>lr_session_id = sn_session_id v, lr_tenant = tenant_id s, lr_workspace = workspace_id s,
      lr_owner = owner, lr_contract = record_contract_version, lr_machine_id = sn_machine_id v,
      lr_project_id = sn_project_id v, lr_started_at = started, lr_ended_at = ended,
      lr_active_seconds = sn_active_seconds v, lr_process = sn_process v,
      lr_package_sha256 = sn_package_sha256 v, lr_size_bytes = sn_size_bytes v,
      lr_status = Registered, lr_review = NotReady, lr_raw_key = None, lr_prefix = None,
      lr_output_json = None, lr_completion_id = None, lr_completed_at = None,
      lr_raw_expires_at = expires, lr_version = 1, lr_created_at = now, lr_updated_at = now\<rparr>"

text \<open>
  \<open>now\<close> is the reading of the clock of the store, \<open>digest_of\<close> gives the digest of the JSON dump of the request.
\<close>

definition create_body ::
  "(string \<Rightarrow> 'r option) \<Rightarrow> session_create \<Rightarrow> scope \<Rightarrow> string \<Rightarrow> string \<Rightarrow> string \<Rightarrow> string \<Rightarrow> string \<Rightarrow>
   int \<Rightarrow> int \<Rightarrow> legacy_db \<Rightarrow> exn + 'r session_record \<times> legacy_db" where
  "create_body load v s owner actor role digest eid now_us expires_us db =
     bindE (legacy_micros (sn_started_at v)) (\<lambda>started.
     bindE (legacy_micros (sn_ended_at v)) (\<lambda>ended.
     bindE (bind_integer (sn_active_seconds v)) (\<lambda>_.
     bindE (bind_integer (sn_size_bytes v)) (\<lambda>_.
     bindE (insert_row same_session_row (new_session_row v s owner started ended expires_us now_us)
       (lg_sessions db)) (\<lambda>t.
     bindE (append_session_event eid (sn_session_id v) s owner ''registered'' None Registered 1 actor
       role None digest (JObj []) now_us (db\<lparr>lg_sessions := t\<rparr>)) (\<lambda>db.
     bindE (stored_session load (sn_session_id v) s (Some owner) db) (\<lambda>r.
     Inr (r, db))))))))"

definition create_session ::
  "(string \<Rightarrow> 'r option) \<Rightarrow> (session_create \<Rightarrow> string) \<Rightarrow> session_create \<Rightarrow> int \<Rightarrow> scope \<Rightarrow> string \<Rightarrow>
   string option \<Rightarrow> string \<Rightarrow> string option \<Rightarrow> datetime \<Rightarrow> string \<Rightarrow> legacy_db \<Rightarrow>
   exn + 'r session_record \<times> legacy_db" where
  "create_session load digest_of v retention_days s owner actor role request_digest now eid db =
     bindE (validate_scope s) (\<lambda>_.
     bindE (require_legacy_text 512 owner) (\<lambda>_.
     bindE (require (\<not> retention_days < 1) ValueError) (\<lambda>_.
     let actor = (case actor of None \<Rightarrow> owner | Some a \<Rightarrow> a) in
     bindE (require_legacy_text 512 actor) (\<lambda>_.
     bindE (require_legacy_text 512 role) (\<lambda>_.
     bindE (require (role = role_value CaptureUploader) ValueError) (\<lambda>_.
     let digest = given_or request_digest (digest_of v) in
     bindE (require_legacy_sha256 digest) (\<lambda>_.
     bindE (require_utc now) (\<lambda>now.
     bindE (legacy_micros now) (\<lambda>now_us.
     bindE (plus_us now (retention_days * 86400000000)) (\<lambda>expires.
     bindE (legacy_micros expires) (\<lambda>expires_us.
     (case create_body load v s owner actor role digest eid now_us expires_us db of
        Inl e \<Rightarrow>
          if e = IntegrityError then
            (if select_legacy (sn_session_id v) s (Some owner) db = None then Inl SessionNotFoundError
             else Inl SessionConflictError)
          else Inl e
      | Inr r \<Rightarrow> Inr r))))))))))))"

definition list_sessions ::
  "(string \<Rightarrow> 'r option) \<Rightarrow> scope \<Rightarrow> int \<Rightarrow> legacy_db \<Rightarrow> exn + 'r session_record list" where
  "list_sessions load s limit db =
     bindE (validate_scope s) (\<lambda>_.
     bindE (require_limit limit) (\<lambda>_.
     mapE (session_from_row load)
       (take (nat limit) (sort_key (\<lambda>r. (- lr_started_at r, lr_session_id r))
         (filter (same_scope s) (lg_sessions db))))))"

definition get_session ::
  "(string \<Rightarrow> 'r option) \<Rightarrow> string \<Rightarrow> scope \<Rightarrow> string option \<Rightarrow> legacy_db \<Rightarrow> exn + 'r session_record" where
  "get_session load i s owner db =
     bindE (validate_scope s) (\<lambda>_.
     bindE (optionally (require_legacy_text 512) owner) (\<lambda>_.
     case select_legacy i s owner db of
       None \<Rightarrow> Inl SessionNotFoundError
     | Some r \<Rightarrow> session_from_row load r))"

text \<open>\<open>ArtifactAuthority\<close> of \<open>artifact_gateway.py\<close>: a scope and the subject that owns the capture.\<close>

definition capture_owner_pattern :: "string \<Rightarrow> bool" where
  "capture_owner_pattern =
     ident_pattern (\<lambda>c. is_lower c \<or> is_digit c)
       (\<lambda>c. is_lower c \<or> is_digit c \<or> c \<in> {CHR ''.'', CHR ''_'', CHR '':'', CHR ''-''}) 2 127"

definition make_authority :: "scope \<Rightarrow> string \<Rightarrow> exn + scope \<times> string" where
  "make_authority s owner =
     bindE (validate_scope s) (\<lambda>_.
     bindE (require (capture_owner_pattern owner) ValueError) (\<lambda>_.
     Inr (s, owner)))"

definition registration_of :: "session_row \<Rightarrow> session_event_row \<Rightarrow> bool" where
  "registration_of r e =
     (lv_session_id e = lr_session_id r \<and> lv_tenant e = lr_tenant r \<and> lv_workspace e = lr_workspace r \<and>
      lv_owner e = lr_owner r \<and> lv_type e = ''registered'' \<and> lv_from e = None \<and>
      lv_to e = Registered \<and> lv_version e = 1)"

definition resolve_capture_authority ::
  "string \<Rightarrow> scope \<Rightarrow> legacy_db \<Rightarrow> exn + string \<times> scope \<times> string" where
  "resolve_capture_authority i s db =
     bindE (except (\<lambda>e. e \<in> {TypeError, ValueError}) SessionNotFoundError (validate_scope s)) (\<lambda>_.
     case find (\<lambda>r. session_matches i s None r \<and> list_ex (registration_of r) (lg_events db))
       (lg_sessions db) of
       None \<Rightarrow> Inl SessionNotFoundError
     | Some r \<Rightarrow>
         except (\<lambda>e. e \<in> {KeyError, TypeError, ValueError}) SessionNotFoundError
           (bindE (require (lr_session_id r = i \<and> lr_contract r = record_contract_version) ValueError)
             (\<lambda>_.
            bindE (make_scope (lr_tenant r) (lr_workspace r)) (\<lambda>stored.
            bindE (require (stored = s) ValueError) (\<lambda>_.
            bindE (make_authority stored (lr_owner r)) (\<lambda>authority.
            Inr (i, authority)))))))"

definition mark_uploaded ::
  "(string \<Rightarrow> 'r option) \<Rightarrow> (string \<Rightarrow> string) \<Rightarrow> string \<Rightarrow> string \<Rightarrow> scope \<Rightarrow> string \<Rightarrow> int option \<Rightarrow>
   string option \<Rightarrow> string \<Rightarrow> string option \<Rightarrow> datetime \<Rightarrow> string \<Rightarrow> legacy_db \<Rightarrow>
   exn + ('r session_record \<times> bool) \<times> legacy_db" where
  "mark_uploaded load sha i object_key s owner expected actor role request_digest now eid db =
     bindE (validate_scope s) (\<lambda>_.
     bindE (require_legacy_text 512 owner) (\<lambda>_.
     bindE (require_legacy_text 1024 object_key) (\<lambda>_.
     bindE (require_optional_version expected) (\<lambda>_.
     let actor = (case actor of None \<Rightarrow> owner | Some a \<Rightarrow> a) in
     bindE (require_legacy_text 512 actor) (\<lambda>_.
     bindE (require_legacy_text 512 role) (\<lambda>_.
     bindE (require (role = role_value CaptureUploader) ValueError) (\<lambda>_.
     let digest = given_or request_digest (sha object_key) in
     bindE (require_legacy_sha256 digest) (\<lambda>_.
     case select_legacy i s (Some owner) db of
       None \<Rightarrow> Inl SessionNotFoundError
     | Some r \<Rightarrow>
         bindE (require (\<not> (lr_raw_key r \<noteq> None \<and> lr_raw_key r \<noteq> Some object_key)) SessionConflictError)
           (\<lambda>_.
         if lr_status r = Uploaded then
           bindE (session_from_row load r) (\<lambda>v. Inr ((v, True), db))
         else
           bindE (require (\<not> (expected \<noteq> None \<and> expected \<noteq> Some (int (lr_version r)))) SessionConflictError)
             (\<lambda>_.
           if lr_status r \<noteq> Registered then bindE (session_from_row load r) (\<lambda>v. Inr ((v, False), db))
           else
             bindE (require_utc now) (\<lambda>now.
             bindE (legacy_micros now) (\<lambda>now_us.
             bindE (update_sessions
               (\<lambda>x. session_matches i s (Some owner) x \<and> lr_version x = lr_version r)
               (\<lambda>x. x\<lparr>lr_status := Uploaded, lr_raw_key := Some object_key,
                 lr_version := lr_version r + 1, lr_updated_at := now_us\<rparr>) db) (\<lambda>db.
             bindE (append_session_event eid i s owner ''uploaded'' (Some Registered) Uploaded
               (lr_version r + 1) actor role None digest (JObj [(''object_key'', JStr object_key)])
               now_us db) (\<lambda>db.
             bindE (stored_session load i s (Some owner) db) (\<lambda>v.
             Inr ((v, True), db))))))))))))))))"

definition complete_processing ::
  "(string \<Rightarrow> 'r option) \<Rightarrow> ('r \<Rightarrow> string) \<Rightarrow> string \<Rightarrow> 'r completion_request \<Rightarrow> scope \<Rightarrow> int option \<Rightarrow>
   string \<Rightarrow> string \<Rightarrow> string option \<Rightarrow> datetime \<Rightarrow> string \<Rightarrow> legacy_db \<Rightarrow>
   exn + 'r session_record \<times> legacy_db" where
  "complete_processing load dump i c s expected actor role request_digest now eid db =
     bindE (validate_scope s) (\<lambda>_.
     bindE (require (pc_session_id c = i) ValueError) (\<lambda>_.
     bindE (require_optional_version expected) (\<lambda>_.
     bindE (require_legacy_text 512 actor) (\<lambda>_.
     bindE (require_legacy_text 512 role) (\<lambda>_.
     bindE (require (role = role_value DeterministicWorker) ValueError) (\<lambda>_.
     let digest = given_or request_digest (pc_idempotency_key c) in
     bindE (require_legacy_sha256 digest) (\<lambda>_.
     let output = dump (pc_result c);
         prefix = prefix_of_key (pc_output_object_key c) in
     case select_legacy i s None db of
       None \<Rightarrow> Inl SessionNotFoundError
     | Some r \<Rightarrow>
         bindE (session_from_row load r) (\<lambda>v.
         if lr_completion_id r \<noteq> None then
           (if lr_completion_id r = Some (pc_idempotency_key c) \<and> lr_output_json r = Some output \<and>
               lr_prefix r = Some prefix
            then Inr (v, db) else Inl SessionConflictError)
         else
           bindE (require (\<not> (expected \<noteq> None \<and> expected \<noteq> Some (int (lr_version r)))) SessionConflictError)
             (\<lambda>_.
           bindE (require (lr_status r \<in> {Uploaded, Processing}) SessionConflictError) (\<lambda>_.
           bindE (require_utc now) (\<lambda>now.
           bindE (legacy_micros now) (\<lambda>now_us.
           bindE (update_sessions
             (\<lambda>x. session_matches i s None x \<and> lr_version x = lr_version r)
             (\<lambda>x. x\<lparr>lr_status := Processed, lr_review := Pending, lr_prefix := Some prefix,
               lr_output_json := Some output, lr_completion_id := Some (pc_idempotency_key c),
               lr_completed_at := Some now_us, lr_version := lr_version r + 1,
               lr_updated_at := now_us\<rparr>) db) (\<lambda>db.
           bindE (append_session_event eid i s (lr_owner r) ''processing_completed''
             (Some (lr_status r)) Processed (lr_version r + 1) actor role
             (Some (pc_idempotency_key c)) digest
             (JObj [(''output_object_key'', JStr (pc_output_object_key c))]) now_us db) (\<lambda>db.
           bindE (stored_session load i s None db) (\<lambda>v.
           Inr (v, db))))))))))))))))"

definition get_timeline ::
  "(string \<Rightarrow> 'r option) \<Rightarrow> string \<Rightarrow> scope \<Rightarrow> legacy_db \<Rightarrow> exn + 'r" where
  "get_timeline load i s db =
     bindE (get_session load i s None db) (\<lambda>v.
     case sr_output v of None \<Rightarrow> Inl SessionNotFoundError | Some r \<Rightarrow> Inr r)"

record session_event =
  lx_sequence :: nat
  lx_event_id :: string
  lx_session_id :: string
  lx_scope :: scope
  lx_owner :: string
  lx_type :: string
  lx_from :: "processing_status option"
  lx_to :: processing_status
  lx_version :: nat
  lx_actor :: string
  lx_role :: string
  lx_key :: "string option"
  lx_digest :: string
  lx_detail :: "(string \<times> json) list"
  lx_occurred_at :: datetime

definition session_event_from_row :: "session_event_row \<Rightarrow> exn + session_event" where
  "session_event_from_row e =
     bindE (loads (lv_detail_json e)) (\<lambda>detail.
     case detail of
       JObj d \<Rightarrow>
         bindE (make_scope (lv_tenant e) (lv_workspace e)) (\<lambda>s.
         bindE (legacy_from_micros (lv_occurred_at e)) (\<lambda>time.
         Inr \<lparr>lx_sequence = lv_sequence e, lx_event_id = lv_event_id e,
           lx_session_id = lv_session_id e, lx_scope = s, lx_owner = lv_owner e, lx_type = lv_type e,
           lx_from = lv_from e, lx_to = lv_to e, lx_version = lv_version e, lx_actor = lv_actor e,
           lx_role = lv_role e, lx_key = lv_key e, lx_digest = lv_digest e, lx_detail = d,
           lx_occurred_at = time\<rparr>))
     | _ \<Rightarrow> Inl TypeError)"

definition event_matches :: "string \<Rightarrow> scope \<Rightarrow> string option \<Rightarrow> session_event_row \<Rightarrow> bool" where
  "event_matches i s owner e =
     (lv_session_id e = i \<and> lv_tenant e = tenant_id s \<and> lv_workspace e = workspace_id s \<and>
      (case owner of None \<Rightarrow> True | Some w \<Rightarrow> lv_owner e = w))"

definition list_session_events ::
  "(string \<Rightarrow> 'r option) \<Rightarrow> string \<Rightarrow> scope \<Rightarrow> string option \<Rightarrow> int \<Rightarrow> legacy_db \<Rightarrow>
   exn + session_event list" where
  "list_session_events load i s owner limit db =
     bindE (validate_scope s) (\<lambda>_.
     bindE (require_limit limit) (\<lambda>_.
     bindE (optionally (require_legacy_text 512) owner) (\<lambda>_.
     let rows = take (nat limit) (filter (event_matches i s owner) (lg_events db)) in
     bindE (if rows = [] then bindE (get_session load i s owner db) (\<lambda>_. Inr ()) else Inr ()) (\<lambda>_.
     mapE session_event_from_row rows))))"

end
