(* ===== verification/Workload_Proofs.thy ===== *)
theory Workload_Proofs
  imports Legacy_Sessions
begin

text \<open>
  Workload principals and their proofs, the second half of \<open>legacy_session_store.py\<close>: a principal is
  registered with a generation that can only be raised, revocation is final, and a proof is claimed
  at most once, under the stored state of its principal.
\<close>

section \<open>The code\<close>

record principal_state =
  ps_subject :: string
  ps_scope :: scope
  ps_audience :: legacy_audience
  ps_role :: control_role
  ps_transport :: legacy_transport
  ps_generation :: int
  ps_revoked_at :: "datetime option"
  ps_version :: int
  ps_created_at :: datetime
  ps_updated_at :: datetime

definition principal_from_row :: "principal_row \<Rightarrow> exn + principal_state" where
  "principal_from_row r =
     bindE (make_scope (lp_tenant r) (lp_workspace r)) (\<lambda>s.
     bindE (optional_from_micros (lp_revoked_at r)) (\<lambda>revoked.
     bindE (legacy_from_micros (lp_created_at r)) (\<lambda>created.
     bindE (legacy_from_micros (lp_updated_at r)) (\<lambda>updated.
     Inr \<lparr>ps_subject = lp_subject r, ps_scope = s, ps_audience = lp_audience r,
       ps_role = lp_role r, ps_transport = lp_transport r, ps_generation = lp_generation r,
       ps_revoked_at = revoked, ps_version = lp_version r, ps_created_at = created,
       ps_updated_at = updated\<rparr>))))"

fun expected_role :: "legacy_audience \<Rightarrow> legacy_transport \<Rightarrow> exn + control_role" where
  "expected_role CaptureUpload CaptureWorkload = Inr CaptureUploader"
| "expected_role ProcessingCompletion WorkerWorkload = Inr DeterministicWorker"
| "expected_role _ _ = Inl ValueError"

definition validate_principal_fields ::
  "string \<Rightarrow> scope \<Rightarrow> legacy_audience \<Rightarrow> control_role \<Rightarrow> legacy_transport \<Rightarrow> int \<Rightarrow> exn + unit" where
  "validate_principal_fields subj s audience role transport generation =
     bindE (require_legacy_text 512 subj) (\<lambda>_.
     bindE (validate_scope s) (\<lambda>_.
     bindE (make_principal subj {role} (Some s)) (\<lambda>_.
     bindE (expected_role audience transport) (\<lambda>expected.
     bindE (require (role = expected) ValueError) (\<lambda>_.
     require_legacy_generation generation)))))"

definition principal_matches :: "string \<Rightarrow> scope \<Rightarrow> legacy_audience \<Rightarrow> principal_row \<Rightarrow> bool" where
  "principal_matches subj s audience r =
     (lp_subject r = subj \<and> lp_tenant r = tenant_id s \<and> lp_workspace r = workspace_id s \<and>
      lp_audience r = audience)"

definition select_principal ::
  "string \<Rightarrow> scope \<Rightarrow> legacy_audience \<Rightarrow> legacy_db \<Rightarrow> principal_row option" where
  "select_principal subj s audience db = find (principal_matches subj s audience) (lg_principals db)"

definition stored_principal ::
  "string \<Rightarrow> scope \<Rightarrow> legacy_audience \<Rightarrow> legacy_db \<Rightarrow> exn + principal_state" where
  "stored_principal subj s audience db =
     (case select_principal subj s audience db of
        None \<Rightarrow> Inl AssertionError
      | Some r \<Rightarrow> principal_from_row r)"

definition same_principal_row :: "principal_row \<Rightarrow> principal_row \<Rightarrow> bool" where
  "same_principal_row r x =
     (lp_subject r = lp_subject x \<and> lp_tenant r = lp_tenant x \<and> lp_workspace r = lp_workspace x \<and>
      lp_audience r = lp_audience x)"

text \<open>\<open>now\<close> is the argument of that name, or a reading of the clock; both must be exact UTC.\<close>

definition register_workload_principal ::
  "string \<Rightarrow> scope \<Rightarrow> legacy_audience \<Rightarrow> control_role \<Rightarrow> legacy_transport \<Rightarrow> int \<Rightarrow> datetime \<Rightarrow>
   legacy_db \<Rightarrow> exn + principal_state \<times> legacy_db" where
  "register_workload_principal subj s audience role transport generation now db =
     bindE (validate_principal_fields subj s audience role transport generation) (\<lambda>_.
     bindE (require_utc now) (\<lambda>now.
     bindE (legacy_micros now) (\<lambda>us.
     except (\<lambda>e. e = IntegrityError) LegacyWorkloadPrincipalConflictError
       (bindE (insert_row same_principal_row
         \<lparr>lp_subject = subj, lp_tenant = tenant_id s, lp_workspace = workspace_id s,
          lp_audience = audience, lp_role = role, lp_transport = transport,
          lp_generation = generation, lp_revoked_at = None, lp_version = 1, lp_created_at = us,
          lp_updated_at = us\<rparr> (lg_principals db)) (\<lambda>t.
        let db = db\<lparr>lg_principals := t\<rparr> in
        bindE (stored_principal subj s audience db) (\<lambda>v. Inr (v, db)))))))"

definition get_workload_principal ::
  "string \<Rightarrow> scope \<Rightarrow> legacy_audience \<Rightarrow> legacy_db \<Rightarrow> exn + principal_state" where
  "get_workload_principal subj s audience db =
     bindE (require_legacy_text 512 subj) (\<lambda>_.
     bindE (validate_scope s) (\<lambda>_.
     case select_principal subj s audience db of
       None \<Rightarrow> Inl LegacyWorkloadPrincipalNotFoundError
     | Some r \<Rightarrow> principal_from_row r))"

text \<open>The guarded update of both mutations and the rereading of the row.\<close>

definition update_principal ::
  "string \<Rightarrow> scope \<Rightarrow> legacy_audience \<Rightarrow> int \<Rightarrow> (principal_row \<Rightarrow> principal_row) \<Rightarrow> legacy_db \<Rightarrow>
   exn + principal_state \<times> legacy_db" where
  "update_principal subj s audience expected f db =
     (let P = (\<lambda>r. principal_matches subj s audience r \<and> lp_version r = expected \<and>
            lp_revoked_at r = None);
          db' = db\<lparr>lg_principals := update_where P f (lg_principals db)\<rparr> in
      bindE (require (count_where P (lg_principals db) = 1) LegacyWorkloadPrincipalConflictError) (\<lambda>_.
      bindE (stored_principal subj s audience db') (\<lambda>v. Inr (v, db'))))"

definition rotate_generation ::
  "string \<Rightarrow> scope \<Rightarrow> legacy_audience \<Rightarrow> int \<Rightarrow> int \<Rightarrow> datetime \<Rightarrow> legacy_db \<Rightarrow>
   exn + principal_state \<times> legacy_db" where
  "rotate_generation subj s audience expected generation now db =
     bindE (require_optional_version (Some expected)) (\<lambda>_.
     bindE (require_legacy_generation generation) (\<lambda>_.
     bindE (require_utc now) (\<lambda>now.
     bindE (legacy_micros now) (\<lambda>us.
     case select_principal subj s audience db of
       None \<Rightarrow> Inl LegacyWorkloadPrincipalNotFoundError
     | Some r \<Rightarrow>
         bindE (require (\<not> (lp_version r \<noteq> expected \<or> lp_revoked_at r \<noteq> None))
           LegacyWorkloadPrincipalConflictError) (\<lambda>_.
         bindE (require (\<not> generation \<le> lp_generation r) LegacyWorkloadPrincipalConflictError) (\<lambda>_.
         update_principal subj s audience expected
           (\<lambda>r. r\<lparr>lp_generation := generation, lp_version := expected + 1, lp_updated_at := us\<rparr>)
           db))))))"

definition revoke_workload_principal ::
  "string \<Rightarrow> scope \<Rightarrow> legacy_audience \<Rightarrow> int \<Rightarrow> datetime \<Rightarrow> legacy_db \<Rightarrow>
   exn + principal_state \<times> legacy_db" where
  "revoke_workload_principal subj s audience expected now db =
     bindE (require_optional_version (Some expected)) (\<lambda>_.
     bindE (require_utc now) (\<lambda>now.
     bindE (legacy_micros now) (\<lambda>us.
     case select_principal subj s audience db of
       None \<Rightarrow> Inl LegacyWorkloadPrincipalNotFoundError
     | Some r \<Rightarrow>
         bindE (require (\<not> (lp_version r \<noteq> expected \<or> lp_revoked_at r \<noteq> None))
           LegacyWorkloadPrincipalConflictError) (\<lambda>_.
         update_principal subj s audience expected
           (\<lambda>r. r\<lparr>lp_revoked_at := Some us, lp_version := expected + 1, lp_updated_at := us\<rparr>)
           db))))"

definition same_claim_row :: "claim_row \<Rightarrow> claim_row \<Rightarrow> bool" where
  "same_claim_row r x = (lc_proof r = lc_proof x)"

definition insert_claim :: "claim_row \<Rightarrow> legacy_db \<Rightarrow> exn + legacy_db" where
  "insert_claim c db =
     bindE (require (list_ex (\<lambda>r. lp_subject r = lc_subject c \<and> lp_tenant r = lc_tenant c \<and>
       lp_workspace r = lc_workspace c \<and> lp_audience r = lc_audience c) (lg_principals db))
       IntegrityError) (\<lambda>_.
     bindE (insert_row same_claim_row c (lg_claims db)) (\<lambda>t. Inr (db\<lparr>lg_claims := t\<rparr>)))"

definition min_claim_retention :: int where
  "min_claim_retention = seconds 60"

definition claim_workload_proof ::
  "(string \<Rightarrow> string) \<Rightarrow> workload_context \<Rightarrow> string \<Rightarrow> string \<Rightarrow> string \<Rightarrow> control_action \<Rightarrow>
   legacy_audience \<Rightarrow> legacy_transport \<Rightarrow> datetime \<Rightarrow> legacy_db \<Rightarrow> exn + principal \<times> legacy_db" where
  "claim_workload_proof sha c http_method path body action audience transport now db =
     except (\<lambda>_. True) LegacySessionSecurityRejectedError
       (bindE (require_utc now) (\<lambda>now.
        bindE (validate_workload_shape c) (\<lambda>_.
        bindE (validate_canonical_request http_method path ''POST'') (\<lambda>_.
        bindE (require (wc_method c = http_method \<and> wc_path c = path) ValueError) (\<lambda>_.
        bindE (require (wc_body_sha256 c = sha body) ValueError) (\<lambda>_.
        bindE (require (wc_audience c = audience \<and> wc_transport c = transport) ValueError) (\<lambda>_.
        bindE (expected_role audience transport) (\<lambda>role.
        let p = wc_principal c in
        case principal_scope p of
          None \<Rightarrow> Inl ValueError
        | Some s \<Rightarrow>
            bindE (require (roles p = {role}) ValueError) (\<lambda>_.
            bindE (require_action p action) (\<lambda>_.
            bindE (check_proof_window c now) (\<lambda>_.
            bindE (legacy_micros now) (\<lambda>claimed_us.
            bindE (plus_us (wc_expires_at c) min_claim_retention) (\<lambda>retain.
            bindE (legacy_micros retain) (\<lambda>retain_us.
            bindE (case select_principal (subject p) s audience db of
                None \<Rightarrow> Inl ValueError
              | Some r \<Rightarrow> require (\<not> (lp_role r \<noteq> role \<or> lp_transport r \<noteq> transport \<or>
                  lp_revoked_at r \<noteq> None \<or> lp_generation r \<noteq> wc_generation c)) ValueError) (\<lambda>_.
            bindE (legacy_micros (wc_issued_at c)) (\<lambda>issued_us.
            bindE (legacy_micros (wc_expires_at c)) (\<lambda>expires_us.
            bindE (insert_claim \<lparr>lc_proof = wc_proof_digest c, lc_subject = subject p,
              lc_tenant = tenant_id s, lc_workspace = workspace_id s, lc_audience = audience,
              lc_role = role, lc_transport = transport, lc_generation = wc_generation c,
              lc_method = http_method, lc_path = path, lc_body_sha256 = wc_body_sha256 c,
              lc_issued_at = issued_us, lc_expires_at = expires_us, lc_claimed_at = claimed_us,
              lc_retain_until = retain_us\<rparr> db) (\<lambda>db.
            Inr (p, db)))))))))))))))))))"

end
