(* ===== verification/Legacy_Ledger.thy ===== *)
theory Legacy_Ledger
  imports Workload_Proofs
begin

text \<open>
  The life of a legacy session. Each call changes at most one session, by one transition of a state
  machine: registration, upload, completion, each with its event. From the transitions follow the
  shape of every history, and that what is recorded once is never changed.
\<close>

section \<open>The state machine of one session\<close>

type_synonym session_view = "session_row option \<times> session_event_row list"

definition session_view :: "string \<Rightarrow> legacy_db \<Rightarrow> session_view" where
  "session_view i db =
     (find (\<lambda>r. lr_session_id r = i) (lg_sessions db), filter (\<lambda>e. lv_session_id e = i) (lg_events db))"

definition event_of_row :: "session_row \<Rightarrow> session_event_row \<Rightarrow> bool" where
  "event_of_row r e =
     (lv_session_id e = lr_session_id r \<and> lv_tenant e = lr_tenant r \<and> lv_workspace e = lr_workspace r \<and>
      lv_owner e = lr_owner r)"

definition fresh_session :: "session_row \<Rightarrow> bool" where
  "fresh_session r =
     (lr_status r = Registered \<and> lr_review r = NotReady \<and> lr_raw_key r = None \<and> lr_prefix r = None \<and>
      lr_output_json r = None \<and> lr_completion_id r = None \<and> lr_completed_at r = None \<and>
      lr_version r = 1 \<and> lr_contract r = record_contract_version)"

definition signature :: "session_event_row \<Rightarrow> string \<times> processing_status option \<times> processing_status \<times> nat" where
  "signature e = (lv_type e, lv_from e, lv_to e, lv_version e)"

inductive session_transition :: "session_view \<Rightarrow> session_view \<Rightarrow> bool" where
  registers: "session_transition (None, es) (Some r, es @ [e])"
    if "fresh_session r" and "event_of_row r e" and "signature e = (''registered'', None, Registered, 1)"
| uploads: "session_transition (Some r, es) (Some (r\<lparr>lr_status := Uploaded, lr_raw_key := Some k,
      lr_version := lr_version r + 1, lr_updated_at := us\<rparr>), es @ [e])"
    if "lr_status r = Registered" and "lr_raw_key r \<in> {None, Some k}" and "event_of_row r e"
      and "signature e = (''uploaded'', Some Registered, Uploaded, lr_version r + 1)"
| completes: "session_transition (Some r, es) (Some (r\<lparr>lr_status := Processed, lr_review := Pending,
      lr_prefix := Some p, lr_output_json := Some j, lr_completion_id := Some c,
      lr_completed_at := Some us, lr_version := lr_version r + 1, lr_updated_at := us\<rparr>), es @ [e])"
    if "lr_status r \<in> {Uploaded, Processing}" and "lr_completion_id r = None" and "event_of_row r e"
      and "signature e = (''processing_completed'', Some (lr_status r), Processed, lr_version r + 1)"

definition session_keys_distinct :: "legacy_db \<Rightarrow> bool" where
  "session_keys_distinct db = distinct (map lr_session_id (lg_sessions db))"

inductive session_effect :: "legacy_db \<Rightarrow> legacy_db \<Rightarrow> bool" where
  session_idle: "session_effect db db"
| session_moves: "session_effect db db'"
    if "session_transition (session_view i db) (session_view i db')"
      and "\<And>j. j \<noteq> i \<Longrightarrow> session_view j db' = session_view j db"
      and "session_keys_distinct db'"

section \<open>The operations\<close>

lemma append_session_event_Inr:
  assumes "append_session_event eid i s owner ty from to version actor role key digest detail us db = Inr db'"
  shows "\<exists>e. db' = db\<lparr>lg_events := lg_events db @ [e]\<rparr> \<and> lv_session_id e = i \<and> lv_tenant e = tenant_id s \<and>
    lv_workspace e = workspace_id s \<and> lv_owner e = owner \<and> signature e = (ty, from, to, version) \<and>
    lv_key e = key \<and> lv_digest e = digest \<and> lv_detail_json e = canonical_json detail"
  using assms by (auto simp: append_session_event_def bindE_Inr insert_row_Inr signature_def)

lemma update_sessions_Inr [flow]:
  "update_sessions P f db = Inr db' \<longleftrightarrow>
     pairwise (\<lambda>r x. \<not> same_session_row r x) (update_where P f (lg_sessions db)) \<and>
     count_where P (lg_sessions db) = 1 \<and> db' = db\<lparr>lg_sessions := update_where P f (lg_sessions db)\<rparr>"
  by (auto simp: update_sessions_def Let_def)

lemma select_legacyD:
  "select_legacy i s owner db = Some r \<Longrightarrow> r \<in> set (lg_sessions db) \<and> session_matches i s owner r"
  by (auto simp: select_legacy_def dest: find_SomeD)

lemma find_session_of:
  assumes "session_keys_distinct db" and "r \<in> set (lg_sessions db)" and "lr_session_id r = i"
  shows "find (\<lambda>r. lr_session_id r = i) (lg_sessions db) = Some r"
  using assms by (auto simp: session_keys_distinct_def intro: find_key_unique)

lemma find_only: "r \<in> set t \<Longrightarrow> P r \<Longrightarrow> (\<And>x. x \<in> set t \<Longrightarrow> P x \<Longrightarrow> x = r) \<Longrightarrow> find P t = Some r"
proof (induction t)
  case (Cons a t)
  show ?case
  proof (cases "P a")
    case True
    with Cons.prems(3) have "a = r" by simp
    with True show ?thesis by simp
  next
    case False
    then have "r \<in> set t" using Cons.prems(1,2) by auto
    then have "find P t = Some r"
      using Cons.IH Cons.prems(2,3) by (metis list.set_intros(2))
    with False show ?thesis by simp
  qed
qed simp

lemma select_unique:
  assumes "session_keys_distinct db" and "r \<in> set (lg_sessions db)" and "session_matches i s owner r"
  shows "select_legacy i s owner db = Some r"
  unfolding select_legacy_def using assms(2,3)
proof (rule find_only)
  show "x = r" if "x \<in> set (lg_sessions db)" "session_matches i s owner x" for x
    using key_inj [OF assms(1) [unfolded session_keys_distinct_def] that(1) assms(2)] that(2) assms(3)
    by (simp add: session_matches_def)
qed

lemma matches_id: "session_matches i s owner r \<Longrightarrow> lr_session_id r = i"
  by (simp add: session_matches_def)

text \<open>Registration.\<close>

lemma create_body_Inr:
  assumes "create_body load v s owner actor role digest eid now_us expires_us db = Inr (x, db')"
  shows "\<exists>started ended e. db' = db\<lparr>lg_sessions := lg_sessions db @
        [new_session_row v s owner started ended expires_us now_us], lg_events := lg_events db @ [e]\<rparr> \<and>
     legacy_micros (sn_started_at v) = Inr started \<and> legacy_micros (sn_ended_at v) = Inr ended \<and>
     (\<forall>y \<in> set (lg_sessions db). lr_session_id y \<noteq> sn_session_id v) \<and>
     event_of_row (new_session_row v s owner started ended expires_us now_us) e \<and>
     signature e = (''registered'', None, Registered, 1) \<and>
     session_from_row load (new_session_row v s owner started ended expires_us now_us) = Inr x"
proof -
  from assms obtain started ended db1 where
    t: "legacy_micros (sn_started_at v) = Inr started" "legacy_micros (sn_ended_at v) = Inr ended"
    and fresh: "\<forall>x \<in> set (lg_sessions db).
        \<not> same_session_row (new_session_row v s owner started ended expires_us now_us) x"
    and ev: "append_session_event eid (sn_session_id v) s owner ''registered'' None Registered 1 actor role
      None digest (JObj []) now_us (db\<lparr>lg_sessions := lg_sessions db @
        [new_session_row v s owner started ended expires_us now_us]\<rparr>) = Inr db1"
    and x: "stored_session load (sn_session_id v) s (Some owner) db1 = Inr x" and "db' = db1"
    unfolding create_body_def by (elim bindE_InrE) (auto simp: insert_row_Inr)
  from append_session_event_Inr [OF ev] obtain e where
    e: "event_of_row (new_session_row v s owner started ended expires_us now_us) e"
      "signature e = (''registered'', None, Registered, 1)"
    and db': "db' = db\<lparr>lg_sessions := lg_sessions db @
        [new_session_row v s owner started ended expires_us now_us], lg_events := lg_events db @ [e]\<rparr>"
    by (auto simp: \<open>db' = db1\<close> event_of_row_def new_session_row_def)
  note x = x [folded \<open>db' = db1\<close>]
  from fresh have notin: "(\<forall>y \<in> set (lg_sessions db). lr_session_id y \<noteq> sn_session_id v)"
    by (auto simp: same_session_row_def new_session_row_def)
  have "select_legacy (sn_session_id v) s (Some owner) db' =
      Some (new_session_row v s owner started ended expires_us now_us)"
    unfolding select_legacy_def
  proof (rule find_only)
    show "y = new_session_row v s owner started ended expires_us now_us"
      if "y \<in> set (lg_sessions db')" "session_matches (sn_session_id v) s (Some owner) y" for y
      using that notin by (auto simp: db' session_matches_def)
  qed (simp_all add: db' session_matches_def new_session_row_def same_scope_def)
  with x have "session_from_row load (new_session_row v s owner started ended expires_us now_us) = Inr x"
    by (simp add: stored_session_def)
  with t e db' notin show ?thesis by blast
qed

lemma session_view_append:
  "session_view j (db\<lparr>lg_sessions := lg_sessions db @ [r], lg_events := lg_events db @ [e]\<rparr>) =
     (case session_view j db of (x, es) \<Rightarrow>
       (case x of None \<Rightarrow> if lr_session_id r = j then Some r else None | Some _ \<Rightarrow> x,
        if lv_session_id e = j then es @ [e] else es))"
  by (auto simp: session_view_def find_append split: option.splits)

lemma create_session_Inr:
  assumes "create_session load digest_of v days s owner actor role rd now eid db = Inr (x, db')"
  shows "\<exists>digest a now_us expires. create_body load v s owner a role digest eid now_us expires db = Inr (x, db') \<and>
    validate_scope s = Inr () \<and> require_legacy_text 512 owner = Inr ()"
  using assms unfolding create_session_def Let_def
  by (elim bindE_InrE) (auto split: sum.splits if_splits)

lemma create_session_effect:
  assumes "create_session load digest_of v days s owner actor role rd now eid db = Inr (x, db')"
    and "session_keys_distinct db"
  shows "session_effect db db'"
proof -
  obtain digest a now_us expires where
    "create_body load v s owner a role digest eid now_us expires db = Inr (x, db')"
    using create_session_Inr [OF assms(1)] by blast
  then obtain r e where db': "db' = db\<lparr>lg_sessions := lg_sessions db @ [r], lg_events := lg_events db @ [e]\<rparr>"
    and r: "lr_session_id r = sn_session_id v" "fresh_session r" "event_of_row r e"
      "signature e = (''registered'', None, Registered, 1)"
    and notin: "(\<forall>y \<in> set (lg_sessions db). lr_session_id y \<noteq> sn_session_id v)"
    by (auto dest!: create_body_Inr simp: new_session_row_def fresh_session_def)
  let ?i = "sn_session_id v"
  have none: "find (\<lambda>r. lr_session_id r = ?i) (lg_sessions db) = None"
    using notin by (fastforce simp: find_None_iff)
  have ev: "lv_session_id e = ?i" using r by (simp add: event_of_row_def)
  show ?thesis
  proof (rule session_moves)
    show "session_transition (session_view ?i db) (session_view ?i db')"
      using registers [OF r(2-4)] r(1) ev none by (simp add: db' session_view_append) (simp add: session_view_def)
    show "session_view j db' = session_view j db" if "j \<noteq> ?i" for j
      using that r(1) ev by (auto simp: db' session_view_append split: prod.splits option.splits)
    show "session_keys_distinct db'"
      using assms(2) notin r(1) by (auto simp: session_keys_distinct_def db')
  qed
qed

text \<open>An update of the selected row.\<close>

lemma update_selected:
  assumes "session_keys_distinct db" and "select_legacy i s owner db = Some r"
    and "\<And>x. lr_session_id (f x) = lr_session_id x"
    and "P = (\<lambda>x. session_matches i s owner x \<and> lr_version x = lr_version r)"
  shows "find (\<lambda>x. lr_session_id x = j) (update_where P f (lg_sessions db)) =
      (if j = i then Some (f r) else find (\<lambda>x. lr_session_id x = j) (lg_sessions db))"
    and "map lr_session_id (update_where P f (lg_sessions db)) = map lr_session_id (lg_sessions db)"
    and "select_legacy i s owner (db\<lparr>lg_sessions := update_where P f (lg_sessions db)\<rparr>) =
      (if session_matches i s owner (f r) then Some (f r) else None)"
proof -
  note r = select_legacyD [OF assms(2)]
  have P: "P x \<longleftrightarrow> x = r" if "x \<in> set (lg_sessions db)" for x
    using that r assms(1) by (auto simp: assms(4) session_keys_distinct_def session_matches_def dest: key_inj)
  have ids: "lr_session_id r = i" using r by (blast dest: matches_id)
  show keys: "map lr_session_id (update_where P f (lg_sessions db)) = map lr_session_id (lg_sessions db)"
    by (simp add: update_where_def assms(3))
  have d: "distinct (map lr_session_id (update_where P f (lg_sessions db)))"
    using assms(1) by (simp add: keys session_keys_distinct_def)
  have fr: "f r \<in> set (update_where P f (lg_sessions db))"
    using r P by (auto simp: set_update_where)
  show "find (\<lambda>x. lr_session_id x = j) (update_where P f (lg_sessions db)) =
      (if j = i then Some (f r) else find (\<lambda>x. lr_session_id x = j) (lg_sessions db))"
  proof (cases "j = i")
    case True
    with find_key_unique [OF d fr] ids assms(3) show ?thesis by simp
  next
    case False
    have "find (\<lambda>x. lr_session_id x = j) (update_where P f t) = find (\<lambda>x. lr_session_id x = j) t" for t
      using False by (induction t) (auto simp: assms(3,4) session_matches_def)
    with False show ?thesis by simp
  qed
  have other: "x = f r" if "x \<in> set (update_where P f (lg_sessions db))" "session_matches i s owner x" for x
    using key_inj [OF d that(1) fr] that(2) ids assms(3) by (simp add: session_matches_def)
  show "select_legacy i s owner (db\<lparr>lg_sessions := update_where P f (lg_sessions db)\<rparr>) =
      (if session_matches i s owner (f r) then Some (f r) else None)"
    using find_only [OF fr] other by (auto simp: select_legacy_def find_None_iff)
qed

lemma update_effect:
  assumes "session_keys_distinct db" and "select_legacy i s owner db = Some r"
    and "\<And>x. lr_session_id (f x) = lr_session_id x" and "lv_session_id e = i"
    and "P = (\<lambda>x. session_matches i s owner x \<and> lr_version x = lr_version r)"
    and "\<And>es. session_transition (Some r, es) (Some (f r), es @ [e])"
  shows "session_effect db (db\<lparr>lg_sessions := update_where P f (lg_sessions db), lg_events := lg_events db @ [e]\<rparr>)"
    (is "session_effect db ?db'")
proof (rule session_moves)
  note u = update_selected [OF assms(1-3,5)]
  have "find (\<lambda>r. lr_session_id r = i) (lg_sessions db) = Some r"
    using find_session_of [OF assms(1)] select_legacyD [OF assms(2)] by (blast dest: matches_id)
  then show "session_transition (session_view i db) (session_view i ?db')"
    using assms(6) by (simp add: session_view_def u assms(4))
  show "session_view j ?db' = session_view j db" if "j \<noteq> i" for j
    using that by (simp add: session_view_def u assms(4))
  show "session_keys_distinct ?db'"
    using assms(1) by (simp add: session_keys_distinct_def u)
qed

text \<open>Upload and completion.\<close>

definition uploaded_row :: "string \<Rightarrow> int \<Rightarrow> session_row \<Rightarrow> session_row" where
  "uploaded_row key us r = r\<lparr>lr_status := Uploaded, lr_raw_key := Some key,
     lr_version := lr_version r + 1, lr_updated_at := us\<rparr>"

definition completed_row :: "string \<Rightarrow> string \<Rightarrow> string \<Rightarrow> int \<Rightarrow> session_row \<Rightarrow> session_row" where
  "completed_row pre out key us r = r\<lparr>lr_status := Processed, lr_review := Pending,
     lr_prefix := Some pre, lr_output_json := Some out, lr_completion_id := Some key,
     lr_completed_at := Some us, lr_version := lr_version r + 1, lr_updated_at := us\<rparr>"

lemma row_matches [simp]:
  "session_matches i s owner (uploaded_row k us r) = session_matches i s owner r"
  "session_matches i s owner (completed_row p j c us r) = session_matches i s owner r"
  "lr_session_id (uploaded_row k us r) = lr_session_id r"
  "lr_session_id (completed_row p j c us r) = lr_session_id r"
  by (auto simp: session_matches_def same_scope_def uploaded_row_def completed_row_def
      split: option.splits)

lemma update_where_cong: "(\<And>r. r \<in> set t \<Longrightarrow> P r \<Longrightarrow> f r = g r) \<Longrightarrow> update_where P f t = update_where P g t"
  by (auto simp: update_where_def)

lemma mark_uploaded_Inr:
  assumes "mark_uploaded load sha i k s owner expected actor role rd now eid db = Inr ((v, b), db')"
    and "session_keys_distinct db"
  shows "\<exists>r. select_legacy i s (Some owner) db = Some r \<and> lr_raw_key r \<in> {None, Some k} \<and>
    (db' = db \<and> lr_status r \<noteq> Registered \<and> b = (lr_status r = Uploaded) \<and> session_from_row load r = Inr v \<or>
     lr_status r = Registered \<and> b \<and>
     (\<exists>us e. event_of_row r e \<and> signature e = (''uploaded'', Some Registered, Uploaded, lr_version r + 1) \<and>
       session_from_row load (uploaded_row k us r) = Inr v \<and>
       db' = db\<lparr>lg_sessions := update_where (\<lambda>x. session_matches i s (Some owner) x \<and> lr_version x = lr_version r)
           (uploaded_row k us) (lg_sessions db), lg_events := lg_events db @ [e]\<rparr>))"
proof -
  from assms(1) obtain a digest r where sel: "select_legacy i s (Some owner) db = Some r"
    and k: "\<not> (lr_raw_key r \<noteq> None \<and> lr_raw_key r \<noteq> Some k)"
    and rest: "(if lr_status r = Uploaded then
           bindE (session_from_row load r) (\<lambda>v. Inr ((v, True), db))
         else
           bindE (require (\<not> (expected \<noteq> None \<and> expected \<noteq> Some (int (lr_version r)))) SessionConflictError)
             (\<lambda>_.
           if lr_status r \<noteq> Registered then bindE (session_from_row load r) (\<lambda>v. Inr ((v, False), db))
           else
             bindE (require_utc now) (\<lambda>now.
             bindE (legacy_micros now) (\<lambda>now_us.
             bindE (update_sessions
               (\<lambda>x. session_matches i s (Some owner) x \<and> lr_version x = lr_version r)
               (\<lambda>x. x\<lparr>lr_status := Uploaded, lr_raw_key := Some k,
                 lr_version := lr_version r + 1, lr_updated_at := now_us\<rparr>) db) (\<lambda>db.
             bindE (append_session_event eid i s owner ''uploaded'' (Some Registered) Uploaded
               (lr_version r + 1) a role None digest (JObj [(''object_key'', JStr k)])
               now_us db) (\<lambda>db.
             bindE (stored_session load i s (Some owner) db) (\<lambda>v.
             Inr ((v, True), db)))))))) = Inr ((v, b), db')"
    unfolding mark_uploaded_def Let_def
    by (elim bindE_InrE) (auto simp: require_Inr bindE_Inr split: option.splits)
  show ?thesis
  proof (cases "lr_status r = Registered")
    case False
    with rest sel k show ?thesis by (auto simp: bindE_Inr split: if_splits)
  next
    case True
    let ?P = "\<lambda>x. session_matches i s (Some owner) x \<and> lr_version x = lr_version r"
    from True rest obtain us db1 db2 where
      u: "update_sessions ?P (\<lambda>x. x\<lparr>lr_status := Uploaded, lr_raw_key := Some k,
                 lr_version := lr_version r + 1, lr_updated_at := us\<rparr>) db = Inr db1"
      and e: "append_session_event eid i s owner ''uploaded'' (Some Registered) Uploaded
               (lr_version r + 1) a role None digest (JObj [(''object_key'', JStr k)]) us db1 = Inr db2"
      and v: "stored_session load i s (Some owner) db2 = Inr v" "b" "db' = db2"
      by (auto simp: bindE_Inr)
    have "update_where ?P (\<lambda>x. x\<lparr>lr_status := Uploaded, lr_raw_key := Some k,
                 lr_version := lr_version r + 1, lr_updated_at := us\<rparr>) (lg_sessions db) =
        update_where ?P (uploaded_row k us) (lg_sessions db)"
      by (rule update_where_cong) (simp add: uploaded_row_def)
    with u have db1: "db1 = db\<lparr>lg_sessions := update_where ?P (uploaded_row k us) (lg_sessions db)\<rparr>"
      by (simp add: update_sessions_Inr)
    note r = select_legacyD [OF sel]
    from append_session_event_Inr [OF e] obtain ev where
      ev: "event_of_row r ev" "signature ev = (''uploaded'', Some Registered, Uploaded, lr_version r + 1)"
      and db2: "db2 = db1\<lparr>lg_events := lg_events db1 @ [ev]\<rparr>"
      using r by (auto simp: event_of_row_def session_matches_def same_scope_def)
    have "select_legacy i s (Some owner) db2 = Some (uploaded_row k us r)"
      using update_selected(3) [OF assms(2) sel, of "uploaded_row k us"] r
      by (simp add: db2 db1 select_legacy_def)
    with v(1) have "session_from_row load (uploaded_row k us r) = Inr v" by (simp add: stored_session_def)
    with sel k True v(2,3) ev show ?thesis by (auto simp: db2 db1)
  qed
qed

lemma mark_uploaded_effect:
  assumes "mark_uploaded load sha i k s owner expected actor role rd now eid db = Inr (x, db')"
    and "session_keys_distinct db"
  shows "session_effect db db'"
proof -
  obtain v b where x: "x = (v, b)" by (cases x)
  from mark_uploaded_Inr [OF assms(1) [unfolded x] assms(2)] obtain r where
    sel: "select_legacy i s (Some owner) db = Some r" "lr_raw_key r \<in> {None, Some k}"
    and cases: "db' = db \<or> lr_status r = Registered \<and>
     (\<exists>us e. event_of_row r e \<and> signature e = (''uploaded'', Some Registered, Uploaded, lr_version r + 1) \<and>
       db' = db\<lparr>lg_sessions := update_where (\<lambda>x. session_matches i s (Some owner) x \<and> lr_version x = lr_version r)
           (uploaded_row k us) (lg_sessions db), lg_events := lg_events db @ [e]\<rparr>)"
    by blast
  from cases show ?thesis
  proof
    assume "db' = db" then show ?thesis by (simp add: session_idle)
  next
    assume "lr_status r = Registered \<and>
     (\<exists>us e. event_of_row r e \<and> signature e = (''uploaded'', Some Registered, Uploaded, lr_version r + 1) \<and>
       db' = db\<lparr>lg_sessions := update_where (\<lambda>x. session_matches i s (Some owner) x \<and> lr_version x = lr_version r)
           (uploaded_row k us) (lg_sessions db), lg_events := lg_events db @ [e]\<rparr>)"
    then obtain us e where st: "lr_status r = Registered"
      and e: "event_of_row r e" "signature e = (''uploaded'', Some Registered, Uploaded, lr_version r + 1)"
      and db': "db' = db\<lparr>lg_sessions := update_where (\<lambda>x. session_matches i s (Some owner) x \<and> lr_version x = lr_version r)
           (uploaded_row k us) (lg_sessions db), lg_events := lg_events db @ [e]\<rparr>" by blast
    have "lv_session_id e = i"
      using e(1) select_legacyD [OF sel(1)] by (auto simp: event_of_row_def dest: matches_id)
    moreover have "session_transition (Some r, es) (Some (uploaded_row k us r), es @ [e])" for es
      unfolding uploaded_row_def by (rule uploads [OF st sel(2) e])
    ultimately show ?thesis
      unfolding db' by (intro update_effect [OF assms(2) sel(1)]) simp_all
  qed
qed

lemma complete_processing_Inr:
  assumes "complete_processing load dump i c s expected actor role rd now eid db = Inr (v, db')"
    and "session_keys_distinct db"
  shows "\<exists>r. select_legacy i s None db = Some r \<and>
    (db' = db \<and> lr_completion_id r = Some (pc_idempotency_key c) \<and>
       lr_output_json r = Some (dump (pc_result c)) \<and>
       lr_prefix r = Some (prefix_of_key (pc_output_object_key c)) \<and> session_from_row load r = Inr v \<or>
     lr_completion_id r = None \<and> lr_status r \<in> {Uploaded, Processing} \<and>
     (\<exists>us e. event_of_row r e \<and>
       signature e = (''processing_completed'', Some (lr_status r), Processed, lr_version r + 1) \<and>
       session_from_row load (completed_row (prefix_of_key (pc_output_object_key c)) (dump (pc_result c))
         (pc_idempotency_key c) us r) = Inr v \<and>
       db' = db\<lparr>lg_sessions := update_where (\<lambda>x. session_matches i s None x \<and> lr_version x = lr_version r)
           (completed_row (prefix_of_key (pc_output_object_key c)) (dump (pc_result c))
             (pc_idempotency_key c) us) (lg_sessions db), lg_events := lg_events db @ [e]\<rparr>))"
proof -
  let ?out = "dump (pc_result c)" and ?pre = "prefix_of_key (pc_output_object_key c)"
  from assms(1) obtain digest r w where sel: "select_legacy i s None db = Some r"
    and w: "session_from_row load r = Inr w"
    and rest: "(if lr_completion_id r \<noteq> None then
           (if lr_completion_id r = Some (pc_idempotency_key c) \<and> lr_output_json r = Some ?out \<and>
               lr_prefix r = Some ?pre
            then Inr (w, db) else Inl SessionConflictError)
         else
           bindE (require (\<not> (expected \<noteq> None \<and> expected \<noteq> Some (int (lr_version r)))) SessionConflictError)
             (\<lambda>_.
           bindE (require (lr_status r \<in> {Uploaded, Processing}) SessionConflictError) (\<lambda>_.
           bindE (require_utc now) (\<lambda>now.
           bindE (legacy_micros now) (\<lambda>now_us.
           bindE (update_sessions
             (\<lambda>x. session_matches i s None x \<and> lr_version x = lr_version r)
             (\<lambda>x. x\<lparr>lr_status := Processed, lr_review := Pending, lr_prefix := Some ?pre,
               lr_output_json := Some ?out, lr_completion_id := Some (pc_idempotency_key c),
               lr_completed_at := Some now_us, lr_version := lr_version r + 1,
               lr_updated_at := now_us\<rparr>) db) (\<lambda>db.
           bindE (append_session_event eid i s (lr_owner r) ''processing_completed''
             (Some (lr_status r)) Processed (lr_version r + 1) actor role
             (Some (pc_idempotency_key c)) digest
             (JObj [(''output_object_key'', JStr (pc_output_object_key c))]) now_us db) (\<lambda>db.
           bindE (stored_session load i s None db) (\<lambda>v.
           Inr (v, db))))))))) = Inr (v, db')"
    unfolding complete_processing_def Let_def
    by (elim bindE_InrE) (auto simp: require_Inr bindE_Inr split: option.splits)
  show ?thesis
  proof (cases "lr_completion_id r = None")
    case False
    with rest sel w show ?thesis by (auto split: if_splits)
  next
    case True
    let ?P = "\<lambda>x. session_matches i s None x \<and> lr_version x = lr_version r"
    from True rest obtain us db1 db2 where st: "lr_status r \<in> {Uploaded, Processing}"
      and u: "update_sessions ?P (\<lambda>x. x\<lparr>lr_status := Processed, lr_review := Pending, lr_prefix := Some ?pre,
               lr_output_json := Some ?out, lr_completion_id := Some (pc_idempotency_key c),
               lr_completed_at := Some us, lr_version := lr_version r + 1, lr_updated_at := us\<rparr>) db = Inr db1"
      and e: "append_session_event eid i s (lr_owner r) ''processing_completed''
             (Some (lr_status r)) Processed (lr_version r + 1) actor role
             (Some (pc_idempotency_key c)) digest
             (JObj [(''output_object_key'', JStr (pc_output_object_key c))]) us db1 = Inr db2"
      and v: "stored_session load i s None db2 = Inr v" "db' = db2"
      by (auto simp: bindE_Inr require_Inr)
    let ?f = "completed_row ?pre ?out (pc_idempotency_key c) us"
    have "update_where ?P (\<lambda>x. x\<lparr>lr_status := Processed, lr_review := Pending, lr_prefix := Some ?pre,
               lr_output_json := Some ?out, lr_completion_id := Some (pc_idempotency_key c),
               lr_completed_at := Some us, lr_version := lr_version r + 1, lr_updated_at := us\<rparr>) (lg_sessions db) =
        update_where ?P ?f (lg_sessions db)"
      by (rule update_where_cong) (simp add: completed_row_def)
    with u have db1: "db1 = db\<lparr>lg_sessions := update_where ?P ?f (lg_sessions db)\<rparr>"
      by (simp add: update_sessions_Inr)
    note r = select_legacyD [OF sel]
    from append_session_event_Inr [OF e] obtain ev where
      ev: "event_of_row r ev"
        "signature ev = (''processing_completed'', Some (lr_status r), Processed, lr_version r + 1)"
      and db2: "db2 = db1\<lparr>lg_events := lg_events db1 @ [ev]\<rparr>"
      using r by (auto simp: event_of_row_def session_matches_def same_scope_def)
    have "select_legacy i s None db2 = Some (?f r)"
      using update_selected(3) [OF assms(2) sel, of ?f] r by (simp add: db2 db1 select_legacy_def)
    with v(1) have "session_from_row load (?f r) = Inr v" by (simp add: stored_session_def)
    with sel True st v(2) ev show ?thesis by (auto simp: db2 db1)
  qed
qed

lemma complete_processing_effect:
  assumes "complete_processing load dump i c s expected actor role rd now eid db = Inr (v, db')"
    and "session_keys_distinct db"
  shows "session_effect db db'"
proof -
  from complete_processing_Inr [OF assms] obtain r where sel: "select_legacy i s None db = Some r"
    and cases: "db' = db \<or> lr_completion_id r = None \<and> lr_status r \<in> {Uploaded, Processing} \<and>
     (\<exists>us e. event_of_row r e \<and>
       signature e = (''processing_completed'', Some (lr_status r), Processed, lr_version r + 1) \<and>
       db' = db\<lparr>lg_sessions := update_where (\<lambda>x. session_matches i s None x \<and> lr_version x = lr_version r)
           (completed_row (prefix_of_key (pc_output_object_key c)) (dump (pc_result c))
             (pc_idempotency_key c) us) (lg_sessions db), lg_events := lg_events db @ [e]\<rparr>)"
    by blast
  show ?thesis
  proof (cases "db' = db")
    case True then show ?thesis by (simp add: session_idle)
  next
    case False
    with cases obtain us e where st: "lr_completion_id r = None" "lr_status r \<in> {Uploaded, Processing}"
      and e: "event_of_row r e"
        "signature e = (''processing_completed'', Some (lr_status r), Processed, lr_version r + 1)"
      and db': "db' = db\<lparr>lg_sessions := update_where (\<lambda>x. session_matches i s None x \<and> lr_version x = lr_version r)
           (completed_row (prefix_of_key (pc_output_object_key c)) (dump (pc_result c))
             (pc_idempotency_key c) us) (lg_sessions db), lg_events := lg_events db @ [e]\<rparr>" by blast
    have "lv_session_id e = i"
      using e(1) select_legacyD [OF sel] by (auto simp: event_of_row_def dest: matches_id)
    moreover have "session_transition (Some r, es) (Some (completed_row (prefix_of_key (pc_output_object_key c))
        (dump (pc_result c)) (pc_idempotency_key c) us r), es @ [e])" for es
      unfolding completed_row_def by (rule completes [OF st(2,1) e])
    ultimately show ?thesis
      unfolding db' by (intro update_effect [OF assms(2) sel]) simp_all
  qed
qed

section \<open>Calls\<close>

inductive legacy_step :: "(string \<Rightarrow> 'r option) \<Rightarrow> ('r \<Rightarrow> string) \<Rightarrow> legacy_db \<Rightarrow> legacy_db \<Rightarrow> bool"
  for load dump where
  create_step: "legacy_step load dump db db'"
    if "db' = snd (transaction (create_session load digest_of v days s owner actor role rd now eid) db)"
| upload_step: "legacy_step load dump db db'"
    if "db' = snd (transaction (mark_uploaded load sha i k s owner expected actor role rd now eid) db)"
| complete_step: "legacy_step load dump db db'"
    if "db' = snd (transaction (complete_processing load dump i c s expected w role rd now eid) db)"
| register_principal_step: "legacy_step load dump db db'"
    if "db' = snd (transaction (register_workload_principal subj s audience r transport generation now) db)"
| rotate_generation_step: "legacy_step load dump db db'"
    if "db' = snd (transaction (rotate_generation subj s audience version generation now) db)"
| revoke_principal_step: "legacy_step load dump db db'"
    if "db' = snd (transaction (revoke_workload_principal subj s audience version now) db)"
| claim_step: "legacy_step load dump db db'"
    if "db' = snd (transaction (claim_workload_proof sha c m path body action audience transport now) db)"

lemma effect_keys: "session_effect db db' \<Longrightarrow> session_keys_distinct db \<Longrightarrow> session_keys_distinct db'"
  by (auto elim: session_effect.cases)

lemma session_effect_frame:
  assumes "lg_sessions db' = lg_sessions db" and "lg_events db' = lg_events db"
  shows "session_view i db' = session_view i db" and "session_keys_distinct db' = session_keys_distinct db"
  using assms by (simp_all add: session_view_def session_keys_distinct_def)

text \<open>What a call does to the sessions; the four other calls leave both session tables alone.\<close>

definition sessions_untouched :: "legacy_db \<Rightarrow> legacy_db \<Rightarrow> bool" where
  "sessions_untouched db db' = (lg_sessions db' = lg_sessions db \<and> lg_events db' = lg_events db)"

lemma principal_calls_untouched:
  "register_workload_principal subj s audience role transport generation now db = Inr (v, db') \<Longrightarrow>
     sessions_untouched db db' \<and> lg_claims db' = lg_claims db"
  "rotate_generation subj s audience version generation now db = Inr (v, db') \<Longrightarrow>
     sessions_untouched db db' \<and> lg_claims db' = lg_claims db"
  "revoke_workload_principal subj s audience version now db = Inr (v, db') \<Longrightarrow>
     sessions_untouched db db' \<and> lg_claims db' = lg_claims db"
  by (auto simp: register_workload_principal_def rotate_generation_def revoke_workload_principal_def
      update_principal_def sessions_untouched_def Let_def flow split: option.splits)

lemma claim_untouched:
  "claim_workload_proof sha c m path body action audience transport now db = Inr (p, db') \<Longrightarrow>
     sessions_untouched db db' \<and> lg_principals db' = lg_principals db"
  unfolding claim_workload_proof_def Let_def except_Inr
  by (elim bindE_InrE) (auto simp: bindE_Inr insert_claim_def sessions_untouched_def split: option.splits)

lemma legacy_step_sessions:
  assumes "legacy_step load dump db db'" and "session_keys_distinct db"
  shows "session_effect db db' \<or> sessions_untouched db db'"
  using assms
  by (cases rule: legacy_step.cases)
    (auto simp: transaction_def sessions_untouched_def split: sum.splits
      dest: create_session_effect mark_uploaded_effect complete_processing_effect
        principal_calls_untouched claim_untouched)

section \<open>Histories\<close>

definition lifecycle :: "(string \<times> processing_status option \<times> processing_status \<times> nat) list" where
  "lifecycle = [(''registered'', None, Registered, 1), (''uploaded'', Some Registered, Uploaded, 2),
     (''processing_completed'', Some Uploaded, Processed, 3)]"

fun view_ok :: "session_view \<Rightarrow> bool" where
  "view_ok (None, es) = (es = [])"
| "view_ok (Some r, es) =
     (1 \<le> lr_version r \<and> lr_version r \<le> 3 \<and> map signature es = take (lr_version r) lifecycle \<and>
      list_all (event_of_row r) es \<and>
      lr_status r = [Registered, Uploaded, Processed] ! (lr_version r - 1) \<and>
      (lr_raw_key r \<noteq> None \<longleftrightarrow> 2 \<le> lr_version r) \<and>
      (lr_completion_id r \<noteq> None \<longleftrightarrow> lr_version r = 3) \<and>
      (lr_output_json r \<noteq> None \<longleftrightarrow> lr_version r = 3) \<and> (lr_prefix r \<noteq> None \<longleftrightarrow> lr_version r = 3))"

lemma event_of_row_update [simp]:
  "event_of_row (uploaded_row k us r) = event_of_row r"
  "event_of_row (completed_row p j c us r) = event_of_row r"
  by (auto simp: event_of_row_def uploaded_row_def completed_row_def fun_eq_iff)

lemma version_cases: "1 \<le> (n::nat) \<Longrightarrow> n \<le> 3 \<Longrightarrow> n = 1 \<or> n = 2 \<or> n = 3"
  by arith

lemma transition_view_ok: "session_transition v v' \<Longrightarrow> view_ok v \<Longrightarrow> view_ok v'"
proof (induction rule: session_transition.induct)
  case (registers r e es)
  then show ?case by (simp add: fresh_session_def lifecycle_def)
next
  case (uploads r k e es us)
  then have "lr_version r = 1"
    using version_cases [of "lr_version r"] by auto
  moreover have "list_all (event_of_row (uploaded_row k us r)) es" using uploads.prems by simp
  ultimately show ?case
    using uploads by (simp add: lifecycle_def numeral_2_eq_2 uploaded_row_def event_of_row_def)
next
  case (completes r e es us c j p)
  then have "lr_version r = 2"
    using version_cases [of "lr_version r"] by auto
  moreover have "list_all (event_of_row (completed_row p j c us r)) es" using completes.prems by simp
  ultimately show ?case
    using completes by (simp add: lifecycle_def numeral_2_eq_2 numeral_3_eq_3 completed_row_def event_of_row_def)
qed

definition legacy_ok :: "legacy_db \<Rightarrow> bool" where
  "legacy_ok db = (session_keys_distinct db \<and> (\<forall>i. view_ok (session_view i db)))"

lemma legacy_ok_step:
  assumes "legacy_step load dump db db'" and "legacy_ok db"
  shows "legacy_ok db'"
proof -
  from assms(2) have ok: "session_keys_distinct db" "\<And>i. view_ok (session_view i db)"
    by (simp_all add: legacy_ok_def)
  from legacy_step_sessions [OF assms(1) ok(1)] show ?thesis
  proof
    assume "session_effect db db'"
    then show ?thesis
    proof cases
      case session_idle
      with assms(2) show ?thesis by simp
    next
      case (session_moves i)
      have "view_ok (session_view j db')" for j
        using ok(2) [of j] transition_view_ok [OF session_moves(1) ok(2)] session_moves(2) [of j]
        by (cases "j = i") simp_all
      with session_moves(3) show ?thesis by (simp add: legacy_ok_def)
    qed
  next
    assume "sessions_untouched db db'"
    then have "lg_sessions db' = lg_sessions db" "lg_events db' = lg_events db"
      by (simp_all add: sessions_untouched_def)
    with assms(2) show ?thesis by (simp add: legacy_ok_def session_view_def session_keys_distinct_def)
  qed
qed

lemma legacy_ok_empty: "legacy_ok empty_legacy"
  by (simp add: legacy_ok_def session_keys_distinct_def session_view_def empty_legacy_def)

interpretation legacy: invariant_system "\<lambda>db. db = empty_legacy" "legacy_step load dump" legacy_ok
  for load :: "string \<Rightarrow> 'r option" and dump
  by unfold_locales (use legacy_ok_empty legacy_ok_step in blast)+

end
