(* ===== verification/Legacy_Properties.thy ===== *)
theory Legacy_Properties
  imports Legacy_Ledger
begin

text \<open>
  Properties of the legacy store: histories, idempotent completion, the capture authority, invisibility of
  other owners' sessions, and the life of workload proofs.
\<close>

section \<open>How a session can change\<close>

definition row_later :: "session_row \<Rightarrow> session_row \<Rightarrow> bool" where
  "row_later r r' =
     (lr_session_id r' = lr_session_id r \<and> lr_tenant r' = lr_tenant r \<and>
      lr_workspace r' = lr_workspace r \<and> lr_owner r' = lr_owner r \<and> lr_contract r' = lr_contract r \<and>
      lr_version r \<le> lr_version r' \<and> (lr_raw_key r \<noteq> None \<longrightarrow> lr_raw_key r' = lr_raw_key r) \<and>
      (lr_version r = 3 \<longrightarrow> r' = r))"

lemma row_later_refl [simp]: "row_later r r"
  by (simp add: row_later_def)

lemma row_later_trans: "row_later a b \<Longrightarrow> row_later b c \<Longrightarrow> row_later a c"
  by (auto simp: row_later_def)

lemma transition_later:
  assumes "session_transition v v'" and "view_ok v" and "v = (Some r, es)"
  shows "\<exists>r' es'. v' = (Some r', es') \<and> row_later r r' \<and> prefix es es'"
proof -
  have final: "lr_version r \<noteq> 3" if "lr_status r \<noteq> Processed"
    using assms(2,3) that by (auto simp: numeral_3_eq_3)
  from assms(1) show ?thesis
  proof cases
    case (uploads r1 k e es1 us)
    with assms(3) final show ?thesis by (auto simp: row_later_def)
  next
    case (completes r1 e es1 us c j p)
    with assms(3) final show ?thesis by (auto simp: row_later_def)
  qed (use assms(3) in simp)
qed

lemma step_later:
  assumes "legacy_step load dump db db'" and "legacy_ok db" and "session_view i db = (Some r, es)"
  shows "\<exists>r' es'. session_view i db' = (Some r', es') \<and> row_later r r' \<and> prefix es es'"
proof -
  from assms(2) have ok: "session_keys_distinct db" "\<And>i. view_ok (session_view i db)"
    by (simp_all add: legacy_ok_def)
  from legacy_step_sessions [OF assms(1) ok(1)] show ?thesis
  proof
    assume "session_effect db db'"
    then show ?thesis
    proof cases
      case session_idle
      with assms(3) show ?thesis by auto
    next
      case (session_moves j)
      show ?thesis
      proof (cases "i = j")
        case True
        with transition_later [OF session_moves(1) ok(2)] assms(3) show ?thesis by simp
      next
        case False
        with session_moves(2) assms(3) show ?thesis by auto
      qed
    qed
  next
    assume "sessions_untouched db db'"
    then have "session_view i db' = session_view i db"
      by (simp add: session_view_def sessions_untouched_def)
    with assms(3) show ?thesis by auto
  qed
qed

lemma steps_later:
  assumes "(legacy_step load dump)\<^sup>*\<^sup>* db db'" and "legacy_ok db" and "session_view i db = (Some r, es)"
  shows "\<exists>r' es'. session_view i db' = (Some r', es') \<and> row_later r r' \<and> prefix es es'"
  using assms
proof (induction rule: rtranclp_induct)
  case base
  then show ?case by auto
next
  case (step y z)
  then obtain r' es' where "session_view i y = (Some r', es')" "row_later r r'" "prefix es es'" by blast
  moreover have "legacy_ok y" using step by (blast intro: legacy.steps_inv)
  ultimately show ?case
    using step_later [OF step(2)] by (meson row_later_trans prefix_order.trans)
qed

lemma view_of_selected:
  assumes "legacy_ok db" and "select_legacy i s owner db = Some r"
  shows "session_view i db = (Some r, filter (\<lambda>e. lv_session_id e = i) (lg_events db))"
proof -
  note r = select_legacyD [OF assms(2)]
  then have "find (\<lambda>r. lr_session_id r = i) (lg_sessions db) = Some r"
    using assms(1) by (intro find_session_of) (auto simp: legacy_ok_def dest: matches_id)
  then show ?thesis by (simp add: session_view_def)
qed

lemma selected_of_view:
  assumes "legacy_ok db" and "session_view i db = (Some r, es)" and "session_matches i s owner r"
  shows "select_legacy i s owner db = Some r"
  using assms
  by (intro select_unique) (auto simp: legacy_ok_def session_view_def dest: find_SomeD)

section \<open>Sessions\<close>

lemma session_history_facts:
  assumes "(legacy_step load dump)\<^sup>*\<^sup>* empty_legacy db" and "r \<in> set (lg_sessions db)"
  shows "map signature (filter (\<lambda>e. lv_session_id e = lr_session_id r) (lg_events db)) = take (lr_version r) lifecycle"
    and "lr_version r \<in> {1, 2, 3}" and "lr_status r = [Registered, Uploaded, Processed] ! (lr_version r - 1)"
    and "lr_raw_key r \<noteq> None \<longleftrightarrow> 2 \<le> lr_version r" and "lr_output_json r \<noteq> None \<longleftrightarrow> lr_version r = 3"
    and "list_all (event_of_row r) (filter (\<lambda>e. lv_session_id e = lr_session_id r) (lg_events db))"
proof -
  have ok: "legacy_ok db" using legacy.reachable_inv [OF refl assms(1)] .
  then have "find (\<lambda>x. lr_session_id x = lr_session_id r) (lg_sessions db) = Some r"
    using assms(2) by (intro find_session_of) (simp_all add: legacy_ok_def)
  with ok have "view_ok (Some r, filter (\<lambda>e. lv_session_id e = lr_session_id r) (lg_events db))"
    unfolding legacy_ok_def session_view_def by metis
  then show "map signature (filter (\<lambda>e. lv_session_id e = lr_session_id r) (lg_events db)) = take (lr_version r) lifecycle"
    and "lr_version r \<in> {1, 2, 3}" and "lr_status r = [Registered, Uploaded, Processed] ! (lr_version r - 1)"
    and "lr_raw_key r \<noteq> None \<longleftrightarrow> 2 \<le> lr_version r" and "lr_output_json r \<noteq> None \<longleftrightarrow> lr_version r = 3"
    and "list_all (event_of_row r) (filter (\<lambda>e. lv_session_id e = lr_session_id r) (lg_events db))"
    using version_cases [of "lr_version r"] by simp_all
qed

text \<open>C38: The events of a session are an initial part of one lifecycle, registered, uploaded, completed,
  with versions 1, 2 and 3: as many as the version of the row says. Its status is the one of the last event,
  the object key is recorded from the upload on, the result from the completion on, and every event names the
  scope and the owner of the row.\<close>

theorem session_history_is_lifecycle:
  assumes "(legacy_step load dump)\<^sup>*\<^sup>* empty_legacy db" and "r \<in> set (lg_sessions db)"
  shows "map signature (filter (\<lambda>e. lv_session_id e = lr_session_id r) (lg_events db)) = take (lr_version r) lifecycle \<and>
    lr_version r \<in> {1, 2, 3} \<and>
    lr_status r = [Registered, Uploaded, Processed] ! (lr_version r - 1) \<and>
    (lr_raw_key r \<noteq> None \<longleftrightarrow> 2 \<le> lr_version r) \<and>
    (lr_output_json r \<noteq> None \<longleftrightarrow> lr_version r = 3) \<and>
    list_all (event_of_row r) (filter (\<lambda>e. lv_session_id e = lr_session_id r) (lg_events db))"
  by (intro conjI session_history_facts [OF assms])

lemma complete_processing_replays:
  assumes "complete_processing load dump i c s expected actor role rd now eid db = Inr (v, db')"
    and "select_legacy i s None db2 = Some r" and "session_from_row load r = Inr w"
    and "lr_completion_id r = Some (pc_idempotency_key c)" and "lr_output_json r = Some (dump (pc_result c))"
    and "lr_prefix r = Some (prefix_of_key (pc_output_object_key c))"
  shows "complete_processing load dump i c s expected actor role rd now' eid' db2 = Inr (w, db2)"
proof -
  have "validate_scope s = Inr ()" "pc_session_id c = i" "require_optional_version expected = Inr ()"
    "require_legacy_text 512 actor = Inr ()" "require_legacy_text 512 role = Inr ()"
    "role = role_value DeterministicWorker"
    "require_legacy_sha256 (given_or rd (pc_idempotency_key c)) = Inr ()"
    using assms(1) unfolding complete_processing_def Let_def by (elim bindE_InrE, simp add: require_Inr)+
  with assms(2-6) show ?thesis by (simp add: complete_processing_def Let_def)
qed

text \<open>A completion is idempotent for ever: after it was accepted, and whatever was called since, the
  same completion is answered with the record of the first answer, and changes nothing.\<close>

theorem completion_retry_is_idempotent:
  assumes "(legacy_step load dump)\<^sup>*\<^sup>* empty_legacy db"
    and "complete_processing load dump i c s expected actor role rd now eid db = Inr (v, db1)"
    and "(legacy_step load dump)\<^sup>*\<^sup>* db1 db2"
  shows "complete_processing load dump i c s expected actor role rd now' eid' db2 = Inr (v, db2)"
proof -
  have ok: "legacy_ok db" using legacy.reachable_inv [OF refl assms(1)] .
  then have d: "session_keys_distinct db" by (simp add: legacy_ok_def)
  have "legacy_step load dump db db1"
    by (rule complete_step [where i = i and c = c and s = s and expected = expected and w = actor
          and role = role and rd = rd and now = now and eid = eid]) (simp add: assms(2) transaction_def)
  with ok have ok1: "legacy_ok db1" by (blast intro: legacy_ok_step)
  have ok2: "legacy_ok db2" using legacy.steps_inv [OF assms(3) ok1] .
  let ?out = "dump (pc_result c)" and ?pre = "prefix_of_key (pc_output_object_key c)"
  from complete_processing_Inr [OF assms(2) d] obtain r where
    r: "select_legacy i s None db1 = Some r" "lr_completion_id r = Some (pc_idempotency_key c)"
      "lr_output_json r = Some ?out" "lr_prefix r = Some ?pre" "session_from_row load r = Inr v"
  proof (elim exE conjE disjE, goal_cases)
    case (1 r)
    then show ?thesis by simp
  next
    case (2 r us e)
    let ?f = "completed_row ?pre ?out (pc_idempotency_key c) us"
    have "select_legacy i s None db1 = Some (?f r)"
      using update_selected(3) [OF d 2(2), of ?f] select_legacyD [OF 2(2)] 2(8) by (simp add: select_legacy_def)
    with 2 show ?thesis by (simp add: completed_row_def)
  qed
  have v1: "session_view i db1 = (Some r, filter (\<lambda>e. lv_session_id e = i) (lg_events db1))"
    by (rule view_of_selected [OF ok1 r(1)])
  then have "view_ok (Some r, filter (\<lambda>e. lv_session_id e = i) (lg_events db1))"
    using ok1 unfolding legacy_ok_def by metis
  with r(2) have three: "lr_version r = 3" by simp
  obtain r' es' where "session_view i db2 = (Some r', es')" "row_later r r'"
    using steps_later [OF assms(3) ok1 v1] by blast
  with three have "session_view i db2 = (Some r, es')" by (simp add: row_later_def)
  then have "select_legacy i s None db2 = Some r"
    using selected_of_view [OF ok2] select_legacyD [OF r(1)] by blast
  then show ?thesis using complete_processing_replays [OF assms(2)] r by blast
qed

lemma capture_authority_facts:
  assumes "(legacy_step load dump)\<^sup>*\<^sup>* empty_legacy db"
    and "create_session load digest_of v days s owner actor role rd now eid db = Inr (x, db1)"
    and "(legacy_step load dump)\<^sup>*\<^sup>* db1 db2"
  shows "resolve_capture_authority (sn_session_id v) s db2 =
      (if capture_owner_pattern owner then Inr (sn_session_id v, s, owner) else Inl SessionNotFoundError)"
    and "s' \<noteq> s \<Longrightarrow> resolve_capture_authority (sn_session_id v) s' db2 = Inl SessionNotFoundError"
proof -
  let ?i = "sn_session_id v"
  have ok: "legacy_ok db" using legacy.reachable_inv [OF refl assms(1)] .
  have "legacy_step load dump db db1"
    by (rule create_step [where digest_of = digest_of and v = v and days = days and s = s and owner = owner
          and actor = actor and role = role and rd = rd and now = now and eid = eid])
      (simp add: assms(2) transaction_def)
  with ok have ok1: "legacy_ok db1" by (blast intro: legacy_ok_step)
  have ok2: "legacy_ok db2" using legacy.steps_inv [OF assms(3) ok1] .
  obtain digest a now_us expires where
    c: "create_body load v s owner a role digest eid now_us expires db = Inr (x, db1)"
    and scope: "validate_scope s = Inr ()"
    using create_session_Inr [OF assms(2)] by blast
  from create_body_Inr [OF c] obtain r e where
    r: "r \<in> set (lg_sessions db1)" "session_matches ?i s (Some owner) r" "lr_contract r = record_contract_version"
    and e: "e \<in> set (lg_events db1)" "event_of_row r e" "signature e = (''registered'', None, Registered, 1)"
    by (elim exE conjE, intro that)
      (auto simp: session_matches_def same_scope_def, auto simp: new_session_row_def)
  have "session_view ?i db1 = (Some r, filter (\<lambda>e. lv_session_id e = ?i) (lg_events db1))"
    by (rule view_of_selected [OF ok1 select_unique [OF _ r(1,2)]]) (use ok1 in \<open>simp add: legacy_ok_def\<close>)
  from steps_later [OF assms(3) ok1 this] obtain r' es' where
    view: "session_view ?i db2 = (Some r', es')" and later: "row_later r r'"
    and es': "prefix (filter (\<lambda>e. lv_session_id e = ?i) (lg_events db1)) es'" by blast
  have r': "session_matches ?i s (Some owner) r'" "lr_contract r' = record_contract_version"
    using later r by (simp_all add: row_later_def session_matches_def same_scope_def)
  have "lv_session_id e = ?i" using e(2) r(2) by (simp add: event_of_row_def session_matches_def)
  with e(1) es' have "e \<in> set es'" by (auto dest!: set_mono_prefix)
  then have ev: "e \<in> set (lg_events db2)" using view by (auto simp: session_view_def)
  have reg: "registration_of r' e"
    using e(2,3) later by (auto simp: registration_of_def event_of_row_def signature_def row_later_def)
  have d2: "session_keys_distinct db2" using ok2 by (simp add: legacy_ok_def)
  have in2: "r' \<in> set (lg_sessions db2)" using view by (auto simp: session_view_def dest: find_SomeD)
  have only: "y = r'" if "y \<in> set (lg_sessions db2)" "session_matches ?i t None y" for t y
    using key_inj [OF d2 [unfolded session_keys_distinct_def] that(1) in2] that(2) r'(1)
    by (simp add: session_matches_def)
  have found: "find (\<lambda>r. session_matches ?i s None r \<and> list_ex (registration_of r) (lg_events db2))
      (lg_sessions db2) = Some r'"
  proof (rule find_only [OF in2])
    show "session_matches ?i s None r' \<and> list_ex (registration_of r') (lg_events db2)"
      using r'(1) reg ev by (auto simp: session_matches_def list_ex_iff)
  qed (use only in blast)
  have stored: "make_scope (lr_tenant r') (lr_workspace r') = Inr s" "lr_owner r' = owner"
    using r'(1) scope by (cases s, auto simp: session_matches_def same_scope_def make_scope_def Let_def bindE_Inr)
  show "resolve_capture_authority ?i s db2 =
      (if capture_owner_pattern owner then Inr (?i, s, owner) else Inl SessionNotFoundError)"
    using r' stored scope
    by (simp add: resolve_capture_authority_def found make_authority_def matches_id [OF r'(1)])
  assume "s' \<noteq> s"
  then have "\<not> session_matches ?i s' None r'"
    using r'(1) scope.equality [of s' s] by (auto simp: session_matches_def same_scope_def)
  with only have "find (\<lambda>r. session_matches ?i s' None r \<and> list_ex (registration_of r) (lg_events db2))
      (lg_sessions db2) = None"
    by (auto simp: find_None_iff)
  then show "resolve_capture_authority ?i s' db2 = Inl SessionNotFoundError"
    by (cases "validate_scope s'")
      (auto simp: resolve_capture_authority_def validate_scope_def require_def split: if_splits)
qed

text \<open>The capture authority of a session is fixed at its registration: whatever was called since, it
  resolves, in the scope of the registration, to exactly that scope and owner, and in no other scope at all.\<close>

theorem capture_authority_is_fixed:
  assumes "(legacy_step load dump)\<^sup>*\<^sup>* empty_legacy db"
    and "create_session load digest_of v days s owner actor role rd now eid db = Inr (x, db1)"
    and "(legacy_step load dump)\<^sup>*\<^sup>* db1 db2"
  shows "resolve_capture_authority (sn_session_id v) s db2 =
      (if capture_owner_pattern owner then Inr (sn_session_id v, s, owner) else Inl SessionNotFoundError) \<and>
    (s' \<noteq> s \<longrightarrow> resolve_capture_authority (sn_session_id v) s' db2 = Inl SessionNotFoundError)"
  using capture_authority_facts [OF assms] by blast

text \<open>The database without one session.\<close>

definition without_session :: "string \<Rightarrow> legacy_db \<Rightarrow> legacy_db" where
  "without_session i db =
     db\<lparr>lg_sessions := filter (\<lambda>r. lr_session_id r \<noteq> i) (lg_sessions db),
       lg_events := filter (\<lambda>e. lv_session_id e \<noteq> i) (lg_events db)\<rparr>"

lemma select_without: "select_legacy i s owner (without_session i db) = None"
  by (auto simp: select_legacy_def without_session_def find_None_iff session_matches_def)

lemma events_without: "filter (event_matches i s owner) (lg_events (without_session i db)) = []"
  by (auto simp: without_session_def event_matches_def filter_empty_conv)

text \<open>The exceptions a registration can raise before it looks at the database again.\<close>

definition plain_error :: "exn \<Rightarrow> bool" where
  "plain_error e = (e \<in> {ValueError, OverflowError, IntegrityError, AssertionError, RuntimeError})"

lemma not_plain [simp]: "\<not> plain_error SessionConflictError"
  by (simp add: plain_error_def)

lemma bindE_InlE: "bindE m f = Inl e \<Longrightarrow> (m = Inl e \<Longrightarrow> P) \<Longrightarrow> (\<And>x. m = Inr x \<Longrightarrow> f x = Inl e \<Longrightarrow> P) \<Longrightarrow> P"
  by (cases m) auto

lemma plain_bind: "bindE m f = Inl e \<Longrightarrow> (\<And>e. m = Inl e \<Longrightarrow> plain_error e) \<Longrightarrow>
    (\<And>x e. f x = Inl e \<Longrightarrow> plain_error e) \<Longrightarrow> plain_error e"
  by (cases m) auto

lemma plain_errors:
  "legacy_micros d = Inl e \<Longrightarrow> plain_error e"
  "plus_us d n = Inl e \<Longrightarrow> plain_error e"
  "bind_integer n = Inl e \<Longrightarrow> plain_error e"
  "require b ValueError = Inl e \<Longrightarrow> plain_error e"
  "require_utc d = Inl e \<Longrightarrow> plain_error e"
  "validate_scope s = Inl e \<Longrightarrow> plain_error e"
  "require_legacy_text m t = Inl e \<Longrightarrow> plain_error e"
  "require_legacy_sha256 t = Inl e \<Longrightarrow> plain_error e"
  "legacy_from_micros v = Inl e \<Longrightarrow> plain_error e"
  "insert_row same r t' = Inl e \<Longrightarrow> plain_error e"
  by (auto simp: legacy_micros_def plus_us_def bind_integer_def require_utc_def validate_scope_def
      require_legacy_text_def require_legacy_sha256_def legacy_from_micros_def astimezone_utc_def
      plain_error_def insert_row_def require_def bindE_def split: if_splits)

lemma session_from_row_errors: "session_from_row load r = Inl e \<Longrightarrow> plain_error e"
  unfolding session_from_row_def Let_def optional_from_micros_def
  by (elim bindE_InlE) (auto simp: plain_error_def require_def bindE_Inl dest!: plain_errors split: option.splits if_splits)

lemma create_body_errors:
  assumes "create_body load v s owner actor role digest eid now_us expires_us db = Inl e"
  shows "plain_error e"
  using assms unfolding create_body_def append_session_event_def stored_session_def
  by (elim bindE_InlE) (auto simp: require_def plain_error_def dest: plain_errors session_from_row_errors
      split: option.splits if_splits)

lemma foreign_session_facts:
  assumes "(legacy_step load dump)\<^sup>*\<^sup>* empty_legacy db"
    and "r \<in> set (lg_sessions db)" and "lr_session_id r = i" and "\<not> session_matches i s owner r"
  shows "get_session load i s owner db = get_session load i s owner (without_session i db)"
    and "owner = None \<Longrightarrow> get_timeline load i s db = get_timeline load i s (without_session i db)"
    and "list_session_events load i s owner limit db = list_session_events load i s owner limit (without_session i db)"
    and "owner = Some u \<Longrightarrow>
      fst (transaction (mark_uploaded load sha i k s u expected actor role rd now eid) db) =
      fst (transaction (mark_uploaded load sha i k s u expected actor role rd now eid) (without_session i db))"
    and "owner = None \<Longrightarrow>
      fst (transaction (complete_processing load dump i c s expected w role rd now eid) db) =
      fst (transaction (complete_processing load dump i c s expected w role rd now eid) (without_session i db))"
    and "sn_session_id v = i \<Longrightarrow> owner = Some u \<Longrightarrow>
      create_session load digest_of v days s u actor role rd now eid db = Inl e \<Longrightarrow> e \<noteq> SessionConflictError"
    and "sn_session_id v = i \<Longrightarrow> \<not> returns (create_session load digest_of v days s u actor role rd now eid db)"
proof -
  have ok: "legacy_ok db" using legacy.reachable_inv [OF refl assms(1)] .
  have none: "select_legacy i s owner db = None"
  proof (rule ccontr)
    assume "select_legacy i s owner db \<noteq> None"
    then obtain r2 where "select_legacy i s owner db = Some r2" by blast
    then have r2: "r2 \<in> set (lg_sessions db)" "session_matches i s owner r2" by (auto dest: select_legacyD)
    moreover have "r2 = r"
      using key_inj [OF _ r2(1) assms(2), of lr_session_id] ok matches_id [OF r2(2)] assms(3)
      by (simp add: legacy_ok_def session_keys_distinct_def)
    ultimately show False using assms(4) by blast
  qed
  have view: "session_view i db = (Some r, filter (\<lambda>e. lv_session_id e = i) (lg_events db))"
    using find_session_of [OF _ assms(2,3)] ok by (simp add: session_view_def legacy_ok_def)
  then have "view_ok (Some r, filter (\<lambda>e. lv_session_id e = i) (lg_events db))"
    using ok unfolding legacy_ok_def by metis
  then have "event_of_row r e" if "e \<in> set (lg_events db)" "lv_session_id e = i" for e
    using that by (simp add: list_all_iff)
  then have events: "filter (event_matches i s owner) (lg_events db) = []"
    using assms(4) by (auto simp: filter_empty_conv event_matches_def event_of_row_def session_matches_def
        same_scope_def assms(3) split: option.splits)
  note absent = none select_without
  show get: "get_session load i s owner db = get_session load i s owner (without_session i db)"
    by (simp add: get_session_def absent)
  show "get_timeline load i s db = get_timeline load i s (without_session i db)" if "owner = None"
    using get that by (simp add: get_timeline_def)
  show "list_session_events load i s owner limit db = list_session_events load i s owner limit (without_session i db)"
    by (simp add: list_session_events_def events events_without get)
  show "fst (transaction (mark_uploaded load sha i k s u expected actor role rd now eid) db) =
      fst (transaction (mark_uploaded load sha i k s u expected actor role rd now eid) (without_session i db))"
    if "owner = Some u"
  proof -
    note absent = none [unfolded that] select_without [of i s "Some u" db]
    have "\<exists>x. mark_uploaded load sha i k s u expected actor role rd now eid db = Inl x \<and>
        mark_uploaded load sha i k s u expected actor role rd now eid (without_session i db) = Inl x"
      unfolding mark_uploaded_def Let_def absent
      by (auto simp: bindE_def split: sum.splits)
    then show ?thesis by (auto simp: transaction_def)
  qed
  show "fst (transaction (complete_processing load dump i c s expected w role rd now eid) db) =
      fst (transaction (complete_processing load dump i c s expected w role rd now eid) (without_session i db))"
    if "owner = None"
  proof -
    note absent = none [unfolded that] select_without [of i s None db]
    have "\<exists>x. complete_processing load dump i c s expected w role rd now eid db = Inl x \<and>
        complete_processing load dump i c s expected w role rd now eid (without_session i db) = Inl x"
      unfolding complete_processing_def Let_def absent
      by (auto simp: bindE_def split: sum.splits)
    then show ?thesis by (auto simp: transaction_def)
  qed
  show no: "\<not> returns (create_session load digest_of v days s u actor role rd now eid db)"
    if "sn_session_id v = i" for u
  proof
    assume "returns (create_session load digest_of v days s u actor role rd now eid db)"
    then obtain x db' where "create_session load digest_of v days s u actor role rd now eid db = Inr (x, db')"
      by (auto simp: returns_iff)
    from create_session_Inr [OF this] obtain a digest now_us expires where
      "create_body load v s u a role digest eid now_us expires db = Inr (x, db')" by blast
    from create_body_Inr [OF this] assms(2,3) that show False by auto
  qed
  show "e \<noteq> SessionConflictError" if "sn_session_id v = i" "owner = Some u"
    "create_session load digest_of v days s u actor role rd now eid db = Inl e"
  proof -
    show ?thesis
      using that(3) none [unfolded that(2)] unfolding create_session_def Let_def that(1)
      by (elim bindE_InlE) (auto dest!: plain_errors create_body_errors split: sum.splits if_splits)
  qed
qed

text \<open>A session of another scope or another owner is indistinguishable from one that does not exist:
  reading it, its timeline and its events, and uploading and completing it, give exactly what they give on the
  database from which it is removed. Registering its identifier again fails as not found, where the owner is
  told of the conflict.\<close>

theorem foreign_session_is_invisible:
  assumes "(legacy_step load dump)\<^sup>*\<^sup>* empty_legacy db"
    and "r \<in> set (lg_sessions db)" and "lr_session_id r = i" and "\<not> session_matches i s owner r"
  shows "(get_session load i s owner db = get_session load i s owner (without_session i db)) \<and>
    (owner = None \<longrightarrow> get_timeline load i s db = get_timeline load i s (without_session i db)) \<and>
    (list_session_events load i s owner limit db = list_session_events load i s owner limit (without_session i db)) \<and>
    (owner = Some u \<longrightarrow>
      fst (transaction (mark_uploaded load sha i k s u expected actor role rd now eid) db) =
      fst (transaction (mark_uploaded load sha i k s u expected actor role rd now eid) (without_session i db))) \<and>
    (owner = None \<longrightarrow>
      fst (transaction (complete_processing load dump i c s expected w role rd now eid) db) =
      fst (transaction (complete_processing load dump i c s expected w role rd now eid) (without_session i db))) \<and>
    (sn_session_id v = i \<longrightarrow> owner = Some u \<longrightarrow>
      create_session load digest_of v days s u actor role rd now eid db = Inl e \<longrightarrow> e \<noteq> SessionConflictError) \<and>
    (sn_session_id v = i \<longrightarrow> \<not> returns (create_session load digest_of v days s u actor role rd now eid db))"
  by (intro conjI impI) (rule foreign_session_facts [OF assms]; assumption)+

end
