(* ===== verification/Proof_Claims.thy ===== *)
theory Proof_Claims
  imports Legacy_Ledger
begin

text \<open>
  Properties of workload proofs: when a claim is accepted, that it is accepted once, and that rotation and
  revocation of a principal end the proofs of its old generations.
\<close>

section \<open>Workload proofs\<close>

definition claim_of :: "workload_context \<Rightarrow> control_role \<Rightarrow> scope \<Rightarrow> int \<Rightarrow> claim_row" where
  "claim_of c role s now =
     \<lparr>lc_proof = wc_proof_digest c, lc_subject = subject (wc_principal c), lc_tenant = tenant_id s,
      lc_workspace = workspace_id s, lc_audience = wc_audience c, lc_role = role,
      lc_transport = wc_transport c, lc_generation = wc_generation c, lc_method = wc_method c,
      lc_path = wc_path c, lc_body_sha256 = wc_body_sha256 c, lc_issued_at = wall (wc_issued_at c),
      lc_expires_at = wall (wc_expires_at c), lc_claimed_at = now,
      lc_retain_until = wall (wc_expires_at c) + min_claim_retention\<rparr>"

text \<open>The row under which a proof is accepted.\<close>

definition active_under :: "workload_context \<Rightarrow> control_role \<Rightarrow> principal_row \<Rightarrow> bool" where
  "active_under c role r =
     (lp_role r = role \<and> lp_transport r = wc_transport c \<and> lp_revoked_at r = None \<and>
      lp_generation r = wc_generation c)"

lemma legacy_micros_utc: "tz d = UTC \<Longrightarrow> legacy_micros d = Inr n \<longleftrightarrow> in_range (wall d) \<and> n = wall d"
  using in_range_micros by (auto simp: legacy_micros_def astimezone_utc_def instant_def)

lemma proof_times:
  assumes "proof_window c now" and "workload_shape c" and "in_range (wall (wc_expires_at c) + min_claim_retention)"
  shows "in_range now" "in_range (wall (wc_issued_at c))" "in_range (wall (wc_expires_at c))"
  using assms by (auto simp: proof_window_def workload_shape_def in_range_def max_clock_skew_def
      min_claim_retention_def seconds_def)

lemma claim_Inr:
  "claim_workload_proof sha c m path body action audience transport now db = Inr (p, db') \<longleftrightarrow>
     tz now = UTC \<and> workload_shape c \<and> m = ''POST'' \<and> wc_path c = path \<and> wc_body_sha256 c = sha body \<and>
     wc_audience c = audience \<and> wc_transport c = transport \<and> p = wc_principal c \<and>
     (\<exists>role s r. expected_role audience transport = Inr role \<and> principal_scope p = Some s \<and>
       roles p = {role} \<and> allows p action \<and> proof_window c (wall now) \<and>
       in_range (wall (wc_expires_at c) + min_claim_retention) \<and>
       select_principal (subject p) s audience db = Some r \<and> active_under c role r \<and>
       (\<forall>x \<in> set (lg_claims db). lc_proof x \<noteq> wc_proof_digest c) \<and>
       db' = db\<lparr>lg_claims := lg_claims db @ [claim_of c role s (wall now)]\<rparr>)"
  (is "?lhs \<longleftrightarrow> ?rhs")
proof
  assume ?lhs
  then obtain role s where guards: "tz now = UTC" "workload_shape c" "m = ''POST''" "wc_path c = path"
      "wc_body_sha256 c = sha body" "wc_audience c = audience" "wc_transport c = transport"
      "expected_role audience transport = Inr role" "principal_scope (wc_principal c) = Some s"
      "roles (wc_principal c) = {role}" "allows (wc_principal c) action" "proof_window c (wall now)"
    and rest: "bindE (legacy_micros now) (\<lambda>claimed_us.
            bindE (plus_us (wc_expires_at c) min_claim_retention) (\<lambda>retain.
            bindE (legacy_micros retain) (\<lambda>retain_us.
            bindE (case select_principal (subject (wc_principal c)) s audience db of
                None \<Rightarrow> Inl ValueError
              | Some r \<Rightarrow> require (\<not> (lp_role r \<noteq> role \<or> lp_transport r \<noteq> transport \<or>
                  lp_revoked_at r \<noteq> None \<or> lp_generation r \<noteq> wc_generation c)) ValueError) (\<lambda>_.
            bindE (legacy_micros (wc_issued_at c)) (\<lambda>issued_us.
            bindE (legacy_micros (wc_expires_at c)) (\<lambda>expires_us.
            bindE (insert_claim \<lparr>lc_proof = wc_proof_digest c, lc_subject = subject (wc_principal c),
              lc_tenant = tenant_id s, lc_workspace = workspace_id s, lc_audience = audience,
              lc_role = role, lc_transport = transport, lc_generation = wc_generation c,
              lc_method = m, lc_path = path, lc_body_sha256 = wc_body_sha256 c,
              lc_issued_at = issued_us, lc_expires_at = expires_us, lc_claimed_at = claimed_us,
              lc_retain_until = retain_us\<rparr> db) (\<lambda>db.
            Inr (wc_principal c, db)))))))) = Inr (p, db')"
    unfolding claim_workload_proof_def Let_def except_Inr
    by (elim bindE_InrE) (auto simp: flow split: option.splits)
  have utc: "tz (wc_issued_at c) = UTC" "tz (wc_expires_at c) = UTC" "wc_method c = ''POST''"
    using guards(2) by (simp_all add: workload_shape_def)
  from rest guards show ?rhs
    by (auto simp: flow legacy_micros_utc utc insert_claim_def active_under_def claim_of_def
        same_claim_row_def split: option.splits)
next
  assume ?rhs
  then obtain role s r where a: "tz now = UTC" "workload_shape c" "m = ''POST''" "wc_path c = path"
      "wc_body_sha256 c = sha body" "wc_audience c = audience" "wc_transport c = transport" "p = wc_principal c"
      "expected_role audience transport = Inr role" "principal_scope p = Some s" "roles p = {role}"
      "allows p action" "proof_window c (wall now)"
      "in_range (wall (wc_expires_at c) + min_claim_retention)"
      "select_principal (subject p) s audience db = Some r" "active_under c role r"
      "\<forall>x \<in> set (lg_claims db). lc_proof x \<noteq> wc_proof_digest c"
      "db' = db\<lparr>lg_claims := lg_claims db @ [claim_of c role s (wall now)]\<rparr>" by blast
  note t = proof_times [OF a(13,2,14)]
  have utc: "tz (wc_issued_at c) = UTC" "tz (wc_expires_at c) = UTC" "wc_method c = ''POST''"
    "canonical_path (wc_path c)"
    using a(2) by (simp_all add: workload_shape_def)
  have "list_ex (\<lambda>r. lp_subject r = subject p \<and> lp_tenant r = tenant_id s \<and>
       lp_workspace r = workspace_id s \<and> lp_audience r = audience) (lg_principals db)"
    using find_SomeD [OF a(15) [unfolded select_principal_def]]
    by (auto simp: list_ex_iff principal_matches_def)
  then have ins: "insert_claim (claim_of c role s (wall now)) db = Inr db'"
    using a(6,8,17,18) by (auto simp: insert_claim_def claim_of_def flow same_claim_row_def)
  show ?lhs
    using a t utc ins
    by (auto simp: claim_workload_proof_def Let_def flow legacy_micros_utc active_under_def
        claim_of_def)
qed

text \<open>C39: A proof is claimed exactly when the clock is in UTC, the method is \<open>POST\<close>, the context has the exact
  shape and is bound to this path, body, audience and transport, the audience and the transport call for the one role
  that the principal holds in its tenant and workspace, this role allows the action, the window of the proof is open,
  the retention of the claim ends within the calendar, the stored row of the principal has this role
  and transport and the generation of the proof and is not revoked, and no claim has its digest. Then exactly one claim is added and the principal of the context is
  returned; otherwise the call raises the one rejection. The generation, revocation and replay decisions that
  the provider put into the context do not matter.\<close>

theorem claim_is_exact:
  "(claim_workload_proof sha c m path body action audience transport now db = Inr (p, db') \<longleftrightarrow>
     tz now = UTC \<and> workload_shape c \<and> m = ''POST'' \<and> wc_path c = path \<and> wc_body_sha256 c = sha body \<and>
     wc_audience c = audience \<and> wc_transport c = transport \<and> p = wc_principal c \<and>
     (\<exists>role s r. expected_role audience transport = Inr role \<and> principal_scope p = Some s \<and>
       roles p = {role} \<and> allows p action \<and> proof_window c (wall now) \<and>
       in_range (wall (wc_expires_at c) + min_claim_retention) \<and>
       select_principal (subject p) s audience db = Some r \<and> active_under c role r \<and>
       (\<forall>x \<in> set (lg_claims db). lc_proof x \<noteq> wc_proof_digest c) \<and>
       db' = db\<lparr>lg_claims := lg_claims db @ [claim_of c role s (wall now)]\<rparr>)) \<and>
   (\<forall>e. claim_workload_proof sha c m path body action audience transport now db = Inl e \<longrightarrow>
     e = LegacySessionSecurityRejectedError)"
proof (intro conjI allI impI)
  show "e = LegacySessionSecurityRejectedError"
    if "claim_workload_proof sha c m path body action audience transport now db = Inl e" for e
    using that by (auto simp: claim_workload_proof_def except_Inl)
qed (rule claim_Inr)

lemma session_calls_frame:
  "create_session load digest_of v days s owner actor role rd now eid db = Inr (x, db') \<Longrightarrow>
     lg_principals db' = lg_principals db \<and> lg_claims db' = lg_claims db"
  "mark_uploaded load sha i k s owner expected actor role rd now eid db = Inr (y, db') \<Longrightarrow>
     lg_principals db' = lg_principals db \<and> lg_claims db' = lg_claims db"
  "complete_processing load dump i c s expected w role rd now eid db = Inr (x, db') \<Longrightarrow>
     lg_principals db' = lg_principals db \<and> lg_claims db' = lg_claims db"
proof -
  show "lg_principals db' = lg_principals db \<and> lg_claims db' = lg_claims db"
    if c: "create_session load digest_of v days s owner actor role rd now eid db = Inr (x, db')"
  proof -
    obtain a digest n u where "create_body load v s owner a role digest eid n u db = Inr (x, db')"
      using create_session_Inr [OF c] by blast
    from create_body_Inr [OF this] show ?thesis by auto
  qed
  show "lg_principals db' = lg_principals db \<and> lg_claims db' = lg_claims db"
    if "mark_uploaded load sha i k s owner expected actor role rd now eid db = Inr (y, db')"
    using that unfolding mark_uploaded_def Let_def
    by (elim bindE_InrE)
      (auto simp: bindE_Inr update_sessions_Inr dest!: append_session_event_Inr split: option.splits if_splits)
  show "lg_principals db' = lg_principals db \<and> lg_claims db' = lg_claims db"
    if "complete_processing load dump i c s expected w role rd now eid db = Inr (x, db')"
    using that unfolding complete_processing_def Let_def
    by (elim bindE_InrE)
      (auto simp: bindE_Inr update_sessions_Inr dest!: append_session_event_Inr split: option.splits if_splits)
qed

lemma claims_only_grow: "legacy_step load dump db db' \<Longrightarrow> prefix (lg_claims db) (lg_claims db')"
  by (cases rule: legacy_step.cases)
    (auto simp: transaction_def claim_Inr split: sum.splits
      dest: session_calls_frame principal_calls_untouched)

interpretation claims: append_only_log "legacy_step load dump" lg_claims
  for load :: "string \<Rightarrow> 'r option" and dump
  by unfold_locales (rule claims_only_grow)

lemma rejected_unless_claimed:
  assumes "\<And>p db'. claim_workload_proof sha c m path body action audience transport now db \<noteq> Inr (p, db')"
  shows "claim_workload_proof sha c m path body action audience transport now db =
    Inl LegacySessionSecurityRejectedError"
proof (cases "claim_workload_proof sha c m path body action audience transport now db")
  case (Inl e)
  then show ?thesis by (auto simp: claim_workload_proof_def except_Inl)
next
  case (Inr x)
  with assms show ?thesis by (metis surj_pair)
qed

text \<open>C40: A proof is accepted at most once: after a claim of a proof was accepted, every later claim with the
  same proof digest is rejected, whatever its context says and whatever was called since.\<close>

theorem proof_is_claimed_at_most_once:
  assumes "claim_workload_proof sha c m path body action audience transport now db = Inr (p, db1)"
    and "(legacy_step load dump)\<^sup>*\<^sup>* db1 db2" and "wc_proof_digest c' = wc_proof_digest c"
  shows "claim_workload_proof sha' c' m' path' body' action' audience' transport' now' db2 =
    Inl LegacySessionSecurityRejectedError"
proof -
  obtain role s where "db1 = db\<lparr>lg_claims := lg_claims db @ [claim_of c role s (wall now)]\<rparr>"
    using assms(1) unfolding claim_Inr by blast
  then have "claim_of c role s (wall now) \<in> set (lg_claims db1)" by simp
  then have "claim_of c role s (wall now) \<in> set (lg_claims db2)"
    using claims.entry_survives [OF assms(2)] by blast
  moreover have "lc_proof (claim_of c role s (wall now)) = wc_proof_digest c'"
    by (simp add: claim_of_def assms(3))
  ultimately show ?thesis by (intro rejected_unless_claimed) (auto simp: claim_Inr)
qed

definition principal_later :: "principal_row \<Rightarrow> principal_row \<Rightarrow> bool" where
  "principal_later r r' =
     (lp_subject r' = lp_subject r \<and> lp_tenant r' = lp_tenant r \<and> lp_workspace r' = lp_workspace r \<and>
      lp_audience r' = lp_audience r \<and> lp_role r' = lp_role r \<and> lp_transport r' = lp_transport r \<and>
      lp_generation r \<le> lp_generation r' \<and> (lp_revoked_at r \<noteq> None \<longrightarrow> r' = r))"

lemma principal_later_refl [simp]: "principal_later r r"
  by (simp add: principal_later_def)

lemma principal_later_trans: "principal_later a b \<Longrightarrow> principal_later b c \<Longrightarrow> principal_later a c"
  by (auto simp: principal_later_def)

text \<open>The row of a principal through every call: found at the same key, and only ever later.\<close>

lemma principal_key_of: "principal_matches subj s audience r \<Longrightarrow> principal_later r r' \<Longrightarrow> principal_matches subj s audience r'"
  by (simp add: principal_matches_def principal_later_def)

lemma find_update_later:
  assumes "find (principal_matches subj s audience) t = Some r"
    and "\<And>x. x \<in> set t \<Longrightarrow> P x \<Longrightarrow> principal_later x (f x)"
  shows "\<exists>r'. find (principal_matches subj s audience) (update_where P f t) = Some r' \<and> principal_later r r'"
  using assms
proof (induction t)
  case (Cons x t)
  let ?x = "if P x then f x else x"
  have later: "principal_later x ?x" using Cons.prems(2) by simp
  then have same: "principal_matches subj s audience ?x = principal_matches subj s audience x"
    by (auto simp: principal_matches_def principal_later_def)
  show ?case
  proof (cases "principal_matches subj s audience x")
    case True
    with same later Cons.prems(1) show ?thesis by (auto simp: update_where_def)
  next
    case False
    with Cons.prems(1) have "find (principal_matches subj s audience) t = Some r" by simp
    from Cons.IH [OF this] Cons.prems(2) obtain r' where
      "find (principal_matches subj s audience) (update_where P f t) = Some r'" "principal_later r r'" by auto
    with False same show ?thesis by (auto simp: update_where_def)
  qed
qed simp

lemma update_principal_Inr:
  "update_principal subj s audience expected f db = Inr (v, db') \<Longrightarrow>
   db' = db\<lparr>lg_principals := update_where (\<lambda>r. principal_matches subj s audience r \<and> lp_version r = expected \<and>
      lp_revoked_at r = None) f (lg_principals db)\<rparr> \<and>
   count_where (\<lambda>r. principal_matches subj s audience r \<and> lp_version r = expected \<and>
      lp_revoked_at r = None) (lg_principals db) = 1 \<and>
   stored_principal subj s audience db' = Inr v"
  by (auto simp: update_principal_def Let_def flow)

definition principal_keys_distinct :: "legacy_db \<Rightarrow> bool" where
  "principal_keys_distinct db =
     distinct (map (\<lambda>r. (lp_subject r, lp_tenant r, lp_workspace r, lp_audience r)) (lg_principals db))"

lemma register_principal_Inr:
  assumes "register_workload_principal subj s audience role transport generation now db = Inr (v, db')"
  obtains row where "db' = db\<lparr>lg_principals := lg_principals db @ [row]\<rparr>"
    and "\<forall>x \<in> set (lg_principals db). \<not> same_principal_row row x"
  using assms unfolding register_workload_principal_def Let_def
  by (elim bindE_InrE) (auto simp: flow)

lemma rotate_generation_Inr:
  assumes "rotate_generation subj s audience expected g now db = Inr (v, db')"
  obtains r us where "select_principal subj s audience db = Some r" and "lp_revoked_at r = None"
    and "lp_generation r < g"
    and "db' = db\<lparr>lg_principals := update_where (\<lambda>r. principal_matches subj s audience r \<and>
      lp_version r = expected \<and> lp_revoked_at r = None)
      (\<lambda>r. r\<lparr>lp_generation := g, lp_version := expected + 1, lp_updated_at := us\<rparr>) (lg_principals db)\<rparr>"
    and "lp_version r = expected"
  using assms unfolding rotate_generation_def
  by (elim bindE_InrE) (auto simp: flow split: option.splits dest!: update_principal_Inr)

lemma revoke_Inr:
  assumes "revoke_workload_principal subj s audience expected now db = Inr (v, db')"
  obtains r us where "select_principal subj s audience db = Some r" and "lp_revoked_at r = None"
    and "db' = db\<lparr>lg_principals := update_where (\<lambda>r. principal_matches subj s audience r \<and>
      lp_version r = expected \<and> lp_revoked_at r = None)
      (\<lambda>r. r\<lparr>lp_revoked_at := Some us, lp_version := expected + 1, lp_updated_at := us\<rparr>) (lg_principals db)\<rparr>"
    and "lp_version r = expected"
  using assms unfolding revoke_workload_principal_def
  by (elim bindE_InrE) (auto simp: flow split: option.splits dest!: update_principal_Inr)

text \<open>The guarded update reaches the selected row and no other, since keys are unique.\<close>

lemma guarded_rows:
  assumes "principal_keys_distinct db" and "select_principal subj s audience db = Some r"
    and "x \<in> set (lg_principals db)" and "principal_matches subj s audience x"
  shows "x = r"
proof -
  have r: "r \<in> set (lg_principals db)" "principal_matches subj s audience r"
    using find_SomeD [OF assms(2) [unfolded select_principal_def]] by simp_all
  show ?thesis
    using key_inj [OF assms(1) [unfolded principal_keys_distinct_def] assms(3) r(1)] assms(4) r(2)
    by (simp add: principal_matches_def)
qed

lemma step_principals:
  assumes "legacy_step load dump db db'" and "principal_keys_distinct db"
  shows "principal_keys_distinct db' \<and> (\<forall>subj s audience r. select_principal subj s audience db = Some r \<longrightarrow>
    (\<exists>r'. select_principal subj s audience db' = Some r' \<and> principal_later r r'))"
proof -
  let ?goal = "\<lambda>db'. principal_keys_distinct db' \<and> (\<forall>subj s audience r. select_principal subj s audience db = Some r \<longrightarrow>
    (\<exists>r'. select_principal subj s audience db' = Some r' \<and> principal_later r r'))"
  have same: "?goal db'" if "lg_principals db' = lg_principals db"
    using that assms(2) by (auto simp: principal_keys_distinct_def select_principal_def)
  have idle: "?goal db" using same assms(2) by (auto simp: select_principal_def)
  have update: "?goal (db\<lparr>lg_principals := update_where P f (lg_principals db)\<rparr>)"
    if "\<And>x. x \<in> set (lg_principals db) \<Longrightarrow> P x \<Longrightarrow> principal_later x (f x)" for P f
  proof -
    have "map (\<lambda>r. (lp_subject r, lp_tenant r, lp_workspace r, lp_audience r)) (update_where P f (lg_principals db)) =
        map (\<lambda>r. (lp_subject r, lp_tenant r, lp_workspace r, lp_audience r)) (lg_principals db)"
      using that by (auto simp: update_where_def principal_later_def)
    then show ?thesis
      using assms(2) find_update_later [OF _ that] by (simp add: principal_keys_distinct_def select_principal_def)
  qed
  from assms(1) show ?thesis
  proof cases
    case (register_principal_step subj s audience r transport generation now)
    show ?thesis
    proof (cases "register_workload_principal subj s audience r transport generation now db")
      case (Inl e)
      with register_principal_step idle show ?thesis by (simp add: transaction_def)
    next
      case (Inr v)
      then obtain v' where "register_workload_principal subj s audience r transport generation now db = Inr (v', db')"
        using register_principal_step by (cases v) (simp add: transaction_def)
      then obtain row where db': "db' = db\<lparr>lg_principals := lg_principals db @ [row]\<rparr>"
        and new: "\<forall>x \<in> set (lg_principals db). \<not> same_principal_row row x"
        by (rule register_principal_Inr)
      have "principal_keys_distinct db'"
        using assms(2) new by (auto simp: principal_keys_distinct_def db' same_principal_row_def)
      then show ?thesis by (auto simp: db' select_principal_def find_append)
    qed
  next
    case (rotate_generation_step subj s audience expected g now)
    show ?thesis
    proof (cases "rotate_generation subj s audience expected g now db")
      case (Inl e)
      with rotate_generation_step idle show ?thesis by (simp add: transaction_def)
    next
      case (Inr v)
      then obtain v' where v: "rotate_generation subj s audience expected g now db = Inr (v', db')"
        using rotate_generation_step by (cases v) (simp add: transaction_def)
      from v show ?thesis
      proof (rule rotate_generation_Inr)
        fix r us assume r: "select_principal subj s audience db = Some r" "lp_revoked_at r = None" "lp_generation r < g"
          and db': "db' = db\<lparr>lg_principals := update_where (\<lambda>r. principal_matches subj s audience r \<and>
            lp_version r = expected \<and> lp_revoked_at r = None)
            (\<lambda>r. r\<lparr>lp_generation := g, lp_version := expected + 1, lp_updated_at := us\<rparr>) (lg_principals db)\<rparr>"
        show ?thesis
          unfolding db' by (rule update) (use guarded_rows [OF assms(2) r(1)] r in \<open>auto simp: principal_later_def\<close>)
      qed
    qed
  next
    case (revoke_principal_step subj s audience expected now)
    show ?thesis
    proof (cases "revoke_workload_principal subj s audience expected now db")
      case (Inl e)
      with revoke_principal_step idle show ?thesis by (simp add: transaction_def)
    next
      case (Inr v)
      then obtain v' where v: "revoke_workload_principal subj s audience expected now db = Inr (v', db')"
        using revoke_principal_step by (cases v) (simp add: transaction_def)
      from v show ?thesis
      proof (rule revoke_Inr)
        fix r us assume r: "select_principal subj s audience db = Some r" "lp_revoked_at r = None"
          and db': "db' = db\<lparr>lg_principals := update_where (\<lambda>r. principal_matches subj s audience r \<and>
            lp_version r = expected \<and> lp_revoked_at r = None)
            (\<lambda>r. r\<lparr>lp_revoked_at := Some us, lp_version := expected + 1, lp_updated_at := us\<rparr>) (lg_principals db)\<rparr>"
        show ?thesis
          unfolding db' by (rule update) (simp add: principal_later_def)
      qed
    qed
  qed (use same idle in \<open>auto simp: transaction_def split: sum.splits
      dest: session_calls_frame claim_untouched\<close>)
qed

lemma steps_principals:
  assumes "(legacy_step load dump)\<^sup>*\<^sup>* db db'" and "principal_keys_distinct db"
    and "select_principal subj s audience db = Some r"
  shows "principal_keys_distinct db' \<and> (\<exists>r'. select_principal subj s audience db' = Some r' \<and> principal_later r r')"
  using assms(1)
proof (induction rule: rtranclp_induct)
  case base
  with assms(2,3) show ?case by auto
next
  case (step y z)
  then show ?case using step_principals [OF step(2)] principal_later_trans by blast
qed

lemma reachable_keys: "(legacy_step load dump)\<^sup>*\<^sup>* empty_legacy db \<Longrightarrow> principal_keys_distinct db"
proof (induction rule: rtranclp_induct)
  case base
  show ?case by (simp add: principal_keys_distinct_def empty_legacy_def)
next
  case (step y z)
  then show ?case using step_principals by blast
qed

text \<open>The row that a rotation or a revocation leaves.\<close>

lemma selected_update:
  assumes "principal_keys_distinct db" and "select_principal subj s audience db = Some r"
    and "P r" and "\<And>x. x \<in> set (lg_principals db) \<Longrightarrow> P x \<Longrightarrow> principal_matches subj s audience x"
    and "principal_matches subj s audience (f r)"
  shows "select_principal subj s audience (db\<lparr>lg_principals := update_where P f (lg_principals db)\<rparr>) = Some (f r)"
  unfolding select_principal_def
proof (rule find_only)
  have r: "r \<in> set (lg_principals db)" "principal_matches subj s audience r"
    using find_SomeD [OF assms(2) [unfolded select_principal_def]] by simp_all
  note same = guarded_rows [OF assms(1,2)]
  show "f r \<in> set (lg_principals (db\<lparr>lg_principals := update_where P f (lg_principals db)\<rparr>))"
    using r assms(3) by (auto simp: set_update_where)
  show "x = f r" if "x \<in> set (lg_principals (db\<lparr>lg_principals := update_where P f (lg_principals db)\<rparr>))"
    "principal_matches subj s audience x" for x
    using that same assms(3,4) by (auto simp: set_update_where split: if_splits)
qed (rule assms(5))

text \<open>Rotating a principal to a generation ends all proofs of earlier generations, and revoking it ends all
  proofs: whatever is called afterwards, no claim under that principal, scope and audience is accepted again.\<close>

theorem ended_proofs_are_rejected:
  assumes "(legacy_step load dump)\<^sup>*\<^sup>* empty_legacy db"
    and "(\<exists>v. rotate_generation subj s audience expected g now db = Inr (v, db1)) \<and> wc_generation c < g \<or>
      (\<exists>v. revoke_workload_principal subj s audience expected now db = Inr (v, db1))"
    and "(legacy_step load dump)\<^sup>*\<^sup>* db1 db2"
    and "subject (wc_principal c) = subj" and "principal_scope (wc_principal c) = Some s"
  shows "claim_workload_proof sha c m path body action audience transport now' db2 =
    Inl LegacySessionSecurityRejectedError"
proof -
  have d: "principal_keys_distinct db" using reachable_keys [OF assms(1)] .
  obtain r1 where d1: "principal_keys_distinct db1" and r1: "select_principal subj s audience db1 = Some r1"
    and ended: "wc_generation c < lp_generation r1 \<or> lp_revoked_at r1 \<noteq> None"
  proof -
    from assms(2) show thesis
    proof (elim disjE conjE exE)
      fix v assume g: "wc_generation c < g" and v: "rotate_generation subj s audience expected g now db = Inr (v, db1)"
      have "legacy_step load dump db db1"
        by (rule rotate_generation_step [where subj = subj and s = s and audience = audience and version = expected
              and generation = g and now = now]) (simp add: v transaction_def)
      then have d1: "principal_keys_distinct db1" using step_principals d by blast
      from v show thesis
      proof (rule rotate_generation_Inr)
        fix r us assume r: "select_principal subj s audience db = Some r" "lp_revoked_at r = None" "lp_version r = expected"
          and db1: "db1 = db\<lparr>lg_principals := update_where (\<lambda>r. principal_matches subj s audience r \<and>
            lp_version r = expected \<and> lp_revoked_at r = None)
            (\<lambda>r. r\<lparr>lp_generation := g, lp_version := expected + 1, lp_updated_at := us\<rparr>) (lg_principals db)\<rparr>"
        have "principal_matches subj s audience r"
          using find_SomeD [OF r(1) [unfolded select_principal_def]] by simp
        then have "select_principal subj s audience db1 =
            Some (r\<lparr>lp_generation := g, lp_version := expected + 1, lp_updated_at := us\<rparr>)"
          unfolding db1 by (intro selected_update [OF d r(1)]) (use r in \<open>auto simp: principal_matches_def\<close>)
        with that [OF d1] g show thesis by simp
      qed
    next
      fix v assume v: "revoke_workload_principal subj s audience expected now db = Inr (v, db1)"
      have "legacy_step load dump db db1"
        by (rule revoke_principal_step [where subj = subj and s = s and audience = audience and version = expected
              and now = now]) (simp add: v transaction_def)
      then have d1: "principal_keys_distinct db1" using step_principals d by blast
      from v show thesis
      proof (rule revoke_Inr)
        fix r us assume r: "select_principal subj s audience db = Some r" "lp_revoked_at r = None" "lp_version r = expected"
          and db1: "db1 = db\<lparr>lg_principals := update_where (\<lambda>r. principal_matches subj s audience r \<and>
            lp_version r = expected \<and> lp_revoked_at r = None)
            (\<lambda>r. r\<lparr>lp_revoked_at := Some us, lp_version := expected + 1, lp_updated_at := us\<rparr>) (lg_principals db)\<rparr>"
        have "principal_matches subj s audience r"
          using find_SomeD [OF r(1) [unfolded select_principal_def]] by simp
        then have "select_principal subj s audience db1 =
            Some (r\<lparr>lp_revoked_at := Some us, lp_version := expected + 1, lp_updated_at := us\<rparr>)"
          unfolding db1 by (intro selected_update [OF d r(1)]) (use r in \<open>auto simp: principal_matches_def\<close>)
        with that [OF d1] show thesis by simp
      qed
    qed
  qed
  from steps_principals [OF assms(3) d1 r1] obtain r2 where
    r2: "select_principal subj s audience db2 = Some r2" "principal_later r1 r2" by blast
  then have "wc_generation c < lp_generation r2 \<or> lp_revoked_at r2 \<noteq> None"
    using ended by (auto simp: principal_later_def)
  with r2(1) assms(4,5) show ?thesis
    by (intro rejected_unless_claimed) (auto simp: claim_Inr active_under_def)
qed

end
