(* ===== verification/Legacy_Witnesses.thy ===== *)
theory Legacy_Witnesses
  imports Legacy_Properties Proof_Claims
begin

text \<open>One session through its life and one workload principal, and the properties at them.\<close>

definition legacy_scope :: scope where
  "legacy_scope = \<lparr>tenant_id = ''tenant_a'', workspace_id = ''workspace_a''\<rparr>"

definition other_scope :: scope where
  "other_scope = \<lparr>tenant_id = ''tenant_b'', workspace_id = ''workspace_a''\<rparr>"

definition hex64 :: string where
  "hex64 = replicate 64 CHR ''a''"

definition sample_create :: session_create where
  "sample_create =
     \<lparr>sn_session_id = ''session'', sn_machine_id = ''machine-1'', sn_project_id = None,
      sn_started_at = utc 0, sn_ended_at = utc 5, sn_active_seconds = 5, sn_process = ''acad'',
      sn_package_sha256 = hex64, sn_size_bytes = 1\<rparr>"

definition sample_completion :: "string completion_request" where
  "sample_completion =
     \<lparr>pc_session_id = ''session'', pc_result = ''result'',
      pc_output_object_key = ''sessions/session/timeline.json'', pc_idempotency_key = hex64\<rparr>"

definition call_create :: "legacy_db \<Rightarrow> exn + string session_record \<times> legacy_db" where
  "call_create = create_session Some (\<lambda>_. hex64) sample_create 30 legacy_scope ''uploader'' None
     (role_value CaptureUploader) None (utc 10) ''e1''"

definition call_upload :: "legacy_db \<Rightarrow> exn + (string session_record \<times> bool) \<times> legacy_db" where
  "call_upload = mark_uploaded Some (\<lambda>_. hex64) ''session'' ''raw/session'' legacy_scope ''uploader''
     None None (role_value CaptureUploader) None (utc 20) ''e2''"

definition call_complete :: "string \<Rightarrow> int \<Rightarrow> legacy_db \<Rightarrow> exn + string session_record \<times> legacy_db" where
  "call_complete eid t = complete_processing Some id ''session'' sample_completion legacy_scope None
     ''worker'' (role_value DeterministicWorker) None (utc t) eid"

definition db_created :: legacy_db where
  "db_created = snd (transaction call_create empty_legacy)"

definition db_uploaded :: legacy_db where
  "db_uploaded = snd (transaction call_upload db_created)"

definition db_completed :: legacy_db where
  "db_completed = snd (transaction (call_complete ''e3'' 30) db_uploaded)"

lemma sample_calls_return:
  "returns (call_create empty_legacy)" "returns (call_upload db_created)"
  "returns (call_complete ''e3'' 30 db_uploaded)"
  by code_simp+

lemma returned_step: "returns (f db) \<Longrightarrow> \<exists>v. f db = Inr (v, snd (transaction f db))"
  by (cases "f db") (auto simp: transaction_def)

lemma sample_results:
  obtains v1 v2 v3 where "call_create empty_legacy = Inr (v1, db_created)"
    and "call_upload db_created = Inr (v2, db_uploaded)"
    and "call_complete ''e3'' 30 db_uploaded = Inr (v3, db_completed)"
  using returned_step [of call_create empty_legacy, OF sample_calls_return(1)] returned_step [of call_upload db_created, OF sample_calls_return(2)]
    returned_step [of "call_complete ''e3'' 30" db_uploaded, OF sample_calls_return(3)]
  by (auto simp: db_created_def db_uploaded_def db_completed_def)

abbreviation sample_steps :: "legacy_db \<Rightarrow> legacy_db \<Rightarrow> bool" where
  "sample_steps \<equiv> (legacy_step Some id)\<^sup>*\<^sup>*"

lemma sample_reachable:
  "sample_steps empty_legacy db_created" "sample_steps db_created db_uploaded"
  "sample_steps empty_legacy db_uploaded" "sample_steps empty_legacy db_completed"
proof -
  have 1: "legacy_step Some id empty_legacy db_created"
    unfolding db_created_def call_create_def by (rule create_step) (rule refl)
  have 2: "legacy_step Some id db_created db_uploaded"
    unfolding db_uploaded_def call_upload_def by (rule upload_step) (rule refl)
  have 3: "legacy_step Some id db_uploaded db_completed"
    unfolding db_completed_def call_complete_def by (rule complete_step) (rule refl)
  show "sample_steps empty_legacy db_created" "sample_steps db_created db_uploaded"
    "sample_steps empty_legacy db_uploaded" "sample_steps empty_legacy db_completed"
    using 1 2 3 by (meson r_into_rtranclp rtranclp.rtrancl_into_rtrancl)+
qed

lemma sample_rows:
  "list_ex (\<lambda>r. lr_session_id r = ''session'' \<and> lr_version r = 3) (lg_sessions db_completed)"
  "list_ex (\<lambda>r. lr_session_id r = ''session'' \<and> \<not> session_matches ''session'' other_scope None r) (lg_sessions db_created)"
  by code_simp+

theorem session_history_is_lifecycle_witness:
  "map signature (filter (\<lambda>e. lv_session_id e = ''session'') (lg_events db_completed)) = lifecycle"
proof -
  obtain r where r: "r \<in> set (lg_sessions db_completed)" "lr_session_id r = ''session''" "lr_version r = 3"
    using sample_rows(1) by (auto simp: list_ex_iff)
  from session_history_is_lifecycle [OF sample_reachable(4) r(1)] show ?thesis
    by (simp add: r(2,3) lifecycle_def)
qed

theorem completion_retry_is_idempotent_witness:
  "\<exists>v. call_complete ''e3'' 30 db_uploaded = Inr (v, db_completed) \<and>
     call_complete ''e3'' 99 db_completed = Inr (v, db_completed)"
proof -
  obtain v where v: "call_complete ''e3'' 30 db_uploaded = Inr (v, db_completed)" by (rule sample_results)
  from completion_retry_is_idempotent [OF sample_reachable(3) v [unfolded call_complete_def] rtranclp.rtrancl_refl]
  have "call_complete ''e3'' 99 db_completed = Inr (v, db_completed)" by (simp add: call_complete_def)
  with v show ?thesis by blast
qed

theorem capture_authority_is_fixed_witness:
  "resolve_capture_authority ''session'' legacy_scope db_uploaded = Inr (''session'', legacy_scope, ''uploader'') \<and>
   resolve_capture_authority ''session'' other_scope db_uploaded = Inl SessionNotFoundError"
proof -
  obtain v where v: "call_create empty_legacy = Inr (v, db_created)" by (rule sample_results)
  note fixed = capture_authority_is_fixed [OF rtranclp.rtrancl_refl v [unfolded call_create_def] sample_reachable(2)]
  have "capture_owner_pattern ''uploader''" "other_scope \<noteq> legacy_scope" "sn_session_id sample_create = ''session''"
    by (code_simp, simp_all add: other_scope_def legacy_scope_def sample_create_def)
  with fixed [of other_scope] show ?thesis by simp
qed

theorem foreign_session_is_invisible_witness:
  "get_session Some ''session'' other_scope None db_created =
     get_session Some ''session'' other_scope None (without_session ''session'' db_created) \<and>
   returns (get_session Some ''session'' legacy_scope None db_created)"
proof -
  obtain r where r: "r \<in> set (lg_sessions db_created)" "lr_session_id r = ''session''"
    "\<not> session_matches ''session'' other_scope None r"
    using sample_rows(2) by (auto simp: list_ex_iff)
  have "returns (get_session Some ''session'' legacy_scope None db_created)" by code_simp
  with foreign_session_is_invisible [OF sample_reachable(1) r] show ?thesis by blast
qed

section \<open>A proof\<close>

definition worker_principal :: principal where
  "worker_principal = \<lparr>subject = ''worker'', roles = {DeterministicWorker}, principal_scope = Some legacy_scope\<rparr>"

definition sample_proof :: workload_context where
  "sample_proof =
     \<lparr>wc_principal = worker_principal, wc_audience = ProcessingCompletion, wc_transport = WorkerWorkload,
      wc_method = ''POST'', wc_path = ''/v1/internal/sessions/ab/processing-complete'',
      wc_body_sha256 = hex64, wc_proof_digest = hex64, wc_issued_at = utc 0, wc_expires_at = utc 100,
      wc_generation = 1, wc_active_generation = 7, wc_revoked = True, wc_replay = ReplayReject\<rparr>"

definition call_register :: "legacy_db \<Rightarrow> exn + principal_state \<times> legacy_db" where
  "call_register = register_workload_principal ''worker'' legacy_scope ProcessingCompletion DeterministicWorker
     WorkerWorkload 1 (utc 0)"

definition call_claim :: "string \<Rightarrow> legacy_db \<Rightarrow> exn + principal \<times> legacy_db" where
  "call_claim m = claim_workload_proof (\<lambda>_. hex64) sample_proof m (wc_path sample_proof) []
     SessionProcessingComplete ProcessingCompletion WorkerWorkload (utc 50)"

definition call_rotate :: "legacy_db \<Rightarrow> exn + principal_state \<times> legacy_db" where
  "call_rotate = rotate_generation ''worker'' legacy_scope ProcessingCompletion 1 2 (utc 60)"

definition db_principal :: legacy_db where
  "db_principal = snd (transaction call_register empty_legacy)"

definition db_claimed :: legacy_db where
  "db_claimed = snd (transaction (call_claim ''POST'') db_principal)"

definition db_rotated :: legacy_db where
  "db_rotated = snd (transaction call_rotate db_principal)"

lemma sample_proof_calls:
  "returns (call_register empty_legacy)" "returns (call_claim ''POST'' db_principal)" "returns (call_rotate db_principal)"
  "\<not> returns (call_claim ''PUT'' db_principal)"
  by code_simp+

lemma principal_reachable: "sample_steps empty_legacy db_principal"
  unfolding db_principal_def call_register_def
  by (rule r_into_rtranclp, rule register_principal_step) (rule refl)

theorem proof_is_claimed_at_most_once_witness:
  "\<exists>p. call_claim ''POST'' db_principal = Inr (p, db_claimed) \<and>
     call_claim ''POST'' db_claimed = Inl LegacySessionSecurityRejectedError"
proof -
  obtain p where p: "call_claim ''POST'' db_principal = Inr (p, db_claimed)"
    using returned_step [of "call_claim ''POST''" db_principal, OF sample_proof_calls(2)] by (auto simp: db_claimed_def)
  have "(legacy_step Some id)\<^sup>*\<^sup>* db_claimed db_claimed" by (rule rtranclp.rtrancl_refl)
  from proof_is_claimed_at_most_once [OF p [unfolded call_claim_def] this refl]
  show ?thesis using p by (simp add: call_claim_def)
qed

theorem ended_proofs_are_rejected_witness:
  "returns (call_claim ''POST'' db_principal) \<and>
   call_claim ''POST'' db_rotated = Inl LegacySessionSecurityRejectedError"
proof -
  obtain v where v: "call_rotate db_principal = Inr (v, db_rotated)"
    using returned_step [of call_rotate db_principal, OF sample_proof_calls(3)] by (auto simp: db_rotated_def)
  have g: "wc_generation sample_proof < 2" "subject (wc_principal sample_proof) = ''worker''"
    "principal_scope (wc_principal sample_proof) = Some legacy_scope"
    by (simp_all add: sample_proof_def worker_principal_def)
  have "(\<exists>v. rotate_generation ''worker'' legacy_scope ProcessingCompletion 1 2 (utc 60) db_principal = Inr (v, db_rotated)) \<and>
      wc_generation sample_proof < 2 \<or>
    (\<exists>v. revoke_workload_principal ''worker'' legacy_scope ProcessingCompletion 1 (utc 60) db_principal = Inr (v, db_rotated))"
    using v g(1) by (auto simp: call_rotate_def)
  from ended_proofs_are_rejected [OF principal_reachable this rtranclp.rtrancl_refl g(2,3)]
  have "call_claim ''POST'' db_rotated = Inl LegacySessionSecurityRejectedError" by (simp add: call_claim_def)
  with sample_proof_calls(2) show ?thesis by blast
qed

theorem claim_is_exact_witness:
  "call_claim ''PUT'' db_principal = Inl LegacySessionSecurityRejectedError"
proof -
  obtain e where e: "call_claim ''PUT'' db_principal = Inl e"
    using sample_proof_calls(4) by (auto simp: returns_def split: sum.splits)
  with claim_is_exact [THEN conjunct2, rule_format, OF e [unfolded call_claim_def]] show ?thesis by simp
qed

end
