(* ===== verification/Publication_Properties.thy ===== *)
theory Publication_Properties
  imports Publication_Replay
begin

text \<open>
  The properties of the candidate publication store, each over the states the two writers reach
  from an empty table, and of the derivation of a candidate from its evidence.
\<close>

text \<open>C12: Every publication is backed by admitted evidence. In every reachable table each row
  passes the table's checks, its stored evidence was admitted and its columns are the ones that
  \<open>_prepare_publication\<close> derives from it, a finalized row holds exactly the derived candidate
  bytes, and no two rows of a scope share a key or a job.\<close>

theorem publications_are_backed:
  assumes "(store_step sha c)\<^sup>*\<^sup>* [] db"
  shows "(\<forall>r \<in> set db. publication_check r \<and>
      (\<exists>ev p. prepare_publication sha c ev = Inr p \<and> carries sha p r)) \<and>
    sorted_wrt (\<lambda>a b. \<not> same_publication a b) db"
  using reachable_ok [OF assms] by (simp add: publications_ok_def backed_def)

text \<open>C13: Finalized publications are immutable and epochs fence. Whatever writers do after a
  reachable state, every row stays in its place with its identity columns; a finalized row does
  not change at all; the epoch of a reservation never falls, and another owner holds it only
  under a later epoch.\<close>

theorem publication_rows_only_advance:
  assumes "(store_step sha c)\<^sup>*\<^sup>* [] db" and "(store_step sha c)\<^sup>*\<^sup>* db db'" and "i < length db"
  shows "i < length db' \<and> same_identity (db ! i) (db' ! i) \<and>
    (pb_state (db ! i) = Finalized \<longrightarrow> db' ! i = db ! i) \<and>
    pb_reservation_epoch (db ! i) \<le> pb_reservation_epoch (db' ! i) \<and>
    (pb_reservation_owner_id (db' ! i) \<noteq> pb_reservation_owner_id (db ! i) \<longrightarrow>
       pb_reservation_epoch (db ! i) < pb_reservation_epoch (db' ! i))"
  using steps_rows [OF reachable_ok [OF assms(1)] assms(2)] assms(3)
  by (simp add: row_history_def order.strict_trans2)

text \<open>C14: A finalization writes only under the current fence. When \<open>finalize\<close> changes a reachable
  table, it returns the record of one row, which was reserved by the given owner under the given
  epoch with its lease still running; the bytes are the candidate bytes that the stored evidence
  derives, with the stored digest; that row becomes final with them, and no other row changes.\<close>

theorem finalize_needs_the_fence:
  assumes "(store_step sha c)\<^sup>*\<^sup>* [] db" and "finalize sha c s a now seen db = (res, db')" and "db' \<noteq> db"
  shows "\<exists>q i e p. finalize_request_of s a now = Inr q \<and> i < length db \<and>
    has_key s (fr_key q) (db ! i) \<and> pb_state (db ! i) = Reserved \<and>
    pb_reservation_owner_id (db ! i) = fr_owner q \<and> pb_reservation_epoch (db ! i) = fr_epoch q \<and>
    pb_reservation_expires_at_us (db ! i) = Some e \<and> fr_now q < e \<and>
    verified_stored_evidence sha c (db ! i) = Inr p \<and> fr_bytes q = pp_candidate_bytes p \<and>
    sha (fr_bytes q) = pb_full_sha256 (db ! i) \<and>
    db' = db[i := finalized_row q (db ! i)] \<and>
    res = Inr (record_from_row True (finalized_row q (db ! i)))"
proof -
  from assms(2,3) obtain q where q: "finalize_request_of s a now = Inr q"
    "transaction (finalize_write sha c s q) db = (res, db')"
    by (auto simp: finalize_def split: sum.splits option.splits)
  with assms(3) obtain rec where w: "finalize_write sha c s q db = Inr (rec, db')" "res = Inr rec"
    by (auto simp: transaction_def split: sum.splits)
  from finalize_write_row [OF reachable_ok [OF assms(1)] w(1) assms(3)] q w(2) show ?thesis
    by blast
qed

text \<open>C16: A publication that was finalized reads back. After a successful \<open>finalize\<close> of a
  reachable table, and after any later steps, \<open>get_finalized\<close> returns the same record,
  \<open>read_finalized_bytes\<close> the bytes that were given, whose digest is the record's, and the same
  finalization returns the record again and changes nothing.\<close>

theorem finalized_publication_reads_back:
  assumes "(store_step sha c)\<^sup>*\<^sup>* [] db" and "finalize_request_of s a now = Inr q"
    and "finalize sha c s a now db db = (Inr rec, db')" and "(store_step sha c)\<^sup>*\<^sup>* db' db''"
  shows "get_finalized sha c s (fr_key q) db'' = Inr rec \<and>
    read_finalized_bytes sha c s (fr_key q) db'' = Inr (fr_bytes q) \<and>
    sha (fr_bytes q) = pb_full_sha256 rec \<and>
    finalize sha c s a now db'' db'' = (Inr rec, db'')"
proof -
  have step: "store_step sha c db db'"
    using store_step.finalize [of sha c db s a now db] assms(3) by simp
  have ok': "publications_ok sha c db'"
    using reachable_ok rtranclp.rtrancl_into_rtrancl [OF assms(1) step] by blast
  obtain row where row: "select_publication s (fr_key q) db' = Some row"
    "pb_canonical_bytes row = Some (fr_bytes q)" "verified_record_from_row sha c row = Inr rec"
    using finalize_Inr [OF assms(2,3)] by blast
  note fin = verified_record_Inr [OF row(3)]
  then have row'': "select_publication s (fr_key q) db'' = Some row"
    using finalized_row_stays [OF ok' assms(4) row(1)] by blast
  have get: "get_finalized sha c s (fr_key q) db'' = Inr rec"
    using row'' row(3) fin finalize_request_valid [OF assms(2)] by (simp add: get_finalized_def)
  have "finalize_check sha c s q db'' = Inr (Some rec)"
    using row'' row fin by (simp add: finalize_check_def)
  then show ?thesis
    using get row fin assms(2) by (simp add: read_finalized_bytes_def finalize_def)
qed

text \<open>C17: Discovery terminates. On every reachable table, for every scope, review database, limit
  and cursor, the paged scan of \<open>list_finalized_unreviewed\<close> returns: with an error of its
  arguments or with a list.\<close>

theorem discovery_terminates:
  assumes "(store_step sha c)\<^sup>*\<^sup>* [] db"
  shows "\<exists>r. list_finalized_unreviewed sha c s authority limit cu db = Some r"
proof -
  have "1 \<le> limit \<Longrightarrow> length ([] :: publication_metadata list) < nat limit" by simp
  then show ?thesis
    using scan_is_unpaged [OF reachable_ok [OF assms]]
    by (auto simp: list_finalized_unreviewed_def require_limit_def flow split: sum.splits)
qed

text \<open>C18: Paging loses and repeats nothing. On every reachable table the paged scan returns what one
  pass would: the metadata of the finalized rows of the scope behind the cursor that verify and
  are unreviewed, in the order of time and key, up to the limit.\<close>

theorem paged_discovery_is_one_pass:
  assumes "(store_step sha c)\<^sup>*\<^sup>* [] db" and "validate_scope s = Inr ()" and "1 \<le> limit" and "limit \<le> 100"
    and "coerce_cursor cu = Inr start"
  shows "list_finalized_unreviewed sha c s authority limit cu db =
    Some (Inr (unpaged_discovery sha c s authority (nat limit) start db))"
proof -
  have "length ([] :: publication_metadata list) < nat limit" using assms(3) by simp
  from scan_is_unpaged [OF reachable_ok [OF assms(1)] this] assms(2-5) show ?thesis
    by (simp add: list_finalized_unreviewed_def checked_scope_def require_limit_def
        unpaged_discovery_def)
qed

text \<open>C19: A published candidate is grounded and unapproved. When evidence is admitted, the actions of
  the candidate are, in order, the events of the recorded timeline of the result: each is one CAD
  command with exactly one operation segment, all on one drawing, two to sixty-four of them; and
  the candidate carries no approval.\<close>

theorem published_candidate_is_grounded:
  assumes "prepare_publication sha c ev = Inr p"
  shows "\<exists>env result drawing occ. normalize_envelope ev = Inr env \<and>
    result_v2_validate c (get_null env ''result'') = Inr result \<and>
    2 \<le> length occ \<and> length occ \<le> 64 \<and>
    list_all2 (grounded result drawing) (rv_timeline result) occ \<and>
    jget (pp_candidate p) ''ordered_actions'' =
      Some (JArr (map (\<lambda>(i, x). action_json (Suc i) x) (zip [0..<length occ] occ))) \<and>
    jget (pp_candidate p) ''approval_status'' = Some (JStr ''unreviewed'') \<and>
    jget (pp_candidate p) ''human_approval_evidence'' = Some JNull"
proof -
  obtain env ad where p: "normalize_envelope ev = Inr env" "admit_evidence sha c env = Inr ad"
    "pp_candidate p = build_candidate ad" using assms by (rule prepare_Inr)
  obtain result n where r: "result_v2_validate c (get_null env ''result'') = Inr result"
    "derive_occurrences result = Inr (ad_occurrences ad, ad_drawing_ref ad, n)"
    using p(2) by (rule admit_Inr)
  with derive_occurrences_grounded [OF r(2)] p show ?thesis
    by (intro exI [of _ env] exI [of _ result] exI [of _ "ad_drawing_ref ad"]
        exI [of _ "ad_occurrences ad"]) (simp add: build_candidate_def jget_def Let_def)
qed

text \<open>Worker and API agree on identities. For every job both compute the same payload digest or
  both refuse it; and for a valid job the manifest that the worker builds verifies, on the worker's
  side to the same preimage and on the API's side to the worker's own result digest.\<close>

theorem worker_and_api_agree_on_identities:
  assumes "reads_canonical c" and "job_v2_ok job"
    and "build_result_manifest sha c job bs = Inr m" and "result_digest sha c job bs = Inr h"
  shows "api_payload_digest sha c any_job = worker_payload_digest sha c any_job \<and>
    verify_result_manifest_preimage sha c job m = canonical_result_preimage sha c job bs \<and>
    verify_result_manifest sha c job m = Inr h"
proof -
  have m: "build_manifest sha c job bs = Inr m" using assms(3) by (simp add: build_result_manifest_def flow)
  then obtain pre where pre: "canonical_preimage m = Inr pre" "h = sha pre"
    using assms(4) by (auto simp: result_digest_def canonical_result_preimage_def flow)
  show ?thesis
    using api_accepts_worker_manifest [OF assms(1,2) m pre(1)] pre m built_manifest_snapshots [OF m]
    by (simp add: verify_result_manifest_preimage_def canonical_result_preimage_def
        api_payload_digest_def worker_payload_digest_def api_payload_preimage_def
        worker_payload_preimage_def admissions_agree)
qed

text \<open>The review ledger accepts what is published. With digests of 64 hex digits, the review
  target of a publication is a candidate target of the review ledger, for its job and the digest
  of its content.\<close>

theorem published_target_is_reviewable:
  assumes "prepare_publication sha c ev = Inr p" and "\<And>x. sha256_pattern (sha x)"
  shows "is_candidate_review_target (pp_review_target_id p) \<and>
    parse_candidate_target (pp_review_target_id p) = Some (pp_job_id p, pp_content_sha256 p)"
proof -
  have t: "pp_review_target_id p = ''candidate-skill:1.0:'' @ pp_job_id p @ '':sha256:'' @ pp_content_sha256 p"
    and s: "pp_content_sha256 p = sha (pp_content_bytes p)"
    and k: "candidate_publication_key (pp_job_id p) = Inr (pp_publication_key p)"
    using assms(1) by (rule prepare_Inr, simp)+
  from k have job: "uuid_pattern (pp_job_id p)"
    by (auto simp: candidate_publication_key_def flow dest: canonical_uuid_Inr)
  then have "length (pp_job_id p) = 36" by (simp add: uuid_pattern_def)
  moreover have content: "sha256_pattern (pp_content_sha256 p)" using assms(2) s by simp
  then have "length (pp_content_sha256 p) = 64" by (simp add: sha256_pattern_def)
  ultimately have "parse_candidate_target (pp_review_target_id p) = Some (pp_job_id p, pp_content_sha256 p)"
    using job content by (simp add: t parse_candidate_target_def Let_def slice_def startswith_def
        candidate_prefix_def)
  then show ?thesis by (simp add: is_candidate_review_target_def)
qed

text \<open>The call of \<open>finalize\<close> that the holder of a record makes.\<close>

definition finalize_call :: "publication_record \<Rightarrow> string \<Rightarrow> finalize_args" where
  "finalize_call rec b =
     \<lparr>fa_publication_key = pb_publication_key rec,
      fa_reservation_owner_id = Some (pb_reservation_owner_id rec), fa_owner_id = None,
      fa_reservation_epoch = Some (pb_reservation_epoch rec), fa_fencing_epoch = None,
      fa_canonical_bytes = Some b, fa_candidate_bytes = None\<rparr>"

text \<open>C15: A reservation can be finalized. Whoever reserved a reachable store with admitted evidence and
  holds a reservation that is not yet final can, until it runs out, finalize it with the candidate
  bytes that the evidence derives, and gets the final record with exactly these bytes.\<close>

theorem reserved_publication_can_be_finalized:
  assumes "(store_step sha c)\<^sup>*\<^sup>* [] db" and "scalar_coercions c" and "reserve_evidence a = Inr ev"
    and "distinct_keys ev" and "prepare_publication sha c ev = Inr p"
    and "reserve sha c s a now db = (Inr rec, db')" and "pb_state rec = Reserved"
    and "pb_reservation_expires_at_us rec = Some e" and "pb_updated_at_us rec \<le> later" and "later < e"
  shows "\<exists>rec' db''. finalize sha c s (finalize_call rec (pp_candidate_bytes p)) later db' db' = (Inr rec', db'') \<and>
    pb_state rec' = Finalized \<and> pb_canonical_bytes rec' = Some (pp_candidate_bytes p)"
proof -
  obtain r where scope: "valid_scope s" and r: "select_publication s (pp_publication_key p) db' = Some r"
    "rec = record_from_row False r" "carries sha p r" "owner_pattern (pb_reservation_owner_id r)"
    using reserve_live [OF assms(6,7,3,5)] by blast
  have ok: "publications_ok sha c db'"
    using store_step.reserve [of sha c db s a now] assms(6) reachable_ok rtranclp.rtrancl_into_rtrancl [OF assms(1)]
    by (metis snd_conv)
  have check: "publication_check r"
    using ok select_publication_Some [OF r(1)] by (simp add: publications_ok_def)
  define q where "q = \<lparr>fr_key = pp_publication_key p, fr_owner = pb_reservation_owner_id r,
    fr_epoch = pb_reservation_epoch r, fr_bytes = pp_candidate_bytes p, fr_now = later\<rparr>"
  have live: "pb_state r = Reserved" "pb_reservation_expires_at_us r = Some e" "pb_updated_at_us r \<le> later"
    using assms(7-9) by (simp_all add: r(2))
  have now: "is_i64 later"
    using check live assms(10) by (auto simp: publication_check_def is_i64_def)
  have request: "finalize_request_of s (finalize_call rec (pp_candidate_bytes p)) later = Inr q"
    using scope r(3,4) check now prepare_key [OF assms(5)] prepared_identity [OF assms(5)]
    by (simp add: finalize_request_of_def finalize_call_def q_def r(2) checked_scope_def or_alias_def
        require_publication_key_def require_owner_def require_positive_epoch_def resolve_now_def
        require_def carries_def publication_check_def)
  have "select_publication s (fr_key q) db' = Some r" using r(1) by (simp add: q_def)
  from live_row_finalizes [OF ok this assms(2,4,5) r(3), of e] live assms(10) now obtain db'' where
    "finalize_check sha c s q db' = Inr None"
    "finalize_write sha c s q db' = Inr (record_from_row True (finalized_row q r), db'')"
    by (auto simp: q_def)
  then show ?thesis
    using request by (auto simp: finalize_def transaction_def finalized_row_def q_def)
qed

end
