(* ===== verification/Publication_Service.thy ===== *)
theory Publication_Service
  imports Publication_Replay
begin

text \<open>
  \<open>CandidatePublicationService.publish\<close> of \<open>candidate_publication_service.py\<close>: one complete piece of
  evidence is prepared, reserved and finalized in one call, and only metadata leaves the service.
  The two store calls are separate transactions; what other writers make of the table in between,
  before each of the two reads of \<open>finalize\<close>, is the argument \<open>others\<close>. \<open>now\<close> is resolved by each
  store call, so there are two times. The result is its JSON dump.
\<close>

section \<open>Requests\<close>

record publication_request =
  pq_scope :: scope
  pq_job :: job_v2
  pq_result :: json
  pq_result_manifest :: "(string \<times> json) list"
  pq_timeline_binding :: "(string \<times> json) list"
  pq_drawing_ref :: string
  pq_timeline_commands :: "(string \<times> json) list list"
  pq_rejected_alternative_count :: int
  pq_qualifying_run_length :: int
  pq_reservation_owner_id :: string
  pq_lease_duration_seconds :: int
  pq_envelope_version :: string

text \<open>The keyword inputs of \<open>publish\<close>; \<open>None\<close> is the marker \<open>_MISSING\<close>.\<close>

record publish_inputs =
  pi_scope :: "scope option"
  pi_job :: "job_v2 option"
  pi_result :: "json option"
  pi_result_manifest :: "(string \<times> json) list option"
  pi_timeline_binding :: "(string \<times> json) list option"
  pi_drawing_ref :: "string option"
  pi_timeline_commands :: "(string \<times> json) list list option"
  pi_rejected_alternative_count :: "int option"
  pi_qualifying_run_length :: "int option"
  pi_reservation_owner_id :: "string option"
  pi_lease_duration_seconds :: "int option"
  pi_envelope_version :: string

definition no_inputs :: "publish_inputs \<Rightarrow> bool" where
  "no_inputs i \<longleftrightarrow>
     pi_scope i = None \<and> pi_job i = None \<and> pi_result i = None \<and> pi_result_manifest i = None \<and>
     pi_timeline_binding i = None \<and> pi_drawing_ref i = None \<and> pi_timeline_commands i = None \<and>
     pi_rejected_alternative_count i = None \<and> pi_qualifying_run_length i = None \<and>
     pi_reservation_owner_id i = None \<and> pi_lease_duration_seconds i = None"

definition complete_inputs :: "publish_inputs \<Rightarrow> bool" where
  "complete_inputs i \<longleftrightarrow>
     pi_scope i \<noteq> None \<and> pi_job i \<noteq> None \<and> pi_result i \<noteq> None \<and> pi_result_manifest i \<noteq> None \<and>
     pi_timeline_binding i \<noteq> None \<and> pi_drawing_ref i \<noteq> None \<and> pi_timeline_commands i \<noteq> None \<and>
     pi_rejected_alternative_count i \<noteq> None \<and> pi_qualifying_run_length i \<noteq> None \<and>
     pi_reservation_owner_id i \<noteq> None \<and> pi_lease_duration_seconds i \<noteq> None"

definition assembled_request :: "publish_inputs \<Rightarrow> publication_request" where
  "assembled_request i =
     \<lparr>pq_scope = the (pi_scope i), pq_job = the (pi_job i), pq_result = the (pi_result i),
      pq_result_manifest = the (pi_result_manifest i),
      pq_timeline_binding = the (pi_timeline_binding i), pq_drawing_ref = the (pi_drawing_ref i),
      pq_timeline_commands = the (pi_timeline_commands i),
      pq_rejected_alternative_count = the (pi_rejected_alternative_count i),
      pq_qualifying_run_length = the (pi_qualifying_run_length i),
      pq_reservation_owner_id = the (pi_reservation_owner_id i),
      pq_lease_duration_seconds = the (pi_lease_duration_seconds i),
      pq_envelope_version = pi_envelope_version i\<rparr>"

definition publish_request_of :: "publication_request option \<Rightarrow> publish_inputs \<Rightarrow> exn + publication_request" where
  "publish_request_of r i =
     (case r of
        None \<Rightarrow> if complete_inputs i then Inr (assembled_request i) else Inl invalid
      | Some q \<Rightarrow> if no_inputs i then Inr q else Inl invalid)"

text \<open>\<open>_evidence_envelope\<close>; its checks of types have no counterpart.\<close>

definition evidence_envelope :: "publication_request \<Rightarrow> json" where
  "evidence_envelope q = JObj
     [(''envelope_version'', JStr (pq_envelope_version q)), (''job'', job_v2_dump (pq_job q)),
      (''result'', pq_result q), (''result_manifest'', JObj (pq_result_manifest q)),
      (''timeline_binding'', JObj (pq_timeline_binding q)),
      (''drawing_ref'', JStr (pq_drawing_ref q)),
      (''occurrences'', JArr (map JObj (pq_timeline_commands q))),
      (''rejected_alternative_count'', JInt (pq_rejected_alternative_count q)),
      (''qualifying_run_length'', JInt (pq_qualifying_run_length q))]"

definition canonical_candidate_publication_bytes ::
  "(string \<Rightarrow> string) \<Rightarrow> coercions \<Rightarrow> json \<Rightarrow> exn + string" where
  "canonical_candidate_publication_bytes sha c ev =
     bindE (prepare_publication sha c ev) (\<lambda>p. Inr (pp_candidate_bytes p))"

section \<open>Publishing\<close>

definition reserve_call :: "publication_request \<Rightarrow> reserve_args" where
  "reserve_call q =
     \<lparr>ra_derivation_evidence = Some (evidence_envelope q), ra_evidence = None, ra_parts = [],
      ra_reservation_owner_id = Some (pq_reservation_owner_id q), ra_owner_id = None,
      ra_lease_duration_seconds = Some (pq_lease_duration_seconds q), ra_lease_seconds = None\<rparr>"

definition finalize_reserved :: "publication_request \<Rightarrow> publication_record \<Rightarrow> string \<Rightarrow> finalize_args" where
  "finalize_reserved q rec b =
     \<lparr>fa_publication_key = pb_publication_key rec,
      fa_reservation_owner_id = Some (pq_reservation_owner_id q), fa_owner_id = None,
      fa_reservation_epoch = Some (pb_reservation_epoch rec), fa_fencing_epoch = None,
      fa_canonical_bytes = Some b, fa_candidate_bytes = None\<rparr>"

definition publish_request ::
  "(string \<Rightarrow> string) \<Rightarrow> coercions \<Rightarrow> publication_request \<Rightarrow> int \<Rightarrow> int \<Rightarrow>
   (publication list \<Rightarrow> publication list \<times> publication list) \<Rightarrow> publication list \<Rightarrow>
   (exn + publication_metadata) \<times> publication list" where
  "publish_request sha c q now1 now2 others db =
     (case canonical_candidate_publication_bytes sha c (evidence_envelope q) of
        Inl e \<Rightarrow> (Inl e, db)
      | Inr b \<Rightarrow>
          (case reserve sha c (pq_scope q) (reserve_call q) now1 db of
             (Inl e, db1) \<Rightarrow> (Inl e, db1)
           | (Inr rec, db1) \<Rightarrow>
               if pb_state rec = Finalized then (Inr (without_bytes rec), db1)
               else
                 (case finalize sha c (pq_scope q) (finalize_reserved q rec b) now2
                     (fst (others db1)) (snd (others db1)) of
                    (Inl e, db2) \<Rightarrow> (Inl e, db2)
                  | (Inr final, db2) \<Rightarrow> (Inr (without_bytes final), db2))))"

definition publish ::
  "(string \<Rightarrow> string) \<Rightarrow> coercions \<Rightarrow> publication_request option \<Rightarrow> publish_inputs \<Rightarrow> int \<Rightarrow> int \<Rightarrow>
   (publication list \<Rightarrow> publication list \<times> publication list) \<Rightarrow> publication list \<Rightarrow>
   (exn + publication_metadata) \<times> publication list" where
  "publish sha c r i now1 now2 others db =
     (case publish_request_of r i of
        Inl e \<Rightarrow> (Inl e, db)
      | Inr q \<Rightarrow> publish_request sha c q now1 now2 others db)"

section \<open>What a publication leaves\<close>

lemma same_identity_key: "same_identity r r' \<Longrightarrow> has_key s k r' = has_key s k r"
  by (auto simp: same_identity_def has_key_def)

lemma assert_same_identity:
  "same_identity r r' \<Longrightarrow> assert_same_immutable_identity sha r' s p = assert_same_immutable_identity sha r s p"
  by (simp add: same_identity_def assert_same_immutable_identity_def)

lemma selected_row_stays:
  assumes "publications_ok sha c db" and "(store_step sha c)\<^sup>*\<^sup>* db db'" and "select_publication s k db = Some r"
  shows "\<exists>r'. select_publication s k db' = Some r' \<and> row_history r r'"
proof -
  obtain i where i: "i < length db" "db ! i = r"
    using select_publication_Some [OF assms(3)] by (auto simp: in_set_conv_nth)
  then have r: "db' ! i \<in> set db'" "row_history r (db' ! i)"
    using steps_rows [OF assms(1,2)] by (auto intro: nth_mem order.strict_trans2)
  then have key: "has_key s k (db' ! i)"
    using select_publication_Some [OF assms(3)] by (auto simp: row_history_def dest: same_identity_key)
  have ok: "publications_ok sha c db'" using assms(1,2) publication_store.steps_inv by blast
  show ?thesis
  proof (cases "select_publication s k db'")
    case None
    then show ?thesis using select_publication_None r key by blast
  next
    case (Some x)
    then show ?thesis
      using has_key_eq [of db' x "db' ! i" s k] ok r key select_publication_Some [OF Some]
      by (auto simp: publications_ok_def)
  qed
qed

text \<open>After a successful \<open>reserve\<close> the row under the key has the identity of the evidence.\<close>

lemma reserve_existing_row:
  assumes "reserve_existing sha c s p owner lease now row db = Inr (rec, db')"
    and "select_publication s (pp_publication_key p) db = Some row"
  shows "\<exists>r. select_publication s (pp_publication_key p) db' = Some r \<and> pb_state rec = pb_state r \<and>
    assert_same_immutable_identity sha r s p = Inr () \<and>
    (pb_state rec = Finalized \<longrightarrow> db' = db \<and> verified_record_from_row sha c r = Inr rec)"
proof (cases "pb_state rec")
  case Reserved
  have same: "assert_same_immutable_identity sha row s p = Inr ()"
    using assms(1) by (auto simp: reserve_existing_def flow)
  from reserve_existing_live [OF assms Reserved] obtain r where
    r: "select_publication s (pp_publication_key p) db' = Some r" "rec = record_from_row False r" by blast
  have "same_identity row r"
  proof (cases "db' = db")
    case False
    then obtain P e t n where "db' = update_where P (\<lambda>r. r\<lparr>pb_reservation_owner_id := owner,
        pb_reservation_epoch := n, pb_reservation_expires_at_us := e, pb_updated_at_us := t\<rparr>) db"
      using assms(1) unfolding reserve_existing_def
      by (auto simp: flow Let_def split: if_splits option.splits)
    with r(1) assms(2) show ?thesis
      using select_update_where [of "\<lambda>r. r\<lparr>pb_reservation_owner_id := owner,
        pb_reservation_epoch := n, pb_reservation_expires_at_us := e, pb_updated_at_us := t\<rparr>"]
      by (auto simp: same_identity_def split: if_splits)
  qed (use r assms(2) in simp)
  with r same Reserved show ?thesis using assert_same_identity by auto
next
  case Finalized
  have "pb_state row = Finalized"
  proof (rule ccontr)
    assume "pb_state row \<noteq> Finalized"
    then have "pb_state row = Reserved" by (cases "pb_state row") simp_all
    then have "pb_state rec = Reserved"
      using assms(1) unfolding reserve_existing_def
      by (auto simp: flow Let_def split: if_splits option.splits)
        (auto simp: select_update_where same_identity_def assms(2) split: if_splits)
    with Finalized show False by simp
  qed
  with assms Finalized show ?thesis
    by (auto simp: reserve_existing_def flow dest: verified_record_Inr)
qed

lemma reserve_row:
  assumes "reserve sha c s a now db = (Inr rec, db')" and "reserve_evidence a = Inr ev"
    and "prepare_publication sha c ev = Inr p"
  shows "\<exists>r. select_publication s (pp_publication_key p) db' = Some r \<and> pb_state rec = pb_state r \<and>
    assert_same_immutable_identity sha r s p = Inr () \<and>
    (pb_state rec = Finalized \<longrightarrow> db' = db \<and> verified_record_from_row sha c r = Inr rec)"
proof -
  obtain owner lease now_us where
    b: "(case select_publication s (pp_publication_key p) db of
       Some row \<Rightarrow> reserve_existing sha c s p owner lease now_us row db
     | None \<Rightarrow> reserve_new sha s p owner lease now_us db) = Inr (rec, db')"
    using assms by (auto simp: reserve_def reserve_body_def flow)
  show ?thesis
  proof (cases "select_publication s (pp_publication_key p) db")
    case None
    then have "reserve_new sha s p owner lease now_us db = Inr (rec, db')" using b by simp
    then obtain expires r where n: "db' = db @ [reserved_row sha s p owner expires now_us]"
      "select_publication s (pp_publication_key p) db' = Some r" "rec = record_from_row False r"
      by (auto simp: reserve_new_def flow split: if_splits option.splits)
    have "r = reserved_row sha s p owner expires now_us"
      using n(1,2) None by (auto simp: select_publication_def find_append split: if_splits)
    with n show ?thesis by (simp add: reserved_row_def assert_same_immutable_identity_def require_def)
  next
    case (Some row)
    then have "reserve_existing sha c s p owner lease now_us row db = Inr (rec, db')" using b by simp
    from reserve_existing_row [OF this Some] show ?thesis .
  qed
qed

text \<open>A successful \<open>finalize\<close> leaves the final row, whatever other writers do between its reads.\<close>

lemma finalize_row:
  assumes "publications_ok sha c db" and "(store_step sha c)\<^sup>*\<^sup>* db seen" and "(store_step sha c)\<^sup>*\<^sup>* seen cur"
    and "finalize sha c s a now seen cur = (Inr rec, db')"
    and "select_publication s (fa_publication_key a) db = Some r"
  shows "\<exists>row. select_publication s (fa_publication_key a) db' = Some row \<and> same_identity r row \<and>
    verified_record_from_row sha c row = Inr rec \<and> pb_canonical_bytes row = or_alias (fa_canonical_bytes a) (fa_candidate_bytes a)"
proof -
  obtain q where q: "finalize_request_of s a now = Inr q"
    using assms(4) by (auto simp: finalize_def split: sum.splits)
  then have key: "fr_key q = fa_publication_key a" and
    bytes: "or_alias (fa_canonical_bytes a) (fa_candidate_bytes a) = Some (fr_bytes q)"
    unfolding finalize_request_of_def
    by (elim bindE_InrE, auto split: option.splits)+
  have "store_step sha c cur db'"
    using store_step.finalize [of sha c cur s a now seen] assms(4) by simp
  then have steps: "(store_step sha c)\<^sup>*\<^sup>* db db'"
    using assms(2,3) by (meson rtranclp.rtrancl_into_rtrancl rtranclp_trans)
  obtain row' where row': "select_publication s (fr_key q) db' = Some row'" "same_identity r row'"
    using selected_row_stays [OF assms(1) steps assms(5)] key by (auto simp: row_history_def)
  have ok: "publications_ok sha c seen" using assms(1,2) publication_store.steps_inv by blast
  have "\<exists>row. select_publication s (fr_key q) db' = Some row \<and> pb_canonical_bytes row = Some (fr_bytes q) \<and>
    verified_record_from_row sha c row = Inr rec"
  proof (cases "finalize_check sha c s q seen")
    case (Inr checked)
    show ?thesis
    proof (cases checked)
      case None
      with Inr q assms(4) have "finalize_write sha c s q cur = Inr (rec, db')"
        by (simp add: finalize_def transaction_Inr)
      then show ?thesis by (rule finalize_write_Inr)
    next
      case (Some v)
      with Inr q assms(4) have v: "v = rec" "db' = cur" by (simp_all add: finalize_def)
      from Some Inr v(1) obtain row where row: "select_publication s (fr_key q) seen = Some row"
        "verified_record_from_row sha c row = Inr rec" "pb_canonical_bytes rec = Some (fr_bytes q)"
        by (auto simp: finalize_check_def flow split: option.splits if_splits)
      with verified_record_Inr [OF row(2)] finalized_row_stays [OF ok assms(3) row(1)] v show ?thesis
        by auto
    qed
  qed (use q assms(4) in \<open>simp add: finalize_def\<close>)
  with row' key bytes show ?thesis by auto
qed

text \<open>What \<open>publish\<close> leaves under the key of its evidence.\<close>

lemma published_row:
  assumes ok: "publications_ok sha c db"
    and others: "\<And>d. (store_step sha c)\<^sup>*\<^sup>* d (fst (others d)) \<and> (store_step sha c)\<^sup>*\<^sup>* (fst (others d)) (snd (others d))"
    and published: "publish_request sha c q now1 now2 others db = (Inr m, db')"
    and p: "prepare_publication sha c (evidence_envelope q) = Inr p"
  shows "\<exists>row rec. select_publication (pq_scope q) (pp_publication_key p) db' = Some row \<and>
    verified_record_from_row sha c row = Inr rec \<and> m = without_bytes rec \<and>
    assert_same_immutable_identity sha row (pq_scope q) p = Inr () \<and> publications_ok sha c db' \<and>
    checked_scope (pq_scope q) = Inr () \<and>
    require_owner (Some (pq_reservation_owner_id q)) = Inr (pq_reservation_owner_id q) \<and>
    require_lease_seconds (Some (pq_lease_duration_seconds q)) = Inr (pq_lease_duration_seconds q)"
proof -
  have ev: "reserve_evidence (reserve_call q) = Inr (evidence_envelope q)"
    by (simp add: reserve_evidence_def reserve_call_def or_alias_def)
  obtain rec db1 where r: "reserve sha c (pq_scope q) (reserve_call q) now1 db = (Inr rec, db1)"
    using published p by (auto simp: publish_request_def canonical_candidate_publication_bytes_def split: sum.splits prod.splits)
  have args: "checked_scope (pq_scope q) = Inr ()"
    "require_owner (Some (pq_reservation_owner_id q)) = Inr (pq_reservation_owner_id q)"
    "require_lease_seconds (Some (pq_lease_duration_seconds q)) = Inr (pq_lease_duration_seconds q)"
    using r ev p
    by (auto simp: reserve_def reserve_body_def reserve_call_def or_alias_def require_owner_def
        require_lease_seconds_def flow split: if_splits)
  have ok1: "publications_ok sha c db1"
    using store_step.reserve [of sha c db "pq_scope q" "reserve_call q" now1] r ok
    by (metis publication_store.steps_inv r_into_rtranclp snd_conv)
  obtain row1 where row1: "select_publication (pq_scope q) (pp_publication_key p) db1 = Some row1"
    "assert_same_immutable_identity sha row1 (pq_scope q) p = Inr ()"
    "pb_state rec = Finalized \<longrightarrow> db1 = db \<and> verified_record_from_row sha c row1 = Inr rec"
    using reserve_row [OF r ev p] by blast
  show ?thesis
  proof (cases "pb_state rec")
    case Finalized
    with published p r row1 have "db' = db1" "m = without_bytes rec"
      by (simp_all add: publish_request_def canonical_candidate_publication_bytes_def)
    with row1 Finalized ok1 args show ?thesis by blast
  next
    case Reserved
    let ?a = "finalize_reserved q rec (pp_candidate_bytes p)"
    obtain final where f: "finalize sha c (pq_scope q) ?a now2 (fst (others db1)) (snd (others db1)) = (Inr final, db')"
      "m = without_bytes final"
      using published p r Reserved
      by (auto simp: publish_request_def canonical_candidate_publication_bytes_def split: sum.splits prod.splits)
    have key: "fa_publication_key ?a = pp_publication_key p"
      using reserve_live [OF r Reserved ev p] by (auto simp: finalize_reserved_def carries_def)
    have ok': "publications_ok sha c db'"
      using store_step.finalize [of sha c "snd (others db1)" "pq_scope q" ?a now2 "fst (others db1)"] f(1) others [of db1] ok1
      by (metis publication_store.steps_inv r_into_rtranclp snd_conv)
    from others [of db1] obtain row where "select_publication (pq_scope q) (pp_publication_key p) db' = Some row"
      "same_identity row1 row" "verified_record_from_row sha c row = Inr final"
      using finalize_row [OF ok1 _ _ f(1)] row1(1) key by metis
    with f(2) row1(2) assert_same_identity ok' args show ?thesis by metis
  qed
qed

text \<open>The bytes of a row that verifies are the ones that its evidence derives.\<close>

lemma verified_bytes:
  assumes "verified_record_from_row sha c row = Inr rec" and "assert_same_immutable_identity sha row s p = Inr ()"
    and "scalar_coercions c" and "distinct_keys ev" and "prepare_publication sha c ev = Inr p"
  shows "pb_canonical_bytes rec = Some (pp_candidate_bytes p)"
proof -
  have jcs: "pb_derivation_evidence_jcs row = pp_evidence_bytes p"
    using assms(2) by (simp add: assert_same_immutable_identity_def flow)
  obtain p' where p': "verified_stored_evidence sha c row = Inr p'"
    "pb_canonical_bytes rec = Some (pp_candidate_bytes p')"
    using assms(1) verified_record_Inr [OF assms(1)]
    by (auto simp: verified_record_from_row_def Let_def flow corrupt_def split: option.splits)
  obtain t v where "utf8_decode (pp_evidence_bytes p) = Some t" "loads t = Inr v"
    "prepare_publication sha c v = Inr p"
    using prepare_replays [OF assms(3-5)] by blast
  then have "p' = p"
    using p'(1) by (auto simp: verified_stored_evidence_def jcs flow corrupt_def)
  with p'(2) show ?thesis by simp
qed

text \<open>C21: Publishing is durable and idempotent. After \<open>publish\<close> returned on a reachable table,
  whatever other writers do between its store calls and afterwards, the publication of the evidence
  stays readable with exactly the candidate bytes that the evidence derives and the metadata that
  was returned; and publishing the same request again returns the same metadata and writes nothing.\<close>

theorem publishing_is_idempotent:
  assumes "(store_step sha c)\<^sup>*\<^sup>* [] db"
    and "\<And>d. (store_step sha c)\<^sup>*\<^sup>* d (fst (others d)) \<and> (store_step sha c)\<^sup>*\<^sup>* (fst (others d)) (snd (others d))"
    and "publish_request sha c q now1 now2 others db = (Inr m, db')"
    and "(store_step sha c)\<^sup>*\<^sup>* db' db''" and "is_i64 later"
    and "scalar_coercions c" and "distinct_keys (evidence_envelope q)"
  shows "publish_request sha c q later now3 others' db'' = (Inr m, db'') \<and>
    (\<exists>b. canonical_candidate_publication_bytes sha c (evidence_envelope q) = Inr b \<and>
       read_finalized_bytes sha c (pq_scope q) (pm_publication_key m) db'' = Inr b) \<and>
    (\<exists>rec. get_finalized sha c (pq_scope q) (pm_publication_key m) db'' = Inr rec \<and> without_bytes rec = m)"
proof -
  obtain p where p: "prepare_publication sha c (evidence_envelope q) = Inr p"
    using assms(3) by (auto simp: publish_request_def canonical_candidate_publication_bytes_def flow split: sum.splits)
  obtain row rec where row: "select_publication (pq_scope q) (pp_publication_key p) db' = Some row"
    "verified_record_from_row sha c row = Inr rec" "m = without_bytes rec"
    "assert_same_immutable_identity sha row (pq_scope q) p = Inr ()" "publications_ok sha c db'"
    "checked_scope (pq_scope q) = Inr ()"
    "require_owner (Some (pq_reservation_owner_id q)) = Inr (pq_reservation_owner_id q)"
    "require_lease_seconds (Some (pq_lease_duration_seconds q)) = Inr (pq_lease_duration_seconds q)"
    using published_row [OF reachable_ok [OF assms(1)] assms(2,3) p] by blast
  note rec = verified_record_Inr [OF row(2)]
  have row'': "select_publication (pq_scope q) (pp_publication_key p) db'' = Some row"
    using finalized_row_stays [OF row(5) assms(4) row(1)] rec by blast
  have key: "pm_publication_key m = pp_publication_key p"
    using row(3,4) rec by (auto simp: without_bytes_def assert_same_immutable_identity_def flow)
  have bytes: "pb_canonical_bytes rec = Some (pp_candidate_bytes p)"
    by (rule verified_bytes [OF row(2,4) assms(6,7) p])
  have "reserve sha c (pq_scope q) (reserve_call q) later db'' = (Inr rec, db'')"
    using row row'' rec p assms(5)
    by (simp add: reserve_def transaction_def reserve_body_def reserve_evidence_def reserve_call_def
        or_alias_def resolve_now_def reserve_existing_def)
  then have "publish_request sha c q later now3 others' db'' = (Inr m, db'')"
    using p rec row(3) by (simp add: publish_request_def canonical_candidate_publication_bytes_def)
  moreover have get: "get_finalized sha c (pq_scope q) (pm_publication_key m) db'' = Inr rec"
    using row(2,6) row'' rec prepare_key [OF p] unfolding key
    by (simp add: get_finalized_def require_publication_key_def require_def)
  ultimately show ?thesis
    using bytes p row(3) by (simp add: read_finalized_bytes_def canonical_candidate_publication_bytes_def)
qed

end
