(* ===== verification/Publication_Witnesses.thy ===== *)
theory Publication_Witnesses
  imports Publication_Properties Publication_Samples Publication_Service
begin

text \<open>Each property of the candidate publication store at the sample publication.\<close>

abbreviation demo_store :: "publication list \<Rightarrow> publication list \<Rightarrow> bool" where
  "demo_store \<equiv> store_step const_sha plain_coercions"

definition demo_finalize :: finalize_args where
  "demo_finalize =
     \<lparr>fa_publication_key = pb_publication_key demo_row, fa_reservation_owner_id = Some ''owner-1'',
      fa_owner_id = None, fa_reservation_epoch = Some 1, fa_fencing_epoch = None,
      fa_canonical_bytes = Some demo_bytes, fa_candidate_bytes = None\<rparr>"

definition demo_request :: finalize_request where
  "demo_request =
     \<lparr>fr_key = pb_publication_key demo_row, fr_owner = ''owner-1'', fr_epoch = 1,
      fr_bytes = demo_bytes, fr_now = 5\<rparr>"

definition demo_final :: publication where
  "demo_final = finalized_row demo_request demo_row"

lemma demo_row_fields [simp]:
  "pb_state demo_row = Reserved" "pb_reservation_owner_id demo_row = ''owner-1''"
  "pb_reservation_epoch demo_row = 1" "pb_reservation_expires_at_us demo_row = Some 10000000"
  "pb_updated_at_us demo_row = 0" "pb_tenant_id demo_row = ''tenant''"
  "pb_workspace_id demo_row = ''workspace''" "pb_canonical_bytes demo_row = None"
  "pb_reserved_at_us demo_row = 0"
  by (simp_all add: demo_row_def reserved_row_def demo_scope_def)

lemma demo_request_fields [simp]:
  "fr_key demo_request = pb_publication_key demo_row" "fr_owner demo_request = ''owner-1''"
  "fr_epoch demo_request = 1" "fr_bytes demo_request = demo_bytes" "fr_now demo_request = 5"
  by (simp_all add: demo_request_def)

lemma demo_steps: "demo_store\<^sup>*\<^sup>* [] [demo_row]"
  using store_step.reserve [of const_sha plain_coercions "[]" demo_scope demo_reserve 0]
  by (simp add: demo_reserved r_into_rtranclp)

lemma demo_carries: "carries const_sha demo_prepared demo_row"
  by (simp add: carries_def demo_row_def reserved_row_def)

lemma demo_select: "select_publication demo_scope (pb_publication_key demo_row) [demo_row] = Some demo_row"
  by (simp add: select_publication_def has_key_def demo_scope_def)

lemma demo_bytes_cap: "require_byte_cap demo_bytes = Inr ()"
  using demo_canonical [OF demo_distinct(2) demo_weights(2)] by (simp add: demo_bytes_def)

lemma demo_is_request: "finalize_request_of demo_scope demo_finalize 5 = Inr demo_request"
proof -
  have "checked_scope demo_scope = Inr ()" "require_owner (Some ''owner-1'') = Inr ''owner-1''"
    "require_positive_epoch (Some 1) = Inr 1" "resolve_now 5 = Inr 5"
    "publication_key_pattern (''candidate-publication:1.0:'' @ uuid_of CHR ''1'')"
    by code_simp+
  then show ?thesis
    by (simp add: finalize_request_of_def demo_finalize_def or_alias_def demo_bytes_cap demo_request_def
        require_publication_key_def require_def demo_row_def reserved_row_def demo_prepared_def)
qed

lemma demo_finalized:
  "finalize const_sha plain_coercions demo_scope demo_finalize 5 [demo_row] [demo_row] =
     (Inr (record_from_row True demo_final), [demo_final])"
proof -
  have ok: "publications_ok const_sha plain_coercions [demo_row]"
    by (rule reachable_ok [OF demo_steps])
  have sel: "select_publication demo_scope (fr_key demo_request) [demo_row] = Some demo_row"
    using demo_select by simp
  have fr: "fr_bytes demo_request = pp_candidate_bytes demo_prepared"
    by (simp add: demo_prepared_def)
  obtain db' where w:
    "finalize_check const_sha plain_coercions demo_scope demo_request [demo_row] = Inr None"
    "finalize_write const_sha plain_coercions demo_scope demo_request [demo_row] =
       Inr (record_from_row True demo_final, db')"
    using live_row_finalizes [OF ok sel plain_coercions_laws(2) demo_distinct(4) demo_is_prepared
        demo_carries fr, of 10000000]
    by (auto simp: demo_final_def is_i64_def min_signed_64_def max_signed_64_def)
  then have "db' = [demo_final]"
    using demo_select
    by (auto simp: finalize_write_def require_def update_publications_def update_where_def
        has_key_def demo_scope_def demo_final_def flow split: option.splits if_splits)
  with w show ?thesis
    by (simp add: finalize_def demo_is_request transaction_def)
qed

lemma demo_final_step: "demo_store\<^sup>*\<^sup>* [demo_row] [demo_final]"
  using store_step.finalize [of const_sha plain_coercions "[demo_row]" demo_scope demo_finalize 5 "[demo_row]"]
  by (simp add: demo_finalized r_into_rtranclp)

lemma demo_final_steps: "demo_store\<^sup>*\<^sup>* [] [demo_final]"
  using demo_steps demo_final_step by (rule rtranclp_trans)

lemma demo_not_final: "[demo_final] \<noteq> [demo_row]"
proof -
  have "pb_state demo_final = Finalized" by (simp add: demo_final_def finalized_row_def)
  then show ?thesis by auto
qed

theorem publications_are_backed_witness:
  "publication_check demo_final \<and>
   (\<exists>ev p. prepare_publication const_sha plain_coercions ev = Inr p \<and> carries const_sha p demo_final)"
  using publications_are_backed [OF demo_final_steps] by simp

theorem publication_rows_only_advance_witness:
  "demo_store\<^sup>*\<^sup>* [demo_row] [demo_final] \<and> same_identity demo_row demo_final \<and>
   pb_reservation_epoch demo_row \<le> pb_reservation_epoch demo_final"
  using publication_rows_only_advance [OF demo_steps demo_final_step, of 0] demo_final_step by simp

theorem finalize_needs_the_fence_witness:
  "\<exists>q e. finalize_request_of demo_scope demo_finalize 5 = Inr q \<and>
     pb_reservation_owner_id demo_row = fr_owner q \<and>
     pb_reservation_expires_at_us demo_row = Some e \<and> fr_now q < e \<and>
     [demo_final] = [finalized_row q demo_row]"
  using finalize_needs_the_fence [OF demo_steps demo_finalized demo_not_final] by auto

theorem finalized_publication_reads_back_witness:
  "get_finalized const_sha plain_coercions demo_scope (pb_publication_key demo_row) [demo_final] =
     Inr (record_from_row True demo_final) \<and>
   read_finalized_bytes const_sha plain_coercions demo_scope (pb_publication_key demo_row) [demo_final] =
     Inr demo_bytes"
  using finalized_publication_reads_back [OF demo_steps demo_is_request demo_finalized rtranclp.rtrancl_refl]
  by simp

theorem discovery_terminates_witness:
  "\<exists>r. list_finalized_unreviewed const_sha plain_coercions demo_scope No_Control 10 No_Cursor [demo_final] = Some r"
  using discovery_terminates [OF demo_final_steps] .

theorem paged_discovery_is_one_pass_witness:
  "list_finalized_unreviewed const_sha plain_coercions demo_scope No_Control 10 No_Cursor [demo_final] =
     Some (Inr [without_bytes (record_from_row True demo_final)])"
proof -
  have "verified_record_from_row const_sha plain_coercions demo_final = Inr (record_from_row True demo_final)"
    unfolding demo_final_def
    by (rule finalized_row_verifies [OF plain_coercions_laws(2) demo_distinct(4) demo_is_prepared demo_carries])
      (simp add: demo_prepared_def)
  moreover have "finalized_after demo_scope None [demo_final] = [demo_final]"
    by (simp add: finalized_after_def demo_final_def finalized_row_def after_cursor_def demo_scope_def)
  ultimately have
    "unpaged_discovery const_sha plain_coercions demo_scope No_Control (nat 10) None [demo_final] =
       [without_bytes (record_from_row True demo_final)]"
    by (simp add: unpaged_discovery_def discovered_def discover_row_def
        review_is_effectively_unreviewed_def List.map_filter_def)
  moreover have "validate_scope demo_scope = Inr ()" by code_simp
  ultimately show ?thesis
    using paged_discovery_is_one_pass [OF demo_final_steps, of demo_scope 10 No_Cursor None]
    by (simp add: coerce_cursor_def)
qed

theorem published_candidate_is_grounded_witness:
  "\<exists>env result drawing occ. normalize_envelope demo_evidence = Inr env \<and>
     result_v2_validate plain_coercions (get_null env ''result'') = Inr result \<and>
     2 \<le> length occ \<and> list_all2 (grounded result drawing) (rv_timeline result) occ"
  using published_candidate_is_grounded [OF demo_is_prepared] by blast

theorem worker_and_api_agree_on_identities_witness:
  "verify_result_manifest const_sha plain_coercions demo_job
     (manifest_json demo_job demo_hash [demo_binding]) = Inr demo_hash"
proof -
  have "build_result_manifest const_sha plain_coercions demo_job [demo_output] =
      Inr (manifest_json demo_job demo_hash [demo_binding])"
    by (simp add: build_result_manifest_def demo_build)
  moreover have "result_digest const_sha plain_coercions demo_job [demo_output] = Inr demo_hash"
    using demo_preimage by (auto simp: result_digest_def canonical_result_preimage_def demo_build const_sha_def)
  ultimately show ?thesis
    using worker_and_api_agree_on_identities [OF plain_coercions_laws(1) demo_job_ok] by blast
qed

theorem published_target_is_reviewable_witness:
  "is_candidate_review_target (pp_review_target_id demo_prepared) \<and>
   parse_candidate_target (pp_review_target_id demo_prepared) = Some (uuid_of CHR ''1'', demo_hash)"
  using published_target_is_reviewable [OF demo_is_prepared demo_digest]
  by (simp add: demo_prepared_def)

theorem reserved_publication_can_be_finalized_witness:
  "\<exists>rec' db''. finalize const_sha plain_coercions demo_scope
     (finalize_call (record_from_row False demo_row) demo_bytes) 5 [demo_row] [demo_row] = (Inr rec', db'') \<and>
     pb_state rec' = Finalized \<and> pb_canonical_bytes rec' = Some demo_bytes"
proof -
  have "reserve_evidence demo_reserve = Inr demo_evidence"
    by (simp add: reserve_evidence_def demo_reserve_def or_alias_def)
  from reserved_publication_can_be_finalized [OF rtranclp.rtrancl_refl plain_coercions_laws(2) this
      demo_distinct(4) demo_is_prepared demo_reserved, of 10000000 5]
  show ?thesis by (simp add: demo_prepared_def)
qed

section \<open>Publishing in one call\<close>

definition demo_publish :: publication_request where
  "demo_publish =
     \<lparr>pq_scope = demo_scope, pq_job = demo_job, pq_result = demo_result,
      pq_result_manifest = manifest_json demo_job demo_hash [demo_binding],
      pq_timeline_binding =
        [(''store_namespace'', JStr (ob_store_namespace demo_output)),
         (''artifact_ref'', artifact_ref_dump (ob_artifact_ref demo_output))],
      pq_drawing_ref = ''d.dwg'',
      pq_timeline_commands =
        [[(''event_id'', JStr (uuid_of CHR ''3'')), (''command_name'', JStr ''LINE''), (''segment_sequence'', JInt 1)],
         [(''event_id'', JStr (uuid_of CHR ''4'')), (''command_name'', JStr ''ARC''), (''segment_sequence'', JInt 2)]],
      pq_rejected_alternative_count = 0, pq_qualifying_run_length = 2,
      pq_reservation_owner_id = ''owner-1'', pq_lease_duration_seconds = 10,
      pq_envelope_version = ''1.0''\<rparr>"

lemma demo_publish_envelope: "evidence_envelope demo_publish = JObj demo_stored"
  by (simp add: evidence_envelope_def demo_publish_def demo_stored_def demo_envelope_def
      demo_manifest_def demo_binding_def demo_occurrence_def)

lemma demo_stored_prepared: "prepare_publication const_sha plain_coercions (JObj demo_stored) = Inr demo_prepared"
proof -
  have norm: "normalize_envelope (JObj demo_stored) = Inr demo_stored"
    by (simp add: normalize_envelope_def demo_stored_def demo_envelope_def envelope_fields_def
        required_envelope_fields_def rename_manifest_def jget_def jhas_def require_def is_json_int_def Let_def)
  have get: "get_null demo_stored k = (if k = ''qualifying_run_length'' then JInt 2 else get_null demo_envelope k)" for k
    by (simp add: get_null_def demo_stored_def jget_jset)
  have n: "length (ad_occurrences demo_admitted) = 2"
    by (simp add: demo_admitted_def demo_occurrences_def)
  have adm: "admit_evidence const_sha plain_coercions demo_stored = Inr demo_admitted"
    using demo_is_admitted n
    by (auto simp: admit_evidence_def get demo_fields flow require_def demo_run
        demo_result_validates split: prod.splits)
  have same: "jset demo_stored ''qualifying_run_length'' (JInt 2) = demo_stored"
    by (rule jset_same) (simp add: demo_stored_def jget_jset)
  show ?thesis
    using demo_is_prepared
    by (simp add: prepare_publication_def demo_normalizes demo_is_admitted norm adm n same
        demo_stored_def [symmetric])
qed

lemma demo_published:
  "publish_request const_sha plain_coercions demo_publish 0 5 (\<lambda>d. (d, d)) [] =
     (Inr (without_bytes (record_from_row True demo_final)), [demo_final])"
proof -
  have "reserve const_sha plain_coercions demo_scope (reserve_call demo_publish) 0 [] =
      reserve const_sha plain_coercions demo_scope demo_reserve 0 []"
    by (simp add: reserve_def transaction_def reserve_body_def reserve_evidence_def reserve_call_def
        demo_reserve_def demo_publish_envelope demo_publish_def or_alias_def demo_is_prepared demo_stored_prepared
        demo_publish_envelope [unfolded demo_publish_def])
  moreover have "finalize_reserved demo_publish (record_from_row False demo_row) demo_bytes = demo_finalize"
    by (simp add: finalize_reserved_def demo_finalize_def demo_publish_def)
  ultimately show ?thesis
    by (simp add: publish_request_def canonical_candidate_publication_bytes_def demo_publish_envelope
        demo_stored_prepared demo_reserved demo_finalized demo_prepared_def)
      (simp add: demo_publish_def demo_reserved demo_finalized)
qed

theorem publishing_is_idempotent_witness:
  "publish_request const_sha plain_coercions demo_publish 7 8 (\<lambda>d. (d, d)) [demo_final] =
     (Inr (without_bytes (record_from_row True demo_final)), [demo_final]) \<and>
   returns (read_finalized_bytes const_sha plain_coercions demo_scope
     (pm_publication_key (without_bytes (record_from_row True demo_final))) [demo_final])"
proof -
  have "distinct_keys (evidence_envelope demo_publish)"
    using demo_distinct(1) by (simp only: demo_publish_envelope)
  moreover have "is_i64 7" by code_simp
  moreover have "pq_scope demo_publish = demo_scope" by (simp add: demo_publish_def)
  ultimately show ?thesis
    using publishing_is_idempotent [OF rtranclp.rtrancl_refl _ demo_published rtranclp.rtrancl_refl
        _ plain_coercions_laws(2), of 7 8 "\<lambda>d. (d, d)"]
    by auto
qed

end
