(* ===== verification/Spec2Isabelle.thy ===== *)
theory Spec2Isabelle
  imports Skill_Witnesses Worker_Witnesses Identity Candidate_Witnesses Retention_Properties Safety Browser_Witnesses Service_Witnesses
    Legacy_Witnesses Publication_Witnesses
begin

text \<open>
  Workflow Helper: a model of the control plane.

  The repository is an API, a deterministic worker, a capture agent and a web front end around a
  durable control plane in SQLite. The control plane carries the logic that has to be right: who
  may do what, under which scope; which worker holds a job and with which fencing token; which
  review decision a candidate has; how long a capture is retained, and who attested its deletion;
  whether an emergency stop is engaged; and the audit evidence of all of it. This development
  models these parts of the Python sources under \<open>src/apps/api/src/workflow_api\<close>, and of the worker
  (\<open>src/apps/worker/src/workflow_worker\<close>) the identities it shares with the API, the reader of an
  uploaded package and the pipeline from events to a result.

  How the parts interact. A request is authenticated (\<open>identity.py\<close>), which yields a principal with
  roles and a tenant scope (\<open>control_auth.py\<close>, \<open>control_scope.py\<close>). Every public identifier is
  qualified with the scope before it reaches a store, so the stores see keys of which no two scopes
  share one. A store operation runs in one \<open>begin immediate\<close> transaction, checks its guards, writes
  its rows, an event of an append-only log, and the audit event that the caller prepared.

  Conventions of the model.
  - A call that can raise has type \<open>exn + 'a\<close>; \<open>Inl\<close> is the exception class that reaches the caller.
    An operation on a store is a function from the database to \<open>exn + result \<times> database\<close>; the
    context manager \<open>_transaction\<close> is \<open>transaction\<close>, which drops the changes of a call that raised.
  - A database is a record with one list of rows per table, in insertion order. Unique columns are
    checked by \<open>insert_row\<close>; \<open>integer primary key autoincrement\<close> is \<open>next_sequence\<close>.
  - Clocks and the values of \<open>uuid4\<close> are arguments: \<open>now\<close> stands for the value of
    \<open>now or datetime.now(UTC)\<close>. The properties hold for every choice of them. SHA-256 is a function
    argument \<open>sha\<close>.
  - Types that Python checks at run time (\<open>type(x) is str\<close>) are types of the model; the branch that
    rejects a value of another type has no counterpart. Strings are lists of code points below 256.
    A keyword whose default is the marker \<open>_UNSET\<close> is an option. A naive datetime given to
    \<open>astimezone\<close> is read as UTC.

  Theories.
  - \<open>Prelude\<close>: exceptions and results, the fragment of \<open>str\<close>, tables and transactions, and three
    interfaces: \<open>invariant_system\<close> (steps keep an invariant), \<open>append_only_log\<close> (a log only grows)
    and \<open>row_numbering\<close> (paging by \<open>row_number()\<close>). The stores interpret them.
  - \<open>Timestamps\<close>: datetimes as microseconds, and the two conversions of the repository: through a
    binary64 float (control, retention and safety stores; rounding written out on rationals) and in
    integers (session stores). Its lemmas bound the error of the float conversion by one
    microsecond and show that it is exact between 2005-09 and 2038-01.
  - \<open>Json_Text\<close>: JSON values, \<open>json.dumps\<close> with sorted keys and compact separators, and a parser for
    \<open>json.loads\<close> with fuel (the length of the text, which is enough: parsing a printed value returns
    it, \<open>loads_dumps\<close>). \<open>Iso_Time\<close>: the civil calendar and \<open>isoformat\<close> of a UTC time, with their
    inverses.
  - \<open>Control_Scope\<close>, \<open>Control_Auth\<close>, \<open>Identity\<close>: \<open>control_scope.py\<close>, \<open>control_auth.py\<close>,
    \<open>identity.py\<close>. The qualified-key codec is injective and inverts; authentication is characterised
    on every branch and fails closed; steward roles stand alone.
  - \<open>Audit_Log\<close>: audit contexts, rows, insertion and paging (\<open>audit_schema.py\<close> constants,
    \<open>_append_audit_event\<close>, the scoped readers).
  - \<open>Control_Tables\<close>, \<open>Control_Jobs\<close>: tables of \<open>control_store.py\<close>; \<open>register_job\<close>, \<open>acquire\<close>,
    \<open>heartbeat\<close>, \<open>complete\<close>. The operations refine the relation \<open>job_effect\<close>; from it follow the
    lease history invariant, the bound on active leases, fencing, finality and progress.
  - \<open>Control_Reviews\<close>, \<open>Candidate_Reviews\<close>, \<open>Review_Ledger\<close>: the two review writers, the replay, the
    history validator and the readers; they refine \<open>review_effect\<close>, from which come the legality of
    every candidate history and the finality of decisions.
  - \<open>Candidate_Agreement\<close>: the writer of candidate events and the validator of their readers agree on
    lifecycle events, under two provisos (length of the stored key, exactness of the time) whose necessity is
    shown: without them the target is unreadable from then on.
    \<open>Candidate_Samples\<close> and \<open>Candidate_Witnesses\<close> hold the concrete requests.
  - \<open>Retention_Tables\<close>, \<open>Retention_Ledger\<close>, \<open>Retention_Properties\<close>: \<open>retention_store.py\<close>. The operations
    refine \<open>retention_effect\<close>; the rows are the fold of the immutable events, no copy is staged
    before its expiry, a hold freezes its target, completion is final.
  - \<open>Session_Security\<close>, \<open>Browser_Sessions\<close>: \<open>session_security.py\<close> and \<open>browser_session_store.py\<close>: origins,
    CSRF tokens and the gate of a request; registration, renewal, rotation and revocation of sessions.
    The calls refine abstract effects on exact states; a digest is never allocated twice, so rotation
    and revocation are final, and of several mutations of one version one succeeds.
  - \<open>Control_Service\<close>: \<open>control_service.py\<close>, the operations that the routes call: functions of both
    databases which return or raise and keep the state, since a denied call has written its evidence.
    \<open>Tenant_Isolation\<close> shows that no request changes a row of another scope, \<open>Service_Properties\<close>
    that every change leaves one audit row, that a principal without the role is refused, what a
    review capability is bound to, and that published candidate data discloses no internal key.
  - \<open>Legacy_Security\<close>, \<open>Legacy_Sessions\<close>, \<open>Workload_Proofs\<close>: \<open>legacy_session_security.py\<close> and
    \<open>legacy_session_store.py\<close>. The pydantic contract of a result is a pair of functions, \<open>dump\<close> and
    \<open>load\<close>. \<open>Legacy_Ledger\<close> shows that each call is one transition of one session,
    \<open>Legacy_Properties\<close> the histories, idempotent completion and the invisibility of other owners'
    sessions, \<open>Proof_Claims\<close> that a proof is claimed at most once and ends with its generation.
  - \<open>Safety\<close>: \<open>safety_switches.py\<close> and \<open>safety_control.py\<close>: a switch never leaves the engaged state.
  - \<open>Canonical_Bytes\<close>: UTF-8 and the restricted JSON canonicalization, and that the fuel of the reader
    always suffices. \<open>Processing_Contracts\<close>: artifact references, version 2 jobs and results of
    \<open>models.py\<close>, their admission and payload digest on the API's and on the worker's side;
    \<open>Result_Manifest\<close>: the worker's result manifest and its digest.
  - \<open>Publication_Evidence\<close>, \<open>Publication_Store\<close>, \<open>Publication_Discovery\<close>:
    \<open>candidate_publication_store.py\<close>, the derivation of a candidate from its evidence, the table with
    \<open>reserve\<close> and \<open>finalize\<close>, and the paged discovery, a loop that is a partial function until it is
    shown to return. \<open>finalize\<close> reads the table twice, so it has two databases: another writer may
    act in between. \<open>Publication_Lemmas\<close> shows that a step changes one row in one of three ways and
    keeps every row backed by admitted evidence, \<open>Publication_Scan\<close> that the paged scan is one pass,
    \<open>Publication_Derivation\<close> that a candidate is grounded in its result and that the API accepts what
    the worker builds, \<open>Publication_Replay\<close> that stored evidence derives again what was stored.
    \<open>Publication_Properties\<close> states the properties; \<open>Json_Weight\<close>, \<open>Publication_Samples\<close> and
    \<open>Publication_Witnesses\<close> hold a sample publication. \<open>Publication_Service\<close>: \<open>publish\<close> of
    \<open>candidate_publication_service.py\<close>, which reserves, finalizes and reads back, and is idempotent whatever
    others do in between.
  - \<open>Worker_Packages\<close>: \<open>handler.py\<close>, the members of an archive and the lines of its event file.
    \<open>Worker_Pipeline\<close>: \<open>pipeline.py\<close> and \<open>processing_v2.py\<close>, the timeline and the operation segments.
    \<open>Worker_Derivation\<close> writes a result as JSON. \<open>Worker_Results\<close> shows what the loops compute,
    \<open>Worker_Properties\<close> which packages are accepted, that the API reads what the worker writes, and which
    sessions become candidates; \<open>Worker_Witnesses\<close> holds a package of two commands.
  - \<open>Skill_Contract\<close>, \<open>Skill_Identity\<close>, \<open>Skill_Approval\<close>: \<open>candidate_skill_approval.py\<close> and
    \<open>candidate_skill_semantics.py\<close>: the contract of a candidate, its identity, and the functions that read its
    effective state and approve it by several calls of the control service. The \<open>k\<close>-th call has its own
    clock and identifiers and may be preceded by changes of others (\<open>world\<close>). \<open>Skill_Published\<close> shows when a
    published candidate can be reviewed, \<open>Skill_Ledger\<close> what an accepted event appends,
    \<open>Skill_Properties\<close> that the reported state is the ledger's, that claims of the producer do not count and that
    only a reviewer approves; \<open>Skill_Witnesses\<close> runs an approval of the sample publication.

  Parameters and what is relied on. \<open>sha\<close> is SHA-256, of which some properties use that it yields 64
  hex digits. The advisory lock of an approval is an argument: taken, or its error. \<open>coercions\<close> is what pydantic accepts for a field of type UUID, int or float; relied on
  are \<open>reads_canonical\<close> (a canonical UUID reads as itself) and \<open>scalar_coercions\<close> (an array or an
  object is none of the three), and, for the events of a package, \<open>reads_numbers\<close> (the number that is
  written for an offset reads as this offset). Numbers in JSON text are integers. The service has the
  two databases of \<open>in_process_runtime.py\<close>: control store and retention ledger with a file of
  their own each; both in one file, which the stores also allow, is not modelled.

  Not modelled. Connections, pragmas and file paths (I/O); SQL triggers other than as the fact that
  no operation updates or deletes an event, except those of the publication table, which are
  written out; the guards that compare the text of the SQL schema; the HTTP routes and their
  request models; the review operation of the publication service and the discovery service, which join injected
  readers; dataset approval, which checks signed records of external systems; the queue
  loop of the worker, its artifact resolver and the upload of its results, which move files; the capture
  agent (C#), the web application (TypeScript), infrastructure and scripts.
\<close>

end
